(* ===== verification/Prelude.thy ===== *)
theory Prelude
  imports Complex_Main
begin

text \<open>
  Shared vocabulary of the development.  A database table is the list of its rows in insertion
  order, and the few Prisma queries the services use are generic functions over such lists:
  findUnique and findFirst (\<^theory_text>\<open>findRow\<close>), findMany (\<^theory_text>\<open>filter\<close>), a
  guarded updateMany (\<^theory_text>\<open>updateMany\<close>, with the affected-row count
  \<^theory_text>\<open>countWhere\<close>) and a findFirst ordered by a date, newest first
  (\<^theory_text>\<open>newestWhere\<close>).  The collection \<^theory_text>\<open>table_simps\<close> holds their
  rewrite rules; \<^theory_text>\<open>db_defs\<close> the unfoldings of the repository functions of every
  component.  The theory ends with the interface of a guarded status change, the compare-and-set
  every lifecycle service of the backend relies on.
\<close>

named_theorems table_simps \<open>rewrite rules of the table queries\<close>
named_theorems db_defs \<open>definitions of the repository functions\<close>

type_synonym id = nat
type_synonym time = int

section \<open>Table queries\<close>

definition findRow :: "('r \<Rightarrow> bool) \<Rightarrow> 'r list \<Rightarrow> 'r option" where
  "findRow p rows = List.find p rows"

definition updateMany :: "('r \<Rightarrow> bool) \<Rightarrow> ('r \<Rightarrow> 'r) \<Rightarrow> 'r list \<Rightarrow> 'r list" where
  "updateMany p f rows = map (\<lambda>r. if p r then f r else r) rows"

definition countWhere :: "('r \<Rightarrow> bool) \<Rightarrow> 'r list \<Rightarrow> nat" where
  "countWhere p rows = length (filter p rows)"

fun newestOf :: "('r \<Rightarrow> time) \<Rightarrow> 'r list \<Rightarrow> 'r option" where
  "newestOf d [] = None"
| "newestOf d (r # rs) =
     (case newestOf d rs of None \<Rightarrow> Some r | Some s \<Rightarrow> if d s \<le> d r then Some r else Some s)"

definition newestWhere :: "('r \<Rightarrow> bool) \<Rightarrow> ('r \<Rightarrow> time) \<Rightarrow> 'r list \<Rightarrow> 'r option" where
  "newestWhere p d rows = newestOf d (filter p rows)"

lemma findRow_Nil [simp, table_simps]: "findRow p [] = None"
  by (simp add: findRow_def)

lemma findRow_Cons [simp, table_simps]:
  "findRow p (r # rs) = (if p r then Some r else findRow p rs)"
  by (simp add: findRow_def)

lemma findRow_SomeD: "findRow p rows = Some r \<Longrightarrow> r \<in> set rows \<and> p r"
  by (induction rows) (auto split: if_splits)

lemma findRow_in: "findRow p rows = Some r \<Longrightarrow> r \<in> set rows"
  and findRow_holds: "findRow p rows = Some r \<Longrightarrow> p r"
  by (auto dest: findRow_SomeD)

lemma findRow_None_iff: "findRow p rows = None \<longleftrightarrow> (\<forall>r\<in>set rows. \<not> p r)"
  by (induction rows) auto

lemma findRow_append:
  "findRow p (xs @ ys) = (case findRow p xs of None \<Rightarrow> findRow p ys | Some r \<Rightarrow> Some r)"
  by (induction xs) auto

lemma findRow_key:
  assumes "distinct (map k rows)" "r \<in> set rows"
  shows "findRow (\<lambda>s. k s = k r) rows = Some r"
  using assms
proof (induction rows)
  case (Cons a rows)
  show ?case
  proof (cases "k a = k r")
    case True
    then have "r = a" using Cons.prems by auto
    then show ?thesis by simp
  next
    case False
    then show ?thesis using Cons by auto
  qed
qed simp

lemma key_unique:
  assumes "distinct (map k rows)" "r \<in> set rows" "s \<in> set rows" "k r = k s"
  shows "r = s"
  using assms by (meson distinct_map inj_on_def)

lemma updateMany_Nil [simp, table_simps]: "updateMany p f [] = []"
  by (simp add: updateMany_def)

lemma updateMany_Cons [simp, table_simps]:
  "updateMany p f (r # rs) = (if p r then f r else r) # updateMany p f rs"
  by (simp add: updateMany_def)

lemma updateMany_append: "updateMany p f (xs @ ys) = updateMany p f xs @ updateMany p f ys"
  by (simp add: updateMany_def)

lemma length_updateMany [simp]: "length (updateMany p f rows) = length rows"
  by (simp add: updateMany_def)

lemma set_updateMany: "set (updateMany p f rows) = {r \<in> set rows. \<not> p r} \<union> f ` {r \<in> set rows. p r}"
  by (auto simp: updateMany_def)

lemma map_key_updateMany: "(\<And>r. k (f r) = k r) \<Longrightarrow> map k (updateMany p f rows) = map k rows"
  by (simp add: updateMany_def)

lemma updateMany_id: "(\<forall>r\<in>set rows. \<not> p r) \<Longrightarrow> updateMany p f rows = rows"
  by (induction rows) auto

lemma list_all_updateMany:
  assumes "list_all Q rows" "\<And>r. Q r \<Longrightarrow> p r \<Longrightarrow> Q (f r)"
  shows "list_all Q (updateMany p f rows)"
  using assms by (induction rows) auto

lemma ball_updateMany:
  assumes "\<forall>r\<in>set rows. Q r" "\<And>r. r \<in> set rows \<Longrightarrow> Q r \<Longrightarrow> p r \<Longrightarrow> Q (f r)"
  shows "\<forall>r\<in>set (updateMany p f rows). Q r"
  using assms by (auto simp: set_updateMany)

lemma filter_updateMany_same:
  assumes "\<And>r. p r \<Longrightarrow> Q (f r) = Q r"
  shows "map g (filter Q (updateMany p f rows)) =
         map (\<lambda>r. g (if p r then f r else r)) (filter Q rows)"
  using assms by (induction rows) auto

lemma countWhere_Nil [simp, table_simps]: "countWhere p [] = 0"
  by (simp add: countWhere_def)

lemma countWhere_Cons [simp, table_simps]:
  "countWhere p (r # rs) = (if p r then 1 else 0) + countWhere p rs"
  by (simp add: countWhere_def)

lemma countWhere_append [simp]: "countWhere p (xs @ ys) = countWhere p xs + countWhere p ys"
  by (simp add: countWhere_def)

lemma countWhere_0_iff: "countWhere p rows = 0 \<longleftrightarrow> (\<forall>r\<in>set rows. \<not> p r)"
  by (induction rows) auto

lemma countWhere_pos: "r \<in> set rows \<Longrightarrow> p r \<Longrightarrow> 0 < countWhere p rows"
  by (induction rows) auto

lemma countWhere_mono: "(\<And>r. p r \<Longrightarrow> q r) \<Longrightarrow> countWhere p rows \<le> countWhere q rows"
  by (induction rows) auto

lemma countWhere_updateMany_keep:
  assumes "\<And>r. p r \<Longrightarrow> Q (f r) = Q r"
  shows "countWhere Q (updateMany p f rows) = countWhere Q rows"
  using assms by (induction rows) auto

lemma countWhere_updateMany_out:
  assumes "\<And>r. p r \<Longrightarrow> Q r" "\<And>r. p r \<Longrightarrow> \<not> Q (f r)"
  shows "countWhere Q (updateMany p f rows) + countWhere p rows = countWhere Q rows"
  using assms by (induction rows) auto

lemma countWhere_updateMany_in:
  assumes "\<And>r. p r \<Longrightarrow> \<not> Q r" "\<And>r. p r \<Longrightarrow> Q (f r)"
  shows "countWhere Q (updateMany p f rows) = countWhere Q rows + countWhere p rows"
  using assms by (induction rows) auto

lemma countWhere_key_le_1:
  assumes "distinct (map k rows)"
  shows "countWhere (\<lambda>r. k r = i \<and> P r) rows \<le> 1"
  using assms
proof (induction rows)
  case (Cons r rs)
  then have le: "countWhere (\<lambda>r. k r = i \<and> P r) rs \<le> 1" by simp
  show ?case
  proof (cases "k r = i")
    case True
    then have "\<forall>s\<in>set rs. k s \<noteq> i" using Cons.prems by (metis distinct.simps(2) image_eqI list.set_map list.simps(9))
    then have "countWhere (\<lambda>r. k r = i \<and> P r) rs = 0" by (simp add: countWhere_0_iff)
    then show ?thesis by simp
  qed (use le in simp)
qed simp

lemma countWhere_key_1_iff:
  assumes "distinct (map k rows)"
  shows "countWhere (\<lambda>r. k r = i \<and> P r) rows = 1 \<longleftrightarrow> (\<exists>r\<in>set rows. k r = i \<and> P r)"
  using countWhere_key_le_1 [OF assms, of i P] countWhere_0_iff [of "\<lambda>r. k r = i \<and> P r" rows]
  by force

lemma newestOf_in: "newestOf d rows = Some r \<Longrightarrow> r \<in> set rows"
  by (induction rows arbitrary: r) (auto split: option.splits if_splits)

lemma newestOf_None_iff [simp]: "newestOf d rows = None \<longleftrightarrow> rows = []"
  by (cases rows) (auto split: option.splits)

lemma newestOf_max: "newestOf d rows = Some r \<Longrightarrow> s \<in> set rows \<Longrightarrow> d s \<le> d r"
proof (induction rows arbitrary: r)
  case (Cons a rows)
  then show ?case by (fastforce split: option.splits if_splits)
qed simp

lemma newestWhere_SomeD:
  "newestWhere p d rows = Some r \<Longrightarrow> r \<in> set rows \<and> p r"
  unfolding newestWhere_def using newestOf_in by fastforce

lemma newestWhere_None_iff:
  "newestWhere p d rows = None \<longleftrightarrow> (\<forall>r\<in>set rows. \<not> p r)"
  by (auto simp: newestWhere_def filter_empty_conv)

lemma sum_list_filter_append:
  "sum_list (map f (filter p (xs @ ys))) = sum_list (map f (filter p xs)) + sum_list (map f (filter p ys))"
  for f :: "'a \<Rightarrow> int"
  by simp

section \<open>Growing tables\<close>

text \<open>
  A table extends along a relation when its old rows are still there, in place, each related to what
  it was, and the rows added at the end carry fresh keys, drawn from \<^theory_text>\<open>lo\<close> up to
  \<^theory_text>\<open>hi\<close>: no row is lost and none is replaced.
\<close>

definition extends :: "('r \<Rightarrow> 'r \<Rightarrow> bool) \<Rightarrow> ('r \<Rightarrow> id) \<Rightarrow> id \<Rightarrow> id \<Rightarrow> 'r list \<Rightarrow> 'r list \<Rightarrow> bool" where
  "extends R k lo hi xs ys \<longleftrightarrow> (\<exists>zs new. ys = zs @ new \<and> list_all2 R xs zs \<and> distinct (map k new)
     \<and> (\<forall>r\<in>set new. lo \<le> k r \<and> k r < hi))"

lemma extendsI:
  assumes "list_all2 R xs zs" "distinct (map k new)" "\<forall>r\<in>set new. lo \<le> k r \<and> k r < hi"
  shows "extends R k lo hi xs (zs @ new)"
  using assms unfolding extends_def by blast

lemma extends_refl: "(\<And>r. R r r) \<Longrightarrow> extends R k lo hi xs xs"
  using extendsI [of R xs xs k "[]" lo hi] by (simp add: list_all2_same)

lemma extends_append:
  assumes "\<And>r. R r r" "distinct (map k new)" "\<forall>r\<in>set new. lo \<le> k r \<and> k r < hi"
  shows "extends R k lo hi xs (xs @ new)"
  using assms by (intro extendsI) (simp_all add: list_all2_same)

lemma extends_updateMany:
  assumes "\<And>r. R r r" "\<And>r. r \<in> set rows \<Longrightarrow> p r \<Longrightarrow> R r (f r)"
  shows "extends R k lo hi rows (updateMany p f rows)"
proof -
  have "list_all2 R rows (updateMany p f rows)"
    using assms by (induction rows) auto
  from extendsI [OF this, of k "[]"] show ?thesis by simp
qed

lemma extends_trans:
  assumes e1: "extends R k lo mid xs ys" and e2: "extends R k mid hi ys zs" and le: "lo \<le> mid" "mid \<le> hi"
    and R: "\<And>a b c. R a b \<Longrightarrow> R b c \<Longrightarrow> R a c" and key: "\<And>a b. R a b \<Longrightarrow> k b = k a"
  shows "extends R k lo hi xs zs"
proof -
  obtain u n where y: "ys = u @ n" "list_all2 R xs u" "distinct (map k n)" "\<forall>r\<in>set n. lo \<le> k r \<and> k r < mid"
    using e1 by (auto simp: extends_def)
  obtain v m where z: "zs = v @ m" "list_all2 R ys v" "distinct (map k m)" "\<forall>r\<in>set m. mid \<le> k r \<and> k r < hi"
    using e2 by (auto simp: extends_def)
  obtain v1 v2 where v: "v = v1 @ v2" "list_all2 R u v1" "list_all2 R n v2"
    using z(2) y(1) by (auto simp: list_all2_append1)
  have keys: "map k v2 = map k n"
    using v(3) by (induction rule: list_all2_induct) (auto simp: key)
  have v2: "set (map k v2) \<subseteq> {lo..<mid}" "distinct (map k v2)" unfolding keys using y(3,4) by auto
  have m: "set (map k m) \<subseteq> {mid..<hi}" using z(4) by auto
  have "set (map k v2) \<inter> set (map k m) = {}"
    using v2(1) m ivl_disj_int_two(3) [of lo mid hi] by blast
  then have "distinct (map k (v2 @ m))" using v2(2) z(3) by simp
  moreover have "set (map k (v2 @ m)) \<subseteq> {lo..<hi}"
    using v2(1) m le ivl_disj_un_two(3) [OF le] unfolding map_append set_append by blast
  then have "\<forall>r\<in>set (v2 @ m). lo \<le> k r \<and> k r < hi" unfolding set_map by (meson atLeastLessThan_iff image_subset_iff)
  ultimately have "distinct (map k (v2 @ m))" "\<forall>r\<in>set (v2 @ m). lo \<le> k r \<and> k r < hi" .
  from extendsI [OF list_all2_trans [OF R y(2) v(2)] this] show ?thesis by (simp add: z(1) v(1))
qed

lemma extends_mem:
  assumes "extends R k lo hi xs ys" "r \<in> set xs"
  shows "\<exists>s\<in>set ys. R r s"
proof -
  obtain zs new where y: "ys = zs @ new" "list_all2 R xs zs" using assms(1) by (auto simp: extends_def)
  have "\<exists>s\<in>set zs. R r s" using y(2) assms(2) by (induction rule: list_all2_induct) auto
  then show ?thesis using y(1) by auto
qed

text \<open>Read backwards: a row of the new table is a successor of an old one, or fresh.\<close>

lemma extends_origin:
  assumes "extends R k lo hi xs ys" "s \<in> set ys"
  shows "(\<exists>r\<in>set xs. R r s) \<or> lo \<le> k s"
proof -
  obtain zs new where y: "ys = zs @ new" "list_all2 R xs zs" "\<forall>r\<in>set new. lo \<le> k r"
    using assms(1) by (auto simp: extends_def)
  have "s \<in> set zs \<Longrightarrow> \<exists>r\<in>set xs. R r s" using y(2) by (induction rule: list_all2_induct) auto
  then show ?thesis using y assms(2) by auto
qed

lemma extends_prefix: "extends (=) k lo hi xs ys \<Longrightarrow> \<exists>new. ys = xs @ new"
  by (auto simp: extends_def list.rel_eq)

text \<open>The key column of a table: distinct values below the id generator.\<close>

definition keyed :: "('r \<Rightarrow> id) \<Rightarrow> id \<Rightarrow> 'r list \<Rightarrow> bool" where
  "keyed k n rows \<longleftrightarrow> distinct (map k rows) \<and> (\<forall>r\<in>set rows. k r < n)"

lemma keyed_Nil [simp]: "keyed k n []"
  by (simp add: keyed_def)

lemma keyed_extends:
  assumes "keyed k lo xs" "extends R k lo hi xs ys" "lo \<le> hi" "\<And>a b. R a b \<Longrightarrow> k b = k a"
  shows "keyed k hi ys"
proof -
  obtain zs new where y: "ys = zs @ new" "list_all2 R xs zs" "distinct (map k new)"
      "\<forall>r\<in>set new. lo \<le> k r \<and> k r < hi"
    using assms(2) by (auto simp: extends_def)
  have keys: "map k zs = map k xs"
    using y(2) by (induction rule: list_all2_induct) (auto simp: assms(4))
  have old: "set (map k zs) \<subseteq> {..<lo}" "distinct (map k zs)"
    unfolding keys using assms(1) by (auto simp: keyed_def)
  have new: "set (map k new) \<subseteq> {lo..<hi}" using y(4) by auto
  have "{..<lo} \<inter> {lo..<hi} = {}" by auto
  then have "set (map k zs) \<inter> set (map k new) = {}" using old(1) new by blast
  then have "distinct (map k ys)" unfolding y(1) using y(3) old(2) by simp
  moreover have "k r < hi" if "r \<in> set ys" for r
  proof -
    have "k r \<in> {..<lo} \<or> k r \<in> {lo..<hi}" using that old(1) new unfolding y(1) by auto
    then show ?thesis using assms(3) by auto
  qed
  ultimately show ?thesis by (simp add: keyed_def)
qed

lemma keyed_unique: "keyed k n rows \<Longrightarrow> r \<in> set rows \<Longrightarrow> s \<in> set rows \<Longrightarrow> k r = k s \<Longrightarrow> r = s"
  by (rule key_unique [of k rows]) (simp_all add: keyed_def)

lemma keyed_append_new: "keyed k n rows \<Longrightarrow> k r = n \<Longrightarrow> keyed k (Suc n) (rows @ [r])"
  by (auto simp: keyed_def less_Suc_eq)

lemma keyed_mono: "keyed k n rows \<Longrightarrow> keyed k (Suc n) rows"
  by (auto simp: keyed_def less_Suc_eq)

lemma keyed_updateMany: "keyed k n rows \<Longrightarrow> (\<And>r. k (f r) = k r) \<Longrightarrow> keyed k n (updateMany p f rows)"
  by (auto simp: keyed_def map_key_updateMany set_updateMany)

lemma extends_one: "(\<And>r. R r r) \<Longrightarrow> k r = n \<Longrightarrow> extends R k n (Suc n) rows (rows @ [r])"
  by (rule extends_append) auto

section \<open>Results\<close>

text \<open>A fallible step is \<^theory_text>\<open>err + 'a\<close>; these destruct a chain of early returns.\<close>

lemma if_Inl_eq_Inr: "(if c then Inl e else t) = Inr y \<longleftrightarrow> \<not> c \<and> t = Inr y"
  by simp

lemma case_option_Inl_eq_Inr:
  "(case m of None \<Rightarrow> Inl e | Some a \<Rightarrow> k a) = Inr y \<longleftrightarrow> (\<exists>a. m = Some a \<and> k a = Inr y)"
  by (cases m) simp_all

lemma case_sum_Inl_eq_Inr:
  "(case m of Inl e \<Rightarrow> Inl (h e) | Inr a \<Rightarrow> k a) = Inr y \<longleftrightarrow> (\<exists>a. m = Inr a \<and> k a = Inr y)"
  by (cases m) simp_all

definition andThen :: "'e + 'a \<Rightarrow> ('a \<Rightarrow> 'e + 'b) \<Rightarrow> 'e + 'b" where
  "andThen m k = (case m of Inl e \<Rightarrow> Inl e | Inr a \<Rightarrow> k a)"

lemma andThen_simps [simp]: "andThen (Inl e) k = Inl e" "andThen (Inr a) k = k a"
  by (simp_all add: andThen_def)

lemma andThen_Inr_iff: "andThen m k = Inr y \<longleftrightarrow> (\<exists>a. m = Inr a \<and> k a = Inr y)"
  by (cases m) simp_all

lemma andThen_Inl_iff: "andThen m k = Inl e \<longleftrightarrow> m = Inl e \<or> (\<exists>a. m = Inr a \<and> k a = Inl e)"
  by (cases m) simp_all

lemmas result_iffs = andThen_Inr_iff if_Inl_eq_Inr case_option_Inl_eq_Inr case_sum_Inl_eq_Inr

section \<open>The guarded status change\<close>

text \<open>
  Every lifecycle write of the backend is an updateMany whose WHERE clause names one row and the
  statuses it may leave, and whose caller raises unless exactly one row was affected.  The contract
  below is what makes two concurrent callers safe: on a table whose keys are distinct at most one
  row is affected, the count is one exactly when the row is in a source status, and the same change
  tried again affects nothing.
\<close>

definition guard :: "('r \<Rightarrow> id) \<Rightarrow> ('r \<Rightarrow> 's) \<Rightarrow> ('s \<Rightarrow> bool) \<Rightarrow> id \<Rightarrow> 'r \<Rightarrow> bool" where
  "guard key status source i r \<longleftrightarrow> key r = i \<and> source (status r)"

locale guarded_change =
  fixes key :: "'r \<Rightarrow> id"
    and status :: "'r \<Rightarrow> 's"
    and source :: "'s \<Rightarrow> bool"
    and target :: 's
    and stamp :: "'r \<Rightarrow> 'r"
  assumes stamp_key: "key (stamp r) = key r"
    and stamp_status: "status (stamp r) = target"
    and target_closed: "\<not> source target"
begin

lemma count_le_1:
  assumes "distinct (map key rows)"
  shows "countWhere (guard key status source i) rows \<le> 1"
  using countWhere_key_le_1 [OF assms, of i "\<lambda>r. source (status r)"]
  by (simp add: guard_def [abs_def])

lemma count_1_iff:
  assumes "distinct (map key rows)"
  shows "countWhere (guard key status source i) rows = 1 \<longleftrightarrow>
         (\<exists>r\<in>set rows. key r = i \<and> source (status r))"
  using countWhere_key_1_iff [OF assms, of i "\<lambda>r. source (status r)"]
  by (simp add: guard_def [abs_def])

lemma keys_kept: "map key (updateMany (guard key status source i) stamp rows) = map key rows"
  by (rule map_key_updateMany) (rule stamp_key)

lemma second_affects_nothing:
  "countWhere (guard key status source i) (updateMany (guard key status source i) stamp rows) = 0"
  by (auto simp: countWhere_0_iff set_updateMany guard_def stamp_status target_closed)

lemma others_kept:
  assumes "r \<in> set rows" "key r \<noteq> i"
  shows "r \<in> set (updateMany (guard key status source i) stamp rows)"
  using assms by (auto simp: set_updateMany guard_def)

lemma changed_row:
  assumes "distinct (map key rows)" "r \<in> set rows" "key r = i" "source (status r)"
  shows "findRow (\<lambda>s. key s = i) (updateMany (guard key status source i) stamp rows) = Some (stamp r)"
proof -
  have "stamp r \<in> set (updateMany (guard key status source i) stamp rows)"
    using assms by (auto simp: set_updateMany guard_def)
  moreover have "distinct (map key (updateMany (guard key status source i) stamp rows))"
    using assms(1) by (simp add: keys_kept)
  ultimately show ?thesis
    using findRow_key [of key "updateMany (guard key status source i) stamp rows" "stamp r"]
    by (simp add: stamp_key assms(3))
qed

end

end
