(* ===== verification/Schema.thy ===== *)
theory Schema
  imports Prelude
begin

text \<open>
  The marketplace part of the database (prisma/schema.prisma): one enum per Prisma enum, one record
  per model with the columns the services read or write, and the record \<^theory_text>\<open>db\<close> of
  the tables.  Enum constructors are always written with their enum's name, as in the source
  (\<^theory_text>\<open>EngagementStatus.ACCEPTED\<close>).  Uuids are natural numbers drawn from
  \<^theory_text>\<open>nextId\<close>, receipt numbers come from the Postgres sequence
  \<^theory_text>\<open>nextReceipt\<close>; dates are milliseconds.  The last section is the sum of the error
  codes the services raise.
\<close>

section \<open>Enums\<close>

datatype CountryCode = AR | CO
datatype EngagementStatus = ACCEPTED | IN_PROGRESS | PENDING_CUSTOMER_CONFIRMATION | COMPLETED | CANCELLED
datatype PaymentMethod = CASH | MERCADOPAGO
datatype ServiceRequestStatus = OPEN | CANCELLED | ENGAGED
datatype QuoteStatus = SENT | WITHDRAWN | REJECTED | ACCEPTED
datatype QuoteNegotiationParty = CUSTOMER | PROFESSIONAL
datatype QuotePriceProposalStatus = PENDING | ACCEPTED | REJECTED | SUPERSEDED
datatype EngagementChatParty = CUSTOMER | PROFESSIONAL | SYSTEM
datatype AppointmentParty = CUSTOMER | PROFESSIONAL
datatype AppointmentStatus = PENDING | CONFIRMED | CANCELLED
datatype MediaUploadRefIntendedUse =
  QUOTE_ATTACHMENT | QUOTE_NEGOTIATION_MESSAGE_IMAGE | ENGAGEMENT_CHAT_MESSAGE_IMAGE
datatype UploadRefStatus = PENDING | CONSUMED
datatype EngagementReviewParty = CUSTOMER | PROFESSIONAL
datatype ReviewCommentModerationStatus = PENDING | APPROVED | REJECTED
datatype PaymentAttemptStatus = PENDING | APPROVED | REJECTED
datatype PaymentAttemptType = CASH | CREDIT_CARD | DEBIT_CARD | ACCOUNT_MONEY
datatype LedgerEntryType =
  CUSTOMER_CHARGE | PLATFORM_COMMISSION | PROFESSIONAL_NET_CREDIT | CASH_COMMISSION_DEBT
  | CUSTOMER_CANCELLATION_FEE | REFUND | WITHDRAWAL | WITHDRAWAL_HOLD_RELEASE

datatype ProfessionalVerificationStatus = UNVERIFIED | PENDING_REVIEW | VERIFIED | REJECTED
datatype SpecializationRole = PRIMARY | SECONDARY

datatype CardRejectionReason =
  CARD_DECLINED | INSUFFICIENT_FUNDS | INVALID_CARD_DATA | PROVIDER_ERROR | OTHER

section \<open>Rows\<close>

text \<open>The columns of the account the marketplace services read.\<close>

record User =
  user_id :: id
  user_email :: string

record CustomerProfile =
  cp_id :: id
  cp_userId :: id
  cp_firstName :: string
  cp_lastName :: string
  cp_country :: CountryCode
  cp_photoUrl :: "string option"
  cp_locationSharingEnabled :: bool
  cp_noShowReportedCount :: nat

record ProfessionalSpecialization =
  spec_categoryId :: id
  spec_role :: SpecializationRole
  spec_description :: string
  spec_yearsOfExperience :: "int option"
  spec_order :: nat

text \<open>A professional's specializations are kept with the profile, in their order.\<close>

record ProfessionalProfile =
  pp_id :: id
  pp_userId :: id
  pp_firstName :: string
  pp_lastName :: string
  pp_displayName :: "string option"
  pp_country :: CountryCode
  pp_bio :: string
  pp_photoUrl :: "string option"
  pp_languages :: "string list"
  pp_verificationStatus :: ProfessionalVerificationStatus
  pp_locationSharingEnabled :: bool
  pp_noShowReportedCount :: nat
  pp_specializations :: "ProfessionalSpecialization list"

definition pp_categoryIds :: "ProfessionalProfile \<Rightarrow> id list" where
  "pp_categoryIds p = map spec_categoryId (pp_specializations p)"

record ServiceRequest =
  sr_id :: id
  sr_customerProfileId :: id
  sr_categoryId :: id
  sr_description :: string
  sr_indicativeBudgetMin :: "int option"
  sr_indicativeBudgetMax :: "int option"
  sr_status :: ServiceRequestStatus
  sr_cancelledAt :: "time option"
  sr_acceptedQuoteId :: "id option"
  sr_createdAt :: time

record Quote =
  q_id :: id
  q_serviceRequestId :: id
  q_professionalProfileId :: id
  q_price :: int
  q_negotiatedPrice :: "int option"
  q_message :: string
  q_status :: QuoteStatus
  q_withdrawnAt :: "time option"
  q_rejectedAt :: "time option"
  q_acceptedAt :: "time option"
  q_createdAt :: time

record QuoteNegotiationMessage =
  nm_id :: id
  nm_quoteId :: id
  nm_authorRole :: QuoteNegotiationParty
  nm_authorCustomerProfileId :: "id option"
  nm_authorProfessionalProfileId :: "id option"
  nm_message :: string
  nm_imageUrl :: "string option"
  nm_createdAt :: time

record QuotePriceProposal =
  prop_id :: id
  prop_quoteId :: id
  prop_negotiationMessageId :: id
  prop_proposedByRole :: QuoteNegotiationParty
  prop_proposedByCustomerProfileId :: "id option"
  prop_proposedByProfessionalProfileId :: "id option"
  prop_proposedPrice :: int
  prop_status :: QuotePriceProposalStatus
  prop_resolvedByCustomerProfileId :: "id option"
  prop_resolvedByProfessionalProfileId :: "id option"
  prop_resolvedAt :: "time option"
  prop_createdAt :: time

record Engagement =
  eng_id :: id
  eng_serviceRequestId :: id
  eng_quoteId :: id
  eng_customerProfileId :: id
  eng_professionalProfileId :: id
  eng_status :: EngagementStatus
  eng_startedAt :: "time option"
  eng_finishedAt :: "time option"
  eng_cancelledAt :: "time option"
  eng_cancelReason :: "string option"
  eng_completedAt :: "time option"
  eng_paymentMethod :: "PaymentMethod option"
  eng_createdAt :: time

record EngagementChatConversation =
  conv_id :: id
  conv_engagementId :: id

record EngagementChatMessage =
  msg_id :: id
  msg_conversationId :: id
  msg_senderRole :: EngagementChatParty
  msg_senderCustomerProfileId :: "id option"
  msg_senderProfessionalProfileId :: "id option"
  msg_content :: string
  msg_imageUrl :: "string option"
  msg_createdAt :: time

record Appointment =
  appt_id :: id
  appt_engagementId :: id
  appt_professionalProfileId :: id
  appt_startsAt :: time
  appt_endsAt :: time
  appt_status :: AppointmentStatus
  appt_proposedByRole :: AppointmentParty
  appt_proposedByCustomerProfileId :: "id option"
  appt_proposedByProfessionalProfileId :: "id option"
  appt_cancelReason :: "string option"
  appt_cancelledAt :: "time option"
  appt_confirmedAt :: "time option"
  appt_createdAt :: time

text \<open>The columns a provider fills when a payment is approved; they are written together.\<close>

record ProviderTransactionDetails =
  ptd_paymentTypeId :: "string option"
  ptd_cardBrand :: "string option"
  ptd_cardLastFour :: "string option"
  ptd_providerFeeAmount :: "int option"
  ptd_providerTaxAmount :: "int option"
  ptd_netReceivedAmount :: "int option"
  ptd_approvedAt :: "time option"
  ptd_moneyReleaseAt :: "time option"

record PaymentAttempt =
  pa_id :: id
  pa_engagementId :: id
  pa_method :: PaymentMethod
  pa_type :: "PaymentAttemptType option"
  pa_status :: PaymentAttemptStatus
  pa_customerConfirmedAt :: "time option"
  pa_professionalConfirmedAt :: "time option"
  pa_providerPaymentId :: "string option"
  pa_amount :: int
  pa_currency :: string
  pa_installments :: int
  pa_rejectionReason :: "CardRejectionReason option"
  pa_details :: "ProviderTransactionDetails option"
  pa_createdAt :: time

record LedgerEntry =
  le_id :: id
  le_receiptNumber :: nat
  le_type :: LedgerEntryType
  le_amount :: int
  le_currency :: string
  le_engagementId :: "id option"
  le_customerProfileId :: "id option"
  le_professionalProfileId :: "id option"
  le_commissionPercentApplied :: "int option"
  le_createdAt :: time

record Review =
  rv_id :: id
  rv_engagementId :: id
  rv_authorRole :: EngagementReviewParty
  rv_authorCustomerProfileId :: "id option"
  rv_authorProfessionalProfileId :: "id option"
  rv_rating :: int
  rv_comment :: "string option"
  rv_commentModerationStatus :: "ReviewCommentModerationStatus option"
  rv_moderatedByAdminUserId :: "id option"
  rv_moderatedAt :: "time option"
  rv_createdAt :: time

record ServiceRequestAttachmentUploadRef =
  sref_id :: id
  sref_userId :: id
  sref_fileUrl :: string
  sref_status :: UploadRefStatus
  sref_expiresAt :: time
  sref_consumedAt :: "time option"
  sref_serviceRequestId :: "id option"

record MediaUploadRef =
  mref_id :: id
  mref_userId :: id
  mref_fileUrl :: string
  mref_intendedUse :: MediaUploadRefIntendedUse
  mref_status :: UploadRefStatus
  mref_expiresAt :: time
  mref_consumedAt :: "time option"

record ProfilePhotoUploadRef =
  pref_id :: id
  pref_userId :: id
  pref_fileUrl :: string
  pref_status :: UploadRefStatus
  pref_expiresAt :: time
  pref_consumedAt :: "time option"

record Attachment =
  att_id :: id
  att_ownerId :: id
  att_url :: string
  att_order :: nat

record Category =
  cat_id :: id
  cat_name :: string
  cat_displayOrder :: int
  cat_parentId :: "id option"

text \<open>Rows of the audit log; the JSON metadata column is left out.  The target is the uuid of a row or
  the key of a setting.\<close>

datatype TargetKey = RowKey id | SettingKey string

record AdminAuditLog =
  al_actorAdminUserId :: id
  al_action :: string
  al_targetType :: string
  al_targetKey :: TargetKey

datatype PlatformSettingValueType = BOOLEAN | NUMBER | STRING

text \<open>The ciphertext, iv and authTag columns of an encrypted setting are represented by the
  plaintext they decrypt to, \<^theory_text>\<open>ps_secret\<close>.\<close>

record PlatformSetting =
  ps_key :: string
  ps_valueType :: PlatformSettingValueType
  ps_isEncrypted :: bool
  ps_isPublic :: bool
  ps_value :: "string option"
  ps_secret :: "string option"

section \<open>Tables\<close>

record db =
  nextId :: id
  nextReceipt :: nat
  users :: "User list"
  customerProfiles :: "CustomerProfile list"
  professionalProfiles :: "ProfessionalProfile list"
  serviceRequests :: "ServiceRequest list"
  quotes :: "Quote list"
  negotiationMessages :: "QuoteNegotiationMessage list"
  priceProposals :: "QuotePriceProposal list"
  engagements :: "Engagement list"
  conversations :: "EngagementChatConversation list"
  chatMessages :: "EngagementChatMessage list"
  appointments :: "Appointment list"
  paymentAttempts :: "PaymentAttempt list"
  ledgerEntries :: "LedgerEntry list"
  reviews :: "Review list"
  srUploadRefs :: "ServiceRequestAttachmentUploadRef list"
  mediaUploadRefs :: "MediaUploadRef list"
  photoUploadRefs :: "ProfilePhotoUploadRef list"
  srAttachments :: "Attachment list"
  quoteAttachments :: "Attachment list"
  platformSettings :: "PlatformSetting list"
  categories :: "Category list"
  auditLog :: "AdminAuditLog list"

definition emptyDb :: db where
  "emptyDb = \<lparr>nextId = 0, nextReceipt = 1, users = [], customerProfiles = [], professionalProfiles = [],
     serviceRequests = [], quotes = [], negotiationMessages = [], priceProposals = [],
     engagements = [], conversations = [], chatMessages = [], appointments = [],
     paymentAttempts = [], ledgerEntries = [], reviews = [], srUploadRefs = [],
     mediaUploadRefs = [], photoUploadRefs = [], srAttachments = [], quoteAttachments = [],
     platformSettings = [], categories = [], auditLog = []\<rparr>"

section \<open>Errors\<close>

datatype err = DomainException string | PrismaError string

text \<open>Every error of the services is a DomainException with its code; the four below are what
  Prisma raises where no service translates it: P2002, P2003, a value that does not fit its column,
  and P2025.\<close>

definition ENGAGEMENT_NOT_FOUND :: err where
  "ENGAGEMENT_NOT_FOUND = DomainException ''ENGAGEMENT_NOT_FOUND''"
definition ENGAGEMENT_NOT_ACCEPTED :: err where
  "ENGAGEMENT_NOT_ACCEPTED = DomainException ''ENGAGEMENT_NOT_ACCEPTED''"
definition ENGAGEMENT_HAS_NO_CONFIRMED_APPOINTMENT :: err where
  "ENGAGEMENT_HAS_NO_CONFIRMED_APPOINTMENT = DomainException ''ENGAGEMENT_HAS_NO_CONFIRMED_APPOINTMENT''"
definition ENGAGEMENT_WORK_START_CONFLICT :: err where
  "ENGAGEMENT_WORK_START_CONFLICT = DomainException ''ENGAGEMENT_WORK_START_CONFLICT''"
definition ENGAGEMENT_NOT_IN_PROGRESS :: err where
  "ENGAGEMENT_NOT_IN_PROGRESS = DomainException ''ENGAGEMENT_NOT_IN_PROGRESS''"
definition ENGAGEMENT_WORK_FINISH_CONFLICT :: err where
  "ENGAGEMENT_WORK_FINISH_CONFLICT = DomainException ''ENGAGEMENT_WORK_FINISH_CONFLICT''"
definition ENGAGEMENT_NOT_PENDING_CUSTOMER_CONFIRMATION :: err where
  "ENGAGEMENT_NOT_PENDING_CUSTOMER_CONFIRMATION = DomainException ''ENGAGEMENT_NOT_PENDING_CUSTOMER_CONFIRMATION''"
definition ENGAGEMENT_COMPLETION_CONFLICT :: err where
  "ENGAGEMENT_COMPLETION_CONFLICT = DomainException ''ENGAGEMENT_COMPLETION_CONFLICT''"
definition ENGAGEMENT_NOT_CANCELLABLE_BY_CUSTOMER :: err where
  "ENGAGEMENT_NOT_CANCELLABLE_BY_CUSTOMER = DomainException ''ENGAGEMENT_NOT_CANCELLABLE_BY_CUSTOMER''"
definition ENGAGEMENT_NOT_CANCELLABLE_BY_PROFESSIONAL :: err where
  "ENGAGEMENT_NOT_CANCELLABLE_BY_PROFESSIONAL = DomainException ''ENGAGEMENT_NOT_CANCELLABLE_BY_PROFESSIONAL''"
definition ENGAGEMENT_CANCEL_CONFLICT :: err where
  "ENGAGEMENT_CANCEL_CONFLICT = DomainException ''ENGAGEMENT_CANCEL_CONFLICT''"
definition ENGAGEMENT_NOT_REPORTABLE_FOR_NO_SHOW :: err where
  "ENGAGEMENT_NOT_REPORTABLE_FOR_NO_SHOW = DomainException ''ENGAGEMENT_NOT_REPORTABLE_FOR_NO_SHOW''"
definition APPOINTMENT_INVALID_TIME_RANGE :: err where
  "APPOINTMENT_INVALID_TIME_RANGE = DomainException ''APPOINTMENT_INVALID_TIME_RANGE''"
definition APPOINTMENT_NOT_FOUND :: err where
  "APPOINTMENT_NOT_FOUND = DomainException ''APPOINTMENT_NOT_FOUND''"
definition APPOINTMENT_CANNOT_ACCEPT_OWN_PROPOSAL :: err where
  "APPOINTMENT_CANNOT_ACCEPT_OWN_PROPOSAL = DomainException ''APPOINTMENT_CANNOT_ACCEPT_OWN_PROPOSAL''"
definition APPOINTMENT_NOT_PENDING :: err where
  "APPOINTMENT_NOT_PENDING = DomainException ''APPOINTMENT_NOT_PENDING''"
definition APPOINTMENT_ACCEPT_CONFLICT :: err where
  "APPOINTMENT_ACCEPT_CONFLICT = DomainException ''APPOINTMENT_ACCEPT_CONFLICT''"
definition APPOINTMENT_CONFLICT :: err where
  "APPOINTMENT_CONFLICT = DomainException ''APPOINTMENT_CONFLICT''"
definition APPOINTMENT_ALREADY_CANCELLED :: err where
  "APPOINTMENT_ALREADY_CANCELLED = DomainException ''APPOINTMENT_ALREADY_CANCELLED''"
definition APPOINTMENT_CANCEL_CONFLICT :: err where
  "APPOINTMENT_CANCEL_CONFLICT = DomainException ''APPOINTMENT_CANCEL_CONFLICT''"
definition LEDGER_COMMISSION_MISCONFIGURED :: err where
  "LEDGER_COMMISSION_MISCONFIGURED = DomainException ''LEDGER_COMMISSION_MISCONFIGURED''"
definition CUSTOMER_PROFILE_REQUIRED :: err where
  "CUSTOMER_PROFILE_REQUIRED = DomainException ''CUSTOMER_PROFILE_REQUIRED''"
definition PROFESSIONAL_PROFILE_REQUIRED :: err where
  "PROFESSIONAL_PROFILE_REQUIRED = DomainException ''PROFESSIONAL_PROFILE_REQUIRED''"
definition SERVICE_REQUEST_NOT_FOUND :: err where
  "SERVICE_REQUEST_NOT_FOUND = DomainException ''SERVICE_REQUEST_NOT_FOUND''"
definition SERVICE_REQUEST_NOT_OPEN :: err where
  "SERVICE_REQUEST_NOT_OPEN = DomainException ''SERVICE_REQUEST_NOT_OPEN''"
definition SERVICE_REQUEST_HAS_ENGAGEMENT :: err where
  "SERVICE_REQUEST_HAS_ENGAGEMENT = DomainException ''SERVICE_REQUEST_HAS_ENGAGEMENT''"
definition SERVICE_REQUEST_ALREADY_CANCELLED :: err where
  "SERVICE_REQUEST_ALREADY_CANCELLED = DomainException ''SERVICE_REQUEST_ALREADY_CANCELLED''"
definition INVALID_SERVICE_REQUEST_BUDGET_RANGE :: err where
  "INVALID_SERVICE_REQUEST_BUDGET_RANGE = DomainException ''INVALID_SERVICE_REQUEST_BUDGET_RANGE''"
definition INVALID_ATTACHMENT_UPLOAD_REF :: err where
  "INVALID_ATTACHMENT_UPLOAD_REF = DomainException ''INVALID_ATTACHMENT_UPLOAD_REF''"
definition CATEGORY_NOT_FOUND :: err where
  "CATEGORY_NOT_FOUND = DomainException ''CATEGORY_NOT_FOUND''"
definition QUOTE_NOT_FOUND :: err where
  "QUOTE_NOT_FOUND = DomainException ''QUOTE_NOT_FOUND''"
definition QUOTE_NOT_SENT :: err where
  "QUOTE_NOT_SENT = DomainException ''QUOTE_NOT_SENT''"
definition QUOTE_ACCEPT_CONFLICT :: err where
  "QUOTE_ACCEPT_CONFLICT = DomainException ''QUOTE_ACCEPT_CONFLICT''"
definition QUOTE_HAS_PENDING_PRICE_PROPOSAL :: err where
  "QUOTE_HAS_PENDING_PRICE_PROPOSAL = DomainException ''QUOTE_HAS_PENDING_PRICE_PROPOSAL''"
definition INVALID_QUOTE_PRICE :: err where
  "INVALID_QUOTE_PRICE = DomainException ''INVALID_QUOTE_PRICE''"
definition QUOTE_NOT_NEGOTIABLE :: err where
  "QUOTE_NOT_NEGOTIABLE = DomainException ''QUOTE_NOT_NEGOTIABLE''"
definition QUOTE_PRICE_PROPOSAL_DISABLED_FOR_CUSTOMER :: err where
  "QUOTE_PRICE_PROPOSAL_DISABLED_FOR_CUSTOMER = DomainException ''QUOTE_PRICE_PROPOSAL_DISABLED_FOR_CUSTOMER''"
definition QUOTE_PRICE_PROPOSAL_DISABLED_FOR_PROFESSIONAL :: err where
  "QUOTE_PRICE_PROPOSAL_DISABLED_FOR_PROFESSIONAL = DomainException ''QUOTE_PRICE_PROPOSAL_DISABLED_FOR_PROFESSIONAL''"
definition QUOTE_PRICE_PROPOSAL_NOT_FOUND :: err where
  "QUOTE_PRICE_PROPOSAL_NOT_FOUND = DomainException ''QUOTE_PRICE_PROPOSAL_NOT_FOUND''"
definition QUOTE_PRICE_PROPOSAL_NOT_PENDING :: err where
  "QUOTE_PRICE_PROPOSAL_NOT_PENDING = DomainException ''QUOTE_PRICE_PROPOSAL_NOT_PENDING''"
definition QUOTE_PRICE_PROPOSAL_RESOLVE_CONFLICT :: err where
  "QUOTE_PRICE_PROPOSAL_RESOLVE_CONFLICT = DomainException ''QUOTE_PRICE_PROPOSAL_RESOLVE_CONFLICT''"
definition QUOTE_PRICE_PROPOSAL_SELF_RESOLVE_FORBIDDEN :: err where
  "QUOTE_PRICE_PROPOSAL_SELF_RESOLVE_FORBIDDEN = DomainException ''QUOTE_PRICE_PROPOSAL_SELF_RESOLVE_FORBIDDEN''"
definition INVALID_MEDIA_UPLOAD_REF :: err where
  "INVALID_MEDIA_UPLOAD_REF = DomainException ''INVALID_MEDIA_UPLOAD_REF''"
definition UNSUPPORTED_MEDIA_CONTENT_TYPE :: err where
  "UNSUPPORTED_MEDIA_CONTENT_TYPE = DomainException ''UNSUPPORTED_MEDIA_CONTENT_TYPE''"
definition ENGAGEMENT_NOT_CONFIRMABLE_FOR_CASH_PAYMENT :: err where
  "ENGAGEMENT_NOT_CONFIRMABLE_FOR_CASH_PAYMENT = DomainException ''ENGAGEMENT_NOT_CONFIRMABLE_FOR_CASH_PAYMENT''"
definition ENGAGEMENT_NOT_PAYABLE_BY_CARD :: err where
  "ENGAGEMENT_NOT_PAYABLE_BY_CARD = DomainException ''ENGAGEMENT_NOT_PAYABLE_BY_CARD''"
definition ENGAGEMENT_NOT_PAYABLE_BY_WALLET :: err where
  "ENGAGEMENT_NOT_PAYABLE_BY_WALLET = DomainException ''ENGAGEMENT_NOT_PAYABLE_BY_WALLET''"
definition CARD_PAYMENT_ALREADY_IN_PROGRESS :: err where
  "CARD_PAYMENT_ALREADY_IN_PROGRESS = DomainException ''CARD_PAYMENT_ALREADY_IN_PROGRESS''"
definition WALLET_PAYMENT_ALREADY_IN_PROGRESS :: err where
  "WALLET_PAYMENT_ALREADY_IN_PROGRESS = DomainException ''WALLET_PAYMENT_ALREADY_IN_PROGRESS''"
definition INVALID_CARD_PAYMENT_INPUT :: err where
  "INVALID_CARD_PAYMENT_INPUT = DomainException ''INVALID_CARD_PAYMENT_INPUT''"
definition PAYMENT_METHOD_CONFLICT :: err where
  "PAYMENT_METHOD_CONFLICT = DomainException ''PAYMENT_METHOD_CONFLICT''"
definition PAYMENT_PROVIDER_MISCONFIGURED :: err where
  "PAYMENT_PROVIDER_MISCONFIGURED = DomainException ''PAYMENT_PROVIDER_MISCONFIGURED''"
definition PAYMENT_PROVIDER_UNAVAILABLE :: err where
  "PAYMENT_PROVIDER_UNAVAILABLE = DomainException ''PAYMENT_PROVIDER_UNAVAILABLE''"
definition ENGAGEMENT_NOT_COMPLETED :: err where
  "ENGAGEMENT_NOT_COMPLETED = DomainException ''ENGAGEMENT_NOT_COMPLETED''"
definition ENGAGEMENT_REVIEW_ALREADY_SUBMITTED :: err where
  "ENGAGEMENT_REVIEW_ALREADY_SUBMITTED = DomainException ''ENGAGEMENT_REVIEW_ALREADY_SUBMITTED''"
definition INVALID_REVIEW_RATING :: err where
  "INVALID_REVIEW_RATING = DomainException ''INVALID_REVIEW_RATING''"
definition REVIEW_COMMENTS_DISABLED :: err where
  "REVIEW_COMMENTS_DISABLED = DomainException ''REVIEW_COMMENTS_DISABLED''"
definition REVIEW_NOT_FOUND :: err where
  "REVIEW_NOT_FOUND = DomainException ''REVIEW_NOT_FOUND''"
definition REVIEW_COMMENT_ALREADY_MODERATED :: err where
  "REVIEW_COMMENT_ALREADY_MODERATED = DomainException ''REVIEW_COMMENT_ALREADY_MODERATED''"
definition CATEGORY_NAME_TAKEN :: err where
  "CATEGORY_NAME_TAKEN = DomainException ''CATEGORY_NAME_TAKEN''"
definition CATEGORY_PARENT_CYCLE :: err where
  "CATEGORY_PARENT_CYCLE = DomainException ''CATEGORY_PARENT_CYCLE''"
definition CATEGORY_IN_USE :: err where
  "CATEGORY_IN_USE = DomainException ''CATEGORY_IN_USE''"
definition UNSUPPORTED_ATTACHMENT_CONTENT_TYPE :: err where
  "UNSUPPORTED_ATTACHMENT_CONTENT_TYPE = DomainException ''UNSUPPORTED_ATTACHMENT_CONTENT_TYPE''"
definition UNIQUE_VIOLATION :: err where
  "UNIQUE_VIOLATION = PrismaError ''P2002''"
definition FOREIGN_KEY_VIOLATION :: err where
  "FOREIGN_KEY_VIOLATION = PrismaError ''P2003''"
definition PRISMA_VALIDATION :: err where
  "PRISMA_VALIDATION = PrismaError ''validation''"
definition RECORD_NOT_FOUND :: err where
  "RECORD_NOT_FOUND = PrismaError ''P2025''"

end
