(* ===== verification/Js_Number.thy ===== *)
theory Js_Number
  imports Prelude
begin

text \<open>
  The JavaScript numbers the money code uses: the conversion \<^theory_text>\<open>Number(string)\<close> of
  a setting (every numeric literal form of the language: decimal with fraction and exponent,
  Infinity, hexadecimal, octal and binary; the empty or blank string is 0; everything else is NaN),
  \<^theory_text>\<open>Math.round\<close>, which rounds a half up, and the value check of Prisma for a
  Postgres \<^theory_text>\<open>Int\<close> column.  Finite numbers are exact rationals; the code's amounts and
  percentages stay far below the range in which doubles would differ after rounding.
\<close>

datatype js_number = NaN | Infinite bool | Finite rat

definition isSpace :: "char \<Rightarrow> bool" where
  "isSpace c \<longleftrightarrow> c \<in> {CHR '' '', CHR 0x09, CHR 0x0A, CHR 0x0B, CHR 0x0C, CHR 0x0D, CHR 0xA0}"

definition trim :: "string \<Rightarrow> string" where
  "trim s = rev (dropWhile isSpace (rev (dropWhile isSpace s)))"

definition digitVal :: "char \<Rightarrow> nat" where
  "digitVal c = (let n = of_char c in
     if 48 \<le> n \<and> n \<le> 57 then n - 48
     else if 97 \<le> n \<and> n \<le> 122 then n - 87
     else if 65 \<le> n \<and> n \<le> 90 then n - 55 else 99)"

definition isDigit :: "char \<Rightarrow> bool" where
  "isDigit c \<longleftrightarrow> digitVal c < 10"

definition digitsVal :: "nat \<Rightarrow> string \<Rightarrow> nat" where
  "digitsVal b s = foldl (\<lambda>a c. a * b + digitVal c) 0 s"

definition radixNumber :: "nat \<Rightarrow> string \<Rightarrow> js_number" where
  "radixNumber b s =
     (if s \<noteq> [] \<and> list_all (\<lambda>c. digitVal c < b) s then Finite (of_nat (digitsVal b s)) else NaN)"

definition exponentOf :: "string \<Rightarrow> int option" where
  "exponentOf s = (case s of
       [] \<Rightarrow> Some 0
     | c # r \<Rightarrow>
        if c \<notin> {CHR ''e'', CHR ''E''} then None
        else case r of
            [] \<Rightarrow> None
          | d # r' \<Rightarrow>
             if d \<in> {CHR ''+'', CHR ''-''} then
               (if r' \<noteq> [] \<and> list_all isDigit r'
                then Some (if d = CHR ''-'' then - int (digitsVal 10 r') else int (digitsVal 10 r'))
                else None)
             else if list_all isDigit r then Some (int (digitsVal 10 r)) else None)"

definition scale :: "rat \<Rightarrow> int \<Rightarrow> rat" where
  "scale q e = (if 0 \<le> e then q * 10 ^ nat e else q / 10 ^ nat (- e))"

definition decimalNumber :: "string \<Rightarrow> js_number" where
  "decimalNumber s = (let ds = takeWhile isDigit s; r = dropWhile isDigit s;
       (fs, r2) = (case r of [] \<Rightarrow> ([], [])
                   | c # r' \<Rightarrow> if c = CHR ''.'' then (takeWhile isDigit r', dropWhile isDigit r')
                               else ([], r))
     in if ds = [] \<and> fs = [] then NaN
        else case exponentOf r2 of None \<Rightarrow> NaN
             | Some e \<Rightarrow> Finite (scale (of_nat (digitsVal 10 (ds @ fs))) (e - int (length fs))))"

definition negateNumber :: "js_number \<Rightarrow> js_number" where
  "negateNumber n = (case n of NaN \<Rightarrow> NaN | Infinite b \<Rightarrow> Infinite (\<not> b) | Finite q \<Rightarrow> Finite (- q))"

definition unsignedNumber :: "string \<Rightarrow> js_number" where
  "unsignedNumber s = (if s = ''Infinity'' then Infinite True else decimalNumber s)"

definition Number :: "string \<Rightarrow> js_number" where
  "Number str = (case trim str of
       [] \<Rightarrow> Finite 0
     | c # r \<Rightarrow>
        if c = CHR ''-'' then negateNumber (unsignedNumber r)
        else if c = CHR ''+'' then unsignedNumber r
        else if c = CHR ''0'' \<and> r \<noteq> [] \<and> hd r \<in> {CHR ''x'', CHR ''X''} then radixNumber 16 (tl r)
        else if c = CHR ''0'' \<and> r \<noteq> [] \<and> hd r \<in> {CHR ''o'', CHR ''O''} then radixNumber 8 (tl r)
        else if c = CHR ''0'' \<and> r \<noteq> [] \<and> hd r \<in> {CHR ''b'', CHR ''B''} then radixNumber 2 (tl r)
        else unsignedNumber (c # r))"

definition mathRound :: "rat \<Rightarrow> int" where
  "mathRound x = \<lfloor>x + 1 / 2\<rfloor>"

definition int4 :: "int \<Rightarrow> bool" where
  "int4 n \<longleftrightarrow> - 2147483648 \<le> n \<and> n \<le> 2147483647"

definition prismaInt :: "rat \<Rightarrow> int option" where
  "prismaInt x = (if of_int \<lfloor>x\<rfloor> = x \<and> int4 \<lfloor>x\<rfloor> then Some \<lfloor>x\<rfloor> else None)"

lemma Number_blank: "list_all isSpace s \<Longrightarrow> Number s = Finite 0"
proof -
  assume "list_all isSpace s"
  then have "\<forall>c\<in>set s. isSpace c" by (simp add: list_all_iff)
  then have "trim s = []" unfolding trim_def by (metis dropWhile.simps(1) dropWhile_eq_Nil_conv rev.simps(1))
  then show "Number s = Finite 0" by (simp add: Number_def)
qed

lemma floor_rat_numeral [simp]: "\<lfloor>numeral a / numeral b :: rat\<rfloor> = numeral a div numeral b"
  using floor_divide_of_int_eq [of "numeral a" "numeral b", where 'a = rat] by simp

lemma floor_rat_one_numeral [simp]: "\<lfloor>1 / numeral b :: rat\<rfloor> = 1 div numeral b"
  using floor_divide_of_int_eq [of 1 "numeral b", where 'a = rat] by simp

lemma mathRound_percent:
  "mathRound (of_int a * of_int p / 100) = (a * p + 50) div 100"
proof -
  have "of_int a * of_int p / 100 + 1 / 2 = (of_int (a * p + 50) / of_int 100 :: rat)"
    by (simp add: field_simps)
  then show ?thesis unfolding mathRound_def by (simp only: floor_divide_of_int_eq)
qed

lemma mathRound_of_int [simp]: "mathRound (of_int n) = n"
  unfolding mathRound_def by linarith

lemma mathRound_mono: "x \<le> y \<Longrightarrow> mathRound x \<le> mathRound y"
  unfolding mathRound_def by (intro floor_mono) simp

lemma mathRound_bounds: "x - 1 / 2 < of_int (mathRound x) \<and> of_int (mathRound x) \<le> x + 1 / 2"
  unfolding mathRound_def by linarith

lemma prismaInt_Some_iff: "prismaInt x = Some n \<longleftrightarrow> x = of_int n \<and> int4 n"
  unfolding prismaInt_def by auto

end
