(* ===== verification/Profiles.thy ===== *)
theory Profiles
  imports Schema Js_Number
begin

text \<open>
  What every service reads first: the caller's profiles (src/src/profiles/profiles.repository.ts),
  the platform settings (the adapter of the PlatformSettingPort) and, on the Engagement row, the
  party the caller is.  The party resolution of the chat, appointment, cash payment and financial
  summary services is the same code four times over with each module's own role enum; it is
  \<^theory_text>\<open>tryResolveParty\<close> here, instantiated in the theories of those components.
  The locale \<^theory_text>\<open>party_access\<close> states the contract those services rely on.
\<close>

section \<open>Profiles and settings\<close>

definition findCustomerProfileByUserId :: "db \<Rightarrow> id \<Rightarrow> CustomerProfile option" where
  "findCustomerProfileByUserId db userId =
     findRow (\<lambda>p. cp_userId p = userId) (customerProfiles db)"

definition findProfessionalProfileByUserId :: "db \<Rightarrow> id \<Rightarrow> ProfessionalProfile option" where
  "findProfessionalProfileByUserId db userId =
     findRow (\<lambda>p. pp_userId p = userId) (professionalProfiles db)"

definition findCustomerProfileById :: "db \<Rightarrow> id \<Rightarrow> CustomerProfile option" where
  "findCustomerProfileById db i = findRow (\<lambda>p. cp_id p = i) (customerProfiles db)"

definition incrementCustomerNoShowReportedCount :: "id \<Rightarrow> db \<Rightarrow> err + db" where
  "incrementCustomerNoShowReportedCount i db =
     (if countWhere (\<lambda>p. cp_id p = i) (customerProfiles db) = 0 then Inl RECORD_NOT_FOUND
      else Inr (db\<lparr>customerProfiles := updateMany (\<lambda>p. cp_id p = i)
             (\<lambda>p. p\<lparr>cp_noShowReportedCount := cp_noShowReportedCount p + 1\<rparr>) (customerProfiles db)\<rparr>))"

definition incrementProfessionalNoShowReportedCount :: "id \<Rightarrow> db \<Rightarrow> err + db" where
  "incrementProfessionalNoShowReportedCount i db =
     (if countWhere (\<lambda>p. pp_id p = i) (professionalProfiles db) = 0 then Inl RECORD_NOT_FOUND
      else Inr (db\<lparr>professionalProfiles := updateMany (\<lambda>p. pp_id p = i)
             (\<lambda>p. p\<lparr>pp_noShowReportedCount := pp_noShowReportedCount p + 1\<rparr>) (professionalProfiles db)\<rparr>))"

definition findSettingByKey :: "db \<Rightarrow> string \<Rightarrow> PlatformSetting option" where
  "findSettingByKey db key = findRow (\<lambda>s. ps_key s = key) (platformSettings db)"

definition isEnabled :: "db \<Rightarrow> string \<Rightarrow> bool" where
  "isEnabled db key = (case findSettingByKey db key of
       None \<Rightarrow> True
     | Some row \<Rightarrow> ps_value row = Some ''true'')"

definition getValue :: "db \<Rightarrow> string \<Rightarrow> string option" where
  "getValue db key = (case findSettingByKey db key of
       None \<Rightarrow> None
     | Some row \<Rightarrow> if \<not> ps_isEncrypted row then ps_value row else ps_secret row)"

section \<open>Parties of an engagement\<close>

definition findEngagementById :: "db \<Rightarrow> id \<Rightarrow> Engagement option" where
  "findEngagementById db i = findRow (\<lambda>e. eng_id e = i) (engagements db)"

definition ownsAsCustomer :: "db \<Rightarrow> id \<Rightarrow> Engagement \<Rightarrow> bool" where
  "ownsAsCustomer db userId e = (case findCustomerProfileByUserId db userId of
       None \<Rightarrow> False | Some p \<Rightarrow> eng_customerProfileId e = cp_id p)"

definition ownsAsProfessional :: "db \<Rightarrow> id \<Rightarrow> Engagement \<Rightarrow> bool" where
  "ownsAsProfessional db userId e = (case findProfessionalProfileByUserId db userId of
       None \<Rightarrow> False | Some p \<Rightarrow> eng_professionalProfileId e = pp_id p)"

record 'role PartyResolution =
  party_role :: 'role
  party_engagement :: Engagement
  party_customerProfileId :: "id option"
  party_professionalProfileId :: "id option"

definition tryResolveParty ::
  "'role \<Rightarrow> 'role \<Rightarrow> db \<Rightarrow> id \<Rightarrow> id \<Rightarrow> 'role PartyResolution option" where
  "tryResolveParty customerRole professionalRole db userId engagementId =
     (case findEngagementById db engagementId of
        None \<Rightarrow> None
      | Some engagement \<Rightarrow>
          if ownsAsCustomer db userId engagement then
            Some \<lparr>party_role = customerRole, party_engagement = engagement,
                  party_customerProfileId = Some (eng_customerProfileId engagement),
                  party_professionalProfileId = None\<rparr>
          else if ownsAsProfessional db userId engagement then
            Some \<lparr>party_role = professionalRole, party_engagement = engagement,
                  party_customerProfileId = None,
                  party_professionalProfileId = Some (eng_professionalProfileId engagement)\<rparr>
          else None)"

definition isPartyTo :: "db \<Rightarrow> id \<Rightarrow> id \<Rightarrow> bool" where
  "isPartyTo db userId engagementId = (case findEngagementById db engagementId of
       None \<Rightarrow> False
     | Some e \<Rightarrow> ownsAsCustomer db userId e \<or> ownsAsProfessional db userId e)"

locale party_access =
  fixes resolve :: "db \<Rightarrow> id \<Rightarrow> id \<Rightarrow> 'p option"
    and actsAsCustomer :: "'p \<Rightarrow> bool"
    and engagementOf :: "'p \<Rightarrow> Engagement"
  assumes resolve_engagement:
      "resolve db u e = Some p \<Longrightarrow> findEngagementById db e = Some (engagementOf p)"
    and resolve_customer:
      "resolve db u e = Some p \<Longrightarrow> actsAsCustomer p \<longleftrightarrow> ownsAsCustomer db u (engagementOf p)"
    and resolve_professional:
      "resolve db u e = Some p \<Longrightarrow> \<not> actsAsCustomer p \<Longrightarrow> ownsAsProfessional db u (engagementOf p)"
    and resolve_complete: "isPartyTo db u e \<Longrightarrow> resolve db u e \<noteq> None"
begin

lemma resolve_sound: "resolve db u e = Some p \<Longrightarrow> isPartyTo db u e"
  using resolve_engagement [of db u e p] resolve_customer [of db u e p]
    resolve_professional [of db u e p]
  by (auto simp: isPartyTo_def)

lemma outsider_iff: "resolve db u e = None \<longleftrightarrow> \<not> isPartyTo db u e"
  using resolve_sound [of db u e] resolve_complete [of db u e] by (cases "resolve db u e") auto

lemma same_engagement:
  "resolve db u e = Some p \<Longrightarrow> resolve db v e = Some q \<Longrightarrow> engagementOf p = engagementOf q"
  using resolve_engagement [of db u e p] resolve_engagement [of db v e q] by simp

end

lemma findEngagementById_SomeD:
  "findEngagementById db i = Some e \<Longrightarrow> e \<in> set (engagements db) \<and> eng_id e = i"
  unfolding findEngagementById_def by (rule findRow_SomeD)

lemma tryResolveParty_party_access:
  assumes "customerRole \<noteq> professionalRole"
  shows "party_access (tryResolveParty customerRole professionalRole)
           (\<lambda>p. party_role p = customerRole) party_engagement"
  using assms
  by unfold_locales (auto simp: tryResolveParty_def isPartyTo_def split: option.splits if_splits)

lemma tryResolveParty_SomeD:
  assumes "tryResolveParty c r db u i = Some p"
  shows "findEngagementById db i = Some (party_engagement p)"
    and "party_role p = c \<or> party_role p = r"
  using assms by (auto simp: tryResolveParty_def split: option.splits if_splits)

definition orThrow :: "err \<Rightarrow> 'a option \<Rightarrow> err + 'a" where
  "orThrow e m = (case m of None \<Rightarrow> Inl e | Some a \<Rightarrow> Inr a)"

lemma orThrow_Inr_iff: "orThrow e m = Inr a \<longleftrightarrow> m = Some a"
  by (cases m) (simp_all add: orThrow_def)

lemma orThrow_simps [simp]:
  "orThrow e None = Inl e" "orThrow e (Some a) = Inr a"
  by (simp_all add: orThrow_def)

end
