(* ===== verification/Media_Uploads.thy ===== *)
theory Media_Uploads
  imports Profiles
begin

text \<open>
  Single-use image references (src/src/media-uploads): a reference is issued with an intended use
  and an expiry, is usable by its owner while it is PENDING and not expired, and is spent by a
  guarded update that affects only PENDING rows.  The storage service that signs upload urls is
  not part of the repository and is a parameter; the storageKey column, written and never read by
  the services here, is left out.
\<close>

definition ALLOWED_MEDIA_CONTENT_TYPES :: "string list" where
  "ALLOWED_MEDIA_CONTENT_TYPES =
     [''image/jpeg'', ''image/png'', ''image/webp'', ''image/gif'', ''image/heic'', ''image/heif'']"

record UploadTarget =
  ut_uploadUrl :: string
  ut_publicUrl :: string
  ut_expiresAt :: time

record UploadUrl =
  uu_ref :: id
  uu_uploadUrl :: string
  uu_fileUrl :: string
  uu_expiresAt :: time

definition createRef ::
  "id \<Rightarrow> string \<Rightarrow> MediaUploadRefIntendedUse \<Rightarrow> time \<Rightarrow> db \<Rightarrow> id \<times> db" where
  "createRef userId fileUrl use expiresAt db =
     (nextId db, db\<lparr>nextId := Suc (nextId db), mediaUploadRefs := mediaUploadRefs db @
        [\<lparr>mref_id = nextId db, mref_userId = userId, mref_fileUrl = fileUrl, mref_intendedUse = use,
          mref_status = UploadRefStatus.PENDING, mref_expiresAt = expiresAt, mref_consumedAt = None\<rparr>]\<rparr>)"

definition mediaRefUsable :: "time \<Rightarrow> id \<Rightarrow> MediaUploadRefIntendedUse \<Rightarrow> MediaUploadRef \<Rightarrow> bool" where
  "mediaRefUsable now userId use r \<longleftrightarrow> mref_userId r = userId
     \<and> mref_status r = UploadRefStatus.PENDING \<and> mref_expiresAt r > now \<and> mref_intendedUse r = use"

definition findUsablePendingRefs ::
  "time \<Rightarrow> id \<Rightarrow> id list \<Rightarrow> MediaUploadRefIntendedUse \<Rightarrow> db \<Rightarrow> MediaUploadRef list" where
  "findUsablePendingRefs now userId refIds use db =
     filter (\<lambda>r. mref_id r \<in> set refIds \<and> mediaRefUsable now userId use r) (mediaUploadRefs db)"

definition consumeMediaRef :: "time \<Rightarrow> MediaUploadRef \<Rightarrow> MediaUploadRef" where
  "consumeMediaRef now r = r\<lparr>mref_status := UploadRefStatus.CONSUMED, mref_consumedAt := Some now\<rparr>"

definition pendingAmong :: "id list \<Rightarrow> MediaUploadRef \<Rightarrow> bool" where
  "pendingAmong refIds r \<longleftrightarrow> mref_id r \<in> set refIds \<and> mref_status r = UploadRefStatus.PENDING"

definition markConsumed :: "time \<Rightarrow> id list \<Rightarrow> db \<Rightarrow> nat \<times> db" where
  "markConsumed now refIds db = (countWhere (pendingAmong refIds) (mediaUploadRefs db),
     db\<lparr>mediaUploadRefs := updateMany (pendingAmong refIds) (consumeMediaRef now) (mediaUploadRefs db)\<rparr>)"

definition requestMediaUploadUrl ::
  "(string \<Rightarrow> string \<Rightarrow> UploadTarget) \<Rightarrow> id \<Rightarrow> string \<Rightarrow> string \<Rightarrow> MediaUploadRefIntendedUse \<Rightarrow> db
     \<Rightarrow> err + UploadUrl \<times> db" where
  "requestMediaUploadUrl createUploadUrl userId fileName contentType use db =
     (if contentType \<notin> set ALLOWED_MEDIA_CONTENT_TYPES then Inl UNSUPPORTED_MEDIA_CONTENT_TYPE
      else let target = createUploadUrl fileName contentType;
               (ref, db') = createRef userId (ut_publicUrl target) use (ut_expiresAt target) db
        in Inr (\<lparr>uu_ref = ref, uu_uploadUrl = ut_uploadUrl target, uu_fileUrl = ut_publicUrl target,
                 uu_expiresAt = ut_expiresAt target\<rparr>, db'))"

section \<open>Single use\<close>

interpretation media_ref: guarded_change mref_id mref_status
  "\<lambda>s. s = UploadRefStatus.PENDING" "UploadRefStatus.CONSUMED" "consumeMediaRef now" for now
  by unfold_locales (simp_all add: consumeMediaRef_def)

lemma pendingAmong_single:
  "pendingAmong [i] = guard mref_id mref_status (\<lambda>s. s = UploadRefStatus.PENDING) i"
  by (rule ext) (simp add: pendingAmong_def guard_def)

lemma pendingAmong_consumed [simp]: "\<not> pendingAmong ids (consumeMediaRef now r)"
  by (simp add: pendingAmong_def consumeMediaRef_def)

lemma markConsumed_frame:
  "markConsumed now ids db = (n, db') \<Longrightarrow> db' = db\<lparr>mediaUploadRefs := mediaUploadRefs db'\<rparr>"
  by (auto simp: markConsumed_def)

lemma markConsumed_twice:
  assumes "markConsumed now ids db = (n, db')" "set ids' \<subseteq> set ids"
  shows "fst (markConsumed now' ids' db') = 0"
  using assms by (auto simp: markConsumed_def countWhere_0_iff set_updateMany pendingAmong_def consumeMediaRef_def)

lemma markConsumed_counts_all:
  assumes "markConsumed now ids db = (length ids, db')" "distinct ids" "distinct (map mref_id (mediaUploadRefs db))"
  shows "\<forall>i\<in>set ids. \<exists>r\<in>set (mediaUploadRefs db). mref_id r = i \<and> mref_status r = UploadRefStatus.PENDING"
proof -
  let ?R = "filter (pendingAmong ids) (mediaUploadRefs db)"
  have len: "length ?R = length ids" using assms(1) by (simp add: markConsumed_def countWhere_def)
  have d: "distinct (map mref_id ?R)" using assms(3) by (simp add: distinct_map_filter)
  have sub: "set (map mref_id ?R) \<subseteq> set ids" by (auto simp: pendingAmong_def)
  have "card (set (map mref_id ?R)) = length ids"
    using distinct_card [OF d] len by simp
  then have "set (map mref_id ?R) = set ids"
    using sub distinct_card [OF assms(2)] by (metis card_subset_eq List.finite_set)
  then have "\<forall>i\<in>set ids. \<exists>r\<in>set ?R. mref_id r = i" by force
  then show ?thesis by (simp add: pendingAmong_def) blast
qed

end
