(* ===== verification/Categories.thy ===== *)
theory Categories
  imports Profiles
begin

text \<open>
  The category tree (the Category part of src/src/profiles/profiles.repository.ts and
  src/src/platform-admin/categories): the breadth-first search for the descendants of a set of
  categories, which serves both the matching of service requests to professionals and the cycle
  check of a re-parenting, and the three admin operations with their audit rows.  The
  case-insensitive comparison of names is the database's and is a parameter
  (\<^theory_text>\<open>sameName\<close>).
\<close>

section \<open>Descendants\<close>

definition childIds :: "Category list \<Rightarrow> id \<Rightarrow> id list" where
  "childIds rows p = map cat_id (filter (\<lambda>c. cat_parentId c = Some p) rows)"

definition unvisitedRows :: "Category list \<Rightarrow> id list \<Rightarrow> Category list" where
  "unvisitedRows rows visited =
     filter (\<lambda>c. case cat_parentId c of None \<Rightarrow> False | Some p \<Rightarrow> p \<notin> set visited) rows"

lemma unvisitedRows_visit:
  assumes "c \<notin> set visited"
  shows "length (childIds rows c) + length (unvisitedRows rows (visited @ [c])) = length (unvisitedRows rows visited)"
  using assms by (induction rows) (auto simp: childIds_def unvisitedRows_def split: option.splits)

function bfs :: "Category list \<Rightarrow> id list \<Rightarrow> id list \<Rightarrow> id list" where
  "bfs rows visited [] = visited"
| "bfs rows visited (c # queue) =
     (if c \<in> set visited then bfs rows visited queue
      else bfs rows (visited @ [c]) (queue @ childIds rows c))"
  by pat_completeness auto
termination
proof (relation "measure (\<lambda>(rows, visited, queue). length queue + length (unvisitedRows rows visited))")
  show "((rows, visited @ [c], queue @ childIds rows c), rows, visited, c # queue)
      \<in> measure (\<lambda>(rows, visited, queue). length queue + length (unvisitedRows rows visited))"
    if "c \<notin> set visited" for rows visited c queue
    using unvisitedRows_visit [OF that, of rows] by simp
qed simp_all

definition findDescendantCategoryIds :: "db \<Rightarrow> id list \<Rightarrow> id list" where
  "findDescendantCategoryIds db categoryIds = bfs (categories db) [] categoryIds"

definition parentOf :: "Category list \<Rightarrow> (id \<times> id) set" where
  "parentOf rows = {(p, cat_id c) | p c. c \<in> set rows \<and> cat_parentId c = Some p}"

lemma in_childIds: "x \<in> set (childIds rows p) \<longleftrightarrow> (p, x) \<in> parentOf rows"
  by (auto simp: childIds_def parentOf_def)

lemma bfs_sound:
  assumes "\<forall>x\<in>set visited. \<exists>s\<in>S. (s, x) \<in> (parentOf rows)\<^sup>*" "\<forall>x\<in>set queue. \<exists>s\<in>S. (s, x) \<in> (parentOf rows)\<^sup>*"
  shows "\<forall>x\<in>set (bfs rows visited queue). \<exists>s\<in>S. (s, x) \<in> (parentOf rows)\<^sup>*"
  using assms
proof (induction rows visited queue rule: bfs.induct)
  case (2 rows visited c queue)
  have "\<forall>x\<in>set (childIds rows c). \<exists>s\<in>S. (s, x) \<in> (parentOf rows)\<^sup>*"
    using "2.prems"(2) by (auto simp: in_childIds) (meson rtrancl.rtrancl_into_rtrancl)
  then show ?case using 2 by (auto simp: ball_Un)
qed simp

lemma bfs_visited: "set visited \<union> set queue \<subseteq> set (bfs rows visited queue)"
proof (induction rows visited queue rule: bfs.induct)
  case (2 rows visited c queue)
  then show ?case by (cases "c \<in> set visited") auto
qed simp

lemma bfs_closed:
  assumes "\<forall>p\<in>set visited. \<forall>x. (p, x) \<in> parentOf rows \<longrightarrow> x \<in> set visited \<union> set queue"
  shows "\<forall>p\<in>set (bfs rows visited queue). \<forall>x. (p, x) \<in> parentOf rows \<longrightarrow> x \<in> set (bfs rows visited queue)"
  using assms
proof (induction rows visited queue rule: bfs.induct)
  case (2 rows visited c queue)
  show ?case
  proof (cases "c \<in> set visited")
    case True
    then show ?thesis using "2.IH"(1) [OF True] "2.prems" by auto
  next
    case False
    have "\<forall>p\<in>set (visited @ [c]). \<forall>x. (p, x) \<in> parentOf rows
        \<longrightarrow> x \<in> set (visited @ [c]) \<union> set (queue @ childIds rows c)"
      using "2.prems" by (auto simp: in_childIds)
    then show ?thesis using "2.IH"(2) [OF False] False by simp
  qed
qed simp

lemma bfs_distinct: "distinct visited \<Longrightarrow> distinct (bfs rows visited queue)"
  by (induction rows visited queue rule: bfs.induct) auto

lemma bfs_eq_reachable:
  "set (bfs rows [] queue) = {x. \<exists>s\<in>set queue. (s, x) \<in> (parentOf rows)\<^sup>*}"
proof
  show "set (bfs rows [] queue) \<subseteq> {x. \<exists>s\<in>set queue. (s, x) \<in> (parentOf rows)\<^sup>*}"
    using bfs_sound [of "[]" "set queue" rows queue] by auto
  show "{x. \<exists>s\<in>set queue. (s, x) \<in> (parentOf rows)\<^sup>*} \<subseteq> set (bfs rows [] queue)"
  proof clarify
    fix x s
    assume s: "s \<in> set queue" and "(s, x) \<in> (parentOf rows)\<^sup>*"
    from this(2) show "x \<in> set (bfs rows [] queue)"
    proof (induction rule: rtrancl_induct)
      case base
      then show ?case using bfs_visited [of "[]" queue rows] s by auto
    next
      case (step y z)
      then show ?case using bfs_closed [of "[]" rows queue] by auto
    qed
  qed
qed

section \<open>Admin operations\<close>

definition findExistingCategoryIds :: "db \<Rightarrow> id list \<Rightarrow> id list" where
  "findExistingCategoryIds db ids = map cat_id (filter (\<lambda>c. cat_id c \<in> set ids) (categories db))"

definition findCategoryByIdForAdmin :: "db \<Rightarrow> id \<Rightarrow> Category option" where
  "findCategoryByIdForAdmin db i = findRow (\<lambda>c. cat_id c = i) (categories db)"

definition findCategoryByNameForAdmin :: "(string \<Rightarrow> string \<Rightarrow> bool) \<Rightarrow> db \<Rightarrow> string \<Rightarrow> Category option" where
  "findCategoryByNameForAdmin sameName db name = findRow (\<lambda>c. sameName (cat_name c) name) (categories db)"

definition writeAudit :: "id \<Rightarrow> string \<Rightarrow> string \<Rightarrow> id \<Rightarrow> db \<Rightarrow> db" where
  "writeAudit adminUserId action targetType targetKey db = db\<lparr>auditLog := auditLog db @
     [\<lparr>al_actorAdminUserId = adminUserId, al_action = action, al_targetType = targetType,
       al_targetKey = RowKey targetKey\<rparr>]\<rparr>"

definition createCategoryForAdmin :: "string \<Rightarrow> int \<Rightarrow> id option \<Rightarrow> db \<Rightarrow> err + Category \<times> db" where
  "createCategoryForAdmin name displayOrder parentId db =
     (if list_ex (\<lambda>c. cat_name c = name) (categories db) then Inl UNIQUE_VIOLATION
      else if (case parentId of None \<Rightarrow> False | Some p \<Rightarrow> findCategoryByIdForAdmin db p = None)
        then Inl FOREIGN_KEY_VIOLATION
      else let c = \<lparr>cat_id = nextId db, cat_name = name, cat_displayOrder = displayOrder, cat_parentId = parentId\<rparr>
           in Inr (c, db\<lparr>nextId := Suc (nextId db), categories := categories db @ [c]\<rparr>))"

definition createCategory ::
  "(string \<Rightarrow> string \<Rightarrow> bool) \<Rightarrow> id \<Rightarrow> string \<Rightarrow> int option \<Rightarrow> id option \<Rightarrow> db \<Rightarrow> err + Category \<times> db" where
  "createCategory sameName adminUserId rawName displayOrder parentId db =
     (let name = trim rawName in
      if findCategoryByNameForAdmin sameName db name \<noteq> None then Inl CATEGORY_NAME_TAKEN
      else if (case parentId of None \<Rightarrow> False | Some p \<Rightarrow> findCategoryByIdForAdmin db p = None)
        then Inl CATEGORY_NOT_FOUND
      else andThen (createCategoryForAdmin name (case displayOrder of None \<Rightarrow> 0 | Some d \<Rightarrow> d) parentId db)
        (\<lambda>(created, db'). Inr (created,
           writeAudit adminUserId ''CATEGORY_CREATED'' ''Category'' (cat_id created) db')))"

text \<open>The input of an update: a field that is \<^theory_text>\<open>None\<close> was not submitted; a parent may be
  submitted as null.\<close>

record UpdateCategoryInput =
  in_name :: "string option"
  in_displayOrder :: "int option"
  in_parentId :: "id option option"

definition nameChange :: "UpdateCategoryInput \<Rightarrow> Category \<Rightarrow> string option" where
  "nameChange input existing = (case in_name input of None \<Rightarrow> None
     | Some n \<Rightarrow> if trim n \<noteq> cat_name existing then Some (trim n) else None)"

definition orderChange :: "UpdateCategoryInput \<Rightarrow> Category \<Rightarrow> int option" where
  "orderChange input existing = (case in_displayOrder input of None \<Rightarrow> None
     | Some d \<Rightarrow> if d \<noteq> cat_displayOrder existing then Some d else None)"

definition parentChange :: "UpdateCategoryInput \<Rightarrow> Category \<Rightarrow> id option option" where
  "parentChange input existing = (case in_parentId input of None \<Rightarrow> None
     | Some p \<Rightarrow> if p \<noteq> cat_parentId existing then Some p else None)"

definition checkParent :: "db \<Rightarrow> id \<Rightarrow> id \<Rightarrow> err option" where
  "checkParent db i newParent =
     (if newParent = i then Some CATEGORY_PARENT_CYCLE
      else if findCategoryByIdForAdmin db newParent = None then Some CATEGORY_NOT_FOUND
      else if newParent \<in> set (findDescendantCategoryIds db [i]) then Some CATEGORY_PARENT_CYCLE
      else None)"

definition updateCategory_pre ::
  "(string \<Rightarrow> string \<Rightarrow> bool) \<Rightarrow> id \<Rightarrow> UpdateCategoryInput \<Rightarrow> db \<Rightarrow> err + Category" where
  "updateCategory_pre sameName i input db = (case findCategoryByIdForAdmin db i of
       None \<Rightarrow> Inl CATEGORY_NOT_FOUND
     | Some existing \<Rightarrow>
        if (case nameChange input existing of None \<Rightarrow> False
            | Some n \<Rightarrow> (case findCategoryByNameForAdmin sameName db n of None \<Rightarrow> False
                | Some d \<Rightarrow> cat_id d \<noteq> i)) then Inl CATEGORY_NAME_TAKEN
        else case parentChange input existing of
            Some (Some p) \<Rightarrow> (case checkParent db i p of Some e \<Rightarrow> Inl e | None \<Rightarrow> Inr existing)
          | _ \<Rightarrow> Inr existing)"

definition applyCategoryChange ::
  "string option \<Rightarrow> int option \<Rightarrow> id option option \<Rightarrow> Category \<Rightarrow> Category" where
  "applyCategoryChange n d p c = c\<lparr>cat_name := (case n of None \<Rightarrow> cat_name c | Some x \<Rightarrow> x),
     cat_displayOrder := (case d of None \<Rightarrow> cat_displayOrder c | Some x \<Rightarrow> x),
     cat_parentId := (case p of None \<Rightarrow> cat_parentId c | Some x \<Rightarrow> x)\<rparr>"

definition updateCategory_tx :: "id \<Rightarrow> id \<Rightarrow> UpdateCategoryInput \<Rightarrow> Category \<Rightarrow> db \<Rightarrow> err + db" where
  "updateCategory_tx adminUserId i input existing db =
     (let n = nameChange input existing; d = orderChange input existing; p = parentChange input existing in
      if n = None \<and> d = None \<and> p = None then Inr db
      else if findCategoryByIdForAdmin db i = None then Inl RECORD_NOT_FOUND
      else if (case n of None \<Rightarrow> False | Some x \<Rightarrow> list_ex (\<lambda>c. cat_name c = x \<and> cat_id c \<noteq> i) (categories db))
        then Inl UNIQUE_VIOLATION
      else if (case p of Some (Some q) \<Rightarrow> findCategoryByIdForAdmin db q = None | _ \<Rightarrow> False)
        then Inl FOREIGN_KEY_VIOLATION
      else Inr (writeAudit adminUserId ''CATEGORY_UPDATED'' ''Category'' i
        (db\<lparr>categories := updateMany (\<lambda>c. cat_id c = i) (applyCategoryChange n d p) (categories db)\<rparr>)))"

definition updateCategory ::
  "(string \<Rightarrow> string \<Rightarrow> bool) \<Rightarrow> id \<Rightarrow> id \<Rightarrow> UpdateCategoryInput \<Rightarrow> db \<Rightarrow> err + db" where
  "updateCategory sameName adminUserId i input db =
     andThen (updateCategory_pre sameName i input db) (\<lambda>existing. updateCategory_tx adminUserId i input existing db)"

definition countByCategoryId :: "db \<Rightarrow> id \<Rightarrow> nat" where
  "countByCategoryId db i = countWhere (\<lambda>s. sr_categoryId s = i) (serviceRequests db)"

definition countSpecializationsByCategoryId :: "db \<Rightarrow> id \<Rightarrow> nat" where
  "countSpecializationsByCategoryId db i =
     sum_list (map (\<lambda>p. countWhere (\<lambda>c. c = i) (pp_categoryIds p)) (professionalProfiles db))"

definition countChildCategories :: "db \<Rightarrow> id \<Rightarrow> nat" where
  "countChildCategories db i = countWhere (\<lambda>c. cat_parentId c = Some i) (categories db)"

definition deleteCategory :: "id \<Rightarrow> id \<Rightarrow> db \<Rightarrow> err + db" where
  "deleteCategory adminUserId i db =
     (if findCategoryByIdForAdmin db i = None then Inl CATEGORY_NOT_FOUND
      else if countChildCategories db i > 0 then Inl CATEGORY_IN_USE
      else if countByCategoryId db i > 0 then Inl CATEGORY_IN_USE
      else if countSpecializationsByCategoryId db i > 0 then Inl CATEGORY_IN_USE
      else let db' = writeAudit adminUserId ''CATEGORY_DELETED'' ''Category'' i db
           in Inr (db'\<lparr>categories := filter (\<lambda>c. cat_id c \<noteq> i) (categories db')\<rparr>))"

section \<open>The tree invariant\<close>

definition categoriesOk :: "db \<Rightarrow> bool" where
  "categoriesOk db \<longleftrightarrow> acyclic (parentOf (categories db))
     \<and> distinct (map cat_id (categories db))
     \<and> (\<forall>c\<in>set (categories db). cat_id c < nextId db \<and>
          (\<forall>p. cat_parentId c = Some p \<longrightarrow> p \<in> cat_id ` set (categories db)))"

lemma findCategory_Some_iff:
  "findCategoryByIdForAdmin db i \<noteq> None \<longleftrightarrow> i \<in> cat_id ` set (categories db)"
  by (auto simp: findCategoryByIdForAdmin_def findRow_None_iff)

lemma parentOf_update:
  "parentOf (updateMany (\<lambda>c. cat_id c = i) (applyCategoryChange n d p) rows) \<subseteq>
     (case p of Some (Some q) \<Rightarrow> insert (q, i) (parentOf rows) | _ \<Rightarrow> parentOf rows)"
  by (auto simp: parentOf_def set_updateMany applyCategoryChange_def split: option.splits)

lemma applyCategoryChange_id [simp]: "cat_id (applyCategoryChange n d p c) = cat_id c"
  by (simp add: applyCategoryChange_def)

lemma ids_update: "cat_id ` set (updateMany q (applyCategoryChange n d p) rows) = cat_id ` set rows"
  by (metis applyCategoryChange_id list.set_map map_key_updateMany)

lemma checkParent_None:
  assumes "checkParent db i q = None"
  shows "(i, q) \<notin> (parentOf (categories db))\<^sup>*"
  using assms bfs_eq_reachable [of "categories db" "[i]"]
  by (auto simp: checkParent_def findDescendantCategoryIds_def split: if_splits)

lemma updateCategory_tx_effect:
  assumes "updateCategory_tx a i input existing db = Inr db'"
  shows "db' = db \<or> (categories db' = updateMany (\<lambda>c. cat_id c = i) (applyCategoryChange
           (nameChange input existing) (orderChange input existing) (parentChange input existing)) (categories db)
      \<and> nextId db' = nextId db
      \<and> (case parentChange input existing of Some (Some q) \<Rightarrow> q \<in> cat_id ` set (categories db) | _ \<Rightarrow> True))"
  using assms findCategory_Some_iff [of db]
  by (auto simp: updateCategory_tx_def Let_def writeAudit_def split: if_splits option.splits)

lemma updateCategory_acyclic:
  assumes "acyclic (parentOf (categories db))" "updateCategory eq a i input db = Inr db'"
  shows "acyclic (parentOf (categories db'))"
proof -
  obtain existing where pre: "updateCategory_pre eq i input db = Inr existing"
    and tx: "updateCategory_tx a i input existing db = Inr db'"
    using assms(2) by (auto simp: updateCategory_def andThen_Inr_iff)
  let ?p = "parentChange input existing"
  have chk: "(i, q) \<notin> (parentOf (categories db))\<^sup>*" if "?p = Some (Some q)" for q
    using pre that checkParent_None by (auto simp: updateCategory_pre_def split: option.splits if_splits)
  have ac: "acyclic (case ?p of Some (Some q) \<Rightarrow> insert (q, i) (parentOf (categories db)) | _ \<Rightarrow> parentOf (categories db))"
    using assms(1) chk by (auto split: option.splits)
  from updateCategory_tx_effect [OF tx]
  show ?thesis
  proof (elim disjE conjE)
    assume e: "categories db' = updateMany (\<lambda>c. cat_id c = i) (applyCategoryChange
           (nameChange input existing) (orderChange input existing) ?p) (categories db)"
    show ?thesis unfolding e by (rule acyclic_subset [OF ac parentOf_update])
  qed (use assms(1) in simp)
qed

lemma updateCategory_ok:
  assumes "categoriesOk db" "updateCategory eq a i input db = Inr db'"
  shows "categoriesOk db'"
proof -
  have ac: "acyclic (parentOf (categories db'))"
    using updateCategory_acyclic assms by (auto simp: categoriesOk_def)
  obtain existing where tx: "updateCategory_tx a i input existing db = Inr db'"
    using assms(2) by (auto simp: updateCategory_def andThen_Inr_iff)
  let ?p = "parentChange input existing"
  from updateCategory_tx_effect [OF tx]
  show ?thesis
  proof (elim disjE conjE)
    assume e: "categories db' = updateMany (\<lambda>c. cat_id c = i) (applyCategoryChange
           (nameChange input existing) (orderChange input existing) ?p) (categories db)"
      and n: "nextId db' = nextId db"
      and q: "case ?p of Some (Some q) \<Rightarrow> q \<in> cat_id ` set (categories db) | _ \<Rightarrow> True"
    have "\<forall>c\<in>set (categories db'). cat_id c < nextId db' \<and>
        (\<forall>p. cat_parentId c = Some p \<longrightarrow> p \<in> cat_id ` set (categories db'))"
      unfolding e ids_update n using assms(1) q
      by (auto simp: set_updateMany categoriesOk_def applyCategoryChange_def split: option.splits)
    then show ?thesis using ac assms(1)
      by (simp add: categoriesOk_def e map_key_updateMany)
  qed (use assms(1) in simp)
qed

lemma parentOf_snoc:
  "parentOf (rows @ [c]) =
     (case cat_parentId c of None \<Rightarrow> parentOf rows | Some p \<Rightarrow> insert (p, cat_id c) (parentOf rows))"
  by (auto simp: parentOf_def split: option.splits)

lemma createCategory_ok:
  assumes "categoriesOk db" "createCategory eq a nm ord par db = Inr (c, db')"
  shows "categoriesOk db'"
proof -
  let ?r = "parentOf (categories db)"
  have c: "categories db' = categories db @ [c]" "nextId db' = Suc (nextId db)" "cat_id c = nextId db"
      "\<forall>p. cat_parentId c = Some p \<longrightarrow> p \<in> cat_id ` set (categories db)"
    using assms(2) findCategory_Some_iff [of db]
    by (auto simp: createCategory_def createCategoryForAdmin_def andThen_Inr_iff Let_def writeAudit_def
        split: if_splits option.splits)
  have fresh: "nextId db \<notin> cat_id ` set (categories db)"
    using assms(1) by (auto simp: categoriesOk_def)
  have dom: "(nextId db, x) \<notin> ?r" for x
    using assms(1) fresh by (auto simp: categoriesOk_def parentOf_def)
  have "(nextId db, p) \<notin> ?r\<^sup>*" if "cat_parentId c = Some p" for p
    using that c(4) fresh dom by (metis converse_rtranclE)
  then have "acyclic (parentOf (categories db'))"
    using assms(1) c(1,3) by (simp add: categoriesOk_def parentOf_snoc split: option.split)
  then show ?thesis
    using assms(1) c fresh by (auto simp: categoriesOk_def less_Suc_eq)
qed

lemma deleteCategory_ok:
  assumes "categoriesOk db" "deleteCategory a i db = Inr db'"
  shows "categoriesOk db'"
proof -
  have d: "categories db' = filter (\<lambda>c. cat_id c \<noteq> i) (categories db)" "nextId db' = nextId db"
      "\<forall>c\<in>set (categories db). cat_parentId c \<noteq> Some i"
    using assms(2) by (auto simp: deleteCategory_def Let_def writeAudit_def countChildCategories_def
        countWhere_0_iff split: if_splits)
  have "parentOf (categories db') \<subseteq> parentOf (categories db)"
    by (auto simp: d(1) parentOf_def)
  then have "acyclic (parentOf (categories db'))"
    using assms(1) acyclic_subset by (auto simp: categoriesOk_def)
  moreover have "\<forall>c\<in>set (categories db'). \<forall>p. cat_parentId c = Some p \<longrightarrow> p \<in> cat_id ` set (categories db')"
    using assms(1) d(3) by (force simp: categoriesOk_def d(1))
  ultimately show ?thesis
    using assms(1) by (auto simp: categoriesOk_def d distinct_map_filter)
qed

end
