(* ===== verification/Service_Requests.thy ===== *)
theory Service_Requests
  imports Media_Uploads Categories
begin

text \<open>
  Service requests (src/src/service-requests): published OPEN with the attachments whose upload
  references the customer resolved, cancelled while OPEN, turned ENGAGED by the acceptance of a
  quote (theory Quotes).  The urgency column, which no operation reads, is left out.
\<close>

section \<open>Repository\<close>

definition findServiceRequestById :: "db \<Rightarrow> id \<Rightarrow> ServiceRequest option" where
  "findServiceRequestById db i = findRow (\<lambda>s. sr_id s = i) (serviceRequests db)"

definition srRefUsable :: "time \<Rightarrow> id \<Rightarrow> ServiceRequestAttachmentUploadRef \<Rightarrow> bool" where
  "srRefUsable now userId r \<longleftrightarrow> sref_userId r = userId \<and> sref_status r = UploadRefStatus.PENDING
     \<and> sref_expiresAt r > now"

definition findUsablePendingUploadRefs ::
  "time \<Rightarrow> id \<Rightarrow> id list \<Rightarrow> db \<Rightarrow> ServiceRequestAttachmentUploadRef list" where
  "findUsablePendingUploadRefs now userId refIds db =
     filter (\<lambda>r. sref_id r \<in> set refIds \<and> srRefUsable now userId r) (srUploadRefs db)"

definition createUploadRef :: "id \<Rightarrow> string \<Rightarrow> time \<Rightarrow> db \<Rightarrow> id \<times> db" where
  "createUploadRef userId fileUrl expiresAt db =
     (nextId db, db\<lparr>nextId := Suc (nextId db), srUploadRefs := srUploadRefs db @
        [\<lparr>sref_id = nextId db, sref_userId = userId, sref_fileUrl = fileUrl,
          sref_status = UploadRefStatus.PENDING, sref_expiresAt = expiresAt, sref_consumedAt = None,
          sref_serviceRequestId = None\<rparr>]\<rparr>)"

fun attachmentRows :: "id \<Rightarrow> id \<Rightarrow> nat \<Rightarrow> string list \<Rightarrow> Attachment list" where
  "attachmentRows i ownerId k [] = []"
| "attachmentRows i ownerId k (u # us) =
     \<lparr>att_id = i, att_ownerId = ownerId, att_url = u, att_order = k\<rparr> # attachmentRows (Suc i) ownerId (Suc k) us"

record PublishParams =
  pub_customerProfileId :: id
  pub_categoryId :: id
  pub_description :: string
  pub_indicativeBudgetMin :: "int option"
  pub_indicativeBudgetMax :: "int option"
  pub_attachmentRefs :: "ServiceRequestAttachmentUploadRef list"

definition consumeSrRef :: "time \<Rightarrow> id \<Rightarrow> ServiceRequestAttachmentUploadRef \<Rightarrow> ServiceRequestAttachmentUploadRef" where
  "consumeSrRef now sr r = r\<lparr>sref_status := UploadRefStatus.CONSUMED, sref_consumedAt := Some now,
     sref_serviceRequestId := Some sr\<rparr>"

definition publish_tx :: "time \<Rightarrow> PublishParams \<Rightarrow> db \<Rightarrow> err + ServiceRequest \<times> db" where
  "publish_tx now params db =
     (if findCategoryByIdForAdmin db (pub_categoryId params) = None then Inl FOREIGN_KEY_VIOLATION
      else let sr = \<lparr>sr_id = nextId db, sr_customerProfileId = pub_customerProfileId params,
               sr_categoryId = pub_categoryId params, sr_description = pub_description params,
               sr_indicativeBudgetMin = pub_indicativeBudgetMin params,
               sr_indicativeBudgetMax = pub_indicativeBudgetMax params,
               sr_status = ServiceRequestStatus.OPEN, sr_cancelledAt = None,
               sr_acceptedQuoteId = None, sr_createdAt = now\<rparr>;
          refs = pub_attachmentRefs params;
          db1 = db\<lparr>nextId := Suc (nextId db) + length refs, serviceRequests := serviceRequests db @ [sr],
                  srAttachments := srAttachments db
                    @ attachmentRows (Suc (nextId db)) (sr_id sr) 0 (map sref_fileUrl refs)\<rparr>;
          db2 = (if length refs > 0 then
                   db1\<lparr>srUploadRefs := updateMany (\<lambda>r. sref_id r \<in> set (map sref_id refs))
                         (consumeSrRef now (sr_id sr)) (srUploadRefs db1)\<rparr>
                 else db1)
      in Inr (sr, db2))"

abbreviation isOpen :: "id \<Rightarrow> ServiceRequest \<Rightarrow> bool" where
  "isOpen \<equiv> guard sr_id sr_status (\<lambda>s. s = ServiceRequestStatus.OPEN)"

definition cancelRequestRow :: "time \<Rightarrow> ServiceRequest \<Rightarrow> ServiceRequest" where
  "cancelRequestRow now s = s\<lparr>sr_status := ServiceRequestStatus.CANCELLED, sr_cancelledAt := Some now\<rparr>"

definition engageRequestRow :: "id \<Rightarrow> ServiceRequest \<Rightarrow> ServiceRequest" where
  "engageRequestRow quote s = s\<lparr>sr_status := ServiceRequestStatus.ENGAGED, sr_acceptedQuoteId := Some quote\<rparr>"

definition cancelRequest :: "time \<Rightarrow> id \<Rightarrow> db \<Rightarrow> nat \<times> db" where
  "cancelRequest now i db = (countWhere (isOpen i) (serviceRequests db),
     db\<lparr>serviceRequests := updateMany (isOpen i) (cancelRequestRow now) (serviceRequests db)\<rparr>)"

definition transitionToEngagedIfOpen :: "id \<Rightarrow> id \<Rightarrow> db \<Rightarrow> nat \<times> db" where
  "transitionToEngagedIfOpen i quote db = (countWhere (isOpen i) (serviceRequests db),
     db\<lparr>serviceRequests := updateMany (isOpen i) (engageRequestRow quote) (serviceRequests db)\<rparr>)"

definition newestRequests :: "ServiceRequest list \<Rightarrow> ServiceRequest list" where
  "newestRequests rows = sort_key (\<lambda>s. - sr_createdAt s) rows"

definition findManyCompatible :: "db \<Rightarrow> id list \<Rightarrow> ServiceRequest list" where
  "findManyCompatible db categoryIds = newestRequests
     (filter (\<lambda>s. sr_status s = ServiceRequestStatus.OPEN \<and> sr_categoryId s \<in> set categoryIds) (serviceRequests db))"

section \<open>Services\<close>

definition ALLOWED_ATTACHMENT_CONTENT_TYPES :: "string list" where
  "ALLOWED_ATTACHMENT_CONTENT_TYPES = [''image/jpeg'', ''image/png'', ''image/webp'', ''image/gif'',
     ''image/heic'', ''image/heif'', ''application/pdf'']"

definition requestAttachmentUploadUrl ::
  "(string \<Rightarrow> string \<Rightarrow> UploadTarget) \<Rightarrow> id \<Rightarrow> string \<Rightarrow> string \<Rightarrow> db \<Rightarrow> err + UploadUrl \<times> db" where
  "requestAttachmentUploadUrl createUploadUrl userId fileName contentType db =
     (if contentType \<notin> set ALLOWED_ATTACHMENT_CONTENT_TYPES then Inl UNSUPPORTED_ATTACHMENT_CONTENT_TYPE
      else let target = createUploadUrl fileName contentType;
               (ref, db') = createUploadRef userId (ut_publicUrl target) (ut_expiresAt target) db
        in Inr (\<lparr>uu_ref = ref, uu_uploadUrl = ut_uploadUrl target, uu_fileUrl = ut_publicUrl target,
                 uu_expiresAt = ut_expiresAt target\<rparr>, db'))"

text \<open>The code indexes the usable rows by id and reads each submitted id back with a non-null
  assertion; after the length check no id is missing (\<^theory_text>\<open>pickRefs_all\<close>).\<close>

definition pickRefs :: "('r \<Rightarrow> id) \<Rightarrow> 'r list \<Rightarrow> id list \<Rightarrow> 'r list" where
  "pickRefs key rows ids = concat (map (\<lambda>i. case findRow (\<lambda>r. key r = i) rows of
       None \<Rightarrow> [] | Some r \<Rightarrow> [r]) ids)"

definition resolveAttachmentRefs ::
  "time \<Rightarrow> id \<Rightarrow> id list \<Rightarrow> db \<Rightarrow> err + ServiceRequestAttachmentUploadRef list" where
  "resolveAttachmentRefs now userId refIds db =
     (if refIds = [] then Inr []
      else let usable = findUsablePendingUploadRefs now userId refIds db
        in if length usable \<noteq> length refIds then Inl INVALID_ATTACHMENT_UPLOAD_REF
           else Inr (pickRefs sref_id usable refIds))"

text \<open>An optional field of a request is absent (\<^theory_text>\<open>undefined\<close>), null or a
  value; a comparison takes null for 0.\<close>

datatype 'a supplied = Undefined | Null | Value 'a

definition orNull :: "'a supplied \<Rightarrow> 'a option" where
  "orNull f = (case f of Value a \<Rightarrow> Some a | _ \<Rightarrow> None)"

definition compared :: "int supplied \<Rightarrow> int" where
  "compared f = (case f of Value n \<Rightarrow> n | _ \<Rightarrow> 0)"

definition budgetRangeInvalid :: "int supplied \<Rightarrow> int supplied \<Rightarrow> bool" where
  "budgetRangeInvalid budgetMin budgetMax \<longleftrightarrow>
     budgetMin \<noteq> Undefined \<and> budgetMax \<noteq> Undefined \<and> compared budgetMin > compared budgetMax"

record PublishServiceRequestInput =
  psr_category :: id
  psr_description :: string
  psr_indicativeBudgetMin :: "int supplied"
  psr_indicativeBudgetMax :: "int supplied"
  psr_attachmentUploadRefs :: "id list"

definition publishServiceRequest_pre ::
  "time \<Rightarrow> id \<Rightarrow> PublishServiceRequestInput \<Rightarrow> db \<Rightarrow> err + PublishParams" where
  "publishServiceRequest_pre now userId input db = (case findCustomerProfileByUserId db userId of
       None \<Rightarrow> Inl CUSTOMER_PROFILE_REQUIRED
     | Some customerProfile \<Rightarrow>
        if findExistingCategoryIds db [psr_category input] = [] then Inl CATEGORY_NOT_FOUND
        else if budgetRangeInvalid (psr_indicativeBudgetMin input) (psr_indicativeBudgetMax input)
          then Inl INVALID_SERVICE_REQUEST_BUDGET_RANGE
        else andThen (resolveAttachmentRefs now userId (psr_attachmentUploadRefs input) db) (\<lambda>refs.
          Inr \<lparr>pub_customerProfileId = cp_id customerProfile, pub_categoryId = psr_category input,
               pub_description = psr_description input,
               pub_indicativeBudgetMin = orNull (psr_indicativeBudgetMin input),
               pub_indicativeBudgetMax = orNull (psr_indicativeBudgetMax input), pub_attachmentRefs = refs\<rparr>))"

definition publishServiceRequest ::
  "time \<Rightarrow> id \<Rightarrow> PublishServiceRequestInput \<Rightarrow> db \<Rightarrow> err + ServiceRequest \<times> db" where
  "publishServiceRequest now userId input db =
     andThen (publishServiceRequest_pre now userId input db) (\<lambda>params. publish_tx now params db)"

definition assertCancellable :: "ServiceRequestStatus \<Rightarrow> err option" where
  "assertCancellable s = (case s of
       ServiceRequestStatus.CANCELLED \<Rightarrow> Some SERVICE_REQUEST_ALREADY_CANCELLED
     | ServiceRequestStatus.ENGAGED \<Rightarrow> Some SERVICE_REQUEST_HAS_ENGAGEMENT
     | ServiceRequestStatus.OPEN \<Rightarrow> None)"

definition cancelServiceRequest_pre :: "db \<Rightarrow> id \<Rightarrow> id \<Rightarrow> err + ServiceRequest" where
  "cancelServiceRequest_pre db userId i = (case findCustomerProfileByUserId db userId of
       None \<Rightarrow> Inl CUSTOMER_PROFILE_REQUIRED
     | Some p \<Rightarrow> (case findServiceRequestById db i of
           None \<Rightarrow> Inl SERVICE_REQUEST_NOT_FOUND
         | Some existing \<Rightarrow>
            if sr_customerProfileId existing \<noteq> cp_id p then Inl SERVICE_REQUEST_NOT_FOUND
            else case assertCancellable (sr_status existing) of Some e \<Rightarrow> Inl e | None \<Rightarrow> Inr existing))"

text \<open>The guarded update, then on a lost race the re-read that says why.\<close>

definition cancelServiceRequest_tx :: "time \<Rightarrow> id \<Rightarrow> ServiceRequest \<Rightarrow> db \<Rightarrow> err + db" where
  "cancelServiceRequest_tx now i existing db =
     (let (count, db') = cancelRequest now i db
      in if count \<noteq> 1 then
           (case assertCancellable (case findServiceRequestById db' i of
                None \<Rightarrow> sr_status existing | Some current \<Rightarrow> sr_status current) of
              Some e \<Rightarrow> Inl e | None \<Rightarrow> Inl SERVICE_REQUEST_NOT_FOUND)
         else Inr db')"

definition cancelServiceRequest :: "time \<Rightarrow> id \<Rightarrow> id \<Rightarrow> db \<Rightarrow> err + db" where
  "cancelServiceRequest now userId i db =
     andThen (cancelServiceRequest_pre db userId i) (\<lambda>existing. cancelServiceRequest_tx now i existing db)"

definition listMyServiceRequests :: "db \<Rightarrow> id \<Rightarrow> ServiceRequest list" where
  "listMyServiceRequests db userId = (case findCustomerProfileByUserId db userId of
       None \<Rightarrow> []
     | Some p \<Rightarrow> newestRequests (filter (\<lambda>s. sr_customerProfileId s = cp_id p) (serviceRequests db)))"

definition listCompatibleServiceRequests :: "db \<Rightarrow> id \<Rightarrow> ServiceRequest list" where
  "listCompatibleServiceRequests db userId = (case findProfessionalProfileByUserId db userId of
       None \<Rightarrow> []
     | Some p \<Rightarrow> if pp_categoryIds p = [] then []
         else findManyCompatible db (findDescendantCategoryIds db (remdups (pp_categoryIds p))))"

section \<open>Facts\<close>

interpretation request_cancel: guarded_change sr_id sr_status
  "\<lambda>s. s = ServiceRequestStatus.OPEN" "ServiceRequestStatus.CANCELLED" "cancelRequestRow now" for now
  by unfold_locales (simp_all add: cancelRequestRow_def)

interpretation request_engage: guarded_change sr_id sr_status
  "\<lambda>s. s = ServiceRequestStatus.OPEN" "ServiceRequestStatus.ENGAGED" "engageRequestRow quote" for quote
  by unfold_locales (simp_all add: engageRequestRow_def)

lemma pickRefs_all:
  assumes d: "distinct (map key rows)" and sub: "set (map key rows) \<subseteq> set ids"
    and len: "length rows = length ids"
  shows "map key (pickRefs key rows ids) = ids"
proof -
  have c: "card (set (map key rows)) = length ids" using distinct_card [OF d] len by simp
  then have "card (set ids) = length ids"
    using card_mono [OF _ sub] card_length [of ids] by (simp add: le_antisym)
  then have eq: "set (map key rows) = set ids"
    using sub c by (simp add: card_subset_eq)
  have "map key (pickRefs key rows js) = js" if "set js \<subseteq> set (map key rows)" for js
    using that
  proof (induction js)
    case (Cons j js)
    then obtain r where "r \<in> set rows" "key r = j" by auto
    then have "findRow (\<lambda>r. key r = j) rows \<noteq> None" by (auto simp: findRow_None_iff)
    then show ?case using Cons by (auto simp: pickRefs_def dest: findRow_holds)
  qed (simp add: pickRefs_def)
  then show ?thesis using eq by simp
qed

lemma in_listCompatible:
  "s \<in> set (listCompatibleServiceRequests db userId) \<longleftrightarrow>
     (\<exists>p. findProfessionalProfileByUserId db userId = Some p \<and> s \<in> set (serviceRequests db)
        \<and> sr_status s = ServiceRequestStatus.OPEN
        \<and> (\<exists>c\<in>set (pp_categoryIds p). (c, sr_categoryId s) \<in> (parentOf (categories db))\<^sup>*))"
  by (cases "findProfessionalProfileByUserId db userId")
     (auto simp: listCompatibleServiceRequests_def findManyCompatible_def newestRequests_def
      findDescendantCategoryIds_def bfs_eq_reachable)

end
