(* ===== verification/Ledger.thy ===== *)
theory Ledger
  imports Profiles
begin

text \<open>
  The ledger (src/src/ledger): the append-only table of entries, the commission arithmetic, the four
  writers of financial events (digital payment, cash commission debt, customer cancellation charge,
  refund), the balances and the classification of an event's rows.  An entry is only ever appended;
  its receipt number is drawn from the table's sequence.  The locale \<^theory_text>\<open>event_writer\<close>
  is the contract the payment and cancellation services rely on: a writer either raises and changes
  nothing, or appends the rows of one event, all for the same engagement.
\<close>

section \<open>Commission arithmetic\<close>

record CommissionSplit =
  commission :: int
  net :: int

definition computeCommission :: "int \<Rightarrow> rat \<Rightarrow> CommissionSplit" where
  "computeCommission amount commissionPercent =
     (let c = mathRound (of_int amount * commissionPercent / 100)
      in \<lparr>commission = c, net = amount - c\<rparr>)"

lemma computeCommission_conserves:
  "commission (computeCommission a p) + net (computeCommission a p) = a"
  by (simp add: computeCommission_def Let_def)

lemma computeCommission_int:
  "commission (computeCommission a (of_int p)) = (a * p + 50) div 100"
  by (simp add: computeCommission_def Let_def mathRound_percent)

lemma computeCommission_range:
  assumes "0 \<le> a" "0 \<le> p" "p \<le> 100"
  shows "0 \<le> commission (computeCommission a p) \<and> commission (computeCommission a p) \<le> a
         \<and> 0 \<le> net (computeCommission a p) \<and> net (computeCommission a p) \<le> a"
proof -
  have "0 \<le> of_int a * p / 100" using assms by simp
  moreover have "of_int a * p / 100 \<le> of_int a"
  proof -
    have "of_int a * p \<le> of_int a * 100" using assms by (intro mult_left_mono) simp_all
    then show ?thesis by simp
  qed
  ultimately have "mathRound 0 \<le> mathRound (of_int a * p / 100)"
      "mathRound (of_int a * p / 100) \<le> mathRound (of_int a)"
    by (blast intro: mathRound_mono)+
  moreover have "mathRound 0 = 0" using mathRound_of_int [of 0] by simp
  ultimately show ?thesis by (simp add: computeCommission_def Let_def)
qed

section \<open>The table\<close>

definition appendEntry :: "LedgerEntry \<Rightarrow> db \<Rightarrow> db" where
  "appendEntry e db = db\<lparr>nextId := Suc (nextId db), nextReceipt := Suc (nextReceipt db),
     ledgerEntries := ledgerEntries db @ [e\<lparr>le_id := nextId db, le_receiptNumber := nextReceipt db\<rparr>]\<rparr>"

record LedgerParties =
  lp_engagementId :: id
  lp_currency :: string
  lp_customerProfileId :: id
  lp_professionalProfileId :: id

definition ledgerEntry ::
  "LedgerEntryType \<Rightarrow> int \<Rightarrow> LedgerParties \<Rightarrow> id option \<Rightarrow> int option \<Rightarrow> time \<Rightarrow> LedgerEntry" where
  "ledgerEntry t amount d prof percent createdAt =
     \<lparr>le_id = 0, le_receiptNumber = 0, le_type = t, le_amount = amount, le_currency = lp_currency d,
      le_engagementId = Some (lp_engagementId d), le_customerProfileId = Some (lp_customerProfileId d),
      le_professionalProfileId = prof, le_commissionPercentApplied = percent,
      le_createdAt = createdAt\<rparr>"

text \<open>Prisma rejects a value that is not a 32-bit integer before anything is written.\<close>

definition createEntry ::
  "LedgerEntryType \<Rightarrow> int \<Rightarrow> LedgerParties \<Rightarrow> id option \<Rightarrow> rat option \<Rightarrow> time \<Rightarrow> db \<Rightarrow> err + db" where
  "createEntry t amount d prof percent createdAt db =
     (if \<not> int4 amount then Inl PRISMA_VALIDATION
      else case percent of
          None \<Rightarrow> Inr (appendEntry (ledgerEntry t amount d prof None createdAt) db)
        | Some q \<Rightarrow> (case prismaInt q of
              None \<Rightarrow> Inl PRISMA_VALIDATION
            | Some n \<Rightarrow> Inr (appendEntry (ledgerEntry t amount d prof (Some n) createdAt) db)))"

definition createDigitalPaymentEntries ::
  "time \<Rightarrow> LedgerParties \<Rightarrow> int \<Rightarrow> int \<Rightarrow> int \<Rightarrow> rat \<Rightarrow> db \<Rightarrow> err + db" where
  "createDigitalPaymentEntries now d chargeAmount commissionAmount netAmount percent db =
     andThen (createEntry CUSTOMER_CHARGE (- chargeAmount) d (Some (lp_professionalProfileId d)) (Some percent) now db)
       (\<lambda>db. andThen (createEntry PLATFORM_COMMISSION commissionAmount d (Some (lp_professionalProfileId d)) (Some percent) now db)
         (\<lambda>db. createEntry PROFESSIONAL_NET_CREDIT netAmount d (Some (lp_professionalProfileId d)) (Some percent) now db))"

definition createCustomerCancellationChargeEntries ::
  "time \<Rightarrow> LedgerParties \<Rightarrow> int \<Rightarrow> int \<Rightarrow> int \<Rightarrow> rat \<Rightarrow> db \<Rightarrow> err + db" where
  "createCustomerCancellationChargeEntries now d feeAmount commissionAmount netAmount percent db =
     andThen (createEntry CUSTOMER_CANCELLATION_FEE (- feeAmount) d (Some (lp_professionalProfileId d)) (Some percent) now db)
       (\<lambda>db. andThen (createEntry PLATFORM_COMMISSION commissionAmount d (Some (lp_professionalProfileId d)) (Some percent) now db)
         (\<lambda>db. createEntry PROFESSIONAL_NET_CREDIT netAmount d (Some (lp_professionalProfileId d)) (Some percent) now db))"

definition createRefundEntry :: "time \<Rightarrow> LedgerParties \<Rightarrow> int \<Rightarrow> db \<Rightarrow> err + db" where
  "createRefundEntry now d amount db = createEntry REFUND amount d None None now db"

definition createCashCommissionDebtEntry :: "time \<Rightarrow> LedgerParties \<Rightarrow> int \<Rightarrow> rat \<Rightarrow> db \<Rightarrow> err + db" where
  "createCashCommissionDebtEntry now d amount percent db =
     createEntry CASH_COMMISSION_DEBT amount d (Some (lp_professionalProfileId d)) (Some percent) now db"

section \<open>The event writers\<close>

definition COMMISSION_PERCENT_SETTING_KEY :: string where
  "COMMISSION_PERCENT_SETTING_KEY = ''payments.general-settings.commission.percent''"

text \<open>An infinite percentage is not NaN, so the services go on with it and Prisma rejects the
  first row.\<close>

definition readCommissionPercent :: "db \<Rightarrow> err + rat" where
  "readCommissionPercent db = (case getValue db COMMISSION_PERCENT_SETTING_KEY of
       None \<Rightarrow> Inl LEDGER_COMMISSION_MISCONFIGURED
     | Some raw \<Rightarrow> (case Number raw of
           NaN \<Rightarrow> Inl LEDGER_COMMISSION_MISCONFIGURED
         | Infinite _ \<Rightarrow> Inl PRISMA_VALIDATION
         | Finite percent \<Rightarrow> Inr percent))"

definition recordDigitalPayment :: "time \<Rightarrow> LedgerParties \<Rightarrow> int \<Rightarrow> db \<Rightarrow> err + db" where
  "recordDigitalPayment now d quotedPrice db =
     andThen (readCommissionPercent db) (\<lambda>percent.
       let s = computeCommission quotedPrice percent
       in createDigitalPaymentEntries now d quotedPrice (commission s) (net s) percent db)"

definition recordCommissionDebt :: "time \<Rightarrow> LedgerParties \<Rightarrow> int \<Rightarrow> db \<Rightarrow> err + db" where
  "recordCommissionDebt now d quotedPrice db =
     andThen (readCommissionPercent db) (\<lambda>percent.
       createCashCommissionDebtEntry now d (commission (computeCommission quotedPrice percent)) percent db)"

definition recordIfApplicable ::
  "time \<Rightarrow> EngagementStatus \<Rightarrow> LedgerParties \<Rightarrow> int \<Rightarrow> db \<Rightarrow> err + db" where
  "recordIfApplicable now preCancelStatus d quotedPrice db =
     (if preCancelStatus \<noteq> EngagementStatus.IN_PROGRESS then Inr db
      else andThen (readCommissionPercent db) (\<lambda>percent.
        let feeAmount = mathRound (of_int quotedPrice * percent / 100);
            s = computeCommission feeAmount percent
        in createCustomerCancellationChargeEntries now d feeAmount (commission s) (net s) percent db))"

definition recordRefund :: "time \<Rightarrow> LedgerParties \<Rightarrow> int \<Rightarrow> db \<Rightarrow> err + db" where
  "recordRefund now d quotedPrice db = createRefundEntry now d quotedPrice db"

definition CURRENCY_BY_COUNTRY :: "CountryCode \<Rightarrow> string" where
  "CURRENCY_BY_COUNTRY c = (case c of AR \<Rightarrow> ''ARS'' | CO \<Rightarrow> ''COP'')"

section \<open>Balances and queries\<close>

definition sumAmount :: "(LedgerEntry \<Rightarrow> bool) \<Rightarrow> db \<Rightarrow> int" where
  "sumAmount p db = sum_list (map le_amount (filter p (ledgerEntries db)))"

definition sumCashCommissionDebtForProfessional :: "db \<Rightarrow> id \<Rightarrow> int" where
  "sumCashCommissionDebtForProfessional db prof =
     sumAmount (\<lambda>r. le_type r = CASH_COMMISSION_DEBT \<and> le_professionalProfileId r = Some prof) db"

definition sumProfessionalBalance :: "db \<Rightarrow> id \<Rightarrow> int" where
  "sumProfessionalBalance db prof =
     sumAmount (\<lambda>r. le_type r = PROFESSIONAL_NET_CREDIT \<and> le_professionalProfileId r = Some prof) db
     - sumCashCommissionDebtForProfessional db prof"

definition sumPlatformBalance :: "db \<Rightarrow> int" where
  "sumPlatformBalance db = sumAmount (\<lambda>r. le_type r = PLATFORM_COMMISSION) db
     + sumAmount (\<lambda>r. le_type r = CASH_COMMISSION_DEBT) db"

definition newestFirst :: "LedgerEntry list \<Rightarrow> LedgerEntry list" where
  "newestFirst rows = sort_key (\<lambda>r. - le_createdAt r) rows"

definition findManyForCallerProfiles :: "db \<Rightarrow> id option \<Rightarrow> id option \<Rightarrow> LedgerEntry list" where
  "findManyForCallerProfiles db cust prof =
     (if cust = None \<and> prof = None then []
      else newestFirst (filter (\<lambda>r. (cust \<noteq> None \<and> le_customerProfileId r = cust)
              \<or> (prof \<noteq> None \<and> le_professionalProfileId r = prof)) (ledgerEntries db)))"

definition findManyByEngagementId :: "db \<Rightarrow> id \<Rightarrow> LedgerEntry list" where
  "findManyByEngagementId db e =
     newestFirst (filter (\<lambda>r. le_engagementId r = Some e) (ledgerEntries db))"

definition getMyPaymentBalance :: "db \<Rightarrow> id \<Rightarrow> err + int" where
  "getMyPaymentBalance db userId = (case findProfessionalProfileByUserId db userId of
       None \<Rightarrow> Inl PROFESSIONAL_PROFILE_REQUIRED
     | Some p \<Rightarrow> Inr (sumProfessionalBalance db (pp_id p)))"

definition getMyPendingCashCommissionDebt :: "db \<Rightarrow> id \<Rightarrow> err + int" where
  "getMyPendingCashCommissionDebt db userId = (case findProfessionalProfileByUserId db userId of
       None \<Rightarrow> Inl PROFESSIONAL_PROFILE_REQUIRED
     | Some p \<Rightarrow> Inr (sumCashCommissionDebtForProfessional db (pp_id p)))"

section \<open>Classification of an event's rows\<close>

datatype EngagementPaymentEventKind =
  CASH_PAYMENT | CUSTOMER_CANCELLATION | PROFESSIONAL_CANCELLATION | DIGITAL_PAYMENT

record ClassifiedLedgerEvent =
  ev_eventType :: EngagementPaymentEventKind
  ev_totalPaidByCustomer :: int
  ev_platformCommission :: int
  ev_professionalNetAmount :: int
  ev_cashCommissionDebtAmount :: int

definition findByType :: "LedgerEntry list \<Rightarrow> LedgerEntryType \<Rightarrow> LedgerEntry option" where
  "findByType rows t = findRow (\<lambda>r. le_type r = t) rows"

definition amountOr0 :: "LedgerEntry option \<Rightarrow> int" where
  "amountOr0 m = (case m of None \<Rightarrow> 0 | Some r \<Rightarrow> le_amount r)"

definition classifyLedgerEventRows :: "LedgerEntry list \<Rightarrow> int \<Rightarrow> ClassifiedLedgerEvent" where
  "classifyLedgerEventRows rows quotedPrice =
     (case findByType rows CASH_COMMISSION_DEBT of
        Some cashDebt \<Rightarrow>
          \<lparr>ev_eventType = CASH_PAYMENT, ev_totalPaidByCustomer = quotedPrice,
           ev_platformCommission = le_amount cashDebt,
           ev_professionalNetAmount = quotedPrice - le_amount cashDebt,
           ev_cashCommissionDebtAmount = le_amount cashDebt\<rparr>
      | None \<Rightarrow> (case findByType rows CUSTOMER_CANCELLATION_FEE of
          Some cancellationFee \<Rightarrow>
            \<lparr>ev_eventType = CUSTOMER_CANCELLATION,
             ev_totalPaidByCustomer = \<bar>le_amount cancellationFee\<bar>,
             ev_platformCommission = amountOr0 (findByType rows PLATFORM_COMMISSION),
             ev_professionalNetAmount = amountOr0 (findByType rows PROFESSIONAL_NET_CREDIT),
             ev_cashCommissionDebtAmount = 0\<rparr>
        | None \<Rightarrow> (case findByType rows REFUND of
            Some _ \<Rightarrow>
              \<lparr>ev_eventType = PROFESSIONAL_CANCELLATION, ev_totalPaidByCustomer = 0,
               ev_platformCommission = 0, ev_professionalNetAmount = 0,
               ev_cashCommissionDebtAmount = 0\<rparr>
          | None \<Rightarrow>
              \<lparr>ev_eventType = DIGITAL_PAYMENT,
               ev_totalPaidByCustomer = \<bar>amountOr0 (findByType rows CUSTOMER_CHARGE)\<bar>,
               ev_platformCommission = amountOr0 (findByType rows PLATFORM_COMMISSION),
               ev_professionalNetAmount = amountOr0 (findByType rows PROFESSIONAL_NET_CREDIT),
               ev_cashCommissionDebtAmount = 0\<rparr>)))"

definition selectMostRecentLedgerEventRows :: "LedgerEntry list \<Rightarrow> LedgerEntry list" where
  "selectMostRecentLedgerEventRows rows = (case rows of
       [] \<Rightarrow> []
     | r # _ \<Rightarrow> filter (\<lambda>row. le_createdAt row = le_createdAt r) rows)"

section \<open>What a writer appends\<close>

fun numbered :: "id \<Rightarrow> nat \<Rightarrow> LedgerEntry list \<Rightarrow> LedgerEntry list" where
  "numbered i n [] = []"
| "numbered i n (r # rs) = r\<lparr>le_id := i, le_receiptNumber := n\<rparr> # numbered (Suc i) (Suc n) rs"

definition appendEntries :: "LedgerEntry list \<Rightarrow> db \<Rightarrow> db" where
  "appendEntries rows db = db\<lparr>nextId := nextId db + length rows,
     nextReceipt := nextReceipt db + length rows,
     ledgerEntries := ledgerEntries db @ numbered (nextId db) (nextReceipt db) rows\<rparr>"

lemma appendEntries_Nil [simp]: "appendEntries [] db = db"
  by (simp add: appendEntries_def)

lemma numbered_append:
  "numbered i n (xs @ ys) = numbered i n xs @ numbered (i + length xs) (n + length xs) ys"
  by (induction i n xs rule: numbered.induct) simp_all

lemma appendEntries_append: "appendEntries ys (appendEntries xs db) = appendEntries (xs @ ys) db"
  by (simp add: appendEntries_def numbered_append add.assoc)

lemma appendEntry_eq: "appendEntry r db = appendEntries [r] db"
  by (simp add: appendEntries_def appendEntry_def)

lemma in_numbered:
  "r \<in> set (numbered i n rows) \<Longrightarrow> \<exists>s\<in>set rows. \<exists>j m. r = s\<lparr>le_id := j, le_receiptNumber := m\<rparr>
     \<and> i \<le> j \<and> j < i + length rows \<and> n \<le> m \<and> m < n + length rows"
proof (induction i n rows rule: numbered.induct)
  case (2 i n r rs)
  then show ?case by fastforce
qed simp

lemma map_receipt_numbered: "map le_receiptNumber (numbered i n rows) = [n..<n + length rows]"
  by (induction i n rows rule: numbered.induct) (simp_all add: upt_conv_Cons del: upt_Suc)

lemma map_id_numbered: "map le_id (numbered i n rows) = [i..<i + length rows]"
  by (induction i n rows rule: numbered.induct) (simp_all add: upt_conv_Cons del: upt_Suc)

lemma countWhere_numbered:
  assumes "\<And>r j m. P (r\<lparr>le_id := j, le_receiptNumber := m\<rparr>) = P r"
  shows "countWhere P (numbered i n rows) = countWhere P rows"
  by (induction i n rows rule: numbered.induct) (simp_all add: assms)

lemma sum_numbered:
  assumes "\<And>r j m. P (r\<lparr>le_id := j, le_receiptNumber := m\<rparr>) = P r"
  shows "sum_list (map le_amount (filter P (numbered i n rows))) = sum_list (map le_amount (filter P rows))"
  by (induction i n rows rule: numbered.induct) (simp_all add: assms)

lemma createEntry_Inr_iff:
  "createEntry t amount d prof percent createdAt db = Inr db' \<longleftrightarrow> int4 amount \<and>
     (\<exists>n. (case percent of None \<Rightarrow> n = None | Some q \<Rightarrow> \<exists>m. n = Some m \<and> q = of_int m \<and> int4 m)
        \<and> db' = appendEntries [ledgerEntry t amount d prof n createdAt] db)"
proof (cases percent)
  case (Some q)
  then show ?thesis
    by (cases "prismaInt q") (auto simp: createEntry_def appendEntry_eq prismaInt_Some_iff
        simp flip: prismaInt_Some_iff)
qed (auto simp: createEntry_def appendEntry_eq)

definition splitRows ::
  "LedgerEntryType \<Rightarrow> int \<Rightarrow> CommissionSplit \<Rightarrow> LedgerParties \<Rightarrow> int \<Rightarrow> time \<Rightarrow> LedgerEntry list" where
  "splitRows t amount s d p now =
     [ledgerEntry t (- amount) d (Some (lp_professionalProfileId d)) (Some p) now,
      ledgerEntry PLATFORM_COMMISSION (commission s) d (Some (lp_professionalProfileId d)) (Some p) now,
      ledgerEntry PROFESSIONAL_NET_CREDIT (net s) d (Some (lp_professionalProfileId d)) (Some p) now]"

definition digitalPaymentRows :: "time \<Rightarrow> LedgerParties \<Rightarrow> int \<Rightarrow> int \<Rightarrow> LedgerEntry list" where
  "digitalPaymentRows now d price p =
     splitRows CUSTOMER_CHARGE price (computeCommission price (of_int p)) d p now"

definition cancellationFee :: "int \<Rightarrow> int \<Rightarrow> int" where
  "cancellationFee price p = (price * p + 50) div 100"

definition cancellationChargeRows :: "time \<Rightarrow> LedgerParties \<Rightarrow> int \<Rightarrow> int \<Rightarrow> LedgerEntry list" where
  "cancellationChargeRows now d price p = splitRows CUSTOMER_CANCELLATION_FEE (cancellationFee price p)
     (computeCommission (cancellationFee price p) (of_int p)) d p now"

definition commissionDebtRows :: "time \<Rightarrow> LedgerParties \<Rightarrow> int \<Rightarrow> int \<Rightarrow> LedgerEntry list" where
  "commissionDebtRows now d price p = [ledgerEntry CASH_COMMISSION_DEBT
     (commission (computeCommission price (of_int p))) d (Some (lp_professionalProfileId d)) (Some p) now]"

definition refundRows :: "time \<Rightarrow> LedgerParties \<Rightarrow> int \<Rightarrow> int \<Rightarrow> LedgerEntry list" where
  "refundRows now d price p = [ledgerEntry REFUND price d None None now]"

lemmas rows_defs = digitalPaymentRows_def cancellationChargeRows_def commissionDebtRows_def
  refundRows_def splitRows_def

definition rowsFit :: "LedgerEntry list \<Rightarrow> bool" where
  "rowsFit rows \<longleftrightarrow> (\<forall>r\<in>set rows. int4 (le_amount r) \<and>
     (case le_commissionPercentApplied r of None \<Rightarrow> True | Some n \<Rightarrow> int4 n))"

lemma ledgerEntry_simps [simp]:
  "le_type (ledgerEntry t a d prof p now) = t"
  "le_amount (ledgerEntry t a d prof p now) = a"
  "le_currency (ledgerEntry t a d prof p now) = lp_currency d"
  "le_engagementId (ledgerEntry t a d prof p now) = Some (lp_engagementId d)"
  "le_customerProfileId (ledgerEntry t a d prof p now) = Some (lp_customerProfileId d)"
  "le_professionalProfileId (ledgerEntry t a d prof p now) = prof"
  "le_commissionPercentApplied (ledgerEntry t a d prof p now) = p"
  "le_createdAt (ledgerEntry t a d prof p now) = now"
  by (simp_all add: ledgerEntry_def)

lemma createSplit_Inr:
  assumes "andThen (createEntry t (- a) d (Some (lp_professionalProfileId d)) (Some q) now db)
       (\<lambda>db. andThen (createEntry PLATFORM_COMMISSION (commission s) d (Some (lp_professionalProfileId d)) (Some q) now db)
         (\<lambda>db. createEntry PROFESSIONAL_NET_CREDIT (net s) d (Some (lp_professionalProfileId d)) (Some q) now db)) = Inr db'"
  shows "\<exists>p. q = of_int p \<and> rowsFit (splitRows t a s d p now) \<and> db' = appendEntries (splitRows t a s d p now) db"
  using assms
  by (auto simp: andThen_Inr_iff createEntry_Inr_iff rowsFit_def splitRows_def appendEntries_append)

lemma recordDigitalPayment_Inr:
  assumes "recordDigitalPayment now d price db = Inr db'"
  shows "\<exists>p. readCommissionPercent db = Inr (of_int p) \<and> rowsFit (digitalPaymentRows now d price p)
     \<and> db' = appendEntries (digitalPaymentRows now d price p) db"
  using assms createSplit_Inr [of CUSTOMER_CHARGE price d _ now db]
  unfolding recordDigitalPayment_def createDigitalPaymentEntries_def digitalPaymentRows_def
  by (fastforce simp: andThen_Inr_iff Let_def)

lemma recordIfApplicable_Inr:
  assumes "recordIfApplicable now EngagementStatus.IN_PROGRESS d price db = Inr db'"
  shows "\<exists>p. readCommissionPercent db = Inr (of_int p) \<and> rowsFit (cancellationChargeRows now d price p)
     \<and> db' = appendEntries (cancellationChargeRows now d price p) db"
proof -
  obtain q where q: "readCommissionPercent db = Inr q"
    and w: "createCustomerCancellationChargeEntries now d (mathRound (of_int price * q / 100))
        (commission (computeCommission (mathRound (of_int price * q / 100)) q))
        (net (computeCommission (mathRound (of_int price * q / 100)) q)) q db = Inr db'"
    using assms by (auto simp: recordIfApplicable_def andThen_Inr_iff Let_def)
  then obtain p where "q = of_int p"
      "rowsFit (splitRows CUSTOMER_CANCELLATION_FEE (mathRound (of_int price * q / 100))
         (computeCommission (mathRound (of_int price * q / 100)) q) d p now)"
      "db' = appendEntries (splitRows CUSTOMER_CANCELLATION_FEE (mathRound (of_int price * q / 100))
         (computeCommission (mathRound (of_int price * q / 100)) q) d p now) db"
    unfolding createCustomerCancellationChargeEntries_def using createSplit_Inr by blast
  then show ?thesis
    using q by (auto simp: cancellationChargeRows_def cancellationFee_def mathRound_percent)
qed

lemma recordCommissionDebt_Inr:
  assumes "recordCommissionDebt now d price db = Inr db'"
  shows "\<exists>p. readCommissionPercent db = Inr (of_int p) \<and> rowsFit (commissionDebtRows now d price p)
     \<and> db' = appendEntries (commissionDebtRows now d price p) db"
  using assms
  by (auto simp: recordCommissionDebt_def createCashCommissionDebtEntry_def andThen_Inr_iff
      createEntry_Inr_iff rowsFit_def commissionDebtRows_def)

lemma recordRefund_Inr_iff:
  "recordRefund now d price db = Inr db' \<longleftrightarrow>
     rowsFit (refundRows now d price 0) \<and> db' = appendEntries (refundRows now d price 0) db"
  by (auto simp: recordRefund_def createRefundEntry_def createEntry_Inr_iff rowsFit_def refundRows_def)

section \<open>The contract of an event writer\<close>

definition ledgerCount :: "LedgerEntryType \<Rightarrow> id \<Rightarrow> db \<Rightarrow> nat" where
  "ledgerCount t e db =
     countWhere (\<lambda>r. le_type r = t \<and> le_engagementId r = Some e) (ledgerEntries db)"

definition receiptsOk :: "db \<Rightarrow> bool" where
  "receiptsOk db \<longleftrightarrow> distinct (map le_receiptNumber (ledgerEntries db))
     \<and> (\<forall>r\<in>set (ledgerEntries db). le_receiptNumber r < nextReceipt db)"

lemma ledgerEntries_appendEntries:
  "ledgerEntries (appendEntries rows db) =
     ledgerEntries db @ numbered (nextId db) (nextReceipt db) rows"
  by (simp add: appendEntries_def)

lemma ledgerCount_appendEntries:
  "ledgerCount t e (appendEntries rows db) =
     ledgerCount t e db + countWhere (\<lambda>r. le_type r = t \<and> le_engagementId r = Some e) rows"
  by (simp add: ledgerCount_def ledgerEntries_appendEntries countWhere_numbered)

lemma sumAmount_appendEntries:
  assumes "\<And>r j m. P (r\<lparr>le_id := j, le_receiptNumber := m\<rparr>) = P r"
  shows "sumAmount P (appendEntries rows db) = sumAmount P db + sum_list (map le_amount (filter P rows))"
  by (simp add: sumAmount_def ledgerEntries_appendEntries sum_numbered assms)

lemma receiptsOk_appendEntries:
  assumes "receiptsOk db"
  shows "receiptsOk (appendEntries rows db)"
proof -
  have "set (map le_receiptNumber (ledgerEntries db)) \<inter> {nextReceipt db..<nextReceipt db + length rows} = {}"
    using assms by (auto simp: receiptsOk_def)
  moreover have "\<forall>r\<in>set (numbered (nextId db) (nextReceipt db) rows).
      le_receiptNumber r < nextReceipt db + length rows"
    using in_numbered [of _ "nextId db" "nextReceipt db" rows] by fastforce
  ultimately show ?thesis using assms
    unfolding receiptsOk_def ledgerEntries_appendEntries
    by (auto simp: appendEntries_def map_receipt_numbered trans_less_add1)
qed

locale event_writer =
  fixes post :: "time \<Rightarrow> LedgerParties \<Rightarrow> int \<Rightarrow> db \<Rightarrow> err + db"
    and rows :: "time \<Rightarrow> LedgerParties \<Rightarrow> int \<Rightarrow> int \<Rightarrow> LedgerEntry list"
  assumes post_appends:
      "post now d price db = Inr db' \<Longrightarrow> \<exists>p. db' = appendEntries (rows now d price p) db"
    and rows_engagement:
      "r \<in> set (rows now d price p) \<Longrightarrow> le_engagementId r = Some (lp_engagementId d)"
    and rows_created: "r \<in> set (rows now d price p) \<Longrightarrow> le_createdAt r = now"
begin

lemma append_only:
  assumes "post now d price db = Inr db'"
  shows "\<exists>new. ledgerEntries db' = ledgerEntries db @ new"
  using post_appends [OF assms] by (auto simp: ledgerEntries_appendEntries)

lemma only_ledger:
  assumes "post now d price db = Inr db'"
  shows "db' = db\<lparr>nextId := nextId db', nextReceipt := nextReceipt db', ledgerEntries := ledgerEntries db'\<rparr>"
  using post_appends [OF assms] by (auto simp: appendEntries_def)

lemma other_engagement:
  assumes "post now d price db = Inr db'" "e \<noteq> lp_engagementId d"
  shows "ledgerCount t e db' = ledgerCount t e db"
proof -
  obtain p where "db' = appendEntries (rows now d price p) db"
    using post_appends [OF assms(1)] by blast
  moreover have "countWhere (\<lambda>r. le_type r = t \<and> le_engagementId r = Some e) (rows now d price p) = 0"
    using rows_engagement assms(2) by (auto simp: countWhere_0_iff)
  ultimately show ?thesis by (simp add: ledgerCount_appendEntries)
qed

lemma receipts:
  assumes "post now d price db = Inr db'" "receiptsOk db"
  shows "receiptsOk db'"
  using post_appends [OF assms(1)] assms(2) receiptsOk_appendEntries by blast

end

text \<open>An event whose rows carry the customer's money: what the customer pays is exactly what the
  platform and the professional receive.\<close>

locale balanced_event_writer = event_writer +
  assumes rows_balanced: "sum_list (map le_amount (rows now d price p)) = 0"
begin

lemma total_unchanged:
  assumes "post now d price db = Inr db'"
  shows "sumAmount (\<lambda>_. True) db' = sumAmount (\<lambda>_. True) db"
  using post_appends [OF assms] by (auto simp: sumAmount_appendEntries rows_balanced)

end

interpretation digital: balanced_event_writer recordDigitalPayment digitalPaymentRows
proof unfold_locales
  show "\<exists>p. db' = appendEntries (digitalPaymentRows now d price p) db"
    if "recordDigitalPayment now d price db = Inr db'" for now d price db db'
    using recordDigitalPayment_Inr [OF that] by blast
qed (auto simp: rows_defs computeCommission_def Let_def)

interpretation cancellation: balanced_event_writer
  "\<lambda>now. recordIfApplicable now EngagementStatus.IN_PROGRESS" cancellationChargeRows
proof unfold_locales
  show "\<exists>p. db' = appendEntries (cancellationChargeRows now d price p) db"
    if "recordIfApplicable now EngagementStatus.IN_PROGRESS d price db = Inr db'" for now d price db db'
    using recordIfApplicable_Inr [OF that] by blast
qed (auto simp: rows_defs computeCommission_def Let_def)

interpretation debt: event_writer recordCommissionDebt commissionDebtRows
proof unfold_locales
  show "\<exists>p. db' = appendEntries (commissionDebtRows now d price p) db"
    if "recordCommissionDebt now d price db = Inr db'" for now d price db db'
    using recordCommissionDebt_Inr [OF that] by blast
qed (auto simp: rows_defs)

interpretation refund: event_writer recordRefund refundRows
proof unfold_locales
  show "\<exists>p. db' = appendEntries (refundRows now d price p) db"
    if "recordRefund now d price db = Inr db'" for now d price db db'
    using that by (auto simp: recordRefund_Inr_iff refundRows_def)
qed (auto simp: rows_defs)

end
