(* ===== verification/Engagement_Chat.thy ===== *)
theory Engagement_Chat
  imports Media_Uploads
begin

text \<open>
  The coordination chat of an engagement (src/src/engagement-chat): a conversation is created by
  the first message, the lifecycle services add a system message to an existing conversation and
  do nothing when there is none, and a message with an image spends the image's upload reference in
  the same transaction.  A service that reads before its transaction is split into the reads
  (\<^theory_text>\<open>..._pre\<close>, whose result the transaction captures) and the transaction
  (\<^theory_text>\<open>..._tx\<close>), here and in the theories that follow.
\<close>

datatype LifecycleSystemMessage =
  WORK_STARTED | WORK_FINISHED | COMPLETION_CONFIRMED | CANCELLED_BY_CUSTOMER | CANCELLED_BY_PROFESSIONAL

definition ENGAGEMENT_LIFECYCLE_SYSTEM_MESSAGES :: "LifecycleSystemMessage \<Rightarrow> string" where
  "ENGAGEMENT_LIFECYCLE_SYSTEM_MESSAGES m = (case m of
       WORK_STARTED \<Rightarrow> ''El profesional inici'' @ [CHR 0xF3] @ '' el trabajo''
     | WORK_FINISHED \<Rightarrow> ''El profesional marc'' @ [CHR 0xF3] @ '' el trabajo como terminado''
     | COMPLETION_CONFIRMED \<Rightarrow> ''El cliente confirm'' @ [CHR 0xF3] @ '' la finalizaci'' @ [CHR 0xF3] @ ''n del trabajo''
     | CANCELLED_BY_CUSTOMER \<Rightarrow> ''El cliente cancel'' @ [CHR 0xF3] @ '' el trabajo''
     | CANCELLED_BY_PROFESSIONAL \<Rightarrow> ''El profesional cancel'' @ [CHR 0xF3] @ '' el trabajo'')"

definition findConversationByEngagementId :: "db \<Rightarrow> id \<Rightarrow> EngagementChatConversation option" where
  "findConversationByEngagementId db e = findRow (\<lambda>c. conv_engagementId c = e) (conversations db)"

definition upsertConversation :: "id \<Rightarrow> db \<Rightarrow> id \<times> db" where
  "upsertConversation e db = (case findConversationByEngagementId db e of
       Some c \<Rightarrow> (conv_id c, db)
     | None \<Rightarrow> (nextId db, db\<lparr>nextId := Suc (nextId db), conversations :=
           conversations db @ [\<lparr>conv_id = nextId db, conv_engagementId = e\<rparr>]\<rparr>))"

definition createMessage ::
  "time \<Rightarrow> id \<Rightarrow> EngagementChatParty \<Rightarrow> id option \<Rightarrow> id option \<Rightarrow> string \<Rightarrow> string option \<Rightarrow> db \<Rightarrow> db" where
  "createMessage now conv role cust prof content imageUrl db =
     db\<lparr>nextId := Suc (nextId db), chatMessages := chatMessages db @
       [\<lparr>msg_id = nextId db, msg_conversationId = conv, msg_senderRole = role,
         msg_senderCustomerProfileId = cust, msg_senderProfessionalProfileId = prof,
         msg_content = content, msg_imageUrl = imageUrl, msg_createdAt = now\<rparr>]\<rparr>"

definition createSystemMessage :: "time \<Rightarrow> id \<Rightarrow> string \<Rightarrow> db \<Rightarrow> db" where
  "createSystemMessage now conv content db =
     createMessage now conv EngagementChatParty.SYSTEM None None content None db"

definition findMessagesByEngagementId :: "db \<Rightarrow> id \<Rightarrow> EngagementChatMessage list" where
  "findMessagesByEngagementId db e = (case findConversationByEngagementId db e of
       None \<Rightarrow> []
     | Some c \<Rightarrow> sort_key msg_createdAt
         (filter (\<lambda>m. msg_conversationId m = conv_id c) (chatMessages db)))"

definition emit :: "time \<Rightarrow> id \<Rightarrow> string \<Rightarrow> db \<Rightarrow> db" where
  "emit now engagementId content db = (case findConversationByEngagementId db engagementId of
       None \<Rightarrow> db
     | Some c \<Rightarrow> createSystemMessage now (conv_id c) content db)"

definition chat_tryResolveParty :: "db \<Rightarrow> id \<Rightarrow> id \<Rightarrow> EngagementChatParty PartyResolution option" where
  "chat_tryResolveParty = tryResolveParty EngagementChatParty.CUSTOMER EngagementChatParty.PROFESSIONAL"

definition chat_resolveParty :: "db \<Rightarrow> id \<Rightarrow> id \<Rightarrow> err + EngagementChatParty PartyResolution" where
  "chat_resolveParty db userId e = orThrow ENGAGEMENT_NOT_FOUND (chat_tryResolveParty db userId e)"

definition listMessages :: "db \<Rightarrow> id \<Rightarrow> id \<Rightarrow> err + EngagementChatMessage list" where
  "listMessages db userId engagementId =
     andThen (chat_resolveParty db userId engagementId)
       (\<lambda>_. Inr (findMessagesByEngagementId db engagementId))"

definition sendMessage_pre ::
  "time \<Rightarrow> id \<Rightarrow> id \<Rightarrow> id option \<Rightarrow> db \<Rightarrow> err + EngagementChatParty PartyResolution \<times> string option" where
  "sendMessage_pre now userId engagementId mediaUploadRefId db =
     andThen (chat_resolveParty db userId engagementId) (\<lambda>party.
       case mediaUploadRefId of
         None \<Rightarrow> Inr (party, None)
       | Some ref \<Rightarrow> (case findUsablePendingRefs now userId [ref] ENGAGEMENT_CHAT_MESSAGE_IMAGE db of
             [] \<Rightarrow> Inl INVALID_MEDIA_UPLOAD_REF
           | r # _ \<Rightarrow> Inr (party, Some (mref_fileUrl r))))"

definition sendMessage_tx ::
  "time \<Rightarrow> id \<Rightarrow> EngagementChatParty PartyResolution \<Rightarrow> string \<Rightarrow> id option \<Rightarrow> string option \<Rightarrow> db \<Rightarrow> err + db" where
  "sendMessage_tx now engagementId party content mediaUploadRefId imageUrl db =
     (let (conv, db1) = upsertConversation engagementId db;
          db2 = createMessage now conv (party_role party) (party_customerProfileId party)
                  (party_professionalProfileId party) content imageUrl db1
      in case mediaUploadRefId of
           None \<Rightarrow> Inr db2
         | Some ref \<Rightarrow> (let (count, db3) = markConsumed now [ref] db2
             in if count \<noteq> 1 then Inl INVALID_MEDIA_UPLOAD_REF else Inr db3))"

definition sendMessage ::
  "time \<Rightarrow> id \<Rightarrow> id \<Rightarrow> string \<Rightarrow> id option \<Rightarrow> db \<Rightarrow> err + db" where
  "sendMessage now userId engagementId content mediaUploadRefId db =
     andThen (sendMessage_pre now userId engagementId mediaUploadRefId db)
       (\<lambda>(party, imageUrl). sendMessage_tx now engagementId party content mediaUploadRefId imageUrl db)"

section \<open>Facts the lifecycle services use\<close>

interpretation chat_access: party_access chat_tryResolveParty
  "\<lambda>p. party_role p = EngagementChatParty.CUSTOMER" party_engagement
  unfolding chat_tryResolveParty_def by (rule tryResolveParty_party_access) simp

lemma emit_frame:
  "emit now e c db = db\<lparr>nextId := nextId (emit now e c db), chatMessages := chatMessages (emit now e c db)\<rparr>"
  by (simp add: emit_def createSystemMessage_def createMessage_def split: option.split)

lemma emit_fields [simp]:
  "engagements (emit now e c db) = engagements db"
  "quotes (emit now e c db) = quotes db"
  "serviceRequests (emit now e c db) = serviceRequests db"
  "priceProposals (emit now e c db) = priceProposals db"
  "appointments (emit now e c db) = appointments db"
  "paymentAttempts (emit now e c db) = paymentAttempts db"
  "ledgerEntries (emit now e c db) = ledgerEntries db"
  "nextReceipt (emit now e c db) = nextReceipt db"
  "reviews (emit now e c db) = reviews db"
  "negotiationMessages (emit now e c db) = negotiationMessages db"
  "srUploadRefs (emit now e c db) = srUploadRefs db"
  "customerProfiles (emit now e c db) = customerProfiles db"
  "professionalProfiles (emit now e c db) = professionalProfiles db"
  "mediaUploadRefs (emit now e c db) = mediaUploadRefs db"
  "platformSettings (emit now e c db) = platformSettings db"
  "conversations (emit now e c db) = conversations db"
  by (simp_all add: emit_def createSystemMessage_def createMessage_def split: option.split)

lemma emit_nextId: "nextId db \<le> nextId (emit now e c db)"
  by (simp add: emit_def createSystemMessage_def createMessage_def split: option.split)

lemma emit_appends: "\<exists>new. chatMessages (emit now e c db) = chatMessages db @ new"
  by (simp add: emit_def createSystemMessage_def createMessage_def split: option.split)

end
