(* ===== verification/Appointments.thy ===== *)
theory Appointments
  imports Profiles
begin

text \<open>
  Visits of an engagement (src/src/appointments): proposed by either party, confirmed by the other
  one, cancelled by either.  Two overlapping CONFIRMED appointments of one professional are kept
  out by the table's exclusion constraint (\<^theory_text>\<open>appointment_no_overlapping_confirmed_per_professional\<close>,
  half-open ranges), whose violation the repository turns into a conflict.
\<close>

definition findAppointmentById :: "db \<Rightarrow> id \<Rightarrow> Appointment option" where
  "findAppointmentById db i = findRow (\<lambda>a. appt_id a = i) (appointments db)"

definition findManyAppointmentsByEngagementId :: "db \<Rightarrow> id \<Rightarrow> Appointment list" where
  "findManyAppointmentsByEngagementId db e =
     sort_key appt_createdAt (filter (\<lambda>a. appt_engagementId a = e) (appointments db))"

definition countConfirmedByEngagementId :: "db \<Rightarrow> id \<Rightarrow> nat" where
  "countConfirmedByEngagementId db e = countWhere
     (\<lambda>a. appt_engagementId a = e \<and> appt_status a = AppointmentStatus.CONFIRMED) (appointments db)"

definition createAppointment ::
  "time \<Rightarrow> id \<Rightarrow> id \<Rightarrow> time \<Rightarrow> time \<Rightarrow> AppointmentParty \<Rightarrow> id option \<Rightarrow> id option \<Rightarrow> db
     \<Rightarrow> Appointment \<times> db" where
  "createAppointment now e prof startsAt endsAt role byCust byProf db =
     (let a = \<lparr>appt_id = nextId db, appt_engagementId = e, appt_professionalProfileId = prof,
               appt_startsAt = startsAt, appt_endsAt = endsAt, appt_status = AppointmentStatus.PENDING,
               appt_proposedByRole = role, appt_proposedByCustomerProfileId = byCust,
               appt_proposedByProfessionalProfileId = byProf, appt_cancelReason = None,
               appt_cancelledAt = None, appt_confirmedAt = None, appt_createdAt = now\<rparr>
      in (a, db\<lparr>nextId := Suc (nextId db), appointments := appointments db @ [a]\<rparr>))"

definition overlapping :: "Appointment \<Rightarrow> Appointment \<Rightarrow> bool" where
  "overlapping a b \<longleftrightarrow> appt_professionalProfileId a = appt_professionalProfileId b
     \<and> appt_startsAt a < appt_endsAt b \<and> appt_startsAt b < appt_endsAt a"

definition excludedBy :: "Appointment list \<Rightarrow> Appointment \<Rightarrow> bool" where
  "excludedBy rows a \<longleftrightarrow> list_ex (\<lambda>b. appt_id b \<noteq> appt_id a
     \<and> appt_status b = AppointmentStatus.CONFIRMED \<and> overlapping a b) rows"

abbreviation isPendingAppointment :: "id \<Rightarrow> Appointment \<Rightarrow> bool" where
  "isPendingAppointment \<equiv> guard appt_id appt_status (\<lambda>s. s = AppointmentStatus.PENDING)"

abbreviation isActiveAppointment :: "id \<Rightarrow> Appointment \<Rightarrow> bool" where
  "isActiveAppointment \<equiv> guard appt_id appt_status
     (\<lambda>s. s \<in> {AppointmentStatus.PENDING, AppointmentStatus.CONFIRMED})"

definition confirmAppointment :: "time \<Rightarrow> Appointment \<Rightarrow> Appointment" where
  "confirmAppointment now a =
     a\<lparr>appt_status := AppointmentStatus.CONFIRMED, appt_confirmedAt := Some now\<rparr>"

definition cancelAppointmentRow :: "time \<Rightarrow> string \<Rightarrow> Appointment \<Rightarrow> Appointment" where
  "cancelAppointmentRow now reason a = a\<lparr>appt_status := AppointmentStatus.CANCELLED,
     appt_cancelledAt := Some now, appt_cancelReason := Some reason\<rparr>"

definition confirmIfPending :: "time \<Rightarrow> id \<Rightarrow> db \<Rightarrow> err + nat \<times> db" where
  "confirmIfPending now i db =
     (if list_ex (\<lambda>a. isPendingAppointment i a \<and> excludedBy (appointments db) a) (appointments db)
      then Inl APPOINTMENT_CONFLICT
      else Inr (countWhere (isPendingAppointment i) (appointments db),
                db\<lparr>appointments := updateMany (isPendingAppointment i) (confirmAppointment now)
                                     (appointments db)\<rparr>))"

definition cancelAppointmentIfActive :: "time \<Rightarrow> id \<Rightarrow> string \<Rightarrow> db \<Rightarrow> nat \<times> db" where
  "cancelAppointmentIfActive now i reason db =
     (countWhere (isActiveAppointment i) (appointments db),
      db\<lparr>appointments := updateMany (isActiveAppointment i) (cancelAppointmentRow now reason)
                           (appointments db)\<rparr>)"

section \<open>Services\<close>

definition appointment_tryResolveParty :: "db \<Rightarrow> id \<Rightarrow> id \<Rightarrow> AppointmentParty PartyResolution option" where
  "appointment_tryResolveParty = tryResolveParty AppointmentParty.CUSTOMER AppointmentParty.PROFESSIONAL"

definition appointment_resolveParty :: "db \<Rightarrow> id \<Rightarrow> id \<Rightarrow> err + AppointmentParty PartyResolution" where
  "appointment_resolveParty db userId e = orThrow ENGAGEMENT_NOT_FOUND (appointment_tryResolveParty db userId e)"

definition propose :: "time \<Rightarrow> id \<Rightarrow> id \<Rightarrow> time \<Rightarrow> time \<Rightarrow> db \<Rightarrow> err + Appointment \<times> db" where
  "propose now userId engagementId startsAt endsAt db =
     (if endsAt \<le> startsAt then Inl APPOINTMENT_INVALID_TIME_RANGE
      else andThen (appointment_resolveParty db userId engagementId) (\<lambda>party.
        Inr (createAppointment now engagementId (eng_professionalProfileId (party_engagement party))
               startsAt endsAt (party_role party) (party_customerProfileId party)
               (party_professionalProfileId party) db)))"

definition accept_pre :: "db \<Rightarrow> id \<Rightarrow> id \<Rightarrow> err + Appointment" where
  "accept_pre db userId appointmentId =
     andThen (orThrow APPOINTMENT_NOT_FOUND (findAppointmentById db appointmentId)) (\<lambda>appointment.
       andThen (orThrow APPOINTMENT_NOT_FOUND
                  (appointment_tryResolveParty db userId (appt_engagementId appointment))) (\<lambda>party.
         if party_role party = appt_proposedByRole appointment then Inl APPOINTMENT_CANNOT_ACCEPT_OWN_PROPOSAL
         else if appt_status appointment \<noteq> AppointmentStatus.PENDING then Inl APPOINTMENT_NOT_PENDING
         else Inr appointment))"

definition accept_tx :: "time \<Rightarrow> id \<Rightarrow> db \<Rightarrow> err + db" where
  "accept_tx now appointmentId db =
     andThen (confirmIfPending now appointmentId db) (\<lambda>(count, db').
       if count \<noteq> 1 then Inl APPOINTMENT_ACCEPT_CONFLICT else Inr db')"

definition accept :: "time \<Rightarrow> id \<Rightarrow> id \<Rightarrow> db \<Rightarrow> err + db" where
  "accept now userId appointmentId db =
     andThen (accept_pre db userId appointmentId) (\<lambda>_. accept_tx now appointmentId db)"

definition cancel_pre :: "db \<Rightarrow> id \<Rightarrow> id \<Rightarrow> err + Appointment" where
  "cancel_pre db userId appointmentId =
     andThen (orThrow APPOINTMENT_NOT_FOUND (findAppointmentById db appointmentId)) (\<lambda>appointment.
       andThen (orThrow APPOINTMENT_NOT_FOUND
                  (appointment_tryResolveParty db userId (appt_engagementId appointment))) (\<lambda>_.
         if appt_status appointment = AppointmentStatus.CANCELLED then Inl APPOINTMENT_ALREADY_CANCELLED
         else Inr appointment))"

definition cancel_tx :: "time \<Rightarrow> id \<Rightarrow> string \<Rightarrow> db \<Rightarrow> err + db" where
  "cancel_tx now appointmentId reason db =
     (let (count, db') = cancelAppointmentIfActive now appointmentId reason db
      in if count \<noteq> 1 then Inl APPOINTMENT_CANCEL_CONFLICT else Inr db')"

definition cancel :: "time \<Rightarrow> id \<Rightarrow> id \<Rightarrow> string \<Rightarrow> db \<Rightarrow> err + db" where
  "cancel now userId appointmentId reason db =
     andThen (cancel_pre db userId appointmentId) (\<lambda>_. cancel_tx now appointmentId reason db)"

definition listByEngagement :: "db \<Rightarrow> id \<Rightarrow> id \<Rightarrow> err + Appointment list" where
  "listByEngagement db userId engagementId =
     andThen (appointment_resolveParty db userId engagementId)
       (\<lambda>_. Inr (findManyAppointmentsByEngagementId db engagementId))"

section \<open>Invariant\<close>

interpretation appointment_access: party_access appointment_tryResolveParty
  "\<lambda>p. party_role p = AppointmentParty.CUSTOMER" party_engagement
  unfolding appointment_tryResolveParty_def by (rule tryResolveParty_party_access) simp

interpretation appointment_confirm: guarded_change appt_id appt_status
  "\<lambda>s. s = AppointmentStatus.PENDING" "AppointmentStatus.CONFIRMED" "confirmAppointment now" for now
  by unfold_locales (simp_all add: confirmAppointment_def)

interpretation appointment_cancel: guarded_change appt_id appt_status
  "\<lambda>s. s \<in> {AppointmentStatus.PENDING, AppointmentStatus.CONFIRMED}" "AppointmentStatus.CANCELLED"
  "cancelAppointmentRow now reason" for now reason
  by unfold_locales (simp_all add: cancelAppointmentRow_def)

definition noOverlap :: "Appointment list \<Rightarrow> bool" where
  "noOverlap rows \<longleftrightarrow> (\<forall>a\<in>set rows. \<forall>b\<in>set rows. appt_id a \<noteq> appt_id b
     \<longrightarrow> appt_status a = AppointmentStatus.CONFIRMED \<longrightarrow> appt_status b = AppointmentStatus.CONFIRMED
     \<longrightarrow> \<not> overlapping a b)"

definition appointmentShape :: "Appointment \<Rightarrow> bool" where
  "appointmentShape a \<longleftrightarrow> appt_startsAt a < appt_endsAt a
     \<and> (case appt_status a of
          AppointmentStatus.PENDING \<Rightarrow> appt_confirmedAt a = None \<and> appt_cancelledAt a = None
        | AppointmentStatus.CONFIRMED \<Rightarrow> appt_confirmedAt a \<noteq> None \<and> appt_cancelledAt a = None
        | AppointmentStatus.CANCELLED \<Rightarrow> appt_cancelledAt a \<noteq> None \<and> appt_cancelReason a \<noteq> None)"

definition appointmentsOk :: "db \<Rightarrow> bool" where
  "appointmentsOk db \<longleftrightarrow> noOverlap (appointments db) \<and> list_all appointmentShape (appointments db)
     \<and> distinct (map appt_id (appointments db)) \<and> list_all (\<lambda>a. appt_id a < nextId db) (appointments db)"

lemma overlapping_sym: "overlapping a b = overlapping b a"
  by (auto simp: overlapping_def)

lemma confirmAppointment_simps [simp]:
  "appt_id (confirmAppointment now a) = appt_id a"
  "appt_status (confirmAppointment now a) = AppointmentStatus.CONFIRMED"
  "overlapping (confirmAppointment now a) b = overlapping a b"
  "overlapping b (confirmAppointment now a) = overlapping b a"
  by (simp_all add: confirmAppointment_def overlapping_def)

lemma cancelAppointmentRow_simps [simp]:
  "appt_id (cancelAppointmentRow now r a) = appt_id a"
  "appt_status (cancelAppointmentRow now r a) = AppointmentStatus.CANCELLED"
  by (simp_all add: cancelAppointmentRow_def)

lemma noOverlap_confirm:
  assumes no: "noOverlap rows"
    and clear: "\<forall>a\<in>set rows. isPendingAppointment i a \<longrightarrow> \<not> excludedBy rows a"
  shows "noOverlap (updateMany (isPendingAppointment i) (confirmAppointment now) rows)"
proof -
  have clear': "\<not> overlapping a b" if "a \<in> set rows" "isPendingAppointment i a" "b \<in> set rows"
      "appt_id b \<noteq> appt_id a" "appt_status b = AppointmentStatus.CONFIRMED" for a b
    using clear that by (auto simp: excludedBy_def list_ex_iff)
  show ?thesis
    unfolding noOverlap_def
  proof (intro ballI impI)
    fix a b
    assume a: "a \<in> set (updateMany (isPendingAppointment i) (confirmAppointment now) rows)"
      and b: "b \<in> set (updateMany (isPendingAppointment i) (confirmAppointment now) rows)"
      and ne: "appt_id a \<noteq> appt_id b"
      and ca: "appt_status a = AppointmentStatus.CONFIRMED" and cb: "appt_status b = AppointmentStatus.CONFIRMED"
    from a b ne ca cb show "\<not> overlapping a b"
      using no clear' overlapping_sym
      by (auto simp: set_updateMany noOverlap_def guard_def)
  qed
qed

lemma noOverlap_drop:
  assumes "noOverlap rows" "\<And>a. p a \<Longrightarrow> appt_status (f a) \<noteq> AppointmentStatus.CONFIRMED"
  shows "noOverlap (updateMany p f rows)"
  using assms by (auto simp: noOverlap_def set_updateMany)

lemma noOverlap_append:
  assumes "noOverlap rows" "appt_status a \<noteq> AppointmentStatus.CONFIRMED"
  shows "noOverlap (rows @ [a])"
  using assms by (auto simp: noOverlap_def)

lemma appointmentsOk_frame:
  assumes "appointmentsOk db" "appointments db' = appointments db" "nextId db \<le> nextId db'"
  shows "appointmentsOk db'"
  using assms by (auto simp: appointmentsOk_def list_all_iff intro: less_le_trans)

lemma createAppointment_ok:
  assumes "appointmentsOk db" "startsAt < endsAt"
  shows "appointmentsOk (snd (createAppointment now e prof startsAt endsAt role c p db))"
  using assms
  by (auto simp: appointmentsOk_def createAppointment_def Let_def appointmentShape_def
      list_all_iff intro!: noOverlap_append)

lemma accept_tx_cases:
  "accept_tx now i db = Inr db' \<longleftrightarrow>
     (\<forall>a\<in>set (appointments db). isPendingAppointment i a \<longrightarrow> \<not> excludedBy (appointments db) a)
     \<and> countWhere (isPendingAppointment i) (appointments db) = 1
     \<and> db' = db\<lparr>appointments := updateMany (isPendingAppointment i) (confirmAppointment now) (appointments db)\<rparr>"
  by (auto simp: accept_tx_def confirmIfPending_def list_ex_iff)

lemma shape_confirm:
  "appointmentShape a \<Longrightarrow> isPendingAppointment i a \<Longrightarrow> appointmentShape (confirmAppointment now a)"
  by (auto simp: appointmentShape_def confirmAppointment_def guard_def)

lemma shape_cancel: "appointmentShape a \<Longrightarrow> appointmentShape (cancelAppointmentRow now r a)"
  by (auto simp: appointmentShape_def cancelAppointmentRow_def)

lemma updateMany_ids:
  "(\<And>a. appt_id (f a) = appt_id a) \<Longrightarrow> list_all (\<lambda>a. appt_id a < n) rows \<Longrightarrow>
     list_all (\<lambda>a. appt_id a < n) (updateMany p f rows)"
  by (rule list_all_updateMany) simp_all

lemma accept_tx_ok:
  assumes "appointmentsOk db" "accept_tx now i db = Inr db'"
  shows "appointmentsOk db'"
proof -
  have "noOverlap (appointments db')"
    using assms noOverlap_confirm by (auto simp: accept_tx_cases appointmentsOk_def)
  moreover have "list_all appointmentShape (appointments db')"
    using assms shape_confirm by (auto simp: accept_tx_cases appointmentsOk_def intro: list_all_updateMany)
  moreover have "distinct (map appt_id (appointments db'))"
    using assms by (auto simp: accept_tx_cases appointmentsOk_def appointment_confirm.keys_kept)
  moreover have "list_all (\<lambda>a. appt_id a < nextId db') (appointments db')"
    using assms by (auto simp: accept_tx_cases appointmentsOk_def intro: updateMany_ids)
  ultimately show ?thesis by (simp add: appointmentsOk_def)
qed

lemma cancel_tx_cases:
  "cancel_tx now i reason db = Inr db' \<longleftrightarrow>
     countWhere (isActiveAppointment i) (appointments db) = 1
     \<and> db' = db\<lparr>appointments := updateMany (isActiveAppointment i) (cancelAppointmentRow now reason) (appointments db)\<rparr>"
  by (auto simp: cancel_tx_def cancelAppointmentIfActive_def)

lemma cancel_tx_ok:
  assumes "appointmentsOk db" "cancel_tx now i reason db = Inr db'"
  shows "appointmentsOk db'"
proof -
  have "noOverlap (appointments db')"
    using assms by (auto simp: cancel_tx_cases appointmentsOk_def intro!: noOverlap_drop)
  moreover have "list_all appointmentShape (appointments db')"
    using assms shape_cancel by (auto simp: cancel_tx_cases appointmentsOk_def intro: list_all_updateMany)
  moreover have "distinct (map appt_id (appointments db'))"
    using assms by (auto simp: cancel_tx_cases appointmentsOk_def appointment_cancel.keys_kept simp del: insert_iff)
  moreover have "list_all (\<lambda>a. appt_id a < nextId db') (appointments db')"
    using assms by (auto simp: cancel_tx_cases appointmentsOk_def intro: updateMany_ids)
  ultimately show ?thesis by (simp add: appointmentsOk_def)
qed

lemma propose_ok:
  assumes "appointmentsOk db" "propose now u e s t db = Inr (a, db')"
  shows "appointmentsOk db'"
  using assms(2) createAppointment_ok [OF assms(1), of s t now e]
  by (auto simp: propose_def andThen_Inr_iff not_le split: if_splits dest: arg_cong [of _ _ snd])
     (metis snd_conv)

end
