(* ===== verification/Engagements.thy ===== *)
theory Engagements
  imports Ledger Engagement_Chat Appointments
begin

text \<open>
  The lifecycle of a hired job (src/src/engagements):
  ACCEPTED, IN_PROGRESS, PENDING_CUSTOMER_CONFIRMATION, COMPLETED, and CANCELLED from the first two.
  Every transition is a service whose reads check the caller and the state, and whose transaction
  repeats the state check in the guarded update, emits a system message and, for a cancellation,
  records the ledger event.
\<close>

section \<open>Repository\<close>

definition createEngagement :: "time \<Rightarrow> id \<Rightarrow> id \<Rightarrow> id \<Rightarrow> id \<Rightarrow> db \<Rightarrow> err + Engagement \<times> db" where
  "createEngagement now sr quote cust prof db =
     (if list_ex (\<lambda>e. eng_serviceRequestId e = sr \<or> eng_quoteId e = quote) (engagements db)
      then Inl UNIQUE_VIOLATION
      else let e = \<lparr>eng_id = nextId db, eng_serviceRequestId = sr, eng_quoteId = quote,
                    eng_customerProfileId = cust, eng_professionalProfileId = prof,
                    eng_status = EngagementStatus.ACCEPTED, eng_startedAt = None,
                    eng_finishedAt = None, eng_cancelledAt = None, eng_cancelReason = None,
                    eng_completedAt = None, eng_paymentMethod = None, eng_createdAt = now\<rparr>
           in Inr (e, db\<lparr>nextId := Suc (nextId db), engagements := engagements db @ [e]\<rparr>))"

definition inStatus :: "EngagementStatus set \<Rightarrow> id \<Rightarrow> Engagement \<Rightarrow> bool" where
  "inStatus S = guard eng_id eng_status (\<lambda>s. s \<in> S)"

definition startWork :: "time \<Rightarrow> Engagement \<Rightarrow> Engagement" where
  "startWork now e = e\<lparr>eng_status := EngagementStatus.IN_PROGRESS, eng_startedAt := Some now\<rparr>"

definition finishWork :: "time \<Rightarrow> Engagement \<Rightarrow> Engagement" where
  "finishWork now e =
     e\<lparr>eng_status := EngagementStatus.PENDING_CUSTOMER_CONFIRMATION, eng_finishedAt := Some now\<rparr>"

definition completeWork :: "time \<Rightarrow> Engagement \<Rightarrow> Engagement" where
  "completeWork now e = e\<lparr>eng_status := EngagementStatus.COMPLETED, eng_completedAt := Some now\<rparr>"

definition cancelWork :: "time \<Rightarrow> string \<Rightarrow> Engagement \<Rightarrow> Engagement" where
  "cancelWork now reason e = e\<lparr>eng_status := EngagementStatus.CANCELLED,
     eng_cancelledAt := Some now, eng_cancelReason := Some reason\<rparr>"

definition updateEngagements :: "(Engagement \<Rightarrow> bool) \<Rightarrow> (Engagement \<Rightarrow> Engagement) \<Rightarrow> db \<Rightarrow> nat \<times> db" where
  "updateEngagements p f db =
     (countWhere p (engagements db), db\<lparr>engagements := updateMany p f (engagements db)\<rparr>)"

definition startWorkIfAccepted :: "time \<Rightarrow> id \<Rightarrow> db \<Rightarrow> nat \<times> db" where
  "startWorkIfAccepted now i = updateEngagements (inStatus {EngagementStatus.ACCEPTED} i) (startWork now)"

definition finishWorkIfInProgress :: "time \<Rightarrow> id \<Rightarrow> db \<Rightarrow> nat \<times> db" where
  "finishWorkIfInProgress now i =
     updateEngagements (inStatus {EngagementStatus.IN_PROGRESS} i) (finishWork now)"

definition completeIfPendingCustomerConfirmation :: "time \<Rightarrow> id \<Rightarrow> db \<Rightarrow> nat \<times> db" where
  "completeIfPendingCustomerConfirmation now i =
     updateEngagements (inStatus {EngagementStatus.PENDING_CUSTOMER_CONFIRMATION} i) (completeWork now)"

definition cancelIfActive :: "time \<Rightarrow> id \<Rightarrow> string \<Rightarrow> db \<Rightarrow> nat \<times> db" where
  "cancelIfActive now i reason = updateEngagements
     (inStatus {EngagementStatus.ACCEPTED, EngagementStatus.IN_PROGRESS} i) (cancelWork now reason)"

definition setPaymentMethodIfUnset :: "id \<Rightarrow> PaymentMethod \<Rightarrow> db \<Rightarrow> nat \<times> db" where
  "setPaymentMethodIfUnset i m =
     updateEngagements (\<lambda>e. eng_id e = i \<and> eng_paymentMethod e = None) (\<lambda>e. e\<lparr>eng_paymentMethod := Some m\<rparr>)"

definition findManyByCustomerProfileId :: "db \<Rightarrow> id \<Rightarrow> Engagement list" where
  "findManyByCustomerProfileId db c =
     sort_key (\<lambda>e. - eng_createdAt e) (filter (\<lambda>e. eng_customerProfileId e = c) (engagements db))"

definition findManyByProfessionalProfileId :: "db \<Rightarrow> id \<Rightarrow> Engagement list" where
  "findManyByProfessionalProfileId db p =
     sort_key (\<lambda>e. - eng_createdAt e) (filter (\<lambda>e. eng_professionalProfileId e = p) (engagements db))"

record BillingContext =
  bc_status :: EngagementStatus
  bc_customerProfileId :: id
  bc_professionalProfileId :: id
  bc_quotedPrice :: int
  bc_country :: CountryCode

definition findQuoteById :: "db \<Rightarrow> id \<Rightarrow> Quote option" where
  "findQuoteById db i = findRow (\<lambda>q. q_id q = i) (quotes db)"

definition quotedPriceOf :: "Quote \<Rightarrow> int" where
  "quotedPriceOf q = (case q_negotiatedPrice q of Some p \<Rightarrow> p | None \<Rightarrow> q_price q)"

text \<open>The join of the Engagement with its Quote and its CustomerProfile; both are foreign keys,
  so the inner cases without a row do not arise in the code's database.  The caller's
  \<^theory_text>\<open>negotiatedPrice ?? price\<close> is applied here.\<close>

definition findByIdWithBillingContext :: "db \<Rightarrow> id \<Rightarrow> BillingContext option" where
  "findByIdWithBillingContext db i = (case findEngagementById db i of
       None \<Rightarrow> None
     | Some e \<Rightarrow> (case (findQuoteById db (eng_quoteId e), findCustomerProfileById db (eng_customerProfileId e)) of
           (Some q, Some c) \<Rightarrow> Some \<lparr>bc_status = eng_status e,
              bc_customerProfileId = eng_customerProfileId e,
              bc_professionalProfileId = eng_professionalProfileId e,
              bc_quotedPrice = quotedPriceOf q, bc_country = cp_country c\<rparr>
         | _ \<Rightarrow> None))"

definition ledgerPartiesOf :: "id \<Rightarrow> BillingContext \<Rightarrow> LedgerParties" where
  "ledgerPartiesOf e b = \<lparr>lp_engagementId = e, lp_currency = CURRENCY_BY_COUNTRY (bc_country b),
     lp_customerProfileId = bc_customerProfileId b, lp_professionalProfileId = bc_professionalProfileId b\<rparr>"

section \<open>Services\<close>

definition startEngagementWork_pre :: "db \<Rightarrow> id \<Rightarrow> id \<Rightarrow> err + Engagement" where
  "startEngagementWork_pre db userId engagementId = (case findEngagementById db engagementId of
       None \<Rightarrow> Inl ENGAGEMENT_NOT_FOUND
     | Some e \<Rightarrow>
        if \<not> ownsAsProfessional db userId e then Inl ENGAGEMENT_NOT_FOUND
        else if eng_status e \<noteq> EngagementStatus.ACCEPTED then Inl ENGAGEMENT_NOT_ACCEPTED
        else if countConfirmedByEngagementId db engagementId < 1 then Inl ENGAGEMENT_HAS_NO_CONFIRMED_APPOINTMENT
        else Inr e)"

definition startEngagementWork_tx :: "time \<Rightarrow> id \<Rightarrow> db \<Rightarrow> err + db" where
  "startEngagementWork_tx now engagementId db =
     (let (count, db') = startWorkIfAccepted now engagementId db
      in if count \<noteq> 1 then Inl ENGAGEMENT_WORK_START_CONFLICT
         else Inr (emit now engagementId (ENGAGEMENT_LIFECYCLE_SYSTEM_MESSAGES WORK_STARTED) db'))"

definition startEngagementWork :: "time \<Rightarrow> id \<Rightarrow> id \<Rightarrow> db \<Rightarrow> err + db" where
  "startEngagementWork now userId engagementId db =
     andThen (startEngagementWork_pre db userId engagementId) (\<lambda>_. startEngagementWork_tx now engagementId db)"

definition markEngagementWorkFinished_pre :: "db \<Rightarrow> id \<Rightarrow> id \<Rightarrow> err + Engagement" where
  "markEngagementWorkFinished_pre db userId engagementId = (case findEngagementById db engagementId of
       None \<Rightarrow> Inl ENGAGEMENT_NOT_FOUND
     | Some e \<Rightarrow>
        if \<not> ownsAsProfessional db userId e then Inl ENGAGEMENT_NOT_FOUND
        else if eng_status e \<noteq> EngagementStatus.IN_PROGRESS then Inl ENGAGEMENT_NOT_IN_PROGRESS
        else Inr e)"

definition markEngagementWorkFinished_tx :: "time \<Rightarrow> id \<Rightarrow> db \<Rightarrow> err + db" where
  "markEngagementWorkFinished_tx now engagementId db =
     (let (count, db') = finishWorkIfInProgress now engagementId db
      in if count \<noteq> 1 then Inl ENGAGEMENT_WORK_FINISH_CONFLICT
         else Inr (emit now engagementId (ENGAGEMENT_LIFECYCLE_SYSTEM_MESSAGES WORK_FINISHED) db'))"

definition markEngagementWorkFinished :: "time \<Rightarrow> id \<Rightarrow> id \<Rightarrow> db \<Rightarrow> err + db" where
  "markEngagementWorkFinished now userId engagementId db =
     andThen (markEngagementWorkFinished_pre db userId engagementId)
       (\<lambda>_. markEngagementWorkFinished_tx now engagementId db)"

definition confirmEngagementCompletion_pre :: "db \<Rightarrow> id \<Rightarrow> id \<Rightarrow> err + Engagement" where
  "confirmEngagementCompletion_pre db userId engagementId = (case findEngagementById db engagementId of
       None \<Rightarrow> Inl ENGAGEMENT_NOT_FOUND
     | Some e \<Rightarrow>
        if \<not> ownsAsCustomer db userId e then Inl ENGAGEMENT_NOT_FOUND
        else if eng_status e \<noteq> EngagementStatus.PENDING_CUSTOMER_CONFIRMATION
          then Inl ENGAGEMENT_NOT_PENDING_CUSTOMER_CONFIRMATION
        else Inr e)"

definition confirmEngagementCompletion_tx :: "time \<Rightarrow> id \<Rightarrow> db \<Rightarrow> err + db" where
  "confirmEngagementCompletion_tx now engagementId db =
     (let (count, db') = completeIfPendingCustomerConfirmation now engagementId db
      in if count \<noteq> 1 then Inl ENGAGEMENT_COMPLETION_CONFLICT
         else Inr (emit now engagementId (ENGAGEMENT_LIFECYCLE_SYSTEM_MESSAGES COMPLETION_CONFIRMED) db'))"

definition confirmEngagementCompletion :: "time \<Rightarrow> id \<Rightarrow> id \<Rightarrow> db \<Rightarrow> err + db" where
  "confirmEngagementCompletion now userId engagementId db =
     andThen (confirmEngagementCompletion_pre db userId engagementId)
       (\<lambda>_. confirmEngagementCompletion_tx now engagementId db)"

definition cancelEngagementByCustomer_pre :: "db \<Rightarrow> id \<Rightarrow> id \<Rightarrow> err + BillingContext" where
  "cancelEngagementByCustomer_pre db userId engagementId =
     (case (findByIdWithBillingContext db engagementId, findCustomerProfileByUserId db userId) of
       (Some b, Some p) \<Rightarrow>
         if bc_customerProfileId b \<noteq> cp_id p then Inl ENGAGEMENT_NOT_FOUND
         else if bc_status b \<noteq> EngagementStatus.ACCEPTED \<and> bc_status b \<noteq> EngagementStatus.IN_PROGRESS
           then Inl ENGAGEMENT_NOT_CANCELLABLE_BY_CUSTOMER
         else Inr b
     | _ \<Rightarrow> Inl ENGAGEMENT_NOT_FOUND)"

definition cancelEngagementByCustomer_tx :: "time \<Rightarrow> id \<Rightarrow> string \<Rightarrow> BillingContext \<Rightarrow> db \<Rightarrow> err + db" where
  "cancelEngagementByCustomer_tx now engagementId reason b db =
     (let (count, db') = cancelIfActive now engagementId reason db
      in if count \<noteq> 1 then Inl ENGAGEMENT_CANCEL_CONFLICT
         else recordIfApplicable now (bc_status b) (ledgerPartiesOf engagementId b) (bc_quotedPrice b)
                (emit now engagementId (ENGAGEMENT_LIFECYCLE_SYSTEM_MESSAGES CANCELLED_BY_CUSTOMER) db'))"

definition cancelEngagementByCustomer :: "time \<Rightarrow> id \<Rightarrow> id \<Rightarrow> string \<Rightarrow> db \<Rightarrow> err + db" where
  "cancelEngagementByCustomer now userId engagementId reason db =
     andThen (cancelEngagementByCustomer_pre db userId engagementId)
       (\<lambda>b. cancelEngagementByCustomer_tx now engagementId reason b db)"

definition cancelEngagementByProfessional_pre :: "db \<Rightarrow> id \<Rightarrow> id \<Rightarrow> err + BillingContext" where
  "cancelEngagementByProfessional_pre db userId engagementId =
     (case (findByIdWithBillingContext db engagementId, findProfessionalProfileByUserId db userId) of
       (Some b, Some p) \<Rightarrow>
         if bc_professionalProfileId b \<noteq> pp_id p then Inl ENGAGEMENT_NOT_FOUND
         else if bc_status b \<noteq> EngagementStatus.ACCEPTED \<and> bc_status b \<noteq> EngagementStatus.IN_PROGRESS
           then Inl ENGAGEMENT_NOT_CANCELLABLE_BY_PROFESSIONAL
         else Inr b
     | _ \<Rightarrow> Inl ENGAGEMENT_NOT_FOUND)"

definition cancelEngagementByProfessional_tx :: "time \<Rightarrow> id \<Rightarrow> string \<Rightarrow> BillingContext \<Rightarrow> db \<Rightarrow> err + db" where
  "cancelEngagementByProfessional_tx now engagementId reason b db =
     (let (count, db') = cancelIfActive now engagementId reason db
      in if count \<noteq> 1 then Inl ENGAGEMENT_CANCEL_CONFLICT
         else recordRefund now (ledgerPartiesOf engagementId b) (bc_quotedPrice b)
                (emit now engagementId (ENGAGEMENT_LIFECYCLE_SYSTEM_MESSAGES CANCELLED_BY_PROFESSIONAL) db'))"

definition cancelEngagementByProfessional :: "time \<Rightarrow> id \<Rightarrow> id \<Rightarrow> string \<Rightarrow> db \<Rightarrow> err + db" where
  "cancelEngagementByProfessional now userId engagementId reason db =
     andThen (cancelEngagementByProfessional_pre db userId engagementId)
       (\<lambda>b. cancelEngagementByProfessional_tx now engagementId reason b db)"

definition reportEngagementNoShow :: "id \<Rightarrow> id \<Rightarrow> db \<Rightarrow> err + db" where
  "reportEngagementNoShow userId engagementId db = (case findEngagementById db engagementId of
       None \<Rightarrow> Inl ENGAGEMENT_NOT_FOUND
     | Some e \<Rightarrow>
        let isCustomer = ownsAsCustomer db userId e; isProfessional = ownsAsProfessional db userId e
        in if \<not> isCustomer \<and> \<not> isProfessional then Inl ENGAGEMENT_NOT_FOUND
           else if eng_status e \<noteq> EngagementStatus.ACCEPTED \<and> eng_status e \<noteq> EngagementStatus.IN_PROGRESS
             then Inl ENGAGEMENT_NOT_REPORTABLE_FOR_NO_SHOW
           else if isCustomer then incrementProfessionalNoShowReportedCount (eng_professionalProfileId e) db
           else incrementCustomerNoShowReportedCount (eng_customerProfileId e) db)"

definition listMyEngagementsAsCustomer :: "db \<Rightarrow> id \<Rightarrow> err + Engagement list" where
  "listMyEngagementsAsCustomer db userId = (case findCustomerProfileByUserId db userId of
       None \<Rightarrow> Inl CUSTOMER_PROFILE_REQUIRED
     | Some p \<Rightarrow> Inr (findManyByCustomerProfileId db (cp_id p)))"

definition listMyEngagementsAsProfessional :: "db \<Rightarrow> id \<Rightarrow> err + Engagement list" where
  "listMyEngagementsAsProfessional db userId = (case findProfessionalProfileByUserId db userId of
       None \<Rightarrow> Inl PROFESSIONAL_PROFILE_REQUIRED
     | Some p \<Rightarrow> Inr (findManyByProfessionalProfileId db (pp_id p)))"

end
