(* ===== verification/Quotes.thy ===== *)
theory Quotes
  imports Service_Requests Engagements
begin

text \<open>
  Quotes (src/src/quotes): submitted SENT on an OPEN service request, withdrawn by the professional,
  rejected or accepted by the customer.  Acceptance is one transaction over four tables: the service
  request becomes ENGAGED with the quote as its accepted one, the quote ACCEPTED, its SENT siblings
  REJECTED, and the engagement is created.
\<close>

section \<open>Repository\<close>

definition createQuote :: "time \<Rightarrow> id \<Rightarrow> id \<Rightarrow> int \<Rightarrow> string \<Rightarrow> db \<Rightarrow> Quote \<times> db" where
  "createQuote now sr prof price message db =
     (let q = \<lparr>q_id = nextId db, q_serviceRequestId = sr, q_professionalProfileId = prof,
              q_price = price, q_negotiatedPrice = None, q_message = message,
              q_status = QuoteStatus.SENT, q_withdrawnAt = None, q_rejectedAt = None,
              q_acceptedAt = None, q_createdAt = now\<rparr>
      in (q, db\<lparr>nextId := Suc (nextId db), quotes := quotes db @ [q]\<rparr>))"

definition createAttachments :: "id \<Rightarrow> string list \<Rightarrow> db \<Rightarrow> db" where
  "createAttachments quoteId urls db = db\<lparr>nextId := nextId db + length urls,
     quoteAttachments := quoteAttachments db @ attachmentRows (nextId db) quoteId 0 urls\<rparr>"

abbreviation isSent :: "id \<Rightarrow> Quote \<Rightarrow> bool" where
  "isSent \<equiv> guard q_id q_status (\<lambda>s. s = QuoteStatus.SENT)"

definition withdrawQuoteRow :: "time \<Rightarrow> Quote \<Rightarrow> Quote" where
  "withdrawQuoteRow now q = q\<lparr>q_status := QuoteStatus.WITHDRAWN, q_withdrawnAt := Some now\<rparr>"

definition rejectQuoteRow :: "time \<Rightarrow> Quote \<Rightarrow> Quote" where
  "rejectQuoteRow now q = q\<lparr>q_status := QuoteStatus.REJECTED, q_rejectedAt := Some now\<rparr>"

definition acceptQuoteRow :: "time \<Rightarrow> Quote \<Rightarrow> Quote" where
  "acceptQuoteRow now q = q\<lparr>q_status := QuoteStatus.ACCEPTED, q_acceptedAt := Some now\<rparr>"

definition updateQuotes :: "(Quote \<Rightarrow> bool) \<Rightarrow> (Quote \<Rightarrow> Quote) \<Rightarrow> db \<Rightarrow> nat \<times> db" where
  "updateQuotes p f db = (countWhere p (quotes db), db\<lparr>quotes := updateMany p f (quotes db)\<rparr>)"

definition withdraw :: "time \<Rightarrow> id \<Rightarrow> db \<Rightarrow> nat \<times> db" where
  "withdraw now i = updateQuotes (isSent i) (withdrawQuoteRow now)"

definition reject :: "time \<Rightarrow> id \<Rightarrow> db \<Rightarrow> nat \<times> db" where
  "reject now i = updateQuotes (isSent i) (rejectQuoteRow now)"

definition transitionToAcceptedIfSent :: "time \<Rightarrow> id \<Rightarrow> id \<Rightarrow> db \<Rightarrow> nat \<times> db" where
  "transitionToAcceptedIfSent now i sr =
     updateQuotes (\<lambda>q. isSent i q \<and> q_serviceRequestId q = sr) (acceptQuoteRow now)"

definition isSentSibling :: "id \<Rightarrow> id \<Rightarrow> Quote \<Rightarrow> bool" where
  "isSentSibling sr accepted q \<longleftrightarrow> q_serviceRequestId q = sr \<and> q_status q = QuoteStatus.SENT \<and> q_id q \<noteq> accepted"

definition rejectSiblingsSent :: "time \<Rightarrow> id \<Rightarrow> id \<Rightarrow> db \<Rightarrow> nat \<times> db" where
  "rejectSiblingsSent now sr accepted = updateQuotes (isSentSibling sr accepted) (rejectQuoteRow now)"

definition setNegotiatedPrice :: "id \<Rightarrow> int \<Rightarrow> db \<Rightarrow> err + db" where
  "setNegotiatedPrice i price db =
     (let (count, db') = updateQuotes (\<lambda>q. q_id q = i) (\<lambda>q. q\<lparr>q_negotiatedPrice := Some price\<rparr>) db
      in if count = 0 then Inl RECORD_NOT_FOUND else Inr db')"

definition newestQuotes :: "Quote list \<Rightarrow> Quote list" where
  "newestQuotes rows = sort_key (\<lambda>q. - q_createdAt q) rows"

definition findPendingProposalByQuoteId :: "db \<Rightarrow> id \<Rightarrow> QuotePriceProposal option" where
  "findPendingProposalByQuoteId db i = findRow
     (\<lambda>p. prop_quoteId p = i \<and> prop_status p = QuotePriceProposalStatus.PENDING) (priceProposals db)"

section \<open>Services\<close>

definition submitQuote_pre :: "db \<Rightarrow> id \<Rightarrow> id \<Rightarrow> int \<Rightarrow> err + id" where
  "submitQuote_pre db userId serviceRequestId price = (case findProfessionalProfileByUserId db userId of
       None \<Rightarrow> Inl PROFESSIONAL_PROFILE_REQUIRED
     | Some p \<Rightarrow> (case findServiceRequestById db serviceRequestId of
           None \<Rightarrow> Inl SERVICE_REQUEST_NOT_FOUND
         | Some sr \<Rightarrow>
            if sr_status sr \<noteq> ServiceRequestStatus.OPEN then Inl SERVICE_REQUEST_NOT_OPEN
            else if price \<le> 0 then Inl INVALID_QUOTE_PRICE
            else Inr (pp_id p)))"

definition submitQuote :: "time \<Rightarrow> id \<Rightarrow> id \<Rightarrow> int \<Rightarrow> string \<Rightarrow> db \<Rightarrow> err + Quote \<times> db" where
  "submitQuote now userId serviceRequestId price message db =
     andThen (submitQuote_pre db userId serviceRequestId price)
       (\<lambda>prof. Inr (createQuote now serviceRequestId prof price message db))"

definition withdrawQuote_pre :: "db \<Rightarrow> id \<Rightarrow> id \<Rightarrow> err + Quote" where
  "withdrawQuote_pre db userId quoteId = (case findProfessionalProfileByUserId db userId of
       None \<Rightarrow> Inl PROFESSIONAL_PROFILE_REQUIRED
     | Some p \<Rightarrow> (case findQuoteById db quoteId of
           None \<Rightarrow> Inl QUOTE_NOT_FOUND
         | Some q \<Rightarrow> if q_professionalProfileId q \<noteq> pp_id p then Inl QUOTE_NOT_FOUND else Inr q))"

definition withdrawQuote_tx :: "time \<Rightarrow> id \<Rightarrow> db \<Rightarrow> err + db" where
  "withdrawQuote_tx now quoteId db =
     (let (count, db') = withdraw now quoteId db in if count \<noteq> 1 then Inl QUOTE_NOT_SENT else Inr db')"

definition withdrawQuote :: "time \<Rightarrow> id \<Rightarrow> id \<Rightarrow> db \<Rightarrow> err + db" where
  "withdrawQuote now userId quoteId db =
     andThen (withdrawQuote_pre db userId quoteId) (\<lambda>_. withdrawQuote_tx now quoteId db)"

definition rejectQuote_pre :: "db \<Rightarrow> id \<Rightarrow> id \<Rightarrow> err + Quote" where
  "rejectQuote_pre db userId quoteId = (case findCustomerProfileByUserId db userId of
       None \<Rightarrow> Inl CUSTOMER_PROFILE_REQUIRED
     | Some c \<Rightarrow> (case findQuoteById db quoteId of
           None \<Rightarrow> Inl QUOTE_NOT_FOUND
         | Some q \<Rightarrow> (case findServiceRequestById db (q_serviceRequestId q) of
               None \<Rightarrow> Inl QUOTE_NOT_FOUND
             | Some sr \<Rightarrow> if sr_customerProfileId sr \<noteq> cp_id c then Inl QUOTE_NOT_FOUND else Inr q)))"

definition rejectQuote_tx :: "time \<Rightarrow> id \<Rightarrow> db \<Rightarrow> err + db" where
  "rejectQuote_tx now quoteId db =
     (let (count, db') = reject now quoteId db in if count \<noteq> 1 then Inl QUOTE_NOT_SENT else Inr db')"

definition rejectQuote :: "time \<Rightarrow> id \<Rightarrow> id \<Rightarrow> db \<Rightarrow> err + db" where
  "rejectQuote now userId quoteId db =
     andThen (rejectQuote_pre db userId quoteId) (\<lambda>_. rejectQuote_tx now quoteId db)"

text \<open>What the reads of an acceptance capture for its transaction.\<close>

record QuoteAcceptance =
  qa_serviceRequestId :: id
  qa_quoteId :: id
  qa_customerProfileId :: id
  qa_professionalProfileId :: id

definition acceptQuote_pre :: "db \<Rightarrow> id \<Rightarrow> id \<Rightarrow> err + QuoteAcceptance" where
  "acceptQuote_pre db userId quoteId = (case findCustomerProfileByUserId db userId of
       None \<Rightarrow> Inl CUSTOMER_PROFILE_REQUIRED
     | Some c \<Rightarrow> (case findQuoteById db quoteId of
           None \<Rightarrow> Inl QUOTE_NOT_FOUND
         | Some q \<Rightarrow> (case findServiceRequestById db (q_serviceRequestId q) of
               None \<Rightarrow> Inl QUOTE_NOT_FOUND
             | Some sr \<Rightarrow>
                if sr_customerProfileId sr \<noteq> cp_id c then Inl QUOTE_NOT_FOUND
                else if sr_status sr \<noteq> ServiceRequestStatus.OPEN then Inl SERVICE_REQUEST_NOT_OPEN
                else if q_status q \<noteq> QuoteStatus.SENT then Inl QUOTE_NOT_SENT
                else if findPendingProposalByQuoteId db (q_id q) \<noteq> None then Inl QUOTE_HAS_PENDING_PRICE_PROPOSAL
                else Inr \<lparr>qa_serviceRequestId = sr_id sr, qa_quoteId = q_id q,
                          qa_customerProfileId = cp_id c,
                          qa_professionalProfileId = q_professionalProfileId q\<rparr>)))"

definition acceptQuote_tx :: "time \<Rightarrow> QuoteAcceptance \<Rightarrow> db \<Rightarrow> err + db" where
  "acceptQuote_tx now a db =
     (let (srCount, db1) = transitionToEngagedIfOpen (qa_serviceRequestId a) (qa_quoteId a) db
      in if srCount \<noteq> 1 then Inl QUOTE_ACCEPT_CONFLICT
         else let (quoteCount, db2) = transitionToAcceptedIfSent now (qa_quoteId a) (qa_serviceRequestId a) db1
           in if quoteCount \<noteq> 1 then Inl QUOTE_ACCEPT_CONFLICT
              else let (_, db3) = rejectSiblingsSent now (qa_serviceRequestId a) (qa_quoteId a) db2
                in andThen (createEngagement now (qa_serviceRequestId a) (qa_quoteId a)
                              (qa_customerProfileId a) (qa_professionalProfileId a) db3)
                     (\<lambda>(_, db4). Inr db4))"

definition acceptQuote :: "time \<Rightarrow> id \<Rightarrow> id \<Rightarrow> db \<Rightarrow> err + db" where
  "acceptQuote now userId quoteId db =
     andThen (acceptQuote_pre db userId quoteId) (\<lambda>a. acceptQuote_tx now a db)"

definition addAttachments_pre :: "time \<Rightarrow> id \<Rightarrow> id \<Rightarrow> id list \<Rightarrow> db \<Rightarrow> err + string list" where
  "addAttachments_pre now userId quoteId refIds db = (case findProfessionalProfileByUserId db userId of
       None \<Rightarrow> Inl PROFESSIONAL_PROFILE_REQUIRED
     | Some p \<Rightarrow> (case findQuoteById db quoteId of
           None \<Rightarrow> Inl QUOTE_NOT_FOUND
         | Some q \<Rightarrow>
            if q_professionalProfileId q \<noteq> pp_id p then Inl QUOTE_NOT_FOUND
            else if q_status q \<noteq> QuoteStatus.SENT then Inl QUOTE_NOT_SENT
            else let usable = findUsablePendingRefs now userId refIds QUOTE_ATTACHMENT db
              in if length usable \<noteq> length refIds then Inl INVALID_MEDIA_UPLOAD_REF
                 else Inr (map mref_fileUrl (pickRefs mref_id usable refIds))))"

definition addAttachments_tx :: "time \<Rightarrow> id \<Rightarrow> id list \<Rightarrow> string list \<Rightarrow> db \<Rightarrow> err + db" where
  "addAttachments_tx now quoteId refIds urls db =
     (let (count, db') = markConsumed now refIds (createAttachments quoteId urls db)
      in if count \<noteq> length refIds then Inl INVALID_MEDIA_UPLOAD_REF else Inr db')"

definition addAttachments :: "time \<Rightarrow> id \<Rightarrow> id \<Rightarrow> id list \<Rightarrow> db \<Rightarrow> err + db" where
  "addAttachments now userId quoteId refIds db =
     andThen (addAttachments_pre now userId quoteId refIds db)
       (\<lambda>urls. addAttachments_tx now quoteId refIds urls db)"

definition listMyQuotes :: "db \<Rightarrow> id \<Rightarrow> err + Quote list" where
  "listMyQuotes db userId = (case findProfessionalProfileByUserId db userId of
       None \<Rightarrow> Inl PROFESSIONAL_PROFILE_REQUIRED
     | Some p \<Rightarrow> Inr (newestQuotes (filter (\<lambda>q. q_professionalProfileId q = pp_id p) (quotes db))))"

definition listQuotesForServiceRequest :: "db \<Rightarrow> id \<Rightarrow> id \<Rightarrow> err + Quote list" where
  "listQuotesForServiceRequest db userId srId = (case findCustomerProfileByUserId db userId of
       None \<Rightarrow> Inl CUSTOMER_PROFILE_REQUIRED
     | Some c \<Rightarrow> (case findServiceRequestById db srId of
           None \<Rightarrow> Inl SERVICE_REQUEST_NOT_FOUND
         | Some sr \<Rightarrow> if sr_customerProfileId sr \<noteq> cp_id c then Inl SERVICE_REQUEST_NOT_FOUND
             else Inr (newestQuotes (filter (\<lambda>q. q_serviceRequestId q = srId) (quotes db)))))"

end
