(* ===== verification/Quote_Negotiation.thy ===== *)
theory Quote_Negotiation
  imports Quotes
begin

text \<open>
  The negotiation of a SENT quote (src/src/quote-negotiation): messages, and price proposals of
  which a post supersedes the pending ones; the other party accepts (which sets the quote's
  negotiated price) or rejects.
\<close>

section \<open>Repository\<close>

definition findProposalById :: "db \<Rightarrow> id \<Rightarrow> QuotePriceProposal option" where
  "findProposalById db i = findRow (\<lambda>p. prop_id p = i) (priceProposals db)"

definition createNegotiationMessage ::
  "time \<Rightarrow> id \<Rightarrow> QuoteNegotiationParty \<Rightarrow> id option \<Rightarrow> id option \<Rightarrow> string \<Rightarrow> string option \<Rightarrow> db
     \<Rightarrow> QuoteNegotiationMessage \<times> db" where
  "createNegotiationMessage now quoteId role cust prof message imageUrl db =
     (let m = \<lparr>nm_id = nextId db, nm_quoteId = quoteId, nm_authorRole = role,
              nm_authorCustomerProfileId = cust, nm_authorProfessionalProfileId = prof,
              nm_message = message, nm_imageUrl = imageUrl, nm_createdAt = now\<rparr>
      in (m, db\<lparr>nextId := Suc (nextId db), negotiationMessages := negotiationMessages db @ [m]\<rparr>))"

definition isPendingProposalOf :: "id \<Rightarrow> QuotePriceProposal \<Rightarrow> bool" where
  "isPendingProposalOf quoteId p \<longleftrightarrow> prop_quoteId p = quoteId \<and> prop_status p = QuotePriceProposalStatus.PENDING"

definition supersedePendingProposals :: "id \<Rightarrow> db \<Rightarrow> db" where
  "supersedePendingProposals quoteId db = db\<lparr>priceProposals := updateMany (isPendingProposalOf quoteId)
     (\<lambda>p. p\<lparr>prop_status := QuotePriceProposalStatus.SUPERSEDED\<rparr>) (priceProposals db)\<rparr>"

definition createPriceProposal ::
  "time \<Rightarrow> id \<Rightarrow> id \<Rightarrow> QuoteNegotiationParty \<Rightarrow> id option \<Rightarrow> id option \<Rightarrow> int \<Rightarrow> db \<Rightarrow> db" where
  "createPriceProposal now quoteId messageId role cust prof price db =
     db\<lparr>nextId := Suc (nextId db), priceProposals := priceProposals db @
       [\<lparr>prop_id = nextId db, prop_quoteId = quoteId, prop_negotiationMessageId = messageId,
         prop_proposedByRole = role, prop_proposedByCustomerProfileId = cust,
         prop_proposedByProfessionalProfileId = prof, prop_proposedPrice = price,
         prop_status = QuotePriceProposalStatus.PENDING, prop_resolvedByCustomerProfileId = None,
         prop_resolvedByProfessionalProfileId = None, prop_resolvedAt = None, prop_createdAt = now\<rparr>]\<rparr>"

abbreviation isPendingProposal :: "id \<Rightarrow> QuotePriceProposal \<Rightarrow> bool" where
  "isPendingProposal \<equiv> guard prop_id prop_status (\<lambda>s. s = QuotePriceProposalStatus.PENDING)"

definition resolveProposalRow ::
  "time \<Rightarrow> QuotePriceProposalStatus \<Rightarrow> id option \<Rightarrow> id option \<Rightarrow> QuotePriceProposal \<Rightarrow> QuotePriceProposal" where
  "resolveProposalRow now s cust prof p = p\<lparr>prop_status := s, prop_resolvedAt := Some now,
     prop_resolvedByCustomerProfileId := cust, prop_resolvedByProfessionalProfileId := prof\<rparr>"

definition acceptProposal :: "time \<Rightarrow> id \<Rightarrow> id option \<Rightarrow> id option \<Rightarrow> db \<Rightarrow> nat \<times> db" where
  "acceptProposal now i cust prof db = (countWhere (isPendingProposal i) (priceProposals db),
     db\<lparr>priceProposals := updateMany (isPendingProposal i)
          (resolveProposalRow now QuotePriceProposalStatus.ACCEPTED cust prof) (priceProposals db)\<rparr>)"

definition rejectProposal :: "time \<Rightarrow> id \<Rightarrow> id option \<Rightarrow> id option \<Rightarrow> db \<Rightarrow> nat \<times> db" where
  "rejectProposal now i cust prof db = (countWhere (isPendingProposal i) (priceProposals db),
     db\<lparr>priceProposals := updateMany (isPendingProposal i)
          (resolveProposalRow now QuotePriceProposalStatus.REJECTED cust prof) (priceProposals db)\<rparr>)"

definition findMessagesByQuoteId :: "db \<Rightarrow> id \<Rightarrow> (QuoteNegotiationMessage \<times> QuotePriceProposal option) list" where
  "findMessagesByQuoteId db quoteId =
     map (\<lambda>m. (m, findRow (\<lambda>p. prop_negotiationMessageId p = nm_id m) (priceProposals db)))
       (sort_key nm_createdAt (filter (\<lambda>m. nm_quoteId m = quoteId) (negotiationMessages db)))"

section \<open>Access\<close>

record QuoteNegotiationPartyResolution =
  np_role :: QuoteNegotiationParty
  np_quote :: Quote
  np_serviceRequest :: ServiceRequest
  np_customerProfileId :: "id option"
  np_professionalProfileId :: "id option"

definition negotiation_tryResolveParty :: "db \<Rightarrow> id \<Rightarrow> id \<Rightarrow> QuoteNegotiationPartyResolution option" where
  "negotiation_tryResolveParty db userId quoteId = (case findQuoteById db quoteId of
       None \<Rightarrow> None
     | Some quote \<Rightarrow> (case findServiceRequestById db (q_serviceRequestId quote) of
           None \<Rightarrow> None
         | Some serviceRequest \<Rightarrow>
              if (case findCustomerProfileByUserId db userId of
                    Some c \<Rightarrow> sr_customerProfileId serviceRequest = cp_id c | None \<Rightarrow> False) then
                Some \<lparr>np_role = QuoteNegotiationParty.CUSTOMER, np_quote = quote,
                      np_serviceRequest = serviceRequest,
                      np_customerProfileId = Some (sr_customerProfileId serviceRequest),
                      np_professionalProfileId = None\<rparr>
              else if (case findProfessionalProfileByUserId db userId of
                         Some p \<Rightarrow> q_professionalProfileId quote = pp_id p | None \<Rightarrow> False) then
                Some \<lparr>np_role = QuoteNegotiationParty.PROFESSIONAL, np_quote = quote,
                      np_serviceRequest = serviceRequest, np_customerProfileId = None,
                      np_professionalProfileId = Some (q_professionalProfileId quote)\<rparr>
              else None))"

definition negotiation_resolveParty :: "db \<Rightarrow> id \<Rightarrow> id \<Rightarrow> err + QuoteNegotiationPartyResolution" where
  "negotiation_resolveParty db userId quoteId = orThrow QUOTE_NOT_FOUND (negotiation_tryResolveParty db userId quoteId)"

section \<open>Services\<close>

definition CUSTOMER_CAN_PROPOSE_KEY :: string where
  "CUSTOMER_CAN_PROPOSE_KEY = ''quote-negotiation.price-edit.customer-can-propose''"

definition PROFESSIONAL_CAN_PROPOSE_KEY :: string where
  "PROFESSIONAL_CAN_PROPOSE_KEY = ''quote-negotiation.price-edit.professional-can-propose''"

definition canProposeKey :: "QuoteNegotiationParty \<Rightarrow> string" where
  "canProposeKey r = (case r of QuoteNegotiationParty.CUSTOMER \<Rightarrow> CUSTOMER_CAN_PROPOSE_KEY
     | QuoteNegotiationParty.PROFESSIONAL \<Rightarrow> PROFESSIONAL_CAN_PROPOSE_KEY)"

definition quotePriceProposalDisabled :: "QuoteNegotiationParty \<Rightarrow> err" where
  "quotePriceProposalDisabled r = (case r of
       QuoteNegotiationParty.CUSTOMER \<Rightarrow> QUOTE_PRICE_PROPOSAL_DISABLED_FOR_CUSTOMER
     | QuoteNegotiationParty.PROFESSIONAL \<Rightarrow> QUOTE_PRICE_PROPOSAL_DISABLED_FOR_PROFESSIONAL)"

record PostMessageInput =
  pm_message :: string
  pm_proposedPrice :: "int option"
  pm_mediaUploadRefId :: "id option"

definition postMessage_pre ::
  "time \<Rightarrow> id \<Rightarrow> id \<Rightarrow> PostMessageInput \<Rightarrow> db \<Rightarrow> err + QuoteNegotiationPartyResolution \<times> string option" where
  "postMessage_pre now userId quoteId input db =
     andThen (negotiation_resolveParty db userId quoteId) (\<lambda>party.
       if q_status (np_quote party) \<noteq> QuoteStatus.SENT then Inl QUOTE_NOT_NEGOTIABLE
       else if pm_proposedPrice input \<noteq> None \<and> \<not> isEnabled db (canProposeKey (np_role party))
         then Inl (quotePriceProposalDisabled (np_role party))
       else case pm_mediaUploadRefId input of
           None \<Rightarrow> Inr (party, None)
         | Some ref \<Rightarrow> (case findUsablePendingRefs now userId [ref] QUOTE_NEGOTIATION_MESSAGE_IMAGE db of
               [] \<Rightarrow> Inl INVALID_MEDIA_UPLOAD_REF
             | r # _ \<Rightarrow> Inr (party, Some (mref_fileUrl r))))"

definition consumeOptionalRef :: "time \<Rightarrow> id option \<Rightarrow> db \<Rightarrow> err + db" where
  "consumeOptionalRef now refId db = (case refId of
       None \<Rightarrow> Inr db
     | Some ref \<Rightarrow> (let (count, db') = markConsumed now [ref] db
         in if count \<noteq> 1 then Inl INVALID_MEDIA_UPLOAD_REF else Inr db'))"

definition postMessage_tx ::
  "time \<Rightarrow> id \<Rightarrow> PostMessageInput \<Rightarrow> QuoteNegotiationPartyResolution \<times> string option \<Rightarrow> db \<Rightarrow> err + db" where
  "postMessage_tx now quoteId input captured db =
     (let party = fst captured;
          (m, db1) = createNegotiationMessage now quoteId (np_role party) (np_customerProfileId party)
                       (np_professionalProfileId party) (pm_message input) (snd captured) db
      in andThen (consumeOptionalRef now (pm_mediaUploadRefId input) db1) (\<lambda>db2.
           case pm_proposedPrice input of
             None \<Rightarrow> Inr db2
           | Some price \<Rightarrow> Inr (createPriceProposal now quoteId (nm_id m) (np_role party)
               (np_customerProfileId party) (np_professionalProfileId party) price
               (supersedePendingProposals quoteId db2))))"

definition postMessage :: "time \<Rightarrow> id \<Rightarrow> id \<Rightarrow> PostMessageInput \<Rightarrow> db \<Rightarrow> err + db" where
  "postMessage now userId quoteId input db =
     andThen (postMessage_pre now userId quoteId input db) (\<lambda>c. postMessage_tx now quoteId input c db)"

text \<open>Accepting and rejecting a proposal share their reads.\<close>

definition resolveProposal_pre ::
  "db \<Rightarrow> id \<Rightarrow> id \<Rightarrow> err + QuotePriceProposal \<times> QuoteNegotiationPartyResolution" where
  "resolveProposal_pre db userId proposalId =
     andThen (orThrow QUOTE_PRICE_PROPOSAL_NOT_FOUND (findProposalById db proposalId)) (\<lambda>proposal.
       andThen (orThrow QUOTE_PRICE_PROPOSAL_NOT_FOUND
                  (negotiation_tryResolveParty db userId (prop_quoteId proposal))) (\<lambda>party.
         if np_role party = prop_proposedByRole proposal then Inl QUOTE_PRICE_PROPOSAL_SELF_RESOLVE_FORBIDDEN
         else if q_status (np_quote party) \<noteq> QuoteStatus.SENT then Inl QUOTE_NOT_NEGOTIABLE
         else if prop_status proposal \<noteq> QuotePriceProposalStatus.PENDING then Inl QUOTE_PRICE_PROPOSAL_NOT_PENDING
         else Inr (proposal, party)))"

definition acceptProposal_tx ::
  "time \<Rightarrow> QuotePriceProposal \<times> QuoteNegotiationPartyResolution \<Rightarrow> db \<Rightarrow> err + db" where
  "acceptProposal_tx now captured db =
     (let (proposal, party) = captured;
          (count, db') = acceptProposal now (prop_id proposal) (np_customerProfileId party)
                           (np_professionalProfileId party) db
      in if count \<noteq> 1 then Inl QUOTE_PRICE_PROPOSAL_RESOLVE_CONFLICT
         else setNegotiatedPrice (prop_quoteId proposal) (prop_proposedPrice proposal) db')"

definition acceptQuotePriceProposal :: "time \<Rightarrow> id \<Rightarrow> id \<Rightarrow> db \<Rightarrow> err + db" where
  "acceptQuotePriceProposal now userId proposalId db =
     andThen (resolveProposal_pre db userId proposalId) (\<lambda>c. acceptProposal_tx now c db)"

definition rejectProposal_tx ::
  "time \<Rightarrow> QuotePriceProposal \<times> QuoteNegotiationPartyResolution \<Rightarrow> db \<Rightarrow> err + db" where
  "rejectProposal_tx now captured db =
     (let (proposal, party) = captured;
          (count, db') = rejectProposal now (prop_id proposal) (np_customerProfileId party)
                           (np_professionalProfileId party) db
      in if count \<noteq> 1 then Inl QUOTE_PRICE_PROPOSAL_RESOLVE_CONFLICT else Inr db')"

definition rejectQuotePriceProposal :: "time \<Rightarrow> id \<Rightarrow> id \<Rightarrow> db \<Rightarrow> err + db" where
  "rejectQuotePriceProposal now userId proposalId db =
     andThen (resolveProposal_pre db userId proposalId) (\<lambda>c. rejectProposal_tx now c db)"

definition listNegotiationMessages ::
  "db \<Rightarrow> id \<Rightarrow> id \<Rightarrow> err + (QuoteNegotiationMessage \<times> QuotePriceProposal option) list" where
  "listNegotiationMessages db userId quoteId =
     andThen (negotiation_resolveParty db userId quoteId) (\<lambda>_. Inr (findMessagesByQuoteId db quoteId))"

end
