(* ===== verification/Payment_Attempts.thy ===== *)
theory Payment_Attempts
  imports Engagements
begin

text \<open>
  Payment attempts (src/src/payments): the table with its partial unique index (at most one PENDING
  or APPROVED attempt of an engagement), the guarded resolution, and the service every provider
  answer goes through, which turns an approval into the three ledger rows of a digital payment in
  the transaction that resolves the attempt.  The payment provider is a parameter: the record
  \<^theory_text>\<open>Provider\<close> holds the operations of the port, and an outcome type has one
  constructor per way the port's documentation lets a call end.
\<close>

section \<open>The provider port\<close>

datatype ResolutionStatus = approved | rejected | pending

record ChargeCardCommand =
  cc_cardToken :: string
  cc_amount :: int
  cc_currency :: string
  cc_country :: CountryCode
  cc_externalReference :: id
  cc_paymentMethodId :: string
  cc_installments :: int
  cc_payerEmail :: string
  cc_idempotencyKey :: id

record ChargeCardResult =
  ccr_providerPaymentId :: string
  ccr_status :: ResolutionStatus
  ccr_rejectionReason :: "CardRejectionReason option"

datatype ChargeOutcome =
  Charged ChargeCardResult | RequestRejected CardRejectionReason | ChargeNotConfigured | ChargeUnavailable

record ProviderPaymentSnapshot =
  snap_status :: ResolutionStatus
  snap_rejectionReason :: "CardRejectionReason option"
  snap_externalReference :: "string option"
  snap_amount :: "rat option"
  snap_currency :: "string option"

datatype SnapshotOutcome = Snapshot "ProviderPaymentSnapshot option" | SnapshotUnavailable

record CreateWalletPreferenceCommand =
  wp_amount :: int
  wp_currency :: string
  wp_country :: CountryCode
  wp_externalReference :: id
  wp_payerEmail :: string

datatype WalletOutcome = WalletPreference string | WalletNotConfigured | WalletUnavailable

record Provider =
  chargeCard :: "ChargeCardCommand \<Rightarrow> ChargeOutcome"
  getPayment :: "string \<Rightarrow> CountryCode \<Rightarrow> SnapshotOutcome"
  getPaymentByPaymentId :: "string \<Rightarrow> CountryCode \<Rightarrow> SnapshotOutcome"
  getTransactionDetails :: "string \<Rightarrow> id \<Rightarrow> CountryCode \<Rightarrow> ProviderTransactionDetails option"
  createWalletPreference :: "CreateWalletPreferenceCommand \<Rightarrow> WalletOutcome"

section \<open>Repository\<close>

definition isActiveAttempt :: "id \<Rightarrow> PaymentAttempt \<Rightarrow> bool" where
  "isActiveAttempt e a \<longleftrightarrow> pa_engagementId a = e
     \<and> pa_status a \<in> {PaymentAttemptStatus.PENDING, PaymentAttemptStatus.APPROVED}"

definition findAttemptById :: "db \<Rightarrow> id \<Rightarrow> PaymentAttempt option" where
  "findAttemptById db i = findRow (\<lambda>a. pa_id a = i) (paymentAttempts db)"

definition findActiveByEngagementId :: "db \<Rightarrow> id \<Rightarrow> PaymentAttempt option" where
  "findActiveByEngagementId db e = findRow (isActiveAttempt e) (paymentAttempts db)"

definition newAttempt ::
  "time \<Rightarrow> id \<Rightarrow> PaymentMethod \<Rightarrow> PaymentAttemptType option \<Rightarrow> int \<Rightarrow> string \<Rightarrow> int \<Rightarrow> id \<Rightarrow> PaymentAttempt" where
  "newAttempt now e m t amount currency installments i =
     \<lparr>pa_id = i, pa_engagementId = e, pa_method = m, pa_type = t,
      pa_status = PaymentAttemptStatus.PENDING, pa_customerConfirmedAt = None,
      pa_professionalConfirmedAt = None, pa_providerPaymentId = None, pa_amount = amount,
      pa_currency = currency, pa_installments = installments, pa_rejectionReason = None,
      pa_details = None, pa_createdAt = now\<rparr>"

definition insertAttempt :: "PaymentAttempt \<Rightarrow> db \<Rightarrow> db" where
  "insertAttempt a db = db\<lparr>nextId := Suc (nextId db), paymentAttempts := paymentAttempts db @ [a]\<rparr>"

definition createPending :: "time \<Rightarrow> id \<Rightarrow> int \<Rightarrow> string \<Rightarrow> int \<Rightarrow> db \<Rightarrow> err + PaymentAttempt \<times> db" where
  "createPending now e amount currency installments db =
     (if findActiveByEngagementId db e \<noteq> None then Inl UNIQUE_VIOLATION
      else let a = newAttempt now e PaymentMethod.MERCADOPAGO None amount currency installments (nextId db)
           in Inr (a, insertAttempt a db))"

datatype CashPaymentParty = CUSTOMER | PROFESSIONAL

definition stampConfirmation :: "time \<Rightarrow> CashPaymentParty \<Rightarrow> PaymentAttempt \<Rightarrow> PaymentAttempt" where
  "stampConfirmation now role a = (case role of
       CashPaymentParty.CUSTOMER \<Rightarrow> a\<lparr>pa_customerConfirmedAt := Some now\<rparr>
     | CashPaymentParty.PROFESSIONAL \<Rightarrow> a\<lparr>pa_professionalConfirmedAt := Some now\<rparr>)"

text \<open>The INSERT .. ON CONFLICT .. DO UPDATE .. WHERE method = 'CASH' RETURNING * of the
  repository, whose conflict target is the partial unique index.\<close>

definition upsertCashConfirmation ::
  "time \<Rightarrow> id \<Rightarrow> int \<Rightarrow> string \<Rightarrow> CashPaymentParty \<Rightarrow> db \<Rightarrow> PaymentAttempt option \<times> db" where
  "upsertCashConfirmation now e amount currency role db = (case findActiveByEngagementId db e of
       None \<Rightarrow> (let a = stampConfirmation now role (newAttempt now e PaymentMethod.CASH
                          (Some PaymentAttemptType.CASH) amount currency 1 (nextId db))
                in (Some a, insertAttempt a db))
     | Some a \<Rightarrow>
        if pa_method a = PaymentMethod.CASH then
          (Some (stampConfirmation now role a),
           db\<lparr>paymentAttempts := updateMany (\<lambda>r. isActiveAttempt e r \<and> pa_method r = PaymentMethod.CASH)
                (stampConfirmation now role) (paymentAttempts db)\<rparr>)
        else (None, db))"

definition truthy :: "string option \<Rightarrow> bool" where
  "truthy s \<longleftrightarrow> s \<noteq> None \<and> s \<noteq> Some []"

definition mapPaymentTypeIdToAttemptType :: "string option \<Rightarrow> PaymentAttemptType option" where
  "mapPaymentTypeIdToAttemptType t =
     (if t = Some ''credit_card'' then Some CREDIT_CARD
      else if t = Some ''debit_card'' then Some DEBIT_CARD
      else if t = Some ''account_money'' then Some ACCOUNT_MONEY
      else None)"

record Resolution =
  rs_status :: PaymentAttemptStatus
  rs_providerPaymentId :: "string option"
  rs_rejectionReason :: "CardRejectionReason option"
  rs_details :: "ProviderTransactionDetails option"

definition resolveAttemptRow :: "Resolution \<Rightarrow> PaymentAttempt \<Rightarrow> PaymentAttempt" where
  "resolveAttemptRow r a = a\<lparr>pa_status := rs_status r, pa_rejectionReason := rs_rejectionReason r,
     pa_providerPaymentId := (if truthy (rs_providerPaymentId r) then rs_providerPaymentId r else pa_providerPaymentId a),
     pa_type := (case rs_details r of None \<Rightarrow> pa_type a
        | Some d \<Rightarrow> (case mapPaymentTypeIdToAttemptType (ptd_paymentTypeId d) of
              None \<Rightarrow> pa_type a | Some t \<Rightarrow> Some t)),
     pa_details := (case rs_details r of None \<Rightarrow> pa_details a | Some d \<Rightarrow> Some d)\<rparr>"

abbreviation isPendingAttempt :: "id \<Rightarrow> PaymentAttempt \<Rightarrow> bool" where
  "isPendingAttempt \<equiv> guard pa_id pa_status (\<lambda>s. s = PaymentAttemptStatus.PENDING)"

definition updateAttempts :: "(PaymentAttempt \<Rightarrow> bool) \<Rightarrow> (PaymentAttempt \<Rightarrow> PaymentAttempt) \<Rightarrow> db \<Rightarrow> nat \<times> db" where
  "updateAttempts p f db =
     (countWhere p (paymentAttempts db), db\<lparr>paymentAttempts := updateMany p f (paymentAttempts db)\<rparr>)"

definition resolveIfPending :: "id \<Rightarrow> Resolution \<Rightarrow> db \<Rightarrow> nat \<times> db" where
  "resolveIfPending i r = updateAttempts (isPendingAttempt i) (resolveAttemptRow r)"

definition attachProviderPaymentIdIfPending :: "id \<Rightarrow> string \<Rightarrow> db \<Rightarrow> nat \<times> db" where
  "attachProviderPaymentIdIfPending i providerPaymentId = updateAttempts
     (\<lambda>a. isPendingAttempt i a \<and> pa_providerPaymentId a = None)
     (\<lambda>a. a\<lparr>pa_providerPaymentId := Some providerPaymentId\<rparr>)"

definition findByProviderPaymentId :: "db \<Rightarrow> string \<Rightarrow> PaymentAttempt option" where
  "findByProviderPaymentId db p =
     newestWhere (\<lambda>a. pa_providerPaymentId a = Some p) pa_createdAt (paymentAttempts db)"

definition findPendingWithoutProviderIdByEngagementId :: "db \<Rightarrow> id \<Rightarrow> PaymentAttempt option" where
  "findPendingWithoutProviderIdByEngagementId db e = newestWhere (\<lambda>a. pa_engagementId a = e
     \<and> pa_status a = PaymentAttemptStatus.PENDING \<and> pa_providerPaymentId a = None) pa_createdAt (paymentAttempts db)"

definition findCashAttemptByEngagementId :: "db \<Rightarrow> id \<Rightarrow> PaymentAttempt option" where
  "findCashAttemptByEngagementId db e = newestWhere
     (\<lambda>a. pa_engagementId a = e \<and> pa_method a = PaymentMethod.CASH) pa_createdAt (paymentAttempts db)"

definition findLatestByEngagementId :: "db \<Rightarrow> id \<Rightarrow> PaymentAttempt option" where
  "findLatestByEngagementId db e =
     newestWhere (\<lambda>a. pa_engagementId a = e) pa_createdAt (paymentAttempts db)"

definition findApprovedByEngagementId :: "db \<Rightarrow> id \<Rightarrow> PaymentAttempt option" where
  "findApprovedByEngagementId db e = findRow
     (\<lambda>a. pa_engagementId a = e \<and> pa_status a = PaymentAttemptStatus.APPROVED) (paymentAttempts db)"

section \<open>Applying a provider's answer\<close>

record PaymentResolution =
  res_status :: ResolutionStatus
  res_providerPaymentId :: "string option"
  res_rejectionReason :: "CardRejectionReason option"

text \<open>What the reads of \<^theory_text>\<open>apply\<close> decide: return at once, attach the provider's id, or
  resolve the attempt that was read, with the billing context when the answer is an approval.\<close>

datatype ApplyPlan =
    ReturnAttempt "PaymentAttempt option"
  | AttachProviderId
  | Resolve PaymentAttempt "BillingContext option" "ProviderTransactionDetails option"

definition readTransactionDetails ::
  "Provider \<Rightarrow> PaymentAttempt \<Rightarrow> string option \<Rightarrow> CountryCode \<Rightarrow> ProviderTransactionDetails option" where
  "readTransactionDetails prov attempt providerPaymentId country = (case providerPaymentId of
       None \<Rightarrow> None
     | Some p \<Rightarrow> if p = [] then None
         else getTransactionDetails prov p (pa_engagementId attempt) country)"

definition apply_pre :: "Provider \<Rightarrow> id \<Rightarrow> PaymentResolution \<Rightarrow> db \<Rightarrow> ApplyPlan" where
  "apply_pre prov attemptId resolution db = (case findAttemptById db attemptId of
       None \<Rightarrow> ReturnAttempt None
     | Some attempt \<Rightarrow>
        if res_status resolution = pending then AttachProviderId
        else if pa_status attempt \<noteq> PaymentAttemptStatus.PENDING then ReturnAttempt (Some attempt)
        else if res_status resolution = approved then
          (case findByIdWithBillingContext db (pa_engagementId attempt) of
             None \<Rightarrow> ReturnAttempt None
           | Some b \<Rightarrow> Resolve attempt (Some b)
               (readTransactionDetails prov attempt (res_providerPaymentId resolution) (bc_country b)))
        else Resolve attempt None None)"

definition resolutionOf :: "PaymentResolution \<Rightarrow> ProviderTransactionDetails option \<Rightarrow> Resolution" where
  "resolutionOf r details = (if res_status r = approved
     then \<lparr>rs_status = PaymentAttemptStatus.APPROVED, rs_providerPaymentId = res_providerPaymentId r,
           rs_rejectionReason = None, rs_details = details\<rparr>
     else \<lparr>rs_status = PaymentAttemptStatus.REJECTED, rs_providerPaymentId = res_providerPaymentId r,
           rs_rejectionReason = Some (case res_rejectionReason r of None \<Rightarrow> OTHER | Some x \<Rightarrow> x),
           rs_details = details\<rparr>)"

definition attemptParties :: "PaymentAttempt \<Rightarrow> BillingContext \<Rightarrow> LedgerParties" where
  "attemptParties a b = \<lparr>lp_engagementId = pa_engagementId a, lp_currency = pa_currency a,
     lp_customerProfileId = bc_customerProfileId b, lp_professionalProfileId = bc_professionalProfileId b\<rparr>"

definition resolve_tx ::
  "time \<Rightarrow> PaymentResolution \<Rightarrow> PaymentAttempt \<Rightarrow> BillingContext option \<Rightarrow> ProviderTransactionDetails option
     \<Rightarrow> db \<Rightarrow> err + db" where
  "resolve_tx now resolution attempt billing details db =
     (let (count, db1) = resolveIfPending (pa_id attempt) (resolutionOf resolution details) db
      in if count \<noteq> 1 then Inr db
         else case billing of
             None \<Rightarrow> Inr db1
           | Some b \<Rightarrow> andThen (recordDigitalPayment now (attemptParties attempt b) (pa_amount attempt) db1)
               (\<lambda>db2. Inr (snd (setPaymentMethodIfUnset (pa_engagementId attempt) PaymentMethod.MERCADOPAGO db2))))"

definition apply_tx :: "time \<Rightarrow> id \<Rightarrow> PaymentResolution \<Rightarrow> ApplyPlan \<Rightarrow> db \<Rightarrow> err + db" where
  "apply_tx now attemptId resolution plan db = (case plan of
       ReturnAttempt _ \<Rightarrow> Inr db
     | AttachProviderId \<Rightarrow> (case res_providerPaymentId resolution of
           None \<Rightarrow> Inr db
         | Some p \<Rightarrow> if p = [] then Inr db else Inr (snd (attachProviderPaymentIdIfPending attemptId p db)))
     | Resolve attempt billing details \<Rightarrow> resolve_tx now resolution attempt billing details db)"

definition applyResult :: "id \<Rightarrow> ApplyPlan \<Rightarrow> db \<Rightarrow> PaymentAttempt option" where
  "applyResult attemptId plan db = (case plan of
       ReturnAttempt r \<Rightarrow> r | _ \<Rightarrow> findAttemptById db attemptId)"

definition applyPaymentResult :: "time \<Rightarrow> Provider \<Rightarrow> id \<Rightarrow> PaymentResolution \<Rightarrow> db \<Rightarrow> err + PaymentAttempt option \<times> db" where
  "applyPaymentResult now prov attemptId resolution db =
     (let plan = apply_pre prov attemptId resolution db
      in andThen (apply_tx now attemptId resolution plan db)
           (\<lambda>db'. Inr (applyResult attemptId plan db', db')))"

end
