(* ===== verification/Provider_Payments.thy ===== *)
theory Provider_Payments
  imports Payment_Attempts
begin

text \<open>
  The three ways a provider payment moves (src/src/payments/services): the customer pays with a
  card, starts a wallet payment, or the provider notifies; and the customer's own read, which
  reconciles a pending attempt with the provider.  A request that raises may still have changed the
  table (the attempt is created outside any transaction), so these services return the final state
  beside the result or the error.
\<close>

definition findUserById :: "db \<Rightarrow> id \<Rightarrow> User option" where
  "findUserById db i = findRow (\<lambda>u. user_id u = i) (users db)"

definition resolveCustomerEngagement :: "db \<Rightarrow> id \<Rightarrow> id \<Rightarrow> err + Engagement" where
  "resolveCustomerEngagement db userId engagementId = (case findEngagementById db engagementId of
       None \<Rightarrow> Inl ENGAGEMENT_NOT_FOUND
     | Some e \<Rightarrow> if ownsAsCustomer db userId e then Inr e else Inl ENGAGEMENT_NOT_FOUND)"

definition payableStatus :: "EngagementStatus \<Rightarrow> bool" where
  "payableStatus s \<longleftrightarrow> s \<in> {EngagementStatus.IN_PROGRESS,
     EngagementStatus.PENDING_CUSTOMER_CONFIRMATION, EngagementStatus.COMPLETED}"

record ProviderPaymentContext =
  pc_engagementId :: id
  pc_amount :: int
  pc_country :: CountryCode
  pc_payerEmail :: string

text \<open>The reads a card and a wallet payment share, up to the error of a state that is not payable.\<close>

definition providerPayment_pre :: "err \<Rightarrow> db \<Rightarrow> id \<Rightarrow> id \<Rightarrow> err + ProviderPaymentContext" where
  "providerPayment_pre notPayable db userId engagementId =
     andThen (resolveCustomerEngagement db userId engagementId) (\<lambda>e.
       if \<not> payableStatus (eng_status e) \<or> eng_paymentMethod e = Some PaymentMethod.CASH then Inl notPayable
       else andThen (orThrow ENGAGEMENT_NOT_FOUND (findByIdWithBillingContext db (eng_id e))) (\<lambda>b.
         andThen (orThrow ENGAGEMENT_NOT_FOUND (findUserById db userId)) (\<lambda>u.
           Inr \<lparr>pc_engagementId = eng_id e, pc_amount = bc_quotedPrice b, pc_country = bc_country b,
                pc_payerEmail = user_email u\<rparr>)))"

text \<open>The creation of the attempt with the translation of a lost race on the unique index.\<close>

definition openAttempt :: "time \<Rightarrow> err \<Rightarrow> ProviderPaymentContext \<Rightarrow> int \<Rightarrow> db \<Rightarrow> err + PaymentAttempt \<times> db" where
  "openAttempt now alreadyInProgress c installments db =
     (case createPending now (pc_engagementId c) (pc_amount c) (CURRENCY_BY_COUNTRY (pc_country c)) installments db of
        Inr r \<Rightarrow> Inr r
      | Inl e \<Rightarrow>
         if e = UNIQUE_VIOLATION then
           (case findActiveByEngagementId db (pc_engagementId c) of
              Some active \<Rightarrow> if pa_method active = PaymentMethod.CASH then Inl PAYMENT_METHOD_CONFLICT
                             else Inl alreadyInProgress
            | None \<Rightarrow> Inl alreadyInProgress)
         else Inl e)"

section \<open>Card\<close>

record PayEngagementWithCardInput =
  pay_engagementId :: id
  pay_cardToken :: string
  pay_paymentMethodId :: string
  pay_installments :: rat

definition isPaymentMethodIdChar :: "char \<Rightarrow> bool" where
  "isPaymentMethodIdChar c \<longleftrightarrow> digitVal c < 36 \<or> c \<in> {CHR ''_'', CHR ''-''}"

definition PAYMENT_METHOD_ID_PATTERN :: "string \<Rightarrow> bool" where
  "PAYMENT_METHOD_ID_PATTERN s \<longleftrightarrow> 1 \<le> length s \<and> length s \<le> 40 \<and> list_all isPaymentMethodIdChar s"

definition validCardInput :: "PayEngagementWithCardInput \<Rightarrow> bool" where
  "validCardInput input \<longleftrightarrow> trim (pay_cardToken input) \<noteq> []
     \<and> PAYMENT_METHOD_ID_PATTERN (pay_paymentMethodId input)
     \<and> of_int \<lfloor>pay_installments input\<rfloor> = pay_installments input \<and> 1 \<le> pay_installments input"

definition chargeCommand :: "PayEngagementWithCardInput \<Rightarrow> ProviderPaymentContext \<Rightarrow> PaymentAttempt \<Rightarrow> ChargeCardCommand" where
  "chargeCommand input c attempt = \<lparr>cc_cardToken = pay_cardToken input, cc_amount = pc_amount c,
     cc_currency = CURRENCY_BY_COUNTRY (pc_country c), cc_country = pc_country c,
     cc_externalReference = pc_engagementId c, cc_paymentMethodId = pay_paymentMethodId input,
     cc_installments = \<lfloor>pay_installments input\<rfloor>, cc_payerEmail = pc_payerEmail c,
     cc_idempotencyKey = pa_id attempt\<rparr>"

definition rejection :: "CardRejectionReason \<Rightarrow> PaymentResolution" where
  "rejection reason = \<lparr>res_status = rejected, res_providerPaymentId = None, res_rejectionReason = Some reason\<rparr>"

definition resolveOrCurrent ::
  "time \<Rightarrow> Provider \<Rightarrow> PaymentAttempt \<Rightarrow> PaymentResolution \<Rightarrow> db \<Rightarrow> (err + PaymentAttempt) \<times> db" where
  "resolveOrCurrent now prov attempt resolution db = (case applyPaymentResult now prov (pa_id attempt) resolution db of
       Inl e \<Rightarrow> (Inl e, db)
     | Inr (resolved, db') \<Rightarrow> (Inr (case resolved of None \<Rightarrow> attempt | Some a \<Rightarrow> a), db'))"

text \<open>Resolve the attempt, then raise: an error of the resolution itself wins.\<close>

definition applyThenThrow ::
  "time \<Rightarrow> Provider \<Rightarrow> PaymentAttempt \<Rightarrow> PaymentResolution \<Rightarrow> err \<Rightarrow> db \<Rightarrow> (err + 'a) \<times> db" where
  "applyThenThrow now prov attempt resolution e db = (case applyPaymentResult now prov (pa_id attempt) resolution db of
       Inl e' \<Rightarrow> (Inl e', db) | Inr (_, db') \<Rightarrow> (Inl e, db'))"

definition settleCharge ::
  "time \<Rightarrow> Provider \<Rightarrow> PaymentAttempt \<Rightarrow> ChargeOutcome \<Rightarrow> db \<Rightarrow> (err + PaymentAttempt) \<times> db" where
  "settleCharge now prov attempt outcome db = (case outcome of
       Charged r \<Rightarrow> resolveOrCurrent now prov attempt \<lparr>res_status = ccr_status r,
           res_providerPaymentId = Some (ccr_providerPaymentId r), res_rejectionReason = ccr_rejectionReason r\<rparr> db
     | RequestRejected reason \<Rightarrow> resolveOrCurrent now prov attempt (rejection reason) db
     | ChargeNotConfigured \<Rightarrow> applyThenThrow now prov attempt (rejection PROVIDER_ERROR) PAYMENT_PROVIDER_MISCONFIGURED db
     | ChargeUnavailable \<Rightarrow> (Inl PAYMENT_PROVIDER_UNAVAILABLE, db))"

definition payEngagementWithCard ::
  "time \<Rightarrow> Provider \<Rightarrow> id \<Rightarrow> PayEngagementWithCardInput \<Rightarrow> db \<Rightarrow> (err + PaymentAttempt) \<times> db" where
  "payEngagementWithCard now prov userId input db =
     (if \<not> validCardInput input then (Inl INVALID_CARD_PAYMENT_INPUT, db)
      else case providerPayment_pre ENGAGEMENT_NOT_PAYABLE_BY_CARD db userId (pay_engagementId input) of
          Inl e \<Rightarrow> (Inl e, db)
        | Inr c \<Rightarrow> (case openAttempt now CARD_PAYMENT_ALREADY_IN_PROGRESS c \<lfloor>pay_installments input\<rfloor> db of
              Inl e \<Rightarrow> (Inl e, db)
            | Inr (attempt, db') \<Rightarrow>
                settleCharge now prov attempt (chargeCard prov (chargeCommand input c attempt)) db'))"

section \<open>Wallet\<close>

definition startEngagementWalletPayment ::
  "time \<Rightarrow> Provider \<Rightarrow> id \<Rightarrow> id \<Rightarrow> db \<Rightarrow> (err + PaymentAttempt \<times> string) \<times> db" where
  "startEngagementWalletPayment now prov userId engagementId db =
     (case providerPayment_pre ENGAGEMENT_NOT_PAYABLE_BY_WALLET db userId engagementId of
        Inl e \<Rightarrow> (Inl e, db)
      | Inr c \<Rightarrow> (case openAttempt now WALLET_PAYMENT_ALREADY_IN_PROGRESS c 1 db of
            Inl e \<Rightarrow> (Inl e, db)
          | Inr (attempt, db') \<Rightarrow>
              (case createWalletPreference prov \<lparr>wp_amount = pc_amount c,
                      wp_currency = CURRENCY_BY_COUNTRY (pc_country c), wp_country = pc_country c,
                      wp_externalReference = pc_engagementId c, wp_payerEmail = pc_payerEmail c\<rparr> of
                 WalletPreference redirectUrl \<Rightarrow> (Inr (attempt, redirectUrl), db')
               | WalletNotConfigured \<Rightarrow>
                   applyThenThrow now prov attempt (rejection PROVIDER_ERROR) PAYMENT_PROVIDER_MISCONFIGURED db'
               | WalletUnavailable \<Rightarrow>
                   applyThenThrow now prov attempt (rejection PROVIDER_ERROR) PAYMENT_PROVIDER_UNAVAILABLE db')))"

section \<open>Notifications and reconciliation\<close>

definition toUpperChar :: "char \<Rightarrow> char" where
  "toUpperChar c = (let n = of_char c :: nat in if 97 \<le> n \<and> n \<le> 122 then char_of (n - 32) else c)"

definition toUpperCase :: "string \<Rightarrow> string" where
  "toUpperCase s = map toUpperChar s"

definition amountMismatch :: "ProviderPaymentSnapshot \<Rightarrow> PaymentAttempt \<Rightarrow> bool" where
  "amountMismatch snapshot attempt \<longleftrightarrow> snap_status snapshot = approved
     \<and> (snap_amount snapshot \<noteq> Some (of_int (pa_amount attempt))
        \<or> map_option toUpperCase (snap_currency snapshot) \<noteq> Some (toUpperCase (pa_currency attempt)))"

text \<open>\<^theory_text>\<open>uuidOf\<close> reads a string as the id it spells and is None where the code's pattern of a
  uuid does not match.\<close>

definition findAttempt :: "(string \<Rightarrow> id option) \<Rightarrow> db \<Rightarrow> string \<Rightarrow> string option \<Rightarrow> PaymentAttempt option" where
  "findAttempt uuidOf db providerId externalReference = (case findByProviderPaymentId db providerId of
       Some a \<Rightarrow> Some a
     | None \<Rightarrow> (case externalReference of
           None \<Rightarrow> None
         | Some r \<Rightarrow> (case uuidOf r of
               None \<Rightarrow> None
             | Some e \<Rightarrow> findPendingWithoutProviderIdByEngagementId db e)))"

definition notificationSnapshot :: "Provider \<Rightarrow> string \<Rightarrow> string option \<Rightarrow> CountryCode \<Rightarrow> SnapshotOutcome" where
  "notificationSnapshot prov dataId topic country =
     (if topic = Some ''order'' then getPayment prov dataId country
      else if topic = Some ''payment'' then getPaymentByPaymentId prov dataId country
      else Snapshot None)"

definition resolutionOfSnapshot :: "string \<Rightarrow> ProviderPaymentSnapshot \<Rightarrow> PaymentResolution" where
  "resolutionOfSnapshot providerId s = \<lparr>res_status = snap_status s,
     res_providerPaymentId = Some providerId, res_rejectionReason = snap_rejectionReason s\<rparr>"

definition handleNotification ::
  "time \<Rightarrow> Provider \<Rightarrow> (string \<Rightarrow> id option) \<Rightarrow> string \<Rightarrow> string option \<Rightarrow> CountryCode \<Rightarrow> db \<Rightarrow> err + db" where
  "handleNotification now prov uuidOf dataId topic country db =
     (case notificationSnapshot prov dataId topic country of
        SnapshotUnavailable \<Rightarrow> Inl PAYMENT_PROVIDER_UNAVAILABLE
      | Snapshot None \<Rightarrow> Inr db
      | Snapshot (Some snapshot) \<Rightarrow>
          (case findAttempt uuidOf db dataId (snap_externalReference snapshot) of
             None \<Rightarrow> Inr db
           | Some attempt \<Rightarrow>
               if amountMismatch snapshot attempt then Inr db
               else andThen (applyPaymentResult now prov (pa_id attempt) (resolutionOfSnapshot dataId snapshot) db)
                      (\<lambda>(_, db'). Inr db')))"

definition NUMERIC_PROVIDER_ID_PATTERN :: "string \<Rightarrow> bool" where
  "NUMERIC_PROVIDER_ID_PATTERN s \<longleftrightarrow> s \<noteq> [] \<and> list_all isDigit s"

text \<open>Every error of the reconciliation is caught and the attempt returned as it was read.\<close>

definition reconcile :: "time \<Rightarrow> Provider \<Rightarrow> PaymentAttempt \<Rightarrow> string \<Rightarrow> id \<Rightarrow> db \<Rightarrow> PaymentAttempt \<times> db" where
  "reconcile now prov attempt providerPaymentId engagementId db =
     (case findByIdWithBillingContext db engagementId of
        None \<Rightarrow> (attempt, db)
      | Some b \<Rightarrow>
          (case (if NUMERIC_PROVIDER_ID_PATTERN providerPaymentId
                 then getPaymentByPaymentId prov providerPaymentId (bc_country b)
                 else getPayment prov providerPaymentId (bc_country b)) of
             SnapshotUnavailable \<Rightarrow> (attempt, db)
           | Snapshot None \<Rightarrow> (attempt, db)
           | Snapshot (Some snapshot) \<Rightarrow>
               if amountMismatch snapshot attempt then (attempt, db)
               else (case applyPaymentResult now prov (pa_id attempt) (resolutionOfSnapshot providerPaymentId snapshot) db of
                   Inl _ \<Rightarrow> (attempt, db)
                 | Inr (resolved, db') \<Rightarrow> (case resolved of None \<Rightarrow> attempt | Some a \<Rightarrow> a, db'))))"

definition getMyEngagementPaymentAttempt ::
  "time \<Rightarrow> Provider \<Rightarrow> id \<Rightarrow> id \<Rightarrow> db \<Rightarrow> err + PaymentAttempt option \<times> db" where
  "getMyEngagementPaymentAttempt now prov userId engagementId db =
     andThen (resolveCustomerEngagement db userId engagementId) (\<lambda>e.
       case findLatestByEngagementId db (eng_id e) of
         None \<Rightarrow> Inr (None, db)
       | Some attempt \<Rightarrow>
          if pa_status attempt \<noteq> PaymentAttemptStatus.PENDING then Inr (Some attempt, db)
          else case pa_providerPaymentId attempt of
              None \<Rightarrow> Inr (Some attempt, db)
            | Some p \<Rightarrow> if p = [] then Inr (Some attempt, db)
                else (let (a, db') = reconcile now prov attempt p (eng_id e) db in Inr (Some a, db')))"

end
