(* ===== verification/Cash_Payment.thy ===== *)
theory Cash_Payment
  imports Provider_Payments
begin

text \<open>
  Cash payments (src/src/cash-payment): each party confirms the cash changed hands; the second
  confirmation approves the attempt and records the commission the professional owes.
\<close>

definition cash_resolveParty :: "db \<Rightarrow> id \<Rightarrow> id \<Rightarrow> err + CashPaymentParty PartyResolution" where
  "cash_resolveParty db userId e = orThrow ENGAGEMENT_NOT_FOUND
     (tryResolveParty CashPaymentParty.CUSTOMER CashPaymentParty.PROFESSIONAL db userId e)"

interpretation cash_access: party_access
  "tryResolveParty CashPaymentParty.CUSTOMER CashPaymentParty.PROFESSIONAL"
  "\<lambda>p. party_role p = CashPaymentParty.CUSTOMER" party_engagement
  by (rule tryResolveParty_party_access) simp

record CashConfirmation =
  cash_role :: CashPaymentParty
  cash_engagement :: Engagement
  cash_quotedPrice :: int
  cash_currency :: string

definition confirmCashPayment_pre :: "db \<Rightarrow> id \<Rightarrow> id \<Rightarrow> err + CashConfirmation" where
  "confirmCashPayment_pre db userId engagementId =
     andThen (cash_resolveParty db userId engagementId) (\<lambda>party.
       let engagement = party_engagement party in
       if \<not> payableStatus (eng_status engagement) then Inl ENGAGEMENT_NOT_CONFIRMABLE_FOR_CASH_PAYMENT
       else if eng_paymentMethod engagement = Some PaymentMethod.MERCADOPAGO then Inl PAYMENT_METHOD_CONFLICT
       else andThen (orThrow ENGAGEMENT_NOT_FOUND (findByIdWithBillingContext db engagementId)) (\<lambda>b.
         Inr \<lparr>cash_role = party_role party, cash_engagement = engagement,
              cash_quotedPrice = bc_quotedPrice b, cash_currency = CURRENCY_BY_COUNTRY (bc_country b)\<rparr>))"

definition cashParties :: "CashConfirmation \<Rightarrow> LedgerParties" where
  "cashParties c = \<lparr>lp_engagementId = eng_id (cash_engagement c), lp_currency = cash_currency c,
     lp_customerProfileId = eng_customerProfileId (cash_engagement c),
     lp_professionalProfileId = eng_professionalProfileId (cash_engagement c)\<rparr>"

definition cashResolution :: Resolution where
  "cashResolution = \<lparr>rs_status = PaymentAttemptStatus.APPROVED, rs_providerPaymentId = None,
     rs_rejectionReason = None, rs_details = None\<rparr>"

definition confirmCashPayment_tx :: "time \<Rightarrow> CashConfirmation \<Rightarrow> db \<Rightarrow> err + PaymentAttempt \<times> db" where
  "confirmCashPayment_tx now c db =
     (let e = eng_id (cash_engagement c);
          (_, db1) = setPaymentMethodIfUnset e PaymentMethod.CASH db
      in case upsertCashConfirmation now e (cash_quotedPrice c) (cash_currency c) (cash_role c) db1 of
           (None, _) \<Rightarrow> Inl PAYMENT_METHOD_CONFLICT
         | (Some row, db2) \<Rightarrow>
             if pa_customerConfirmedAt row \<noteq> None \<and> pa_professionalConfirmedAt row \<noteq> None
                \<and> pa_status row = PaymentAttemptStatus.PENDING
             then let (count, db3) = resolveIfPending (pa_id row) cashResolution db2
               in if count = 1
                  then andThen (recordCommissionDebt now (cashParties c) (cash_quotedPrice c) db3)
                         (\<lambda>db4. Inr (row\<lparr>pa_status := PaymentAttemptStatus.APPROVED\<rparr>, db4))
                  else Inr (row, db3)
             else Inr (row, db2))"

definition confirmCashPayment :: "time \<Rightarrow> id \<Rightarrow> id \<Rightarrow> db \<Rightarrow> err + PaymentAttempt \<times> db" where
  "confirmCashPayment now userId engagementId db =
     andThen (confirmCashPayment_pre db userId engagementId) (\<lambda>c. confirmCashPayment_tx now c db)"

record CashPaymentConfirmationState =
  ccs_engagementId :: id
  ccs_viewerRole :: CashPaymentParty
  ccs_customerConfirmed :: bool
  ccs_professionalConfirmed :: bool
  ccs_bothConfirmed :: bool

definition getMyCashPaymentConfirmation :: "db \<Rightarrow> id \<Rightarrow> id \<Rightarrow> err + CashPaymentConfirmationState" where
  "getMyCashPaymentConfirmation db userId engagementId =
     andThen (cash_resolveParty db userId engagementId) (\<lambda>party.
       let row = findCashAttemptByEngagementId db engagementId;
           c = (case row of None \<Rightarrow> False | Some r \<Rightarrow> pa_customerConfirmedAt r \<noteq> None);
           p = (case row of None \<Rightarrow> False | Some r \<Rightarrow> pa_professionalConfirmedAt r \<noteq> None)
       in Inr \<lparr>ccs_engagementId = engagementId, ccs_viewerRole = party_role party,
               ccs_customerConfirmed = c, ccs_professionalConfirmed = p, ccs_bothConfirmed = (c \<and> p)\<rparr>)"

end
