(* ===== verification/Reviews.thy ===== *)
theory Reviews
  imports Engagements Categories
begin

text \<open>
  Reviews (src/src/reviews and the moderation of src/src/platform-admin/reviews): each party of a
  COMPLETED engagement may write one review; a received review is shown only after the recipient
  has written their own, or two weeks after completion (double blind); its comment only once a
  moderator approved it.
\<close>

definition review_tryResolveParty :: "db \<Rightarrow> id \<Rightarrow> id \<Rightarrow> EngagementReviewParty PartyResolution option" where
  "review_tryResolveParty = tryResolveParty EngagementReviewParty.CUSTOMER EngagementReviewParty.PROFESSIONAL"

interpretation review_access: party_access review_tryResolveParty
  "\<lambda>p. party_role p = EngagementReviewParty.CUSTOMER" party_engagement
  unfolding review_tryResolveParty_def by (rule tryResolveParty_party_access) simp

section \<open>Submission\<close>

definition REVIEW_COMMENT_ENABLED_KEY :: string where
  "REVIEW_COMMENT_ENABLED_KEY = ''reviews.comment.enabled''"

definition createReview ::
  "time \<Rightarrow> id \<Rightarrow> EngagementReviewParty \<Rightarrow> id option \<Rightarrow> id option \<Rightarrow> int \<Rightarrow> string option
     \<Rightarrow> ReviewCommentModerationStatus option \<Rightarrow> db \<Rightarrow> err + Review \<times> db" where
  "createReview now e role cust prof rating comment status db =
     (if list_ex (\<lambda>r. rv_engagementId r = e \<and> rv_authorRole r = role) (reviews db) then Inl UNIQUE_VIOLATION
      else let r = \<lparr>rv_id = nextId db, rv_engagementId = e, rv_authorRole = role,
                    rv_authorCustomerProfileId = cust, rv_authorProfessionalProfileId = prof,
                    rv_rating = rating, rv_comment = comment, rv_commentModerationStatus = status,
                    rv_moderatedByAdminUserId = None, rv_moderatedAt = None, rv_createdAt = now\<rparr>
           in Inr (r, db\<lparr>nextId := Suc (nextId db), reviews := reviews db @ [r]\<rparr>))"

definition validRating :: "rat \<Rightarrow> bool" where
  "validRating rating \<longleftrightarrow> of_int \<lfloor>rating\<rfloor> = rating \<and> 1 \<le> rating \<and> rating \<le> 5"

definition trimmedComment :: "string option \<Rightarrow> string" where
  "trimmedComment comment = (case comment of None \<Rightarrow> [] | Some c \<Rightarrow> trim c)"

definition submitReview_pre ::
  "db \<Rightarrow> id \<Rightarrow> id \<Rightarrow> rat \<Rightarrow> string option \<Rightarrow> err + EngagementReviewParty PartyResolution" where
  "submitReview_pre db userId engagementId rating comment =
     andThen (orThrow ENGAGEMENT_NOT_FOUND (review_tryResolveParty db userId engagementId)) (\<lambda>party.
       if eng_status (party_engagement party) \<noteq> EngagementStatus.COMPLETED then Inl ENGAGEMENT_NOT_COMPLETED
       else if \<not> validRating rating then Inl INVALID_REVIEW_RATING
       else if trimmedComment comment \<noteq> [] \<and> \<not> isEnabled db REVIEW_COMMENT_ENABLED_KEY then Inl REVIEW_COMMENTS_DISABLED
       else Inr party)"

definition submitReview_tx ::
  "time \<Rightarrow> id \<Rightarrow> EngagementReviewParty PartyResolution \<Rightarrow> rat \<Rightarrow> string option \<Rightarrow> db \<Rightarrow> err + Review \<times> db" where
  "submitReview_tx now engagementId party rating comment db =
     (let c = trimmedComment comment in
      case createReview now engagementId (party_role party) (party_customerProfileId party)
             (party_professionalProfileId party) \<lfloor>rating\<rfloor> (if c = [] then None else Some c)
             (if c = [] then None else Some ReviewCommentModerationStatus.PENDING) db of
        Inr r \<Rightarrow> Inr r
      | Inl e \<Rightarrow> if e = UNIQUE_VIOLATION then Inl ENGAGEMENT_REVIEW_ALREADY_SUBMITTED else Inl e)"

definition submitReview :: "time \<Rightarrow> id \<Rightarrow> id \<Rightarrow> rat \<Rightarrow> string option \<Rightarrow> db \<Rightarrow> err + Review \<times> db" where
  "submitReview now userId engagementId rating comment db =
     andThen (submitReview_pre db userId engagementId rating comment)
       (\<lambda>party. submitReview_tx now engagementId party rating comment db)"

section \<open>Moderation\<close>

datatype ReviewModerationDecision = APPROVE | REJECT

definition findReviewById :: "db \<Rightarrow> id \<Rightarrow> Review option" where
  "findReviewById db i = findRow (\<lambda>r. rv_id r = i) (reviews db)"

definition moderateReviewRow :: "time \<Rightarrow> id \<Rightarrow> ReviewModerationDecision \<Rightarrow> Review \<Rightarrow> Review" where
  "moderateReviewRow now admin decision r = r\<lparr>rv_commentModerationStatus := Some (case decision of
       APPROVE \<Rightarrow> ReviewCommentModerationStatus.APPROVED | REJECT \<Rightarrow> ReviewCommentModerationStatus.REJECTED),
     rv_moderatedByAdminUserId := Some admin, rv_moderatedAt := Some now\<rparr>"

definition moderateReview_pre :: "db \<Rightarrow> id \<Rightarrow> err + Review" where
  "moderateReview_pre db reviewId = (case findReviewById db reviewId of
       None \<Rightarrow> Inl REVIEW_NOT_FOUND
     | Some r \<Rightarrow> if rv_commentModerationStatus r \<noteq> Some ReviewCommentModerationStatus.PENDING
         then Inl REVIEW_COMMENT_ALREADY_MODERATED else Inr r)"

definition moderateReview_tx :: "time \<Rightarrow> id \<Rightarrow> id \<Rightarrow> ReviewModerationDecision \<Rightarrow> db \<Rightarrow> err + db" where
  "moderateReview_tx now admin reviewId decision db =
     (if findReviewById db reviewId = None then Inl RECORD_NOT_FOUND
      else Inr (writeAudit admin (case decision of APPROVE \<Rightarrow> ''REVIEW_COMMENT_APPROVED''
            | REJECT \<Rightarrow> ''REVIEW_COMMENT_REJECTED'') ''Review'' reviewId
          (db\<lparr>reviews := updateMany (\<lambda>r. rv_id r = reviewId) (moderateReviewRow now admin decision) (reviews db)\<rparr>)))"

definition moderateReview :: "time \<Rightarrow> id \<Rightarrow> id \<Rightarrow> ReviewModerationDecision \<Rightarrow> db \<Rightarrow> err + db" where
  "moderateReview now admin reviewId decision db =
     andThen (moderateReview_pre db reviewId) (\<lambda>_. moderateReview_tx now admin reviewId decision db)"

section \<open>The received reviews\<close>

definition REVIEW_DOUBLE_BLIND_WINDOW_MS :: int where
  "REVIEW_DOUBLE_BLIND_WINDOW_MS = 14 * 24 * 60 * 60 * 1000"

record ReviewModel =
  rm_id :: id
  rm_engagementId :: id
  rm_authorRole :: EngagementReviewParty
  rm_rating :: int
  rm_comment :: "string option"
  rm_createdAt :: time

definition engagementOfReview :: "db \<Rightarrow> Review \<Rightarrow> Engagement option" where
  "engagementOfReview db r = findEngagementById db (rv_engagementId r)"

definition partyReview :: "db \<Rightarrow> id option \<Rightarrow> id option \<Rightarrow> Review \<Rightarrow> bool" where
  "partyReview db cust prof r = (case engagementOfReview db r of
       None \<Rightarrow> False
     | Some e \<Rightarrow> cust = Some (eng_customerProfileId e) \<or> prof = Some (eng_professionalProfileId e))"

definition findManyForPartyWithOwnReviews :: "db \<Rightarrow> id option \<Rightarrow> id option \<Rightarrow> Review list" where
  "findManyForPartyWithOwnReviews db cust prof =
     sort_key (\<lambda>r. - rv_createdAt r) (filter (partyReview db cust prof) (reviews db))"

text \<open>The caller's role on an engagement, the customer side first.\<close>

definition callerRole :: "id option \<Rightarrow> id option \<Rightarrow> Engagement \<Rightarrow> EngagementReviewParty option" where
  "callerRole cust prof e =
     (if cust = Some (eng_customerProfileId e) then Some EngagementReviewParty.CUSTOMER
      else if prof = Some (eng_professionalProfileId e) then Some EngagementReviewParty.PROFESSIONAL
      else None)"

definition receivedFor :: "time \<Rightarrow> EngagementReviewParty \<Rightarrow> Engagement \<Rightarrow> Review list \<Rightarrow> ReviewModel option" where
  "receivedFor now role e rows = (case findRow (\<lambda>r. rv_authorRole r \<noteq> role) rows of
       None \<Rightarrow> None
     | Some received \<Rightarrow>
        let ownReview = findRow (\<lambda>r. rv_authorRole r = role) rows;
            windowElapsed = (case eng_completedAt e of None \<Rightarrow> False
              | Some t \<Rightarrow> now - t \<ge> REVIEW_DOUBLE_BLIND_WINDOW_MS)
        in if ownReview \<noteq> None \<or> windowElapsed then
             Some \<lparr>rm_id = rv_id received, rm_engagementId = rv_engagementId received,
                   rm_authorRole = rv_authorRole received, rm_rating = rv_rating received,
                   rm_comment = (if rv_commentModerationStatus received = Some ReviewCommentModerationStatus.APPROVED
                                 then rv_comment received else None),
                   rm_createdAt = rv_createdAt received\<rparr>
           else None)"

definition engagementIdsInOrder :: "Review list \<Rightarrow> id list" where
  "engagementIdsInOrder rows = rev (remdups (rev (map rv_engagementId rows)))"

definition receivedOnEngagement ::
  "time \<Rightarrow> db \<Rightarrow> id option \<Rightarrow> id option \<Rightarrow> Review list \<Rightarrow> id \<Rightarrow> ReviewModel list" where
  "receivedOnEngagement now db cust prof rows i = (case findEngagementById db i of
       None \<Rightarrow> []
     | Some e \<Rightarrow> (case callerRole cust prof e of
           None \<Rightarrow> []
         | Some role \<Rightarrow> (case receivedFor now role e (filter (\<lambda>r. rv_engagementId r = i) rows) of
               None \<Rightarrow> [] | Some m \<Rightarrow> [m])))"

definition listReceived :: "time \<Rightarrow> db \<Rightarrow> id \<Rightarrow> ReviewModel list" where
  "listReceived now db userId =
     (let cust = map_option cp_id (findCustomerProfileByUserId db userId);
          prof = map_option pp_id (findProfessionalProfileByUserId db userId)
      in if cust = None \<and> prof = None then []
         else let rows = findManyForPartyWithOwnReviews db cust prof
           in sort_key (\<lambda>m. - rm_createdAt m)
                (concat (map (receivedOnEngagement now db cust prof rows) (engagementIdsInOrder rows))))"

definition averageRating :: "Review list \<Rightarrow> rat option" where
  "averageRating rows = (if rows = [] then None
     else Some (of_int (sum_list (map rv_rating rows)) / of_nat (length rows)))"

definition reviewsOfProfessional :: "db \<Rightarrow> id \<Rightarrow> Review list" where
  "reviewsOfProfessional db prof = filter (\<lambda>r. rv_authorRole r = EngagementReviewParty.CUSTOMER
     \<and> (case engagementOfReview db r of None \<Rightarrow> False | Some e \<Rightarrow> eng_professionalProfileId e = prof)) (reviews db)"

definition getAverageRatingForProfessional :: "db \<Rightarrow> id \<Rightarrow> rat option" where
  "getAverageRatingForProfessional db prof = averageRating (reviewsOfProfessional db prof)"

definition getReviewCountForProfessional :: "db \<Rightarrow> id \<Rightarrow> nat" where
  "getReviewCountForProfessional db prof = length (reviewsOfProfessional db prof)"

end
