(* ===== verification/Financial_Summary.thy ===== *)
theory Financial_Summary
  imports Engagements
begin

text \<open>
  The financial summary of an engagement as one of its parties sees it
  (src/src/engagement-financial-summary): the most recent ledger event, classified, and shown from
  the viewer's side only.
\<close>

datatype EngagementFinancialSummaryPartyRole = CUSTOMER | PROFESSIONAL

definition summary_tryResolveParty ::
  "db \<Rightarrow> id \<Rightarrow> id \<Rightarrow> EngagementFinancialSummaryPartyRole PartyResolution option" where
  "summary_tryResolveParty = tryResolveParty EngagementFinancialSummaryPartyRole.CUSTOMER
     EngagementFinancialSummaryPartyRole.PROFESSIONAL"

interpretation summary_access: party_access summary_tryResolveParty
  "\<lambda>p. party_role p = EngagementFinancialSummaryPartyRole.CUSTOMER" party_engagement
  unfolding summary_tryResolveParty_def by (rule tryResolveParty_party_access) simp

record SummaryCustomer =
  sc_workAmount :: int
  sc_platformFee :: int
  sc_cancellationFee :: int
  sc_refundAmount :: int
  sc_totalCharged :: int

record SummaryProfessional =
  sp_grossAmount :: int
  sp_platformCommission :: int
  sp_netAmount :: int
  sp_cashCommissionDebt :: int
  sp_walletImpact :: int

record FinancialSummary =
  fs_engagementId :: id
  fs_viewerRole :: EngagementFinancialSummaryPartyRole
  fs_customer :: "SummaryCustomer option"
  fs_professional :: "SummaryProfessional option"
  fs_paymentMethod :: "PaymentMethod option"
  fs_eventType :: "EngagementPaymentEventKind option"
  fs_occurredAt :: "time option"
  fs_currency :: string

definition WALLET_IMPACT_EVENT_KINDS :: "EngagementPaymentEventKind list" where
  "WALLET_IMPACT_EVENT_KINDS = [CASH_PAYMENT, CUSTOMER_CANCELLATION]"

definition toPreEventCustomerModel :: "int \<Rightarrow> SummaryCustomer" where
  "toPreEventCustomerModel quotedPrice = \<lparr>sc_workAmount = quotedPrice, sc_platformFee = 0,
     sc_cancellationFee = 0, sc_refundAmount = 0, sc_totalCharged = 0\<rparr>"

definition toPreEventProfessionalModel :: "int \<Rightarrow> SummaryProfessional" where
  "toPreEventProfessionalModel quotedPrice = \<lparr>sp_grossAmount = quotedPrice, sp_platformCommission = 0,
     sp_netAmount = 0, sp_cashCommissionDebt = 0, sp_walletImpact = 0\<rparr>"

definition toEventCustomerModel :: "ClassifiedLedgerEvent \<Rightarrow> int \<Rightarrow> LedgerEntry list \<Rightarrow> SummaryCustomer" where
  "toEventCustomerModel classified quotedPrice eventRows =
     (let isCancellation = (ev_eventType classified = CUSTOMER_CANCELLATION)
      in \<lparr>sc_workAmount = quotedPrice,
          sc_platformFee = (if isCancellation then ev_platformCommission classified else 0),
          sc_cancellationFee = (if isCancellation then ev_totalPaidByCustomer classified else 0),
          sc_refundAmount = (if ev_eventType classified = PROFESSIONAL_CANCELLATION
                             then amountOr0 (findByType eventRows REFUND) else 0),
          sc_totalCharged = ev_totalPaidByCustomer classified\<rparr>)"

definition toEventProfessionalModel :: "ClassifiedLedgerEvent \<Rightarrow> SummaryProfessional" where
  "toEventProfessionalModel classified = \<lparr>sp_grossAmount = ev_totalPaidByCustomer classified,
     sp_platformCommission = ev_platformCommission classified,
     sp_netAmount = ev_professionalNetAmount classified,
     sp_cashCommissionDebt = ev_cashCommissionDebtAmount classified,
     sp_walletImpact = (if ev_eventType classified \<in> set WALLET_IMPACT_EVENT_KINDS
                        then ev_professionalNetAmount classified else 0)\<rparr>"

text \<open>The second read of the service is the billing join plus the payment method; the party was
  resolved, so the engagement is there (\<^theory_text>\<open>context!\<close> in the code).\<close>

definition getEngagementFinancialSummary :: "db \<Rightarrow> id \<Rightarrow> id \<Rightarrow> err + FinancialSummary" where
  "getEngagementFinancialSummary db userId engagementId =
     andThen (orThrow ENGAGEMENT_NOT_FOUND (summary_tryResolveParty db userId engagementId)) (\<lambda>party.
       andThen (orThrow RECORD_NOT_FOUND (findByIdWithBillingContext db engagementId)) (\<lambda>b.
         let quotedPrice = bc_quotedPrice b;
             eventRows = selectMostRecentLedgerEventRows (findManyByEngagementId db engagementId);
             isCustomer = (party_role party = EngagementFinancialSummaryPartyRole.CUSTOMER);
             base = \<lparr>fs_engagementId = engagementId, fs_viewerRole = party_role party,
                     fs_customer = None, fs_professional = None,
                     fs_paymentMethod = eng_paymentMethod (party_engagement party),
                     fs_eventType = None, fs_occurredAt = None,
                     fs_currency = CURRENCY_BY_COUNTRY (bc_country b)\<rparr>
         in case eventRows of
              [] \<Rightarrow> Inr (if isCustomer then base\<lparr>fs_customer := Some (toPreEventCustomerModel quotedPrice)\<rparr>
                        else base\<lparr>fs_professional := Some (toPreEventProfessionalModel quotedPrice)\<rparr>)
            | r # _ \<Rightarrow>
                let classified = classifyLedgerEventRows eventRows quotedPrice;
                    event = base\<lparr>fs_eventType := Some (ev_eventType classified),
                                 fs_occurredAt := Some (le_createdAt r), fs_currency := le_currency r\<rparr>
                in Inr (if isCustomer
                        then event\<lparr>fs_customer := Some (toEventCustomerModel classified quotedPrice eventRows)\<rparr>
                        else event\<lparr>fs_professional := Some (toEventProfessionalModel classified)\<rparr>)))"

end
