(* ===== verification/Marketplace.thy ===== *)
theory Marketplace
  imports Quote_Negotiation Cash_Payment Reviews Financial_Summary
begin

text \<open>
  The marketplace as a system of concurrent requests.  A request first reads and checks
  (\<^theory_text>\<open>begin_request\<close>, on the database of that moment); what it captured is an
  \<^theory_text>\<open>inflight\<close> transaction, which commits later on whatever the database has become
  (\<^theory_text>\<open>commit\<close>) or fails and changes nothing.  Transactions are atomic and serialised, and
  so are the reads of one request; between the two anything may happen.  A step of the system is a
  request that begins, an in-flight transaction that commits or fails, or an administrator changing
  a setting.
\<close>

section \<open>Requests and in-flight transactions\<close>

datatype request =
    StartWork id id
  | FinishWork id id
  | ConfirmCompletion id id
  | CancelByCustomer id id string
  | CancelByProfessional id id string
  | ProposeAppointment id id time time
  | AcceptAppointment id id
  | CancelAppointment id id string
  | SubmitQuote id id int string
  | WithdrawQuote id id
  | RejectQuote id id
  | AcceptQuote id id
  | PublishRequest id PublishServiceRequestInput
  | CancelRequest id id
  | PostNegotiation id id PostMessageInput
  | AcceptProposal id id
  | RejectProposal id id
  | SendChat id id string "id option"
  | ConfirmCash id id
  | OpenCardAttempt id PayEngagementWithCardInput
  | OpenWalletAttempt id id
  | ApplyProviderResult id PaymentResolution
  | SubmitReview id id rat "string option"

datatype inflight =
    TxStart id
  | TxFinish id
  | TxComplete id
  | TxCancelByCustomer id string BillingContext
  | TxCancelByProfessional id string BillingContext
  | TxPropose id id time time AppointmentParty "id option" "id option"
  | TxAcceptAppointment id
  | TxCancelAppointment id string
  | TxSubmitQuote id id int string
  | TxWithdrawQuote id
  | TxRejectQuote id
  | TxAcceptQuote QuoteAcceptance
  | TxPublish PublishParams
  | TxCancelRequest id ServiceRequest
  | TxPost id PostMessageInput "QuoteNegotiationPartyResolution \<times> string option"
  | TxAcceptProposal "QuotePriceProposal \<times> QuoteNegotiationPartyResolution"
  | TxRejectProposal "QuotePriceProposal \<times> QuoteNegotiationPartyResolution"
  | TxSend id "EngagementChatParty PartyResolution" string "id option" "string option"
  | TxCash CashConfirmation
  | TxOpenAttempt err ProviderPaymentContext int
  | TxApply id PaymentResolution ApplyPlan
  | TxReview id "EngagementReviewParty PartyResolution" rat "string option"

definition mapR :: "('a \<Rightarrow> 'b) \<Rightarrow> err + 'a \<Rightarrow> err + 'b" where
  "mapR f m = andThen m (\<lambda>a. Inr (f a))"

lemma mapR_Inr_iff: "mapR f m = Inr y \<longleftrightarrow> (\<exists>a. m = Inr a \<and> y = f a)"
  by (auto simp: mapR_def andThen_Inr_iff)

definition propose_pre :: "db \<Rightarrow> id \<Rightarrow> id \<Rightarrow> time \<Rightarrow> time \<Rightarrow> err + AppointmentParty PartyResolution" where
  "propose_pre db userId engagementId startsAt endsAt =
     (if endsAt \<le> startsAt then Inl APPOINTMENT_INVALID_TIME_RANGE
      else appointment_resolveParty db userId engagementId)"

definition card_pre :: "db \<Rightarrow> id \<Rightarrow> PayEngagementWithCardInput \<Rightarrow> err + ProviderPaymentContext" where
  "card_pre db userId input =
     (if \<not> validCardInput input then Inl INVALID_CARD_PAYMENT_INPUT
      else providerPayment_pre ENGAGEMENT_NOT_PAYABLE_BY_CARD db userId (pay_engagementId input))"

fun begin_request :: "time \<Rightarrow> Provider \<Rightarrow> request \<Rightarrow> db \<Rightarrow> err + inflight" where
  "begin_request now prov (StartWork u e) db = mapR (\<lambda>_. TxStart e) (startEngagementWork_pre db u e)"
| "begin_request now prov (FinishWork u e) db = mapR (\<lambda>_. TxFinish e) (markEngagementWorkFinished_pre db u e)"
| "begin_request now prov (ConfirmCompletion u e) db = mapR (\<lambda>_. TxComplete e) (confirmEngagementCompletion_pre db u e)"
| "begin_request now prov (CancelByCustomer u e r) db = mapR (TxCancelByCustomer e r) (cancelEngagementByCustomer_pre db u e)"
| "begin_request now prov (CancelByProfessional u e r) db =
     mapR (TxCancelByProfessional e r) (cancelEngagementByProfessional_pre db u e)"
| "begin_request now prov (ProposeAppointment u e s t) db =
     mapR (\<lambda>p. TxPropose e (eng_professionalProfileId (party_engagement p)) s t (party_role p)
             (party_customerProfileId p) (party_professionalProfileId p)) (propose_pre db u e s t)"
| "begin_request now prov (AcceptAppointment u i) db = mapR (\<lambda>_. TxAcceptAppointment i) (accept_pre db u i)"
| "begin_request now prov (CancelAppointment u i r) db = mapR (\<lambda>_. TxCancelAppointment i r) (cancel_pre db u i)"
| "begin_request now prov (SubmitQuote u sr p m) db = mapR (\<lambda>prof. TxSubmitQuote sr prof p m) (submitQuote_pre db u sr p)"
| "begin_request now prov (WithdrawQuote u q) db = mapR (\<lambda>_. TxWithdrawQuote q) (withdrawQuote_pre db u q)"
| "begin_request now prov (RejectQuote u q) db = mapR (\<lambda>_. TxRejectQuote q) (rejectQuote_pre db u q)"
| "begin_request now prov (AcceptQuote u q) db = mapR TxAcceptQuote (acceptQuote_pre db u q)"
| "begin_request now prov (PublishRequest u input) db = mapR TxPublish (publishServiceRequest_pre now u input db)"
| "begin_request now prov (CancelRequest u i) db = mapR (TxCancelRequest i) (cancelServiceRequest_pre db u i)"
| "begin_request now prov (PostNegotiation u q input) db = mapR (TxPost q input) (postMessage_pre now u q input db)"
| "begin_request now prov (AcceptProposal u i) db = mapR TxAcceptProposal (resolveProposal_pre db u i)"
| "begin_request now prov (RejectProposal u i) db = mapR TxRejectProposal (resolveProposal_pre db u i)"
| "begin_request now prov (SendChat u e c ref) db =
     mapR (\<lambda>(party, url). TxSend e party c ref url) (sendMessage_pre now u e ref db)"
| "begin_request now prov (ConfirmCash u e) db = mapR TxCash (confirmCashPayment_pre db u e)"
| "begin_request now prov (OpenCardAttempt u input) db =
     mapR (\<lambda>c. TxOpenAttempt CARD_PAYMENT_ALREADY_IN_PROGRESS c \<lfloor>pay_installments input\<rfloor>) (card_pre db u input)"
| "begin_request now prov (OpenWalletAttempt u e) db =
     mapR (\<lambda>c. TxOpenAttempt WALLET_PAYMENT_ALREADY_IN_PROGRESS c 1)
       (providerPayment_pre ENGAGEMENT_NOT_PAYABLE_BY_WALLET db u e)"
| "begin_request now prov (ApplyProviderResult i res) db = Inr (TxApply i res (apply_pre prov i res db))"
| "begin_request now prov (SubmitReview u e rating c) db =
     mapR (\<lambda>party. TxReview e party rating c) (submitReview_pre db u e rating c)"

fun commit :: "time \<Rightarrow> inflight \<Rightarrow> db \<Rightarrow> err + db" where
  "commit now (TxStart e) db = startEngagementWork_tx now e db"
| "commit now (TxFinish e) db = markEngagementWorkFinished_tx now e db"
| "commit now (TxComplete e) db = confirmEngagementCompletion_tx now e db"
| "commit now (TxCancelByCustomer e r b) db = cancelEngagementByCustomer_tx now e r b db"
| "commit now (TxCancelByProfessional e r b) db = cancelEngagementByProfessional_tx now e r b db"
| "commit now (TxPropose e prof s t role c p) db = Inr (snd (createAppointment now e prof s t role c p db))"
| "commit now (TxAcceptAppointment i) db = accept_tx now i db"
| "commit now (TxCancelAppointment i r) db = cancel_tx now i r db"
| "commit now (TxSubmitQuote sr prof p m) db = Inr (snd (createQuote now sr prof p m db))"
| "commit now (TxWithdrawQuote q) db = withdrawQuote_tx now q db"
| "commit now (TxRejectQuote q) db = rejectQuote_tx now q db"
| "commit now (TxAcceptQuote a) db = acceptQuote_tx now a db"
| "commit now (TxPublish params) db = mapR snd (publish_tx now params db)"
| "commit now (TxCancelRequest i existing) db = cancelServiceRequest_tx now i existing db"
| "commit now (TxPost q input c) db = postMessage_tx now q input c db"
| "commit now (TxAcceptProposal c) db = acceptProposal_tx now c db"
| "commit now (TxRejectProposal c) db = rejectProposal_tx now c db"
| "commit now (TxSend e party c ref url) db = sendMessage_tx now e party c ref url db"
| "commit now (TxCash c) db = mapR snd (confirmCashPayment_tx now c db)"
| "commit now (TxOpenAttempt e c n) db = mapR snd (openAttempt now e c n db)"
| "commit now (TxApply i res plan) db = apply_tx now i res plan db"
| "commit now (TxReview e party rating c) db = mapR snd (submitReview_tx now e party rating c db)"

section \<open>Steps\<close>

type_synonym state = "db \<times> inflight list"

inductive step :: "state \<Rightarrow> state \<Rightarrow> bool" where
  Begin: "begin_request now prov req db = Inr t \<Longrightarrow> step (db, ts) (db, t # ts)"
| Commit: "t \<in> set ts \<Longrightarrow> commit now t db = Inr db' \<Longrightarrow> step (db, ts) (db', remove1 t ts)"
| Fail: "t \<in> set ts \<Longrightarrow> commit now t db = Inl e \<Longrightarrow> step (db, ts) (db, remove1 t ts)"
| Configure: "step (db, ts) (db\<lparr>platformSettings := settings\<rparr>, ts)"

inductive_cases stepE: "step (db, ts) (db', ts')"

text \<open>The start: users, profiles, settings and categories are there, the marketplace is empty.\<close>

definition initialDb :: "db \<Rightarrow> bool" where
  "initialDb db \<longleftrightarrow> serviceRequests db = [] \<and> quotes db = [] \<and> negotiationMessages db = []
     \<and> priceProposals db = [] \<and> engagements db = [] \<and> conversations db = [] \<and> chatMessages db = []
     \<and> appointments db = [] \<and> paymentAttempts db = [] \<and> ledgerEntries db = [] \<and> reviews db = []"

inductive reach :: "state \<Rightarrow> bool" where
  Init: "initialDb db \<Longrightarrow> reach (db, [])"
| Step: "reach s \<Longrightarrow> step s s' \<Longrightarrow> reach s'"

text \<open>An invariant of the database and of every in-flight transaction, each relative to the
  database, is proved from the four kinds of step.\<close>

lemma reach_invariant:
  assumes init: "\<And>db. initialDb db \<Longrightarrow> I db"
    and start: "\<And>now prov req db t. I db \<Longrightarrow> begin_request now prov req db = Inr t \<Longrightarrow> J db t"
    and commit: "\<And>now t db db'. I db \<Longrightarrow> J db t \<Longrightarrow> commit now t db = Inr db' \<Longrightarrow> I db'"
    and stable: "\<And>now t t' db db'. I db \<Longrightarrow> J db t \<Longrightarrow> J db t' \<Longrightarrow> commit now t db = Inr db' \<Longrightarrow> J db' t'"
    and config: "\<And>db s. I db \<Longrightarrow> I (db\<lparr>platformSettings := s\<rparr>)"
    and config': "\<And>db t s. J db t \<Longrightarrow> J (db\<lparr>platformSettings := s\<rparr>) t"
    and reached: "reach (db, ts)"
  shows "I db \<and> (\<forall>t\<in>set ts. J db t)"
proof -
  have "I (fst s) \<and> (\<forall>t\<in>set (snd s). J (fst s) t)" if "reach s" for s
    using that
  proof induction
    case (Init db)
    then show ?case using init by simp
  next
    case (Step s s')
    from Step.hyps(2) Step.IH show ?case
    proof cases
      case (Begin now prov req db t ts)
      then show ?thesis using Step.IH start by simp
    next
      case (Commit t ts now db db')
      then show ?thesis using Step.IH commit stable
        by simp (meson notin_set_remove1)
    next
      case (Fail t ts now db e)
      then show ?thesis using Step.IH by simp (meson notin_set_remove1)
    next
      case (Configure db ts settings)
      then show ?thesis using Step.IH config config' by simp
    qed
  qed
  from this [OF reached] show ?thesis by simp
qed

text \<open>An invariant of the database that needs nothing about what a transaction captured.\<close>

lemma reach_db_invariant:
  assumes "\<And>db. initialDb db \<Longrightarrow> I db"
    and "\<And>now t db db'. I db \<Longrightarrow> commit now t db = Inr db' \<Longrightarrow> I db'"
    and "\<And>db s. I db \<Longrightarrow> I (db\<lparr>platformSettings := s\<rparr>)"
    and "reach (db, ts)"
  shows "I db"
  using reach_invariant [of I "\<lambda>_ _. True" db ts] assms by blast

end
