(* ===== verification/Engagement_Lifecycle.thy ===== *)
theory Engagement_Lifecycle
  imports Engagements
begin

text \<open>
  The abstract state machine of an engagement, and what each lifecycle transaction does to the
  database: one transition of one row, a system message, and the ledger event of a cancellation;
  every other table is as before.
\<close>

section \<open>The state machine\<close>

inductive lifecycle :: "EngagementStatus \<Rightarrow> EngagementStatus \<Rightarrow> bool" where
  start: "lifecycle EngagementStatus.ACCEPTED EngagementStatus.IN_PROGRESS"
| finish: "lifecycle EngagementStatus.IN_PROGRESS EngagementStatus.PENDING_CUSTOMER_CONFIRMATION"
| complete: "lifecycle EngagementStatus.PENDING_CUSTOMER_CONFIRMATION EngagementStatus.COMPLETED"
| cancel_accepted: "lifecycle EngagementStatus.ACCEPTED EngagementStatus.CANCELLED"
| cancel_in_progress: "lifecycle EngagementStatus.IN_PROGRESS EngagementStatus.CANCELLED"

code_pred lifecycle .

inductive_simps lifecycle_from_accepted [simp]: "lifecycle EngagementStatus.ACCEPTED s"
inductive_simps lifecycle_from_in_progress [simp]: "lifecycle EngagementStatus.IN_PROGRESS s"
inductive_simps lifecycle_from_pending [simp]: "lifecycle EngagementStatus.PENDING_CUSTOMER_CONFIRMATION s"
inductive_simps lifecycle_from_completed [simp]: "lifecycle EngagementStatus.COMPLETED s"
inductive_simps lifecycle_from_cancelled [simp]: "lifecycle EngagementStatus.CANCELLED s"

text \<open>The shape of a row in each state: which of the timestamps are set.\<close>

definition engagementShape :: "Engagement \<Rightarrow> bool" where
  "engagementShape e \<longleftrightarrow> (case eng_status e of
       EngagementStatus.ACCEPTED \<Rightarrow> eng_startedAt e = None \<and> eng_finishedAt e = None
         \<and> eng_completedAt e = None \<and> eng_cancelledAt e = None \<and> eng_cancelReason e = None
     | EngagementStatus.IN_PROGRESS \<Rightarrow> eng_startedAt e \<noteq> None \<and> eng_finishedAt e = None
         \<and> eng_completedAt e = None \<and> eng_cancelledAt e = None \<and> eng_cancelReason e = None
     | EngagementStatus.PENDING_CUSTOMER_CONFIRMATION \<Rightarrow> eng_startedAt e \<noteq> None \<and> eng_finishedAt e \<noteq> None
         \<and> eng_completedAt e = None \<and> eng_cancelledAt e = None \<and> eng_cancelReason e = None
     | EngagementStatus.COMPLETED \<Rightarrow> eng_startedAt e \<noteq> None \<and> eng_finishedAt e \<noteq> None
         \<and> eng_completedAt e \<noteq> None \<and> eng_cancelledAt e = None \<and> eng_cancelReason e = None
     | EngagementStatus.CANCELLED \<Rightarrow> eng_finishedAt e = None
         \<and> eng_completedAt e = None \<and> eng_cancelledAt e \<noteq> None \<and> eng_cancelReason e \<noteq> None)"

text \<open>What may happen to a row: its identity and its parties never change, its status moves along
  the state machine, its payment method is set at most once.\<close>

definition engagementEvolves :: "Engagement \<Rightarrow> Engagement \<Rightarrow> bool" where
  "engagementEvolves e e' \<longleftrightarrow> eng_id e' = eng_id e \<and> eng_serviceRequestId e' = eng_serviceRequestId e
     \<and> eng_quoteId e' = eng_quoteId e \<and> eng_customerProfileId e' = eng_customerProfileId e
     \<and> eng_professionalProfileId e' = eng_professionalProfileId e \<and> eng_createdAt e' = eng_createdAt e
     \<and> (eng_status e' = eng_status e \<or> lifecycle (eng_status e) (eng_status e'))
     \<and> (eng_paymentMethod e = None \<or> eng_paymentMethod e' = eng_paymentMethod e)"

lemma engagementEvolves_refl [simp]: "engagementEvolves e e"
  by (simp add: engagementEvolves_def)

lemmas row_changes = startWork_def finishWork_def completeWork_def cancelWork_def

interpretation start_work: guarded_change eng_id eng_status "\<lambda>s. s \<in> {EngagementStatus.ACCEPTED}"
  "EngagementStatus.IN_PROGRESS" "startWork now" for now
  by unfold_locales (simp_all add: row_changes)

interpretation finish_work: guarded_change eng_id eng_status "\<lambda>s. s \<in> {EngagementStatus.IN_PROGRESS}"
  "EngagementStatus.PENDING_CUSTOMER_CONFIRMATION" "finishWork now" for now
  by unfold_locales (simp_all add: row_changes)

interpretation complete_work: guarded_change eng_id eng_status
  "\<lambda>s. s \<in> {EngagementStatus.PENDING_CUSTOMER_CONFIRMATION}"
  "EngagementStatus.COMPLETED" "completeWork now" for now
  by unfold_locales (simp_all add: row_changes)

interpretation cancel_work: guarded_change eng_id eng_status
  "\<lambda>s. s \<in> {EngagementStatus.ACCEPTED, EngagementStatus.IN_PROGRESS}"
  "EngagementStatus.CANCELLED" "cancelWork now reason" for now reason
  by unfold_locales (simp_all add: row_changes)

section \<open>Effects\<close>

text \<open>A transition of engagement \<^theory_text>\<open>i\<close> out of one of the states of
  \<^theory_text>\<open>S\<close>, which also appends the entries \<^theory_text>\<open>rows\<close> to the ledger.\<close>

definition transition ::
  "EngagementStatus set \<Rightarrow> (Engagement \<Rightarrow> Engagement) \<Rightarrow> id \<Rightarrow> LedgerEntry list \<Rightarrow> db \<Rightarrow> db \<Rightarrow> bool" where
  "transition S f i rows db db' \<longleftrightarrow> countWhere (inStatus S i) (engagements db) = 1
     \<and> (\<exists>now c. db' = appendEntries rows
          (emit now i c (db\<lparr>engagements := updateMany (inStatus S i) f (engagements db)\<rparr>)))"

lemma emit_nextId_engagements: "nextId db \<le> nextId (emit now i c (db\<lparr>engagements := es\<rparr>))"
  using emit_nextId [of "db\<lparr>engagements := es\<rparr>" now i c] by simp

lemma transition_fields:
  assumes "transition S f i rows db db'"
  shows "quotes db' = quotes db" "serviceRequests db' = serviceRequests db"
    "priceProposals db' = priceProposals db" "appointments db' = appointments db"
    "paymentAttempts db' = paymentAttempts db" "reviews db' = reviews db"
    "negotiationMessages db' = negotiationMessages db"
    "customerProfiles db' = customerProfiles db" "professionalProfiles db' = professionalProfiles db"
    "conversations db' = conversations db" "mediaUploadRefs db' = mediaUploadRefs db"
    "srUploadRefs db' = srUploadRefs db" "platformSettings db' = platformSettings db"
    "engagements db' = updateMany (inStatus S i) f (engagements db)"
    "nextId db \<le> nextId db'"
  using assms by (auto simp: transition_def appendEntries_def intro!: emit_nextId_engagements [THEN trans_le_add1])

lemma transition_ledger:
  assumes "transition S f i rows db db'"
  shows "ledgerCount t e db' = ledgerCount t e db + countWhere (\<lambda>r. le_type r = t \<and> le_engagementId r = Some e) rows"
  using assms by (auto simp: transition_def ledgerCount_appendEntries) (simp_all add: ledgerCount_def)

lemma transition_emit:
  assumes "countWhere (inStatus S i) (engagements db) = 1"
  shows "transition S f i [] db (emit now i c (db\<lparr>engagements := updateMany (inStatus S i) f (engagements db)\<rparr>))"
  using assms by (auto simp: transition_def)

lemma transition_append:
  assumes "transition S f i [] db db1"
  shows "transition S f i rows db (appendEntries rows db1)"
  using assms by (auto simp: transition_def)

lemmas lifecycle_txs = startEngagementWork_tx_def markEngagementWorkFinished_tx_def
  confirmEngagementCompletion_tx_def cancelEngagementByCustomer_tx_def cancelEngagementByProfessional_tx_def
  startWorkIfAccepted_def finishWorkIfInProgress_def completeIfPendingCustomerConfirmation_def
  cancelIfActive_def updateEngagements_def

lemma start_effect:
  "startEngagementWork_tx now i db = Inr db' \<Longrightarrow>
     transition {EngagementStatus.ACCEPTED} (startWork now) i [] db db'"
  by (auto simp: lifecycle_txs split: if_splits intro: transition_emit)

lemma finish_effect:
  "markEngagementWorkFinished_tx now i db = Inr db' \<Longrightarrow>
     transition {EngagementStatus.IN_PROGRESS} (finishWork now) i [] db db'"
  by (auto simp: lifecycle_txs split: if_splits intro: transition_emit)

lemma complete_effect:
  "confirmEngagementCompletion_tx now i db = Inr db' \<Longrightarrow>
     transition {EngagementStatus.PENDING_CUSTOMER_CONFIRMATION} (completeWork now) i [] db db'"
  by (auto simp: lifecycle_txs split: if_splits intro: transition_emit)

lemma cancelByCustomer_effect:
  assumes "cancelEngagementByCustomer_tx now i reason b db = Inr db'"
  shows "\<exists>rows. transition {EngagementStatus.ACCEPTED, EngagementStatus.IN_PROGRESS} (cancelWork now reason) i rows db db'
     \<and> (if bc_status b = EngagementStatus.IN_PROGRESS
        then \<exists>p. readCommissionPercent db = Inr (of_int p)
               \<and> rows = cancellationChargeRows now (ledgerPartiesOf i b) (bc_quotedPrice b) p
        else rows = [])"
proof -
  let ?S = "{EngagementStatus.ACCEPTED, EngagementStatus.IN_PROGRESS}"
  let ?d = "emit now i (ENGAGEMENT_LIFECYCLE_SYSTEM_MESSAGES CANCELLED_BY_CUSTOMER)
      (db\<lparr>engagements := updateMany (inStatus ?S i) (cancelWork now reason) (engagements db)\<rparr>)"
  have one: "countWhere (inStatus ?S i) (engagements db) = 1"
    and w: "recordIfApplicable now (bc_status b) (ledgerPartiesOf i b) (bc_quotedPrice b) ?d = Inr db'"
    using assms by (auto simp: lifecycle_txs Let_def split: if_splits)
  have tr: "transition ?S (cancelWork now reason) i [] db ?d"
    using transition_emit [OF one] .
  show ?thesis
  proof (cases "bc_status b = EngagementStatus.IN_PROGRESS")
    case True
    then obtain p where p: "readCommissionPercent ?d = Inr (of_int p)"
        "db' = appendEntries (cancellationChargeRows now (ledgerPartiesOf i b) (bc_quotedPrice b) p) ?d"
      using recordIfApplicable_Inr w by fastforce
    have "readCommissionPercent ?d = readCommissionPercent db"
      by (simp add: readCommissionPercent_def getValue_def findSettingByKey_def)
    then have "readCommissionPercent db = Inr (of_int p)" using p(1) by simp
    moreover have "transition ?S (cancelWork now reason) i
        (cancellationChargeRows now (ledgerPartiesOf i b) (bc_quotedPrice b) p) db db'"
      unfolding p(2) by (rule transition_append [OF tr])
    ultimately show ?thesis using True by auto
  next
    case False
    then show ?thesis using w tr by (auto simp: recordIfApplicable_def)
  qed
qed

lemma cancelByProfessional_effect:
  assumes "cancelEngagementByProfessional_tx now i reason b db = Inr db'"
  shows "transition {EngagementStatus.ACCEPTED, EngagementStatus.IN_PROGRESS} (cancelWork now reason) i
     (refundRows now (ledgerPartiesOf i b) (bc_quotedPrice b) 0) db db'"
  using assms
  by (auto simp: lifecycle_txs Let_def recordRefund_Inr_iff split: if_splits
      intro!: transition_append transition_emit)

section \<open>Evolution and shape\<close>

lemma row_changes_evolve:
  "inStatus {EngagementStatus.ACCEPTED} i e \<Longrightarrow> engagementEvolves e (startWork now e)"
  "inStatus {EngagementStatus.IN_PROGRESS} i e \<Longrightarrow> engagementEvolves e (finishWork now e)"
  "inStatus {EngagementStatus.PENDING_CUSTOMER_CONFIRMATION} i e \<Longrightarrow> engagementEvolves e (completeWork now e)"
  "inStatus {EngagementStatus.ACCEPTED, EngagementStatus.IN_PROGRESS} i e \<Longrightarrow> engagementEvolves e (cancelWork now reason e)"
  by (auto simp: engagementEvolves_def inStatus_def guard_def row_changes)

lemma row_changes_shape:
  "engagementShape e \<Longrightarrow> inStatus {EngagementStatus.ACCEPTED} i e \<Longrightarrow> engagementShape (startWork now e)"
  "engagementShape e \<Longrightarrow> inStatus {EngagementStatus.IN_PROGRESS} i e \<Longrightarrow> engagementShape (finishWork now e)"
  "engagementShape e \<Longrightarrow> inStatus {EngagementStatus.PENDING_CUSTOMER_CONFIRMATION} i e \<Longrightarrow> engagementShape (completeWork now e)"
  "engagementShape e \<Longrightarrow> inStatus {EngagementStatus.ACCEPTED, EngagementStatus.IN_PROGRESS} i e
     \<Longrightarrow> engagementShape (cancelWork now reason e)"
  by (auto simp: engagementShape_def inStatus_def guard_def row_changes)

text \<open>The invariant of the table: shapes, and the keys and unique columns of the schema.\<close>

definition engagementsOk :: "db \<Rightarrow> bool" where
  "engagementsOk db \<longleftrightarrow> list_all engagementShape (engagements db)
     \<and> distinct (map eng_id (engagements db)) \<and> list_all (\<lambda>e. eng_id e < nextId db) (engagements db)
     \<and> distinct (map eng_serviceRequestId (engagements db)) \<and> distinct (map eng_quoteId (engagements db))"

lemma engagementsOk_update:
  assumes "engagementsOk db" "engagements db' = updateMany p f (engagements db)" "nextId db \<le> nextId db'"
    and "\<And>e. p e \<Longrightarrow> engagementEvolves e (f e)"
    and "\<And>e. engagementShape e \<Longrightarrow> p e \<Longrightarrow> engagementShape (f e)"
  shows "engagementsOk db'"
proof -
  have k: "map g (updateMany p f (engagements db)) = map g (engagements db)"
    if "\<And>e. engagementEvolves e (f e) \<Longrightarrow> g (f e) = g e" for g :: "Engagement \<Rightarrow> id"
    using that assms(4) by (simp add: updateMany_def)
  have ids: "map eng_id (engagements db') = map eng_id (engagements db)"
    and srs: "map eng_serviceRequestId (engagements db') = map eng_serviceRequestId (engagements db)"
    and qs: "map eng_quoteId (engagements db') = map eng_quoteId (engagements db)"
    using k by (auto simp: assms(2) engagementEvolves_def)
  have "list_all engagementShape (engagements db')"
    using assms by (auto simp: engagementsOk_def intro: list_all_updateMany)
  moreover have "list_all (\<lambda>e. eng_id e < nextId db') (engagements db')"
  proof -
    have "list_all (\<lambda>i. i < nextId db') (map eng_id (engagements db'))"
      unfolding ids using assms(1,3) by (auto simp: engagementsOk_def list_all_iff)
    then show ?thesis by (simp add: list_all_iff)
  qed
  ultimately show ?thesis using assms(1) by (simp add: engagementsOk_def ids srs qs)
qed

lemma engagementsOk_frame:
  assumes "engagementsOk db" "engagements db' = engagements db" "nextId db \<le> nextId db'"
  shows "engagementsOk db'"
  using assms by (auto simp: engagementsOk_def list_all_iff intro: less_le_trans)

lemma setPaymentMethod_fields:
  "engagements (snd (setPaymentMethodIfUnset i m db)) =
     updateMany (\<lambda>e. eng_id e = i \<and> eng_paymentMethod e = None) (\<lambda>e. e\<lparr>eng_paymentMethod := Some m\<rparr>) (engagements db)"
  by (simp_all add: setPaymentMethodIfUnset_def updateEngagements_def)

lemma setPaymentMethod_evolves: "eng_paymentMethod e = None \<Longrightarrow> engagementEvolves e (e\<lparr>eng_paymentMethod := Some m\<rparr>)"
  by (simp add: engagementEvolves_def)

lemma setPaymentMethod_shape: "engagementShape (e\<lparr>eng_paymentMethod := m\<rparr>) = engagementShape e"
  by (simp add: engagementShape_def split: EngagementStatus.split)

lemma createEngagement_Inr:
  assumes "createEngagement now sr q c p db = Inr (e, db')"
  shows "db' = db\<lparr>nextId := Suc (nextId db), engagements := engagements db @ [e]\<rparr>"
    and "eng_id e = nextId db" "eng_serviceRequestId e = sr" "eng_quoteId e = q"
    and "eng_customerProfileId e = c" "eng_professionalProfileId e = p"
    and "eng_status e = EngagementStatus.ACCEPTED" "eng_paymentMethod e = None"
    and "engagementShape e"
    and "\<forall>g\<in>set (engagements db). eng_serviceRequestId g \<noteq> sr \<and> eng_quoteId g \<noteq> q"
  using assms by (auto simp: createEngagement_def Let_def engagementShape_def list_ex_iff split: if_splits)

lemma createEngagement_ok:
  assumes "engagementsOk db" "createEngagement now sr q c p db = Inr (e, db')"
  shows "engagementsOk db'"
  using assms(1) createEngagement_Inr [OF assms(2)]
  by (auto simp: engagementsOk_def list_all_iff less_Suc_eq)

end
