(* ===== verification/Payment_Correctness.thy ===== *)
theory Payment_Correctness
  imports Cash_Payment Engagement_Lifecycle
begin

text \<open>
  What the payment transactions keep true: at most one active attempt per engagement, attempts that
  only move from PENDING to APPROVED or REJECTED, and the books: an engagement has exactly one
  payment entry in the ledger (a digital charge or a cash commission debt) for each of its APPROVED
  attempts.
\<close>

section \<open>Attempts\<close>

definition attemptsOk :: "db \<Rightarrow> bool" where
  "attemptsOk db \<longleftrightarrow> distinct (map pa_id (paymentAttempts db))
     \<and> list_all (\<lambda>a. pa_id a < nextId db) (paymentAttempts db)
     \<and> (\<forall>e. countWhere (isActiveAttempt e) (paymentAttempts db) \<le> 1)"

definition attemptEvolves :: "PaymentAttempt \<Rightarrow> PaymentAttempt \<Rightarrow> bool" where
  "attemptEvolves a a' \<longleftrightarrow> pa_id a' = pa_id a \<and> pa_engagementId a' = pa_engagementId a
     \<and> pa_method a' = pa_method a \<and> pa_amount a' = pa_amount a \<and> pa_currency a' = pa_currency a
     \<and> pa_installments a' = pa_installments a \<and> pa_createdAt a' = pa_createdAt a
     \<and> (pa_status a' = pa_status a \<or> pa_status a = PaymentAttemptStatus.PENDING)
     \<and> (pa_customerConfirmedAt a \<noteq> None \<longrightarrow> pa_customerConfirmedAt a' \<noteq> None)
     \<and> (pa_professionalConfirmedAt a \<noteq> None \<longrightarrow> pa_professionalConfirmedAt a' \<noteq> None)"

lemma attemptEvolves_refl [simp]: "attemptEvolves a a"
  by (simp add: attemptEvolves_def)

lemma attemptEvolves_trans: "attemptEvolves a b \<Longrightarrow> attemptEvolves b c \<Longrightarrow> attemptEvolves a c"
  by (auto simp: attemptEvolves_def)

interpretation attempt_resolve: guarded_change pa_id pa_status "\<lambda>s. s = PaymentAttemptStatus.PENDING"
  "PaymentAttemptStatus.APPROVED" "resolveAttemptRow \<lparr>rs_status = PaymentAttemptStatus.APPROVED,
     rs_providerPaymentId = p, rs_rejectionReason = r, rs_details = d\<rparr>" for p r d
  by unfold_locales (simp_all add: resolveAttemptRow_def)

definition approvedOf :: "id \<Rightarrow> PaymentAttempt \<Rightarrow> bool" where
  "approvedOf e a \<longleftrightarrow> pa_engagementId a = e \<and> pa_status a = PaymentAttemptStatus.APPROVED"

definition paymentEntries :: "id \<Rightarrow> db \<Rightarrow> nat" where
  "paymentEntries e db = ledgerCount CUSTOMER_CHARGE e db + ledgerCount CASH_COMMISSION_DEBT e db"

definition paymentsRecorded :: "db \<Rightarrow> bool" where
  "paymentsRecorded db \<longleftrightarrow> (\<forall>e. paymentEntries e db = countWhere (approvedOf e) (paymentAttempts db))"

lemma attemptsOk_frame:
  assumes "attemptsOk db" "paymentAttempts db' = paymentAttempts db" "nextId db \<le> nextId db'"
  shows "attemptsOk db'"
  using assms by (auto simp: attemptsOk_def list_all_iff intro: less_le_trans)

lemma attemptsOk_update:
  assumes ok: "attemptsOk db" and eq: "paymentAttempts db' = updateMany p f (paymentAttempts db)"
    and le: "nextId db \<le> nextId db'"
    and ids: "\<And>a. pa_id (f a) = pa_id a" and act: "\<And>e a. p a \<Longrightarrow> isActiveAttempt e (f a) \<Longrightarrow> isActiveAttempt e a"
  shows "attemptsOk db'"
proof -
  have k: "map pa_id (paymentAttempts db') = map pa_id (paymentAttempts db)"
    by (simp add: eq map_key_updateMany ids)
  have "countWhere (isActiveAttempt e) (updateMany p f rows) \<le> countWhere (isActiveAttempt e) rows" for e rows
    using act by (induction rows) (auto simp: le_SucI)
  then have "\<forall>e. countWhere (isActiveAttempt e) (paymentAttempts db') \<le> 1"
    using ok eq by (metis attemptsOk_def le_trans)
  moreover have "list_all (\<lambda>i. i < nextId db') (map pa_id (paymentAttempts db'))"
    unfolding k using ok le by (auto simp: attemptsOk_def list_all_iff)
  then have "list_all (\<lambda>a. pa_id a < nextId db') (paymentAttempts db')" by (simp add: list_all_iff)
  ultimately show ?thesis using ok by (simp add: attemptsOk_def k)
qed

lemma attemptsOk_insert:
  assumes "attemptsOk db" "findActiveByEngagementId db (pa_engagementId a) = None" "pa_id a = nextId db"
  shows "attemptsOk (insertAttempt a db)"
proof -
  have "countWhere (isActiveAttempt (pa_engagementId a)) (paymentAttempts db) = 0"
    using assms(2) by (auto simp: findActiveByEngagementId_def findRow_None_iff countWhere_0_iff)
  moreover have "isActiveAttempt e a \<Longrightarrow> e = pa_engagementId a" for e by (simp add: isActiveAttempt_def)
  ultimately show ?thesis
    using assms by (auto simp: attemptsOk_def insertAttempt_def list_all_iff less_Suc_eq)
qed

section \<open>Effects of the transactions\<close>

lemma createPending_Inr:
  assumes "createPending now e amount currency n db = Inr (a, db')"
  shows "findActiveByEngagementId db e = None" "db' = insertAttempt a db" "pa_id a = nextId db"
    "pa_engagementId a = e" "pa_status a = PaymentAttemptStatus.PENDING" "pa_amount a = amount"
    "pa_currency a = currency" "pa_method a = PaymentMethod.MERCADOPAGO"
  using assms by (auto simp: createPending_def Let_def newAttempt_def split: if_splits)

lemma openAttempt_Inr:
  assumes "openAttempt now err c n db = Inr (a, db')"
  shows "createPending now (pc_engagementId c) (pc_amount c) (CURRENCY_BY_COUNTRY (pc_country c)) n db = Inr (a, db')"
  using assms by (auto simp: openAttempt_def split: sum.splits option.splits if_splits)

lemma paymentEntries_appendEntries:
  "paymentEntries e (appendEntries rows db) = paymentEntries e db
     + countWhere (\<lambda>r. le_type r \<in> {CUSTOMER_CHARGE, CASH_COMMISSION_DEBT} \<and> le_engagementId r = Some e) rows"
proof -
  have "countWhere (\<lambda>r. le_type r = CUSTOMER_CHARGE \<and> le_engagementId r = Some e) rows
      + countWhere (\<lambda>r. le_type r = CASH_COMMISSION_DEBT \<and> le_engagementId r = Some e) rows
      = countWhere (\<lambda>r. le_type r \<in> {CUSTOMER_CHARGE, CASH_COMMISSION_DEBT} \<and> le_engagementId r = Some e) rows"
    by (induction rows) auto
  then show ?thesis by (simp add: paymentEntries_def ledgerCount_appendEntries)
qed

lemma paymentEntries_frame: "ledgerEntries db' = ledgerEntries db \<Longrightarrow> paymentEntries e db' = paymentEntries e db"
  by (simp add: paymentEntries_def ledgerCount_def)

lemma paymentRows_count:
  "countWhere (\<lambda>r. le_type r \<in> {CUSTOMER_CHARGE, CASH_COMMISSION_DEBT} \<and> le_engagementId r = Some e)
     (digitalPaymentRows now d price p) = (if e = lp_engagementId d then 1 else 0)"
  "countWhere (\<lambda>r. le_type r \<in> {CUSTOMER_CHARGE, CASH_COMMISSION_DEBT} \<and> le_engagementId r = Some e)
     (commissionDebtRows now d price p) = (if e = lp_engagementId d then 1 else 0)"
  "countWhere (\<lambda>r. le_type r \<in> {CUSTOMER_CHARGE, CASH_COMMISSION_DEBT} \<and> le_engagementId r = Some e)
     (cancellationChargeRows now d price p) = 0"
  "countWhere (\<lambda>r. le_type r \<in> {CUSTOMER_CHARGE, CASH_COMMISSION_DEBT} \<and> le_engagementId r = Some e)
     (refundRows now d price p) = 0"
  by (auto simp: rows_defs)

lemma approved_after_resolve:
  assumes "rs_status r = PaymentAttemptStatus.APPROVED"
  shows "countWhere (approvedOf e) (updateMany (isPendingAttempt i) (resolveAttemptRow r) rows) =
     countWhere (approvedOf e) rows + countWhere (\<lambda>a. isPendingAttempt i a \<and> pa_engagementId a = e) rows"
  using assms by (induction rows) (auto simp: approvedOf_def resolveAttemptRow_def guard_def)

lemma approved_after_reject:
  assumes "rs_status r = PaymentAttemptStatus.REJECTED"
  shows "countWhere (approvedOf e) (updateMany (isPendingAttempt i) (resolveAttemptRow r) rows) =
     countWhere (approvedOf e) rows"
  using assms by (induction rows) (auto simp: approvedOf_def resolveAttemptRow_def guard_def)

lemma one_pending_of:
  assumes "countWhere (isPendingAttempt i) rows = 1" "\<forall>a\<in>set rows. pa_id a = i \<longrightarrow> pa_engagementId a = e'"
  shows "countWhere (\<lambda>a. isPendingAttempt i a \<and> pa_engagementId a = e) rows = (if e = e' then 1 else 0)"
proof -
  have "countWhere (\<lambda>a. isPendingAttempt i a \<and> pa_engagementId a = e) rows
      = (if e = e' then countWhere (isPendingAttempt i) rows else 0)"
    using assms(2) by (induction rows) (auto simp: guard_def)
  then show ?thesis using assms(1) by simp
qed

lemma resolveAttemptRow_simps [simp]:
  "pa_id (resolveAttemptRow r a) = pa_id a"
  "pa_engagementId (resolveAttemptRow r a) = pa_engagementId a"
  "pa_status (resolveAttemptRow r a) = rs_status r"
  by (simp_all add: resolveAttemptRow_def)

lemma resolve_evolves: "isPendingAttempt i a \<Longrightarrow> attemptEvolves a (resolveAttemptRow r a)"
  by (simp add: attemptEvolves_def resolveAttemptRow_def guard_def)

lemma resolve_active: "isPendingAttempt i a \<Longrightarrow> isActiveAttempt e (resolveAttemptRow r a) \<Longrightarrow> isActiveAttempt e a"
  by (simp add: isActiveAttempt_def guard_def)

text \<open>A resolution either finds the attempt already resolved and changes nothing, or resolves it and,
  for an approval, appends the three rows of the digital payment.\<close>

definition resolveAttempt ::
  "PaymentResolution \<Rightarrow> PaymentAttempt \<Rightarrow> ProviderTransactionDetails option \<Rightarrow> db \<Rightarrow> db" where
  "resolveAttempt res attempt details db = db\<lparr>paymentAttempts := updateMany (isPendingAttempt (pa_id attempt))
     (resolveAttemptRow (resolutionOf res details)) (paymentAttempts db)\<rparr>"

definition setMercadoPago :: "id \<Rightarrow> db \<Rightarrow> Engagement list" where
  "setMercadoPago e db = engagements (snd (setPaymentMethodIfUnset e PaymentMethod.MERCADOPAGO db))"

lemma resolve_effect:
  assumes "resolve_tx now res attempt billing details db = Inr db'"
  obtains (ignored) "db' = db"
  | (rejected) "billing = None" "countWhere (isPendingAttempt (pa_id attempt)) (paymentAttempts db) = 1"
      "db' = resolveAttempt res attempt details db"
  | (approved) b p where "billing = Some b" "countWhere (isPendingAttempt (pa_id attempt)) (paymentAttempts db) = 1"
      "readCommissionPercent db = Inr (of_int p)"
      "db' = (appendEntries (digitalPaymentRows now (attemptParties attempt b) (pa_amount attempt) p)
               (resolveAttempt res attempt details db))\<lparr>engagements := setMercadoPago (pa_engagementId attempt) db\<rparr>"
proof -
  let ?rows = "updateMany (isPendingAttempt (pa_id attempt)) (resolveAttemptRow (resolutionOf res details)) (paymentAttempts db)"
  let ?d = "db\<lparr>paymentAttempts := ?rows\<rparr>"
  show thesis
  proof (cases "countWhere (isPendingAttempt (pa_id attempt)) (paymentAttempts db) = 1")
    case False
    then show thesis using assms ignored by (simp add: resolve_tx_def resolveIfPending_def updateAttempts_def)
  next
    case True
    show thesis
    proof (cases billing)
      case None
      then show thesis using assms True rejected
        by (auto simp: resolve_tx_def resolveIfPending_def updateAttempts_def resolveAttempt_def)
    next
      case (Some b)
      then obtain db2 where w: "recordDigitalPayment now (attemptParties attempt b) (pa_amount attempt) ?d = Inr db2"
        and db': "db' = snd (setPaymentMethodIfUnset (pa_engagementId attempt) PaymentMethod.MERCADOPAGO db2)"
        using assms True by (auto simp: resolve_tx_def resolveIfPending_def updateAttempts_def andThen_Inr_iff)
      obtain p where p: "readCommissionPercent ?d = Inr (of_int p)"
        "db2 = appendEntries (digitalPaymentRows now (attemptParties attempt b) (pa_amount attempt) p) ?d"
        using recordDigitalPayment_Inr [OF w] by blast
      have q: "readCommissionPercent db = Inr (of_int p)"
        using p(1) by (simp add: readCommissionPercent_def getValue_def findSettingByKey_def)
      show thesis
        by (rule approved [OF Some True q])
           (simp add: db' p(2) setPaymentMethodIfUnset_def updateEngagements_def appendEntries_def
             setMercadoPago_def resolveAttempt_def)
    qed
  qed
qed

lemma attach_effect:
  assumes "db' = snd (attachProviderPaymentIdIfPending i p db)"
  shows "db' = db\<lparr>paymentAttempts := updateMany (\<lambda>a. isPendingAttempt i a \<and> pa_providerPaymentId a = None)
           (\<lambda>a. a\<lparr>pa_providerPaymentId := Some p\<rparr>) (paymentAttempts db)\<rparr>"
  using assms by (simp add: attachProviderPaymentIdIfPending_def updateAttempts_def)

lemma apply_tx_cases:
  assumes "apply_tx now i res plan db = Inr db'"
  obtains "db' = db"
  | p where "db' = snd (attachProviderPaymentIdIfPending i p db)"
  | attempt billing details where "plan = Resolve attempt billing details"
      "resolve_tx now res attempt billing details db = Inr db'"
  using assms by (auto simp: apply_tx_def split: ApplyPlan.splits option.splits if_splits)

text \<open>A cash confirmation opens the attempt, or stamps the open one; a stamp that completes the two
  confirmations of a PENDING attempt approves it and appends the debt.\<close>

definition stampCash :: "time \<Rightarrow> CashConfirmation \<Rightarrow> db \<Rightarrow> db" where
  "stampCash now c db = db\<lparr>paymentAttempts := updateMany
     (\<lambda>r. isActiveAttempt (eng_id (cash_engagement c)) r \<and> pa_method r = PaymentMethod.CASH)
     (stampConfirmation now (cash_role c)) (paymentAttempts db)\<rparr>"

definition setCash :: "CashConfirmation \<Rightarrow> db \<Rightarrow> db" where
  "setCash c db = snd (setPaymentMethodIfUnset (eng_id (cash_engagement c)) PaymentMethod.CASH db)"

definition resolveCash :: "id \<Rightarrow> db \<Rightarrow> db" where
  "resolveCash i db = db\<lparr>paymentAttempts :=
     updateMany (isPendingAttempt i) (resolveAttemptRow cashResolution) (paymentAttempts db)\<rparr>"

lemma setCash_fields [simp]:
  "paymentAttempts (setCash c db) = paymentAttempts db" "ledgerEntries (setCash c db) = ledgerEntries db"
  "nextId (setCash c db) = nextId db" "findActiveByEngagementId (setCash c db) e = findActiveByEngagementId db e"
  by (simp_all add: setCash_def setPaymentMethodIfUnset_def updateEngagements_def findActiveByEngagementId_def)

lemma stamp_simps [simp]:
  "pa_id (stampConfirmation now r a) = pa_id a"
  "pa_engagementId (stampConfirmation now r a) = pa_engagementId a"
  "pa_status (stampConfirmation now r a) = pa_status a"
  "pa_method (stampConfirmation now r a) = pa_method a"
  by (simp_all add: stampConfirmation_def split: CashPaymentParty.split)

lemma stamp_evolves [simp]: "attemptEvolves a (stampConfirmation now r a)"
  by (simp add: attemptEvolves_def stampConfirmation_def split: CashPaymentParty.split)

lemma newAttempt_simps [simp]:
  "pa_id (newAttempt now e m t a c n i) = i"
  "pa_engagementId (newAttempt now e m t a c n i) = e"
  "pa_status (newAttempt now e m t a c n i) = PaymentAttemptStatus.PENDING"
  "pa_method (newAttempt now e m t a c n i) = m"
  "pa_customerConfirmedAt (newAttempt now e m t a c n i) = None"
  "pa_professionalConfirmedAt (newAttempt now e m t a c n i) = None"
  by (simp_all add: newAttempt_def)

lemma stamp_one_side:
  "pa_customerConfirmedAt a = None \<Longrightarrow> pa_professionalConfirmedAt a = None \<Longrightarrow>
     pa_customerConfirmedAt (stampConfirmation now r a) = None
     \<or> pa_professionalConfirmedAt (stampConfirmation now r a) = None"
  by (cases r) (simp_all add: stampConfirmation_def)

lemma upsert_eq:
  "upsertCashConfirmation now (eng_id (cash_engagement c)) amount currency (cash_role c) db =
     (case findActiveByEngagementId db (eng_id (cash_engagement c)) of
        None \<Rightarrow> (let a = stampConfirmation now (cash_role c) (newAttempt now (eng_id (cash_engagement c))
                   PaymentMethod.CASH (Some PaymentAttemptType.CASH) amount currency 1 (nextId db))
                 in (Some a, insertAttempt a db))
      | Some a \<Rightarrow> if pa_method a = PaymentMethod.CASH
          then (Some (stampConfirmation now (cash_role c) a), stampCash now c db) else (None, db))"
  by (simp add: upsertCashConfirmation_def stampCash_def split: option.split)

lemma cash_effect:
  assumes tx: "confirmCashPayment_tx now c db = Inr (row, db')" and ok: "attemptsOk db"
  obtains (opened) a where "findActiveByEngagementId db (eng_id (cash_engagement c)) = None"
      "pa_engagementId a = eng_id (cash_engagement c)" "pa_id a = nextId db"
      "pa_status a = PaymentAttemptStatus.PENDING" "db' = insertAttempt a (setCash c db)"
  | (stamped) "db' = stampCash now c (setCash c db)"
  | (approved) a p where "findActiveByEngagementId db (eng_id (cash_engagement c)) = Some a"
      "countWhere (isPendingAttempt (pa_id a)) (paymentAttempts (stampCash now c db)) = 1"
      "db' = appendEntries (commissionDebtRows now (cashParties c) (cash_quotedPrice c) p)
               (resolveCash (pa_id a) (stampCash now c (setCash c db)))"
proof (cases "findActiveByEngagementId db (eng_id (cash_engagement c))")
  case None
  let ?a = "stampConfirmation now (cash_role c) (newAttempt now (eng_id (cash_engagement c))
      PaymentMethod.CASH (Some PaymentAttemptType.CASH) (cash_quotedPrice c) (cash_currency c) 1 (nextId db))"
  have "pa_customerConfirmedAt ?a = None \<or> pa_professionalConfirmedAt ?a = None"
    by (rule stamp_one_side) simp_all
  then have "db' = insertAttempt ?a (setCash c db)"
    using tx None
    by (auto simp: confirmCashPayment_tx_def upsert_eq setCash_def [symmetric] case_prod_beta Let_def)
  then show thesis using opened [of ?a] None by simp
next
  case (Some a)
  let ?d = "stampCash now c (setCash c db)"
  have same: "paymentAttempts ?d = paymentAttempts (stampCash now c db)"
    by (simp add: stampCash_def)
  have cash: "pa_method a = PaymentMethod.CASH"
    using tx Some by (auto simp: confirmCashPayment_tx_def upsert_eq setCash_def [symmetric] case_prod_beta Let_def
        split: if_splits)
  have fin: "db' = ?d \<or> (countWhere (isPendingAttempt (pa_id a)) (paymentAttempts ?d) = 1 \<and>
      recordCommissionDebt now (cashParties c) (cash_quotedPrice c) (resolveCash (pa_id a) ?d) = Inr db')
      \<or> (countWhere (isPendingAttempt (pa_id a)) (paymentAttempts ?d) \<noteq> 1 \<and> db' = resolveCash (pa_id a) ?d)"
    using tx Some cash
    by (auto simp: confirmCashPayment_tx_def upsert_eq setCash_def [symmetric] case_prod_beta Let_def
        resolveIfPending_def updateAttempts_def resolveCash_def andThen_Inr_iff split: if_splits)
  have zero: "resolveCash (pa_id a) ?d = ?d" if "countWhere (isPendingAttempt (pa_id a)) (paymentAttempts ?d) = 0"
    using that updateMany_id [of "paymentAttempts ?d"] by (simp add: resolveCash_def countWhere_0_iff)
  have ids: "distinct (map pa_id (paymentAttempts ?d))"
    using ok by (simp add: stampCash_def attemptsOk_def map_key_updateMany)
  have le: "countWhere (isPendingAttempt (pa_id a)) (paymentAttempts ?d) \<le> 1"
    using attempt_resolve.count_le_1 [OF ids] .
  from fin show thesis
  proof (elim disjE conjE)
    assume "countWhere (isPendingAttempt (pa_id a)) (paymentAttempts ?d) = 1"
      and "recordCommissionDebt now (cashParties c) (cash_quotedPrice c) (resolveCash (pa_id a) ?d) = Inr db'"
    then show thesis using approved [OF Some] recordCommissionDebt_Inr same by metis
  next
    assume "countWhere (isPendingAttempt (pa_id a)) (paymentAttempts ?d) \<noteq> 1" "db' = resolveCash (pa_id a) ?d"
    then show thesis using stamped zero le by (metis le_neq_implies_less less_one)
  qed (rule stamped)
qed

section \<open>Preservation\<close>

lemma stampCash_keeps:
  "countWhere (isPendingAttempt i) (paymentAttempts (stampCash now c db)) = countWhere (isPendingAttempt i) (paymentAttempts db)"
  "countWhere (approvedOf e) (paymentAttempts (stampCash now c db)) = countWhere (approvedOf e) (paymentAttempts db)"
  "ledgerEntries (stampCash now c db) = ledgerEntries db" "nextId (stampCash now c db) = nextId db"
  by (auto simp: stampCash_def guard_def approvedOf_def intro!: countWhere_updateMany_keep)

lemma stampCash_attemptsOk: "attemptsOk db \<Longrightarrow> attemptsOk (stampCash now c db)"
  by (rule attemptsOk_update [where p = "\<lambda>r. isActiveAttempt (eng_id (cash_engagement c)) r \<and> pa_method r = PaymentMethod.CASH"
        and f = "stampConfirmation now (cash_role c)" and db = db])
     (simp_all add: stampCash_def isActiveAttempt_def)

lemma setCash_attemptsOk: "attemptsOk db \<Longrightarrow> attemptsOk (setCash c db)"
  by (erule attemptsOk_frame) simp_all

lemma resolveCash_attemptsOk: "attemptsOk db \<Longrightarrow> attemptsOk (resolveCash i db)"
  by (rule attemptsOk_update [where p = "isPendingAttempt i" and f = "resolveAttemptRow cashResolution" and db = db])
     (auto simp: resolveCash_def resolve_active)

lemma appendEntries_fields [simp]:
  "paymentAttempts (appendEntries rows db) = paymentAttempts db"
  "engagements (appendEntries rows db) = engagements db"
  "quotes (appendEntries rows db) = quotes db"
  "serviceRequests (appendEntries rows db) = serviceRequests db"
  "priceProposals (appendEntries rows db) = priceProposals db"
  "appointments (appendEntries rows db) = appointments db"
  "reviews (appendEntries rows db) = reviews db"
  "chatMessages (appendEntries rows db) = chatMessages db"
  "nextId (appendEntries rows db) = nextId db + length rows"
  by (simp_all add: appendEntries_def)

lemma cash_attemptsOk:
  assumes "attemptsOk db" "confirmCashPayment_tx now c db = Inr (row, db')"
  shows "attemptsOk db'"
  using assms(2,1)
proof (cases rule: cash_effect)
  case (opened a)
  then show ?thesis using assms(1) by (auto intro!: attemptsOk_insert setCash_attemptsOk)
next
  case stamped
  then show ?thesis using assms(1) by (auto intro!: stampCash_attemptsOk setCash_attemptsOk)
next
  case (approved a p)
  have "attemptsOk (resolveCash (pa_id a) (stampCash now c (setCash c db)))"
    using assms(1) by (intro resolveCash_attemptsOk stampCash_attemptsOk setCash_attemptsOk)
  then show ?thesis unfolding approved(3) by (rule attemptsOk_frame) simp_all
qed

lemma insert_approved:
  "pa_status a = PaymentAttemptStatus.PENDING \<Longrightarrow>
     countWhere (approvedOf e) (paymentAttempts (insertAttempt a db)) = countWhere (approvedOf e) (paymentAttempts db)"
  by (simp add: insertAttempt_def approvedOf_def)

lemma active_engagement:
  assumes "attemptsOk db" "findActiveByEngagementId db e = Some a"
  shows "\<forall>r\<in>set (paymentAttempts db). pa_id r = pa_id a \<longrightarrow> pa_engagementId r = e"
proof -
  have a: "a \<in> set (paymentAttempts db)" "pa_engagementId a = e"
    using findRow_SomeD assms(2) by (fastforce simp: findActiveByEngagementId_def isActiveAttempt_def)+
  then show ?thesis using assms(1) key_unique by (metis attemptsOk_def)
qed

lemma cash_recorded:
  assumes "attemptsOk db" "paymentsRecorded db" "confirmCashPayment_tx now c db = Inr (row, db')"
  shows "paymentsRecorded db'"
  using assms(3,1)
proof (cases rule: cash_effect)
  case (opened a)
  have "paymentEntries e db' = paymentEntries e db" for e
    using opened by (intro paymentEntries_frame) (simp add: insertAttempt_def)
  then show ?thesis using assms(2) opened by (simp add: paymentsRecorded_def insert_approved)
next
  case stamped
  have "paymentEntries e db' = paymentEntries e db" for e
    using stamped by (intro paymentEntries_frame) (simp add: stampCash_keeps)
  then show ?thesis using assms(2) stamped by (simp add: paymentsRecorded_def stampCash_keeps)
next
  case (approved a p)
  let ?e = "eng_id (cash_engagement c)"
  let ?d = "stampCash now c (setCash c db)"
  have rows: "paymentAttempts ?d = paymentAttempts (stampCash now c db)" by (simp add: stampCash_def)
  have "\<forall>r\<in>set (paymentAttempts (stampCash now c db)). pa_id r = pa_id a \<longrightarrow> pa_engagementId r = ?e"
    using active_engagement [OF assms(1) approved(1)] by (auto simp: stampCash_def set_updateMany)
  then have one: "countWhere (\<lambda>r. isPendingAttempt (pa_id a) r \<and> pa_engagementId r = e) (paymentAttempts ?d)
      = (if e = ?e then 1 else 0)" for e
    unfolding rows by (rule one_pending_of [OF approved(2)])
  have ap: "countWhere (approvedOf e) (paymentAttempts db') =
      countWhere (approvedOf e) (paymentAttempts db) + (if e = ?e then 1 else 0)" for e
    by (simp add: approved(3) resolveCash_def approved_after_resolve cashResolution_def one stampCash_keeps)
  have base: "paymentEntries e (resolveCash (pa_id a) ?d) = paymentEntries e db" for e
    by (intro paymentEntries_frame) (simp add: resolveCash_def stampCash_keeps)
  have "paymentEntries e db' = paymentEntries e db + (if e = ?e then 1 else 0)" for e
    unfolding approved(3) paymentEntries_appendEntries paymentRows_count base by (simp add: cashParties_def)
  then show ?thesis using assms(2) ap by (simp add: paymentsRecorded_def)
qed

lemma resolveAttempt_attemptsOk: "attemptsOk db \<Longrightarrow> attemptsOk (resolveAttempt res attempt details db)"
  by (rule attemptsOk_update [where p = "isPendingAttempt (pa_id attempt)"
        and f = "resolveAttemptRow (resolutionOf res details)" and db = db])
     (auto simp: resolveAttempt_def resolve_active)

lemma resolve_attemptsOk:
  assumes "attemptsOk db" "resolve_tx now res attempt billing details db = Inr db'"
  shows "attemptsOk db'"
  using assms(2)
proof (cases rule: resolve_effect)
  case (approved b p)
  show ?thesis
    by (rule attemptsOk_frame [OF resolveAttempt_attemptsOk [OF assms(1), of res attempt details]])
       (simp_all add: approved(4))
qed (use assms(1) resolveAttempt_attemptsOk in auto)

text \<open>What the reads of a resolution captured: the attempt's engagement, and a billing context exactly
  for an approval.\<close>

definition resolutionCaptured :: "PaymentResolution \<Rightarrow> PaymentAttempt \<Rightarrow> BillingContext option \<Rightarrow> db \<Rightarrow> bool" where
  "resolutionCaptured res attempt billing db \<longleftrightarrow> (billing \<noteq> None \<longleftrightarrow> res_status res = approved)
     \<and> (\<forall>r\<in>set (paymentAttempts db). pa_id r = pa_id attempt \<longrightarrow> pa_engagementId r = pa_engagementId attempt)"

lemma resolve_recorded:
  assumes rec: "paymentsRecorded db" and tx: "resolve_tx now res attempt billing details db = Inr db'"
    and cap: "resolutionCaptured res attempt billing db"
  shows "paymentsRecorded db'"
  using tx
proof (cases rule: resolve_effect)
  case ignored
  then show ?thesis using rec by simp
next
  case rejected
  then have "rs_status (resolutionOf res details) = PaymentAttemptStatus.REJECTED"
    using cap by (simp add: resolutionCaptured_def resolutionOf_def)
  then have "countWhere (approvedOf e) (paymentAttempts db') = countWhere (approvedOf e) (paymentAttempts db)" for e
    by (simp add: rejected(3) resolveAttempt_def approved_after_reject)
  moreover have "paymentEntries e db' = paymentEntries e db" for e
    by (rule paymentEntries_frame) (simp add: rejected(3) resolveAttempt_def)
  ultimately show ?thesis using rec by (simp add: paymentsRecorded_def)
next
  case (approved b p)
  let ?E = "pa_engagementId attempt" and ?d = "resolveAttempt res attempt details db"
  have st: "rs_status (resolutionOf res details) = PaymentAttemptStatus.APPROVED"
    using cap approved(1) by (simp add: resolutionCaptured_def resolutionOf_def)
  have of_e: "countWhere (\<lambda>a. isPendingAttempt (pa_id attempt) a \<and> pa_engagementId a = e) (paymentAttempts db)
      = (if e = ?E then 1 else 0)" for e
    using cap by (intro one_pending_of [OF approved(2)]) (simp add: resolutionCaptured_def)
  have "paymentEntries e db' = paymentEntries e
      (appendEntries (digitalPaymentRows now (attemptParties attempt b) (pa_amount attempt) p) ?d)" for e
    by (rule paymentEntries_frame) (simp add: approved(4))
  moreover have "paymentEntries e ?d = paymentEntries e db" for e
    by (rule paymentEntries_frame) (simp add: resolveAttempt_def)
  ultimately have "paymentEntries e db' = paymentEntries e db + (if e = ?E then 1 else 0)" for e
    unfolding paymentEntries_appendEntries paymentRows_count by (simp add: attemptParties_def)
  moreover have "countWhere (approvedOf e) (paymentAttempts db') =
      countWhere (approvedOf e) (paymentAttempts db) + (if e = ?E then 1 else 0)" for e
    by (simp add: approved(4) resolveAttempt_def approved_after_resolve [OF st] of_e)
  ultimately show ?thesis using rec by (simp add: paymentsRecorded_def)
qed

lemma attach_attemptsOk:
  assumes "attemptsOk db"
  shows "attemptsOk (snd (attachProviderPaymentIdIfPending i p db))"
  unfolding attach_effect [OF refl]
  by (rule attemptsOk_update [where p = "\<lambda>a. isPendingAttempt i a \<and> pa_providerPaymentId a = None"
        and f = "\<lambda>a. a\<lparr>pa_providerPaymentId := Some p\<rparr>" and db = db])
     (auto simp: assms isActiveAttempt_def)

lemma attach_recorded:
  assumes "paymentsRecorded db"
  shows "paymentsRecorded (snd (attachProviderPaymentIdIfPending i p db))"
proof -
  have "countWhere (approvedOf e) (paymentAttempts (snd (attachProviderPaymentIdIfPending i p db)))
      = countWhere (approvedOf e) (paymentAttempts db)" for e
    unfolding attach_effect [OF refl] by (simp add: approvedOf_def countWhere_updateMany_keep)
  moreover have "paymentEntries e (snd (attachProviderPaymentIdIfPending i p db)) = paymentEntries e db" for e
    by (rule paymentEntries_frame) (simp add: attach_effect [OF refl])
  ultimately show ?thesis using assms by (simp add: paymentsRecorded_def)
qed

lemma apply_attemptsOk:
  assumes "attemptsOk db" "apply_tx now i res plan db = Inr db'"
  shows "attemptsOk db'"
  using assms(2)
proof (rule apply_tx_cases)
  show "attemptsOk db'" if "db' = db" using that assms(1) by simp
  show "attemptsOk db'" if "db' = snd (attachProviderPaymentIdIfPending i p db)" for p
    unfolding that by (rule attach_attemptsOk [OF assms(1)])
  show "attemptsOk db'" if "resolve_tx now res attempt billing details db = Inr db'" for attempt billing details
    by (rule resolve_attemptsOk [OF assms(1) that])
qed

definition planCaptured :: "PaymentResolution \<Rightarrow> ApplyPlan \<Rightarrow> db \<Rightarrow> bool" where
  "planCaptured res plan db = (case plan of
       Resolve attempt billing details \<Rightarrow> resolutionCaptured res attempt billing db | _ \<Rightarrow> True)"

lemma apply_recorded:
  assumes "paymentsRecorded db" "planCaptured res plan db" "apply_tx now i res plan db = Inr db'"
  shows "paymentsRecorded db'"
  using assms(3)
proof (rule apply_tx_cases)
  show "paymentsRecorded db'" if "db' = db" using that assms(1) by simp
  show "paymentsRecorded db'" if "db' = snd (attachProviderPaymentIdIfPending i p db)" for p
    unfolding that by (rule attach_recorded [OF assms(1)])
  show "paymentsRecorded db'"
    if "plan = Resolve attempt billing details" "resolve_tx now res attempt billing details db = Inr db'"
    for attempt billing details
    using resolve_recorded [OF assms(1) that(2)] assms(2) that(1) by (simp add: planCaptured_def)
qed

lemma apply_pre_captured:
  assumes "attemptsOk db"
  shows "planCaptured res (apply_pre prov i res db) db"
proof -
  have "pa_engagementId r = pa_engagementId a"
    if "findAttemptById db i = Some a" "r \<in> set (paymentAttempts db)" "pa_id r = pa_id a" for a r
  proof -
    have "a \<in> set (paymentAttempts db)" using that(1) findRow_in by (metis findAttemptById_def)
    then have "r = a" using key_unique [of pa_id "paymentAttempts db" r a] assms that(2,3)
      unfolding attemptsOk_def by blast
    then show ?thesis by simp
  qed
  then have cap: "resolutionCaptured res a b db"
    if "findAttemptById db i = Some a" "b \<noteq> None \<longleftrightarrow> res_status res = approved" for a b
    using that unfolding resolutionCaptured_def by blast
  show ?thesis
  proof (cases "apply_pre prov i res db")
    case (Resolve a b d)
    then have "findAttemptById db i = Some a" "b \<noteq> None \<longleftrightarrow> res_status res = approved"
      by (auto simp: apply_pre_def dest: sym split: option.splits if_splits)
    from cap [OF this] show ?thesis by (simp add: planCaptured_def Resolve)
  qed (simp_all add: planCaptured_def)
qed

lemma openAttempt_attemptsOk:
  assumes "attemptsOk db" "openAttempt now err c n db = Inr (a, db')"
  shows "attemptsOk db'"
  using createPending_Inr [OF openAttempt_Inr [OF assms(2)]] assms(1) by (auto intro: attemptsOk_insert)

lemma openAttempt_recorded:
  assumes "paymentsRecorded db" "openAttempt now err c n db = Inr (a, db')"
  shows "paymentsRecorded db'"
  using createPending_Inr [OF openAttempt_Inr [OF assms(2)]] assms(1)
  by (auto simp: paymentsRecorded_def insert_approved insertAttempt_def paymentEntries_def ledgerCount_def approvedOf_def)

end
