(* ===== verification/Evolution.thy ===== *)
theory Evolution
  imports Marketplace Payment_Correctness
begin

text \<open>
  What may ever happen to the data.  Every table of the marketplace has a relation saying how one of
  its rows may change, and every transaction, whatever it captured and whatever ran in between, lets
  every table only extend along its relation: no row is lost, keys and facts fixed at creation stay,
  each status moves along its state machine, and the ledger and the reviews are append-only.
\<close>

section \<open>How a row may change\<close>

definition requestEvolves :: "ServiceRequest \<Rightarrow> ServiceRequest \<Rightarrow> bool" where
  "requestEvolves s s' \<longleftrightarrow> sr_id s' = sr_id s \<and> sr_customerProfileId s' = sr_customerProfileId s
     \<and> sr_categoryId s' = sr_categoryId s \<and> sr_description s' = sr_description s
     \<and> sr_indicativeBudgetMin s' = sr_indicativeBudgetMin s
     \<and> sr_indicativeBudgetMax s' = sr_indicativeBudgetMax s \<and> sr_createdAt s' = sr_createdAt s
     \<and> (sr_status s \<noteq> ServiceRequestStatus.OPEN \<longrightarrow> s' = s)"

definition quoteEvolves :: "Quote \<Rightarrow> Quote \<Rightarrow> bool" where
  "quoteEvolves q q' \<longleftrightarrow> q_id q' = q_id q \<and> q_serviceRequestId q' = q_serviceRequestId q
     \<and> q_professionalProfileId q' = q_professionalProfileId q \<and> q_price q' = q_price q
     \<and> q_message q' = q_message q \<and> q_createdAt q' = q_createdAt q
     \<and> (q_status q \<noteq> QuoteStatus.SENT \<longrightarrow> q_status q' = q_status q \<and> q_withdrawnAt q' = q_withdrawnAt q
          \<and> q_rejectedAt q' = q_rejectedAt q \<and> q_acceptedAt q' = q_acceptedAt q)"

definition proposalEvolves :: "QuotePriceProposal \<Rightarrow> QuotePriceProposal \<Rightarrow> bool" where
  "proposalEvolves p p' \<longleftrightarrow> prop_id p' = prop_id p \<and> prop_quoteId p' = prop_quoteId p
     \<and> prop_negotiationMessageId p' = prop_negotiationMessageId p
     \<and> prop_proposedByRole p' = prop_proposedByRole p \<and> prop_proposedPrice p' = prop_proposedPrice p
     \<and> prop_createdAt p' = prop_createdAt p
     \<and> (prop_status p \<noteq> QuotePriceProposalStatus.PENDING \<longrightarrow> p' = p)"

definition appointmentEvolves :: "Appointment \<Rightarrow> Appointment \<Rightarrow> bool" where
  "appointmentEvolves a a' \<longleftrightarrow> appt_id a' = appt_id a \<and> appt_engagementId a' = appt_engagementId a
     \<and> appt_professionalProfileId a' = appt_professionalProfileId a
     \<and> appt_startsAt a' = appt_startsAt a \<and> appt_endsAt a' = appt_endsAt a
     \<and> (appt_status a = AppointmentStatus.CONFIRMED \<longrightarrow> appt_status a' \<noteq> AppointmentStatus.PENDING)
     \<and> (appt_status a = AppointmentStatus.CANCELLED \<longrightarrow> a' = a)"

definition ext :: "('r \<Rightarrow> 'r \<Rightarrow> bool) \<Rightarrow> ('r \<Rightarrow> id) \<Rightarrow> (db \<Rightarrow> 'r list) \<Rightarrow> db \<Rightarrow> db \<Rightarrow> bool" where
  "ext R k table d d' \<longleftrightarrow> extends R\<^sup>*\<^sup>* k (nextId d) (nextId d') (table d) (table d')"

definition evolves :: "db \<Rightarrow> db \<Rightarrow> bool" where
  "evolves d d' \<longleftrightarrow> nextId d \<le> nextId d'
     \<and> ext requestEvolves sr_id serviceRequests d d'
     \<and> ext quoteEvolves q_id quotes d d'
     \<and> ext proposalEvolves prop_id priceProposals d d'
     \<and> ext engagementEvolves eng_id engagements d d'
     \<and> ext appointmentEvolves appt_id appointments d d'
     \<and> ext attemptEvolves pa_id paymentAttempts d d'
     \<and> ext (=) le_id ledgerEntries d d'
     \<and> ext (=) rv_id reviews d d'
     \<and> ext (=) nm_id negotiationMessages d d'
     \<and> ext (=) msg_id chatMessages d d'"

lemma evolves_keys:
  "requestEvolves a b \<Longrightarrow> sr_id b = sr_id a" "quoteEvolves q r \<Longrightarrow> q_id r = q_id q"
  "proposalEvolves p p' \<Longrightarrow> prop_id p' = prop_id p" "engagementEvolves e f \<Longrightarrow> eng_id f = eng_id e"
  "appointmentEvolves u v \<Longrightarrow> appt_id v = appt_id u" "attemptEvolves m n \<Longrightarrow> pa_id n = pa_id m"
  by (simp_all add: requestEvolves_def quoteEvolves_def proposalEvolves_def engagementEvolves_def
      appointmentEvolves_def attemptEvolves_def)

lemma rtranclp_keeps:
  assumes "R\<^sup>*\<^sup>* a b" "\<And>a b. R a b \<Longrightarrow> g b = g a"
  shows "g b = g a"
  using assms by (induction rule: rtranclp_induct) auto

lemma ext_same: "table d' = table d \<Longrightarrow> ext R k table d d'"
  unfolding ext_def by (simp add: extends_refl)

lemma ext_update:
  assumes "table d' = updateMany p f (table d)" "\<And>r. r \<in> set (table d) \<Longrightarrow> p r \<Longrightarrow> R r (f r)"
  shows "ext R k table d d'"
  unfolding ext_def assms(1) using assms(2) by (intro extends_updateMany) auto

lemma ext_insert:
  assumes "table d' = table d @ [r]" "k r = nextId d" "nextId d < nextId d'"
  shows "ext R k table d d'"
  unfolding ext_def assms(1) using assms(2,3) by (intro extends_append) auto

lemma ext_trans:
  assumes "ext R k table d d'" "ext R k table d' d''" "nextId d \<le> nextId d'" "nextId d' \<le> nextId d''"
    and "\<And>a b. R a b \<Longrightarrow> k b = k a"
  shows "ext R k table d d''"
  using assms(1-4) unfolding ext_def
  by (rule extends_trans) (auto intro: rtranclp_trans rtranclp_keeps [of R] assms(5))

lemma evolves_trans: "evolves d d' \<Longrightarrow> evolves d' d'' \<Longrightarrow> evolves d d''"
  unfolding evolves_def by (elim conjE, intro conjI)
    (erule (1) ext_trans; simp add: evolves_keys | simp)+

lemma evolves_nextId: "evolves d d' \<Longrightarrow> nextId d \<le> nextId d'"
  by (simp add: evolves_def)

section \<open>Elementary changes\<close>

lemma evolves_frame:
  assumes "nextId d \<le> nextId d'" "serviceRequests d' = serviceRequests d" "quotes d' = quotes d"
    "priceProposals d' = priceProposals d" "engagements d' = engagements d"
    "appointments d' = appointments d" "paymentAttempts d' = paymentAttempts d"
    "ledgerEntries d' = ledgerEntries d" "reviews d' = reviews d"
    "negotiationMessages d' = negotiationMessages d" "chatMessages d' = chatMessages d"
  shows "evolves d d'"
  unfolding evolves_def using assms by (intro conjI) (auto intro: ext_same)

lemma evolves_refl [simp]: "evolves d d"
  by (rule evolves_frame) simp_all

lemma evolves_requests:
  "(\<And>s. p s \<Longrightarrow> requestEvolves s (f s)) \<Longrightarrow> evolves d (d\<lparr>serviceRequests := updateMany p f (serviceRequests d)\<rparr>)"
  unfolding evolves_def by (intro conjI) ((rule ext_same, (simp; fail)) | (rule ext_update, (simp; fail)) | simp)+

lemma evolves_quotes:
  "(\<And>q. p q \<Longrightarrow> quoteEvolves q (f q)) \<Longrightarrow> evolves d (d\<lparr>quotes := updateMany p f (quotes d)\<rparr>)"
  unfolding evolves_def by (intro conjI) ((rule ext_same, (simp; fail)) | (rule ext_update, (simp; fail)) | simp)+

lemma evolves_proposals:
  "(\<And>q. p q \<Longrightarrow> proposalEvolves q (f q)) \<Longrightarrow> evolves d (d\<lparr>priceProposals := updateMany p f (priceProposals d)\<rparr>)"
  unfolding evolves_def by (intro conjI) ((rule ext_same, (simp; fail)) | (rule ext_update, (simp; fail)) | simp)+

lemma evolves_engagements:
  "(\<And>e. p e \<Longrightarrow> engagementEvolves e (f e)) \<Longrightarrow> evolves d (d\<lparr>engagements := updateMany p f (engagements d)\<rparr>)"
  unfolding evolves_def by (intro conjI) ((rule ext_same, (simp; fail)) | (rule ext_update, (simp; fail)) | simp)+

lemma evolves_appointments:
  "(\<And>a. p a \<Longrightarrow> appointmentEvolves a (f a)) \<Longrightarrow> evolves d (d\<lparr>appointments := updateMany p f (appointments d)\<rparr>)"
  unfolding evolves_def by (intro conjI) ((rule ext_same, (simp; fail)) | (rule ext_update, (simp; fail)) | simp)+

lemma evolves_attempts:
  "(\<And>a. p a \<Longrightarrow> attemptEvolves a (f a)) \<Longrightarrow> evolves d (d\<lparr>paymentAttempts := updateMany p f (paymentAttempts d)\<rparr>)"
  unfolding evolves_def by (intro conjI) ((rule ext_same, (simp; fail)) | (rule ext_update, (simp; fail)) | simp)+

text \<open>The insertions, each of a row whose key is drawn from the generator.\<close>

lemma evolves_insert:
  "sr_id s = nextId d \<Longrightarrow> evolves d (d\<lparr>nextId := Suc (nextId d), serviceRequests := serviceRequests d @ [s]\<rparr>)"
  "q_id q = nextId d \<Longrightarrow> evolves d (d\<lparr>nextId := Suc (nextId d), quotes := quotes d @ [q]\<rparr>)"
  "prop_id p = nextId d \<Longrightarrow> evolves d (d\<lparr>nextId := Suc (nextId d), priceProposals := priceProposals d @ [p]\<rparr>)"
  "eng_id e = nextId d \<Longrightarrow> evolves d (d\<lparr>nextId := Suc (nextId d), engagements := engagements d @ [e]\<rparr>)"
  "appt_id a = nextId d \<Longrightarrow> evolves d (d\<lparr>nextId := Suc (nextId d), appointments := appointments d @ [a]\<rparr>)"
  "pa_id m = nextId d \<Longrightarrow> evolves d (d\<lparr>nextId := Suc (nextId d), paymentAttempts := paymentAttempts d @ [m]\<rparr>)"
  "rv_id r = nextId d \<Longrightarrow> evolves d (d\<lparr>nextId := Suc (nextId d), reviews := reviews d @ [r]\<rparr>)"
  "nm_id n = nextId d \<Longrightarrow> evolves d (d\<lparr>nextId := Suc (nextId d), negotiationMessages := negotiationMessages d @ [n]\<rparr>)"
  "msg_id c = nextId d \<Longrightarrow> evolves d (d\<lparr>nextId := Suc (nextId d), chatMessages := chatMessages d @ [c]\<rparr>)"
  unfolding evolves_def
  by (rule conjI | (rule ext_same, (simp; fail)) | (rule ext_insert, (simp; fail)+) | (simp; fail))+

lemma evolves_appendEntries: "evolves d (appendEntries rows d)"
proof -
  let ?new = "numbered (nextId d) (nextReceipt d) rows"
  have "distinct (map le_id ?new)" "set (map le_id ?new) = {nextId d..<nextId d + length rows}"
    by (simp_all add: map_id_numbered)
  then have "ext (=) le_id ledgerEntries d (appendEntries rows d)"
    unfolding ext_def ledgerEntries_appendEntries
    by (intro extends_append) auto
  then show ?thesis unfolding evolves_def
    by (intro conjI) (assumption | (rule ext_same, simp add: appendEntries_def) | simp)+
qed

section \<open>Every transaction\<close>

lemma evolves_emit: "evolves d (emit now e c d)"
proof (cases "findConversationByEngagementId d e")
  case (Some conv)
  then show ?thesis
    by (simp add: emit_def createSystemMessage_def createMessage_def Let_def evolves_insert)
qed (simp add: emit_def)

lemma evolves_setPaymentMethod: "evolves d (snd (setPaymentMethodIfUnset i m d))"
  unfolding setPaymentMethodIfUnset_def updateEngagements_def snd_conv
  by (intro evolves_engagements setPaymentMethod_evolves) simp

lemma evolves_markConsumed: "evolves d (snd (markConsumed now refs d))"
  by (rule evolves_frame) (simp_all add: markConsumed_def)

lemma transition_evolves:
  assumes "transition S f i rows d d'" "\<And>e. inStatus S i e \<Longrightarrow> engagementEvolves e (f e)"
  shows "evolves d d'"
proof -
  obtain now c where d': "d' = appendEntries rows
      (emit now i c (d\<lparr>engagements := updateMany (inStatus S i) f (engagements d)\<rparr>))"
    using assms(1) by (auto simp: transition_def)
  show ?thesis unfolding d'
    by (rule evolves_trans [OF evolves_trans [OF evolves_engagements [OF assms(2)] evolves_emit] evolves_appendEntries])
qed

lemma lifecycle_evolves:
  "startEngagementWork_tx now i d = Inr d' \<Longrightarrow> evolves d d'"
  "markEngagementWorkFinished_tx now i d = Inr d' \<Longrightarrow> evolves d d'"
  "confirmEngagementCompletion_tx now i d = Inr d' \<Longrightarrow> evolves d d'"
  "cancelEngagementByCustomer_tx now i reason b d = Inr d' \<Longrightarrow> evolves d d'"
  "cancelEngagementByProfessional_tx now i reason b d = Inr d' \<Longrightarrow> evolves d d'"
  by (drule start_effect finish_effect complete_effect cancelByCustomer_effect cancelByProfessional_effect,
      (elim exE conjE)?, erule transition_evolves, erule row_changes_evolve)+

lemma appointment_evolves:
  "evolves d (snd (createAppointment now e prof s t role c p d))"
  "accept_tx now i d = Inr d' \<Longrightarrow> evolves d d'"
  "cancel_tx now i reason d = Inr d' \<Longrightarrow> evolves d d'"
proof -
  show "evolves d (snd (createAppointment now e prof s t role c p d))"
    by (simp add: createAppointment_def Let_def evolves_insert)
  show "evolves d d'" if "accept_tx now i d = Inr d'"
    using that unfolding accept_tx_cases
    by (auto intro!: evolves_appointments simp: appointmentEvolves_def confirmAppointment_def guard_def)
  show "evolves d d'" if "cancel_tx now i reason d = Inr d'"
    using that unfolding cancel_tx_cases
    by (auto intro!: evolves_appointments simp: appointmentEvolves_def cancelAppointmentRow_def guard_def)
qed

lemma quote_rows_evolve:
  "isSent i q \<Longrightarrow> quoteEvolves q (withdrawQuoteRow now q)"
  "isSent i q \<Longrightarrow> quoteEvolves q (rejectQuoteRow now q)"
  "isSent i q \<Longrightarrow> quoteEvolves q (acceptQuoteRow now q)"
  "isSentSibling sr i q \<Longrightarrow> quoteEvolves q (rejectQuoteRow now q)"
  "quoteEvolves q (q\<lparr>q_negotiatedPrice := n\<rparr>)"
  by (simp_all add: quoteEvolves_def guard_def isSentSibling_def withdrawQuoteRow_def rejectQuoteRow_def acceptQuoteRow_def)

lemma request_rows_evolve:
  "isOpen i s \<Longrightarrow> requestEvolves s (cancelRequestRow now s)"
  "isOpen i s \<Longrightarrow> requestEvolves s (engageRequestRow quote s)"
  by (simp_all add: requestEvolves_def guard_def cancelRequestRow_def engageRequestRow_def)

lemma quote_evolves:
  "evolves d (snd (createQuote now sr prof price m d))"
  "withdrawQuote_tx now q d = Inr d' \<Longrightarrow> evolves d d'"
  "rejectQuote_tx now q d = Inr d' \<Longrightarrow> evolves d d'"
  "setNegotiatedPrice q price d = Inr d' \<Longrightarrow> evolves d d'"
  using quote_rows_evolve
  by (auto simp: createQuote_def Let_def withdrawQuote_tx_def rejectQuote_tx_def withdraw_def reject_def
      updateQuotes_def setNegotiatedPrice_def evolves_insert intro!: evolves_quotes split: if_splits)

text \<open>The four writes of an acceptance.\<close>

definition engageRequest :: "QuoteAcceptance \<Rightarrow> db \<Rightarrow> db" where
  "engageRequest a d = d\<lparr>serviceRequests := updateMany (isOpen (qa_serviceRequestId a))
     (engageRequestRow (qa_quoteId a)) (serviceRequests d)\<rparr>"

definition isAcceptable :: "QuoteAcceptance \<Rightarrow> Quote \<Rightarrow> bool" where
  "isAcceptable a q \<longleftrightarrow> isSent (qa_quoteId a) q \<and> q_serviceRequestId q = qa_serviceRequestId a"

definition acceptTheQuote :: "time \<Rightarrow> QuoteAcceptance \<Rightarrow> db \<Rightarrow> db" where
  "acceptTheQuote now a d = d\<lparr>quotes := updateMany (isAcceptable a) (acceptQuoteRow now) (quotes d)\<rparr>"

definition rejectTheOthers :: "time \<Rightarrow> QuoteAcceptance \<Rightarrow> db \<Rightarrow> db" where
  "rejectTheOthers now a d = d\<lparr>quotes := updateMany (isSentSibling (qa_serviceRequestId a) (qa_quoteId a))
     (rejectQuoteRow now) (quotes d)\<rparr>"

lemma isAcceptable_eq: "(\<lambda>q. isSent (qa_quoteId a) q \<and> q_serviceRequestId q = qa_serviceRequestId a) = isAcceptable a"
  by (rule ext) (simp add: isAcceptable_def)

lemma acceptQuote_effect:
  "acceptQuote_tx now a d = Inr d' \<longleftrightarrow>
     countWhere (isOpen (qa_serviceRequestId a)) (serviceRequests d) = 1
     \<and> countWhere (isAcceptable a) (quotes d) = 1
     \<and> (\<exists>e. createEngagement now (qa_serviceRequestId a) (qa_quoteId a) (qa_customerProfileId a)
              (qa_professionalProfileId a)
              (rejectTheOthers now a (acceptTheQuote now a (engageRequest a d))) = Inr (e, d'))"
  unfolding acceptQuote_tx_def
  by (auto simp: transitionToEngagedIfOpen_def transitionToAcceptedIfSent_def updateQuotes_def
      rejectSiblingsSent_def Let_def andThen_Inr_iff isAcceptable_eq engageRequest_def acceptTheQuote_def
      rejectTheOthers_def)

lemma acceptQuote_evolves:
  assumes "acceptQuote_tx now a d = Inr d'"
  shows "evolves d d'"
proof -
  let ?d1 = "engageRequest a d" and ?d2 = "acceptTheQuote now a (engageRequest a d)"
  let ?d3 = "rejectTheOthers now a ?d2"
  have 1: "evolves d ?d1" unfolding engageRequest_def
    by (intro evolves_requests request_rows_evolve)
  have 2: "evolves ?d1 ?d2" unfolding acceptTheQuote_def isAcceptable_def
    by (intro evolves_quotes) (blast intro: quote_rows_evolve)
  have 3: "evolves ?d2 ?d3" unfolding rejectTheOthers_def
    by (intro evolves_quotes) (blast intro: quote_rows_evolve)
  obtain e where e: "createEngagement now (qa_serviceRequestId a) (qa_quoteId a) (qa_customerProfileId a)
      (qa_professionalProfileId a) ?d3 = Inr (e, d')"
    using assms unfolding acceptQuote_effect by blast
  have "evolves ?d3 d'" unfolding createEngagement_Inr(1) [OF e]
    by (rule evolves_insert) (rule createEngagement_Inr(2) [OF e])
  then show ?thesis using 1 2 3 evolves_trans by blast
qed

lemma request_evolves:
  "publish_tx now params d = Inr (sr, d') \<Longrightarrow> evolves d d'"
  "cancelServiceRequest_tx now i existing d = Inr d' \<Longrightarrow> evolves d d'"
proof -
  assume tx: "publish_tx now params d = Inr (sr, d')"
  then have new: "sr_id sr = nextId d" "serviceRequests d' = serviceRequests d @ [sr]" "nextId d < nextId d'"
      "quotes d' = quotes d" "priceProposals d' = priceProposals d" "engagements d' = engagements d"
      "appointments d' = appointments d" "paymentAttempts d' = paymentAttempts d"
      "ledgerEntries d' = ledgerEntries d" "reviews d' = reviews d"
      "negotiationMessages d' = negotiationMessages d" "chatMessages d' = chatMessages d"
    by (auto simp: publish_tx_def Let_def split: if_splits)
  show "evolves d d'"
    unfolding evolves_def
    by (intro conjI) (simp_all add: ext_same new ext_insert [of serviceRequests d' d sr] less_imp_le)
next
  assume "cancelServiceRequest_tx now i existing d = Inr d'"
  then show "evolves d d'" using request_rows_evolve
    by (auto simp: cancelServiceRequest_tx_def cancelRequest_def Let_def
        intro!: evolves_requests split: if_splits option.splits)
qed

lemma consumeOptionalRef_evolves: "consumeOptionalRef now ref d = Inr d' \<Longrightarrow> evolves d d'"
  by (auto simp: consumeOptionalRef_def case_prod_beta Let_def intro: evolves_markConsumed
      split: option.splits if_splits)

lemma evolves_supersede: "evolves d (supersedePendingProposals q d)"
  unfolding supersedePendingProposals_def
  by (intro evolves_proposals) (simp add: proposalEvolves_def isPendingProposalOf_def)

lemma evolves_createProposal: "evolves d (createPriceProposal now q m role c p price d)"
  by (simp add: createPriceProposal_def evolves_insert)

lemma negotiation_evolves:
  "postMessage_tx now q input captured d = Inr d' \<Longrightarrow> evolves d d'"
  "acceptProposal_tx now c d = Inr d' \<Longrightarrow> evolves d d'"
  "rejectProposal_tx now c d = Inr d' \<Longrightarrow> evolves d d'"
proof -
  assume tx: "postMessage_tx now q input captured d = Inr d'"
  let ?m = "createNegotiationMessage now q (np_role (fst captured)) (np_customerProfileId (fst captured))
      (np_professionalProfileId (fst captured)) (pm_message input) (snd captured) d"
  have 1: "evolves d (snd ?m)" by (simp add: createNegotiationMessage_def Let_def evolves_insert)
  obtain d2 where c: "consumeOptionalRef now (pm_mediaUploadRefId input) (snd ?m) = Inr d2"
    using tx by (auto simp: postMessage_tx_def case_prod_beta Let_def andThen_Inr_iff)
  have 2: "evolves (snd ?m) d2" by (rule consumeOptionalRef_evolves [OF c])
  have "evolves d2 d'"
    using tx c evolves_trans [OF evolves_supersede evolves_createProposal]
    by (auto simp: postMessage_tx_def case_prod_beta Let_def split: option.splits)
  then show "evolves d d'" using 1 2 evolves_trans by blast
next
  have row: "proposalEvolves p (resolveProposalRow now s a b p)" if "isPendingProposal i p" for i p s a b
    using that by (simp add: proposalEvolves_def resolveProposalRow_def guard_def)
  show "evolves d d'" if "acceptProposal_tx now c d = Inr d'"
  proof -
    let ?d = "snd (acceptProposal now (prop_id (fst c)) (np_customerProfileId (snd c)) (np_professionalProfileId (snd c)) d)"
    have "evolves d ?d"
      using row by (auto simp: acceptProposal_def intro: evolves_proposals)
    moreover have "evolves ?d d'" using that
      by (auto simp: acceptProposal_tx_def case_prod_beta Let_def split: if_splits dest!: quote_evolves(4))
    ultimately show ?thesis by (rule evolves_trans)
  qed
  show "evolves d d'" if "rejectProposal_tx now c d = Inr d'"
    using that row by (auto simp: rejectProposal_tx_def rejectProposal_def case_prod_beta Let_def
        split: if_splits intro!: evolves_proposals)
qed

lemma chat_evolves: "sendMessage_tx now e party c ref url d = Inr d' \<Longrightarrow> evolves d d'"
proof -
  assume tx: "sendMessage_tx now e party c ref url d = Inr d'"
  let ?u = "upsertConversation e d"
  let ?m = "createMessage now (fst ?u) (party_role party) (party_customerProfileId party)
      (party_professionalProfileId party) c url (snd ?u)"
  have 1: "evolves d (snd ?u)"
    by (rule evolves_frame) (simp_all add: upsertConversation_def split: option.split)
  have 2: "evolves (snd ?u) ?m" by (simp add: createMessage_def evolves_insert)
  have "d' = ?m \<or> (\<exists>refs. d' = snd (markConsumed now refs ?m))"
    using tx by (auto simp: sendMessage_tx_def case_prod_beta Let_def split: option.splits if_splits)
  then have "evolves ?m d'" using evolves_markConsumed by auto
  then show ?thesis using 1 2 evolves_trans by blast
qed

lemma insertAttempt_evolves: "pa_id a = nextId d \<Longrightarrow> evolves d (insertAttempt a d)"
  by (simp add: insertAttempt_def evolves_insert)

lemma cash_evolves:
  assumes "attemptsOk d" "confirmCashPayment_tx now c d = Inr (row, d')"
  shows "evolves d d'"
proof -
  have 1: "evolves d (setCash c d)" by (simp add: setCash_def evolves_setPaymentMethod)
  have 2: "evolves (setCash c d) (stampCash now c (setCash c d))"
    unfolding stampCash_def by (intro evolves_attempts) simp
  have 3: "evolves x (resolveCash i x)" for i x
    unfolding resolveCash_def by (intro evolves_attempts resolve_evolves)
  from assms(2,1) show ?thesis
  proof (cases rule: cash_effect)
    case (opened a)
    show ?thesis unfolding opened(5)
      by (rule evolves_trans [OF 1 insertAttempt_evolves]) (simp add: opened(3))
  next
    case stamped
    show ?thesis unfolding stamped by (rule evolves_trans [OF 1 2])
  next
    case (approved a p)
    show ?thesis unfolding approved(3)
      by (rule evolves_trans [OF evolves_trans [OF evolves_trans [OF 1 2] 3] evolves_appendEntries])
  qed
qed

lemma apply_evolves: "apply_tx now i res plan d = Inr d' \<Longrightarrow> evolves d d'"
proof (erule apply_tx_cases)
  show "evolves d d'" if "d' = d" using that by simp
  show "evolves d d'" if "d' = snd (attachProviderPaymentIdIfPending i p d)" for p
    unfolding attach_effect [OF that]
    by (intro evolves_attempts) (simp add: attemptEvolves_def)
  fix attempt billing details
  assume "resolve_tx now res attempt billing details d = Inr d'"
  have r: "evolves d (resolveAttempt res attempt details d)"
    unfolding resolveAttempt_def by (intro evolves_attempts resolve_evolves)
  from \<open>resolve_tx now res attempt billing details d = Inr d'\<close> show "evolves d d'"
  proof (cases rule: resolve_effect)
    case (approved b p)
    let ?d = "appendEntries (digitalPaymentRows now (attemptParties attempt b) (pa_amount attempt) p)
               (resolveAttempt res attempt details d)"
    have "d' = snd (setPaymentMethodIfUnset (pa_engagementId attempt) PaymentMethod.MERCADOPAGO ?d)"
      by (simp add: approved(4) setMercadoPago_def setPaymentMethodIfUnset_def updateEngagements_def
          resolveAttempt_def)
    then show ?thesis using r evolves_appendEntries evolves_setPaymentMethod evolves_trans by metis
  qed (use r in simp_all)
qed

lemma review_evolves: "submitReview_tx now e party rating c d = Inr (r, d') \<Longrightarrow> evolves d d'"
  by (auto simp: submitReview_tx_def createReview_def Let_def evolves_insert split: sum.splits if_splits)

lemma openAttempt_evolves: "openAttempt now err c n d = Inr (a, d') \<Longrightarrow> evolves d d'"
  using createPending_Inr [OF openAttempt_Inr] insertAttempt_evolves by metis

lemma commit_evolves:
  assumes "attemptsOk d" "commit now t d = Inr d'"
  shows "evolves d d'"
  using assms
  by (cases t) (auto simp: mapR_Inr_iff intro: openAttempt_evolves lifecycle_evolves appointment_evolves quote_evolves acceptQuote_evolves request_evolves
      negotiation_evolves chat_evolves cash_evolves apply_evolves review_evolves)

end
