(* ===== verification/Frames.thy ===== *)
theory Frames
  imports Evolution
begin

text \<open>
  Which tables a transaction leaves alone: one lemma per transaction, then one per table.  The
  invariants of the system are proved table by table over these.
\<close>

section \<open>By transaction\<close>

lemma markConsumed_fields [simp]:
  "nextId (snd (markConsumed now refs d)) = nextId d"
  "serviceRequests (snd (markConsumed now refs d)) = serviceRequests d"
  "quotes (snd (markConsumed now refs d)) = quotes d"
  "priceProposals (snd (markConsumed now refs d)) = priceProposals d"
  "engagements (snd (markConsumed now refs d)) = engagements d"
  "appointments (snd (markConsumed now refs d)) = appointments d"
  "paymentAttempts (snd (markConsumed now refs d)) = paymentAttempts d"
  "ledgerEntries (snd (markConsumed now refs d)) = ledgerEntries d"
  "nextReceipt (snd (markConsumed now refs d)) = nextReceipt d"
  "reviews (snd (markConsumed now refs d)) = reviews d"
  by (simp_all add: markConsumed_def)

lemma consumeOptionalRef_cases:
  assumes "consumeOptionalRef now ref d = Inr d'"
  obtains "d' = d" | refs where "d' = snd (markConsumed now refs d)"
  using assms by (auto simp: consumeOptionalRef_def case_prod_beta Let_def split: option.splits if_splits)

lemma consumeOptionalRef_fields:
  assumes "consumeOptionalRef now ref d = Inr d'"
  shows "nextId d' = nextId d" "serviceRequests d' = serviceRequests d" "quotes d' = quotes d"
    "priceProposals d' = priceProposals d" "engagements d' = engagements d"
    "appointments d' = appointments d" "paymentAttempts d' = paymentAttempts d"
    "ledgerEntries d' = ledgerEntries d" "nextReceipt d' = nextReceipt d" "reviews d' = reviews d"
  using assms by (auto elim: consumeOptionalRef_cases)

lemma postMessage_fields:
  assumes "postMessage_tx now q input captured d = Inr d'"
  shows "serviceRequests d' = serviceRequests d" "quotes d' = quotes d" "engagements d' = engagements d"
    "appointments d' = appointments d" "paymentAttempts d' = paymentAttempts d"
    "ledgerEntries d' = ledgerEntries d" "nextReceipt d' = nextReceipt d" "reviews d' = reviews d"
  using assms
  by (auto simp: postMessage_tx_def createNegotiationMessage_def Let_def andThen_Inr_iff
      supersedePendingProposals_def createPriceProposal_def split: option.splits
      elim!: consumeOptionalRef_cases)

lemma postMessage_proposals:
  assumes "postMessage_tx now q input captured d = Inr d'"
  shows "priceProposals d' = priceProposals d
     \<or> (\<exists>p. priceProposals d' = updateMany (isPendingProposalOf q)
            (\<lambda>p. p\<lparr>prop_status := QuotePriceProposalStatus.SUPERSEDED\<rparr>) (priceProposals d) @ [p]
          \<and> prop_quoteId p = q \<and> prop_status p = QuotePriceProposalStatus.PENDING)"
  using assms
  by (auto simp: postMessage_tx_def createNegotiationMessage_def Let_def andThen_Inr_iff
      supersedePendingProposals_def createPriceProposal_def split: option.splits
      elim!: consumeOptionalRef_cases)

lemma sendMessage_fields:
  assumes "sendMessage_tx now e party c ref url d = Inr d'"
  shows "serviceRequests d' = serviceRequests d" "quotes d' = quotes d" "engagements d' = engagements d"
    "appointments d' = appointments d" "paymentAttempts d' = paymentAttempts d"
    "ledgerEntries d' = ledgerEntries d" "nextReceipt d' = nextReceipt d" "reviews d' = reviews d"
    "priceProposals d' = priceProposals d"
  using assms
  by (auto simp: sendMessage_tx_def upsertConversation_def createMessage_def Let_def case_prod_beta
      split: option.splits if_splits)

lemma publish_fields:
  assumes "publish_tx now params d = Inr (sr, d')"
  shows "quotes d' = quotes d" "priceProposals d' = priceProposals d" "engagements d' = engagements d"
    "appointments d' = appointments d" "paymentAttempts d' = paymentAttempts d"
    "ledgerEntries d' = ledgerEntries d" "nextReceipt d' = nextReceipt d" "reviews d' = reviews d"
    "sr_id sr = nextId d" "sr_status sr = ServiceRequestStatus.OPEN" "sr_acceptedQuoteId sr = None"
    "serviceRequests d' = serviceRequests d @ [sr]"
  using assms by (auto simp: publish_tx_def Let_def split: if_splits)

lemma cancelRequest_fields:
  assumes "cancelServiceRequest_tx now i existing d = Inr d'"
  shows "d' = d\<lparr>serviceRequests := updateMany (isOpen i) (cancelRequestRow now) (serviceRequests d)\<rparr>"
  using assms by (auto simp: cancelServiceRequest_tx_def cancelRequest_def Let_def split: if_splits option.splits)

lemma acceptProposal_fields:
  assumes "acceptProposal_tx now c d = Inr d'"
  shows "d' = d\<lparr>priceProposals := updateMany (isPendingProposal (prop_id (fst c)))
           (resolveProposalRow now QuotePriceProposalStatus.ACCEPTED (np_customerProfileId (snd c))
              (np_professionalProfileId (snd c))) (priceProposals d),
         quotes := updateMany (\<lambda>q. q_id q = prop_quoteId (fst c))
           (\<lambda>q. q\<lparr>q_negotiatedPrice := Some (prop_proposedPrice (fst c))\<rparr>) (quotes d)\<rparr>"
    and "countWhere (isPendingProposal (prop_id (fst c))) (priceProposals d) = 1"
  using assms by (auto simp: acceptProposal_tx_def acceptProposal_def setNegotiatedPrice_def updateQuotes_def
      Let_def case_prod_beta split: if_splits)

lemma rejectProposal_fields:
  assumes "rejectProposal_tx now c d = Inr d'"
  shows "d' = d\<lparr>priceProposals := updateMany (isPendingProposal (prop_id (fst c)))
           (resolveProposalRow now QuotePriceProposalStatus.REJECTED (np_customerProfileId (snd c))
              (np_professionalProfileId (snd c))) (priceProposals d)\<rparr>"
    and "countWhere (isPendingProposal (prop_id (fst c))) (priceProposals d) = 1"
  using assms by (auto simp: rejectProposal_tx_def rejectProposal_def Let_def case_prod_beta split: if_splits)

lemma quote_tx_fields:
  "withdrawQuote_tx now i d = Inr d' \<Longrightarrow> d' = d\<lparr>quotes := updateMany (isSent i) (withdrawQuoteRow now) (quotes d)\<rparr>"
  "rejectQuote_tx now i d = Inr d' \<Longrightarrow> d' = d\<lparr>quotes := updateMany (isSent i) (rejectQuoteRow now) (quotes d)\<rparr>"
  by (auto simp: withdrawQuote_tx_def rejectQuote_tx_def withdraw_def reject_def updateQuotes_def Let_def split: if_splits)

lemma createQuote_fields:
  "snd (createQuote now sr prof price m d) = d\<lparr>nextId := Suc (nextId d),
     quotes := quotes d @ [fst (createQuote now sr prof price m d)]\<rparr>"
  "q_id (fst (createQuote now sr prof price m d)) = nextId d"
  "q_status (fst (createQuote now sr prof price m d)) = QuoteStatus.SENT"
  "q_serviceRequestId (fst (createQuote now sr prof price m d)) = sr"
  by (simp_all add: createQuote_def Let_def)

lemma acceptQuote_fields:
  assumes "acceptQuote_tx now a d = Inr d'"
  shows "priceProposals d' = priceProposals d" "appointments d' = appointments d"
    "paymentAttempts d' = paymentAttempts d" "ledgerEntries d' = ledgerEntries d"
    "nextReceipt d' = nextReceipt d" "reviews d' = reviews d"
    "serviceRequests d' = serviceRequests (engageRequest a d)"
    "quotes d' = quotes (rejectTheOthers now a (acceptTheQuote now a d))"
    "nextId d' = Suc (nextId d)"
    "\<exists>e. engagements d' = engagements d @ [e] \<and> eng_id e = nextId d
       \<and> eng_serviceRequestId e = qa_serviceRequestId a \<and> eng_quoteId e = qa_quoteId a
       \<and> eng_customerProfileId e = qa_customerProfileId a
       \<and> eng_professionalProfileId e = qa_professionalProfileId a
       \<and> eng_status e = EngagementStatus.ACCEPTED"
proof -
  obtain e where e: "createEngagement now (qa_serviceRequestId a) (qa_quoteId a) (qa_customerProfileId a)
      (qa_professionalProfileId a) (rejectTheOthers now a (acceptTheQuote now a (engageRequest a d))) = Inr (e, d')"
    using assms unfolding acceptQuote_effect by blast
  note c = createEngagement_Inr [OF e]
  show "priceProposals d' = priceProposals d" "appointments d' = appointments d"
    "paymentAttempts d' = paymentAttempts d" "ledgerEntries d' = ledgerEntries d"
    "nextReceipt d' = nextReceipt d" "reviews d' = reviews d"
    "serviceRequests d' = serviceRequests (engageRequest a d)"
    "quotes d' = quotes (rejectTheOthers now a (acceptTheQuote now a d))"
    "nextId d' = Suc (nextId d)"
    by (simp_all add: c(1) rejectTheOthers_def acceptTheQuote_def engageRequest_def)
  have "engagements d' = engagements d @ [e]" "eng_id e = nextId d"
    using c(2) by (simp_all add: c(1) rejectTheOthers_def acceptTheQuote_def engageRequest_def)
  then show "\<exists>e. engagements d' = engagements d @ [e] \<and> eng_id e = nextId d
       \<and> eng_serviceRequestId e = qa_serviceRequestId a \<and> eng_quoteId e = qa_quoteId a
       \<and> eng_customerProfileId e = qa_customerProfileId a
       \<and> eng_professionalProfileId e = qa_professionalProfileId a
       \<and> eng_status e = EngagementStatus.ACCEPTED"
    using c(3-7) by blast
qed


lemma openAttempt_fields:
  assumes "openAttempt now err c n d = Inr (a, d')"
  shows "d' = insertAttempt a d"
  using createPending_Inr(2) [OF openAttempt_Inr [OF assms]] .

lemma review_fields:
  assumes "submitReview_tx now e party rating c d = Inr (r, d')"
  shows "d' = d\<lparr>nextId := Suc (nextId d), reviews := reviews d @ [r]\<rparr>"
    "rv_id r = nextId d" "rv_engagementId r = e" "rv_authorRole r = party_role party" "rv_rating r = \<lfloor>rating\<rfloor>"
    "\<forall>s\<in>set (reviews d). \<not> (rv_engagementId s = e \<and> rv_authorRole s = party_role party)"
  using assms by (auto simp: submitReview_tx_def createReview_def Let_def list_ex_iff split: sum.splits if_splits)

text \<open>A payment transaction moves only attempts, the payment method of an engagement and the
  ledger.\<close>

lemma setPaymentMethod_rest [simp]:
  "serviceRequests (snd (setPaymentMethodIfUnset i m d)) = serviceRequests d"
  "quotes (snd (setPaymentMethodIfUnset i m d)) = quotes d"
  "priceProposals (snd (setPaymentMethodIfUnset i m d)) = priceProposals d"
  "appointments (snd (setPaymentMethodIfUnset i m d)) = appointments d"
  "reviews (snd (setPaymentMethodIfUnset i m d)) = reviews d"
  "nextId (snd (setPaymentMethodIfUnset i m d)) = nextId d"
  "nextReceipt (snd (setPaymentMethodIfUnset i m d)) = nextReceipt d"
  by (simp_all add: setPaymentMethodIfUnset_def updateEngagements_def)

definition paidBy :: "Engagement list \<Rightarrow> Engagement list \<Rightarrow> bool" where
  "paidBy es es' \<longleftrightarrow> es' = es \<or> (\<exists>i m. es' = updateMany (\<lambda>e. eng_id e = i \<and> eng_paymentMethod e = None)
     (\<lambda>e. e\<lparr>eng_paymentMethod := Some m\<rparr>) es)"

lemma cash_fields:
  assumes "attemptsOk d" "confirmCashPayment_tx now c d = Inr (row, d')"
  shows "serviceRequests d' = serviceRequests d" "quotes d' = quotes d" "priceProposals d' = priceProposals d"
    "appointments d' = appointments d" "reviews d' = reviews d" "paidBy (engagements d) (engagements d')"
    "ledgerEntries d' = ledgerEntries d \<and> nextReceipt d' = nextReceipt d
     \<or> (\<exists>p d1. d' = appendEntries (commissionDebtRows now (cashParties c) (cash_quotedPrice c) p) d1
          \<and> ledgerEntries d1 = ledgerEntries d \<and> nextReceipt d1 = nextReceipt d)"
proof -
  have paid: "paidBy (engagements d) (engagements (setCash c d))"
    by (auto simp: paidBy_def setCash_def setPaymentMethod_fields)
  have rest: "serviceRequests (setCash c d) = serviceRequests d" "quotes (setCash c d) = quotes d"
    "priceProposals (setCash c d) = priceProposals d" "appointments (setCash c d) = appointments d"
    "reviews (setCash c d) = reviews d" "nextReceipt (setCash c d) = nextReceipt d"
    by (simp_all add: setCash_def)
  have st: "stampCash now c (setCash c d) = (setCash c d)\<lparr>paymentAttempts := paymentAttempts (stampCash now c d)\<rparr>"
    by (simp add: stampCash_def)
  have all: "serviceRequests d' = serviceRequests d \<and> quotes d' = quotes d \<and> priceProposals d' = priceProposals d
    \<and> appointments d' = appointments d \<and> reviews d' = reviews d \<and> engagements d' = engagements (setCash c d)"
    using assms(2,1) by (cases rule: cash_effect) (simp_all add: rest st insertAttempt_def resolveCash_def)
  then show "serviceRequests d' = serviceRequests d" "quotes d' = quotes d" "priceProposals d' = priceProposals d"
    "appointments d' = appointments d" "reviews d' = reviews d" "paidBy (engagements d) (engagements d')"
    using paid by simp_all
  from assms(2,1) show "ledgerEntries d' = ledgerEntries d \<and> nextReceipt d' = nextReceipt d
     \<or> (\<exists>p d1. d' = appendEntries (commissionDebtRows now (cashParties c) (cash_quotedPrice c) p) d1
          \<and> ledgerEntries d1 = ledgerEntries d \<and> nextReceipt d1 = nextReceipt d)"
  proof (cases rule: cash_effect)
    case (approved a p)
    let ?d1 = "resolveCash (pa_id a) (stampCash now c (setCash c d))"
    have "ledgerEntries ?d1 = ledgerEntries d" "nextReceipt ?d1 = nextReceipt d"
      by (simp_all add: rest st resolveCash_def)
    then show ?thesis using approved(3) by blast
  qed (simp_all add: rest st insertAttempt_def)
qed

lemma apply_fields:
  assumes "apply_tx now i res plan d = Inr d'"
  shows "serviceRequests d' = serviceRequests d" "quotes d' = quotes d" "priceProposals d' = priceProposals d"
    "appointments d' = appointments d" "reviews d' = reviews d" "paidBy (engagements d) (engagements d')"
    "ledgerEntries d' = ledgerEntries d \<and> nextReceipt d' = nextReceipt d
     \<or> (\<exists>p q x. ledgerEntries d' = ledgerEntries (appendEntries (digitalPaymentRows now q x p) d)
            \<and> nextReceipt d' = nextReceipt (appendEntries (digitalPaymentRows now q x p) d))"
proof -
  have "serviceRequests d' = serviceRequests d \<and> quotes d' = quotes d \<and> priceProposals d' = priceProposals d
    \<and> appointments d' = appointments d \<and> reviews d' = reviews d \<and> paidBy (engagements d) (engagements d')
    \<and> (ledgerEntries d' = ledgerEntries d \<and> nextReceipt d' = nextReceipt d
     \<or> (\<exists>p q x. ledgerEntries d' = ledgerEntries (appendEntries (digitalPaymentRows now q x p) d)
            \<and> nextReceipt d' = nextReceipt (appendEntries (digitalPaymentRows now q x p) d)))"
    (is "?P d'")
    using assms
  proof (rule apply_tx_cases)
    show "?P d'" if "d' = d" using that by (simp add: paidBy_def)
    show "?P d'" if "d' = snd (attachProviderPaymentIdIfPending i p d)" for p
      unfolding attach_effect [OF that] by (simp add: paidBy_def)
    fix attempt billing details
    assume "resolve_tx now res attempt billing details d = Inr d'"
    then show "?P d'"
    proof (cases rule: resolve_effect)
      case (approved b p)
      have "paidBy (engagements d) (engagements d')"
        by (auto simp: approved(4) paidBy_def setMercadoPago_def setPaymentMethod_fields)
      moreover have "ledgerEntries d' = ledgerEntries (appendEntries
            (digitalPaymentRows now (attemptParties attempt b) (pa_amount attempt) p) d)"
          "nextReceipt d' = nextReceipt (appendEntries
            (digitalPaymentRows now (attemptParties attempt b) (pa_amount attempt) p) d)"
        by (simp_all add: approved(4) appendEntries_def resolveAttempt_def)
      ultimately show ?thesis by (auto simp: approved(4) resolveAttempt_def)
    qed (simp_all add: paidBy_def resolveAttempt_def)
  qed
  then show "serviceRequests d' = serviceRequests d" "quotes d' = quotes d" "priceProposals d' = priceProposals d"
    "appointments d' = appointments d" "reviews d' = reviews d" "paidBy (engagements d) (engagements d')"
    "ledgerEntries d' = ledgerEntries d \<and> nextReceipt d' = nextReceipt d
     \<or> (\<exists>p q x. ledgerEntries d' = ledgerEntries (appendEntries (digitalPaymentRows now q x p) d)
            \<and> nextReceipt d' = nextReceipt (appendEntries (digitalPaymentRows now q x p) d))"
    by blast+
qed

text \<open>The financial events: what a commit appends to the ledger.\<close>

definition posts :: "LedgerEntry list \<Rightarrow> db \<Rightarrow> db \<Rightarrow> bool" where
  "posts rows d d' \<longleftrightarrow> (\<exists>i. ledgerEntries d' = ledgerEntries d @ numbered i (nextReceipt d) rows)
     \<and> nextReceipt d' = nextReceipt d + length rows"

inductive paymentEvent :: "LedgerEntry list \<Rightarrow> bool" where
  digital: "paymentEvent (digitalPaymentRows now p price percent)"
| debt: "paymentEvent (commissionDebtRows now p price percent)"

inductive cancellationEvent :: "id \<Rightarrow> LedgerEntry list \<Rightarrow> bool" where
  charge: "cancellationEvent i (cancellationChargeRows now (ledgerPartiesOf i b) price percent)"
| refund: "cancellationEvent i (refundRows now (ledgerPartiesOf i b) price percent)"

section \<open>By table\<close>

fun isLifecycle :: "inflight \<Rightarrow> bool" where
  "isLifecycle (TxStart e) = True"
| "isLifecycle (TxFinish e) = True"
| "isLifecycle (TxComplete e) = True"
| "isLifecycle (TxCancelByCustomer e r b) = True"
| "isLifecycle (TxCancelByProfessional e r b) = True"
| "isLifecycle _ = False"

lemma cancelWork_status: "eng_status (cancelWork now reason e) = EngagementStatus.CANCELLED"
  by (simp add: cancelWork_def)

lemma commit_transition:
  assumes "isLifecycle t" "commit now t d = Inr d'"
  obtains S f i rows where "transition S f i rows d d'"
    "\<And>e. inStatus S i e \<Longrightarrow> engagementEvolves e (f e)"
    "\<And>e. inStatus S i e \<Longrightarrow> engagementShape e \<Longrightarrow> engagementShape (f e)"
    "rows = [] \<or> (\<forall>e. eng_status (f e) = EngagementStatus.CANCELLED) \<and> EngagementStatus.CANCELLED \<notin> S
       \<and> cancellationEvent i rows"
  using assms(1)
proof (cases t)
  case (TxStart i)
  then have tx: "startEngagementWork_tx now i d = Inr d'" using assms(2) by simp
  show thesis by (rule that [OF start_effect [OF tx]]) (auto intro: row_changes_evolve row_changes_shape)
next
  case (TxFinish i)
  then have tx: "markEngagementWorkFinished_tx now i d = Inr d'" using assms(2) by simp
  show thesis by (rule that [OF finish_effect [OF tx]]) (auto intro: row_changes_evolve row_changes_shape)
next
  case (TxComplete i)
  then have tx: "confirmEngagementCompletion_tx now i d = Inr d'" using assms(2) by simp
  show thesis by (rule that [OF complete_effect [OF tx]]) (auto intro: row_changes_evolve row_changes_shape)
next
  case (TxCancelByCustomer i reason b)
  then obtain rows where
    tr: "transition {EngagementStatus.ACCEPTED, EngagementStatus.IN_PROGRESS} (cancelWork now reason) i rows d d'"
    and rows: "rows = [] \<or> (\<exists>p. rows = cancellationChargeRows now (ledgerPartiesOf i b) (bc_quotedPrice b) p)"
    using assms(2) cancelByCustomer_effect [of now i reason b d d'] by (auto split: if_splits)
  show thesis
    by (rule that [OF tr]) (use rows in \<open>auto simp: cancelWork_status
      intro: row_changes_evolve row_changes_shape cancellationEvent.intros\<close>)
next
  case (TxCancelByProfessional i reason b)
  then have tx: "cancelEngagementByProfessional_tx now i reason b d = Inr d'" using assms(2) by simp
  show thesis by (rule that [OF cancelByProfessional_effect [OF tx]])
     (auto simp: cancelWork_status intro: row_changes_evolve row_changes_shape cancellationEvent.refund)
qed simp_all

lemmas commit_simps = mapR_Inr_iff createAppointment_def Let_def accept_tx_cases cancel_tx_cases createQuote_def

lemmas commit_dests = quote_tx_fields acceptQuote_fields publish_fields cancelRequest_fields postMessage_fields
  acceptProposal_fields rejectProposal_fields sendMessage_fields openAttempt_fields cash_fields(1-6)
  apply_fields(1-6) review_fields

lemma insertAttempt_fields [simp]:
  "engagements (insertAttempt a d) = engagements d" "appointments (insertAttempt a d) = appointments d"
  "quotes (insertAttempt a d) = quotes d" "serviceRequests (insertAttempt a d) = serviceRequests d"
  "priceProposals (insertAttempt a d) = priceProposals d" "reviews (insertAttempt a d) = reviews d"
  "ledgerEntries (insertAttempt a d) = ledgerEntries d" "nextReceipt (insertAttempt a d) = nextReceipt d"
  by (simp_all add: insertAttempt_def)

lemma commit_attempts:
  assumes "commit now t d = Inr d'" "attemptsOk d"
  obtains (same) "paymentAttempts d' = paymentAttempts d"
  | (cash) c row where "t = TxCash c" "confirmCashPayment_tx now c d = Inr (row, d')"
  | (opened) err c n a where "t = TxOpenAttempt err c n" "openAttempt now err c n d = Inr (a, d')"
  | (applied) i res plan where "t = TxApply i res plan" "apply_tx now i res plan d = Inr d'"
proof (cases "isLifecycle t")
  case True
  then show thesis using same assms(1) by (metis commit_transition transition_fields(5))
next
  case False
  then show thesis using assms same cash opened applied
    by (cases t) (auto simp: commit_simps dest: quote_tx_fields acceptQuote_fields publish_fields
      cancelRequest_fields postMessage_fields acceptProposal_fields rejectProposal_fields sendMessage_fields review_fields)
qed

lemma commit_appointments:
  assumes "commit now t d = Inr d'" "attemptsOk d"
  obtains (same) "appointments d' = appointments d"
  | (proposed) e prof s u role c p where "t = TxPropose e prof s u role c p"
      "d' = snd (createAppointment now e prof s u role c p d)"
  | (accepted) i where "t = TxAcceptAppointment i" "accept_tx now i d = Inr d'"
  | (cancelled) i r where "t = TxCancelAppointment i r" "cancel_tx now i r d = Inr d'"
proof (cases "isLifecycle t")
  case True
  then show thesis using same assms(1) by (metis commit_transition transition_fields(4))
next
  case False
  then show thesis using assms same proposed accepted cancelled
    by (cases t) (auto simp: mapR_Inr_iff createQuote_def Let_def dest: commit_dests)
qed

lemma commit_reviews:
  assumes "commit now t d = Inr d'" "attemptsOk d"
  obtains (same) "reviews d' = reviews d"
  | (submitted) e party rating c r where "t = TxReview e party rating c"
      "submitReview_tx now e party rating c d = Inr (r, d')"
proof (cases "isLifecycle t")
  case True
  then show thesis using same assms(1) by (metis commit_transition transition_fields(6))
next
  case False
  then show thesis using assms same submitted
    by (cases t) (auto simp: commit_simps dest: commit_dests)
qed

lemma commit_proposals:
  assumes "commit now t d = Inr d'" "attemptsOk d"
  obtains (same) "priceProposals d' = priceProposals d"
  | (posted) q p where "priceProposals d' = updateMany (isPendingProposalOf q)
            (\<lambda>p. p\<lparr>prop_status := QuotePriceProposalStatus.SUPERSEDED\<rparr>) (priceProposals d) @ [p]"
          "prop_quoteId p = q" "prop_status p = QuotePriceProposalStatus.PENDING"
  | (resolved) i s c p where "priceProposals d' = updateMany (isPendingProposal i) (resolveProposalRow now s c p) (priceProposals d)"
      "s = QuotePriceProposalStatus.ACCEPTED \<or> s = QuotePriceProposalStatus.REJECTED"
proof (cases "isLifecycle t")
  case True
  then show thesis using same assms(1) by (metis commit_transition transition_fields(3))
next
  case False
  consider (post) q input captured where "t = TxPost q input captured"
    | (acc) c where "t = TxAcceptProposal c" | (rej) c where "t = TxRejectProposal c"
    | (other) "\<forall>q input captured. t \<noteq> TxPost q input captured" "\<forall>c. t \<noteq> TxAcceptProposal c" "\<forall>c. t \<noteq> TxRejectProposal c"
    by blast
  then show thesis
  proof cases
    case post
    then show thesis using assms(1) postMessage_proposals [of now q input captured d d'] same posted by auto
  next
    case acc
    then have "acceptProposal_tx now c d = Inr d'" using assms(1) by simp
    from acceptProposal_fields(1) [OF this] show thesis
      by (intro resolved [where s = QuotePriceProposalStatus.ACCEPTED]) simp_all
  next
    case rej
    then have "rejectProposal_tx now c d = Inr d'" using assms(1) by simp
    from rejectProposal_fields(1) [OF this] show thesis
      by (intro resolved [where s = QuotePriceProposalStatus.REJECTED]) simp_all
  next
    case other
    then show thesis using assms same False
      by (cases t) (auto simp: commit_simps dest: commit_dests)
  qed
qed

lemma commit_engagements:
  assumes "commit now t d = Inr d'" "attemptsOk d" "\<not> isLifecycle t"
  obtains (same) "engagements d' = engagements d"
  | (paid) "paidBy (engagements d) (engagements d')"
  | (hired) a where "t = TxAcceptQuote a" "acceptQuote_tx now a d = Inr d'"
  using assms
  by (cases t) (auto simp: commit_simps dest: quote_tx_fields publish_fields cancelRequest_fields postMessage_fields
    acceptProposal_fields rejectProposal_fields sendMessage_fields openAttempt_fields cash_fields(6)
    apply_fields(6) review_fields)

lemma posts_same: "ledgerEntries d' = ledgerEntries d \<Longrightarrow> nextReceipt d' = nextReceipt d \<Longrightarrow> posts [] d d'"
  by (simp add: posts_def)

lemma posts_transition:
  assumes "transition S f i rows d d'"
  shows "posts rows d d'"
  using assms by (auto simp: transition_def posts_def appendEntries_def)

lemma cash_posts:
  assumes "attemptsOk d" "confirmCashPayment_tx now c d = Inr (row, d')"
  shows "\<exists>rows. posts rows d d' \<and> (rows = [] \<or> paymentEvent rows)"
  using cash_fields(7) [OF assms]
proof (elim disjE exE conjE)
  assume "ledgerEntries d' = ledgerEntries d" "nextReceipt d' = nextReceipt d"
  then show ?thesis using posts_same by blast
next
  fix p d1
  assume "d' = appendEntries (commissionDebtRows now (cashParties c) (cash_quotedPrice c) p) d1"
    "ledgerEntries d1 = ledgerEntries d" "nextReceipt d1 = nextReceipt d"
  then have "posts (commissionDebtRows now (cashParties c) (cash_quotedPrice c) p) d d'"
    by (auto simp: posts_def appendEntries_def)
  then show ?thesis using paymentEvent.debt by blast
qed

lemma apply_posts:
  assumes "apply_tx now i res plan d = Inr d'"
  shows "\<exists>rows. posts rows d d' \<and> (rows = [] \<or> paymentEvent rows)"
  using apply_fields(7) [OF assms]
proof (elim disjE exE conjE)
  assume "ledgerEntries d' = ledgerEntries d" "nextReceipt d' = nextReceipt d"
  then show ?thesis using posts_same by blast
next
  fix p q x
  assume "ledgerEntries d' = ledgerEntries (appendEntries (digitalPaymentRows now q x p) d)"
    "nextReceipt d' = nextReceipt (appendEntries (digitalPaymentRows now q x p) d)"
  then have "posts (digitalPaymentRows now q x p) d d'" by (auto simp: posts_def appendEntries_def)
  then show ?thesis using paymentEvent.digital by blast
qed

lemma commit_ledger:
  assumes "commit now t d = Inr d'" "\<not> isLifecycle t" "\<forall>c. t \<noteq> TxCash c" "\<forall>i res plan. t \<noteq> TxApply i res plan"
  shows "ledgerEntries d' = ledgerEntries d" "nextReceipt d' = nextReceipt d"
  using assms by (cases t; auto simp: commit_simps dest: quote_tx_fields acceptQuote_fields(4,5)
        publish_fields cancelRequest_fields postMessage_fields acceptProposal_fields rejectProposal_fields
        sendMessage_fields openAttempt_fields review_fields)+

lemma commit_posts:
  assumes "commit now t d = Inr d'" "attemptsOk d" "\<not> isLifecycle t"
  obtains rows where "posts rows d d'" "rows = [] \<or> paymentEvent rows"
proof -
  consider (cash) c where "t = TxCash c" | (app) i res plan where "t = TxApply i res plan"
    | (other) "\<forall>c. t \<noteq> TxCash c" "\<forall>i res plan. t \<noteq> TxApply i res plan" by blast
  then show thesis
  proof cases
    case cash
    then show thesis using that assms cash_posts by (auto simp: mapR_Inr_iff) blast+
  next
    case app
    then show thesis using that assms apply_posts by fastforce
  next
    case other
    then show thesis using that [of "[]"] posts_same commit_ledger [OF assms(1,3)] by blast
  qed
qed

text \<open>What the rows of an event are, type by type.\<close>

definition isPaymentEntry :: "id \<Rightarrow> LedgerEntry \<Rightarrow> bool" where
  "isPaymentEntry e r \<longleftrightarrow> (le_type r = CUSTOMER_CHARGE \<or> le_type r = CASH_COMMISSION_DEBT) \<and> le_engagementId r = Some e"

definition isCancellationEntry :: "id \<Rightarrow> LedgerEntry \<Rightarrow> bool" where
  "isCancellationEntry e r \<longleftrightarrow> (le_type r = REFUND \<or> le_type r = CUSTOMER_CANCELLATION_FEE) \<and> le_engagementId r = Some e"

text \<open>An entry of the money customers pay through the platform, towards it and its professionals.\<close>

definition isFlow :: "id \<Rightarrow> LedgerEntry \<Rightarrow> bool" where
  "isFlow e r \<longleftrightarrow> le_type r \<noteq> REFUND \<and> le_type r \<noteq> CASH_COMMISSION_DEBT \<and> le_engagementId r = Some e"

lemmas entry_kinds = isPaymentEntry_def isCancellationEntry_def isFlow_def

lemma cancellationEvent_counts:
  "cancellationEvent i rows \<Longrightarrow> countWhere (isCancellationEntry e) rows = (if e = i then 1 else 0)"
  "cancellationEvent i rows \<Longrightarrow> countWhere (isPaymentEntry e) rows = 0"
  by (auto simp: entry_kinds rows_defs ledgerPartiesOf_def elim!: cancellationEvent.cases)

lemma paymentEvent_counts: "paymentEvent rows \<Longrightarrow> countWhere (isCancellationEntry e) rows = 0"
  by (auto simp: entry_kinds rows_defs elim!: paymentEvent.cases)

lemma events_balance:
  "paymentEvent rows \<or> cancellationEvent i rows \<Longrightarrow> sum_list (map le_amount (filter (isFlow e) rows)) = 0"
  by (auto simp: entry_kinds rows_defs computeCommission_def Let_def elim!: paymentEvent.cases cancellationEvent.cases)

end
