(* ===== verification/System.thy ===== *)
theory System
  imports Frames
begin

text \<open>
  Invariants of the running system.  The locale \<^theory_text>\<open>system_invariant\<close> is the contract
  of an invariant of the database together with what an in-flight transaction captured: it holds at
  the start, the reads of a request establish what the transaction relies on, whatever else commits
  cannot destroy that, and a commit preserves the invariant.  Each section interprets it on one
  invariant; the theories of the components provide the laws.
\<close>

section \<open>The contract\<close>

lemma attemptsOk_commit:
  assumes "attemptsOk d" "commit now t d = Inr d'"
  shows "attemptsOk d'"
  using assms(2,1)
proof (cases rule: commit_attempts)
  case same
  show ?thesis
    by (rule attemptsOk_frame [OF assms(1) same]) (rule evolves_nextId [OF commit_evolves [OF assms]])
next
  case (cash c row)
  then show ?thesis using cash_attemptsOk [OF assms(1)] by blast
next
  case (opened err c n a)
  then show ?thesis using openAttempt_attemptsOk [OF assms(1)] by blast
next
  case (applied i res plan)
  then show ?thesis using apply_attemptsOk [OF assms(1)] by blast
qed

lemma attemptsOk_initial: "initialDb d \<Longrightarrow> attemptsOk d"
  by (simp add: initialDb_def attemptsOk_def)

lemma attemptsOk_config: "attemptsOk (d\<lparr>platformSettings := s\<rparr>) = attemptsOk d"
  by (simp add: attemptsOk_def)

lemma evolves_config: "evolves d (d\<lparr>platformSettings := s\<rparr>)"
  by (rule evolves_frame) simp_all

lemma reach_attemptsOk: "reach (d, ts) \<Longrightarrow> attemptsOk d"
  by (rule reach_db_invariant) (auto simp: attemptsOk_initial attemptsOk_config intro: attemptsOk_commit)

locale system_invariant =
  fixes I :: "db \<Rightarrow> bool" and J :: "db \<Rightarrow> inflight \<Rightarrow> bool"
  assumes initial: "initialDb d \<Longrightarrow> I d"
    and captured: "attemptsOk d \<Longrightarrow> I d \<Longrightarrow> begin_request now prov req d = Inr t \<Longrightarrow> J d t"
    and stable: "evolves d d' \<Longrightarrow> J d t \<Longrightarrow> J d' t"
    and committed: "attemptsOk d \<Longrightarrow> I d \<Longrightarrow> J d t \<Longrightarrow> commit now t d = Inr d' \<Longrightarrow> I d'"
    and configured: "I d \<Longrightarrow> I (d\<lparr>platformSettings := s\<rparr>)"
begin

lemma both:
  assumes "reach (d, ts)"
  shows "(attemptsOk d \<and> I d) \<and> (\<forall>t\<in>set ts. J d t)"
proof (rule reach_invariant [OF _ _ _ _ _ _ assms])
  show "attemptsOk d \<and> I d" if "initialDb d" for d
    using that initial attemptsOk_initial by blast
  show "J d t" if "attemptsOk d \<and> I d" "begin_request now prov req d = Inr t" for now prov req d t
    using that captured by blast
  show "attemptsOk d' \<and> I d'" if "attemptsOk d \<and> I d" "J d t" "commit now t d = Inr d'" for now t d d'
    using that committed attemptsOk_commit by blast
  show "J d' t'" if "attemptsOk d \<and> I d" "J d t" "J d t'" "commit now t d = Inr d'" for now t t' d d'
    using that stable commit_evolves by blast
  show "attemptsOk (d\<lparr>platformSettings := s\<rparr>) \<and> I (d\<lparr>platformSettings := s\<rparr>)" if "attemptsOk d \<and> I d" for d s
    using that configured attemptsOk_config by blast
  show "J (d\<lparr>platformSettings := s\<rparr>) t" if "J d t" for d t s
    using that stable evolves_config by blast
qed

lemma holds: "reach (d, ts) \<Longrightarrow> I d"
  using both by blast

lemma relied: "reach (d, ts) \<Longrightarrow> t \<in> set ts \<Longrightarrow> J d t"
  using both by blast

end

section \<open>History\<close>

text \<open>From any reachable state on, the tables only extend along their relations.\<close>

lemma steps_evolve:
  assumes "reach s" "step\<^sup>*\<^sup>* s s'"
  shows "reach s' \<and> evolves (fst s) (fst s')"
  using assms(2)
proof (induction rule: rtranclp_induct)
  case base
  then show ?case using assms(1) by simp
next
  case (step s1 s2)
  have r: "reach s2" using step.IH step.hyps(2) reach.Step by blast
  have ok: "attemptsOk (fst s1)" using step.IH reach_attemptsOk by (metis surjective_pairing)
  from step.hyps(2) have "evolves (fst s1) (fst s2)"
  proof cases
    case (Commit t ts now db db')
    then show ?thesis using ok commit_evolves by simp
  qed (simp_all add: evolves_config)
  then show ?case using step.IH r evolves_trans by blast
qed

text \<open>A fact about the row with a given old key survives when the row's relation keeps it.\<close>

lemma ext_captured:
  assumes e: "ext R k table d d'" and old: "\<forall>r\<in>set (table d). k r = i \<longrightarrow> P r" and lt: "i < nextId d"
    and key: "\<And>a b. R a b \<Longrightarrow> k b = k a" and keep: "\<And>a b. R a b \<Longrightarrow> P a \<Longrightarrow> P b"
  shows "\<forall>r\<in>set (table d'). k r = i \<longrightarrow> P r"
proof (intro ballI impI)
  fix s assume s: "s \<in> set (table d')" "k s = i"
  then obtain r where r: "r \<in> set (table d)" "R\<^sup>*\<^sup>* r s"
    using extends_origin [of "R\<^sup>*\<^sup>*" k "nextId d" "nextId d'" "table d" "table d'" s] e lt
    by (auto simp: ext_def)
  have "k s = k r" using rtranclp_keeps [OF r(2)] key by blast
  moreover have "P r \<Longrightarrow> P s" using r(2) by (induction rule: rtranclp_induct) (auto intro: keep)
  ultimately show "P s" using old r(1) s(2) by auto
qed

lemma ext_row:
  assumes "ext R k table d d'" "r \<in> set (table d)"
  shows "\<exists>s\<in>set (table d'). R\<^sup>*\<^sup>* r s"
  using extends_mem assms unfolding ext_def by metis

section \<open>Keys\<close>

definition keysOk :: "db \<Rightarrow> bool" where
  "keysOk d \<longleftrightarrow> keyed sr_id (nextId d) (serviceRequests d) \<and> keyed q_id (nextId d) (quotes d)
     \<and> keyed prop_id (nextId d) (priceProposals d) \<and> keyed eng_id (nextId d) (engagements d)
     \<and> keyed appt_id (nextId d) (appointments d) \<and> keyed pa_id (nextId d) (paymentAttempts d)
     \<and> keyed le_id (nextId d) (ledgerEntries d) \<and> keyed rv_id (nextId d) (reviews d)"

lemma keyed_ext:
  assumes "ext R k table d d'" "keyed k (nextId d) (table d)" "nextId d \<le> nextId d'" "\<And>a b. R a b \<Longrightarrow> k b = k a"
  shows "keyed k (nextId d') (table d')"
  using assms(1) unfolding ext_def
  by (rule keyed_extends [OF assms(2) _ assms(3)]) (rule rtranclp_keeps, assumption, rule assms(4))

lemma keysOk_evolves: "keysOk d \<Longrightarrow> evolves d d' \<Longrightarrow> keysOk d'"
  unfolding keysOk_def evolves_def
  by (elim conjE, intro conjI; erule keyed_ext; simp add: evolves_keys)

interpretation keys: system_invariant keysOk "\<lambda>_ _. True"
proof unfold_locales
  show "keysOk d" if "initialDb d" for d using that by (simp add: initialDb_def keysOk_def)
  show "keysOk d'" if "attemptsOk d" "keysOk d" "True" "commit now t d = Inr d'" for d t now d'
    using keysOk_evolves [OF that(2) commit_evolves [OF that(1,4)]] .
  show "keysOk (d\<lparr>platformSettings := s\<rparr>)" if "keysOk d" for d s
    using keysOk_evolves [OF that evolves_config] .
qed simp_all

section \<open>Appointments\<close>

definition proposedRange :: "db \<Rightarrow> inflight \<Rightarrow> bool" where
  "proposedRange d t = (case t of TxPropose _ _ s u _ _ _ \<Rightarrow> s < u | _ \<Rightarrow> True)"

lemma proposedRange_begin: "begin_request now prov req d = Inr t \<Longrightarrow> proposedRange d t"
  by (cases req) (auto simp: proposedRange_def mapR_Inr_iff propose_pre_def split: if_splits)

interpretation calendar: system_invariant appointmentsOk proposedRange
proof unfold_locales
  show "appointmentsOk d" if "initialDb d" for d
    using that by (simp add: initialDb_def appointmentsOk_def noOverlap_def)
  show "proposedRange d t" if "begin_request now prov req d = Inr t" for d now prov req t
    using that by (rule proposedRange_begin)
  show "appointmentsOk d'" if "attemptsOk d" "appointmentsOk d" "proposedRange d t" "commit now t d = Inr d'" for d t now d'
    using that(4,1)
  proof (cases rule: commit_appointments)
    case same
    show ?thesis by (rule appointmentsOk_frame [OF that(2) same])
        (rule evolves_nextId [OF commit_evolves [OF that(1,4)]])
  next
    case (proposed e prof s u role c p)
    then show ?thesis using createAppointment_ok [OF that(2)] that(3) by (simp add: proposedRange_def)
  qed (use that(2) accept_tx_ok cancel_tx_ok in blast)+
qed (auto simp: proposedRange_def appointmentsOk_def)

section \<open>Payments\<close>

definition planOk :: "PaymentResolution \<Rightarrow> ApplyPlan \<Rightarrow> db \<Rightarrow> bool" where
  "planOk res plan d \<longleftrightarrow> planCaptured res plan d \<and> (case plan of Resolve a b ds \<Rightarrow> pa_id a < nextId d | _ \<Rightarrow> True)"

definition paymentCaptured :: "db \<Rightarrow> inflight \<Rightarrow> bool" where
  "paymentCaptured d t = (case t of TxApply i res plan \<Rightarrow> planOk res plan d | _ \<Rightarrow> True)"

lemma apply_pre_attempt:
  assumes "attemptsOk d" "apply_pre prov i res d = Resolve a b ds"
  shows "pa_id a < nextId d"
proof -
  have "findAttemptById d i = Some a"
    using assms(2) by (auto simp: apply_pre_def split: option.splits if_splits)
  then have "a \<in> set (paymentAttempts d)" by (simp add: findAttemptById_def findRow_in)
  then show ?thesis using assms(1) by (simp add: attemptsOk_def list_all_iff)
qed

lemma planOk_begin: "attemptsOk d \<Longrightarrow> planOk res (apply_pre prov i res d) d"
  using apply_pre_captured [of d res prov i] apply_pre_attempt [of d prov i res]
  by (auto simp: planOk_def split: ApplyPlan.split)

lemma paymentCaptured_begin:
  "attemptsOk d \<Longrightarrow> begin_request now prov req d = Inr t \<Longrightarrow> paymentCaptured d t"
  by (cases req) (auto simp: paymentCaptured_def mapR_Inr_iff planOk_begin)

lemma resolutionCaptured_stable:
  assumes "evolves d d'" "resolutionCaptured res a b d" "pa_id a < nextId d"
  shows "resolutionCaptured res a b d'"
  using assms(2) unfolding resolutionCaptured_def
  by (intro conjI) (simp, rule ext_captured [of attemptEvolves pa_id paymentAttempts d d'],
      use assms in \<open>auto simp: evolves_def resolutionCaptured_def attemptEvolves_def\<close>)

lemma planOk_stable: "evolves d d' \<Longrightarrow> planOk res plan d \<Longrightarrow> planOk res plan d'"
  using resolutionCaptured_stable [of d d'] evolves_nextId [of d d']
  by (cases plan) (auto simp: planOk_def planCaptured_def)

lemma paymentCaptured_stable: "evolves d d' \<Longrightarrow> paymentCaptured d t \<Longrightarrow> paymentCaptured d' t"
  by (cases t) (auto simp: paymentCaptured_def planOk_stable)

lemma paymentEntries_eq: "paymentEntries e d = countWhere (isPaymentEntry e) (ledgerEntries d)"
proof -
  have "countWhere (\<lambda>r. le_type r = CUSTOMER_CHARGE \<and> le_engagementId r = Some e) rows
      + countWhere (\<lambda>r. le_type r = CASH_COMMISSION_DEBT \<and> le_engagementId r = Some e) rows
      = countWhere (isPaymentEntry e) rows" for rows
    by (induction rows) (auto simp: isPaymentEntry_def)
  then show ?thesis by (simp add: paymentEntries_def ledgerCount_def)
qed

lemma entries_posts:
  assumes "posts rows d d'"
  shows "countWhere (isPaymentEntry e) (ledgerEntries d') = countWhere (isPaymentEntry e) (ledgerEntries d) + countWhere (isPaymentEntry e) rows"
    "countWhere (isCancellationEntry e) (ledgerEntries d') = countWhere (isCancellationEntry e) (ledgerEntries d) + countWhere (isCancellationEntry e) rows"
    "sumAmount (isFlow e) d' = sumAmount (isFlow e) d + sum_list (map le_amount (filter (isFlow e) rows))"
  using assms by (auto simp: posts_def countWhere_numbered sumAmount_def sum_numbered entry_kinds)

lemma books_commit:
  assumes "attemptsOk d" "paymentsRecorded d" "paymentCaptured d t" "commit now t d = Inr d'"
  shows "paymentsRecorded d'"
proof -
  consider (cash) c where "t = TxCash c" | (app) i res plan where "t = TxApply i res plan"
    | (other) "\<forall>c. t \<noteq> TxCash c" "\<forall>i res plan. t \<noteq> TxApply i res plan" by blast
  then show ?thesis
  proof cases
    case cash
    then show ?thesis using assms(4) cash_recorded [OF assms(1,2)] by (auto simp: mapR_Inr_iff)
  next
    case app
    then have "planCaptured res plan d" "apply_tx now i res plan d = Inr d'"
      using assms(3,4) by (simp_all add: paymentCaptured_def planOk_def)
    then show ?thesis by (rule apply_recorded [OF assms(2)])
  next
    case other
    have entries: "paymentEntries e d' = paymentEntries e d" for e
    proof (cases "isLifecycle t")
      case True
      then obtain i rows where "posts rows d d'" "rows = [] \<or> cancellationEvent i rows"
        using assms(4) by (metis commit_transition posts_transition)
      then show ?thesis using entries_posts(1) cancellationEvent_counts(2) by (auto simp: paymentEntries_eq)
    next
      case False
      then show ?thesis using commit_ledger(1) [OF assms(4)] other by (simp add: paymentEntries_eq)
    qed
    from assms(4,1) show ?thesis
    proof (cases rule: commit_attempts)
      case same
      then show ?thesis using assms(2) entries by (simp add: paymentsRecorded_def)
    next
      case (opened err c n a)
      then show ?thesis using openAttempt_recorded [OF assms(2)] by blast
    qed (use other in blast)+
  qed
qed

interpretation books: system_invariant paymentsRecorded paymentCaptured
proof unfold_locales
  show "paymentsRecorded d" if "initialDb d" for d
    using that by (simp add: initialDb_def paymentsRecorded_def paymentEntries_def ledgerCount_def)
  show "paymentCaptured d t" if "attemptsOk d" "begin_request now prov req d = Inr t" for d now prov req t
    using that by (rule paymentCaptured_begin)
  show "paymentCaptured d' t" if "evolves d d'" "paymentCaptured d t" for d d' t
    using that by (rule paymentCaptured_stable)
  show "paymentsRecorded (d\<lparr>platformSettings := s\<rparr>)" if "paymentsRecorded d" for d s
    using that by (simp add: paymentsRecorded_def paymentEntries_def ledgerCount_def)
qed (rule books_commit)

section \<open>The ledger\<close>

lemma commit_rows:
  assumes "attemptsOk d" "commit now t d = Inr d'"
  obtains i rows where "posts rows d d'" "rows = [] \<or> paymentEvent rows \<or> cancellationEvent i rows"
proof (cases "isLifecycle t")
  case True
  then show thesis using assms(2) that by (metis commit_transition posts_transition)
next
  case False
  then show thesis using commit_posts [OF assms(2,1)] that by metis
qed

lemma receiptsOk_posts:
  assumes "receiptsOk d" "posts rows d d'"
  shows "receiptsOk d'"
proof -
  obtain i where "ledgerEntries d' = ledgerEntries d @ numbered i (nextReceipt d) rows"
    "nextReceipt d' = nextReceipt d + length rows"
    using assms(2) by (auto simp: posts_def)
  moreover have "receiptsOk (appendEntries rows (d\<lparr>nextId := i\<rparr>))"
    using receiptsOk_appendEntries [of "d\<lparr>nextId := i\<rparr>" rows] assms(1) by (simp add: receiptsOk_def)
  ultimately show ?thesis by (simp add: receiptsOk_def appendEntries_def)
qed

interpretation receipts: system_invariant receiptsOk "\<lambda>_ _. True"
proof unfold_locales
  show "receiptsOk d" if "initialDb d" for d using that by (simp add: initialDb_def receiptsOk_def)
  show "receiptsOk d'" if "attemptsOk d" "receiptsOk d" "True" "commit now t d = Inr d'" for d t now d'
    using commit_rows [OF that(1,4)] receiptsOk_posts [OF that(2)] by metis
qed (simp_all add: receiptsOk_def)

text \<open>The customers' money: on every engagement, what the customer was charged is what the platform
  and the professional were credited.\<close>

definition moneyConserved :: "db \<Rightarrow> bool" where
  "moneyConserved d \<longleftrightarrow> (\<forall>e. sumAmount (isFlow e) d = 0)"

lemma money_commit:
  assumes "attemptsOk d" "moneyConserved d" "commit now t d = Inr d'"
  shows "moneyConserved d'"
proof -
  obtain i rows where rows: "posts rows d d'" "rows = [] \<or> paymentEvent rows \<or> cancellationEvent i rows"
    using commit_rows [OF assms(1,3)] .
  have "sum_list (map le_amount (filter (isFlow e) rows)) = 0" for e
    using rows(2) events_balance [of rows i e] by auto
  then show ?thesis using entries_posts(3) [OF rows(1)] assms(2) by (simp add: moneyConserved_def)
qed

interpretation money: system_invariant moneyConserved "\<lambda>_ _. True"
proof unfold_locales
  show "moneyConserved d" if "initialDb d" for d using that by (simp add: initialDb_def moneyConserved_def sumAmount_def)
  show "moneyConserved d'" if "attemptsOk d" "moneyConserved d" "True" "commit now t d = Inr d'" for d t now d'
    by (rule money_commit [OF that(1,2,4)])
qed (simp_all add: moneyConserved_def sumAmount_def)

text \<open>A refund or a cancellation fee is recorded at most once for an engagement, and only when it
  is CANCELLED.\<close>

definition cancelledAs :: "id \<Rightarrow> Engagement \<Rightarrow> bool" where
  "cancelledAs i e \<longleftrightarrow> eng_id e = i \<and> eng_status e = EngagementStatus.CANCELLED"

definition cancellationsOk :: "db \<Rightarrow> bool" where
  "cancellationsOk d \<longleftrightarrow> (\<forall>i. countWhere (isCancellationEntry i) (ledgerEntries d) \<le> countWhere (cancelledAs i) (engagements d))"

lemma cancelled_transition:
  assumes "transition S f i rows d d'" "\<And>e. inStatus S i e \<Longrightarrow> engagementEvolves e (f e)"
    and "rows = [] \<or> (\<forall>e. eng_status (f e) = EngagementStatus.CANCELLED) \<and> EngagementStatus.CANCELLED \<notin> S
      \<and> cancellationEvent i rows"
  shows "countWhere (cancelledAs e) (engagements d) + countWhere (isCancellationEntry e) rows
    \<le> countWhere (cancelledAs e) (engagements d')"
proof -
  let ?es = "engagements d"
  have eq: "engagements d' = updateMany (inStatus S i) f ?es" and one: "countWhere (inStatus S i) ?es = 1"
    using assms(1) transition_fields(14) [OF assms(1)] by (simp_all add: transition_def)
  have key: "inStatus S i r \<Longrightarrow> eng_id r = i \<and> eng_id (f r) = i" for r
    using assms(2) by (auto simp: engagementEvolves_def inStatus_def guard_def)
  show ?thesis
  proof (cases "rows \<noteq> [] \<and> e = i")
    case True
    then have c: "\<And>r. eng_status (f r) = EngagementStatus.CANCELLED" "EngagementStatus.CANCELLED \<notin> S"
        "countWhere (isCancellationEntry e) rows = 1"
      using assms(3) cancellationEvent_counts(1) by auto
    have "countWhere (cancelledAs i) (updateMany (inStatus S i) f ?es) =
        countWhere (cancelledAs i) ?es + countWhere (inStatus S i) ?es"
      by (rule countWhere_updateMany_in) (use c(1,2) key in \<open>auto simp: cancelledAs_def inStatus_def guard_def\<close>)
    then show ?thesis using True c(3) one eq by simp
  next
    case False
    then have zero: "countWhere (isCancellationEntry e) rows = 0"
      using assms(3) cancellationEvent_counts(1) by auto
    have "cancelledAs e (f r)" if "inStatus S i r" "cancelledAs e r" for r
      using assms(2) [OF that(1)] that(2) by (auto simp: cancelledAs_def engagementEvolves_def)
    then have "countWhere (cancelledAs e) es \<le> countWhere (cancelledAs e) (updateMany (inStatus S i) f es)" for es
      by (induction es) (auto simp: le_SucI)
    then show ?thesis using zero eq by simp
  qed
qed

lemma paidBy_keeps:
  assumes "paidBy es es'" "\<And>e m. P (e\<lparr>eng_paymentMethod := m\<rparr>) = P e"
  shows "countWhere P es' = countWhere P es"
  using assms by (auto simp: paidBy_def intro: countWhere_updateMany_keep)

lemma cancellations_commit:
  assumes "attemptsOk d" "cancellationsOk d" "commit now t d = Inr d'"
  shows "cancellationsOk d'"
proof (cases "isLifecycle t")
  case True
  then obtain S f i rows where tr: "transition S f i rows d d'" "\<And>e. inStatus S i e \<Longrightarrow> engagementEvolves e (f e)"
    "\<And>e. inStatus S i e \<Longrightarrow> engagementShape e \<Longrightarrow> engagementShape (f e)"
    "rows = [] \<or> (\<forall>e. eng_status (f e) = EngagementStatus.CANCELLED) \<and> EngagementStatus.CANCELLED \<notin> S
      \<and> cancellationEvent i rows"
    by (rule commit_transition [OF _ assms(3)]) blast
  have "countWhere (cancelledAs e) (engagements d) + countWhere (isCancellationEntry e) rows
      \<le> countWhere (cancelledAs e) (engagements d')" for e
    by (rule cancelled_transition [OF tr(1,2,4)])
  then show ?thesis using assms(2) entries_posts(2) [OF posts_transition [OF tr(1)]]
    unfolding cancellationsOk_def by (metis (no_types, lifting) add_mono_thms_linordered_semiring(3) le_trans)
next
  case False
  obtain rows where rows: "posts rows d d'" "rows = [] \<or> paymentEvent rows"
    by (rule commit_posts [OF assms(3,1) False])
  then have same: "countWhere (isCancellationEntry e) (ledgerEntries d') = countWhere (isCancellationEntry e) (ledgerEntries d)" for e
    using entries_posts(2) [OF rows(1)] paymentEvent_counts by auto
  from assms(3,1) False have "countWhere (cancelledAs e) (engagements d') = countWhere (cancelledAs e) (engagements d)" for e
  proof (cases rule: commit_engagements)
    case paid
    then show ?thesis by (rule paidBy_keeps) (simp add: cancelledAs_def)
  next
    case (hired a)
    then show ?thesis using acceptQuote_fields(10) [OF hired(2)] by (auto simp: cancelledAs_def)
  qed simp
  then show ?thesis using assms(2) same by (simp add: cancellationsOk_def)
qed

interpretation cancellations: system_invariant cancellationsOk "\<lambda>_ _. True"
proof unfold_locales
  show "cancellationsOk d" if "initialDb d" for d using that by (simp add: initialDb_def cancellationsOk_def)
  show "cancellationsOk d'" if "attemptsOk d" "cancellationsOk d" "True" "commit now t d = Inr d'" for d t now d'
    by (rule cancellations_commit [OF that(1,2,4)])
qed (simp_all add: cancellationsOk_def)

section \<open>Engagements\<close>

lemma engagements_commit:
  assumes "attemptsOk d" "engagementsOk d" "commit now t d = Inr d'"
  shows "engagementsOk d'"
proof (cases "isLifecycle t")
  case True
  then obtain S f i rows where tr: "transition S f i rows d d'" "\<And>e. inStatus S i e \<Longrightarrow> engagementEvolves e (f e)"
    "\<And>e. inStatus S i e \<Longrightarrow> engagementShape e \<Longrightarrow> engagementShape (f e)"
    "rows = [] \<or> (\<forall>e. eng_status (f e) = EngagementStatus.CANCELLED) \<and> EngagementStatus.CANCELLED \<notin> S
      \<and> cancellationEvent i rows"
    by (rule commit_transition [OF _ assms(3)]) blast
  show ?thesis
    by (rule engagementsOk_update [OF assms(2) transition_fields(14) [OF tr(1)] transition_fields(15) [OF tr(1)]])
       (use tr in auto)
next
  case False
  note n = evolves_nextId [OF commit_evolves [OF assms(1,3)]]
  from assms(3,1) False show ?thesis
  proof (cases rule: commit_engagements)
    case same
    show ?thesis by (rule engagementsOk_frame [OF assms(2) same n])
  next
    case paid
    then consider "engagements d' = engagements d" | i m where "engagements d' = updateMany
        (\<lambda>e. eng_id e = i \<and> eng_paymentMethod e = None) (\<lambda>e. e\<lparr>eng_paymentMethod := Some m\<rparr>) (engagements d)"
      by (auto simp: paidBy_def)
    then show ?thesis
    proof cases
      case 1
      show ?thesis by (rule engagementsOk_frame [OF assms(2) 1 n])
    next
      case 2
      show ?thesis by (rule engagementsOk_update [OF assms(2) 2 n])
          (simp_all add: setPaymentMethod_evolves setPaymentMethod_shape)
    qed
  next
    case (hired a)
    let ?d3 = "rejectTheOthers now a (acceptTheQuote now a (engageRequest a d))"
    obtain e where e: "createEngagement now (qa_serviceRequestId a) (qa_quoteId a) (qa_customerProfileId a)
        (qa_professionalProfileId a) ?d3 = Inr (e, d')"
      using hired(2) unfolding acceptQuote_effect by blast
    have "engagementsOk ?d3"
      by (rule engagementsOk_frame [OF assms(2)]) (simp_all add: rejectTheOthers_def acceptTheQuote_def engageRequest_def)
    then show ?thesis by (rule createEngagement_ok [OF _ e])
  qed
qed

interpretation lifecycle_shape: system_invariant engagementsOk "\<lambda>_ _. True"
proof unfold_locales
  show "engagementsOk d" if "initialDb d" for d using that by (simp add: initialDb_def engagementsOk_def)
  show "engagementsOk d'" if "attemptsOk d" "engagementsOk d" "True" "commit now t d = Inr d'" for d t now d'
    by (rule engagements_commit [OF that(1,2,4)])
qed (simp_all add: engagementsOk_def)

section \<open>Proposals\<close>

definition onePendingProposal :: "db \<Rightarrow> bool" where
  "onePendingProposal d \<longleftrightarrow> (\<forall>q. countWhere (isPendingProposalOf q) (priceProposals d) \<le> 1)"

lemma isPendingProposalOf_simps:
  "\<not> isPendingProposalOf q (p\<lparr>prop_status := QuotePriceProposalStatus.SUPERSEDED\<rparr>)"
  "isPendingProposalOf q p \<Longrightarrow> isPendingProposalOf q' p \<longleftrightarrow> q' = q"
  by (auto simp: isPendingProposalOf_def)

lemma supersede_count:
  "countWhere (isPendingProposalOf q') (updateMany (isPendingProposalOf q)
       (\<lambda>p. p\<lparr>prop_status := QuotePriceProposalStatus.SUPERSEDED\<rparr>) rows)
     = (if q' = q then 0 else countWhere (isPendingProposalOf q') rows)"
  by (induction rows) (auto simp: isPendingProposalOf_simps)

lemma proposals_commit:
  assumes "attemptsOk d" "onePendingProposal d" "commit now t d = Inr d'"
  shows "onePendingProposal d'"
  using assms(3,1)
proof (cases rule: commit_proposals)
  case same
  then show ?thesis using assms(2) by (simp add: onePendingProposal_def)
next
  case (posted q p)
  let ?rows = "updateMany (isPendingProposalOf q) (\<lambda>p. p\<lparr>prop_status := QuotePriceProposalStatus.SUPERSEDED\<rparr>) (priceProposals d)"
  have "countWhere (isPendingProposalOf q') ?rows = (if q' = q then 0 else countWhere (isPendingProposalOf q') (priceProposals d))" for q'
    by (rule supersede_count)
  then show ?thesis using assms(2) posted by (simp add: onePendingProposal_def isPendingProposalOf_def)
next
  case (resolved i s c p)
  have "countWhere (isPendingProposalOf q) (updateMany (isPendingProposal i) (resolveProposalRow now s c p) rows)
      \<le> countWhere (isPendingProposalOf q) rows" for q rows
    using resolved(2) by (induction rows) (auto simp: isPendingProposalOf_def resolveProposalRow_def le_SucI)
  then show ?thesis using assms(2) resolved(1) le_trans unfolding onePendingProposal_def by metis
qed

interpretation negotiation: system_invariant onePendingProposal "\<lambda>_ _. True"
proof unfold_locales
  show "onePendingProposal d" if "initialDb d" for d using that by (simp add: initialDb_def onePendingProposal_def)
  show "onePendingProposal d'" if "attemptsOk d" "onePendingProposal d" "True" "commit now t d = Inr d'" for d t now d'
    by (rule proposals_commit [OF that(1,2,4)])
qed (simp_all add: onePendingProposal_def)

end
