(* ===== verification/Hiring.thy ===== *)
theory Hiring
  imports System
begin

text \<open>
  Hiring and reviewing in the running system.  Hiring is one transaction over four tables, and the
  invariant says that its four results never come apart: the engagements, the ACCEPTED quotes and
  the ENGAGED service requests are in step, with the same parties.  A review is written only on a
  COMPLETED engagement, once by each party.
\<close>

section \<open>Hiring\<close>

definition hiredFrom :: "Engagement \<Rightarrow> Quote \<Rightarrow> bool" where
  "hiredFrom e q \<longleftrightarrow> q_id q = eng_quoteId e \<and> q_status q = QuoteStatus.ACCEPTED
     \<and> q_serviceRequestId q = eng_serviceRequestId e \<and> q_professionalProfileId q = eng_professionalProfileId e"

definition hiredFor :: "Engagement \<Rightarrow> ServiceRequest \<Rightarrow> bool" where
  "hiredFor e s \<longleftrightarrow> sr_id s = eng_serviceRequestId e \<and> sr_status s = ServiceRequestStatus.ENGAGED
     \<and> sr_acceptedQuoteId s = Some (eng_quoteId e) \<and> sr_customerProfileId s = eng_customerProfileId e"

definition hiringOk :: "db \<Rightarrow> bool" where
  "hiringOk d \<longleftrightarrow>
     (\<forall>e\<in>set (engagements d). (\<exists>q\<in>set (quotes d). hiredFrom e q) \<and> (\<exists>s\<in>set (serviceRequests d). hiredFor e s))
     \<and> (\<forall>q\<in>set (quotes d). q_status q = QuoteStatus.ACCEPTED \<longrightarrow> (\<exists>e\<in>set (engagements d). eng_quoteId e = q_id q))
     \<and> (\<forall>s\<in>set (serviceRequests d). sr_status s = ServiceRequestStatus.ENGAGED \<longrightarrow>
          (\<exists>e\<in>set (engagements d). eng_serviceRequestId e = sr_id s))"

text \<open>What an acceptance captured of the quote and of the request.\<close>

definition acceptanceCaptured :: "db \<Rightarrow> inflight \<Rightarrow> bool" where
  "acceptanceCaptured d t = (case t of TxAcceptQuote a \<Rightarrow>
       qa_quoteId a < nextId d \<and> qa_serviceRequestId a < nextId d
       \<and> (\<forall>q\<in>set (quotes d). q_id q = qa_quoteId a \<longrightarrow> q_serviceRequestId q = qa_serviceRequestId a
            \<and> q_professionalProfileId q = qa_professionalProfileId a)
       \<and> (\<forall>s\<in>set (serviceRequests d). sr_id s = qa_serviceRequestId a \<longrightarrow> sr_customerProfileId s = qa_customerProfileId a)
     | _ \<Rightarrow> True)"

lemma acceptance_begin:
  assumes "keysOk d" "acceptQuote_pre d u i = Inr a"
  shows "acceptanceCaptured d (TxAcceptQuote a)"
proof -
  obtain q s where q: "findQuoteById d i = Some q" and s: "findServiceRequestById d (q_serviceRequestId q) = Some s"
    and a: "qa_serviceRequestId a = sr_id s" "qa_quoteId a = q_id q" "qa_customerProfileId a = sr_customerProfileId s"
      "qa_professionalProfileId a = q_professionalProfileId q"
    using assms(2) by (auto simp: acceptQuote_pre_def split: option.splits if_splits)
  have mem: "q \<in> set (quotes d)" "s \<in> set (serviceRequests d)" "sr_id s = q_serviceRequestId q"
    using q s findRow_SomeD by (fastforce simp: findQuoteById_def findServiceRequestById_def)+
  have k: "keyed q_id (nextId d) (quotes d)" "keyed sr_id (nextId d) (serviceRequests d)"
    using assms(1) by (simp_all add: keysOk_def)
  have "\<forall>r\<in>set (quotes d). q_id r = q_id q \<longrightarrow> q_serviceRequestId r = sr_id s
      \<and> q_professionalProfileId r = q_professionalProfileId q"
    using keyed_unique [OF k(1) _ mem(1)] mem(3) by metis
  moreover have "\<forall>r\<in>set (serviceRequests d). sr_id r = sr_id s \<longrightarrow> sr_customerProfileId r = sr_customerProfileId s"
    using keyed_unique [OF k(2) _ mem(2)] by metis
  moreover have "q_id q < nextId d" "sr_id s < nextId d"
    using mem k by (auto simp: keyed_def)
  ultimately show ?thesis by (simp add: acceptanceCaptured_def a)
qed

lemma acceptance_stable:
  assumes "evolves d d'" "acceptanceCaptured d t"
  shows "acceptanceCaptured d' t"
proof (cases t)
  case (TxAcceptQuote a)
  have e: "ext quoteEvolves q_id quotes d d'" "ext requestEvolves sr_id serviceRequests d d'"
    using assms(1) by (simp_all add: evolves_def)
  have "\<forall>q\<in>set (quotes d'). q_id q = qa_quoteId a \<longrightarrow> q_serviceRequestId q = qa_serviceRequestId a
      \<and> q_professionalProfileId q = qa_professionalProfileId a"
    using assms(2) TxAcceptQuote
    by (intro ext_captured [OF e(1)]) (auto simp: acceptanceCaptured_def quoteEvolves_def)
  moreover have "\<forall>s\<in>set (serviceRequests d'). sr_id s = qa_serviceRequestId a
      \<longrightarrow> sr_customerProfileId s = qa_customerProfileId a"
    using assms(2) TxAcceptQuote
    by (intro ext_captured [OF e(2)]) (auto simp: acceptanceCaptured_def requestEvolves_def)
  ultimately show ?thesis
    using assms TxAcceptQuote evolves_nextId [OF assms(1)] by (auto simp: acceptanceCaptured_def)
qed (simp_all add: acceptanceCaptured_def)

text \<open>Only an acceptance makes a quote ACCEPTED, a request ENGAGED or a new engagement.\<close>

lemma commit_quotes:
  assumes "commit now t d = Inr d'" "attemptsOk d" "\<forall>a. t \<noteq> TxAcceptQuote a"
  obtains (updated) p f where "quotes d' = updateMany p f (quotes d)" "\<And>q. q_id (f q) = q_id q"
      "\<And>q. q_status (f q) = QuoteStatus.ACCEPTED \<Longrightarrow> q_status q = QuoteStatus.ACCEPTED"
  | (created) q where "quotes d' = quotes d @ [q]" "q_status q = QuoteStatus.SENT"
proof -
  have same: thesis if "quotes d' = quotes d"
    by (rule updated [of "\<lambda>_. False" "\<lambda>q. q"]) (simp_all add: that updateMany_id)
  consider (life) "isLifecycle t" | (sub) sr prof price m where "t = TxSubmitQuote sr prof price m"
    | (wd) i where "t = TxWithdrawQuote i" | (rej) i where "t = TxRejectQuote i"
    | (acc) c where "t = TxAcceptProposal c"
    | (other) "\<not> isLifecycle t" "\<forall>sr prof price m. t \<noteq> TxSubmitQuote sr prof price m"
       "\<forall>i. t \<noteq> TxWithdrawQuote i" "\<forall>i. t \<noteq> TxRejectQuote i" "\<forall>c. t \<noteq> TxAcceptProposal c"
    by blast
  then show thesis
  proof cases
    case life
    then show thesis using same assms(1) by (metis commit_transition transition_fields(1))
  next
    case sub
    then show thesis using assms(1) created [of "fst (createQuote now sr prof price m d)"]
      by (auto simp: createQuote_def Let_def)
  next
    case wd
    then show thesis using assms(1) updated [of "isSent i" "withdrawQuoteRow now"]
      by (auto simp: withdrawQuoteRow_def dest!: quote_tx_fields)
  next
    case rej
    then show thesis using assms(1) updated [of "isSent i" "rejectQuoteRow now"]
      by (auto simp: rejectQuoteRow_def dest!: quote_tx_fields)
  next
    case acc
    then have "acceptProposal_tx now c d = Inr d'" using assms(1) by simp
    from acceptProposal_fields(1) [OF this] show thesis
      by (intro updated [of "\<lambda>q. q_id q = prop_quoteId (fst c)"
            "\<lambda>q. q\<lparr>q_negotiatedPrice := Some (prop_proposedPrice (fst c))\<rparr>"]) simp_all
  next
    case other
    have "quotes d' = quotes d"
      using assms other by (cases t) (auto simp: commit_simps dest: publish_fields cancelRequest_fields
        postMessage_fields rejectProposal_fields sendMessage_fields openAttempt_fields cash_fields(2)
        apply_fields(2) review_fields)
    then show thesis by (rule same)
  qed
qed

lemma only_acceptance_quotes:
  assumes "commit now t d = Inr d'" "attemptsOk d" "\<forall>a. t \<noteq> TxAcceptQuote a"
    and "q \<in> set (quotes d')" "q_status q = QuoteStatus.ACCEPTED"
  shows "\<exists>r\<in>set (quotes d). q_id r = q_id q \<and> q_status r = QuoteStatus.ACCEPTED"
  using assms(1-3)
proof (cases rule: commit_quotes)
  case (updated p f)
  then show ?thesis using assms(4,5) by (auto simp: set_updateMany)
next
  case (created r)
  then show ?thesis using assms(4,5) by auto
qed

lemma only_acceptance_requests:
  assumes "commit now t d = Inr d'" "attemptsOk d" "\<forall>a. t \<noteq> TxAcceptQuote a"
    and "s \<in> set (serviceRequests d')" "sr_status s = ServiceRequestStatus.ENGAGED"
  shows "s \<in> set (serviceRequests d)"
proof -
  consider (life) "isLifecycle t" | (pub) params where "t = TxPublish params"
    | (can) i existing where "t = TxCancelRequest i existing"
    | (other) "\<not> isLifecycle t" "\<forall>params. t \<noteq> TxPublish params" "\<forall>i existing. t \<noteq> TxCancelRequest i existing"
    by blast
  then show ?thesis
  proof cases
    case life
    then have "serviceRequests d' = serviceRequests d" using assms(1) by (metis commit_transition transition_fields(2))
    then show ?thesis using assms(4) by simp
  next
    case pub
    then obtain sr where "publish_tx now params d = Inr (sr, d')" using assms(1) by (auto simp: mapR_Inr_iff)
    from publish_fields(10,12) [OF this] show ?thesis using assms(4,5) by auto
  next
    case can
    then have "cancelServiceRequest_tx now i existing d = Inr d'" using assms(1) by simp
    from cancelRequest_fields [OF this] show ?thesis
      using assms(4,5) by (auto simp: set_updateMany cancelRequestRow_def)
  next
    case other
    have "serviceRequests d' = serviceRequests d"
      using assms(1-3) other by (cases t) (auto simp: commit_simps dest: quote_tx_fields postMessage_fields
        acceptProposal_fields rejectProposal_fields sendMessage_fields openAttempt_fields cash_fields(1)
        apply_fields(1) review_fields)
    then show ?thesis using assms(4) by simp
  qed
qed

text \<open>One commit moves an engagement by at most one transition of the state machine.\<close>

lemma commit_one_transition:
  assumes "commit now t d = Inr d'" "attemptsOk d"
  shows "extends engagementEvolves eng_id (nextId d) (nextId d') (engagements d) (engagements d')"
proof (cases "isLifecycle t")
  case True
  then obtain S f i rows where tr: "transition S f i rows d d'" "\<And>e. inStatus S i e \<Longrightarrow> engagementEvolves e (f e)"
    by (rule commit_transition [OF _ assms(1)]) blast
  show ?thesis unfolding transition_fields(14) [OF tr(1)]
    using tr(2) by (intro extends_updateMany) auto
next
  case False
  from assms this show ?thesis
  proof (cases rule: commit_engagements)
    case same
    then show ?thesis by (simp add: extends_refl)
  next
    case paid
    then show ?thesis unfolding paidBy_def
      by (auto intro!: extends_updateMany setPaymentMethod_evolves simp: extends_refl)
  next
    case (hired a)
    then show ?thesis using acceptQuote_fields(9,10) [OF hired(2)]
      by (auto intro!: extends_append)
  qed
qed

lemma paidBy_origin:
  assumes "paidBy es es'" "e \<in> set es'"
  shows "\<exists>f\<in>set es. engagementEvolves f e"
proof -
  consider "es' = es" | i m where "es' = updateMany (\<lambda>e. eng_id e = i \<and> eng_paymentMethod e = None)
      (\<lambda>e. e\<lparr>eng_paymentMethod := Some m\<rparr>) es"
    using assms(1) by (auto simp: paidBy_def)
  then show ?thesis
  proof cases
    case 1
    then show ?thesis using assms(2) by (auto intro: bexI [of _ e])
  next
    case 2
    then show ?thesis using assms(2) setPaymentMethod_evolves by (auto simp: set_updateMany intro: bexI [of _ e])
  qed
qed

lemma only_acceptance_engagements:
  assumes "commit now t d = Inr d'" "attemptsOk d" "\<forall>a. t \<noteq> TxAcceptQuote a" "e \<in> set (engagements d')"
  shows "\<exists>f\<in>set (engagements d). engagementEvolves f e"
proof (cases "isLifecycle t")
  case True
  then obtain S f i rows where tr: "transition S f i rows d d'" "\<And>e. inStatus S i e \<Longrightarrow> engagementEvolves e (f e)"
    by (rule commit_transition [OF _ assms(1)]) blast
  have "e \<in> set (updateMany (inStatus S i) f (engagements d))"
    using assms(4) unfolding transition_fields(14) [OF tr(1)] .
  then show ?thesis using tr(2) engagementEvolves_refl unfolding set_updateMany by blast
next
  case False
  from assms(1,2) this show ?thesis
  proof (cases rule: commit_engagements)
    case same
    then show ?thesis using assms(4) by (metis engagementEvolves_refl)
  next
    case paid
    then show ?thesis using assms(4) paidBy_origin by blast
  next
    case (hired a)
    then show ?thesis using assms(3) by simp
  qed
qed

text \<open>The parties of an engagement and what it was hired from survive every evolution.\<close>

lemma ext_keeps:
  assumes "ext R k table d d'" "r \<in> set (table d)" "P r" "\<And>a b. R a b \<Longrightarrow> P a \<Longrightarrow> P b"
  shows "\<exists>s\<in>set (table d'). P s"
proof -
  obtain s where s: "s \<in> set (table d')" "R\<^sup>*\<^sup>* r s" using ext_row [OF assms(1,2)] by blast
  have "P s" using s(2) assms(3) by (induction rule: rtranclp_induct) (auto intro: assms(4))
  then show ?thesis using s(1) by blast
qed

lemma hired_persists:
  assumes "evolves d d'"
  shows "\<exists>q\<in>set (quotes d). hiredFrom e q \<Longrightarrow> \<exists>q\<in>set (quotes d'). hiredFrom e q"
    and "\<exists>s\<in>set (serviceRequests d). hiredFor e s \<Longrightarrow> \<exists>s\<in>set (serviceRequests d'). hiredFor e s"
    and "\<exists>e\<in>set (engagements d). eng_quoteId e = i \<Longrightarrow> \<exists>e\<in>set (engagements d'). eng_quoteId e = i"
    and "\<exists>e\<in>set (engagements d). eng_serviceRequestId e = i \<Longrightarrow> \<exists>e\<in>set (engagements d'). eng_serviceRequestId e = i"
proof -
  note e = assms [unfolded evolves_def]
  show "\<exists>q\<in>set (quotes d). hiredFrom e q \<Longrightarrow> \<exists>q\<in>set (quotes d'). hiredFrom e q"
    using e by (elim bexE, intro ext_keeps [of quoteEvolves q_id quotes d d']) (auto simp: hiredFrom_def quoteEvolves_def)
  show "\<exists>s\<in>set (serviceRequests d). hiredFor e s \<Longrightarrow> \<exists>s\<in>set (serviceRequests d'). hiredFor e s"
    using e by (elim bexE, intro ext_keeps [of requestEvolves sr_id serviceRequests d d']) (auto simp: hiredFor_def requestEvolves_def)
  show "\<exists>e\<in>set (engagements d). eng_quoteId e = i \<Longrightarrow> \<exists>e\<in>set (engagements d'). eng_quoteId e = i"
    using e by (elim bexE, intro ext_keeps [of engagementEvolves eng_id engagements d d']) (auto simp: engagementEvolves_def)
  show "\<exists>e\<in>set (engagements d). eng_serviceRequestId e = i \<Longrightarrow> \<exists>e\<in>set (engagements d'). eng_serviceRequestId e = i"
    using e by (elim bexE, intro ext_keeps [of engagementEvolves eng_id engagements d d']) (auto simp: engagementEvolves_def)
qed

lemma hired_same_row:
  assumes "engagementEvolves f e"
  shows "hiredFrom f = hiredFrom e" "hiredFor f = hiredFor e"
  using assms by (auto simp: engagementEvolves_def hiredFrom_def hiredFor_def)

lemma hiring_commit_other:
  assumes "attemptsOk d" "hiringOk d" "commit now t d = Inr d'" "\<forall>a. t \<noteq> TxAcceptQuote a"
  shows "hiringOk d'"
proof -
  note ev = commit_evolves [OF assms(1,3)]
  have "(\<exists>q\<in>set (quotes d'). hiredFrom e q) \<and> (\<exists>s\<in>set (serviceRequests d'). hiredFor e s)"
    if "e \<in> set (engagements d')" for e
    using only_acceptance_engagements [OF assms(3,1,4) that] assms(2) hired_persists [OF ev]
    by (metis hired_same_row hiringOk_def)
  moreover have "\<exists>e\<in>set (engagements d'). eng_quoteId e = q_id q"
    if "q \<in> set (quotes d')" "q_status q = QuoteStatus.ACCEPTED" for q
    using only_acceptance_quotes [OF assms(3,1,4) that] assms(2) hired_persists(3) [OF ev]
    by (metis hiringOk_def)
  moreover have "\<exists>e\<in>set (engagements d'). eng_serviceRequestId e = sr_id s"
    if "s \<in> set (serviceRequests d')" "sr_status s = ServiceRequestStatus.ENGAGED" for s
    using only_acceptance_requests [OF assms(3,1,4) that] assms(2) hired_persists(4) [OF ev] that(2)
    by (metis hiringOk_def)
  ultimately show ?thesis by (simp add: hiringOk_def)
qed

text \<open>The acceptance itself: one engagement, one ACCEPTED quote, one ENGAGED request.\<close>

lemma accepted_quote_row:
  assumes "q \<in> set (quotes d)" "isAcceptable a q"
  shows "acceptQuoteRow now q \<in> set (quotes (rejectTheOthers now a (acceptTheQuote now a d)))"
proof -
  have "acceptQuoteRow now q \<in> set (quotes (acceptTheQuote now a d))"
    using assms by (auto simp: acceptTheQuote_def set_updateMany)
  moreover have "\<not> isSentSibling (qa_serviceRequestId a) (qa_quoteId a) (acceptQuoteRow now q)"
    by (simp add: isSentSibling_def acceptQuoteRow_def)
  ultimately show ?thesis by (auto simp: rejectTheOthers_def set_updateMany)
qed

lemma accepted_after:
  assumes "q \<in> set (quotes (rejectTheOthers now a (acceptTheQuote now a d)))" "q_status q = QuoteStatus.ACCEPTED"
  shows "q_id q = qa_quoteId a \<or> q \<in> set (quotes d)"
  using assms by (auto simp: rejectTheOthers_def acceptTheQuote_def set_updateMany rejectQuoteRow_def
      acceptQuoteRow_def isAcceptable_def guard_def)

lemma hiring_commit_acceptance:
  assumes "attemptsOk d" "hiringOk d" "acceptanceCaptured d (TxAcceptQuote a)" "acceptQuote_tx now a d = Inr d'"
  shows "hiringOk d'"
proof -
  have ev: "evolves d d'" by (rule acceptQuote_evolves [OF assms(4)])
  note fs = acceptQuote_fields [OF assms(4)]
  obtain e where e: "engagements d' = engagements d @ [e]" "eng_serviceRequestId e = qa_serviceRequestId a"
      "eng_quoteId e = qa_quoteId a" "eng_customerProfileId e = qa_customerProfileId a"
      "eng_professionalProfileId e = qa_professionalProfileId a"
    using fs(10) by blast
  have counts: "countWhere (isOpen (qa_serviceRequestId a)) (serviceRequests d) = 1"
      "countWhere (isAcceptable a) (quotes d) = 1"
    using assms(4) unfolding acceptQuote_effect by blast+
  obtain q where q: "q \<in> set (quotes d)" "isAcceptable a q"
    using counts(2) countWhere_0_iff [of "isAcceptable a" "quotes d"] by auto
  obtain s where s: "s \<in> set (serviceRequests d)" "isOpen (qa_serviceRequestId a) s"
    using counts(1) countWhere_0_iff [of "isOpen (qa_serviceRequestId a)" "serviceRequests d"] by auto
  have "hiredFrom e (acceptQuoteRow now q)"
    using q e assms(3) by (auto simp: hiredFrom_def acceptQuoteRow_def isAcceptable_def guard_def acceptanceCaptured_def)
  then have new_q: "\<exists>q\<in>set (quotes d'). hiredFrom e q"
    using accepted_quote_row [OF q] unfolding fs(8) by blast
  have "hiredFor e (engageRequestRow (qa_quoteId a) s)"
    using s e assms(3) by (auto simp: hiredFor_def engageRequestRow_def guard_def acceptanceCaptured_def)
  moreover have "engageRequestRow (qa_quoteId a) s \<in> set (serviceRequests d')"
    using s unfolding fs(7) engageRequest_def by (auto simp: set_updateMany)
  ultimately have new_s: "\<exists>s\<in>set (serviceRequests d'). hiredFor e s" by blast
  have "(\<exists>q\<in>set (quotes d'). hiredFrom g q) \<and> (\<exists>s\<in>set (serviceRequests d'). hiredFor g s)"
    if "g \<in> set (engagements d')" for g
    using that new_q new_s assms(2) hired_persists(1,2) [OF ev] unfolding e(1) hiringOk_def by auto
  moreover have "\<exists>g\<in>set (engagements d'). eng_quoteId g = q_id r"
    if "r \<in> set (quotes d')" "q_status r = QuoteStatus.ACCEPTED" for r
    using accepted_after [of r now a d] that assms(2) e(1,3) unfolding fs(8) hiringOk_def by auto
  moreover have "\<exists>g\<in>set (engagements d'). eng_serviceRequestId g = sr_id r"
    if "r \<in> set (serviceRequests d')" "sr_status r = ServiceRequestStatus.ENGAGED" for r
    using that assms(2) e(1,2) unfolding fs(7) engageRequest_def hiringOk_def
    by (auto simp: set_updateMany engageRequestRow_def guard_def)
  ultimately show ?thesis by (simp add: hiringOk_def)
qed

definition hiringInvariant :: "db \<Rightarrow> bool" where
  "hiringInvariant d \<longleftrightarrow> keysOk d \<and> hiringOk d"

interpretation hiring: system_invariant hiringInvariant acceptanceCaptured
proof unfold_locales
  show "hiringInvariant d" if "initialDb d" for d
    using that keys.initial by (simp add: hiringInvariant_def hiringOk_def initialDb_def)
  show "acceptanceCaptured d t" if "hiringInvariant d" "begin_request now prov req d = Inr t" for d now prov req t
    using that acceptance_begin by (cases req) (auto simp: hiringInvariant_def mapR_Inr_iff acceptanceCaptured_def [of _ "TxStart e" for e]
      acceptanceCaptured_def split: inflight.splits)
  show "acceptanceCaptured d' t" if "evolves d d'" "acceptanceCaptured d t" for d d' t
    using that by (rule acceptance_stable)
  show "hiringInvariant d'" if "attemptsOk d" "hiringInvariant d" "acceptanceCaptured d t" "commit now t d = Inr d'" for d t now d'
  proof -
    have "keysOk d'" using keys.committed that by (simp add: hiringInvariant_def)
    moreover have "hiringOk d'"
    proof (cases "\<exists>a. t = TxAcceptQuote a")
      case True
      then show ?thesis using hiring_commit_acceptance that by (auto simp: hiringInvariant_def)
    next
      case False
      then show ?thesis using hiring_commit_other that by (auto simp: hiringInvariant_def)
    qed
    ultimately show ?thesis by (simp add: hiringInvariant_def)
  qed
  show "hiringInvariant (d\<lparr>platformSettings := s\<rparr>)" if "hiringInvariant d" for d s
    using that keys.configured by (simp add: hiringInvariant_def hiringOk_def)
qed

section \<open>Reviews\<close>

definition reviewsOk :: "db \<Rightarrow> bool" where
  "reviewsOk d \<longleftrightarrow> distinct (map (\<lambda>r. (rv_engagementId r, rv_authorRole r)) (reviews d))
     \<and> (\<forall>r\<in>set (reviews d). 1 \<le> rv_rating r \<and> rv_rating r \<le> 5
          \<and> (\<exists>e\<in>set (engagements d). eng_id e = rv_engagementId r \<and> eng_status e = EngagementStatus.COMPLETED))"

definition reviewCaptured :: "db \<Rightarrow> inflight \<Rightarrow> bool" where
  "reviewCaptured d t = (case t of TxReview i party rating c \<Rightarrow> validRating rating
       \<and> (\<exists>e\<in>set (engagements d). eng_id e = i \<and> eng_status e = EngagementStatus.COMPLETED)
     | _ \<Rightarrow> True)"

lemma completed_persists:
  assumes "evolves d d'" "\<exists>e\<in>set (engagements d). eng_id e = i \<and> eng_status e = EngagementStatus.COMPLETED"
  shows "\<exists>e\<in>set (engagements d'). eng_id e = i \<and> eng_status e = EngagementStatus.COMPLETED"
  using assms by (elim bexE, intro ext_keeps [of engagementEvolves eng_id engagements d d'])
    (auto simp: evolves_def engagementEvolves_def)

lemma validRating_floor: "validRating r \<Longrightarrow> 1 \<le> \<lfloor>r\<rfloor> \<and> \<lfloor>r\<rfloor> \<le> 5"
  by (auto simp: validRating_def le_floor_iff floor_le_iff)

lemma review_begin:
  assumes "submitReview_pre d u i rating c = Inr party"
  shows "reviewCaptured d (TxReview i party rating c)"
proof -
  have "review_tryResolveParty d u i = Some party" "validRating rating"
      "eng_status (party_engagement party) = EngagementStatus.COMPLETED"
    using assms by (auto simp: submitReview_pre_def andThen_Inr_iff orThrow_Inr_iff split: if_splits)
  then show ?thesis
    using review_access.resolve_engagement [of d u i party] findEngagementById_SomeD [of d i]
    by (auto simp: reviewCaptured_def)
qed

lemma reviews_commit:
  assumes "attemptsOk d" "reviewsOk d" "reviewCaptured d t" "commit now t d = Inr d'"
  shows "reviewsOk d'"
proof -
  note ev = commit_evolves [OF assms(1,4)]
  from assms(4,1) show ?thesis
  proof (cases rule: commit_reviews)
    case same
    then show ?thesis using assms(2) completed_persists [OF ev] by (simp add: reviewsOk_def)
  next
    case (submitted i party rating c r)
    note f = review_fields [OF submitted(2)]
    have rv: "reviews d' = reviews d @ [r]" and en: "engagements d' = engagements d" by (simp_all add: f(1))
    show ?thesis
      using assms(2,3) f(3-6) validRating_floor submitted(1)
      by (auto simp: reviewsOk_def reviewCaptured_def rv en)
  qed
qed

interpretation reviewing: system_invariant reviewsOk reviewCaptured
proof unfold_locales
  show "reviewsOk d" if "initialDb d" for d using that by (simp add: initialDb_def reviewsOk_def)
  show "reviewCaptured d t" if "begin_request now prov req d = Inr t" for d now prov req t
    using that review_begin by (cases req) (auto simp: mapR_Inr_iff reviewCaptured_def split: inflight.splits)
  show "reviewCaptured d' t" if "evolves d d'" "reviewCaptured d t" for d d' t
    using that(2) completed_persists [OF that(1)] by (cases t) (simp_all add: reviewCaptured_def)
  show "reviewsOk d'" if "attemptsOk d" "reviewsOk d" "reviewCaptured d t" "commit now t d = Inr d'" for d t now d'
    using that by (rule reviews_commit)
qed (simp add: reviewsOk_def)

end
