(* ===== verification/Scenario.thy ===== *)
theory Scenario
  imports Hiring
begin

text \<open>
  Concrete runs.  \<^theory_text>\<open>serve\<close> handles one request from beginning to commit, which is
  how an uncontended service call runs; a script of requests is folded over a small database with a
  customer, two professionals and the settings the services read.  The states it reaches are
  reachable states of the system, and the properties are instantiated on them.
\<close>

definition serve :: "time \<Rightarrow> Provider \<Rightarrow> request \<Rightarrow> db \<Rightarrow> err + db" where
  "serve now prov req d = andThen (begin_request now prov req d) (\<lambda>t. commit now t d)"

fun run :: "Provider \<Rightarrow> (time \<times> request) list \<Rightarrow> db \<Rightarrow> db" where
  "run prov [] d = d"
| "run prov ((now, req) # script) d =
     (case serve now prov req d of Inl e \<Rightarrow> run prov script d | Inr d' \<Rightarrow> run prov script d')"

lemma serve_steps:
  assumes "reach (d, ts)" "serve now prov req d = Inr d'"
  shows "reach (d', ts)"
proof -
  obtain t where t: "begin_request now prov req d = Inr t" "commit now t d = Inr d'"
    using assms(2) by (auto simp: serve_def andThen_Inr_iff)
  have 1: "reach (d, t # ts)" by (rule reach.Step [OF assms(1) step.Begin [OF t(1)]])
  have "step (d, t # ts) (d', remove1 t (t # ts))"
    by (rule step.Commit [OF _ t(2)]) simp
  then show ?thesis using reach.Step [OF 1] by simp
qed

lemma run_reach: "reach (d, ts) \<Longrightarrow> reach (run prov script d, ts)"
  by (induction prov script d rule: run.induct) (auto intro: serve_steps split: sum.split)

lemma run_steps: "step\<^sup>*\<^sup>* (d, ts) (run prov script d, ts)"
proof (induction prov script d rule: run.induct)
  case (2 prov now req script d)
  show ?case
  proof (cases "serve now prov req d")
    case (Inr d')
    obtain t where t: "begin_request now prov req d = Inr t" "commit now t d = Inr d'"
      using Inr by (auto simp: serve_def andThen_Inr_iff)
    have "step (d, ts) (d, t # ts)" by (rule step.Begin [OF t(1)])
    moreover have "step (d, t # ts) (d', ts)"
      using step.Commit [of t "t # ts", OF _ t(2)] by simp
    ultimately show ?thesis using 2 Inr
      by (auto intro: converse_rtranclp_into_rtranclp)
  qed (use 2 in auto)
qed simp

lemma run_append: "run prov (xs @ ys) d = run prov ys (run prov xs d)"
  by (induction prov xs d rule: run.induct) (auto split: sum.split)

lemma committed: "\<not> isl m \<Longrightarrow> m = Inr (projr m)"
  by simp

definition setting :: "string \<Rightarrow> PlatformSettingValueType \<Rightarrow> string \<Rightarrow> PlatformSetting" where
  "setting key t v = \<lparr>ps_key = key, ps_valueType = t, ps_isEncrypted = False, ps_isPublic = False,
     ps_value = Some v, ps_secret = None\<rparr>"

definition demoProfessional :: "id \<Rightarrow> id \<Rightarrow> string \<Rightarrow> ProfessionalProfile" where
  "demoProfessional i u name = \<lparr>pp_id = i, pp_userId = u, pp_firstName = name, pp_lastName = ''P'', pp_displayName = None,
     pp_country = AR, pp_bio = [], pp_photoUrl = None, pp_languages = [], pp_verificationStatus = UNVERIFIED,
     pp_locationSharingEnabled = False, pp_noShowReportedCount = 0,
     pp_specializations = [\<lparr>spec_categoryId = 20, spec_role = PRIMARY, spec_description = [],
       spec_yearsOfExperience = None, spec_order = 0\<rparr>]\<rparr>"

definition demoDb :: db where
  "demoDb = emptyDb\<lparr>nextId := 100,
     users := [\<lparr>user_id = 1, user_email = ''a@x''\<rparr>, \<lparr>user_id = 2, user_email = ''b@x''\<rparr>, \<lparr>user_id = 3, user_email = ''c@x''\<rparr>],
     customerProfiles := [\<lparr>cp_id = 11, cp_userId = 1, cp_firstName = ''Ana'', cp_lastName = ''A'', cp_country = AR,
       cp_photoUrl = None, cp_locationSharingEnabled = False, cp_noShowReportedCount = 0\<rparr>],
     professionalProfiles := [demoProfessional 12 2 ''Bruno'', demoProfessional 13 3 ''Carla''],
     categories := [\<lparr>cat_id = 20, cat_name = ''plumbing'', cat_displayOrder = 0, cat_parentId = None\<rparr>],
     platformSettings := [setting COMMISSION_PERCENT_SETTING_KEY NUMBER ''10'',
       setting CUSTOMER_CAN_PROPOSE_KEY BOOLEAN ''true'']\<rparr>"

definition demoProvider :: Provider where
  "demoProvider = \<lparr>chargeCard = (\<lambda>_. ChargeUnavailable), getPayment = (\<lambda>_ _. SnapshotUnavailable),
     getPaymentByPaymentId = (\<lambda>_ _. SnapshotUnavailable), getTransactionDetails = (\<lambda>_ _ _. None),
     createWalletPreference = (\<lambda>_. WalletUnavailable)\<rparr>"

definition hireScript :: "(time \<times> request) list" where
  "hireScript =
     [(1, PublishRequest 1 \<lparr>psr_category = 20, psr_description = ''leak'', psr_indicativeBudgetMin = Undefined,
            psr_indicativeBudgetMax = Undefined, psr_attachmentUploadRefs = []\<rparr>),
      (2, SubmitQuote 2 100 10000 ''tomorrow''), (3, SubmitQuote 3 100 12000 ''today''),
      (4, PostNegotiation 1 101 \<lparr>pm_message = ''less'', pm_proposedPrice = Some 9000, pm_mediaUploadRefId = None\<rparr>),
      (5, AcceptProposal 2 104), (6, AcceptQuote 1 101)]"

definition workScript :: "(time \<times> request) list" where
  "workScript = [(7, ProposeAppointment 1 105 1000 2000), (8, AcceptAppointment 2 106), (9, StartWork 2 105)]"

definition payScript :: "(time \<times> request) list" where
  "payScript = [(10, FinishWork 2 105), (11, ConfirmCompletion 1 105), (12, OpenWalletAttempt 1 105),
     (13, ApplyProviderResult 107 \<lparr>res_status = approved, res_providerPaymentId = Some ''p1'', res_rejectionReason = None\<rparr>),
     (14, SubmitReview 1 105 5 None), (15, SubmitReview 2 105 4 None)]"

definition hiredDb :: db where "hiredDb = run demoProvider hireScript demoDb"
definition startedDb :: db where "startedDb = run demoProvider workScript hiredDb"
definition paidDb :: db where "paidDb = run demoProvider payScript startedDb"
definition cancelledDb :: db where
  "cancelledDb = run demoProvider [(10, CancelByCustomer 1 105 ''sick'')] startedDb"

definition quotedDb :: db where
  "quotedDb = run demoProvider (take 3 hireScript) demoDb"

definition negotiatedDb :: db where
  "negotiatedDb = run demoProvider (take 3 hireScript @
     [(4, PostNegotiation 1 101 \<lparr>pm_message = ''less'', pm_proposedPrice = Some 9000, pm_mediaUploadRefId = None\<rparr>),
      (5, PostNegotiation 2 101 \<lparr>pm_message = ''no'', pm_proposedPrice = Some 9500, pm_mediaUploadRefId = None\<rparr>)]) demoDb"

definition bookedDb :: db where
  "bookedDb = run demoProvider (take 2 workScript) hiredDb"

definition attemptedDb :: db where
  "attemptedDb = run demoProvider (take 3 payScript) startedDb"

definition oneSidedDb :: db where
  "oneSidedDb = run demoProvider (take 5 payScript) startedDb"

definition visitsDb :: db where
  "visitsDb = run demoProvider [(20, ProposeAppointment 2 105 2000 3000), (21, AcceptAppointment 1 107),
     (22, ProposeAppointment 2 105 1500 2500), (23, AcceptAppointment 1 108)] startedDb"

definition cashScript :: "(time \<times> request) list" where
  "cashScript = [(12, ConfirmCash 1 105), (13, ConfirmCash 1 105)]"

definition cashDb :: db where
  "cashDb = run demoProvider cashScript startedDb"

lemma demo_initial: "reach (demoDb, [])"
  by (rule reach.Init) (simp add: initialDb_def demoDb_def emptyDb_def)

lemma demo_reach:
  "reach (hiredDb, [])" "reach (startedDb, [])" "reach (paidDb, [])" "reach (cancelledDb, [])"
  unfolding paidDb_def cancelledDb_def startedDb_def hiredDb_def
  by (intro run_reach demo_initial)+

lemma demo_steps:
  "step\<^sup>*\<^sup>* (hiredDb, []) (startedDb, [])" "step\<^sup>*\<^sup>* (startedDb, []) (paidDb, [])"
  "step\<^sup>*\<^sup>* (startedDb, []) (cancelledDb, [])"
  unfolding paidDb_def cancelledDb_def startedDb_def by (rule run_steps)+

end
