(* ===== verification/Scenario_States.thy ===== *)
theory Scenario_States
  imports Scenario
begin

text \<open>
  The databases the runs of \<^theory_text>\<open>Scenario\<close> end in, written out as changes of
  the one they start from: the evaluation of a witness starts from these tables instead of running the
  scripts again.
\<close>

lemma hiredDb_rows [code]:
  "hiredDb = demoDb\<lparr>nextId := 106,
     serviceRequests := [\<lparr>sr_id = 100, sr_customerProfileId = 11, sr_categoryId = 20, sr_description =
       ''leak'', sr_indicativeBudgetMin = None, sr_indicativeBudgetMax = None, sr_status = ENGAGED, sr_cancelledAt =
       None, sr_acceptedQuoteId = Some 101, sr_createdAt = 1\<rparr>],
     quotes := [\<lparr>q_id = 101, q_serviceRequestId = 100, q_professionalProfileId = 12, q_price = 10000,
       q_negotiatedPrice = Some 9000, q_message = ''tomorrow'', q_status = QuoteStatus.ACCEPTED, q_withdrawnAt = None,
       q_rejectedAt = None, q_acceptedAt = Some 6, q_createdAt = 2\<rparr>, \<lparr>q_id = 102, q_serviceRequestId =
       100, q_professionalProfileId = 13, q_price = 12000, q_negotiatedPrice = None, q_message = ''today'', q_status =
       QuoteStatus.REJECTED, q_withdrawnAt = None, q_rejectedAt = Some 6, q_acceptedAt = None, q_createdAt =
       3\<rparr>],
     negotiationMessages := [\<lparr>nm_id = 103, nm_quoteId = 101, nm_authorRole = QuoteNegotiationParty.CUSTOMER,
       nm_authorCustomerProfileId = Some 11, nm_authorProfessionalProfileId = None, nm_message = ''less'', nm_imageUrl
       = None, nm_createdAt = 4\<rparr>],
     priceProposals := [\<lparr>prop_id = 104, prop_quoteId = 101, prop_negotiationMessageId = 103,
       prop_proposedByRole = QuoteNegotiationParty.CUSTOMER, prop_proposedByCustomerProfileId = Some 11,
       prop_proposedByProfessionalProfileId = None, prop_proposedPrice = 9000, prop_status =
       QuotePriceProposalStatus.ACCEPTED, prop_resolvedByCustomerProfileId = None,
       prop_resolvedByProfessionalProfileId = Some 12, prop_resolvedAt = Some 5, prop_createdAt = 4\<rparr>],
     engagements := [\<lparr>eng_id = 105, eng_serviceRequestId = 100, eng_quoteId = 101, eng_customerProfileId =
       11, eng_professionalProfileId = 12, eng_status = EngagementStatus.ACCEPTED, eng_startedAt = None,
       eng_finishedAt = None, eng_cancelledAt = None, eng_cancelReason = None, eng_completedAt = None,
       eng_paymentMethod = None, eng_createdAt = 6\<rparr>]\<rparr>"
  by code_simp

lemma startedDb_rows [code]:
  "startedDb = hiredDb\<lparr>nextId := 107,
     engagements := [\<lparr>eng_id = 105, eng_serviceRequestId = 100, eng_quoteId = 101, eng_customerProfileId =
       11, eng_professionalProfileId = 12, eng_status = IN_PROGRESS, eng_startedAt = Some 9, eng_finishedAt = None,
       eng_cancelledAt = None, eng_cancelReason = None, eng_completedAt = None, eng_paymentMethod = None,
       eng_createdAt = 6\<rparr>],
     appointments := [\<lparr>appt_id = 106, appt_engagementId = 105, appt_professionalProfileId = 12, appt_startsAt
       = 1000, appt_endsAt = 2000, appt_status = CONFIRMED, appt_proposedByRole = AppointmentParty.CUSTOMER,
       appt_proposedByCustomerProfileId = Some 11, appt_proposedByProfessionalProfileId = None, appt_cancelReason =
       None, appt_cancelledAt = None, appt_confirmedAt = Some 8, appt_createdAt = 7\<rparr>]\<rparr>"
  by code_simp

lemma paidDb_rows [code]:
  "paidDb = startedDb\<lparr>nextId := 113,
     nextReceipt := 4,
     engagements := [\<lparr>eng_id = 105, eng_serviceRequestId = 100, eng_quoteId = 101, eng_customerProfileId =
       11, eng_professionalProfileId = 12, eng_status = COMPLETED, eng_startedAt = Some 9, eng_finishedAt = Some 10,
       eng_cancelledAt = None, eng_cancelReason = None, eng_completedAt = Some 11, eng_paymentMethod = Some
       MERCADOPAGO, eng_createdAt = 6\<rparr>],
     paymentAttempts := [\<lparr>pa_id = 107, pa_engagementId = 105, pa_method = MERCADOPAGO, pa_type = None,
       pa_status = PaymentAttemptStatus.APPROVED, pa_customerConfirmedAt = None, pa_professionalConfirmedAt = None,
       pa_providerPaymentId = Some ''p1'', pa_amount = 9000, pa_currency = ''ARS'', pa_installments = 1,
       pa_rejectionReason = None, pa_details = None, pa_createdAt = 12\<rparr>],
     ledgerEntries := [\<lparr>le_id = 108, le_receiptNumber = 1, le_type = CUSTOMER_CHARGE, le_amount = - 9000,
       le_currency = ''ARS'', le_engagementId = Some 105, le_customerProfileId = Some 11, le_professionalProfileId =
       Some 12, le_commissionPercentApplied = Some 10, le_createdAt = 13\<rparr>, \<lparr>le_id = 109,
       le_receiptNumber = 2, le_type = PLATFORM_COMMISSION, le_amount = 900, le_currency = ''ARS'', le_engagementId =
       Some 105, le_customerProfileId = Some 11, le_professionalProfileId = Some 12, le_commissionPercentApplied =
       Some 10, le_createdAt = 13\<rparr>, \<lparr>le_id = 110, le_receiptNumber = 3, le_type =
       PROFESSIONAL_NET_CREDIT, le_amount = 8100, le_currency = ''ARS'', le_engagementId = Some 105,
       le_customerProfileId = Some 11, le_professionalProfileId = Some 12, le_commissionPercentApplied = Some 10,
       le_createdAt = 13\<rparr>],
     reviews := [\<lparr>rv_id = 111, rv_engagementId = 105, rv_authorRole = EngagementReviewParty.CUSTOMER,
       rv_authorCustomerProfileId = Some 11, rv_authorProfessionalProfileId = None, rv_rating = 5, rv_comment = None,
       rv_commentModerationStatus = None, rv_moderatedByAdminUserId = None, rv_moderatedAt = None, rv_createdAt =
       14\<rparr>, \<lparr>rv_id = 112, rv_engagementId = 105, rv_authorRole = EngagementReviewParty.PROFESSIONAL,
       rv_authorCustomerProfileId = None, rv_authorProfessionalProfileId = Some 12, rv_rating = 4, rv_comment = None,
       rv_commentModerationStatus = None, rv_moderatedByAdminUserId = None, rv_moderatedAt = None, rv_createdAt =
       15\<rparr>]\<rparr>"
  by code_simp

lemma cancelledDb_rows [code]:
  "cancelledDb = startedDb\<lparr>nextId := 110,
     nextReceipt := 4,
     engagements := [\<lparr>eng_id = 105, eng_serviceRequestId = 100, eng_quoteId = 101, eng_customerProfileId =
       11, eng_professionalProfileId = 12, eng_status = EngagementStatus.CANCELLED, eng_startedAt = Some 9,
       eng_finishedAt = None, eng_cancelledAt = Some 10, eng_cancelReason = Some ''sick'', eng_completedAt = None,
       eng_paymentMethod = None, eng_createdAt = 6\<rparr>],
     ledgerEntries := [\<lparr>le_id = 107, le_receiptNumber = 1, le_type = CUSTOMER_CANCELLATION_FEE, le_amount = -
       900, le_currency = ''ARS'', le_engagementId = Some 105, le_customerProfileId = Some 11,
       le_professionalProfileId = Some 12, le_commissionPercentApplied = Some 10, le_createdAt = 10\<rparr>,
       \<lparr>le_id = 108, le_receiptNumber = 2, le_type = PLATFORM_COMMISSION, le_amount = 90, le_currency =
       ''ARS'', le_engagementId = Some 105, le_customerProfileId = Some 11, le_professionalProfileId = Some 12,
       le_commissionPercentApplied = Some 10, le_createdAt = 10\<rparr>, \<lparr>le_id = 109, le_receiptNumber = 3,
       le_type = PROFESSIONAL_NET_CREDIT, le_amount = 810, le_currency = ''ARS'', le_engagementId = Some 105,
       le_customerProfileId = Some 11, le_professionalProfileId = Some 12, le_commissionPercentApplied = Some 10,
       le_createdAt = 10\<rparr>]\<rparr>"
  by code_simp

lemma quotedDb_rows [code]:
  "quotedDb = demoDb\<lparr>nextId := 103,
     serviceRequests := [\<lparr>sr_id = 100, sr_customerProfileId = 11, sr_categoryId = 20, sr_description =
       ''leak'', sr_indicativeBudgetMin = None, sr_indicativeBudgetMax = None, sr_status = OPEN, sr_cancelledAt =
       None, sr_acceptedQuoteId = None, sr_createdAt = 1\<rparr>],
     quotes := [\<lparr>q_id = 101, q_serviceRequestId = 100, q_professionalProfileId = 12, q_price = 10000,
       q_negotiatedPrice = None, q_message = ''tomorrow'', q_status = SENT, q_withdrawnAt = None, q_rejectedAt = None,
       q_acceptedAt = None, q_createdAt = 2\<rparr>, \<lparr>q_id = 102, q_serviceRequestId = 100,
       q_professionalProfileId = 13, q_price = 12000, q_negotiatedPrice = None, q_message = ''today'', q_status =
       SENT, q_withdrawnAt = None, q_rejectedAt = None, q_acceptedAt = None, q_createdAt = 3\<rparr>]\<rparr>"
  by code_simp

lemma negotiatedDb_rows [code]:
  "negotiatedDb = quotedDb\<lparr>nextId := 107,
     negotiationMessages := [\<lparr>nm_id = 103, nm_quoteId = 101, nm_authorRole = QuoteNegotiationParty.CUSTOMER,
       nm_authorCustomerProfileId = Some 11, nm_authorProfessionalProfileId = None, nm_message = ''less'', nm_imageUrl
       = None, nm_createdAt = 4\<rparr>, \<lparr>nm_id = 105, nm_quoteId = 101, nm_authorRole =
       QuoteNegotiationParty.PROFESSIONAL, nm_authorCustomerProfileId = None, nm_authorProfessionalProfileId = Some
       12, nm_message = ''no'', nm_imageUrl = None, nm_createdAt = 5\<rparr>],
     priceProposals := [\<lparr>prop_id = 104, prop_quoteId = 101, prop_negotiationMessageId = 103,
       prop_proposedByRole = QuoteNegotiationParty.CUSTOMER, prop_proposedByCustomerProfileId = Some 11,
       prop_proposedByProfessionalProfileId = None, prop_proposedPrice = 9000, prop_status = SUPERSEDED,
       prop_resolvedByCustomerProfileId = None, prop_resolvedByProfessionalProfileId = None, prop_resolvedAt = None,
       prop_createdAt = 4\<rparr>, \<lparr>prop_id = 106, prop_quoteId = 101, prop_negotiationMessageId = 105,
       prop_proposedByRole = QuoteNegotiationParty.PROFESSIONAL, prop_proposedByCustomerProfileId = None,
       prop_proposedByProfessionalProfileId = Some 12, prop_proposedPrice = 9500, prop_status =
       QuotePriceProposalStatus.PENDING, prop_resolvedByCustomerProfileId = None, prop_resolvedByProfessionalProfileId
       = None, prop_resolvedAt = None, prop_createdAt = 5\<rparr>]\<rparr>"
  by code_simp

lemma bookedDb_rows [code]:
  "bookedDb = hiredDb\<lparr>nextId := 107,
     appointments := [\<lparr>appt_id = 106, appt_engagementId = 105, appt_professionalProfileId = 12, appt_startsAt
       = 1000, appt_endsAt = 2000, appt_status = CONFIRMED, appt_proposedByRole = AppointmentParty.CUSTOMER,
       appt_proposedByCustomerProfileId = Some 11, appt_proposedByProfessionalProfileId = None, appt_cancelReason =
       None, appt_cancelledAt = None, appt_confirmedAt = Some 8, appt_createdAt = 7\<rparr>]\<rparr>"
  by code_simp

lemma attemptedDb_rows [code]:
  "attemptedDb = startedDb\<lparr>nextId := 108,
     engagements := [\<lparr>eng_id = 105, eng_serviceRequestId = 100, eng_quoteId = 101, eng_customerProfileId =
       11, eng_professionalProfileId = 12, eng_status = COMPLETED, eng_startedAt = Some 9, eng_finishedAt = Some 10,
       eng_cancelledAt = None, eng_cancelReason = None, eng_completedAt = Some 11, eng_paymentMethod = None,
       eng_createdAt = 6\<rparr>],
     paymentAttempts := [\<lparr>pa_id = 107, pa_engagementId = 105, pa_method = MERCADOPAGO, pa_type = None,
       pa_status = PaymentAttemptStatus.PENDING, pa_customerConfirmedAt = None, pa_professionalConfirmedAt = None,
       pa_providerPaymentId = None, pa_amount = 9000, pa_currency = ''ARS'', pa_installments = 1, pa_rejectionReason =
       None, pa_details = None, pa_createdAt = 12\<rparr>]\<rparr>"
  by code_simp

lemma oneSidedDb_rows [code]:
  "oneSidedDb = attemptedDb\<lparr>nextId := 112,
     nextReceipt := 4,
     engagements := [\<lparr>eng_id = 105, eng_serviceRequestId = 100, eng_quoteId = 101, eng_customerProfileId =
       11, eng_professionalProfileId = 12, eng_status = COMPLETED, eng_startedAt = Some 9, eng_finishedAt = Some 10,
       eng_cancelledAt = None, eng_cancelReason = None, eng_completedAt = Some 11, eng_paymentMethod = Some
       MERCADOPAGO, eng_createdAt = 6\<rparr>],
     paymentAttempts := [\<lparr>pa_id = 107, pa_engagementId = 105, pa_method = MERCADOPAGO, pa_type = None,
       pa_status = PaymentAttemptStatus.APPROVED, pa_customerConfirmedAt = None, pa_professionalConfirmedAt = None,
       pa_providerPaymentId = Some ''p1'', pa_amount = 9000, pa_currency = ''ARS'', pa_installments = 1,
       pa_rejectionReason = None, pa_details = None, pa_createdAt = 12\<rparr>],
     ledgerEntries := [\<lparr>le_id = 108, le_receiptNumber = 1, le_type = CUSTOMER_CHARGE, le_amount = - 9000,
       le_currency = ''ARS'', le_engagementId = Some 105, le_customerProfileId = Some 11, le_professionalProfileId =
       Some 12, le_commissionPercentApplied = Some 10, le_createdAt = 13\<rparr>, \<lparr>le_id = 109,
       le_receiptNumber = 2, le_type = PLATFORM_COMMISSION, le_amount = 900, le_currency = ''ARS'', le_engagementId =
       Some 105, le_customerProfileId = Some 11, le_professionalProfileId = Some 12, le_commissionPercentApplied =
       Some 10, le_createdAt = 13\<rparr>, \<lparr>le_id = 110, le_receiptNumber = 3, le_type =
       PROFESSIONAL_NET_CREDIT, le_amount = 8100, le_currency = ''ARS'', le_engagementId = Some 105,
       le_customerProfileId = Some 11, le_professionalProfileId = Some 12, le_commissionPercentApplied = Some 10,
       le_createdAt = 13\<rparr>],
     reviews := [\<lparr>rv_id = 111, rv_engagementId = 105, rv_authorRole = EngagementReviewParty.CUSTOMER,
       rv_authorCustomerProfileId = Some 11, rv_authorProfessionalProfileId = None, rv_rating = 5, rv_comment = None,
       rv_commentModerationStatus = None, rv_moderatedByAdminUserId = None, rv_moderatedAt = None, rv_createdAt =
       14\<rparr>]\<rparr>"
  by code_simp

lemma visitsDb_rows [code]:
  "visitsDb = startedDb\<lparr>nextId := 109,
     appointments := [\<lparr>appt_id = 106, appt_engagementId = 105, appt_professionalProfileId = 12, appt_startsAt
       = 1000, appt_endsAt = 2000, appt_status = CONFIRMED, appt_proposedByRole = AppointmentParty.CUSTOMER,
       appt_proposedByCustomerProfileId = Some 11, appt_proposedByProfessionalProfileId = None, appt_cancelReason =
       None, appt_cancelledAt = None, appt_confirmedAt = Some 8, appt_createdAt = 7\<rparr>, \<lparr>appt_id = 107,
       appt_engagementId = 105, appt_professionalProfileId = 12, appt_startsAt = 2000, appt_endsAt = 3000, appt_status
       = CONFIRMED, appt_proposedByRole = AppointmentParty.PROFESSIONAL, appt_proposedByCustomerProfileId = None,
       appt_proposedByProfessionalProfileId = Some 12, appt_cancelReason = None, appt_cancelledAt = None,
       appt_confirmedAt = Some 21, appt_createdAt = 20\<rparr>, \<lparr>appt_id = 108, appt_engagementId = 105,
       appt_professionalProfileId = 12, appt_startsAt = 1500, appt_endsAt = 2500, appt_status =
       AppointmentStatus.PENDING, appt_proposedByRole = AppointmentParty.PROFESSIONAL,
       appt_proposedByCustomerProfileId = None, appt_proposedByProfessionalProfileId = Some 12, appt_cancelReason =
       None, appt_cancelledAt = None, appt_confirmedAt = None, appt_createdAt = 22\<rparr>]\<rparr>"
  by code_simp

lemma cashDb_rows [code]:
  "cashDb = startedDb\<lparr>nextId := 108,
     engagements := [\<lparr>eng_id = 105, eng_serviceRequestId = 100, eng_quoteId = 101, eng_customerProfileId =
       11, eng_professionalProfileId = 12, eng_status = IN_PROGRESS, eng_startedAt = Some 9, eng_finishedAt = None,
       eng_cancelledAt = None, eng_cancelReason = None, eng_completedAt = None, eng_paymentMethod = Some
       PaymentMethod.CASH, eng_createdAt = 6\<rparr>],
     paymentAttempts := [\<lparr>pa_id = 107, pa_engagementId = 105, pa_method = PaymentMethod.CASH, pa_type = Some
       PaymentAttemptType.CASH, pa_status = PaymentAttemptStatus.PENDING, pa_customerConfirmedAt = Some 13,
       pa_professionalConfirmedAt = None, pa_providerPaymentId = None, pa_amount = 9000, pa_currency = ''ARS'',
       pa_installments = 1, pa_rejectionReason = None, pa_details = None, pa_createdAt = 12\<rparr>]\<rparr>"
  by code_simp

end
