(* ===== verification/Payment_Progress.thy ===== *)
theory Payment_Progress
  imports Scenario_States
begin

text \<open>
  When a payment goes through.  The event writers succeed exactly when the commission is configured
  and the amounts fit the table's columns; from that, a provider's approval of a pending attempt is
  recorded in one transaction, and with a commission that cannot be read no payment, cash payment or
  cancellation fee is recorded and the state stays as it was.
\<close>

section \<open>Writing an event\<close>

lemma readCommissionPercent_cong:
  "platformSettings d' = platformSettings d \<Longrightarrow> readCommissionPercent d' = readCommissionPercent d"
  by (simp add: readCommissionPercent_def getValue_def findSettingByKey_def)

lemma createEntry_fits:
  "rowsFit [ledgerEntry t a l q (Some p) now] \<Longrightarrow>
     createEntry t a l q (Some (of_int p)) now d = Inr (appendEntries [ledgerEntry t a l q (Some p) now] d)"
  unfolding createEntry_Inr_iff by (simp add: rowsFit_def)

lemma recordDigitalPayment_fits:
  assumes "readCommissionPercent d = Inr (of_int p)" "rowsFit (digitalPaymentRows now l price p)"
  shows "recordDigitalPayment now l price d = Inr (appendEntries (digitalPaymentRows now l price p) d)"
  using assms
  by (simp add: recordDigitalPayment_def createDigitalPaymentEntries_def andThen_def Let_def createEntry_fits
      rowsFit_def rows_defs appendEntries_append)

lemma digital_fits:
  assumes "0 \<le> price" "int4 price" "0 \<le> p" "p \<le> 100"
  shows "rowsFit (digitalPaymentRows now l price p)"
proof -
  have "0 \<le> commission (computeCommission price (of_int p)) \<and> commission (computeCommission price (of_int p)) \<le> price
      \<and> 0 \<le> net (computeCommission price (of_int p)) \<and> net (computeCommission price (of_int p)) \<le> price"
    by (rule computeCommission_range) (use assms in simp_all)
  then show ?thesis using assms by (auto simp: rowsFit_def rows_defs int4_def)
qed

section \<open>Approval\<close>

lemma attempt_found: "attemptsOk d \<Longrightarrow> a \<in> set (paymentAttempts d) \<Longrightarrow> findAttemptById d (pa_id a) = Some a"
  by (simp add: attemptsOk_def findAttemptById_def findRow_key)

lemma approval_plan:
  assumes "findAttemptById d i = Some a" "pa_status a = PaymentAttemptStatus.PENDING"
    "findByIdWithBillingContext d (pa_engagementId a) = Some b" "res_status res = approved"
  shows "\<exists>details. apply_pre prov i res d = Resolve a (Some b) details"
  using assms by (simp add: apply_pre_def)

definition approvedRow :: "PaymentResolution \<Rightarrow> ProviderTransactionDetails option \<Rightarrow> PaymentAttempt \<Rightarrow> PaymentAttempt" where
  "approvedRow res details = resolveAttemptRow \<lparr>rs_status = PaymentAttemptStatus.APPROVED,
     rs_providerPaymentId = res_providerPaymentId res, rs_rejectionReason = None, rs_details = details\<rparr>"

lemma approvedRow_simps [simp]:
  "pa_status (approvedRow res details a) = PaymentAttemptStatus.APPROVED" "pa_id (approvedRow res details a) = pa_id a"
  by (simp_all add: approvedRow_def resolveAttemptRow_def)

lemma approval_tx:
  assumes ok: "attemptsOk d" and a: "a \<in> set (paymentAttempts d)" "pa_status a = PaymentAttemptStatus.PENDING"
    and res: "res_status res = approved"
    and c: "readCommissionPercent d = Inr (of_int p)" "rowsFit (digitalPaymentRows now (attemptParties a b) (pa_amount a) p)"
  shows "\<exists>d'. resolve_tx now res a (Some b) details d = Inr d'
    \<and> findAttemptById d' (pa_id a) = Some (approvedRow res details a)
    \<and> ledgerEntries d' = ledgerEntries d @ numbered (nextId d) (nextReceipt d)
        (digitalPaymentRows now (attemptParties a b) (pa_amount a) p)"
proof -
  let ?f = "approvedRow res details"
  let ?d1 = "d\<lparr>paymentAttempts := updateMany (isPendingAttempt (pa_id a)) ?f (paymentAttempts d)\<rparr>"
  have f: "resolutionOf res details = \<lparr>rs_status = PaymentAttemptStatus.APPROVED,
      rs_providerPaymentId = res_providerPaymentId res, rs_rejectionReason = None, rs_details = details\<rparr>"
    using res by (simp add: resolutionOf_def)
  have dist: "distinct (map pa_id (paymentAttempts d))" using ok by (simp add: attemptsOk_def)
  have one: "countWhere (isPendingAttempt (pa_id a)) (paymentAttempts d) = 1"
    using attempt_resolve.count_1_iff [OF dist] a by blast
  have row: "findRow (\<lambda>r. pa_id r = pa_id a) (updateMany (isPendingAttempt (pa_id a)) ?f (paymentAttempts d)) = Some (?f a)"
    unfolding approvedRow_def by (rule attempt_resolve.changed_row [OF dist a(1) refl a(2)])
  have "readCommissionPercent ?d1 = Inr (of_int p)" using c(1) readCommissionPercent_cong [of ?d1 d] by simp
  note rec = recordDigitalPayment_fits [OF this c(2)]
  show ?thesis using one row rec
    by (simp add: resolve_tx_def resolveIfPending_def updateAttempts_def f flip: approvedRow_def)
      (simp add: findAttemptById_def setPaymentMethodIfUnset_def updateEngagements_def appendEntries_def)
qed

section \<open>Without a commission\<close>

lemma record_fails:
  assumes "readCommissionPercent d = Inl e"
  shows "recordDigitalPayment now l price d = Inl e" "recordCommissionDebt now l price d = Inl e"
    "recordIfApplicable now EngagementStatus.IN_PROGRESS l price d = Inl e"
  using assms by (simp_all add: recordDigitalPayment_def recordCommissionDebt_def recordIfApplicable_def)

lemma approval_fails:
  assumes "readCommissionPercent d = Inl e" "countWhere (isPendingAttempt (pa_id a)) (paymentAttempts d) = 1"
  shows "resolve_tx now res a (Some b) details d = Inl e"
proof -
  have "readCommissionPercent (snd (resolveIfPending (pa_id a) r d)) = Inl e" for r
    using assms(1) readCommissionPercent_cong [of "snd (resolveIfPending (pa_id a) r d)" d]
    by (simp add: resolveIfPending_def updateAttempts_def)
  then show ?thesis using assms(2) record_fails(1)
    by (simp add: resolve_tx_def resolveIfPending_def updateAttempts_def)
qed

lemma fee_fails:
  assumes "readCommissionPercent d = Inl e" "bc_status b = EngagementStatus.IN_PROGRESS"
  shows "\<exists>e'. cancelEngagementByCustomer_tx now i reason b d = Inl e'"
proof -
  let ?d = "emit now i (ENGAGEMENT_LIFECYCLE_SYSTEM_MESSAGES CANCELLED_BY_CUSTOMER) (snd (cancelIfActive now i reason d))"
  have "readCommissionPercent ?d = Inl e" using assms(1) readCommissionPercent_cong [of ?d d]
    by (simp add: cancelIfActive_def updateEngagements_def)
  then show ?thesis using record_fails(3) assms(2)
    by (auto simp: cancelEngagementByCustomer_tx_def cancelIfActive_def updateEngagements_def)
qed

end
