(* ===== verification/Hiring_Progress.thy ===== *)
theory Hiring_Progress
  imports Scenario_States
begin

text \<open>
  When an acceptance goes through.  An acceptance in flight succeeds exactly when its request is
  still OPEN and its quote still SENT at the moment of the commit; the unique constraints of the
  engagement never get in the way, because engagements, quotes and requests are in step.  After it,
  every other acceptance for the same request loses.
\<close>

lemma countWhere_key:
  assumes "keyed k n rows" "\<And>r. P r \<Longrightarrow> k r = i"
  shows "countWhere P rows = (if \<exists>r\<in>set rows. P r then 1 else 0)"
proof -
  have "P = (\<lambda>r. k r = i \<and> P r)" using assms(2) by auto
  then have "countWhere P rows \<le> 1" using countWhere_key_le_1 [of k rows i P] assms(1) by (simp add: keyed_def)
  then show ?thesis using countWhere_0_iff [of P rows] by (cases "countWhere P rows") auto
qed

lemma acceptance_no_duplicate:
  assumes "hiringInvariant d" "s \<in> set (serviceRequests d)" "sr_id s = sr" "sr_status s = ServiceRequestStatus.OPEN"
    and "q \<in> set (quotes d)" "q_id q = i" "q_status q = QuoteStatus.SENT" "e \<in> set (engagements d)"
  shows "eng_serviceRequestId e \<noteq> sr \<and> eng_quoteId e \<noteq> i"
proof -
  have k: "keyed q_id (nextId d) (quotes d)" "keyed sr_id (nextId d) (serviceRequests d)"
    using assms(1) by (simp_all add: hiringInvariant_def keysOk_def)
  obtain q' s' where "q' \<in> set (quotes d)" "hiredFrom e q'" "s' \<in> set (serviceRequests d)" "hiredFor e s'"
    using assms(1,8) unfolding hiringInvariant_def hiringOk_def by blast
  then show ?thesis
    using keyed_unique [OF k(1) _ assms(5), of q'] keyed_unique [OF k(2) _ assms(2), of s'] assms(3,4,6,7)
    by (auto simp: hiredFrom_def hiredFor_def)
qed

lemma acceptance_outcome:
  assumes inv: "hiringInvariant d" and cap: "acceptanceCaptured d (TxAcceptQuote a)"
  defines "ok \<equiv> (\<exists>s\<in>set (serviceRequests d). sr_id s = qa_serviceRequestId a \<and> sr_status s = ServiceRequestStatus.OPEN)
      \<and> (\<exists>q\<in>set (quotes d). q_id q = qa_quoteId a \<and> q_status q = QuoteStatus.SENT)"
  shows "if ok then \<exists>d'. acceptQuote_tx now a d = Inr d' else acceptQuote_tx now a d = Inl QUOTE_ACCEPT_CONFLICT"
proof -
  have k: "keyed q_id (nextId d) (quotes d)" "keyed sr_id (nextId d) (serviceRequests d)"
    using inv by (simp_all add: hiringInvariant_def keysOk_def)
  have open_one: "countWhere (isOpen (qa_serviceRequestId a)) (serviceRequests d) =
      (if \<exists>s\<in>set (serviceRequests d). isOpen (qa_serviceRequestId a) s then 1 else 0)"
    by (rule countWhere_key [OF k(2), where i = "qa_serviceRequestId a"]) (simp add: guard_def)
  have sent_one: "countWhere (isAcceptable a) (quotes d) = (if \<exists>q\<in>set (quotes d). isAcceptable a q then 1 else 0)"
    by (rule countWhere_key [OF k(1), where i = "qa_quoteId a"]) (simp add: isAcceptable_def guard_def)
  have acc: "isAcceptable a q \<longleftrightarrow> q_id q = qa_quoteId a \<and> q_status q = QuoteStatus.SENT" if "q \<in> set (quotes d)" for q
    using cap that by (auto simp: acceptanceCaptured_def isAcceptable_def guard_def)
  show ?thesis
  proof (cases ok)
    case True
    have "\<not> list_ex (\<lambda>e. eng_serviceRequestId e = qa_serviceRequestId a \<or> eng_quoteId e = qa_quoteId a) (engagements d)"
      using True acceptance_no_duplicate [OF inv] unfolding ok_def list_ex_iff by blast
    then have "\<exists>d'. acceptQuote_tx now a d = Inr d'"
      using True open_one sent_one acc unfolding acceptQuote_effect ok_def
      by (auto simp: createEngagement_def guard_def engageRequest_def acceptTheQuote_def rejectTheOthers_def Let_def)
    then show ?thesis using True by simp
  next
    case False
    then have "countWhere (isOpen (qa_serviceRequestId a)) (serviceRequests d) \<noteq> 1
        \<or> countWhere (isAcceptable a) (quotes d) \<noteq> 1"
      using open_one sent_one acc unfolding ok_def by (auto simp: guard_def)
    then show ?thesis using False
      by (auto simp: acceptQuote_tx_def transitionToEngagedIfOpen_def transitionToAcceptedIfSent_def
          updateQuotes_def isAcceptable_eq)
  qed
qed

text \<open>A request that is no longer OPEN never is again, so a later acceptance for it loses.\<close>

lemma not_open_forever:
  assumes "evolves d d'" "s \<in> set (serviceRequests d)" "sr_status s \<noteq> ServiceRequestStatus.OPEN" "keysOk d'"
  shows "\<forall>s'\<in>set (serviceRequests d'). sr_id s' = sr_id s \<longrightarrow> sr_status s' \<noteq> ServiceRequestStatus.OPEN"
proof (intro ballI impI)
  fix s' assume s': "s' \<in> set (serviceRequests d')" "sr_id s' = sr_id s"
  have "ext requestEvolves sr_id serviceRequests d d'" using assms(1) by (simp add: evolves_def)
  then have "\<exists>r\<in>set (serviceRequests d'). r = s"
    by (rule ext_keeps [where r = s]) (use assms(2,3) in \<open>auto simp: requestEvolves_def\<close>)
  moreover have "keyed sr_id (nextId d') (serviceRequests d')" using assms(4) by (simp add: keysOk_def)
  ultimately show "sr_status s' \<noteq> ServiceRequestStatus.OPEN" using keyed_unique s' assms(3) by metis
qed

lemma accepted_request_engaged:
  assumes "acceptQuote_tx now a d = Inr d'"
  shows "\<exists>s\<in>set (serviceRequests d'). sr_id s = qa_serviceRequestId a \<and> sr_status s = ServiceRequestStatus.ENGAGED"
proof -
  have "countWhere (isOpen (qa_serviceRequestId a)) (serviceRequests d) \<noteq> 0"
    using assms unfolding acceptQuote_effect by simp
  then obtain s where "s \<in> set (serviceRequests d)" "isOpen (qa_serviceRequestId a) s"
    using countWhere_0_iff by metis
  then have "engageRequestRow (qa_quoteId a) s \<in> set (serviceRequests d')" "sr_id s = qa_serviceRequestId a"
    unfolding acceptQuote_fields(7) [OF assms] engageRequest_def by (auto simp: set_updateMany guard_def)
  then show ?thesis
    by (intro bexI [of _ "engageRequestRow (qa_quoteId a) s"]) (simp_all add: engageRequestRow_def)
qed

end
