(* ===== verification/Services.thy ===== *)
theory Services
  imports Scenario_States
begin

text \<open>
  The service calls as runs of the system.  A service call that runs without interference is a
  sequence of steps of the system, so that what holds in every reachable state also holds after it.
  The provider payments are the interesting ones: they open an attempt in one transaction, ask the
  provider outside of any, and apply the answer in another.
\<close>

lemma steps_serve:
  assumes "serve now prov req d = Inr d'"
  shows "step\<^sup>*\<^sup>* (d, ts) (d', ts)"
proof -
  obtain t where t: "begin_request now prov req d = Inr t" "commit now t d = Inr d'"
    using assms by (auto simp: serve_def andThen_Inr_iff)
  have "step (d, t # ts) (d', ts)" using step.Commit [of t "t # ts", OF _ t(2)] by simp
  then show ?thesis using step.Begin [OF t(1)] by (meson converse_rtranclp_into_rtranclp rtranclp.rtrancl_refl)
qed

lemma serve_apply:
  "serve now prov (ApplyProviderResult i res) d = mapR snd (applyPaymentResult now prov i res d)"
  by (cases "apply_tx now i res (apply_pre prov i res d) d")
     (simp_all add: serve_def applyPaymentResult_def mapR_def Let_def)

lemma steps_apply:
  "applyPaymentResult now prov i res d = Inr (a, d') \<Longrightarrow> step\<^sup>*\<^sup>* (d, ts) (d', ts)"
  by (rule steps_serve [where now = now and prov = prov and req = "ApplyProviderResult i res"]) (simp add: serve_apply mapR_Inr_iff)

lemma steps_resolve: "step\<^sup>*\<^sup>* (d, ts) (snd (resolveOrCurrent now prov a res d), ts)"
  by (auto simp: resolveOrCurrent_def intro: steps_apply split: sum.split prod.split)

lemma steps_apply_throw: "step\<^sup>*\<^sup>* (d, ts) (snd (applyThenThrow now prov a res e d), ts)"
  by (auto simp: applyThenThrow_def intro: steps_apply split: sum.split prod.split)

lemma steps_settle: "step\<^sup>*\<^sup>* (d, ts) (snd (settleCharge now prov a out d), ts)"
  by (cases out) (simp_all add: settleCharge_def steps_resolve steps_apply_throw)

lemma steps_open_card:
  assumes "validCardInput input" "providerPayment_pre ENGAGEMENT_NOT_PAYABLE_BY_CARD d u (pay_engagementId input) = Inr c"
    and "openAttempt now CARD_PAYMENT_ALREADY_IN_PROGRESS c \<lfloor>pay_installments input\<rfloor> d = Inr (a, d')"
  shows "step\<^sup>*\<^sup>* (d, ts) (d', ts)"
  by (rule steps_serve [where now = now and prov = demoProvider and req = "OpenCardAttempt u input"]) (use assms in \<open>simp add: serve_def card_pre_def mapR_def\<close>)

lemma steps_open_wallet:
  assumes "providerPayment_pre ENGAGEMENT_NOT_PAYABLE_BY_WALLET d u e = Inr c"
    and "openAttempt now WALLET_PAYMENT_ALREADY_IN_PROGRESS c 1 d = Inr (a, d')"
  shows "step\<^sup>*\<^sup>* (d, ts) (d', ts)"
  by (rule steps_serve [where now = now and prov = demoProvider and req = "OpenWalletAttempt u e"]) (use assms in \<open>simp add: serve_def mapR_def\<close>)

lemma steps_pay_card: "step\<^sup>*\<^sup>* (d, ts) (snd (payEngagementWithCard now prov u input d), ts)"
proof (cases "payEngagementWithCard now prov u input d = (fst (payEngagementWithCard now prov u input d), d)")
  case True
  then show ?thesis by (metis rtranclp.rtrancl_refl snd_conv)
next
  case False
  then obtain c a d' where c: "validCardInput input"
      "providerPayment_pre ENGAGEMENT_NOT_PAYABLE_BY_CARD d u (pay_engagementId input) = Inr c"
      "openAttempt now CARD_PAYMENT_ALREADY_IN_PROGRESS c \<lfloor>pay_installments input\<rfloor> d = Inr (a, d')"
    by (auto simp: payEngagementWithCard_def split: if_splits sum.splits prod.splits)
  have "step\<^sup>*\<^sup>* (d', ts) (snd (payEngagementWithCard now prov u input d), ts)"
    using c by (simp add: payEngagementWithCard_def steps_settle)
  with steps_open_card [OF c] show ?thesis by (rule rtranclp_trans)
qed

lemma steps_pay_wallet: "step\<^sup>*\<^sup>* (d, ts) (snd (startEngagementWalletPayment now prov u e d), ts)"
proof (cases "startEngagementWalletPayment now prov u e d = (fst (startEngagementWalletPayment now prov u e d), d)")
  case True
  then show ?thesis by (metis rtranclp.rtrancl_refl snd_conv)
next
  case False
  then obtain c a d' where c: "providerPayment_pre ENGAGEMENT_NOT_PAYABLE_BY_WALLET d u e = Inr c"
      "openAttempt now WALLET_PAYMENT_ALREADY_IN_PROGRESS c 1 d = Inr (a, d')"
    by (auto simp: startEngagementWalletPayment_def split: sum.splits prod.splits)
  have "step\<^sup>*\<^sup>* (d', ts) (snd (startEngagementWalletPayment now prov u e d), ts)"
    using c by (simp add: startEngagementWalletPayment_def steps_apply_throw split: WalletOutcome.split)
  with steps_open_wallet [OF c] show ?thesis by (rule rtranclp_trans)
qed

lemma steps_notification:
  "handleNotification now prov uuidOf dataId topic country d = Inr d' \<Longrightarrow> step\<^sup>*\<^sup>* (d, ts) (d', ts)"
  by (auto simp: handleNotification_def andThen_Inr_iff intro: steps_apply
      split: SnapshotOutcome.splits option.splits if_splits)

lemma steps_reconcile: "step\<^sup>*\<^sup>* (d, ts) (snd (reconcile now prov a p e d), ts)"
  by (auto simp: reconcile_def intro: steps_apply split: option.split SnapshotOutcome.split sum.split prod.split)

lemma read_state:
  assumes "getMyEngagementPaymentAttempt now prov u e d = Inr (a, d')"
  shows "d' = d \<or> (\<exists>b p i. d' = snd (reconcile now prov b p i d))"
proof -
  obtain g where g: "resolveCustomerEngagement d u e = Inr g"
    using assms by (auto simp: getMyEngagementPaymentAttempt_def andThen_Inr_iff)
  show ?thesis
  proof (cases "findLatestByEngagementId d (eng_id g)")
    case (Some b)
    then show ?thesis using assms g
      by (cases "pa_providerPaymentId b") (auto simp: getMyEngagementPaymentAttempt_def Let_def case_prod_beta split: if_splits)
  qed (use assms g in \<open>simp add: getMyEngagementPaymentAttempt_def\<close>)
qed

lemma steps_read:
  "getMyEngagementPaymentAttempt now prov u e d = Inr (a, d') \<Longrightarrow> step\<^sup>*\<^sup>* (d, ts) (d', ts)"
  using read_state [of now prov u e d a d'] steps_reconcile [of d ts now prov] by auto

end
