(* ===== verification/Uploads_Spent.thy ===== *)
theory Uploads_Spent
  imports Scenario_States
begin

text \<open>
  Single use of the upload references, across the three operations that spend them: chat messages,
  negotiation messages and the attachments of a quote.
\<close>

definition spentRef :: "id \<Rightarrow> db \<Rightarrow> bool" where
  "spentRef i d \<longleftrightarrow> (\<forall>r\<in>set (mediaUploadRefs d). mref_id r = i \<longrightarrow> mref_status r \<noteq> UploadRefStatus.PENDING)"

text \<open>A transaction that spends \<^theory_text>\<open>ids\<close> marks exactly their PENDING references.\<close>

definition spends :: "time \<Rightarrow> id list \<Rightarrow> db \<Rightarrow> db \<Rightarrow> bool" where
  "spends now ids d d' \<longleftrightarrow>
     mediaUploadRefs d' = updateMany (pendingAmong ids) (consumeMediaRef now) (mediaUploadRefs d)"

lemma spends_spent: "spends now ids d d' \<Longrightarrow> i \<in> set ids \<Longrightarrow> spentRef i d'"
  by (auto simp: spends_def spentRef_def set_updateMany consumeMediaRef_def pendingAmong_def)

lemma spends_keys: "spends now ids d d' \<Longrightarrow> map mref_id (mediaUploadRefs d') = map mref_id (mediaUploadRefs d)"
  by (simp add: spends_def map_key_updateMany consumeMediaRef_def)

lemma mark_spends: "markConsumed now ids d = (n, d') \<Longrightarrow> spends now ids d d'"
  by (auto simp: markConsumed_def spends_def)

lemma upsert_refs: "mediaUploadRefs (snd (upsertConversation e d)) = mediaUploadRefs d"
  by (simp add: upsertConversation_def split: option.split)

lemma send_spends: "sendMessage_tx now e party c (Some i) url d = Inr d' \<Longrightarrow> spends now [i] d d'"
  using upsert_refs [of e d]
  by (auto simp: sendMessage_tx_def markConsumed_def createMessage_def spends_def Let_def case_prod_beta split: if_splits)

lemma post_spends:
  "postMessage_tx now q input captured d = Inr d' \<Longrightarrow> pm_mediaUploadRefId input = Some i \<Longrightarrow> spends now [i] d d'"
  by (auto simp: postMessage_tx_def markConsumed_def consumeOptionalRef_def createNegotiationMessage_def spends_def Let_def
      createPriceProposal_def supersedePendingProposals_def andThen_Inr_iff case_prod_beta split: if_splits option.splits)

lemma attach_spends: "addAttachments_tx now q ids urls d = Inr d' \<Longrightarrow> spends now ids d d'"
  by (auto simp: addAttachments_tx_def markConsumed_def createAttachments_def spends_def Let_def case_prod_beta split: if_splits)

section \<open>Refusal\<close>

lemma count_spent:
  assumes "spentRef i d" "distinct (map mref_id (mediaUploadRefs d))" "i \<in> set ids"
  shows "countWhere (pendingAmong ids) (mediaUploadRefs d) < length ids"
proof -
  let ?R = "filter (pendingAmong ids) (mediaUploadRefs d)"
  have "distinct (map mref_id ?R)" using assms(2) by (simp add: distinct_map_filter)
  then have "countWhere (pendingAmong ids) (mediaUploadRefs d) = card (set (map mref_id ?R))"
    using distinct_card by (fastforce simp: countWhere_def)
  also have "\<dots> \<le> card (set ids - {i})"
    using assms(1) by (intro card_mono) (auto simp: pendingAmong_def spentRef_def)
  also have "\<dots> < card (set ids)" using assms(3) by (intro psubset_card_mono) auto
  also have "\<dots> \<le> length ids" by (rule card_length)
  finally show ?thesis .
qed

lemma spent_refused:
  assumes "spentRef i d" "distinct (map mref_id (mediaUploadRefs d))"
  shows "sendMessage_tx now e party c (Some i) url d = Inl INVALID_MEDIA_UPLOAD_REF"
    and "pm_mediaUploadRefId input = Some i \<Longrightarrow> postMessage_tx now q input captured d = Inl INVALID_MEDIA_UPLOAD_REF"
    and "i \<in> set ids \<Longrightarrow> addAttachments_tx now q ids urls d = Inl INVALID_MEDIA_UPLOAD_REF"
proof -
  have one: "countWhere (pendingAmong [i]) (mediaUploadRefs d) = 0"
    using count_spent [OF assms, of "[i]"] by simp
  show "sendMessage_tx now e party c (Some i) url d = Inl INVALID_MEDIA_UPLOAD_REF"
    using one upsert_refs [of e d]
    by (simp add: sendMessage_tx_def markConsumed_def createMessage_def Let_def case_prod_beta)
  show "postMessage_tx now q input captured d = Inl INVALID_MEDIA_UPLOAD_REF" if "pm_mediaUploadRefId input = Some i"
    using one that by (simp add: postMessage_tx_def consumeOptionalRef_def markConsumed_def createNegotiationMessage_def Let_def)
  show "addAttachments_tx now q ids urls d = Inl INVALID_MEDIA_UPLOAD_REF" if "i \<in> set ids"
    using count_spent [OF assms that] by (simp add: addAttachments_tx_def markConsumed_def createAttachments_def Let_def)
qed

end
