(* ===== verification/Accounts.thy ===== *)
theory Accounts
  imports Profiles
begin

text \<open>
  User accounts (src/src/users, src/src/auth, src/src/password-reset): registration with an emailed
  code, its verification and resending, login with a password or a social identity, sessions and the
  reset of a forgotten password.  The accounts, their codes and their sessions are a state of their
  own; the settings are read from the marketplace's database.  The hash functions of the libraries
  and the random values are parameters, and an email handed to the mail queue is an entry of the
  outbox.  A call of a service runs alone here, although its statements are not one transaction in
  the code.
\<close>

section \<open>Data\<close>

datatype UserAccountStatus = PENDING_EMAIL_VERIFICATION | EMAIL_VERIFIED | PENDING_APPROVAL | APPROVED | REJECTED
datatype AuthProvider = PASSWORD | GOOGLE | APPLE
datatype SessionStatus = ACTIVE | EXPIRED | REVOKED

record Account =
  acc_id :: id
  acc_firstName :: "string option"
  acc_lastName :: "string option"
  acc_email :: string
  acc_passwordHash :: "string option"
  acc_phoneCountryCode :: "string option"
  acc_phoneNumber :: "string option"
  acc_dateOfBirth :: "time option"
  acc_acceptedTermsAndPrivacy :: bool
  acc_authProvider :: AuthProvider
  acc_socialProviderSubject :: "string option"
  acc_accountStatus :: UserAccountStatus
  acc_createdAt :: time

text \<open>An email verification code and a password reset code have the same columns.\<close>

record Code =
  code_id :: id
  code_userId :: id
  code_codeHash :: string
  code_expiresAt :: time
  code_attemptsCount :: nat
  code_consumedAt :: "time option"
  code_invalidatedAt :: "time option"
  code_createdAt :: time

record Session =
  ses_id :: id
  ses_userId :: id
  ses_tokenHash :: string
  ses_status :: SessionStatus
  ses_createdAt :: time
  ses_expiresAt :: time
  ses_revokedAt :: "time option"

datatype IdentityDocumentType = NATIONAL_ID | PASSPORT | DRIVERS_LICENSE | FOREIGN_ID | UNKNOWN
datatype IdentityVerificationStatus = PENDING | APPROVED | REJECTED

record IdentityVerification =
  iv_id :: id
  iv_userId :: id
  iv_country :: CountryCode
  iv_provider :: string
  iv_providerReference :: "string option"
  iv_documentType :: IdentityDocumentType
  iv_documentCheckPassed :: "bool option"
  iv_biometricCheckPassed :: "bool option"
  iv_status :: IdentityVerificationStatus
  iv_createdAt :: time

record identity =
  id_nextId :: id
  accounts :: "Account list"
  verificationCodes :: "Code list"
  resetCodes :: "Code list"
  sessions :: "Session list"
  verifications :: "IdentityVerification list"
  outbox :: "(string \<times> string) list"

text \<open>\<^theory_text>\<open>hashPassword\<close> takes the salt the library draws.\<close>

record Crypto =
  sha256 :: "string \<Rightarrow> string"
  hashPassword :: "nat \<Rightarrow> string \<Rightarrow> string"
  verifyPassword :: "string \<Rightarrow> string \<Rightarrow> bool"

record CodePolicy =
  codeTtlMinutes :: int
  resendCooldownSeconds :: int
  maxAttempts :: nat

definition emptyIdentity :: identity where
  "emptyIdentity = \<lparr>id_nextId = 0, accounts = [], verificationCodes = [], resetCodes = [], sessions = [],
     verifications = [], outbox = []\<rparr>"

definition AUTHENTICATION_FAILED :: err where
  "AUTHENTICATION_FAILED = DomainException ''AUTHENTICATION_FAILED''"
definition UNAUTHENTICATED :: err where
  "UNAUTHENTICATED = DomainException ''UNAUTHENTICATED''"
definition REGISTRATION_FAILED :: err where
  "REGISTRATION_FAILED = DomainException ''REGISTRATION_FAILED''"
definition INVALID_PHONE_NUMBER :: err where
  "INVALID_PHONE_NUMBER = DomainException ''INVALID_PHONE_NUMBER''"
definition INVALID_DATE_OF_BIRTH :: err where
  "INVALID_DATE_OF_BIRTH = DomainException ''INVALID_DATE_OF_BIRTH''"
definition TERMS_NOT_ACCEPTED :: err where
  "TERMS_NOT_ACCEPTED = DomainException ''TERMS_NOT_ACCEPTED''"
definition SOCIAL_LOGIN_DISABLED :: err where
  "SOCIAL_LOGIN_DISABLED = DomainException ''SOCIAL_LOGIN_DISABLED''"
definition SOCIAL_LOGIN_MISCONFIGURED :: err where
  "SOCIAL_LOGIN_MISCONFIGURED = DomainException ''SOCIAL_LOGIN_MISCONFIGURED''"
definition EMAIL_DELIVERY_DISABLED :: err where
  "EMAIL_DELIVERY_DISABLED = DomainException ''EMAIL_DELIVERY_DISABLED''"
definition EMAIL_DELIVERY_MISCONFIGURED :: err where
  "EMAIL_DELIVERY_MISCONFIGURED = DomainException ''EMAIL_DELIVERY_MISCONFIGURED''"

section \<open>Repositories\<close>

definition findByEmail :: "identity \<Rightarrow> string \<Rightarrow> Account option" where
  "findByEmail s email = findRow (\<lambda>a. acc_email a = email) (accounts s)"

definition findAccountById :: "identity \<Rightarrow> id \<Rightarrow> Account option" where
  "findAccountById s i = findRow (\<lambda>a. acc_id a = i) (accounts s)"

definition findBySocialProviderSubject :: "identity \<Rightarrow> AuthProvider \<Rightarrow> string \<Rightarrow> Account option" where
  "findBySocialProviderSubject s p subject =
     findRow (\<lambda>a. acc_authProvider a = p \<and> acc_socialProviderSubject a = Some subject) (accounts s)"

definition insertAccount :: "Account \<Rightarrow> identity \<Rightarrow> err + Account \<times> identity" where
  "insertAccount a s =
     (if list_ex (\<lambda>b. acc_email b = acc_email a) (accounts s) then Inl UNIQUE_VIOLATION
      else let a' = a\<lparr>acc_id := id_nextId s\<rparr>
           in Inr (a', s\<lparr>id_nextId := Suc (id_nextId s), accounts := accounts s @ [a']\<rparr>))"

definition updateAccount :: "id \<Rightarrow> (Account \<Rightarrow> Account) \<Rightarrow> identity \<Rightarrow> identity" where
  "updateAccount i f s = s\<lparr>accounts := updateMany (\<lambda>a. acc_id a = i) f (accounts s)\<rparr>"

definition markEmailVerified :: "id \<Rightarrow> identity \<Rightarrow> identity" where
  "markEmailVerified i = updateAccount i (\<lambda>a. a\<lparr>acc_accountStatus := EMAIL_VERIFIED\<rparr>)"

definition updatePasswordHash :: "id \<Rightarrow> string \<Rightarrow> identity \<Rightarrow> identity" where
  "updatePasswordHash i h = updateAccount i (\<lambda>a. a\<lparr>acc_passwordHash := Some h\<rparr>)"

text \<open>The guarded transitions of the account status; the result says whether a row changed.\<close>

definition inAccountStatus :: "UserAccountStatus \<Rightarrow> id \<Rightarrow> Account \<Rightarrow> bool" where
  "inAccountStatus st = guard acc_id acc_accountStatus (\<lambda>x. x = st)"

definition transitionToPendingApprovalIfEmailVerified :: "id \<Rightarrow> identity \<Rightarrow> bool \<times> identity" where
  "transitionToPendingApprovalIfEmailVerified i s =
     (countWhere (inAccountStatus EMAIL_VERIFIED i) (accounts s) = 1,
      s\<lparr>accounts := updateMany (inAccountStatus EMAIL_VERIFIED i)
           (\<lambda>a. a\<lparr>acc_accountStatus := UserAccountStatus.PENDING_APPROVAL\<rparr>) (accounts s)\<rparr>)"

definition transitionFromPendingApproval :: "id \<Rightarrow> UserAccountStatus \<Rightarrow> identity \<Rightarrow> bool \<times> identity" where
  "transitionFromPendingApproval i to s =
     (countWhere (inAccountStatus UserAccountStatus.PENDING_APPROVAL i) (accounts s) = 1,
      s\<lparr>accounts := updateMany (inAccountStatus UserAccountStatus.PENDING_APPROVAL i)
           (\<lambda>a. a\<lparr>acc_accountStatus := to\<rparr>) (accounts s)\<rparr>)"

definition newCode :: "time \<Rightarrow> id \<Rightarrow> string \<Rightarrow> time \<Rightarrow> id \<Rightarrow> Code" where
  "newCode now u h expiresAt i = \<lparr>code_id = i, code_userId = u, code_codeHash = h, code_expiresAt = expiresAt,
     code_attemptsCount = 0, code_consumedAt = None, code_invalidatedAt = None, code_createdAt = now\<rparr>"

definition isActiveCode :: "id \<Rightarrow> Code \<Rightarrow> bool" where
  "isActiveCode u c \<longleftrightarrow> code_userId c = u \<and> code_consumedAt c = None \<and> code_invalidatedAt c = None"

definition findActiveCode :: "Code list \<Rightarrow> id \<Rightarrow> Code option" where
  "findActiveCode rows u = newestWhere (isActiveCode u) code_createdAt rows"

definition incrementAttempts :: "id \<Rightarrow> Code list \<Rightarrow> Code list" where
  "incrementAttempts i = updateMany (\<lambda>c. code_id c = i) (\<lambda>c. c\<lparr>code_attemptsCount := Suc (code_attemptsCount c)\<rparr>)"

definition consumeCode :: "time \<Rightarrow> id \<Rightarrow> Code list \<Rightarrow> Code list" where
  "consumeCode now i = updateMany (\<lambda>c. code_id c = i) (\<lambda>c. c\<lparr>code_consumedAt := Some now\<rparr>)"

definition invalidateCode :: "time \<Rightarrow> id \<Rightarrow> Code list \<Rightarrow> Code list" where
  "invalidateCode now i = updateMany (\<lambda>c. code_id c = i) (\<lambda>c. c\<lparr>code_invalidatedAt := Some now\<rparr>)"

definition invalidateOtherActiveCodes :: "time \<Rightarrow> id \<Rightarrow> id \<Rightarrow> Code list \<Rightarrow> Code list" where
  "invalidateOtherActiveCodes now u keep =
     updateMany (\<lambda>c. isActiveCode u c \<and> code_id c \<noteq> keep) (\<lambda>c. c\<lparr>code_invalidatedAt := Some now\<rparr>)"

definition createEmailVerificationCode :: "time \<Rightarrow> id \<Rightarrow> string \<Rightarrow> time \<Rightarrow> identity \<Rightarrow> identity" where
  "createEmailVerificationCode now u h expiresAt s = s\<lparr>id_nextId := Suc (id_nextId s),
     verificationCodes := verificationCodes s @ [newCode now u h expiresAt (id_nextId s)]\<rparr>"

definition createPasswordResetCode :: "time \<Rightarrow> id \<Rightarrow> string \<Rightarrow> time \<Rightarrow> identity \<Rightarrow> identity" where
  "createPasswordResetCode now u h expiresAt s = s\<lparr>id_nextId := Suc (id_nextId s),
     resetCodes := resetCodes s @ [newCode now u h expiresAt (id_nextId s)]\<rparr>"

section \<open>Sessions\<close>

definition createSession :: "Crypto \<Rightarrow> int \<Rightarrow> time \<Rightarrow> string \<Rightarrow> id \<Rightarrow> identity \<Rightarrow> (string \<times> time) \<times> identity" where
  "createSession cr ttlHours now token u s =
     (let expiresAt = now + ttlHours * (60 * 60 * 1000);
          ses = \<lparr>ses_id = id_nextId s, ses_userId = u, ses_tokenHash = sha256 cr token, ses_status = ACTIVE,
                 ses_createdAt = now, ses_expiresAt = expiresAt, ses_revokedAt = None\<rparr>
      in ((token, expiresAt), s\<lparr>id_nextId := Suc (id_nextId s), sessions := sessions s @ [ses]\<rparr>))"

definition findByTokenHash :: "identity \<Rightarrow> string \<Rightarrow> Session option" where
  "findByTokenHash s h = findRow (\<lambda>x. ses_tokenHash x = h) (sessions s)"

definition updateSession :: "(Session \<Rightarrow> bool) \<Rightarrow> (Session \<Rightarrow> Session) \<Rightarrow> identity \<Rightarrow> identity" where
  "updateSession p f s = s\<lparr>sessions := updateMany p f (sessions s)\<rparr>"

definition markExpired :: "id \<Rightarrow> identity \<Rightarrow> identity" where
  "markExpired i = updateSession (\<lambda>x. ses_id x = i) (\<lambda>x. x\<lparr>ses_status := EXPIRED\<rparr>)"

definition revokeSessionRow :: "time \<Rightarrow> Session \<Rightarrow> Session" where
  "revokeSessionRow now x = x\<lparr>ses_status := REVOKED, ses_revokedAt := Some now\<rparr>"

definition markRevoked :: "time \<Rightarrow> id \<Rightarrow> identity \<Rightarrow> identity" where
  "markRevoked now i = updateSession (\<lambda>x. ses_id x = i) (revokeSessionRow now)"

definition revokeAllActiveForUser :: "time \<Rightarrow> id \<Rightarrow> identity \<Rightarrow> identity" where
  "revokeAllActiveForUser now u = updateSession (\<lambda>x. ses_userId x = u \<and> ses_status x = ACTIVE) (revokeSessionRow now)"

text \<open>An ACTIVE session whose time is over is turned EXPIRED by the first call that reads it.\<close>

definition loadEffectiveSession :: "Crypto \<Rightarrow> time \<Rightarrow> string \<Rightarrow> identity \<Rightarrow> Session option \<times> identity" where
  "loadEffectiveSession cr now token s = (case findByTokenHash s (sha256 cr token) of
       None \<Rightarrow> (None, s)
     | Some x \<Rightarrow> if ses_status x = ACTIVE \<and> ses_expiresAt x \<le> now
         then (Some (x\<lparr>ses_status := EXPIRED\<rparr>), markExpired (ses_id x) s) else (Some x, s))"

definition findActiveSessionUserId :: "Crypto \<Rightarrow> time \<Rightarrow> string \<Rightarrow> identity \<Rightarrow> id option \<times> identity" where
  "findActiveSessionUserId cr now token s = (case loadEffectiveSession cr now token s of
       (None, s') \<Rightarrow> (None, s')
     | (Some x, s') \<Rightarrow> if ses_status x \<noteq> ACTIVE then (None, s') else (Some (ses_userId x), s'))"

definition revokeSession :: "Crypto \<Rightarrow> time \<Rightarrow> string \<Rightarrow> identity \<Rightarrow> bool \<times> identity" where
  "revokeSession cr now token s = (case loadEffectiveSession cr now token s of
       (None, s') \<Rightarrow> (False, s')
     | (Some x, s') \<Rightarrow> if ses_status x \<noteq> ACTIVE then (False, s') else (True, markRevoked now (ses_id x) s'))"

definition logout :: "Crypto \<Rightarrow> time \<Rightarrow> string option \<Rightarrow> identity \<Rightarrow> bool \<times> identity" where
  "logout cr now token s = (case token of
       None \<Rightarrow> (False, s)
     | Some t \<Rightarrow> if t = [] then (False, s) else revokeSession cr now t s)"

definition BEARER_PREFIX :: string where "BEARER_PREFIX = ''Bearer ''"

definition extractBearerToken :: "string option \<Rightarrow> string option" where
  "extractBearerToken header = (case header of
       None \<Rightarrow> None
     | Some h \<Rightarrow>
        if take (length BEARER_PREFIX) h \<noteq> BEARER_PREFIX then None
        else let token = drop (length BEARER_PREFIX) h in if length token > 0 then Some token else None)"

definition authenticateRequest :: "Crypto \<Rightarrow> time \<Rightarrow> string option \<Rightarrow> identity \<Rightarrow> (err + id) \<times> identity" where
  "authenticateRequest cr now header s = (case extractBearerToken header of
       None \<Rightarrow> (Inl UNAUTHENTICATED, s)
     | Some token \<Rightarrow> (case findActiveSessionUserId cr now token s of
           (None, s') \<Rightarrow> (Inl UNAUTHENTICATED, s')
         | (Some u, s') \<Rightarrow> (Inr u, s')))"


section \<open>Codes\<close>

fun decimal :: "nat \<Rightarrow> string" where
  "decimal n = (if n < 10 then [char_of (48 + n)] else decimal (n div 10) @ [char_of (48 + n mod 10)])"

declare decimal.simps [simp del]

definition padStart :: "nat \<Rightarrow> char \<Rightarrow> string \<Rightarrow> string" where
  "padStart k c xs = replicate (k - length xs) c @ xs"

definition CODE_DIGITS :: nat where "CODE_DIGITS = 6"
definition CODE_UPPER_BOUND :: nat where "CODE_UPPER_BOUND = 1000000"

text \<open>\<^theory_text>\<open>n\<close> is the random number below the bound.\<close>

definition generateVerificationCode :: "Crypto \<Rightarrow> nat \<Rightarrow> string \<times> string" where
  "generateVerificationCode cr n =
     (let code = padStart CODE_DIGITS (CHR ''0'') (decimal n) in (code, sha256 cr code))"

text \<open>The check of a submitted code, which the verification of an email address and the reset of a
  password share.\<close>

datatype CodeCheck = NoActiveCode | MaxAttemptsExceeded | CodeExpired | CodeMismatch Code | CodeMatch Code

definition checkCode :: "Crypto \<Rightarrow> CodePolicy \<Rightarrow> time \<Rightarrow> Code list \<Rightarrow> id \<Rightarrow> string \<Rightarrow> CodeCheck" where
  "checkCode cr pol now rows u code = (case findActiveCode rows u of
       None \<Rightarrow> NoActiveCode
     | Some c \<Rightarrow>
        if maxAttempts pol \<le> code_attemptsCount c then MaxAttemptsExceeded
        else if code_expiresAt c < now then CodeExpired
        else if sha256 cr code \<noteq> code_codeHash c then CodeMismatch c
        else CodeMatch c)"

section \<open>Email delivery\<close>

definition EMAIL_PROVIDER_SETTING_KEY :: string where
  "EMAIL_PROVIDER_SETTING_KEY = ''notifications.email.provider''"
definition RESEND_ENABLED :: string where
  "RESEND_ENABLED = ''notifications.email.resend.enabled''"
definition RESEND_API_KEY :: string where
  "RESEND_API_KEY = ''notifications.email.resend.api-key''"
definition RESEND_FROM_ADDRESS :: string where
  "RESEND_FROM_ADDRESS = ''notifications.email.resend.from-address''"

definition nonEmpty :: "string option \<Rightarrow> bool" where
  "nonEmpty v \<longleftrightarrow> v \<noteq> None \<and> v \<noteq> Some []"

definition ensureAvailable :: "bool \<Rightarrow> db \<Rightarrow> err option" where
  "ensureAvailable production db =
     (if getValue db EMAIL_PROVIDER_SETTING_KEY = Some ''MAILPIT''
      then (if production then Some EMAIL_DELIVERY_MISCONFIGURED else None)
      else if getValue db RESEND_ENABLED \<noteq> Some ''true'' then Some EMAIL_DELIVERY_DISABLED
      else if \<not> nonEmpty (getValue db RESEND_API_KEY) \<or> \<not> nonEmpty (getValue db RESEND_FROM_ADDRESS)
        then Some EMAIL_DELIVERY_MISCONFIGURED
      else None)"

section \<open>Registration and verification\<close>

record RegisterInput =
  reg_firstName :: string
  reg_lastName :: string
  reg_email :: string
  reg_password :: string
  reg_phoneCountryCode :: string
  reg_phoneNumber :: string
  reg_dateOfBirth :: time
  reg_acceptedTermsAndPrivacy :: bool

definition isDecimalDigit :: "char \<Rightarrow> bool" where
  "isDecimalDigit c \<longleftrightarrow> 48 \<le> (of_char c :: nat) \<and> (of_char c :: nat) \<le> 57"

definition isValidPhone :: "string \<Rightarrow> string \<Rightarrow> bool" where
  "isValidPhone countryCode number \<longleftrightarrow>
     (case countryCode of [] \<Rightarrow> False
      | c # ds \<Rightarrow> c = CHR ''+'' \<and> 1 \<le> length ds \<and> length ds \<le> 3 \<and> list_all isDecimalDigit ds)
     \<and> 6 \<le> length number \<and> length number \<le> 14 \<and> list_all isDecimalDigit number"

definition createPasswordUser :: "time \<Rightarrow> RegisterInput \<Rightarrow> string \<Rightarrow> identity \<Rightarrow> err + Account \<times> identity" where
  "createPasswordUser now input passwordHash s = insertAccount
     \<lparr>acc_id = 0, acc_firstName = Some (reg_firstName input), acc_lastName = Some (reg_lastName input),
      acc_email = reg_email input, acc_passwordHash = Some passwordHash,
      acc_phoneCountryCode = Some (reg_phoneCountryCode input), acc_phoneNumber = Some (reg_phoneNumber input),
      acc_dateOfBirth = Some (reg_dateOfBirth input), acc_acceptedTermsAndPrivacy = reg_acceptedTermsAndPrivacy input,
      acc_authProvider = PASSWORD, acc_socialProviderSubject = None,
      acc_accountStatus = PENDING_EMAIL_VERIFICATION, acc_createdAt = now\<rparr> s"

definition sendEmail :: "string \<Rightarrow> string \<Rightarrow> identity \<Rightarrow> identity" where
  "sendEmail email code s = s\<lparr>outbox := outbox s @ [(email, code)]\<rparr>"

definition issueAndSendVerificationCode ::
  "Crypto \<Rightarrow> CodePolicy \<Rightarrow> time \<Rightarrow> nat \<Rightarrow> id \<Rightarrow> string \<Rightarrow> identity \<Rightarrow> identity" where
  "issueAndSendVerificationCode cr pol now n u email s =
     (let (code, codeHash) = generateVerificationCode cr n
      in sendEmail email code
           (createEmailVerificationCode now u codeHash (now + codeTtlMinutes pol * 60000) s))"

definition register ::
  "Crypto \<Rightarrow> CodePolicy \<Rightarrow> bool \<Rightarrow> db \<Rightarrow> time \<Rightarrow> nat \<Rightarrow> nat \<Rightarrow> RegisterInput \<Rightarrow> identity \<Rightarrow> err + id \<times> identity" where
  "register cr pol production db now salt n input s = (case ensureAvailable production db of
       Some e \<Rightarrow> Inl e
     | None \<Rightarrow>
        if findByEmail s (reg_email input) \<noteq> None then Inl REGISTRATION_FAILED
        else if \<not> isValidPhone (reg_phoneCountryCode input) (reg_phoneNumber input) then Inl INVALID_PHONE_NUMBER
        else if now < reg_dateOfBirth input then Inl INVALID_DATE_OF_BIRTH
        else if \<not> reg_acceptedTermsAndPrivacy input then Inl TERMS_NOT_ACCEPTED
        else andThen (createPasswordUser now input (hashPassword cr salt (reg_password input)) s) (\<lambda>(a, s').
          Inr (acc_id a, issueAndSendVerificationCode cr pol now n (acc_id a) (acc_email a) s')))"

text \<open>Every failure is the same answer, \<^theory_text>\<open>False\<close>.\<close>

definition verifyEmailCode :: "Crypto \<Rightarrow> CodePolicy \<Rightarrow> time \<Rightarrow> string \<Rightarrow> string \<Rightarrow> identity \<Rightarrow> bool \<times> identity" where
  "verifyEmailCode cr pol now email code s = (case findByEmail s email of
       None \<Rightarrow> (False, s)
     | Some a \<Rightarrow> (case checkCode cr pol now (verificationCodes s) (acc_id a) code of
           CodeMismatch c \<Rightarrow> (False, s\<lparr>verificationCodes := incrementAttempts (code_id c) (verificationCodes s)\<rparr>)
         | CodeMatch c \<Rightarrow> (True, markEmailVerified (acc_id a)
               (s\<lparr>verificationCodes := consumeCode now (code_id c) (verificationCodes s)\<rparr>))
         | _ \<Rightarrow> (False, s)))"

text \<open>The answer is the time at which the next code can be requested.\<close>

definition resendVerificationCode ::
  "Crypto \<Rightarrow> CodePolicy \<Rightarrow> bool \<Rightarrow> db \<Rightarrow> time \<Rightarrow> nat \<Rightarrow> string \<Rightarrow> identity \<Rightarrow> err + time \<times> identity" where
  "resendVerificationCode cr pol production db now n email s = (case ensureAvailable production db of
       Some e \<Rightarrow> Inl e
     | None \<Rightarrow>
        let synthetic = now + resendCooldownSeconds pol * 1000 in
        case findByEmail s email of
          None \<Rightarrow> Inr (synthetic, s)
        | Some a \<Rightarrow>
           if acc_accountStatus a \<noteq> PENDING_EMAIL_VERIFICATION then Inr (synthetic, s)
           else (case findActiveCode (verificationCodes s) (acc_id a) of
               None \<Rightarrow> Inr (synthetic, issueAndSendVerificationCode cr pol now n (acc_id a) (acc_email a) s)
             | Some c \<Rightarrow>
                let cooldownEndsAt = code_createdAt c + resendCooldownSeconds pol * 1000 in
                if now < cooldownEndsAt then Inr (cooldownEndsAt, s)
                else Inr (synthetic, issueAndSendVerificationCode cr pol now n (acc_id a) (acc_email a)
                       (s\<lparr>verificationCodes := invalidateCode now (code_id c) (verificationCodes s)\<rparr>))))"

section \<open>Login\<close>

definition isLoginEligibleStatus :: "UserAccountStatus \<Rightarrow> bool" where
  "isLoginEligibleStatus st \<longleftrightarrow> st \<in> {EMAIL_VERIFIED, UserAccountStatus.PENDING_APPROVAL, UserAccountStatus.APPROVED}"

record LoginPayload =
  lp_userId :: id
  lp_sessionToken :: string
  lp_sessionExpiresAt :: time

definition openSession :: "Crypto \<Rightarrow> int \<Rightarrow> time \<Rightarrow> string \<Rightarrow> id \<Rightarrow> identity \<Rightarrow> LoginPayload \<times> identity" where
  "openSession cr ttlHours now token u s =
     (let ((t, expiresAt), s') = createSession cr ttlHours now token u s
      in (\<lparr>lp_userId = u, lp_sessionToken = t, lp_sessionExpiresAt = expiresAt\<rparr>, s'))"

text \<open>A password is verified in every case, against a decoy hash when there is no account or no
  password; \<^theory_text>\<open>decoy\<close> is that hash.\<close>

definition login :: "Crypto \<Rightarrow> string \<Rightarrow> int \<Rightarrow> time \<Rightarrow> string \<Rightarrow> string \<Rightarrow> string \<Rightarrow> identity \<Rightarrow> err + LoginPayload \<times> identity" where
  "login cr decoy ttlHours now token email password s =
     (let user = findByEmail s email;
          stored = (case user of None \<Rightarrow> None | Some a \<Rightarrow> acc_passwordHash a);
          passwordMatches = verifyPassword cr (case stored of None \<Rightarrow> decoy | Some h \<Rightarrow> h) password
      in case user of
           None \<Rightarrow> Inl AUTHENTICATION_FAILED
         | Some a \<Rightarrow>
            if \<not> nonEmpty (acc_passwordHash a) \<or> \<not> passwordMatches \<or> \<not> isLoginEligibleStatus (acc_accountStatus a)
            then Inl AUTHENTICATION_FAILED
            else Inr (openSession cr ttlHours now token (acc_id a) s))"

datatype SocialProvider = SocialGoogle | SocialApple

definition FEATURE_FLAG_KEY_BY_PROVIDER :: "SocialProvider \<Rightarrow> string" where
  "FEATURE_FLAG_KEY_BY_PROVIDER p = (case p of
       SocialGoogle \<Rightarrow> ''customer.social-login.google.enabled''
     | SocialApple \<Rightarrow> ''customer.social-login.apple.enabled'')"

definition SOCIAL_PROVIDER_TO_AUTH_PROVIDER :: "SocialProvider \<Rightarrow> AuthProvider" where
  "SOCIAL_PROVIDER_TO_AUTH_PROVIDER p = (case p of SocialGoogle \<Rightarrow> GOOGLE | SocialApple \<Rightarrow> APPLE)"

record SocialIdentity =
  si_subject :: string
  si_email :: string
  si_firstName :: "string option"
  si_lastName :: "string option"

text \<open>The validation of an identity token is the provider's and a parameter: it answers an identity,
  fails because GoService is not configured, or fails otherwise.\<close>

datatype IdentityOutcome = ValidIdentity SocialIdentity | IdentityMisconfigured | InvalidIdentity

definition createSocialUser :: "time \<Rightarrow> AuthProvider \<Rightarrow> SocialIdentity \<Rightarrow> identity \<Rightarrow> err + Account \<times> identity" where
  "createSocialUser now p i s = insertAccount
     \<lparr>acc_id = 0, acc_firstName = si_firstName i, acc_lastName = si_lastName i, acc_email = si_email i,
      acc_passwordHash = None, acc_phoneCountryCode = None, acc_phoneNumber = None, acc_dateOfBirth = None,
      acc_acceptedTermsAndPrivacy = False, acc_authProvider = p, acc_socialProviderSubject = Some (si_subject i),
      acc_accountStatus = EMAIL_VERIFIED, acc_createdAt = now\<rparr> s"

definition socialLogin ::
  "Crypto \<Rightarrow> db \<Rightarrow> (SocialProvider \<Rightarrow> string \<Rightarrow> IdentityOutcome) \<Rightarrow> int \<Rightarrow> time \<Rightarrow> string \<Rightarrow> SocialProvider \<Rightarrow> string
     \<Rightarrow> identity \<Rightarrow> err + LoginPayload \<times> identity" where
  "socialLogin cr db validate ttlHours now token p identityToken s =
     (if \<not> isEnabled db (FEATURE_FLAG_KEY_BY_PROVIDER p) then Inl SOCIAL_LOGIN_DISABLED
      else case validate p identityToken of
          IdentityMisconfigured \<Rightarrow> Inl SOCIAL_LOGIN_MISCONFIGURED
        | InvalidIdentity \<Rightarrow> Inl AUTHENTICATION_FAILED
        | ValidIdentity i \<Rightarrow>
           let authProvider = SOCIAL_PROVIDER_TO_AUTH_PROVIDER p in
           andThen (case findBySocialProviderSubject s authProvider (si_subject i) of
                Some a \<Rightarrow> Inr (a, s)
              | None \<Rightarrow> if findByEmail s (si_email i) \<noteq> None then Inl AUTHENTICATION_FAILED
                        else createSocialUser now authProvider i s) (\<lambda>(a, s').
             if \<not> isLoginEligibleStatus (acc_accountStatus a) then Inl AUTHENTICATION_FAILED
             else Inr (openSession cr ttlHours now token (acc_id a) s')))"

section \<open>Password reset\<close>

definition resetEligible :: "Account \<Rightarrow> bool" where
  "resetEligible a \<longleftrightarrow> acc_authProvider a = PASSWORD \<and> acc_passwordHash a \<noteq> None
     \<and> isLoginEligibleStatus (acc_accountStatus a)"

definition issueForUser ::
  "Crypto \<Rightarrow> CodePolicy \<Rightarrow> time \<Rightarrow> nat \<Rightarrow> id \<Rightarrow> string \<Rightarrow> identity \<Rightarrow> bool \<times> identity" where
  "issueForUser cr pol now n u email s =
     (let (code, codeHash) = generateVerificationCode cr n;
          issue = (\<lambda>s. sendEmail email code
             (createPasswordResetCode now u codeHash (now + codeTtlMinutes pol * 60000) s))
      in case findActiveCode (resetCodes s) u of
           None \<Rightarrow> (True, issue s)
         | Some c \<Rightarrow> if now < code_createdAt c + resendCooldownSeconds pol * 1000 then (False, s)
             else (True, issue (s\<lparr>resetCodes := invalidateCode now (code_id c) (resetCodes s)\<rparr>)))"

text \<open>The answer is always the same, so only an error of the mail configuration and the new state
  remain.\<close>

definition requestPasswordReset ::
  "Crypto \<Rightarrow> CodePolicy \<Rightarrow> bool \<Rightarrow> db \<Rightarrow> time \<Rightarrow> nat \<Rightarrow> string \<Rightarrow> identity \<Rightarrow> err + identity" where
  "requestPasswordReset cr pol production db now n email s = (case ensureAvailable production db of
       Some e \<Rightarrow> Inl e
     | None \<Rightarrow> (case findByEmail s email of
           None \<Rightarrow> Inr s
         | Some a \<Rightarrow> if \<not> resetEligible a then Inr s
             else Inr (snd (issueForUser cr pol now n (acc_id a) (acc_email a) s))))"

datatype ResetResult = ResetDone | ResetCodeInvalid | NewPasswordSameAsCurrent

definition resetPassword ::
  "Crypto \<Rightarrow> CodePolicy \<Rightarrow> time \<Rightarrow> nat \<Rightarrow> string \<Rightarrow> string \<Rightarrow> string \<Rightarrow> identity \<Rightarrow> ResetResult \<times> identity" where
  "resetPassword cr pol now salt email code newPassword s = (case findByEmail s email of
       None \<Rightarrow> (ResetCodeInvalid, s)
     | Some a \<Rightarrow>
        if \<not> resetEligible a then (ResetCodeInvalid, s)
        else (case checkCode cr pol now (resetCodes s) (acc_id a) code of
            CodeMismatch c \<Rightarrow> (ResetCodeInvalid, s\<lparr>resetCodes := incrementAttempts (code_id c) (resetCodes s)\<rparr>)
          | CodeMatch c \<Rightarrow>
              if verifyPassword cr (the (acc_passwordHash a)) newPassword then (NewPasswordSameAsCurrent, s)
              else (ResetDone, revokeAllActiveForUser now (acc_id a)
                (let s1 = updatePasswordHash (acc_id a) (hashPassword cr salt newPassword) s
                 in s1\<lparr>resetCodes := invalidateOtherActiveCodes now (acc_id a) (code_id c)
                        (consumeCode now (code_id c) (resetCodes s1))\<rparr>))
          | _ \<Rightarrow> (ResetCodeInvalid, s)))"

end
