(* ===== verification/Onboarding.thy ===== *)
theory Onboarding
  imports Accounts Categories
begin

text \<open>
  The profiles of a user (src/src/profiles): the upload of a profile photo, the two upserts and the
  reads.  The first profile of an account whose email address is verified sends the account to
  approval, in the same transaction as the profile's row, so these services act on both halves of the
  database, \<^theory_text>\<open>db\<close> and \<^theory_text>\<open>identity\<close>.
\<close>

type_synonym platform = "db \<times> identity"

definition INVALID_PROFILE_PHOTO_UPLOAD_REF :: err where
  "INVALID_PROFILE_PHOTO_UPLOAD_REF = DomainException ''INVALID_PROFILE_PHOTO_UPLOAD_REF''"
definition PROFILE_PHOTO_UPLOAD_DISABLED :: err where
  "PROFILE_PHOTO_UPLOAD_DISABLED = DomainException ''PROFILE_PHOTO_UPLOAD_DISABLED''"
definition UNSUPPORTED_PROFILE_PHOTO_CONTENT_TYPE :: err where
  "UNSUPPORTED_PROFILE_PHOTO_CONTENT_TYPE = DomainException ''UNSUPPORTED_PROFILE_PHOTO_CONTENT_TYPE''"
definition PRIMARY_SPECIALIZATION_REQUIRED :: err where
  "PRIMARY_SPECIALIZATION_REQUIRED = DomainException ''PRIMARY_SPECIALIZATION_REQUIRED''"

section \<open>Profile photos\<close>

definition PROFILE_PHOTO_UPLOAD_ENABLED_KEY :: string where
  "PROFILE_PHOTO_UPLOAD_ENABLED_KEY = ''storage.profile-photo-upload.enabled''"

definition ALLOWED_PROFILE_PHOTO_CONTENT_TYPES :: "string list" where
  "ALLOWED_PROFILE_PHOTO_CONTENT_TYPES =
     [''image/jpeg'', ''image/png'', ''image/webp'', ''image/gif'', ''image/heic'', ''image/heif'']"

record PhotoUploadTarget =
  put_uploadUrl :: string
  put_publicUrl :: string
  put_expiresAt :: time

definition createProfilePhotoUploadRef :: "id \<Rightarrow> string \<Rightarrow> time \<Rightarrow> db \<Rightarrow> id \<times> db" where
  "createProfilePhotoUploadRef u fileUrl expiresAt db =
     (nextId db, db\<lparr>nextId := Suc (nextId db), photoUploadRefs := photoUploadRefs db @
        [\<lparr>pref_id = nextId db, pref_userId = u, pref_fileUrl = fileUrl, pref_status = UploadRefStatus.PENDING,
          pref_expiresAt = expiresAt, pref_consumedAt = None\<rparr>]\<rparr>)"

definition findUsablePendingPhotoUploadRef :: "time \<Rightarrow> id \<Rightarrow> id \<Rightarrow> db \<Rightarrow> ProfilePhotoUploadRef option" where
  "findUsablePendingPhotoUploadRef now u ref db = findRow (\<lambda>r. pref_id r = ref \<and> pref_userId r = u
     \<and> pref_status r = UploadRefStatus.PENDING \<and> pref_expiresAt r > now) (photoUploadRefs db)"

text \<open>The storage service is a parameter, as for the other uploads.\<close>

definition requestProfilePhotoUploadUrl ::
  "(string \<Rightarrow> string \<Rightarrow> PhotoUploadTarget) \<Rightarrow> id \<Rightarrow> string \<Rightarrow> string \<Rightarrow> db \<Rightarrow> err + (id \<times> PhotoUploadTarget) \<times> db" where
  "requestProfilePhotoUploadUrl createUploadUrl u fileName contentType db =
     (if \<not> isEnabled db PROFILE_PHOTO_UPLOAD_ENABLED_KEY then Inl PROFILE_PHOTO_UPLOAD_DISABLED
      else if contentType \<notin> set ALLOWED_PROFILE_PHOTO_CONTENT_TYPES then Inl UNSUPPORTED_PROFILE_PHOTO_CONTENT_TYPE
      else let target = createUploadUrl fileName contentType;
               (ref, db') = createProfilePhotoUploadRef u (put_publicUrl target) (put_expiresAt target) db
        in Inr ((ref, target), db'))"

definition resolvePhotoUploadRef :: "time \<Rightarrow> id \<Rightarrow> id option \<Rightarrow> db \<Rightarrow> err + ProfilePhotoUploadRef option" where
  "resolvePhotoUploadRef now u ref db = (case ref of
       None \<Rightarrow> Inr None
     | Some i \<Rightarrow>
        if \<not> isEnabled db PROFILE_PHOTO_UPLOAD_ENABLED_KEY then Inl PROFILE_PHOTO_UPLOAD_DISABLED
        else (case findUsablePendingPhotoUploadRef now u i db of
            None \<Rightarrow> Inl INVALID_PROFILE_PHOTO_UPLOAD_REF
          | Some r \<Rightarrow> Inr (Some r)))"

definition spendPhotoUploadRef :: "time \<Rightarrow> id \<Rightarrow> ProfilePhotoUploadRef option \<Rightarrow> db \<Rightarrow> db" where
  "spendPhotoUploadRef now u photo db = (case photo of
       None \<Rightarrow> db
     | Some ref \<Rightarrow> db\<lparr>photoUploadRefs := updateMany
          (\<lambda>r. pref_id r = pref_id ref \<and> pref_userId r = u \<and> pref_status r = UploadRefStatus.PENDING)
          (\<lambda>r. r\<lparr>pref_status := UploadRefStatus.CONSUMED, pref_consumedAt := Some now\<rparr>) (photoUploadRefs db)\<rparr>)"

section \<open>The customer's profile\<close>

text \<open>A field that is \<^theory_text>\<open>None\<close> was not submitted.\<close>

record UpsertCustomerProfileInput =
  ucp_firstName :: string
  ucp_lastName :: string
  ucp_country :: "CountryCode option"
  ucp_photoUploadRef :: "id option"
  ucp_locationSharingEnabled :: "bool option"

definition DEFAULT_COUNTRY :: CountryCode where "DEFAULT_COUNTRY = AR"

definition orKeep :: "'a option \<Rightarrow> 'a \<Rightarrow> 'a" where
  "orKeep new old = (case new of None \<Rightarrow> old | Some x \<Rightarrow> x)"

definition newPhoto :: "ProfilePhotoUploadRef option \<Rightarrow> string option \<Rightarrow> string option" where
  "newPhoto photo old = (case photo of None \<Rightarrow> old | Some r \<Rightarrow> Some (pref_fileUrl r))"

definition writeCustomerProfile ::
  "UpsertCustomerProfileInput \<Rightarrow> ProfilePhotoUploadRef option \<Rightarrow> CustomerProfile \<Rightarrow> CustomerProfile" where
  "writeCustomerProfile input photo p = p\<lparr>cp_firstName := ucp_firstName input, cp_lastName := ucp_lastName input,
     cp_country := orKeep (ucp_country input) DEFAULT_COUNTRY, cp_photoUrl := newPhoto photo (cp_photoUrl p),
     cp_locationSharingEnabled := orKeep (ucp_locationSharingEnabled input) (cp_locationSharingEnabled p)\<rparr>"

definition emptyCustomerProfile :: "id \<Rightarrow> id \<Rightarrow> CustomerProfile" where
  "emptyCustomerProfile i u = \<lparr>cp_id = i, cp_userId = u, cp_firstName = [], cp_lastName = [], cp_country = AR,
     cp_photoUrl = None, cp_locationSharingEnabled = False, cp_noShowReportedCount = 0\<rparr>"

text \<open>The transaction: the row, the photo's reference, and on the first write the account's status.\<close>

definition upsertCustomerProfile_tx ::
  "time \<Rightarrow> id \<Rightarrow> UpsertCustomerProfileInput \<Rightarrow> ProfilePhotoUploadRef option \<Rightarrow> platform \<Rightarrow> err + bool \<times> platform" where
  "upsertCustomerProfile_tx now u input photo st = (case st of (db, s) \<Rightarrow>
     (case findCustomerProfileByUserId db u of
        Some p \<Rightarrow> Inr (False, spendPhotoUploadRef now u photo
          (db\<lparr>customerProfiles := updateMany (\<lambda>r. cp_userId r = u) (writeCustomerProfile input photo) (customerProfiles db)\<rparr>), s)
      | None \<Rightarrow>
         if findAccountById s u = None then Inl FOREIGN_KEY_VIOLATION
         else let db' = db\<lparr>nextId := Suc (nextId db), customerProfiles := customerProfiles db @
                    [writeCustomerProfile input photo (emptyCustomerProfile (nextId db) u)]\<rparr>;
                  (transitioned, s') = transitionToPendingApprovalIfEmailVerified u s
              in Inr (transitioned, spendPhotoUploadRef now u photo db', s')))"

definition upsertCustomerProfile ::
  "time \<Rightarrow> id \<Rightarrow> UpsertCustomerProfileInput \<Rightarrow> platform \<Rightarrow> err + bool \<times> platform" where
  "upsertCustomerProfile now u input st =
     andThen (resolvePhotoUploadRef now u (ucp_photoUploadRef input) (fst st))
       (\<lambda>photo. upsertCustomerProfile_tx now u input photo st)"

section \<open>The professional's profile\<close>

record SpecializationInput =
  si_categoryId :: id
  si_role :: SpecializationRole
  si_description :: string
  si_yearsOfExperience :: "int option"

text \<open>The display name may be submitted as null, which clears it.\<close>

record UpsertProfessionalProfileInput =
  upp_firstName :: string
  upp_lastName :: string
  upp_displayName :: "string option option"
  upp_country :: "CountryCode option"
  upp_bio :: string
  upp_photoUploadRef :: "id option"
  upp_languages :: "string list option"
  upp_specializations :: "SpecializationInput list"
  upp_locationSharingEnabled :: "bool option"

definition assertExactlyOnePrimary :: "SpecializationInput list \<Rightarrow> err option" where
  "assertExactlyOnePrimary specs =
     (if length (filter (\<lambda>x. si_role x = SpecializationRole.PRIMARY) specs) \<noteq> 1
      then Some PRIMARY_SPECIALIZATION_REQUIRED else None)"

definition findExistingCategoryIds :: "id list \<Rightarrow> db \<Rightarrow> id list" where
  "findExistingCategoryIds ids db = map cat_id (filter (\<lambda>c. cat_id c \<in> set ids) (categories db))"

definition assertCategoriesExist :: "id list \<Rightarrow> db \<Rightarrow> err option" where
  "assertCategoriesExist ids db =
     (if filter (\<lambda>i. i \<notin> set (findExistingCategoryIds ids db)) ids \<noteq> [] then Some CATEGORY_NOT_FOUND else None)"

definition specializationRow :: "nat \<Rightarrow> SpecializationInput \<Rightarrow> ProfessionalSpecialization" where
  "specializationRow n x = \<lparr>spec_categoryId = si_categoryId x, spec_role = si_role x, spec_description = si_description x,
     spec_yearsOfExperience = si_yearsOfExperience x, spec_order = n\<rparr>"

definition specializationRows :: "SpecializationInput list \<Rightarrow> ProfessionalSpecialization list" where
  "specializationRows specs = map (\<lambda>(n, x). specializationRow n x) (enumerate 0 specs)"

definition writeProfessionalProfile ::
  "UpsertProfessionalProfileInput \<Rightarrow> ProfilePhotoUploadRef option \<Rightarrow> ProfessionalProfile \<Rightarrow> ProfessionalProfile" where
  "writeProfessionalProfile input photo p = p\<lparr>pp_firstName := upp_firstName input, pp_lastName := upp_lastName input,
     pp_displayName := orKeep (upp_displayName input) (pp_displayName p),
     pp_country := orKeep (upp_country input) DEFAULT_COUNTRY, pp_bio := upp_bio input,
     pp_photoUrl := newPhoto photo (pp_photoUrl p), pp_languages := orKeep (upp_languages input) (pp_languages p),
     pp_locationSharingEnabled := orKeep (upp_locationSharingEnabled input) (pp_locationSharingEnabled p),
     pp_specializations := specializationRows (upp_specializations input)\<rparr>"

definition emptyProfessionalProfile :: "id \<Rightarrow> id \<Rightarrow> ProfessionalProfile" where
  "emptyProfessionalProfile i u = \<lparr>pp_id = i, pp_userId = u, pp_firstName = [], pp_lastName = [], pp_displayName = None,
     pp_country = AR, pp_bio = [], pp_photoUrl = None, pp_languages = [],
     pp_verificationStatus = ProfessionalVerificationStatus.UNVERIFIED, pp_locationSharingEnabled = False,
     pp_noShowReportedCount = 0, pp_specializations = []\<rparr>"

text \<open>The primary key of a specialization is its profile and its category.\<close>

definition upsertProfessionalProfile_tx ::
  "time \<Rightarrow> id \<Rightarrow> UpsertProfessionalProfileInput \<Rightarrow> ProfilePhotoUploadRef option \<Rightarrow> platform \<Rightarrow> err + bool \<times> platform" where
  "upsertProfessionalProfile_tx now u input photo st = (case st of (db, s) \<Rightarrow>
     if findProfessionalProfileByUserId db u = None \<and> findAccountById s u = None then Inl FOREIGN_KEY_VIOLATION
     else if \<not> distinct (map si_categoryId (upp_specializations input)) then Inl UNIQUE_VIOLATION
     else (case findProfessionalProfileByUserId db u of
        Some p \<Rightarrow> Inr (False, spendPhotoUploadRef now u photo
          (db\<lparr>professionalProfiles := updateMany (\<lambda>r. pp_userId r = u) (writeProfessionalProfile input photo) (professionalProfiles db)\<rparr>), s)
      | None \<Rightarrow>
         let db' = db\<lparr>nextId := Suc (nextId db), professionalProfiles := professionalProfiles db @
               [writeProfessionalProfile input photo (emptyProfessionalProfile (nextId db) u)]\<rparr>;
             (transitioned, s') = transitionToPendingApprovalIfEmailVerified u s
         in Inr (transitioned, spendPhotoUploadRef now u photo db', s')))"

definition upsertProfessionalProfile ::
  "time \<Rightarrow> id \<Rightarrow> UpsertProfessionalProfileInput \<Rightarrow> platform \<Rightarrow> err + bool \<times> platform" where
  "upsertProfessionalProfile now u input st =
     (case assertExactlyOnePrimary (upp_specializations input) of Some e \<Rightarrow> Inl e | None \<Rightarrow>
        (case assertCategoriesExist (map si_categoryId (upp_specializations input)) (fst st) of Some e \<Rightarrow> Inl e | None \<Rightarrow>
           andThen (resolvePhotoUploadRef now u (upp_photoUploadRef input) (fst st))
             (\<lambda>photo. upsertProfessionalProfile_tx now u input photo st)))"

section \<open>Reads\<close>

definition findAccountStatusById :: "identity \<Rightarrow> id \<Rightarrow> UserAccountStatus option" where
  "findAccountStatusById s i = (case findAccountById s i of None \<Rightarrow> None | Some a \<Rightarrow> Some (acc_accountStatus a))"

definition findCountryForUser :: "db \<Rightarrow> id \<Rightarrow> CountryCode option" where
  "findCountryForUser db u = (case findCustomerProfileByUserId db u of
       Some p \<Rightarrow> Some (cp_country p)
     | None \<Rightarrow> (case findProfessionalProfileByUserId db u of Some p \<Rightarrow> Some (pp_country p) | None \<Rightarrow> None))"

end
