(* ===== verification/Identity_Verification.thy ===== *)
theory Identity_Verification
  imports Onboarding
begin

text \<open>
  The verification of a person's identity (src/src/identity-verification): a session is started with
  the provider for an account that waits for approval, and the provider's webhook, once its signature
  is checked, settles the row and the account.  The provider's service, the keyed hash and the parsing
  of the body are parameters; a webhook's payload has the shape of its declared interface, where a
  field of unknown type is \<^theory_text>\<open>None\<close> unless it is a string.  Then the two
  administrator's services that act on an account: its update and the forced reset of its password.
\<close>

definition ACCOUNT_NOT_PENDING_APPROVAL :: err where
  "ACCOUNT_NOT_PENDING_APPROVAL = DomainException ''ACCOUNT_NOT_PENDING_APPROVAL''"
definition ACCOUNT_NOT_APPROVED :: err where
  "ACCOUNT_NOT_APPROVED = DomainException ''ACCOUNT_NOT_APPROVED''"
definition IDENTITY_VERIFICATION_DISABLED :: err where
  "IDENTITY_VERIFICATION_DISABLED = DomainException ''IDENTITY_VERIFICATION_DISABLED''"
definition IDENTITY_VERIFICATION_MISCONFIGURED :: err where
  "IDENTITY_VERIFICATION_MISCONFIGURED = DomainException ''IDENTITY_VERIFICATION_MISCONFIGURED''"
definition IDENTITY_VERIFICATION_PROVIDER_ERROR :: err where
  "IDENTITY_VERIFICATION_PROVIDER_ERROR = DomainException ''IDENTITY_VERIFICATION_PROVIDER_ERROR''"

text \<open>The plain Error of a user without a profile, the 401 of the webhook's controller, and what
  Prisma raises for a text that is no uuid.\<close>

definition COUNTRY_UNRESOLVABLE :: err where
  "COUNTRY_UNRESOLVABLE = DomainException ''Error''"
definition UNAUTHORIZED :: err where
  "UNAUTHORIZED = DomainException ''UnauthorizedException''"
definition MALFORMED_UUID :: err where
  "MALFORMED_UUID = PrismaError ''P2023''"

section \<open>Settings\<close>

definition IDENTITY_ENABLED :: string where "IDENTITY_ENABLED = ''identity.enabled''"
definition DIDIT_ENABLED :: string where "DIDIT_ENABLED = ''identity.didit.enabled''"
definition DIDIT_MODE :: string where "DIDIT_MODE = ''identity.didit.mode''"
definition DIDIT_PROVIDER_NAME :: string where "DIDIT_PROVIDER_NAME = ''didit''"

datatype DiditMode = SANDBOX | PRODUCTION

definition parseDiditMode :: "string option \<Rightarrow> DiditMode" where
  "parseDiditMode raw = (if raw = Some ''PRODUCTION'' then PRODUCTION else SANDBOX)"

definition diditModeSettingKeys :: "DiditMode \<Rightarrow> string \<times> string \<times> string" where
  "diditModeSettingKeys mode =
     (let prefix = ''identity.didit.'' @ (case mode of SANDBOX \<Rightarrow> ''sandbox'' | PRODUCTION \<Rightarrow> ''production'')
      in (prefix @ ''.api-key'', prefix @ ''.workflow-id'', prefix @ ''.webhook-secret''))"

definition resolveProvider :: "db \<Rightarrow> err option" where
  "resolveProvider db =
     (if \<not> isEnabled db IDENTITY_ENABLED then Some IDENTITY_VERIFICATION_DISABLED
      else if \<not> isEnabled db DIDIT_ENABLED then Some IDENTITY_VERIFICATION_DISABLED
      else None)"

section \<open>The provider's adapter\<close>

text \<open>The answer of the provider to a session that is asked for: its id and its page, or any failure.\<close>

definition createProviderSession ::
  "(string \<Rightarrow> string \<Rightarrow> id \<Rightarrow> (string \<times> string) option) \<Rightarrow> db \<Rightarrow> id \<Rightarrow> err + string \<times> string" where
  "createProviderSession didit db i =
     (let (apiKey, workflowId, _) = diditModeSettingKeys (parseDiditMode (getValue db DIDIT_MODE))
      in if \<not> nonEmpty (getValue db apiKey) \<or> \<not> nonEmpty (getValue db workflowId)
         then Inl IDENTITY_VERIFICATION_MISCONFIGURED
         else (case didit (the (getValue db apiKey)) (the (getValue db workflowId)) i of
             None \<Rightarrow> Inl IDENTITY_VERIFICATION_PROVIDER_ERROR
           | Some (sessionId, url) \<Rightarrow>
               if sessionId = [] \<or> url = [] then Inl IDENTITY_VERIFICATION_PROVIDER_ERROR
               else Inr (sessionId, url)))"

record DiditWebhookCheckResult =
  ck_status :: "string option"
  ck_document_type :: "string option"

record DiditWebhookDecision =
  dec_id_verifications :: "DiditWebhookCheckResult list option"
  dec_liveness_checks :: "DiditWebhookCheckResult list option"
  dec_face_matches :: "DiditWebhookCheckResult list option"

record DiditWebhookPayload =
  wh_session_id :: "string option"
  wh_vendor_data :: "string option"
  wh_decision :: "DiditWebhookDecision option"

record IdentityVerificationResult =
  ir_providerReference :: string
  ir_documentCheckPassed :: "bool option"
  ir_biometricCheckPassed :: "bool option"
  ir_documentType :: IdentityDocumentType
  ir_status :: IdentityVerificationStatus

definition resolveIdentityVerificationStatus :: "bool option \<Rightarrow> bool option \<Rightarrow> IdentityVerificationStatus" where
  "resolveIdentityVerificationStatus documentCheckPassed biometricCheckPassed =
     (if documentCheckPassed = None \<or> biometricCheckPassed = None then IdentityVerificationStatus.PENDING
      else if the documentCheckPassed \<and> the biometricCheckPassed then IdentityVerificationStatus.APPROVED
      else IdentityVerificationStatus.REJECTED)"

definition DIDIT_CHECK_APPROVED :: string where "DIDIT_CHECK_APPROVED = ''Approved''"

definition isApproved :: "DiditWebhookCheckResult \<Rightarrow> bool" where
  "isApproved check \<longleftrightarrow> ck_status check = Some DIDIT_CHECK_APPROVED"

definition optionalString :: "string option \<Rightarrow> string option" where
  "optionalString v = (if v = Some [] then None else v)"

text \<open>Lower case of the letters the keywords consist of; no other character changes a search for them.\<close>

definition lowerChar :: "char \<Rightarrow> char" where
  "lowerChar c = (if 65 \<le> (of_char c :: nat) \<and> (of_char c :: nat) \<le> 90 then char_of ((of_char c :: nat) + 32) else c)"

fun contains :: "string \<Rightarrow> string \<Rightarrow> bool" where
  "contains [] w = (w = [])"
| "contains (c # cs) w = (take (length w) (c # cs) = w \<or> contains cs w)"

definition DOCUMENT_TYPE_KEYWORD_MAP :: "(string \<times> IdentityDocumentType) list" where
  "DOCUMENT_TYPE_KEYWORD_MAP = [(''passport'', PASSPORT), (''driver'', DRIVERS_LICENSE), (''residence'', FOREIGN_ID),
     (''foreign'', FOREIGN_ID), (''identity'', NATIONAL_ID), (''national'', NATIONAL_ID)]"

definition mapDocumentType :: "string \<Rightarrow> IdentityDocumentType" where
  "mapDocumentType raw = (case findRow (\<lambda>(keyword, t). contains (map lowerChar raw) keyword) DOCUMENT_TYPE_KEYWORD_MAP of
       None \<Rightarrow> UNKNOWN | Some (_, t) \<Rightarrow> t)"

definition orEmpty :: "'a list option \<Rightarrow> 'a list" where
  "orEmpty xs = (case xs of None \<Rightarrow> [] | Some ys \<Rightarrow> ys)"

definition translateWebhookPayload :: "DiditWebhookPayload \<Rightarrow> IdentityVerificationResult" where
  "translateWebhookPayload payload =
     (let (documentCheckPassed, biometricCheckPassed, documentType) = (case wh_decision payload of
            None \<Rightarrow> (None, None, UNKNOWN)
          | Some decision \<Rightarrow>
             let idVerifications = orEmpty (dec_id_verifications decision);
                 livenessChecks = orEmpty (dec_liveness_checks decision);
                 faceMatches = orEmpty (dec_face_matches decision);
                 reported = findRow (\<lambda>v. v \<noteq> None) (map (optionalString \<circ> ck_document_type) idVerifications)
             in (Some (idVerifications \<noteq> [] \<and> list_all isApproved idVerifications),
                 Some (livenessChecks \<noteq> [] \<and> faceMatches \<noteq> [] \<and> list_all isApproved livenessChecks \<and> list_all isApproved faceMatches),
                 (case reported of Some (Some t) \<Rightarrow> mapDocumentType t | _ \<Rightarrow> UNKNOWN)))
      in \<lparr>ir_providerReference = (case optionalString (wh_session_id payload) of None \<Rightarrow> [] | Some r \<Rightarrow> r),
          ir_documentCheckPassed = documentCheckPassed, ir_biometricCheckPassed = biometricCheckPassed,
          ir_documentType = documentType,
          ir_status = resolveIdentityVerificationStatus documentCheckPassed biometricCheckPassed\<rparr>)"

definition WEBHOOK_TIMESTAMP_WINDOW_SECONDS :: rat where
  "WEBHOOK_TIMESTAMP_WINDOW_SECONDS = 300"

text \<open>\<^theory_text>\<open>hmac\<close> is the hexadecimal HMAC-SHA256 of a body under a secret.\<close>

definition verifyWebhookSignature ::
  "(string \<Rightarrow> string \<Rightarrow> string) \<Rightarrow> db \<Rightarrow> time \<Rightarrow> string \<Rightarrow> string option \<Rightarrow> string option \<Rightarrow> bool" where
  "verifyWebhookSignature hmac db now rawBody signatureHeader timestampHeader =
     (if \<not> nonEmpty signatureHeader \<or> \<not> nonEmpty timestampHeader then False
      else case Number (the timestampHeader) of
          Finite timestampSeconds \<Rightarrow>
            if \<bar>of_int now / 1000 - timestampSeconds\<bar> > WEBHOOK_TIMESTAMP_WINDOW_SECONDS then False
            else (let (_, _, webhookSecret) = diditModeSettingKeys (parseDiditMode (getValue db DIDIT_MODE))
                  in if \<not> nonEmpty (getValue db webhookSecret) then False
                     else hmac (the (getValue db webhookSecret)) rawBody = the signatureHeader)
        | _ \<Rightarrow> False)"

section \<open>Rows\<close>

definition createVerification :: "time \<Rightarrow> id \<Rightarrow> CountryCode \<Rightarrow> string \<Rightarrow> identity \<Rightarrow> IdentityVerification \<times> identity" where
  "createVerification now u country reference s =
     (let row = \<lparr>iv_id = id_nextId s, iv_userId = u, iv_country = country, iv_provider = DIDIT_PROVIDER_NAME,
            iv_providerReference = Some reference, iv_documentType = UNKNOWN, iv_documentCheckPassed = None,
            iv_biometricCheckPassed = None, iv_status = IdentityVerificationStatus.PENDING, iv_createdAt = now\<rparr>
      in (row, s\<lparr>id_nextId := Suc (id_nextId s), verifications := verifications s @ [row]\<rparr>))"

definition findVerificationById :: "identity \<Rightarrow> id \<Rightarrow> IdentityVerification option" where
  "findVerificationById s i = findRow (\<lambda>v. iv_id v = i) (verifications s)"

definition findMostRecentByUserId :: "identity \<Rightarrow> id \<Rightarrow> IdentityVerification option" where
  "findMostRecentByUserId s u = newestWhere (\<lambda>v. iv_userId v = u) iv_createdAt (verifications s)"

definition settleVerification :: "IdentityVerificationResult \<Rightarrow> IdentityVerification \<Rightarrow> IdentityVerification" where
  "settleVerification r v = v\<lparr>iv_status := ir_status r, iv_documentCheckPassed := ir_documentCheckPassed r,
     iv_biometricCheckPassed := ir_biometricCheckPassed r, iv_documentType := ir_documentType r\<rparr>"

definition pendingVerification :: "id \<Rightarrow> IdentityVerification \<Rightarrow> bool" where
  "pendingVerification = guard iv_id iv_status (\<lambda>x. x = IdentityVerificationStatus.PENDING)"

definition updateResultIfPending :: "id \<Rightarrow> IdentityVerificationResult \<Rightarrow> identity \<Rightarrow> bool \<times> identity" where
  "updateResultIfPending i r s = (countWhere (pendingVerification i) (verifications s) = 1,
     s\<lparr>verifications := updateMany (pendingVerification i) (settleVerification r) (verifications s)\<rparr>)"

section \<open>Services\<close>

text \<open>The uuid is drawn by the service before the provider is asked; it is the next id here.\<close>

definition startIdentityVerification ::
  "(string \<Rightarrow> string \<Rightarrow> id \<Rightarrow> (string \<times> string) option) \<Rightarrow> time \<Rightarrow> id \<Rightarrow> platform
     \<Rightarrow> err + (IdentityVerification \<times> string) \<times> identity" where
  "startIdentityVerification didit now u st = (case st of (db, s) \<Rightarrow>
     if findAccountStatusById s u \<noteq> Some UserAccountStatus.PENDING_APPROVAL then Inl ACCOUNT_NOT_PENDING_APPROVAL
     else (case findCountryForUser db u of
         None \<Rightarrow> Inl COUNTRY_UNRESOLVABLE
       | Some country \<Rightarrow> (case resolveProvider db of
           Some e \<Rightarrow> Inl e
         | None \<Rightarrow> andThen (createProviderSession didit db (id_nextId s)) (\<lambda>(reference, url).
             let (row, s') = createVerification now u country reference s in Inr ((row, url), s')))))"

definition getMyIdentityVerificationStatus :: "identity \<Rightarrow> id \<Rightarrow> IdentityVerification option" where
  "getMyIdentityVerificationStatus s u = findMostRecentByUserId s u"

definition executeWebhook :: "(string \<Rightarrow> id option) \<Rightarrow> DiditWebhookPayload \<Rightarrow> identity \<Rightarrow> err + identity" where
  "executeWebhook uuidOf payload s =
     (let result = translateWebhookPayload payload
      in case wh_vendor_data payload of
          None \<Rightarrow> Inr s
        | Some vendorData \<Rightarrow>
            if vendorData = [] then Inr s
            else (case uuidOf vendorData of
                None \<Rightarrow> Inl MALFORMED_UUID
              | Some i \<Rightarrow> (case findVerificationById s i of
                  None \<Rightarrow> Inr s
                | Some existing \<Rightarrow>
                    if iv_status existing \<noteq> IdentityVerificationStatus.PENDING then Inr s
                    else (let (applied, s1) = updateResultIfPending (iv_id existing) result s
                          in if \<not> applied then Inr s1
                             else if ir_status result = IdentityVerificationStatus.APPROVED
                               then Inr (snd (transitionFromPendingApproval (iv_userId existing) UserAccountStatus.APPROVED s1))
                             else if ir_status result = IdentityVerificationStatus.REJECTED
                               then Inr (snd (transitionFromPendingApproval (iv_userId existing) UserAccountStatus.REJECTED s1))
                             else Inr s1))))"

definition handleWebhook ::
  "(string \<Rightarrow> string \<Rightarrow> string) \<Rightarrow> (string \<Rightarrow> id option) \<Rightarrow> (string \<Rightarrow> DiditWebhookPayload option) \<Rightarrow> time
     \<Rightarrow> string \<Rightarrow> string option \<Rightarrow> string option \<Rightarrow> platform \<Rightarrow> err + identity" where
  "handleWebhook hmac uuidOf parse now rawBody signature timestamp st = (case st of (db, s) \<Rightarrow>
     if \<not> verifyWebhookSignature hmac db now rawBody signature timestamp then Inl UNAUTHORIZED
     else (case parse rawBody of None \<Rightarrow> Inr s | Some payload \<Rightarrow> executeWebhook uuidOf payload s))"

text \<open>The guard of the operations that need an approved account.\<close>

definition accountApprovedGuard :: "identity \<Rightarrow> id option \<Rightarrow> err option" where
  "accountApprovedGuard s u = (case u of
       None \<Rightarrow> Some UNAUTHENTICATED
     | Some i \<Rightarrow> if findAccountStatusById s i \<noteq> Some UserAccountStatus.APPROVED then Some ACCOUNT_NOT_APPROVED else None)"

section \<open>An account in the hands of an administrator\<close>

definition USER_ACCOUNT_NOT_FOUND :: err where
  "USER_ACCOUNT_NOT_FOUND = DomainException ''USER_ACCOUNT_NOT_FOUND''"
definition USER_ACCOUNT_EMAIL_TAKEN :: err where
  "USER_ACCOUNT_EMAIL_TAKEN = DomainException ''USER_ACCOUNT_EMAIL_TAKEN''"

record UpdateUserAccountInput =
  uua_firstName :: "string option"
  uua_lastName :: "string option"
  uua_phoneCountryCode :: "string option"
  uua_phoneNumber :: "string option"
  uua_email :: "string option"
  uua_accountStatus :: "UserAccountStatus option"

definition changedTo :: "'a option \<Rightarrow> 'a option \<Rightarrow> bool" where
  "changedTo new old \<longleftrightarrow> new \<noteq> None \<and> new \<noteq> old"

definition emailChanges :: "UpdateUserAccountInput \<Rightarrow> Account \<Rightarrow> bool" where
  "emailChanges input a \<longleftrightarrow> changedTo (uua_email input) (Some (acc_email a))"

text \<open>A changed address sends the account back to the verification of its address, whatever status
  was submitted with it.\<close>

definition statusAfterUpdate :: "UpdateUserAccountInput \<Rightarrow> Account \<Rightarrow> UserAccountStatus" where
  "statusAfterUpdate input a =
     (if emailChanges input a then PENDING_EMAIL_VERIFICATION else orKeep (uua_accountStatus input) (acc_accountStatus a))"

definition applyAccountUpdate :: "UpdateUserAccountInput \<Rightarrow> UserAccountStatus \<Rightarrow> Account \<Rightarrow> Account" where
  "applyAccountUpdate input st a = a
     \<lparr>acc_firstName := (if uua_firstName input = None then acc_firstName a else uua_firstName input),
      acc_lastName := (if uua_lastName input = None then acc_lastName a else uua_lastName input),
      acc_phoneCountryCode := (if uua_phoneCountryCode input = None then acc_phoneCountryCode a else uua_phoneCountryCode input),
      acc_phoneNumber := (if uua_phoneNumber input = None then acc_phoneNumber a else uua_phoneNumber input),
      acc_email := orKeep (uua_email input) (acc_email a), acc_accountStatus := st\<rparr>"

definition updateUserAccount :: "id \<Rightarrow> id \<Rightarrow> UpdateUserAccountInput \<Rightarrow> platform \<Rightarrow> err + platform" where
  "updateUserAccount adminUserId i input st = (case st of (db, s) \<Rightarrow>
     (case findAccountById s i of
        None \<Rightarrow> Inl USER_ACCOUNT_NOT_FOUND
      | Some existing \<Rightarrow>
         if emailChanges input existing
            \<and> (case findByEmail s (the (uua_email input)) of None \<Rightarrow> False | Some owner \<Rightarrow> acc_id owner \<noteq> i)
         then Inl USER_ACCOUNT_EMAIL_TAKEN
         else (let change = applyAccountUpdate input (statusAfterUpdate input existing)
               in if change existing = existing then Inr (db, s)
                  else Inr (writeAudit adminUserId ''USER_ACCOUNT_UPDATED'' ''User'' i db, updateAccount i change s))))"

definition forceUserAccountPasswordReset ::
  "Crypto \<Rightarrow> CodePolicy \<Rightarrow> bool \<Rightarrow> time \<Rightarrow> nat \<Rightarrow> id \<Rightarrow> id \<Rightarrow> platform \<Rightarrow> err + platform" where
  "forceUserAccountPasswordReset cr pol production now n adminUserId u st = (case st of (db, s) \<Rightarrow>
     (case ensureAvailable production db of
        Some e \<Rightarrow> Inl e
      | None \<Rightarrow> (case findAccountById s u of
          None \<Rightarrow> Inl USER_ACCOUNT_NOT_FOUND
        | Some a \<Rightarrow> Inr (writeAudit adminUserId ''USER_ACCOUNT_PASSWORD_RESET_FORCED'' ''User'' u db,
             snd (issueForUser cr pol now n (acc_id a) (acc_email a) s)))))"

end
