(* ===== verification/Account_Safety.thy ===== *)
theory Account_Safety
  imports Identity_Verification
begin

text \<open>
  What the account services keep: the shape of the tables (distinct ids and addresses, at most one
  active code of each kind per account, its wrong guesses bounded, a verification's status that of its
  two checks), the history of their rows, and which services settle no account.  A service's lemma is
  named after it; \<^theory_text>\<open>calm\<close> says all three.
\<close>

section \<open>Tables of codes\<close>

definition codesOk :: "CodePolicy \<Rightarrow> id \<Rightarrow> Code list \<Rightarrow> bool" where
  "codesOk pol n rows \<longleftrightarrow> keyed code_id n rows \<and> (\<forall>u. countWhere (isActiveCode u) rows \<le> 1)
     \<and> (\<forall>c\<in>set rows. code_userId c < n \<and> code_attemptsCount c \<le> maxAttempts pol)"

definition codeEvolves :: "Code \<Rightarrow> Code \<Rightarrow> bool" where
  "codeEvolves c c' \<longleftrightarrow> code_id c' = code_id c \<and> code_userId c' = code_userId c \<and> code_codeHash c' = code_codeHash c
     \<and> code_expiresAt c' = code_expiresAt c \<and> code_createdAt c' = code_createdAt c
     \<and> code_attemptsCount c \<le> code_attemptsCount c'
     \<and> (code_consumedAt c \<noteq> None \<longrightarrow> code_consumedAt c' \<noteq> None)
     \<and> (code_invalidatedAt c \<noteq> None \<longrightarrow> code_invalidatedAt c' \<noteq> None)"

lemma codeEvolves_refl [simp]: "codeEvolves c c"
  by (simp add: codeEvolves_def)

lemma codeEvolves_trans: "codeEvolves a b \<Longrightarrow> codeEvolves b c \<Longrightarrow> codeEvolves a c"
  by (auto simp: codeEvolves_def)

lemma codesOk_mono: "codesOk pol n rows \<Longrightarrow> n \<le> m \<Longrightarrow> codesOk pol m rows"
  by (fastforce simp: codesOk_def keyed_def)

lemma codesOk_new:
  assumes "codesOk pol n rows" "u < n" "countWhere (isActiveCode u) rows = 0"
  shows "codesOk pol (Suc n) (rows @ [newCode now u h t n])"
  using assms by (auto simp: codesOk_def keyed_def newCode_def isActiveCode_def less_Suc_eq)

lemma codesOk_update:
  assumes "codesOk pol n rows" "\<And>c. codeEvolves c (f c)"
    and "\<And>c. c \<in> set rows \<Longrightarrow> p c \<Longrightarrow> code_attemptsCount (f c) \<le> maxAttempts pol"
  shows "codesOk pol n (updateMany p f rows)"
proof -
  have keep: "code_id (f c) = code_id c" "code_userId (f c) = code_userId c" for c
    using assms(2) by (simp_all add: codeEvolves_def)
  have active: "isActiveCode u (f c) \<Longrightarrow> isActiveCode u c" for u c
    using assms(2) [of c] by (auto simp: codeEvolves_def isActiveCode_def)
  have "countWhere (isActiveCode u) (updateMany p f rs) \<le> countWhere (isActiveCode u) rs" for u rs
    using active by (induction rs) (auto simp: le_SucI)
  then have "\<forall>u. countWhere (isActiveCode u) (updateMany p f rows) \<le> 1"
    using assms(1) le_trans unfolding codesOk_def by blast
  moreover have "keyed code_id n (updateMany p f rows)"
    using assms(1) keep by (auto simp: codesOk_def keyed_def map_key_updateMany set_updateMany)
  moreover have "\<forall>c\<in>set (updateMany p f rows). code_userId c < n \<and> code_attemptsCount c \<le> maxAttempts pol"
    using assms(1,3) keep by (auto simp: codesOk_def set_updateMany)
  ultimately show ?thesis by (simp add: codesOk_def)
qed

lemma code_changes_evolve:
  "codeEvolves c (c\<lparr>code_attemptsCount := Suc (code_attemptsCount c)\<rparr>)"
  "codeEvolves c (c\<lparr>code_consumedAt := Some now\<rparr>)" "codeEvolves c (c\<lparr>code_invalidatedAt := Some now\<rparr>)"
  by (simp_all add: codeEvolves_def)

lemma findActiveCode_SomeD: "findActiveCode rows u = Some c \<Longrightarrow> c \<in> set rows \<and> isActiveCode u c"
  unfolding findActiveCode_def by (drule newestWhere_SomeD) auto

lemma findActiveCode_None: "findActiveCode rows u = None \<longleftrightarrow> countWhere (isActiveCode u) rows = 0"
  by (simp add: findActiveCode_def newestWhere_None_iff countWhere_0_iff)

lemma codesOk_increment:
  assumes "codesOk pol n rows" "c \<in> set rows" "code_attemptsCount c < maxAttempts pol"
  shows "codesOk pol n (incrementAttempts (code_id c) rows)"
  unfolding incrementAttempts_def
proof (rule codesOk_update [OF assms(1) code_changes_evolve(1)])
  fix d assume "d \<in> set rows" "code_id d = code_id c"
  then have "d = c" using assms(1,2) keyed_unique unfolding codesOk_def by metis
  then show "code_attemptsCount (d\<lparr>code_attemptsCount := Suc (code_attemptsCount d)\<rparr>) \<le> maxAttempts pol"
    using assms(3) by simp
qed

lemma codesOk_stamp:
  assumes "codesOk pol n rows"
  shows "codesOk pol n (consumeCode now i rows)" "codesOk pol n (invalidateCode now i rows)"
    "codesOk pol n (invalidateOtherActiveCodes now u i rows)"
  unfolding consumeCode_def invalidateCode_def invalidateOtherActiveCodes_def
  by (rule codesOk_update [OF assms]; use assms code_changes_evolve in \<open>simp add: codesOk_def\<close>)+

text \<open>Invalidating or consuming the active code leaves none.\<close>

lemma only_active:
  assumes "codesOk pol n rows" "c \<in> set rows" "isActiveCode u c" "d \<in> set rows" "isActiveCode u d"
  shows "d = c"
proof (rule ccontr)
  assume "d \<noteq> c"
  have "2 \<le> countWhere (isActiveCode u) rows"
  proof -
    obtain xs ys where "rows = xs @ c # ys" using split_list assms(2) by metis
    moreover from this \<open>d \<noteq> c\<close> assms(4) have "d \<in> set xs \<or> d \<in> set ys" by auto
    ultimately show ?thesis using countWhere_pos [of d _ "isActiveCode u"] assms(3,5) by fastforce
  qed
  then show False using assms(1) unfolding codesOk_def by (metis Suc_1 not_less_eq_eq)
qed

lemma none_active_update:
  assumes "codesOk pol n rows" "findActiveCode rows u = Some c" "\<And>d. \<not> isActiveCode u (f d)"
  shows "countWhere (isActiveCode u) (updateMany (\<lambda>d. code_id d = code_id c) f rows) = 0"
proof -
  have "d = c" if "d \<in> set rows" "isActiveCode u d" for d
    using only_active [OF assms(1)] findActiveCode_SomeD [OF assms(2)] that by blast
  then show ?thesis using assms(3) by (auto simp: countWhere_0_iff set_updateMany)
qed

lemma none_active_after:
  assumes "codesOk pol n rows" "findActiveCode rows u = Some c"
  shows "countWhere (isActiveCode u) (invalidateCode now (code_id c) rows) = 0"
    "countWhere (isActiveCode u) (consumeCode now (code_id c) rows) = 0"
  unfolding invalidateCode_def consumeCode_def
  by (rule none_active_update [OF assms], simp add: isActiveCode_def)+

lemma codesOk_reissue:
  assumes "codesOk pol n rows" "findActiveCode rows u = Some c" "u < n"
  shows "codesOk pol (Suc n) (invalidateCode now (code_id c) rows @ [newCode now u h t n])"
  by (rule codesOk_new [OF codesOk_stamp(2) [OF assms(1)] assms(3) none_active_after(1) [OF assms(1,2)]])

lemma codes_extend_update:
  "(\<And>c. codeEvolves c (f c)) \<Longrightarrow> extends codeEvolves code_id n n rows (updateMany p f rows)"
  by (rule extends_updateMany) simp_all

lemma codes_extend_ops:
  "extends codeEvolves code_id n n rows (incrementAttempts i rows)"
  "extends codeEvolves code_id n n rows (consumeCode now i rows)"
  "extends codeEvolves code_id n n rows (invalidateCode now i rows)"
  "extends codeEvolves code_id n n rows (invalidateOtherActiveCodes now u i rows)"
  unfolding incrementAttempts_def consumeCode_def invalidateCode_def invalidateOtherActiveCodes_def
  by (rule codes_extend_update, rule code_changes_evolve)+

section \<open>The state of the accounts\<close>

definition identityOk :: "CodePolicy \<Rightarrow> CodePolicy \<Rightarrow> identity \<Rightarrow> bool" where
  "identityOk vp rp s \<longleftrightarrow> keyed acc_id (id_nextId s) (accounts s) \<and> distinct (map acc_email (accounts s))
     \<and> codesOk vp (id_nextId s) (verificationCodes s) \<and> codesOk rp (id_nextId s) (resetCodes s)
     \<and> keyed ses_id (id_nextId s) (sessions s) \<and> keyed iv_id (id_nextId s) (verifications s)
     \<and> (\<forall>v\<in>set (verifications s). iv_status v =
          resolveIdentityVerificationStatus (iv_documentCheckPassed v) (iv_biometricCheckPassed v))"

definition sessionEvolves :: "Session \<Rightarrow> Session \<Rightarrow> bool" where
  "sessionEvolves x x' \<longleftrightarrow> ses_id x' = ses_id x \<and> ses_userId x' = ses_userId x \<and> ses_tokenHash x' = ses_tokenHash x
     \<and> ses_createdAt x' = ses_createdAt x \<and> ses_expiresAt x' = ses_expiresAt x \<and> (ses_status x \<noteq> ACTIVE \<longrightarrow> x' = x)"

definition verificationEvolves :: "IdentityVerification \<Rightarrow> IdentityVerification \<Rightarrow> bool" where
  "verificationEvolves v v' \<longleftrightarrow> iv_id v' = iv_id v \<and> iv_userId v' = iv_userId v
     \<and> (iv_status v \<noteq> IdentityVerificationStatus.PENDING \<longrightarrow> v' = v)"

definition identityEvolves :: "identity \<Rightarrow> identity \<Rightarrow> bool" where
  "identityEvolves s s' \<longleftrightarrow> id_nextId s \<le> id_nextId s'
     \<and> extends (\<lambda>a b. acc_id b = acc_id a) acc_id (id_nextId s) (id_nextId s') (accounts s) (accounts s')
     \<and> extends codeEvolves code_id (id_nextId s) (id_nextId s') (verificationCodes s) (verificationCodes s')
     \<and> extends codeEvolves code_id (id_nextId s) (id_nextId s') (resetCodes s) (resetCodes s')
     \<and> extends sessionEvolves ses_id (id_nextId s) (id_nextId s') (sessions s) (sessions s')
     \<and> extends verificationEvolves iv_id (id_nextId s) (id_nextId s') (verifications s) (verifications s')"

lemma identityEvolves_refls [simp]: "sessionEvolves x x" "verificationEvolves v v" "identityEvolves s s"
  by (simp_all add: sessionEvolves_def verificationEvolves_def identityEvolves_def extends_refl)

lemma sessionEvolves_trans: "sessionEvolves a b \<Longrightarrow> sessionEvolves b c \<Longrightarrow> sessionEvolves a c"
  unfolding sessionEvolves_def by metis

lemma verificationEvolves_trans: "verificationEvolves a b \<Longrightarrow> verificationEvolves b c \<Longrightarrow> verificationEvolves a c"
  unfolding verificationEvolves_def by metis

lemma identityEvolves_trans:
  assumes "identityEvolves r s" "identityEvolves s t"
  shows "identityEvolves r t"
proof -
  note e = assms [unfolded identityEvolves_def]
  have le: "id_nextId r \<le> id_nextId s" "id_nextId s \<le> id_nextId t" using e by auto
  note tr = extends_trans [OF _ _ le]
  show ?thesis unfolding identityEvolves_def
  proof (intro conjI)
    show "extends (\<lambda>a b. acc_id b = acc_id a) acc_id (id_nextId r) (id_nextId t) (accounts r) (accounts t)"
      by (rule tr [of _ _ _ "accounts s"]) (use e in simp_all)
    show "extends codeEvolves code_id (id_nextId r) (id_nextId t) (verificationCodes r) (verificationCodes t)"
      by (rule tr [of _ _ _ "verificationCodes s"]) (use e in \<open>auto intro: codeEvolves_trans simp: codeEvolves_def\<close>)
    show "extends codeEvolves code_id (id_nextId r) (id_nextId t) (resetCodes r) (resetCodes t)"
      by (rule tr [of _ _ _ "resetCodes s"]) (use e in \<open>auto intro: codeEvolves_trans simp: codeEvolves_def\<close>)
    show "extends sessionEvolves ses_id (id_nextId r) (id_nextId t) (sessions r) (sessions t)"
      by (rule tr [of _ _ _ "sessions s"]) (use e sessionEvolves_trans in \<open>auto simp: sessionEvolves_def\<close>)
    show "extends verificationEvolves iv_id (id_nextId r) (id_nextId t) (verifications r) (verifications t)"
      by (rule tr [of _ _ _ "verifications s"]) (use e verificationEvolves_trans in \<open>auto simp: verificationEvolves_def\<close>)
  qed (use le in simp)
qed

text \<open>A change that settles no account: a final status in the new table was there before.\<close>

definition settled :: "Account \<Rightarrow> bool" where
  "settled a \<longleftrightarrow> acc_accountStatus a \<in> {UserAccountStatus.APPROVED, UserAccountStatus.REJECTED}"

definition settlesNone :: "identity \<Rightarrow> identity \<Rightarrow> bool" where
  "settlesNone s s' \<longleftrightarrow> (\<forall>b\<in>set (accounts s'). settled b \<longrightarrow>
     (\<exists>a\<in>set (accounts s). acc_id a = acc_id b \<and> acc_accountStatus a = acc_accountStatus b))"

definition kept :: "CodePolicy \<Rightarrow> CodePolicy \<Rightarrow> identity \<Rightarrow> identity \<Rightarrow> bool" where
  "kept vp rp s s' \<longleftrightarrow> identityOk vp rp s' \<and> identityEvolves s s'"

definition calm :: "CodePolicy \<Rightarrow> CodePolicy \<Rightarrow> identity \<Rightarrow> identity \<Rightarrow> bool" where
  "calm vp rp s s' \<longleftrightarrow> kept vp rp s s' \<and> settlesNone s s'"

lemma settlesNone_trans: "settlesNone r s \<Longrightarrow> settlesNone s t \<Longrightarrow> settlesNone r t"
  unfolding settlesNone_def settled_def by (metis (no_types, lifting))

lemma settlesNone_same: "accounts s' = accounts s \<Longrightarrow> settlesNone s s'"
  by (auto simp: settlesNone_def)

lemma calm_refl: "identityOk vp rp s \<Longrightarrow> calm vp rp s s"
  by (auto simp: calm_def kept_def settlesNone_same)

lemma calm_trans: "calm vp rp r s \<Longrightarrow> calm vp rp s t \<Longrightarrow> calm vp rp r t"
  using identityEvolves_trans settlesNone_trans by (auto simp: calm_def kept_def)

lemma calm_ok: "calm vp rp s t \<Longrightarrow> identityOk vp rp t"
  by (simp add: calm_def kept_def)

lemma calm_kept: "calm vp rp s t \<Longrightarrow> kept vp rp s t"
  by (simp add: calm_def)

section \<open>The writes\<close>

lemmas ok_defs = identityOk_def codesOk_mono [OF _ le_SucI [OF order_refl]] keyed_mono

lemma emails_unique:
  assumes "identityOk vp rp s" "a \<in> set (accounts s)" "b \<in> set (accounts s)" "acc_email a = acc_email b"
  shows "a = b"
  using assms key_unique unfolding identityOk_def by metis

lemma ids_unique:
  assumes "identityOk vp rp s" "a \<in> set (accounts s)" "b \<in> set (accounts s)" "acc_id a = acc_id b"
  shows "a = b"
  using assms keyed_unique unfolding identityOk_def by metis

lemma account_id_less: "identityOk vp rp s \<Longrightarrow> a \<in> set (accounts s) \<Longrightarrow> acc_id a < id_nextId s"
  by (auto simp: identityOk_def keyed_def)

lemma findByEmail_SomeD: "findByEmail s e = Some a \<Longrightarrow> a \<in> set (accounts s) \<and> acc_email a = e"
  unfolding findByEmail_def by (drule findRow_SomeD) simp

lemma findAccountById_SomeD: "findAccountById s i = Some a \<Longrightarrow> a \<in> set (accounts s) \<and> acc_id a = i"
  unfolding findAccountById_def by (drule findRow_SomeD) simp

lemma calm_insertAccount:
  assumes ok: "identityOk vp rp s" and ins: "insertAccount a s = Inr (b, s')" and open_status: "\<not> settled a"
  shows "calm vp rp s s' \<and> b \<in> set (accounts s')"
proof -
  have s': "s' = s\<lparr>id_nextId := Suc (id_nextId s), accounts := accounts s @ [b]\<rparr>"
    and b: "b = a\<lparr>acc_id := id_nextId s\<rparr>" and new: "\<forall>c\<in>set (accounts s). acc_email c \<noteq> acc_email a"
    using ins by (auto simp: insertAccount_def Let_def list_ex_iff split: if_splits)
  have "acc_email a \<notin> acc_email ` set (accounts s)" using new by force
  then have "identityOk vp rp s'"
    using ok by (simp add: ok_defs s' b keyed_append_new)
  moreover have "identityEvolves s s'"
    by (auto simp: identityEvolves_def s' b intro: extends_one extends_refl)
  moreover have "settlesNone s s'"
    using open_status by (auto simp: settlesNone_def settled_def s' b)
  ultimately show ?thesis by (simp add: calm_def kept_def s')
qed

lemma kept_updateAccount:
  assumes ok: "identityOk vp rp s"
    and f: "\<And>a. acc_id (f a) = acc_id a" "\<And>a. acc_email (f a) = acc_email a"
  shows "kept vp rp s (s\<lparr>accounts := updateMany p f (accounts s)\<rparr>)"
  using ok f
  by (auto simp: kept_def identityOk_def identityEvolves_def keyed_updateMany map_key_updateMany
      intro: extends_refl extends_updateMany)

lemma calm_updateAccount:
  assumes "identityOk vp rp s" "\<And>a. acc_id (f a) = acc_id a" "\<And>a. acc_email (f a) = acc_email a"
    and "\<And>a. settled (f a) \<Longrightarrow> acc_accountStatus (f a) = acc_accountStatus a"
  shows "calm vp rp s (s\<lparr>accounts := updateMany p f (accounts s)\<rparr>)"
  unfolding calm_def
proof (intro conjI kept_updateAccount assms(1,2,3))
  show "settlesNone s (s\<lparr>accounts := updateMany p f (accounts s)\<rparr>)"
    using assms(2,4) by (force simp: settlesNone_def set_updateMany)
qed

lemma calm_markEmailVerified: "identityOk vp rp s \<Longrightarrow> calm vp rp s (markEmailVerified i s)"
  unfolding markEmailVerified_def updateAccount_def by (rule calm_updateAccount) (simp_all add: settled_def)

lemma calm_updatePasswordHash: "identityOk vp rp s \<Longrightarrow> calm vp rp s (updatePasswordHash i h s)"
  unfolding updatePasswordHash_def updateAccount_def by (rule calm_updateAccount) simp_all

lemma calm_toPendingApproval:
  "identityOk vp rp s \<Longrightarrow> calm vp rp s (snd (transitionToPendingApprovalIfEmailVerified i s))"
  unfolding transitionToPendingApprovalIfEmailVerified_def snd_conv
  by (rule calm_updateAccount) (simp_all add: settled_def)

lemma kept_fromPendingApproval:
  "identityOk vp rp s \<Longrightarrow> kept vp rp s (snd (transitionFromPendingApproval i to s))"
  unfolding transitionFromPendingApproval_def using kept_updateAccount by simp

lemma calm_sendEmail: "identityOk vp rp s \<Longrightarrow> calm vp rp s (sendEmail e c s)"
  by (auto simp: calm_def kept_def settlesNone_same sendEmail_def identityOk_def identityEvolves_def intro: extends_refl)

lemma calm_verificationCodes:
  assumes "identityOk vp rp s" "codesOk vp (id_nextId s) rows"
    and "extends codeEvolves code_id (id_nextId s) (id_nextId s) (verificationCodes s) rows"
  shows "calm vp rp s (s\<lparr>verificationCodes := rows\<rparr>)"
  using assms by (auto simp: calm_def kept_def settlesNone_same identityOk_def identityEvolves_def intro: extends_refl)

lemma calm_resetCodes:
  assumes "identityOk vp rp s" "codesOk rp (id_nextId s) rows"
    and "extends codeEvolves code_id (id_nextId s) (id_nextId s) (resetCodes s) rows"
  shows "calm vp rp s (s\<lparr>resetCodes := rows\<rparr>)"
  using assms by (auto simp: calm_def kept_def settlesNone_same identityOk_def identityEvolves_def intro: extends_refl)

lemma newCode_id [simp]: "code_id (newCode now u h t i) = i"
  by (simp add: newCode_def)

lemma calm_createEmailVerificationCode:
  assumes "identityOk vp rp s" "u < id_nextId s" "countWhere (isActiveCode u) (verificationCodes s) = 0"
  shows "calm vp rp s (createEmailVerificationCode now u h t s)"
  using assms codesOk_new [of vp "id_nextId s" "verificationCodes s" u now h t]
  by (auto simp: calm_def kept_def settlesNone_same createEmailVerificationCode_def ok_defs identityEvolves_def
      intro: extends_refl extends_one)

lemma calm_createPasswordResetCode:
  assumes "identityOk vp rp s" "u < id_nextId s" "countWhere (isActiveCode u) (resetCodes s) = 0"
  shows "calm vp rp s (createPasswordResetCode now u h t s)"
  using assms codesOk_new [of rp "id_nextId s" "resetCodes s" u now h t]
  by (auto simp: calm_def kept_def settlesNone_same createPasswordResetCode_def ok_defs identityEvolves_def
      intro: extends_refl extends_one)

lemma calm_createSession: "identityOk vp rp s \<Longrightarrow> calm vp rp s (snd (createSession cr ttl now token u s))"
  by (auto simp: calm_def kept_def settlesNone_same createSession_def Let_def ok_defs identityEvolves_def
      intro: extends_refl extends_one keyed_append_new)

lemma calm_openSession: "identityOk vp rp s \<Longrightarrow> openSession cr ttl now token u s = (r, s') \<Longrightarrow> calm vp rp s s'"
  using calm_createSession [of vp rp s cr ttl now token u] by (auto simp: openSession_def split: prod.splits)

lemma calm_updateSession:
  assumes "identityOk vp rp s" "\<And>x. ses_id (f x) = ses_id x" "\<And>x. x \<in> set (sessions s) \<Longrightarrow> p x \<Longrightarrow> sessionEvolves x (f x)"
  shows "calm vp rp s (updateSession p f s)"
  using assms by (auto simp: calm_def kept_def settlesNone_same updateSession_def identityOk_def identityEvolves_def
      keyed_updateMany intro: extends_refl extends_updateMany)

lemma calm_createVerification: "identityOk vp rp s \<Longrightarrow> calm vp rp s (snd (createVerification now u c ref s))"
  by (auto simp: calm_def kept_def settlesNone_same createVerification_def Let_def ok_defs identityEvolves_def
      resolveIdentityVerificationStatus_def intro: extends_refl extends_one keyed_append_new)

lemma translated_status:
  "ir_status (translateWebhookPayload p) = resolveIdentityVerificationStatus
     (ir_documentCheckPassed (translateWebhookPayload p)) (ir_biometricCheckPassed (translateWebhookPayload p))"
  by (simp add: translateWebhookPayload_def Let_def split: prod.split)

lemma calm_updateResultIfPending:
  assumes "identityOk vp rp s"
    and "ir_status r = resolveIdentityVerificationStatus (ir_documentCheckPassed r) (ir_biometricCheckPassed r)"
  shows "calm vp rp s (snd (updateResultIfPending i r s))"
proof -
  have "identityOk vp rp (snd (updateResultIfPending i r s))"
    using assms by (auto simp: identityOk_def updateResultIfPending_def keyed_updateMany settleVerification_def set_updateMany)
  moreover have "verificationEvolves v (settleVerification r v)" if "pendingVerification i v" for v
    using that by (simp add: verificationEvolves_def settleVerification_def pendingVerification_def guard_def)
  then have "identityEvolves s (snd (updateResultIfPending i r s))"
    by (auto simp: identityEvolves_def updateResultIfPending_def intro: extends_refl extends_updateMany)
  ultimately show ?thesis by (simp add: calm_def kept_def settlesNone_same updateResultIfPending_def)
qed

section \<open>The services\<close>

lemma calm_issueAndSend:
  assumes "identityOk vp rp s" "u < id_nextId s" "countWhere (isActiveCode u) (verificationCodes s) = 0"
  shows "calm vp rp s (issueAndSendVerificationCode cr vp now n u email s)"
  using calm_createEmailVerificationCode [OF assms, of now "snd (generateVerificationCode cr n)"] calm_sendEmail calm_ok calm_trans
  by (simp add: issueAndSendVerificationCode_def case_prod_unfold Let_def) blast

text \<open>A new account has no code yet: a code's account is older than it.\<close>

lemma no_code_of_next:
  "identityOk vp rp s \<Longrightarrow> countWhere (isActiveCode (id_nextId s)) (verificationCodes s) = 0"
  by (auto simp: identityOk_def codesOk_def countWhere_0_iff isActiveCode_def)

lemma calm_register:
  assumes ok: "identityOk vp rp s" and r: "register cr vp production db now salt n input s = Inr (i, s')"
  shows "calm vp rp s s'"
proof -
  obtain a s1 where ins: "createPasswordUser now input (hashPassword cr salt (reg_password input)) s = Inr (a, s1)"
    and s': "s' = issueAndSendVerificationCode cr vp now n (acc_id a) (acc_email a) s1"
    using r by (auto simp: register_def andThen_Inr_iff split: option.splits if_splits)
  have c: "calm vp rp s s1" "a \<in> set (accounts s1)"
    using calm_insertAccount [OF ok ins [unfolded createPasswordUser_def]] by (auto simp: settled_def)
  have a: "acc_id a = id_nextId s" and same: "verificationCodes s1 = verificationCodes s"
    using ins by (auto simp: createPasswordUser_def insertAccount_def Let_def split: if_splits)
  have "acc_id a < id_nextId s1" using account_id_less calm_ok c by blast
  moreover have "countWhere (isActiveCode (acc_id a)) (verificationCodes s1) = 0"
    using no_code_of_next [OF ok] by (simp only: a same)
  ultimately have "calm vp rp s1 s'" unfolding s' by (rule calm_issueAndSend [OF calm_ok [OF c(1)]])
  with c(1) show ?thesis by (rule calm_trans)
qed

lemma checkCode_SomeD:
  assumes "checkCode cr pol now rows u code \<in> {CodeMismatch c, CodeMatch c}"
  shows "findActiveCode rows u = Some c \<and> code_attemptsCount c < maxAttempts pol \<and> now \<le> code_expiresAt c"
  using assms by (auto simp: checkCode_def split: option.splits if_splits)

lemma calm_verifyEmailCode:
  assumes ok: "identityOk vp rp s"
  shows "calm vp rp s (snd (verifyEmailCode cr vp now email code s))"
proof (cases "findByEmail s email")
  case (Some a)
  have codes: "codesOk vp (id_nextId s) (verificationCodes s)" using ok by (simp add: identityOk_def)
  show ?thesis
  proof (cases "checkCode cr vp now (verificationCodes s) (acc_id a) code")
    case (CodeMismatch c)
    then have "codesOk vp (id_nextId s) (incrementAttempts (code_id c) (verificationCodes s))"
      using codesOk_increment [OF codes] checkCode_SomeD [of cr vp now "verificationCodes s" "acc_id a" code c]
        findActiveCode_SomeD by auto
    then show ?thesis
      using calm_verificationCodes [OF ok _ codes_extend_ops(1)] Some CodeMismatch by (simp add: verifyEmailCode_def)
  next
    case (CodeMatch c)
    have "calm vp rp s (s\<lparr>verificationCodes := consumeCode now (code_id c) (verificationCodes s)\<rparr>)"
      by (rule calm_verificationCodes [OF ok codesOk_stamp(1) [OF codes] codes_extend_ops(2)])
    then show ?thesis
      using calm_markEmailVerified calm_ok calm_trans Some CodeMatch by (simp add: verifyEmailCode_def)
  qed (use Some calm_refl [OF ok] in \<open>simp_all add: verifyEmailCode_def\<close>)
qed (use calm_refl [OF ok] in \<open>simp add: verifyEmailCode_def\<close>)

lemma calm_resend:
  assumes ok: "identityOk vp rp s" and r: "resendVerificationCode cr vp production db now n email s = Inr (t, s')"
  shows "calm vp rp s s'"
proof -
  have codes: "codesOk vp (id_nextId s) (verificationCodes s)" using ok by (simp add: identityOk_def)
  have up: "ensureAvailable production db = None"
    using r by (cases "ensureAvailable production db") (simp_all add: resendVerificationCode_def)
  show ?thesis
  proof (cases "findByEmail s email")
    case None
    then show ?thesis using r up calm_refl [OF ok] by (simp add: resendVerificationCode_def Let_def)
  next
    case (Some a)
    then have less: "acc_id a < id_nextId s" using findByEmail_SomeD account_id_less [OF ok] by blast
    note r' = r [unfolded resendVerificationCode_def Let_def up Some option.case]
    show ?thesis
    proof (cases "acc_accountStatus a = PENDING_EMAIL_VERIFICATION")
      case pending: True
      show ?thesis
      proof (cases "findActiveCode (verificationCodes s) (acc_id a)")
        case None
        then show ?thesis using r' pending calm_issueAndSend [OF ok less findActiveCode_None [THEN iffD1, OF None]] by auto
      next
        case (Some c)
        let ?s = "s\<lparr>verificationCodes := invalidateCode now (code_id c) (verificationCodes s)\<rparr>"
        have c: "calm vp rp s ?s" by (rule calm_verificationCodes [OF ok codesOk_stamp(2) [OF codes] codes_extend_ops(3)])
        have "calm vp rp ?s (issueAndSendVerificationCode cr vp now n (acc_id a) (acc_email a) ?s)"
          using less none_active_after(1) [OF codes Some] by (intro calm_issueAndSend calm_ok [OF c]) simp_all
        with c have "calm vp rp s (issueAndSendVerificationCode cr vp now n (acc_id a) (acc_email a) ?s)"
          by (rule calm_trans)
        then show ?thesis using r' pending Some calm_refl [OF ok] by (auto split: if_splits)
      qed
    qed (use r' calm_refl [OF ok] in simp)
  qed
qed

lemma calm_login:
  "identityOk vp rp s \<Longrightarrow> login cr decoy ttl now token email pw s = Inr (p, s') \<Longrightarrow> calm vp rp s s'"
  using calm_openSession by (fastforce simp: login_def Let_def split: option.splits if_splits)

lemma calm_socialLogin:
  assumes ok: "identityOk vp rp s" and r: "socialLogin cr db validate ttl now token p t s = Inr (x, s')"
  shows "calm vp rp s s'"
proof -
  obtain i a s1 where first: "(case findBySocialProviderSubject s (SOCIAL_PROVIDER_TO_AUTH_PROVIDER p) (si_subject i) of
                Some a \<Rightarrow> Inr (a, s)
              | None \<Rightarrow> if findByEmail s (si_email i) \<noteq> None then Inl AUTHENTICATION_FAILED
                        else createSocialUser now (SOCIAL_PROVIDER_TO_AUTH_PROVIDER p) i s) = Inr (a, s1)"
    and open_it: "openSession cr ttl now token (acc_id a) s1 = (x, s')"
    using r by (auto simp: socialLogin_def Let_def andThen_Inr_iff if_Inl_eq_Inr split: IdentityOutcome.splits)
  have "s1 = s \<or> createSocialUser now (SOCIAL_PROVIDER_TO_AUTH_PROVIDER p) i s = Inr (a, s1)"
    using first by (auto split: option.splits if_splits)
  then have c: "calm vp rp s s1"
  proof
    assume "createSocialUser now (SOCIAL_PROVIDER_TO_AUTH_PROVIDER p) i s = Inr (a, s1)"
    from calm_insertAccount [OF ok this [unfolded createSocialUser_def]] show ?thesis by (simp add: settled_def)
  qed (simp add: calm_refl [OF ok])
  with calm_openSession [OF calm_ok [OF c] open_it] show ?thesis by (rule calm_trans [rotated])
qed

lemma calm_loadEffectiveSession:
  assumes ok: "identityOk vp rp s" and l: "loadEffectiveSession cr now token s = (x, s')"
  shows "calm vp rp s s' \<and> (\<forall>y. x = Some y \<and> ses_status y = ACTIVE \<longrightarrow> y \<in> set (sessions s'))"
proof (cases "findByTokenHash s (sha256 cr token)")
  case (Some y)
  then have y: "y \<in> set (sessions s)" unfolding findByTokenHash_def by (rule findRow_in)
  show ?thesis
  proof (cases "ses_status y = ACTIVE \<and> ses_expiresAt y \<le> now")
    case True
    then have "z = y" if "z \<in> set (sessions s)" "ses_id z = ses_id y" for z
      using that y ok keyed_unique unfolding identityOk_def by metis
    then have "calm vp rp s (markExpired (ses_id y) s)"
      unfolding markExpired_def using True by (intro calm_updateSession [OF ok]) (auto simp: sessionEvolves_def)
    then show ?thesis using l Some True by (auto simp: loadEffectiveSession_def)
  next
    case False
    then show ?thesis using l Some y calm_refl [OF ok] by (auto simp: loadEffectiveSession_def)
  qed
qed (use l calm_refl [OF ok] in \<open>auto simp: loadEffectiveSession_def\<close>)

lemma calm_authenticateRequest:
  assumes "identityOk vp rp s"
  shows "calm vp rp s (snd (authenticateRequest cr now header s))"
  using calm_loadEffectiveSession [OF assms] calm_refl [OF assms]
  by (auto simp: authenticateRequest_def findActiveSessionUserId_def split: option.splits prod.splits if_splits)

lemma sessionEvolves_revoke: "ses_status x = ACTIVE \<Longrightarrow> sessionEvolves x (revokeSessionRow now x)"
  by (simp add: sessionEvolves_def revokeSessionRow_def)

lemma calm_revokeSession:
  assumes ok: "identityOk vp rp s"
  shows "calm vp rp s (snd (revokeSession cr now token s))"
proof -
  obtain x s' where l: "loadEffectiveSession cr now token s = (x, s')" by fastforce
  note c = calm_loadEffectiveSession [OF ok l]
  show ?thesis
  proof (cases "\<exists>y. x = Some y \<and> ses_status y = ACTIVE")
    case True
    then obtain y where y: "x = Some y" "ses_status y = ACTIVE" "y \<in> set (sessions s')" using c by blast
    have "z = y" if "z \<in> set (sessions s')" "ses_id z = ses_id y" for z
      using that y(3) calm_ok [OF conjunct1 [OF c]] keyed_unique unfolding identityOk_def by metis
    then have "calm vp rp s' (markRevoked now (ses_id y) s')"
      unfolding markRevoked_def using y(2) calm_ok [OF conjunct1 [OF c]]
      by (intro calm_updateSession) (auto simp: revokeSessionRow_def sessionEvolves_def)
    then show ?thesis using l y c calm_trans by (auto simp: revokeSession_def)
  next
    case False
    then show ?thesis using l c by (auto simp: revokeSession_def split: option.splits)
  qed
qed

lemma calm_logout: "identityOk vp rp s \<Longrightarrow> calm vp rp s (snd (logout cr now token s))"
  using calm_revokeSession calm_refl by (auto simp: logout_def split: option.split)

lemma calm_issueForUser:
  assumes ok: "identityOk vp rp s" and u: "u < id_nextId s"
  shows "calm vp rp s (snd (issueForUser cr rp now n u email s))"
proof -
  have codes: "codesOk rp (id_nextId s) (resetCodes s)" using ok by (simp add: identityOk_def)
  have issue: "calm vp rp t (sendEmail email c (createPasswordResetCode now u h e t))"
    if "identityOk vp rp t" "u < id_nextId t" "countWhere (isActiveCode u) (resetCodes t) = 0" for c h e t
    using calm_createPasswordResetCode [OF that, of now h e] calm_sendEmail calm_ok calm_trans by blast
  show ?thesis
  proof (cases "findActiveCode (resetCodes s) u")
    case None
    then show ?thesis
      using issue [OF ok u findActiveCode_None [THEN iffD1, OF None]] None
      by (simp add: issueForUser_def case_prod_unfold Let_def)
  next
    case (Some c)
    let ?s = "s\<lparr>resetCodes := invalidateCode now (code_id c) (resetCodes s)\<rparr>"
    have c: "calm vp rp s ?s" by (rule calm_resetCodes [OF ok codesOk_stamp(2) [OF codes] codes_extend_ops(3)])
    have "calm vp rp ?s (sendEmail email x (createPasswordResetCode now u h e ?s))" for x h e
      using u none_active_after(1) [OF codes Some] by (intro issue calm_ok [OF c]) simp_all
    with c have "calm vp rp s (sendEmail email x (createPasswordResetCode now u h e ?s))" for x h e
      by (rule calm_trans)
    then show ?thesis using Some calm_refl [OF ok] by (simp add: issueForUser_def case_prod_unfold Let_def)
  qed
qed

lemma calm_requestPasswordReset:
  assumes ok: "identityOk vp rp s" and r: "requestPasswordReset cr rp production db now n email s = Inr s'"
  shows "calm vp rp s s'"
proof -
  have "s' = s \<or> (\<exists>a. findByEmail s email = Some a \<and> s' = snd (issueForUser cr rp now n (acc_id a) (acc_email a) s))"
    using r by (cases "ensureAvailable production db"; cases "findByEmail s email")
      (auto simp: requestPasswordReset_def split: if_splits)
  then show ?thesis
    using calm_refl [OF ok] calm_issueForUser [OF ok account_id_less [OF ok]] findByEmail_SomeD by blast
qed

lemma calm_resetPassword:
  assumes ok: "identityOk vp rp s"
  shows "calm vp rp s (snd (resetPassword cr rp now salt email code pw s))"
proof (cases "\<exists>a. findByEmail s email = Some a \<and> resetEligible a")
  case True
  then obtain a where a: "findByEmail s email = Some a" "resetEligible a" by blast
  have codes: "codesOk rp (id_nextId s) (resetCodes s)" using ok by (simp add: identityOk_def)
  show ?thesis
  proof (cases "checkCode cr rp now (resetCodes s) (acc_id a) code")
    case (CodeMismatch c)
    then have "codesOk rp (id_nextId s) (incrementAttempts (code_id c) (resetCodes s))"
      using codesOk_increment [OF codes] checkCode_SomeD [of cr rp now "resetCodes s" "acc_id a" code c]
        findActiveCode_SomeD by auto
    then show ?thesis
      using calm_resetCodes [OF ok _ codes_extend_ops(1)] a CodeMismatch by (simp add: resetPassword_def)
  next
    case (CodeMatch c)
    define s1 where "s1 = updatePasswordHash (acc_id a) (hashPassword cr salt pw) s"
    define s2 where "s2 = s1\<lparr>resetCodes := consumeCode now (code_id c) (resetCodes s1)\<rparr>"
    define s3 where "s3 = s2\<lparr>resetCodes := invalidateOtherActiveCodes now (acc_id a) (code_id c) (resetCodes s2)\<rparr>"
    have codesOk: "identityOk vp rp t \<Longrightarrow> codesOk rp (id_nextId t) (resetCodes t)" for t by (simp add: identityOk_def)
    have 1: "calm vp rp s s1" unfolding s1_def by (rule calm_updatePasswordHash [OF ok])
    have 2: "calm vp rp s1 s2" unfolding s2_def
      by (intro calm_resetCodes codesOk_stamp codesOk codes_extend_ops calm_ok [OF 1])
    have 3: "calm vp rp s2 s3" unfolding s3_def
      by (intro calm_resetCodes codesOk_stamp codesOk codes_extend_ops calm_ok [OF 2])
    have 4: "calm vp rp s3 (revokeAllActiveForUser now (acc_id a) s3)" unfolding revokeAllActiveForUser_def
      by (intro calm_updateSession calm_ok [OF 3] sessionEvolves_revoke) (auto simp: revokeSessionRow_def)
    have "calm vp rp s (revokeAllActiveForUser now (acc_id a) s3)"
      using 1 2 3 4 calm_trans by blast
    then show ?thesis
      using a CodeMatch calm_refl [OF ok] by (simp add: resetPassword_def Let_def s1_def s2_def s3_def)
  qed (use a calm_refl [OF ok] in \<open>simp_all add: resetPassword_def\<close>)
qed (use calm_refl [OF ok] in \<open>auto simp: resetPassword_def split: option.split\<close>)

lemma calm_upsertCustomerProfile:
  assumes ok: "identityOk vp rp s" and r: "upsertCustomerProfile now u input (db, s) = Inr (x, (db', s'))"
  shows "calm vp rp s s'" "auditLog db' = auditLog db"
proof -
  obtain photo where tx: "upsertCustomerProfile_tx now u input photo (db, s) = Inr (x, (db', s'))"
    using r by (auto simp: upsertCustomerProfile_def andThen_Inr_iff)
  have spend: "auditLog (spendPhotoUploadRef now u photo d) = auditLog d" for d
    by (simp add: spendPhotoUploadRef_def split: option.split)
  show "calm vp rp s s'" "auditLog db' = auditLog db"
    using tx calm_refl [OF ok] calm_toPendingApproval [OF ok, of u]
    by (auto simp: upsertCustomerProfile_tx_def Let_def case_prod_unfold spend split: option.splits if_splits)
qed

lemma calm_upsertProfessionalProfile:
  assumes ok: "identityOk vp rp s" and r: "upsertProfessionalProfile now u input (db, s) = Inr (x, (db', s'))"
  shows "calm vp rp s s'" "auditLog db' = auditLog db"
proof -
  obtain photo where tx: "upsertProfessionalProfile_tx now u input photo (db, s) = Inr (x, (db', s'))"
    using r by (auto simp: upsertProfessionalProfile_def andThen_Inr_iff split: option.splits)
  have spend: "auditLog (spendPhotoUploadRef now u photo d) = auditLog d" for d
    by (simp add: spendPhotoUploadRef_def split: option.split)
  show "calm vp rp s s'" "auditLog db' = auditLog db"
    using tx calm_refl [OF ok] calm_toPendingApproval [OF ok, of u]
    by (auto simp: upsertProfessionalProfile_tx_def Let_def case_prod_unfold spend split: option.splits if_splits)
qed

lemma calm_startIdentityVerification:
  assumes ok: "identityOk vp rp s" and r: "startIdentityVerification didit now u (db, s) = Inr (x, s')"
  shows "calm vp rp s s'"
proof -
  obtain c ref where "s' = snd (createVerification now u c ref s)"
    using r by (auto simp: startIdentityVerification_def andThen_Inr_iff case_prod_unfold Let_def split: if_splits option.splits)
  then show ?thesis using calm_createVerification [OF ok] by simp
qed

end
