(* ===== verification/Account_Decisions.thy ===== *)
theory Account_Decisions
  imports Account_Safety
begin

text \<open>
  The steps of the account services and the decisions on accounts: an account is only ever APPROVED or
  REJECTED by a settled identity verification with that result or by an administrator, whose change is
  in the audit log.
\<close>

section \<open>Steps\<close>

text \<open>One call of a service, or anything else that happens to the marketplace's tables and keeps the
  rows of the audit log.  The two policies are the configuration of the codes for an email address
  and for a password.\<close>

inductive account_step :: "Crypto \<Rightarrow> CodePolicy \<Rightarrow> CodePolicy \<Rightarrow> platform \<Rightarrow> platform \<Rightarrow> bool"
  for cr :: Crypto and vp rp :: CodePolicy where
  Market: "set (auditLog db) \<subseteq> set (auditLog db') \<Longrightarrow> account_step cr vp rp (db, s) (db', s)"
| Register: "register cr vp production db now salt n input s = Inr (i, s') \<Longrightarrow> account_step cr vp rp (db, s) (db, s')"
| VerifyEmail: "verifyEmailCode cr vp now email code s = (r, s') \<Longrightarrow> account_step cr vp rp (db, s) (db, s')"
| Resend: "resendVerificationCode cr vp production db now n email s = Inr (t, s') \<Longrightarrow> account_step cr vp rp (db, s) (db, s')"
| Login: "login cr decoy ttl now token email pw s = Inr (x, s') \<Longrightarrow> account_step cr vp rp (db, s) (db, s')"
| SocialLogin: "socialLogin cr db validate ttl now token p t s = Inr (x, s') \<Longrightarrow> account_step cr vp rp (db, s) (db, s')"
| Authenticate: "authenticateRequest cr now header s = (r, s') \<Longrightarrow> account_step cr vp rp (db, s) (db, s')"
| Logout: "logout cr now otoken s = (r, s') \<Longrightarrow> account_step cr vp rp (db, s) (db, s')"
| RequestReset: "requestPasswordReset cr rp production db now n email s = Inr s' \<Longrightarrow> account_step cr vp rp (db, s) (db, s')"
| ResetPassword: "resetPassword cr rp now salt email code pw s = (r, s') \<Longrightarrow> account_step cr vp rp (db, s) (db, s')"
| UpsertCustomer: "upsertCustomerProfile now u cin (db, s) = Inr (r, st') \<Longrightarrow> account_step cr vp rp (db, s) st'"
| UpsertProfessional: "upsertProfessionalProfile now u pin (db, s) = Inr (r, st') \<Longrightarrow> account_step cr vp rp (db, s) st'"
| StartVerification: "startIdentityVerification didit now u (db, s) = Inr (x, s') \<Longrightarrow> account_step cr vp rp (db, s) (db, s')"
| Webhook: "handleWebhook hmac uuidOf parse now body sig ts (db, s) = Inr s' \<Longrightarrow> account_step cr vp rp (db, s) (db, s')"
| AdminUpdate: "updateUserAccount admin i ui (db, s) = Inr st' \<Longrightarrow> account_step cr vp rp (db, s) st'"
| AdminReset: "forceUserAccountPasswordReset cr rp production now n admin u (db, s) = Inr st' \<Longrightarrow> account_step cr vp rp (db, s) st'"

section \<open>Every decision has a reason\<close>

definition decidedBy :: "IdentityVerification \<Rightarrow> Account \<Rightarrow> bool" where
  "decidedBy v a \<longleftrightarrow> iv_userId v = acc_id a
     \<and> (acc_accountStatus a = UserAccountStatus.APPROVED \<and> iv_status v = IdentityVerificationStatus.APPROVED
      \<or> acc_accountStatus a = UserAccountStatus.REJECTED \<and> iv_status v = IdentityVerificationStatus.REJECTED)"

definition accountUpdateRow :: "id \<Rightarrow> AdminAuditLog \<Rightarrow> bool" where
  "accountUpdateRow i l \<longleftrightarrow> al_action l = ''USER_ACCOUNT_UPDATED'' \<and> al_targetType l = ''User'' \<and> al_targetKey l = RowKey i"

definition accountedFor :: "platform \<Rightarrow> Account \<Rightarrow> bool" where
  "accountedFor st a \<longleftrightarrow> (\<exists>v\<in>set (verifications (snd st)). decidedBy v a)
     \<or> (\<exists>l\<in>set (auditLog (fst st)). accountUpdateRow (acc_id a) l)"

definition platformOk :: "CodePolicy \<Rightarrow> CodePolicy \<Rightarrow> platform \<Rightarrow> bool" where
  "platformOk vp rp st \<longleftrightarrow> identityOk vp rp (snd st) \<and> (\<forall>a\<in>set (accounts (snd st)). settled a \<longrightarrow> accountedFor st a)"

definition platformKept :: "CodePolicy \<Rightarrow> CodePolicy \<Rightarrow> platform \<Rightarrow> platform \<Rightarrow> bool" where
  "platformKept vp rp st st' \<longleftrightarrow> platformOk vp rp st' \<and> identityEvolves (snd st) (snd st')"

lemma identityEvolves_mem:
  "identityEvolves s s' \<Longrightarrow> v \<in> set (verifications s) \<Longrightarrow> \<exists>v'\<in>set (verifications s'). verificationEvolves v v'"
  "identityEvolves s s' \<Longrightarrow> c \<in> set (verificationCodes s) \<Longrightarrow> \<exists>c'\<in>set (verificationCodes s'). codeEvolves c c'"
  "identityEvolves s s' \<Longrightarrow> c \<in> set (resetCodes s) \<Longrightarrow> \<exists>c'\<in>set (resetCodes s'). codeEvolves c c'"
  "identityEvolves s s' \<Longrightarrow> x \<in> set (sessions s) \<Longrightarrow> \<exists>x'\<in>set (sessions s'). sessionEvolves x x'"
  unfolding identityEvolves_def by (elim conjE, rule extends_mem, assumption, assumption)+

lemma accountedFor_mono:
  assumes "identityEvolves s s'" "set (auditLog db) \<subseteq> set (auditLog db')" "accountedFor (db, s) a"
    and "acc_id b = acc_id a" "acc_accountStatus b = acc_accountStatus a"
  shows "accountedFor (db', s') b"
proof -
  have "\<exists>v'\<in>set (verifications s'). decidedBy v' b" if mem: "v \<in> set (verifications s)" and dec: "decidedBy v a" for v
  proof -
    obtain v' where "v' \<in> set (verifications s')" "verificationEvolves v v'"
      using identityEvolves_mem(1) [OF assms(1) mem] by blast
    moreover from this dec have "v' = v" by (auto simp: verificationEvolves_def decidedBy_def)
    ultimately show ?thesis using dec assms(4,5) by (auto simp: decidedBy_def)
  qed
  then show ?thesis using assms(2-5) by (auto simp: accountedFor_def accountUpdateRow_def)
qed

lemma platformKept_kept:
  assumes ok: "platformOk vp rp (db, s)" and k: "kept vp rp s s'" and log: "set (auditLog db) \<subseteq> set (auditLog db')"
    and settles: "\<And>b. b \<in> set (accounts s') \<Longrightarrow> settled b \<Longrightarrow>
      (\<exists>a\<in>set (accounts s). acc_id a = acc_id b \<and> acc_accountStatus a = acc_accountStatus b) \<or> accountedFor (db', s') b"
  shows "platformKept vp rp (db, s) (db', s')"
proof -
  have "accountedFor (db', s') b" if b: "b \<in> set (accounts s')" "settled b" for b
    using settles [OF b]
  proof
    assume "\<exists>a\<in>set (accounts s). acc_id a = acc_id b \<and> acc_accountStatus a = acc_accountStatus b"
    then obtain a where a: "a \<in> set (accounts s)" "acc_id b = acc_id a" "acc_accountStatus b = acc_accountStatus a" by metis
    then have "accountedFor (db, s) a" using ok b(2) by (auto simp: platformOk_def settled_def)
    then show ?thesis using accountedFor_mono [OF _ log _ a(2,3)] k by (auto simp: kept_def)
  qed
  then show ?thesis using k by (simp add: platformKept_def platformOk_def kept_def)
qed

lemma platformKept_calm:
  assumes "platformOk vp rp (db, s)" "calm vp rp s s'" "set (auditLog db) \<subseteq> set (auditLog db')"
  shows "platformKept vp rp (db, s) (db', s')"
  using assms by (intro platformKept_kept) (auto simp: calm_def settlesNone_def)

lemma platformKept_webhook:
  assumes ok: "platformOk vp rp (db, s)" and w: "executeWebhook uuidOf payload s = Inr s'"
  shows "platformKept vp rp (db, s) (db, s')"
proof -
  have iok: "identityOk vp rp s" using ok by (simp add: platformOk_def)
  define result where "result = translateWebhookPayload payload"
  have still: "platformKept vp rp (db, s) (db, s)" by (rule platformKept_calm [OF ok calm_refl [OF iok]]) simp
  show ?thesis
  proof (cases "\<exists>t i v. wh_vendor_data payload = Some t \<and> t \<noteq> [] \<and> uuidOf t = Some i \<and> findVerificationById s i = Some v
      \<and> iv_status v = IdentityVerificationStatus.PENDING")
    case False
    then have "s' = s" using w by (auto simp: executeWebhook_def Let_def split: option.splits if_splits)
    then show ?thesis using still by simp
  next
    case True
    then obtain t i v where v: "wh_vendor_data payload = Some t" "t \<noteq> []" "uuidOf t = Some i"
      "findVerificationById s i = Some v" "iv_status v = IdentityVerificationStatus.PENDING" by blast
    define s1 where "s1 = snd (updateResultIfPending (iv_id v) result s)"
    have c: "calm vp rp s s1"
      unfolding s1_def result_def by (intro calm_updateResultIfPending iok translated_status)
    have "v \<in> set (verifications s)" using v(4) findRow_in unfolding findVerificationById_def by fast
    then have settledRow: "settleVerification result v \<in> set (verifications s1)"
      using v(5) by (auto simp: s1_def updateResultIfPending_def set_updateMany pendingVerification_def guard_def)
    have trans: "platformKept vp rp (db, s) (db, snd (transitionFromPendingApproval (iv_userId v) to s1))"
      (is "platformKept vp rp _ (db, ?s2)")
      if "to = UserAccountStatus.APPROVED \<and> ir_status result = IdentityVerificationStatus.APPROVED
        \<or> to = UserAccountStatus.REJECTED \<and> ir_status result = IdentityVerificationStatus.REJECTED" for to
    proof (rule platformKept_kept [OF ok])
      show "kept vp rp s ?s2"
        using kept_fromPendingApproval [OF calm_ok [OF c]] c identityEvolves_trans by (auto simp: calm_def kept_def)
      fix b assume b: "b \<in> set (accounts ?s2)" "settled b"
      have "b \<in> set (accounts s1) \<or> (acc_id b = iv_userId v \<and> acc_accountStatus b = to)"
        using b(1) by (auto simp: transitionFromPendingApproval_def set_updateMany inAccountStatus_def guard_def)
      then show "(\<exists>a\<in>set (accounts s). acc_id a = acc_id b \<and> acc_accountStatus a = acc_accountStatus b) \<or> accountedFor (db, ?s2) b"
      proof
        assume "b \<in> set (accounts s1)"
        then show ?thesis using c b(2) by (auto simp: calm_def settlesNone_def)
      next
        assume "acc_id b = iv_userId v \<and> acc_accountStatus b = to"
        then have "decidedBy (settleVerification result v) b" using that by (auto simp: decidedBy_def settleVerification_def)
        then show ?thesis using settledRow by (auto simp: accountedFor_def transitionFromPendingApproval_def)
      qed
    qed simp
    have "s' = s1 \<or> (\<exists>to. s' = snd (transitionFromPendingApproval (iv_userId v) to s1)
        \<and> (to = UserAccountStatus.APPROVED \<and> ir_status result = IdentityVerificationStatus.APPROVED
          \<or> to = UserAccountStatus.REJECTED \<and> ir_status result = IdentityVerificationStatus.REJECTED))"
      using w v by (auto simp: executeWebhook_def Let_def s1_def result_def case_prod_unfold split: if_splits)
    then show ?thesis using trans platformKept_calm [OF ok c] by blast
  qed
qed

lemma distinct_updateMany_one:
  assumes "distinct (map k rows)" "distinct (map m rows)" "r \<in> set rows" "k r = i"
    and free: "\<And>b. b \<in> set rows \<Longrightarrow> m b = m (f r) \<Longrightarrow> k b = i"
  shows "distinct (map m (updateMany (\<lambda>a. k a = i) f rows))"
proof -
  let ?g = "\<lambda>a. if k a = i then f a else a"
  have one: "a = r" if "a \<in> set rows" "k a = i" for a
    using key_unique [OF assms(1) that(1) assms(3)] that(2) assms(4) by simp
  have "inj_on (m \<circ> ?g) (set rows)"
  proof (rule inj_onI)
    fix a b assume "a \<in> set rows" "b \<in> set rows" "(m \<circ> ?g) a = (m \<circ> ?g) b"
    then have eq: "m (?g a) = m (?g b)" and mem: "a \<in> set rows" "b \<in> set rows" by simp_all
    show "a = b"
    proof (cases "k a = i")
      case True
      then have "a = r" "m (f r) = m (?g b)" using one [OF mem(1)] eq by simp_all
      then show ?thesis using one [OF mem(2)] free [OF mem(2)] by (cases "k b = i") simp_all
    next
      case False
      then show ?thesis
        using eq one [OF mem(2)] free [OF mem(1)] key_unique [OF assms(2) mem] by (cases "k b = i") simp_all
    qed
  qed
  moreover have "distinct rows" using assms(1) distinct_map by blast
  ultimately show ?thesis by (simp add: updateMany_def distinct_map)
qed

lemma platformKept_update:
  assumes ok: "platformOk vp rp (db, s)" and u: "updateUserAccount admin i input (db, s) = Inr (db', s')"
  shows "platformKept vp rp (db, s) (db', s')"
proof -
  have iok: "identityOk vp rp s" using ok by (simp add: platformOk_def)
  obtain e where e: "findAccountById s i = Some e"
    using u by (cases "findAccountById s i") (simp_all add: updateUserAccount_def)
  then have ei: "e \<in> set (accounts s)" "acc_id e = i" using findAccountById_SomeD by auto
  define change where "change = applyAccountUpdate input (statusAfterUpdate input e)"
  have free: "acc_id b = i" if "b \<in> set (accounts s)" "acc_email b = acc_email (change e)" for b
  proof (cases "emailChanges input e")
    case True
    then obtain m where m: "uua_email input = Some m" by (auto simp: emailChanges_def changedTo_def)
    then have "acc_email (change e) = m" by (simp add: change_def applyAccountUpdate_def orKeep_def)
    then have "findByEmail s m \<noteq> None" using that by (auto simp: findByEmail_def findRow_None_iff)
    then obtain w where "findByEmail s m = Some w" by blast
    moreover from this have "acc_id w = i"
      using u e True m by (auto simp: updateUserAccount_def split: if_splits)
    ultimately show ?thesis
      using emails_unique [OF iok that(1)] findByEmail_SomeD that(2) \<open>acc_email (change e) = m\<close> by metis
  next
    case False
    then have "acc_email (change e) = acc_email e"
      by (auto simp: change_def applyAccountUpdate_def orKeep_def emailChanges_def changedTo_def split: option.split)
    then show ?thesis using emails_unique [OF iok that(1) ei(1)] that(2) ei(2) by simp
  qed
  consider "db' = db" "s' = s" | "db' = writeAudit admin ''USER_ACCOUNT_UPDATED'' ''User'' i db" "s' = updateAccount i change s"
    using u e by (auto simp: updateUserAccount_def change_def Let_def split: if_splits)
  then show ?thesis
  proof cases
    case 1
    then show ?thesis using platformKept_calm [OF ok calm_refl [OF iok]] by simp
  next
    case 2
    have idc: "acc_id (change a) = acc_id a" for a by (simp add: change_def applyAccountUpdate_def)
    have "distinct (map acc_email (updateMany (\<lambda>a. acc_id a = i) change (accounts s)))"
      using iok ei free by (intro distinct_updateMany_one [where r = e]) (auto simp: identityOk_def keyed_def)
    then have "kept vp rp s s'"
      using iok idc unfolding 2 by (auto simp: kept_def identityOk_def identityEvolves_def updateAccount_def
          keyed_updateMany intro: extends_refl extends_updateMany)
    moreover have "set (auditLog db) \<subseteq> set (auditLog db')" by (auto simp: 2 writeAudit_def)
    moreover have "(\<exists>a\<in>set (accounts s). acc_id a = acc_id b \<and> acc_accountStatus a = acc_accountStatus b) \<or> accountedFor (db', s') b"
      if "b \<in> set (accounts s')" for b
      using that idc by (auto simp: 2 updateAccount_def set_updateMany accountedFor_def accountUpdateRow_def writeAudit_def)
    ultimately show ?thesis by (rule platformKept_kept [OF ok])
  qed
qed

lemma account_step_keeps:
  assumes "account_step cr vp rp st st'" "platformOk vp rp st"
  shows "platformKept vp rp st st'"
  using assms
proof (induction rule: account_step.induct)
  case (Market db db' s)
  then show ?case by (intro platformKept_calm calm_refl) (auto simp: platformOk_def)
next
  case (UpsertCustomer now u cin db s r st')
  then show ?case using calm_upsertCustomerProfile [of vp rp s now u cin db r "fst st'" "snd st'"]
    by (cases st') (auto intro: platformKept_calm simp: platformOk_def)
next
  case (UpsertProfessional now u pin db s r st')
  then show ?case using calm_upsertProfessionalProfile [of vp rp s now u pin db r "fst st'" "snd st'"]
    by (cases st') (auto intro: platformKept_calm simp: platformOk_def)
next
  case (Webhook hmac uuidOf parse now body sig ts db s s')
  then show ?case
    using platformKept_webhook platformKept_calm [OF Webhook.prems calm_refl, of db]
    by (auto simp: handleWebhook_def platformOk_def split: if_splits option.splits)
next
  case (AdminUpdate admin i ui db s st')
  then show ?case using platformKept_update by (cases st') simp
next
  case (AdminReset production now n admin u db s st')
  then obtain a where a: "findAccountById s u = Some a"
    and st': "st' = (writeAudit admin ''USER_ACCOUNT_PASSWORD_RESET_FORCED'' ''User'' u db,
       snd (issueForUser cr rp now n (acc_id a) (acc_email a) s))"
    by (auto simp: forceUserAccountPasswordReset_def split: option.splits)
  have ok: "identityOk vp rp s" using AdminReset.prems by (simp add: platformOk_def)
  have "acc_id a < id_nextId s" using findAccountById_SomeD [OF a] account_id_less [OF ok] by auto
  then show ?case unfolding st'
    by (intro platformKept_calm [OF AdminReset.prems] calm_issueForUser [OF ok]) (auto simp: writeAudit_def)
next
  case (VerifyEmail now email code s r s' db)
  then show ?case using calm_verifyEmailCode [of vp rp s cr now email code]
    by (intro platformKept_calm) (auto simp: platformOk_def)
next
  case (Authenticate now header s r s' db)
  then show ?case using calm_authenticateRequest [of vp rp s cr now header]
    by (intro platformKept_calm) (auto simp: platformOk_def)
next
  case (Logout now otoken s r s' db)
  then show ?case using calm_logout [of vp rp s cr now otoken]
    by (intro platformKept_calm) (auto simp: platformOk_def)
next
  case (ResetPassword now salt email code pw s r s' db)
  then show ?case using calm_resetPassword [of vp rp s cr now salt email code pw]
    by (intro platformKept_calm) (auto simp: platformOk_def)
next
  case (Register production db now salt n input s i s')
  then show ?case by (intro platformKept_calm calm_register) (auto simp: platformOk_def)
next
  case (Resend production db now n email s t s')
  then show ?case by (intro platformKept_calm calm_resend) (auto simp: platformOk_def)
next
  case (Login decoy ttl now token email pw s x s' db)
  then show ?case by (intro platformKept_calm calm_login) (auto simp: platformOk_def)
next
  case (SocialLogin db validate ttl now token p t s x s')
  then show ?case by (intro platformKept_calm calm_socialLogin) (auto simp: platformOk_def)
next
  case (RequestReset production db now n email s s')
  then show ?case by (intro platformKept_calm calm_requestPasswordReset) (auto simp: platformOk_def)
next
  case (StartVerification didit now u db s x s')
  then show ?case by (intro platformKept_calm calm_startIdentityVerification) (auto simp: platformOk_def)
qed

lemma account_steps_keep:
  assumes "(account_step cr vp rp)\<^sup>*\<^sup>* st st'" "platformOk vp rp st"
  shows "platformKept vp rp st st'"
  using assms
proof (induction rule: rtranclp_induct)
  case base
  then show ?case by (simp add: platformKept_def)
next
  case (step st1 st2)
  then have "platformKept vp rp st st1" by simp
  moreover from this step.hyps have "platformKept vp rp st1 st2"
    by (intro account_step_keeps) (auto simp: platformKept_def)
  ultimately show ?case using identityEvolves_trans by (auto simp: platformKept_def)
qed

end
