(* ===== verification/Account_Results.thy ===== *)
theory Account_Results
  imports Account_Decisions
begin

text \<open>
  What the account services answer: the sessions a login opens and a logout closes, and the state a
  password reset leaves.
\<close>

section \<open>Sessions\<close>

lemma findRow_updateMany_key:
  assumes "\<And>x. k (f x) = k x"
  shows "findRow (\<lambda>x. k x = h) (updateMany p f rows) = map_option (\<lambda>x. if p x then f x else x) (findRow (\<lambda>x. k x = h) rows)"
  using assms by (induction rows) auto

lemma find_after_updateSession:
  assumes "\<And>x. ses_tokenHash (f x) = ses_tokenHash x"
  shows "findByTokenHash (updateSession p f s) h = map_option (\<lambda>x. if p x then f x else x) (findByTokenHash s h)"
  using findRow_updateMany_key [of ses_tokenHash, OF assms] by (simp add: findByTokenHash_def updateSession_def)

lemma bearer: "token \<noteq> [] \<Longrightarrow> extractBearerToken (Some (BEARER_PREFIX @ token)) = Some token"
  by (simp add: extractBearerToken_def Let_def)

text \<open>A token authenticates its session's account while the session is ACTIVE and its time has not
  come.\<close>

lemma authenticate_token:
  assumes "token \<noteq> []" "findByTokenHash s (sha256 cr token) = Some x"
  shows "fst (authenticateRequest cr t (Some (BEARER_PREFIX @ token)) s) =
    (if ses_status x = ACTIVE \<and> t < ses_expiresAt x then Inr (ses_userId x) else Inl UNAUTHENTICATED)"
  using assms by (auto simp: authenticateRequest_def bearer findActiveSessionUserId_def loadEffectiveSession_def)

lemma authenticate_after_logout:
  assumes "token \<noteq> []" "findByTokenHash s (sha256 cr token) = Some x"
  shows "fst (authenticateRequest cr t' (Some (BEARER_PREFIX @ token)) (snd (logout cr t (Some token) s))) = Inl UNAUTHENTICATED"
proof -
  have "\<exists>y. findByTokenHash (snd (logout cr t (Some token) s)) (sha256 cr token) = Some y \<and> ses_status y \<noteq> ACTIVE"
    using assms by (auto simp: logout_def revokeSession_def loadEffectiveSession_def markExpired_def markRevoked_def
        find_after_updateSession revokeSessionRow_def)
  then show ?thesis using authenticate_token [OF assms(1)] by force
qed

lemma openSession_found:
  assumes "openSession cr ttl now token u s = (p, s')" "\<forall>x\<in>set (sessions s). ses_tokenHash x \<noteq> sha256 cr token"
  shows "lp_userId p = u \<and> lp_sessionToken p = token \<and> lp_sessionExpiresAt p = now + ttl * 3600000
    \<and> (\<exists>x. findByTokenHash s' (sha256 cr token) = Some x \<and> ses_status x = ACTIVE \<and> ses_userId x = u
         \<and> ses_expiresAt x = now + ttl * 3600000)"
proof -
  have "findRow (\<lambda>x. ses_tokenHash x = sha256 cr token) (sessions s) = None"
    using assms(2) by (simp add: findRow_None_iff)
  then show ?thesis
    using assms(1) by (auto simp: openSession_def createSession_def Let_def findByTokenHash_def findRow_append)
qed

lemma login_Inr_iff:
  "login cr decoy ttl now token email pw s = Inr (p, s') \<longleftrightarrow>
     (\<exists>a h. findByEmail s email = Some a \<and> acc_passwordHash a = Some h \<and> h \<noteq> [] \<and> verifyPassword cr h pw
        \<and> acc_accountStatus a \<in> {EMAIL_VERIFIED, UserAccountStatus.PENDING_APPROVAL, UserAccountStatus.APPROVED}
        \<and> openSession cr ttl now token (acc_id a) s = (p, s'))"
  by (cases "findByEmail s email"; cases "acc_passwordHash (the (findByEmail s email))")
     (auto simp: login_def Let_def nonEmpty_def isLoginEligibleStatus_def)

lemma login_Inl: "login cr decoy ttl now token email pw s = Inl e \<Longrightarrow> e = AUTHENTICATION_FAILED"
  by (auto simp: login_def Let_def split: option.splits if_splits)

section \<open>The reset of a password\<close>

lemma resetPassword_done:
  assumes "resetPassword cr pol now salt email code pw s = (ResetDone, s')"
  obtains a c where "findByEmail s email = Some a" "resetEligible a" "findActiveCode (resetCodes s) (acc_id a) = Some c"
    "code_attemptsCount c < maxAttempts pol" "now \<le> code_expiresAt c" "sha256 cr code = code_codeHash c"
    "\<not> verifyPassword cr (the (acc_passwordHash a)) pw"
    "accounts s' = updateMany (\<lambda>b. acc_id b = acc_id a) (\<lambda>b. b\<lparr>acc_passwordHash := Some (hashPassword cr salt pw)\<rparr>) (accounts s)"
    "resetCodes s' = invalidateOtherActiveCodes now (acc_id a) (code_id c) (consumeCode now (code_id c) (resetCodes s))"
    "sessions s' = updateMany (\<lambda>x. ses_userId x = acc_id a \<and> ses_status x = ACTIVE) (revokeSessionRow now) (sessions s)"
proof -
  obtain a where a: "findByEmail s email = Some a" "resetEligible a"
    using assms by (cases "findByEmail s email") (auto simp: resetPassword_def split: if_splits)
  then obtain c where c: "checkCode cr pol now (resetCodes s) (acc_id a) code = CodeMatch c"
    "\<not> verifyPassword cr (the (acc_passwordHash a)) pw"
    using assms by (cases "checkCode cr pol now (resetCodes s) (acc_id a) code") (auto simp: resetPassword_def split: if_splits)
  then have "findActiveCode (resetCodes s) (acc_id a) = Some c" "code_attemptsCount c < maxAttempts pol"
    "now \<le> code_expiresAt c" "sha256 cr code = code_codeHash c"
    by (auto simp: checkCode_def split: option.splits if_splits)
  moreover have "s' = revokeAllActiveForUser now (acc_id a)
      (let s1 = updatePasswordHash (acc_id a) (hashPassword cr salt pw) s
       in s1\<lparr>resetCodes := invalidateOtherActiveCodes now (acc_id a) (code_id c) (consumeCode now (code_id c) (resetCodes s1))\<rparr>)"
    using assms a c by (simp add: resetPassword_def)
  ultimately show thesis
    using a c(2) by (intro that [of a c]) (simp_all add: revokeAllActiveForUser_def updateSession_def updatePasswordHash_def updateAccount_def Let_def)
qed

lemma reset_codes_dead:
  "countWhere (isActiveCode u) (invalidateOtherActiveCodes now u i (consumeCode now i rows)) = 0"
  unfolding invalidateOtherActiveCodes_def consumeCode_def by (induction rows) (simp_all add: isActiveCode_def)

lemma reset_sessions_over:
  "\<forall>x\<in>set (updateMany (\<lambda>x. ses_userId x = u \<and> ses_status x = ACTIVE) (revokeSessionRow now) rows).
     ses_userId x = u \<longrightarrow> ses_status x \<noteq> ACTIVE"
  by (induction rows) (simp_all add: revokeSessionRow_def)

lemma resetPassword_not_done:
  assumes "resetPassword cr pol now salt email code pw s = (r, s')" "r \<noteq> ResetDone"
  shows "accounts s' = accounts s \<and> sessions s' = sessions s"
proof (cases "findByEmail s email")
  case (Some a)
  show ?thesis
    using assms Some
    by (cases "checkCode cr pol now (resetCodes s) (acc_id a) code") (auto simp: resetPassword_def split: if_splits)
qed (use assms in \<open>simp add: resetPassword_def\<close>)

end
