(* ===== verification/Platform_Settings.thy ===== *)
theory Platform_Settings
  imports Identity_Verification
begin

text \<open>
  The platform's settings (src/src/platform-admin/platform-settings and storage-settings): an
  administrator's change of a setting, the settings of the image storage, and the tree of public
  settings that anybody may read.  The order of keys in a locale is the runtime's and is a parameter
  (\<^theory_text>\<open>rank\<close>).  Keys are ASCII, and none of their segments names a property
  every JavaScript object inherits.  The description, the provider and the masked preview of a setting
  are left out.
\<close>

section \<open>Changing a setting\<close>

definition PLATFORM_SETTING_VALUE_REQUIRED :: err where
  "PLATFORM_SETTING_VALUE_REQUIRED = DomainException ''PLATFORM_SETTING_VALUE_REQUIRED''"
definition PLATFORM_SETTING_INVALID_VALUE :: err where
  "PLATFORM_SETTING_INVALID_VALUE = DomainException ''PLATFORM_SETTING_INVALID_VALUE''"
definition PLATFORM_SETTING_ENCRYPTED_CANNOT_BE_PUBLIC :: err where
  "PLATFORM_SETTING_ENCRYPTED_CANNOT_BE_PUBLIC = DomainException ''PLATFORM_SETTING_ENCRYPTED_CANNOT_BE_PUBLIC''"
definition PLATFORM_SETTING_KEY_RESERVED :: err where
  "PLATFORM_SETTING_KEY_RESERVED = DomainException ''PLATFORM_SETTING_KEY_RESERVED''"

definition STORAGE_SETTING_KEY_PREFIX :: string where "STORAGE_SETTING_KEY_PREFIX = ''storage.''"

record SetPlatformSettingInput =
  sps_key :: string
  sps_valueType :: PlatformSettingValueType
  sps_isEncrypted :: bool
  sps_isPublic :: bool
  sps_value :: string

definition startsWith :: "string \<Rightarrow> string \<Rightarrow> bool" where
  "startsWith s prefix \<longleftrightarrow> take (length prefix) s = prefix"

definition assertValueParses :: "string \<Rightarrow> PlatformSettingValueType \<Rightarrow> err option" where
  "assertValueParses value valueType =
     (if value = [] then Some PLATFORM_SETTING_VALUE_REQUIRED
      else if valueType = BOOLEAN \<and> value \<noteq> ''true'' \<and> value \<noteq> ''false'' then Some PLATFORM_SETTING_INVALID_VALUE
      else if valueType = NUMBER \<and> (case Number value of Finite _ \<Rightarrow> False | _ \<Rightarrow> True) then Some PLATFORM_SETTING_INVALID_VALUE
      else None)"

definition upsertSetting :: "PlatformSetting \<Rightarrow> db \<Rightarrow> db" where
  "upsertSetting row db = (case findSettingByKey db (ps_key row) of
       None \<Rightarrow> db\<lparr>platformSettings := platformSettings db @ [row]\<rparr>
     | Some _ \<Rightarrow> db\<lparr>platformSettings := updateMany (\<lambda>r. ps_key r = ps_key row) (\<lambda>_. row) (platformSettings db)\<rparr>)"

definition writeSettingAudit :: "id \<Rightarrow> string \<Rightarrow> string \<Rightarrow> db \<Rightarrow> db" where
  "writeSettingAudit adminUserId action key db = db\<lparr>auditLog := auditLog db @
     [\<lparr>al_actorAdminUserId = adminUserId, al_action = action, al_targetType = ''PlatformSetting'',
       al_targetKey = SettingKey key\<rparr>]\<rparr>"

definition isNoOpEncryptedUpdate :: "SetPlatformSettingInput \<Rightarrow> db \<Rightarrow> bool" where
  "isNoOpEncryptedUpdate input db \<longleftrightarrow> sps_isEncrypted input \<and> sps_value input = []
     \<and> (case findSettingByKey db (sps_key input) of None \<Rightarrow> False | Some row \<Rightarrow> ps_isEncrypted row)"

definition setPlatformSetting :: "id \<Rightarrow> SetPlatformSettingInput \<Rightarrow> db \<Rightarrow> err + db" where
  "setPlatformSetting adminUserId input db =
     (if startsWith (sps_key input) STORAGE_SETTING_KEY_PREFIX then Inl PLATFORM_SETTING_KEY_RESERVED
      else if sps_isEncrypted input \<and> sps_isPublic input then Inl PLATFORM_SETTING_ENCRYPTED_CANNOT_BE_PUBLIC
      else case (if isNoOpEncryptedUpdate input db then None else assertValueParses (sps_value input) (sps_valueType input)) of
          Some e \<Rightarrow> Inl e
        | None \<Rightarrow> Inr (writeSettingAudit adminUserId ''PLATFORM_SETTING_SET'' (sps_key input) (upsertSetting
             \<lparr>ps_key = sps_key input, ps_valueType = sps_valueType input, ps_isEncrypted = sps_isEncrypted input,
              ps_isPublic = sps_isPublic input,
              ps_value = (if sps_isEncrypted input then None else Some (sps_value input)),
              ps_secret = (if \<not> sps_isEncrypted input then None
                           else if isNoOpEncryptedUpdate input db
                             then (case findSettingByKey db (sps_key input) of None \<Rightarrow> None | Some row \<Rightarrow> ps_secret row)
                           else Some (sps_value input))\<rparr> db)))"

definition listPlatformSettings :: "(string \<Rightarrow> nat) \<Rightarrow> db \<Rightarrow> PlatformSetting list" where
  "listPlatformSettings rank db = filter (\<lambda>r. \<not> startsWith (ps_key r) STORAGE_SETTING_KEY_PREFIX)
     (sort_key (rank \<circ> ps_key) (platformSettings db))"

section \<open>The settings of the storage\<close>

definition IMAGE_MAX_DIMENSION_PX_KEY :: string where
  "IMAGE_MAX_DIMENSION_PX_KEY = ''storage.image-processing.max-dimension-px''"
definition IMAGE_WEBP_QUALITY_KEY :: string where
  "IMAGE_WEBP_QUALITY_KEY = ''storage.image-processing.webp-quality''"
definition IMAGE_MAX_DIMENSION_PX_CHOICES :: "rat list" where
  "IMAGE_MAX_DIMENSION_PX_CHOICES = [512, 1024, 2048]"

record StorageSettings =
  sts_profilePhotoUploadEnabled :: bool
  sts_imageMaxDimensionPx :: rat
  sts_imageWebpQuality :: rat

definition clampMaxDimension :: "string option \<Rightarrow> rat" where
  "clampMaxDimension raw = (case raw of
       None \<Rightarrow> 1024
     | Some s \<Rightarrow> (case Number s of Finite q \<Rightarrow> if q \<in> set IMAGE_MAX_DIMENSION_PX_CHOICES then q else 1024 | _ \<Rightarrow> 1024))"

definition clampQuality :: "string option \<Rightarrow> rat" where
  "clampQuality raw = (case raw of
       None \<Rightarrow> 80
     | Some s \<Rightarrow> (case Number s of
           Finite q \<Rightarrow> if q = of_int \<lfloor>q\<rfloor> \<and> 1 \<le> q \<and> q \<le> 100 then q else 80
         | _ \<Rightarrow> 80))"

definition settingValue :: "db \<Rightarrow> string \<Rightarrow> string option" where
  "settingValue db key = (case findSettingByKey db key of None \<Rightarrow> None | Some row \<Rightarrow> ps_value row)"

definition getStorageSettings :: "db \<Rightarrow> StorageSettings" where
  "getStorageSettings db =
     \<lparr>sts_profilePhotoUploadEnabled = (case findSettingByKey db PROFILE_PHOTO_UPLOAD_ENABLED_KEY of
         None \<Rightarrow> True | Some row \<Rightarrow> ps_value row = Some ''true''),
      sts_imageMaxDimensionPx = clampMaxDimension (settingValue db IMAGE_MAX_DIMENSION_PX_KEY),
      sts_imageWebpQuality = clampQuality (settingValue db IMAGE_WEBP_QUALITY_KEY)\<rparr>"

definition storageRow :: "string \<Rightarrow> PlatformSettingValueType \<Rightarrow> string \<Rightarrow> PlatformSetting" where
  "storageRow key t v = \<lparr>ps_key = key, ps_valueType = t, ps_isEncrypted = False, ps_isPublic = False,
     ps_value = Some v, ps_secret = None\<rparr>"

text \<open>The two numbers are integers of the input; \<^theory_text>\<open>String\<close> prints them in decimal.\<close>

definition updateStorageSettings :: "id \<Rightarrow> bool \<Rightarrow> nat \<Rightarrow> nat \<Rightarrow> db \<Rightarrow> StorageSettings \<times> db" where
  "updateStorageSettings adminUserId photoEnabled maxDimensionPx webpQuality db =
     (let db1 = upsertSetting (storageRow PROFILE_PHOTO_UPLOAD_ENABLED_KEY BOOLEAN (if photoEnabled then ''true'' else ''false'')) db;
          db2 = upsertSetting (storageRow IMAGE_MAX_DIMENSION_PX_KEY NUMBER (decimal maxDimensionPx)) db1;
          db3 = upsertSetting (storageRow IMAGE_WEBP_QUALITY_KEY NUMBER (decimal webpQuality)) db2;
          db4 = writeSettingAudit adminUserId ''STORAGE_SETTINGS_UPDATED'' ''storage.*'' db3
      in (getStorageSettings db4, db4))"

section \<open>The public configuration\<close>

datatype PlatformConfigLeafValue = BoolLeaf bool | StringLeaf string | NumberLeaf rat
datatype PlatformConfigNode = Leaf PlatformConfigLeafValue | Nested "(string \<times> PlatformConfigNode) list"

type_synonym config = "(string \<times> PlatformConfigNode) list"

definition findPublicSettings :: "db \<Rightarrow> PlatformSetting list" where
  "findPublicSettings db = filter (\<lambda>r. \<not> ps_isEncrypted r \<and> ps_isPublic r) (platformSettings db)"

fun splitAt :: "char \<Rightarrow> string \<Rightarrow> string list" where
  "splitAt c [] = [[]]"
| "splitAt c (x # xs) =
     (if x = c then [] # splitAt c xs
      else case splitAt c xs of [] \<Rightarrow> [[x]] | s # ss \<Rightarrow> (x # s) # ss)"

definition upperChar :: "char \<Rightarrow> char" where
  "upperChar c = (if 97 \<le> (of_char c :: nat) \<and> (of_char c :: nat) \<le> 122 then char_of ((of_char c :: nat) - 32) else c)"

definition capitalize :: "string \<Rightarrow> string" where
  "capitalize s = (case s of [] \<Rightarrow> [] | c # cs \<Rightarrow> upperChar c # cs)"

definition toCamelCaseFieldName :: "string \<Rightarrow> string" where
  "toCamelCaseFieldName fieldName = (case splitAt (CHR ''-'') fieldName of
       [] \<Rightarrow> [] | first # rest \<Rightarrow> first @ concat (map capitalize rest))"

definition configPath :: "string \<Rightarrow> string list" where
  "configPath key = map toCamelCaseFieldName (splitAt (CHR ''.'') key)"

definition resolveValue :: "PlatformSetting \<Rightarrow> PlatformConfigLeafValue option" where
  "resolveValue row = (case ps_value row of
       None \<Rightarrow> None
     | Some v \<Rightarrow> (case ps_valueType row of
           BOOLEAN \<Rightarrow> Some (BoolLeaf (v = ''true''))
         | STRING \<Rightarrow> Some (StringLeaf v)
         | NUMBER \<Rightarrow> (case Number v of Finite q \<Rightarrow> Some (NumberLeaf q) | _ \<Rightarrow> None)))"

fun setField :: "string \<Rightarrow> PlatformConfigNode \<Rightarrow> config \<Rightarrow> config" where
  "setField k n [] = [(k, n)]"
| "setField k n ((j, m) # fs) = (if j = k then (k, n) # fs else (j, m) # setField k n fs)"

text \<open>A path that meets a value where it needs an object, or an object where it needs a value, is
  skipped.\<close>

fun assignAtPath :: "string list \<Rightarrow> PlatformConfigLeafValue \<Rightarrow> config \<Rightarrow> config" where
  "assignAtPath [] v cfg = cfg"
| "assignAtPath [s] v cfg = (case map_of cfg s of
       Some (Nested _) \<Rightarrow> cfg
     | _ \<Rightarrow> setField s (Leaf v) cfg)"
| "assignAtPath (s # t # path) v cfg = (case map_of cfg s of
       None \<Rightarrow> setField s (Nested (assignAtPath (t # path) v [])) cfg
     | Some (Nested fs) \<Rightarrow> setField s (Nested (assignAtPath (t # path) v fs)) cfg
     | Some (Leaf _) \<Rightarrow> cfg)"

fun fillDefaultAtPath :: "string list \<Rightarrow> PlatformConfigLeafValue \<Rightarrow> config \<Rightarrow> config" where
  "fillDefaultAtPath [] v cfg = cfg"
| "fillDefaultAtPath [s] v cfg = (if map_of cfg s \<noteq> None then cfg else setField s (Leaf v) cfg)"
| "fillDefaultAtPath (s # t # path) v cfg = (case map_of cfg s of
       None \<Rightarrow> setField s (Nested (fillDefaultAtPath (t # path) v [])) cfg
     | Some (Nested fs) \<Rightarrow> setField s (Nested (fillDefaultAtPath (t # path) v fs)) cfg
     | Some (Leaf _) \<Rightarrow> cfg)"

definition KNOWN_PLATFORM_CONFIG_BOOLEAN_DEFAULTS :: "(string \<times> bool) list" where
  "KNOWN_PLATFORM_CONFIG_BOOLEAN_DEFAULTS = [(''customer.social-login.google.enabled'', False),
     (''customer.social-login.apple.enabled'', False), (''identity.enabled'', False)]"

definition applyKnownBooleanDefaults :: "config \<Rightarrow> config" where
  "applyKnownBooleanDefaults cfg =
     foldl (\<lambda>cfg (key, d). fillDefaultAtPath (configPath key) (BoolLeaf d) cfg) cfg KNOWN_PLATFORM_CONFIG_BOOLEAN_DEFAULTS"

definition assignRow :: "config \<Rightarrow> PlatformSetting \<Rightarrow> config" where
  "assignRow cfg row = (case resolveValue row of
       None \<Rightarrow> cfg | Some value \<Rightarrow> assignAtPath (configPath (ps_key row)) value cfg)"

definition listPlatformConfig :: "(string \<Rightarrow> nat) \<Rightarrow> db \<Rightarrow> config" where
  "listPlatformConfig rank db =
     applyKnownBooleanDefaults (foldl assignRow [] (sort_key (rank \<circ> ps_key) (findPublicSettings db)))"

end
