(* ===== verification/Settings_Facts.thy ===== *)
theory Settings_Facts
  imports Platform_Settings
begin

text \<open>
  The settings read back: a decimal number is parsed as itself, a setting that was set is the one that
  is read, and the tree of the public configuration holds exactly the values of public settings that
  collide with no other, and the defaults.
\<close>

section \<open>Decimal numbers\<close>

lemma digitVal_digit: "d < (10::nat) \<Longrightarrow> digitVal (char_of (48 + d)) = d"
  by (simp add: digitVal_def)

lemma isDigit_digit: "d < (10::nat) \<Longrightarrow> isDigit (char_of (48 + d))"
  by (simp add: isDigit_def digitVal_digit)

lemma digits_decimal: "list_all isDigit (decimal n) \<and> decimal n \<noteq> [] \<and> digitsVal 10 (decimal n) = n"
proof (induction n rule: decimal.induct)
  case (1 n)
  show ?case
  proof (cases "n < 10")
    case True
    then show ?thesis by (simp add: decimal.simps [of n] isDigit_digit digitVal_digit digitsVal_def)
  next
    case False
    then have ih: "list_all isDigit (decimal (n div 10))" "decimal (n div 10) \<noteq> []" "digitsVal 10 (decimal (n div 10)) = n div 10"
      using 1 by auto
    have "digitVal (char_of (48 + n mod 10)) = n mod 10" "isDigit (char_of (48 + n mod 10))"
      using digitVal_digit [of "n mod 10"] isDigit_digit [of "n mod 10"] by simp_all
    then show ?thesis using False ih by (simp add: decimal.simps [of n] digitsVal_def)
  qed
qed

lemma digit_range: "isDigit c \<Longrightarrow> 48 \<le> (of_char c :: nat) \<and> (of_char c :: nat) \<le> 57"
  by (auto simp: isDigit_def digitVal_def Let_def split: if_splits)

lemma digit_others:
  assumes "isDigit c"
  shows "\<not> isSpace c" "c \<noteq> CHR ''-''" "c \<noteq> CHR ''+''" "c \<noteq> CHR ''x''" "c \<noteq> CHR ''X''" "c \<noteq> CHR ''o''" "c \<noteq> CHR ''O''"
    "c \<noteq> CHR ''b''" "c \<noteq> CHR ''B''" "c \<noteq> CHR ''I''"
  using digit_range [OF assms] by (auto simp: isSpace_def)

lemma trim_digits: "list_all isDigit s \<Longrightarrow> trim s = s"
proof -
  assume "list_all isDigit s"
  then have d: "\<forall>c\<in>set s. \<not> isSpace c" using digit_others(1) by (auto simp: list_all_iff)
  have dw: "dropWhile isSpace t = t" if "\<forall>c\<in>set t. \<not> isSpace c" for t
    using that by (cases t) simp_all
  show ?thesis using d dw [of s] dw [of "rev s"] by (simp add: trim_def)
qed

lemma Number_digits:
  assumes "list_all isDigit s" "s \<noteq> []"
  shows "Number s = Finite (of_nat (digitsVal 10 s))"
proof -
  obtain c r where s: "s = c # r" using assms(2) by (cases s) auto
  have c: "isDigit c" and r: "list_all isDigit r" using assms(1) s by simp_all
  have tw: "takeWhile isDigit s = s" "dropWhile isDigit s = []"
    using assms(1) by (simp_all add: takeWhile_eq_all_conv dropWhile_eq_Nil_conv list_all_iff)
  have dec: "decimalNumber s = Finite (of_nat (digitsVal 10 s))"
    using assms(2) by (simp add: decimalNumber_def tw exponentOf_def scale_def)
  have "s \<noteq> ''Infinity''" using digit_others(10) [OF c] s by auto
  then have "unsignedNumber s = Finite (of_nat (digitsVal 10 s))" by (simp add: unsignedNumber_def dec)
  moreover have "trim (c # r) = c # r" using trim_digits [OF assms(1)] by (simp add: s)
  moreover have "\<not> (r \<noteq> [] \<and> hd r \<in> {CHR ''x'', CHR ''X''})" "\<not> (r \<noteq> [] \<and> hd r \<in> {CHR ''o'', CHR ''O''})"
    "\<not> (r \<noteq> [] \<and> hd r \<in> {CHR ''b'', CHR ''B''})"
    using r digit_others [of "hd r"] by (cases r; simp)+
  ultimately show ?thesis
    using digit_others(2,3) [OF c] unfolding Number_def s by (cases "r = []") simp_all
qed

lemma Number_decimal: "Number (decimal n) = Finite (of_nat n)"
  using Number_digits digits_decimal by metis

section \<open>Set and get\<close>

lemma findSetting_upsert:
  "findSettingByKey (upsertSetting row db) key = (if key = ps_key row then Some row else findSettingByKey db key)"
proof -
  have new: "findRow (\<lambda>r. ps_key r = key) (rows @ [row]) = (if key = ps_key row then Some row else findRow (\<lambda>r. ps_key r = key) rows)"
    if "findRow (\<lambda>r. ps_key r = ps_key row) rows = None" for rows
    using that by (auto simp: findRow_append split: option.split)
  have old: "findRow (\<lambda>r. ps_key r = key) (updateMany (\<lambda>r. ps_key r = ps_key row) (\<lambda>_. row) rows) =
      (if key = ps_key row then Some row else findRow (\<lambda>r. ps_key r = key) rows)"
    if "findRow (\<lambda>r. ps_key r = ps_key row) rows \<noteq> None" for rows
  proof (cases "key = ps_key row")
    case True
    then show ?thesis using that by (induction rows) (auto split: if_splits)
  next
    case False
    then show ?thesis by (induction rows) auto
  qed
  show ?thesis
    using new [of "platformSettings db"] old [of "platformSettings db"]
    by (auto simp: upsertSetting_def findSettingByKey_def split: option.split)
qed

lemma findSetting_audit [simp]: "findSettingByKey (writeSettingAudit x y z db) = findSettingByKey db"
  by (rule ext) (simp add: findSettingByKey_def writeSettingAudit_def)

lemma upsert_others: "upsertSetting row db = db\<lparr>platformSettings := platformSettings (upsertSetting row db)\<rparr>"
  by (simp add: upsertSetting_def split: option.split)

lemma ps_key_storageRow [simp]: "ps_key (storageRow k t v) = k"
  by (simp add: storageRow_def)

lemma storage_round_trip:
  assumes "of_nat d \<in> set IMAGE_MAX_DIMENSION_PX_CHOICES" "1 \<le> q" "q \<le> 100"
  shows "fst (updateStorageSettings admin e d q db) =
    \<lparr>sts_profilePhotoUploadEnabled = e, sts_imageMaxDimensionPx = of_nat d, sts_imageWebpQuality = of_nat q\<rparr>"
proof -
  have keys: "PROFILE_PHOTO_UPLOAD_ENABLED_KEY \<noteq> IMAGE_MAX_DIMENSION_PX_KEY"
    "PROFILE_PHOTO_UPLOAD_ENABLED_KEY \<noteq> IMAGE_WEBP_QUALITY_KEY" "IMAGE_MAX_DIMENSION_PX_KEY \<noteq> IMAGE_WEBP_QUALITY_KEY"
    by (simp_all add: PROFILE_PHOTO_UPLOAD_ENABLED_KEY_def IMAGE_MAX_DIMENSION_PX_KEY_def IMAGE_WEBP_QUALITY_KEY_def)
  have "clampMaxDimension (Some (decimal d)) = of_nat d"
    using assms(1) by (simp add: clampMaxDimension_def Number_decimal)
  moreover have "clampQuality (Some (decimal q)) = of_nat q"
    using assms(2,3) by (simp add: clampQuality_def Number_decimal)
  ultimately show ?thesis
    using keys keys [symmetric]
    by (simp add: updateStorageSettings_def Let_def getStorageSettings_def settingValue_def findSetting_upsert)
      (simp add: storageRow_def)
qed

section \<open>The tree\<close>

fun leafAt :: "string list \<Rightarrow> config \<Rightarrow> PlatformConfigLeafValue option" where
  "leafAt [] cfg = None"
| "leafAt [s] cfg = (case map_of cfg s of Some (Leaf v) \<Rightarrow> Some v | _ \<Rightarrow> None)"
| "leafAt (s # t # path) cfg = (case map_of cfg s of Some (Nested fs) \<Rightarrow> leafAt (t # path) fs | _ \<Rightarrow> None)"

text \<open>Nothing on the way to a path, or at it, prevents a value there.\<close>

fun free :: "string list \<Rightarrow> config \<Rightarrow> bool" where
  "free [] cfg = False"
| "free [s] cfg = (case map_of cfg s of Some (Nested _) \<Rightarrow> False | _ \<Rightarrow> True)"
| "free (s # t # path) cfg = (case map_of cfg s of
       None \<Rightarrow> True | Some (Nested fs) \<Rightarrow> free (t # path) fs | Some (Leaf _) \<Rightarrow> False)"

definition comparable :: "string list \<Rightarrow> string list \<Rightarrow> bool" where
  "comparable p q \<longleftrightarrow> take (length p) q = p \<or> take (length q) p = q"

lemma path_cases:
  fixes q :: "string list"
  obtains "q = []" | s where "q = [s]" | s t r where "q = s # t # r"
  by (metis list.exhaust)

lemma map_of_setField [simp]: "map_of (setField k n fs) = (map_of fs)(k \<mapsto> n)"
  by (induction k n fs rule: setField.induct) (auto simp: fun_upd_twist)

lemma leafAt_Nil [simp]: "leafAt p [] = None"
  by (cases p rule: path_cases) auto

lemma leafAt_assign_SomeD:
  "leafAt q (assignAtPath p v cfg) = Some w \<Longrightarrow> (q = p \<and> w = v) \<or> leafAt q cfg = Some w"
proof (induction p v cfg arbitrary: q rule: assignAtPath.induct)
  case (2 s v cfg)
  then show ?case
    by (cases q rule: path_cases) (auto split: option.splits PlatformConfigNode.splits if_splits)
next
  case (3 s t path v cfg)
  show ?case
  proof (cases "map_of cfg s")
    case None
    then show ?thesis using "3.prems" "3.IH"(1) [OF None, of "tl q"]
      by (cases q rule: path_cases) (auto split: option.splits PlatformConfigNode.splits if_splits)
  next
    case (Some n)
    then show ?thesis using "3.prems" "3.IH"(2) [of n _ "tl q"]
      by (cases q rule: path_cases) (auto split: option.splits PlatformConfigNode.splits if_splits)
  qed
qed simp

lemma leafAt_assign_free: "free p cfg \<Longrightarrow> leafAt p (assignAtPath p v cfg) = Some v"
proof (induction p v cfg rule: assignAtPath.induct)
  case (3 s t path v cfg)
  show ?case
  proof (cases "map_of cfg s")
    case None
    have "free (t # path) []" by (cases path) simp_all
    then show ?thesis using None "3.IH"(1) by simp
  next
    case (Some n)
    then show ?thesis using "3.prems" "3.IH"(2) by (cases n) auto
  qed
qed (auto split: option.splits PlatformConfigNode.splits)

lemma free_Nil: "p \<noteq> [] \<Longrightarrow> free p []"
  by (cases p rule: path_cases) auto

lemma comparable_Cons [simp]: "comparable (s # p) (t # q) \<longleftrightarrow> s = t \<and> comparable p q"
  by (auto simp: comparable_def)

lemma comparable_Nil [simp]: "comparable [] q" "comparable q []"
  by (simp_all add: comparable_def)

lemma free_assign:
  "free q cfg \<Longrightarrow> q = p \<or> \<not> comparable p q \<Longrightarrow> free q (assignAtPath p v cfg)"
proof (induction p v cfg arbitrary: q rule: assignAtPath.induct)
  case (2 s v cfg)
  then show ?case
    by (cases q rule: path_cases) (auto split: option.splits PlatformConfigNode.splits if_splits)
next
  case (3 s t path v cfg)
  obtain s' q' where q: "q = s' # q'" using "3.prems"(1) by (cases q) auto
  show ?case
  proof (cases "s' = s")
    case True
    then obtain t' q'' where q': "q' = t' # q''" using "3.prems"(2) q by (cases q') auto
    show ?thesis
    proof (cases "map_of cfg s")
      case None
      then show ?thesis using "3.prems" "3.IH"(1) [OF None, of q'] True q q' free_Nil [of q'] by auto
    next
      case (Some n)
      then show ?thesis using "3.prems" "3.IH"(2) [of n _ q'] True q q' by (cases n) auto
    qed
  next
    case False
    then show ?thesis using "3.prems"(1) q
      by (cases q' ) (auto split: option.splits PlatformConfigNode.splits)
  qed
qed simp

lemma leafAt_assign_keep: "leafAt q cfg = Some w \<Longrightarrow> q \<noteq> p \<Longrightarrow> leafAt q (assignAtPath p v cfg) = Some w"
proof (induction p v cfg arbitrary: q rule: assignAtPath.induct)
  case (2 s v cfg)
  then show ?case
    by (cases q rule: path_cases) (auto split: option.splits PlatformConfigNode.splits if_splits)
next
  case (3 s t path v cfg)
  show ?case
  proof (cases "map_of cfg s")
    case None
    then show ?thesis using "3.prems"
      by (cases q rule: path_cases) (auto split: option.splits PlatformConfigNode.splits if_splits)
  next
    case (Some n)
    then show ?thesis using "3.prems" "3.IH"(2) [of n _ "tl q"]
      by (cases q rule: path_cases) (auto split: option.splits PlatformConfigNode.splits if_splits)
  qed
qed simp

text \<open>A default is an assignment that leaves a value alone.\<close>

lemma setField_same: "map_of fs k = Some n \<Longrightarrow> setField k n fs = fs"
  by (induction fs) auto

lemma fill_assign: "fillDefaultAtPath p v cfg = (if leafAt p cfg \<noteq> None then cfg else assignAtPath p v cfg)"
  by (induction p v cfg rule: fillDefaultAtPath.induct)
     (auto simp: setField_same split: option.splits PlatformConfigNode.splits)

definition fillDefault :: "config \<Rightarrow> string \<times> bool \<Rightarrow> config" where
  "fillDefault cfg kd = fillDefaultAtPath (configPath (fst kd)) (BoolLeaf (snd kd)) cfg"

lemma applyKnownBooleanDefaults_fold:
  "applyKnownBooleanDefaults cfg = foldl fillDefault cfg KNOWN_PLATFORM_CONFIG_BOOLEAN_DEFAULTS"
  by (simp add: applyKnownBooleanDefaults_def fillDefault_def [abs_def] case_prod_unfold)

lemma configPath_nonempty [simp]: "configPath key \<noteq> []"
proof -
  have "splitAt c xs \<noteq> []" for c xs by (induction c xs rule: splitAt.induct) (auto split: list.split)
  then show ?thesis by (simp add: configPath_def)
qed

section \<open>Folding the rows\<close>

abbreviation rowPath :: "PlatformSetting \<Rightarrow> string list" where
  "rowPath r \<equiv> configPath (ps_key r)"

lemma leafAt_rows_SomeD:
  "leafAt q (foldl assignRow cfg rows) = Some w \<Longrightarrow>
     (\<exists>r\<in>set rows. resolveValue r = Some w \<and> rowPath r = q) \<or> leafAt q cfg = Some w"
proof (induction rows arbitrary: cfg)
  case (Cons r rows)
  then have "(\<exists>r\<in>set rows. resolveValue r = Some w \<and> rowPath r = q) \<or> leafAt q (assignRow cfg r) = Some w" by simp
  then show ?case using leafAt_assign_SomeD [of q "rowPath r" _ cfg w] by (auto simp: assignRow_def split: option.splits)
qed simp

lemma leafAt_rows_keep:
  "leafAt q cfg = Some w \<Longrightarrow> \<forall>r\<in>set rows. resolveValue r \<noteq> None \<longrightarrow> rowPath r \<noteq> q \<Longrightarrow> leafAt q (foldl assignRow cfg rows) = Some w"
  by (induction rows arbitrary: cfg) (auto simp: assignRow_def leafAt_assign_keep split: option.split)

lemma free_rows:
  "free q cfg \<Longrightarrow> \<forall>r\<in>set rows. resolveValue r \<noteq> None \<longrightarrow> rowPath r = q \<or> \<not> comparable (rowPath r) q \<Longrightarrow>
     free q (foldl assignRow cfg rows)"
proof (induction rows arbitrary: cfg)
  case (Cons r rows)
  have "free q (assignRow cfg r)"
    using Cons.prems free_assign [of q cfg "rowPath r"] by (auto simp: assignRow_def split: option.split)
  then show ?case using Cons by simp
qed simp

lemma leafAt_rows:
  assumes "r \<in> set rows" "resolveValue r = Some v"
    and "\<forall>s\<in>set rows. resolveValue s \<noteq> None \<longrightarrow> s = r \<or> \<not> comparable (rowPath s) (rowPath r)"
  shows "leafAt (rowPath r) (foldl assignRow [] rows) = Some v"
proof -
  obtain xs ys where rows: "rows = xs @ r # ys" "r \<notin> set ys" using split_list_last [OF assms(1)] by blast
  have "free (rowPath r) (foldl assignRow [] xs)"
    using assms(3) by (intro free_rows) (auto simp: rows free_Nil)
  then have "leafAt (rowPath r) (foldl assignRow [] (xs @ [r])) = Some v"
    using assms(2) by (simp add: assignRow_def leafAt_assign_free)
  moreover have "\<forall>s\<in>set ys. resolveValue s \<noteq> None \<longrightarrow> rowPath s \<noteq> rowPath r"
    using assms(3) rows by (auto simp: comparable_def)
  ultimately have "leafAt (rowPath r) (foldl assignRow (foldl assignRow [] (xs @ [r])) ys) = Some v"
    by (rule leafAt_rows_keep)
  then show ?thesis by (simp add: rows)
qed

section \<open>Folding the defaults\<close>

lemma leafAt_defaults_SomeD:
  "leafAt q (foldl fillDefault cfg ds) = Some w \<Longrightarrow> (\<exists>(k, d)\<in>set ds. configPath k = q \<and> w = BoolLeaf d) \<or> leafAt q cfg = Some w"
proof (induction ds arbitrary: cfg)
  case (Cons kd ds)
  then have "(\<exists>(k, d)\<in>set ds. configPath k = q \<and> w = BoolLeaf d) \<or> leafAt q (fillDefault cfg kd) = Some w" by simp
  then show ?case
    using leafAt_assign_SomeD [of q "configPath (fst kd)" _ cfg w]
    by (cases kd) (auto simp: fillDefault_def fill_assign split: if_splits)
qed simp

lemma leafAt_defaults_keep: "leafAt q cfg = Some w \<Longrightarrow> leafAt q (foldl fillDefault cfg ds) = Some w"
proof (induction ds arbitrary: cfg)
  case (Cons kd ds)
  have "leafAt q (fillDefault cfg kd) = Some w"
    using Cons.prems leafAt_assign_keep [OF Cons.prems]
    by (cases "q = configPath (fst kd)") (auto simp: fillDefault_def fill_assign)
  then show ?case using Cons.IH by simp
qed simp

lemma free_defaults:
  "free q cfg \<Longrightarrow> \<forall>(k, d)\<in>set ds. \<not> comparable (configPath k) q \<Longrightarrow> free q (foldl fillDefault cfg ds)"
proof (induction ds arbitrary: cfg)
  case (Cons kd ds)
  have "free q (fillDefault cfg kd)"
    using Cons.prems free_assign [of q cfg "configPath (fst kd)"] by (cases kd) (auto simp: fillDefault_def fill_assign)
  then show ?case using Cons by simp
qed simp

lemma leafAt_defaults:
  assumes "free (configPath k) cfg" "leafAt (configPath k) cfg = None" "(k, d) \<in> set ds"
    and "\<forall>(k', d')\<in>set ds. (k', d') = (k, d) \<or> \<not> comparable (configPath k') (configPath k)"
  shows "leafAt (configPath k) (foldl fillDefault cfg ds) = Some (BoolLeaf d)"
proof -
  obtain xs ys where ds: "ds = xs @ (k, d) # ys" "(k, d) \<notin> set xs" using split_list_first [OF assms(3)] by blast
  have other: "\<forall>(k', d')\<in>set xs. \<not> comparable (configPath k') (configPath k)" using assms(4) ds by auto
  let ?cfg = "foldl fillDefault cfg xs"
  have "free (configPath k) ?cfg" by (rule free_defaults [OF assms(1) other])
  moreover have "leafAt (configPath k) ?cfg = None"
    using leafAt_defaults_SomeD [of "configPath k" cfg xs] assms(2) other
    by (cases "leafAt (configPath k) ?cfg") (auto simp: comparable_def)
  ultimately have "leafAt (configPath k) (fillDefault ?cfg (k, d)) = Some (BoolLeaf d)"
    by (simp add: fillDefault_def fill_assign leafAt_assign_free)
  from leafAt_defaults_keep [OF this, of ys] show ?thesis by (simp add: ds)
qed

end
