(* ===== verification/Admin_Access.thy ===== *)
theory Admin_Access
  imports Identity_Verification "HOL-Library.Multiset"
begin

text \<open>
  The administrators (src/src/platform-admin/admin-auth, admin-invites, admin-rbac, admin-roles and
  admin-users): roles with their permissions, invitations, the changes of an administrator, the guard
  against locking everybody out, and the session of the panel.  Their tables are a third part of the
  database, \<^theory_text>\<open>administration\<close>; the audit log and the settings are those of
  \<^theory_text>\<open>db\<close>.
\<close>

section \<open>Data\<close>

datatype Permission =
  FEATURE_FLAGS_READ | FEATURE_FLAGS_WRITE | CREDENTIALS_READ | CREDENTIALS_WRITE | ADMIN_USERS_MANAGE | SESSIONS_READ
  | AUDIT_LOG_READ | USER_ACCOUNTS_READ | USER_ACCOUNTS_WRITE | USER_ACCOUNTS_DELETE | SERVICE_REQUESTS_READ
  | SERVICE_REQUESTS_WRITE | CATEGORIES_READ | CATEGORIES_WRITE | QUOTES_READ | QUOTE_NEGOTIATION_READ
  | ENGAGEMENT_CHAT_READ | APPOINTMENTS_READ | EMAIL_TEMPLATES_READ | EMAIL_TEMPLATES_WRITE | STORAGE_SETTINGS_READ
  | STORAGE_SETTINGS_WRITE | REVIEWS_READ | REVIEWS_WRITE | LEDGER_READ | CASH_PAYMENTS_READ

datatype AdminUserStatus = INVITED | ACTIVE | REVOKED

record AdminRole =
  ar_id :: id
  ar_name :: string
  ar_permissions :: "Permission list"

record AdminUser =
  au_id :: id
  au_email :: string
  au_displayName :: string
  au_passwordHash :: "string option"
  au_roleId :: id
  au_status :: AdminUserStatus

record AdminInvite =
  ai_id :: id
  ai_adminUserId :: id
  ai_tokenHash :: string
  ai_expiresAt :: time
  ai_consumedAt :: "time option"
  ai_invalidatedAt :: "time option"
  ai_createdAt :: time

text \<open>A session of the panel has the columns of a user's session; \<^theory_text>\<open>ses_userId\<close> is
  the administrator.\<close>

record administration =
  ad_nextId :: id
  adminRoles :: "AdminRole list"
  adminUsers :: "AdminUser list"
  adminInvites :: "AdminInvite list"
  adminSessions :: "Session list"
  ad_outbox :: "(string \<times> string) list"

type_synonym panel = "db \<times> administration"

definition ADMIN_ROLE_NOT_FOUND :: err where
  "ADMIN_ROLE_NOT_FOUND = DomainException ''ADMIN_ROLE_NOT_FOUND''"
definition ADMIN_ROLE_NAME_TAKEN :: err where
  "ADMIN_ROLE_NAME_TAKEN = DomainException ''ADMIN_ROLE_NAME_TAKEN''"
definition ADMIN_ROLE_IS_SYSTEM_ROLE :: err where
  "ADMIN_ROLE_IS_SYSTEM_ROLE = DomainException ''ADMIN_ROLE_IS_SYSTEM_ROLE''"
definition ADMIN_ROLE_IN_USE :: err where
  "ADMIN_ROLE_IN_USE = DomainException ''ADMIN_ROLE_IN_USE''"
definition ADMIN_USER_NOT_FOUND :: err where
  "ADMIN_USER_NOT_FOUND = DomainException ''ADMIN_USER_NOT_FOUND''"
definition ADMIN_USER_EMAIL_TAKEN :: err where
  "ADMIN_USER_EMAIL_TAKEN = DomainException ''ADMIN_USER_EMAIL_TAKEN''"
definition ADMIN_USER_NOT_INVITED :: err where
  "ADMIN_USER_NOT_INVITED = DomainException ''ADMIN_USER_NOT_INVITED''"
definition ADMIN_USER_INVALID_STATUS_TRANSITION :: err where
  "ADMIN_USER_INVALID_STATUS_TRANSITION = DomainException ''ADMIN_USER_INVALID_STATUS_TRANSITION''"
definition CANNOT_REVOKE_OWN_ACCOUNT :: err where
  "CANNOT_REVOKE_OWN_ACCOUNT = DomainException ''CANNOT_REVOKE_OWN_ACCOUNT''"
definition CANNOT_DELETE_OWN_ACCOUNT :: err where
  "CANNOT_DELETE_OWN_ACCOUNT = DomainException ''CANNOT_DELETE_OWN_ACCOUNT''"
definition ADMIN_USER_HAS_AUDIT_HISTORY :: err where
  "ADMIN_USER_HAS_AUDIT_HISTORY = DomainException ''ADMIN_USER_HAS_AUDIT_HISTORY''"
definition WOULD_LOCK_OUT_ADMIN_MANAGEMENT :: err where
  "WOULD_LOCK_OUT_ADMIN_MANAGEMENT = DomainException ''WOULD_LOCK_OUT_ADMIN_MANAGEMENT''"
definition ADMIN_AUTHENTICATION_FAILED :: err where
  "ADMIN_AUTHENTICATION_FAILED = DomainException ''ADMIN_AUTHENTICATION_FAILED''"
definition ADMIN_UNAUTHENTICATED :: err where
  "ADMIN_UNAUTHENTICATED = DomainException ''ADMIN_UNAUTHENTICATED''"

section \<open>Roles and permissions\<close>

definition findRoleById :: "administration \<Rightarrow> id \<Rightarrow> AdminRole option" where
  "findRoleById a i = findRow (\<lambda>r. ar_id r = i) (adminRoles a)"

definition findRoleByName :: "administration \<Rightarrow> string \<Rightarrow> AdminRole option" where
  "findRoleByName a n = findRow (\<lambda>r. ar_name r = n) (adminRoles a)"

definition findAdminById :: "administration \<Rightarrow> id \<Rightarrow> AdminUser option" where
  "findAdminById a i = findRow (\<lambda>u. au_id u = i) (adminUsers a)"

definition findAdminByEmail :: "administration \<Rightarrow> string \<Rightarrow> AdminUser option" where
  "findAdminByEmail a e = findRow (\<lambda>u. au_email u = e) (adminUsers a)"

text \<open>The permissions of a role that is joined; the foreign key makes the role exist.\<close>

definition permissionsOfRole :: "administration \<Rightarrow> id \<Rightarrow> Permission list" where
  "permissionsOfRole a i = (case findRoleById a i of None \<Rightarrow> [] | Some r \<Rightarrow> ar_permissions r)"

definition findEffectivePermissions :: "administration \<Rightarrow> id \<Rightarrow> (AdminUserStatus \<times> Permission list) option" where
  "findEffectivePermissions a i = (case findAdminById a i of
       None \<Rightarrow> None | Some u \<Rightarrow> Some (au_status u, permissionsOfRole a (au_roleId u)))"

definition getGrantedPermissions :: "administration \<Rightarrow> id \<Rightarrow> Permission list" where
  "getGrantedPermissions a i = (case findEffectivePermissions a i of
       None \<Rightarrow> []
     | Some (st, permissions) \<Rightarrow> if st \<noteq> AdminUserStatus.ACTIVE then [] else permissions)"

definition hasAllPermissions :: "administration \<Rightarrow> id \<Rightarrow> Permission list \<Rightarrow> bool" where
  "hasAllPermissions a i required \<longleftrightarrow> required = []
     \<or> list_all (\<lambda>p. p \<in> set (getGrantedPermissions a i)) required"

definition countAdminUsersByRoleId :: "administration \<Rightarrow> id \<Rightarrow> nat" where
  "countAdminUsersByRoleId a i = countWhere (\<lambda>u. au_roleId u = i) (adminUsers a)"

definition listActiveAdminUsersWithEffectivePermissions :: "administration \<Rightarrow> (id \<times> id \<times> Permission list) list" where
  "listActiveAdminUsersWithEffectivePermissions a =
     map (\<lambda>u. (au_id u, au_roleId u, permissionsOfRole a (au_roleId u)))
       (filter (\<lambda>u. au_status u = AdminUserStatus.ACTIVE) (adminUsers a))"

datatype LockoutHypothetical =
    ROLE_PERMISSIONS_UPDATE id "Permission list"
  | ADMIN_USER_UPDATE id AdminUserStatus "Permission list"

definition resolveHypotheticalPermissions :: "id \<times> id \<times> Permission list \<Rightarrow> LockoutHypothetical \<Rightarrow> Permission list option" where
  "resolveHypotheticalPermissions row hypothetical = (case row of (adminUserId, roleId, permissions) \<Rightarrow>
     (case hypothetical of
        ROLE_PERMISSIONS_UPDATE r new \<Rightarrow> Some (if roleId = r then new else permissions)
      | ADMIN_USER_UPDATE u newStatus new \<Rightarrow>
          if adminUserId \<noteq> u then Some permissions
          else if newStatus \<noteq> AdminUserStatus.ACTIVE then None else Some new))"

definition assertPermissionRemainsGranted :: "Permission \<Rightarrow> LockoutHypothetical \<Rightarrow> administration \<Rightarrow> err option" where
  "assertPermissionRemainsGranted permission hypothetical a =
     (if list_ex (\<lambda>row. case resolveHypotheticalPermissions row hypothetical of
            None \<Rightarrow> False | Some permissions \<Rightarrow> permission \<in> set permissions)
          (listActiveAdminUsersWithEffectivePermissions a)
      then None else Some WOULD_LOCK_OUT_ADMIN_MANAGEMENT)"

definition SEEDED_ADMIN_ROLE_NAMES :: "string list" where
  "SEEDED_ADMIN_ROLE_NAMES = [''SUPER_ADMIN'', ''CONFIG_MANAGER'', ''SUPPORT_VIEWER'']"

definition createAdminRole :: "id \<Rightarrow> string \<Rightarrow> Permission list \<Rightarrow> panel \<Rightarrow> err + panel" where
  "createAdminRole adminUserId inputName permissions st = (case st of (db, a) \<Rightarrow>
     let name = trim inputName in
     if findRoleByName a name \<noteq> None then Inl ADMIN_ROLE_NAME_TAKEN
     else let r = \<lparr>ar_id = ad_nextId a, ar_name = name, ar_permissions = permissions\<rparr>
          in Inr (writeAudit adminUserId ''ADMIN_ROLE_CREATED'' ''AdminRole'' (ar_id r) db,
                  a\<lparr>ad_nextId := Suc (ad_nextId a), adminRoles := adminRoles a @ [r]\<rparr>))"

text \<open>Two lists are equal after sorting exactly when they are equal as multisets.\<close>

definition samePermissionSet :: "Permission list \<Rightarrow> Permission list \<Rightarrow> bool" where
  "samePermissionSet xs ys \<longleftrightarrow> length xs = length ys \<and> mset xs = mset ys"

definition updatePermissions :: "id \<Rightarrow> Permission list \<Rightarrow> administration \<Rightarrow> administration" where
  "updatePermissions i permissions a =
     a\<lparr>adminRoles := updateMany (\<lambda>r. ar_id r = i) (\<lambda>r. r\<lparr>ar_permissions := permissions\<rparr>) (adminRoles a)\<rparr>"

definition updateAdminRolePermissions :: "id \<Rightarrow> id \<Rightarrow> Permission list \<Rightarrow> panel \<Rightarrow> err + panel" where
  "updateAdminRolePermissions adminUserId i permissions st = (case st of (db, a) \<Rightarrow>
     (case findRoleById a i of
        None \<Rightarrow> Inl ADMIN_ROLE_NOT_FOUND
      | Some existing \<Rightarrow>
         if samePermissionSet (ar_permissions existing) permissions then Inr (db, a)
         else (let losesAdminUsersManage = ADMIN_USERS_MANAGE \<in> set (ar_permissions existing)
                      \<and> ADMIN_USERS_MANAGE \<notin> set permissions
               in case (if losesAdminUsersManage
                        then assertPermissionRemainsGranted ADMIN_USERS_MANAGE (ROLE_PERMISSIONS_UPDATE i permissions) a
                        else None) of
                   Some e \<Rightarrow> Inl e
                 | None \<Rightarrow> Inr (writeAudit adminUserId ''ADMIN_ROLE_PERMISSIONS_UPDATED'' ''AdminRole'' i db,
                              updatePermissions i permissions a))))"

definition deleteAdminRole :: "id \<Rightarrow> id \<Rightarrow> panel \<Rightarrow> err + panel" where
  "deleteAdminRole adminUserId i st = (case st of (db, a) \<Rightarrow>
     (case findRoleById a i of
        None \<Rightarrow> Inl ADMIN_ROLE_NOT_FOUND
      | Some existing \<Rightarrow>
         if ar_name existing \<in> set SEEDED_ADMIN_ROLE_NAMES then Inl ADMIN_ROLE_IS_SYSTEM_ROLE
         else if countAdminUsersByRoleId a i > 0 then Inl ADMIN_ROLE_IN_USE
         else Inr (writeAudit adminUserId ''ADMIN_ROLE_DELETED'' ''AdminRole'' i db,
                   a\<lparr>adminRoles := filter (\<lambda>r. ar_id r \<noteq> i) (adminRoles a)\<rparr>)))"

section \<open>Administrators\<close>

record UpdateAdminUserInput =
  uau_displayName :: "string option"
  uau_roleId :: "id option"
  uau_status :: "AdminUserStatus option"

definition updateAdmin :: "id \<Rightarrow> (AdminUser \<Rightarrow> AdminUser) \<Rightarrow> administration \<Rightarrow> administration" where
  "updateAdmin i f a = a\<lparr>adminUsers := updateMany (\<lambda>u. au_id u = i) f (adminUsers a)\<rparr>"

definition applyAdminUpdate :: "UpdateAdminUserInput \<Rightarrow> AdminUser \<Rightarrow> AdminUser" where
  "applyAdminUpdate input u = u\<lparr>au_displayName := orKeep (uau_displayName input) (au_displayName u),
     au_roleId := orKeep (uau_roleId input) (au_roleId u), au_status := orKeep (uau_status input) (au_status u)\<rparr>"

definition holdsManage :: "administration \<Rightarrow> AdminUser \<Rightarrow> bool" where
  "holdsManage a u \<longleftrightarrow> au_status u = AdminUserStatus.ACTIVE \<and> ADMIN_USERS_MANAGE \<in> set (permissionsOfRole a (au_roleId u))"

definition updateAdminUser :: "id \<Rightarrow> id \<Rightarrow> UpdateAdminUserInput \<Rightarrow> panel \<Rightarrow> err + panel" where
  "updateAdminUser actor i input st = (case st of (db, a) \<Rightarrow>
     (case findAdminById a i of
        None \<Rightarrow> Inl ADMIN_USER_NOT_FOUND
      | Some existing \<Rightarrow>
         if uau_status input = Some AdminUserStatus.INVITED then Inl ADMIN_USER_INVALID_STATUS_TRANSITION
         else if uau_status input \<noteq> None \<and> uau_status input \<noteq> Some (au_status existing)
                 \<and> uau_status input = Some AdminUserStatus.REVOKED \<and> i = actor
           then Inl CANNOT_REVOKE_OWN_ACCOUNT
         else if changedTo (uau_roleId input) (Some (au_roleId existing))
                 \<and> findRoleById a (the (uau_roleId input)) = None
           then Inl ADMIN_ROLE_NOT_FOUND
         else (let updated = applyAdminUpdate input existing
               in if updated = existing then Inr (db, a)
                  else (case (if holdsManage a existing \<and> \<not> holdsManage a updated
                              then assertPermissionRemainsGranted ADMIN_USERS_MANAGE
                                     (ADMIN_USER_UPDATE i (au_status updated) (permissionsOfRole a (au_roleId updated))) a
                              else None) of
                        Some e \<Rightarrow> Inl e
                      | None \<Rightarrow> Inr (writeAudit actor ''ADMIN_USER_UPDATED'' ''AdminUser'' i db,
                                    updateAdmin i (applyAdminUpdate input) a)))))"

definition countByActor :: "db \<Rightarrow> id \<Rightarrow> nat" where
  "countByActor db i = countWhere (\<lambda>l. al_actorAdminUserId l = i) (auditLog db)"

text \<open>Invitations and sessions go with the administrator.\<close>

definition deleteAdminUser :: "id \<Rightarrow> id \<Rightarrow> panel \<Rightarrow> err + panel" where
  "deleteAdminUser actor i st = (case st of (db, a) \<Rightarrow>
     (case findAdminById a i of
        None \<Rightarrow> Inl ADMIN_USER_NOT_FOUND
      | Some existing \<Rightarrow>
         if i = actor then Inl CANNOT_DELETE_OWN_ACCOUNT
         else if countByActor db i > 0 then Inl ADMIN_USER_HAS_AUDIT_HISTORY
         else (case (if holdsManage a existing
                     then assertPermissionRemainsGranted ADMIN_USERS_MANAGE (ADMIN_USER_UPDATE i AdminUserStatus.REVOKED []) a
                     else None) of
               Some e \<Rightarrow> Inl e
             | None \<Rightarrow> Inr (writeAudit actor ''ADMIN_USER_DELETED'' ''AdminUser'' i db,
                 a\<lparr>adminUsers := filter (\<lambda>u. au_id u \<noteq> i) (adminUsers a),
                   adminInvites := filter (\<lambda>v. ai_adminUserId v \<noteq> i) (adminInvites a),
                   adminSessions := filter (\<lambda>x. ses_userId x \<noteq> i) (adminSessions a)\<rparr>))))"

section \<open>Invitations\<close>

record InvitePolicy =
  ip_ttlHours :: int
  ip_resendCooldownSeconds :: int

definition findActiveInvite :: "administration \<Rightarrow> id \<Rightarrow> AdminInvite option" where
  "findActiveInvite a i = newestWhere (\<lambda>v. ai_adminUserId v = i \<and> ai_consumedAt v = None \<and> ai_invalidatedAt v = None)
     ai_createdAt (adminInvites a)"

definition invalidateInvite :: "time \<Rightarrow> id \<Rightarrow> administration \<Rightarrow> administration" where
  "invalidateInvite now i a =
     a\<lparr>adminInvites := updateMany (\<lambda>v. ai_id v = i) (\<lambda>v. v\<lparr>ai_invalidatedAt := Some now\<rparr>) (adminInvites a)\<rparr>"

text \<open>\<^theory_text>\<open>token\<close> is the random token; the answer says whether an invitation was
  issued.\<close>

definition issueForAdminUser :: "Crypto \<Rightarrow> InvitePolicy \<Rightarrow> time \<Rightarrow> string \<Rightarrow> id \<Rightarrow> string \<Rightarrow> administration \<Rightarrow> bool \<times> administration" where
  "issueForAdminUser cr pol now token i email a =
     (let issue = (\<lambda>a. a\<lparr>ad_nextId := Suc (ad_nextId a),
            adminInvites := adminInvites a @ [\<lparr>ai_id = ad_nextId a, ai_adminUserId = i, ai_tokenHash = sha256 cr token,
               ai_expiresAt = now + ip_ttlHours pol * 3600000, ai_consumedAt = None, ai_invalidatedAt = None,
               ai_createdAt = now\<rparr>],
            ad_outbox := ad_outbox a @ [(email, token)]\<rparr>)
      in case findActiveInvite a i of
           None \<Rightarrow> (True, issue a)
         | Some v \<Rightarrow> if ai_createdAt v + ip_resendCooldownSeconds pol * 1000 > now then (False, a)
             else (True, issue (invalidateInvite now (ai_id v) a)))"

definition createInvited :: "string \<Rightarrow> string \<Rightarrow> id \<Rightarrow> administration \<Rightarrow> AdminUser \<times> administration" where
  "createInvited email displayName roleId a =
     (let u = \<lparr>au_id = ad_nextId a, au_email = email, au_displayName = displayName, au_passwordHash = None,
            au_roleId = roleId, au_status = AdminUserStatus.INVITED\<rparr>
      in (u, a\<lparr>ad_nextId := Suc (ad_nextId a), adminUsers := adminUsers a @ [u]\<rparr>))"

definition inviteAdminUser ::
  "Crypto \<Rightarrow> InvitePolicy \<Rightarrow> bool \<Rightarrow> time \<Rightarrow> string \<Rightarrow> id \<Rightarrow> string \<Rightarrow> string \<Rightarrow> id \<Rightarrow> panel \<Rightarrow> err + panel" where
  "inviteAdminUser cr pol production now token actor email displayName roleId st = (case st of (db, a) \<Rightarrow>
     (case ensureAvailable production db of
        Some e \<Rightarrow> Inl e
      | None \<Rightarrow>
         if findAdminByEmail a email \<noteq> None then Inl ADMIN_USER_EMAIL_TAKEN
         else if findRoleById a roleId = None then Inl ADMIN_ROLE_NOT_FOUND
         else (let (u, a1) = createInvited email displayName roleId a
               in Inr (writeAudit actor ''ADMIN_USER_INVITED'' ''AdminUser'' (au_id u) db,
                       snd (issueForAdminUser cr pol now token (au_id u) (au_email u) a1)))))"

definition resendAdminInvite ::
  "Crypto \<Rightarrow> InvitePolicy \<Rightarrow> bool \<Rightarrow> time \<Rightarrow> string \<Rightarrow> id \<Rightarrow> id \<Rightarrow> panel \<Rightarrow> err + bool \<times> panel" where
  "resendAdminInvite cr pol production now token actor i st = (case st of (db, a) \<Rightarrow>
     (case ensureAvailable production db of
        Some e \<Rightarrow> Inl e
      | None \<Rightarrow> (case findAdminById a i of
          None \<Rightarrow> Inl ADMIN_USER_NOT_FOUND
        | Some existing \<Rightarrow>
           if au_status existing \<noteq> AdminUserStatus.INVITED then Inl ADMIN_USER_NOT_INVITED
           else (let (issued, a1) = issueForAdminUser cr pol now token (au_id existing) (au_email existing) a
                 in Inr (issued, (if issued then writeAudit actor ''ADMIN_USER_INVITE_RESENT'' ''AdminUser'' i db else db, a1))))))"

text \<open>Every failure is the same answer, \<^theory_text>\<open>False\<close>.\<close>

definition acceptAdminInvite :: "Crypto \<Rightarrow> time \<Rightarrow> nat \<Rightarrow> string \<Rightarrow> string \<Rightarrow> administration \<Rightarrow> bool \<times> administration" where
  "acceptAdminInvite cr now salt token newPassword a =
     (case findRow (\<lambda>v. ai_tokenHash v = sha256 cr token) (adminInvites a) of
        None \<Rightarrow> (False, a)
      | Some invite \<Rightarrow>
         if \<not> (ai_consumedAt invite = None \<and> ai_invalidatedAt invite = None \<and> ai_expiresAt invite > now)
         then (False, a)
         else (True,
           (updateAdmin (ai_adminUserId invite)
             (\<lambda>u. u\<lparr>au_passwordHash := Some (hashPassword cr salt newPassword), au_status := AdminUserStatus.ACTIVE\<rparr>) a)
           \<lparr>adminInvites := updateMany (\<lambda>v. ai_id v = ai_id invite) (\<lambda>v. v\<lparr>ai_consumedAt := Some now\<rparr>) (adminInvites a)\<rparr>))"

section \<open>The session of the panel\<close>

definition ADMIN_SESSION_TIMEOUT_SETTING_KEY :: string where
  "ADMIN_SESSION_TIMEOUT_SETTING_KEY = ''admin.session.timeout-minutes''"
definition DEFAULT_TTL_MINUTES :: int where "DEFAULT_TTL_MINUTES = 30"

text \<open>\<^theory_text>\<open>parseInt\<close>: the decimal digits after blanks and a sign, whatever follows them.\<close>

definition parseInt :: "string \<Rightarrow> int option" where
  "parseInt raw =
     (let s = dropWhile isSpace raw;
          (sign, body) = (case s of [] \<Rightarrow> (1, []) | c # cs \<Rightarrow>
             if c = CHR ''-'' then (-1, cs) else if c = CHR ''+'' then (1, cs) else (1, s));
          digits = takeWhile isDecimalDigit body
      in if digits = [] then None else Some (sign * int (digitsVal 10 digits)))"

definition resolveTtlMinutes :: "db \<Rightarrow> int" where
  "resolveTtlMinutes db = (case getValue db ADMIN_SESSION_TIMEOUT_SETTING_KEY of
       None \<Rightarrow> DEFAULT_TTL_MINUTES
     | Some raw \<Rightarrow> (case parseInt raw of None \<Rightarrow> DEFAULT_TTL_MINUTES
         | Some n \<Rightarrow> if n > 0 then n else DEFAULT_TTL_MINUTES))"

definition createAdminSession :: "Crypto \<Rightarrow> db \<Rightarrow> time \<Rightarrow> string \<Rightarrow> id \<Rightarrow> administration \<Rightarrow> (string \<times> time) \<times> administration" where
  "createAdminSession cr db now token u a =
     (let expiresAt = now + resolveTtlMinutes db * 60000
      in ((token, expiresAt), a\<lparr>ad_nextId := Suc (ad_nextId a), adminSessions := adminSessions a @
           [\<lparr>ses_id = ad_nextId a, ses_userId = u, ses_tokenHash = sha256 cr token, ses_status = SessionStatus.ACTIVE,
             ses_createdAt = now, ses_expiresAt = expiresAt, ses_revokedAt = None\<rparr>]\<rparr>))"

definition adminLogin ::
  "Crypto \<Rightarrow> string \<Rightarrow> time \<Rightarrow> string \<Rightarrow> string \<Rightarrow> string \<Rightarrow> panel
     \<Rightarrow> err + (AdminUser \<times> string \<times> time) \<times> administration" where
  "adminLogin cr decoy now token email password st = (case st of (db, a) \<Rightarrow>
     let user = findAdminByEmail a email;
         stored = (case user of None \<Rightarrow> None | Some u \<Rightarrow> au_passwordHash u);
         passwordMatches = verifyPassword cr (case stored of None \<Rightarrow> decoy | Some h \<Rightarrow> h) password
     in case user of
          None \<Rightarrow> Inl ADMIN_AUTHENTICATION_FAILED
        | Some u \<Rightarrow>
           if \<not> nonEmpty (au_passwordHash u) \<or> \<not> passwordMatches \<or> au_status u \<noteq> AdminUserStatus.ACTIVE
           then Inl ADMIN_AUTHENTICATION_FAILED
           else (let (session, a') = createAdminSession cr db now token (au_id u) a in Inr ((u, session), a')))"

definition loadEffectiveAdminSession :: "Crypto \<Rightarrow> time \<Rightarrow> string \<Rightarrow> administration \<Rightarrow> Session option \<times> administration" where
  "loadEffectiveAdminSession cr now token a = (case findRow (\<lambda>x. ses_tokenHash x = sha256 cr token) (adminSessions a) of
       None \<Rightarrow> (None, a)
     | Some x \<Rightarrow> if ses_status x = SessionStatus.ACTIVE \<and> ses_expiresAt x \<le> now
         then (Some (x\<lparr>ses_status := EXPIRED\<rparr>),
               a\<lparr>adminSessions := updateMany (\<lambda>y. ses_id y = ses_id x) (\<lambda>y. y\<lparr>ses_status := EXPIRED\<rparr>) (adminSessions a)\<rparr>)
         else (Some x, a))"

definition findActiveSessionAdminUserId :: "Crypto \<Rightarrow> time \<Rightarrow> string \<Rightarrow> administration \<Rightarrow> id option \<times> administration" where
  "findActiveSessionAdminUserId cr now token a = (case loadEffectiveAdminSession cr now token a of
       (None, a') \<Rightarrow> (None, a')
     | (Some x, a') \<Rightarrow> if ses_status x \<noteq> SessionStatus.ACTIVE then (None, a') else (Some (ses_userId x), a'))"

definition adminLogout :: "Crypto \<Rightarrow> time \<Rightarrow> string option \<Rightarrow> administration \<Rightarrow> bool \<times> administration" where
  "adminLogout cr now token a = (case token of
       None \<Rightarrow> (False, a)
     | Some t \<Rightarrow> if t = [] then (False, a) else (case loadEffectiveAdminSession cr now t a of
           (None, a') \<Rightarrow> (False, a')
         | (Some x, a') \<Rightarrow> if ses_status x \<noteq> SessionStatus.ACTIVE then (False, a')
             else (True, a'\<lparr>adminSessions := updateMany (\<lambda>y. ses_id y = ses_id x) (revokeSessionRow now) (adminSessions a')\<rparr>)))"

definition authenticateAdminRequest :: "Crypto \<Rightarrow> time \<Rightarrow> string option \<Rightarrow> administration \<Rightarrow> (err + id) \<times> administration" where
  "authenticateAdminRequest cr now header a = (case extractBearerToken header of
       None \<Rightarrow> (Inl ADMIN_UNAUTHENTICATED, a)
     | Some token \<Rightarrow> (case findActiveSessionAdminUserId cr now token a of
           (None, a') \<Rightarrow> (Inl ADMIN_UNAUTHENTICATED, a')
         | (Some u, a') \<Rightarrow> (Inr u, a')))"

end
