(* ===== verification/Admin_Safety.thy ===== *)
theory Admin_Safety
  imports Admin_Access
begin

text \<open>
  The guard of the panel against locking everybody out: whatever the services, run one after the
  other, do to roles and administrators, an active administrator who may manage administrators
  remains.  The guard's contract is the locale \<^theory_text>\<open>lockout_guard\<close>: an answer that
  permits a change shows a row that keeps the permission after it.
\<close>

section \<open>The tables\<close>

definition panelOk :: "administration \<Rightarrow> bool" where
  "panelOk a \<longleftrightarrow> keyed ar_id (ad_nextId a) (adminRoles a) \<and> keyed au_id (ad_nextId a) (adminUsers a)
     \<and> distinct (map ar_name (adminRoles a)) \<and> distinct (map au_email (adminUsers a))
     \<and> (\<forall>u\<in>set (adminUsers a). findRoleById a (au_roleId u) \<noteq> None)"

definition managed :: "administration \<Rightarrow> bool" where
  "managed a \<longleftrightarrow> (\<exists>u\<in>set (adminUsers a). holdsManage a u)"

inductive panel_step :: "Crypto \<Rightarrow> panel \<Rightarrow> panel \<Rightarrow> bool" for cr :: Crypto where
  Elsewhere: "panel_step cr (db, a) (db', a)"
| CreateRole: "createAdminRole actor n ps st = Inr st' \<Longrightarrow> panel_step cr st st'"
| UpdateRole: "updateAdminRolePermissions actor i ps st = Inr st' \<Longrightarrow> panel_step cr st st'"
| DeleteRole: "deleteAdminRole actor i st = Inr st' \<Longrightarrow> panel_step cr st st'"
| UpdateAdmin: "updateAdminUser actor i input st = Inr st' \<Longrightarrow> panel_step cr st st'"
| DeleteAdmin: "deleteAdminUser actor i st = Inr st' \<Longrightarrow> panel_step cr st st'"
| Invite: "inviteAdminUser cr pol production now token actor email name r st = Inr st' \<Longrightarrow> panel_step cr st st'"
| ResendInvite: "resendAdminInvite cr pol production now token actor i st = Inr (b, st') \<Longrightarrow> panel_step cr st st'"
| AcceptInvite: "acceptAdminInvite cr now salt token pw a = (b, a') \<Longrightarrow> panel_step cr (db, a) (db, a')"
| AdminLogin: "adminLogin cr decoy now token email pw (db, a) = Inr (x, a') \<Longrightarrow> panel_step cr (db, a) (db, a')"
| AdminLogout: "adminLogout cr now otoken a = (b, a') \<Longrightarrow> panel_step cr (db, a) (db, a')"
| AdminAuthenticate: "authenticateAdminRequest cr now header a = (x, a') \<Longrightarrow> panel_step cr (db, a) (db, a')"

section \<open>The guard\<close>

text \<open>What the three callers rely on: \<^theory_text>\<open>permits h\<close> is the guard's answer to a
  hypothetical change and \<^theory_text>\<open>after h\<close> the state after it.\<close>

locale lockout_guard =
  fixes permits :: "'h \<Rightarrow> 's \<Rightarrow> bool"
    and after :: "'h \<Rightarrow> 's \<Rightarrow> 's"
    and loses :: "'h \<Rightarrow> 's \<Rightarrow> bool"
    and safe :: "'s \<Rightarrow> bool"
    and wf :: "'s \<Rightarrow> bool"
  assumes permitted: "wf s \<Longrightarrow> permits h s \<Longrightarrow> safe (after h s)"
    and harmless: "wf s \<Longrightarrow> safe s \<Longrightarrow> \<not> loses h s \<Longrightarrow> safe (after h s)"
begin

lemma guarded_change_safe: "wf s \<Longrightarrow> safe s \<Longrightarrow> (loses h s \<Longrightarrow> permits h s) \<Longrightarrow> safe (after h s)"
  using permitted harmless by blast

end

lemma findRoleById_update:
  "findRoleById (updatePermissions i ps a) r =
     (case findRoleById a r of None \<Rightarrow> None | Some x \<Rightarrow> Some (if r = i then x\<lparr>ar_permissions := ps\<rparr> else x))"
proof -
  have "findRow (\<lambda>x. ar_id x = r) (updateMany (\<lambda>x. ar_id x = i) (\<lambda>x. x\<lparr>ar_permissions := ps\<rparr>) rows) =
     (case findRow (\<lambda>x. ar_id x = r) rows of None \<Rightarrow> None | Some x \<Rightarrow> Some (if r = i then x\<lparr>ar_permissions := ps\<rparr> else x))" for rows
    by (induction rows) auto
  then show ?thesis by (simp add: findRoleById_def updatePermissions_def)
qed

lemma adminUsers_updatePermissions [simp]: "adminUsers (updatePermissions i ps a) = adminUsers a"
  by (simp add: updatePermissions_def)

lemma permissionsOfRole_update:
  "findRoleById a r \<noteq> None \<Longrightarrow> permissionsOfRole (updatePermissions i ps a) r = (if r = i then ps else permissionsOfRole a r)"
  by (auto simp: permissionsOfRole_def findRoleById_update)

text \<open>The change of a role's permissions.\<close>

interpretation role_guard: lockout_guard
  "\<lambda>(i, ps) a. assertPermissionRemainsGranted ADMIN_USERS_MANAGE (ROLE_PERMISSIONS_UPDATE i ps) a = None"
  "\<lambda>(i, ps). updatePermissions i ps"
  "\<lambda>(i, ps) a. ADMIN_USERS_MANAGE \<in> set (permissionsOfRole a i) \<and> ADMIN_USERS_MANAGE \<notin> set ps"
  managed panelOk
proof
  fix a :: administration and h :: "id \<times> Permission list"
  obtain i ps where h: "h = (i, ps)" by (cases h)
  assume ok: "panelOk a"
  have perms: "permissionsOfRole (updatePermissions i ps a) (au_roleId u) = (if au_roleId u = i then ps else permissionsOfRole a (au_roleId u))"
    if "u \<in> set (adminUsers a)" for u
    using that ok by (intro permissionsOfRole_update) (auto simp: panelOk_def)
  show "managed ((\<lambda>(i, ps). updatePermissions i ps) h a)"
    if "(\<lambda>(i, ps) a. assertPermissionRemainsGranted ADMIN_USERS_MANAGE (ROLE_PERMISSIONS_UPDATE i ps) a = None) h a"
    using that perms by (auto simp: h managed_def holdsManage_def assertPermissionRemainsGranted_def list_ex_iff
        listActiveAdminUsersWithEffectivePermissions_def resolveHypotheticalPermissions_def split: if_splits)
  show "managed ((\<lambda>(i, ps). updatePermissions i ps) h a)"
    if "managed a" "\<not> (\<lambda>(i, ps) a. ADMIN_USERS_MANAGE \<in> set (permissionsOfRole a i) \<and> ADMIN_USERS_MANAGE \<notin> set ps) h a"
    using that perms by (auto simp: h managed_def holdsManage_def split: if_splits)
qed

text \<open>The change of an administrator.\<close>

definition adminAfter :: "id \<times> (AdminUser \<Rightarrow> AdminUser) \<Rightarrow> administration \<Rightarrow> administration" where
  "adminAfter h = updateAdmin (fst h) (snd h)"

definition adminBefore :: "id \<times> (AdminUser \<Rightarrow> AdminUser) \<Rightarrow> administration \<Rightarrow> AdminUser \<Rightarrow> bool" where
  "adminBefore h a u \<longleftrightarrow> u \<in> set (adminUsers a) \<and> au_id u = fst h"

lemma permissionsOfRole_updateAdmin [simp]: "permissionsOfRole (updateAdmin i f a) r = permissionsOfRole a r"
  by (simp add: permissionsOfRole_def findRoleById_def updateAdmin_def)

lemma holdsManage_updateAdmin [simp]: "holdsManage (updateAdmin i f a) u \<longleftrightarrow> holdsManage a u"
  by (simp add: holdsManage_def)

lemma guard_row:
  "assertPermissionRemainsGranted ADMIN_USERS_MANAGE (ADMIN_USER_UPDATE i st ps) a = None \<longleftrightarrow>
     (\<exists>u\<in>set (adminUsers a). au_status u = AdminUserStatus.ACTIVE \<and>
        (if au_id u = i then st = AdminUserStatus.ACTIVE \<and> ADMIN_USERS_MANAGE \<in> set ps
         else ADMIN_USERS_MANAGE \<in> set (permissionsOfRole a (au_roleId u))))"
  by (auto simp: assertPermissionRemainsGranted_def list_ex_iff resolveHypotheticalPermissions_def
      listActiveAdminUsersWithEffectivePermissions_def split: if_splits)

interpretation admin_guard: lockout_guard
  "\<lambda>h a. \<forall>u. adminBefore h a u \<longrightarrow> assertPermissionRemainsGranted ADMIN_USERS_MANAGE
     (ADMIN_USER_UPDATE (fst h) (au_status (snd h u)) (permissionsOfRole a (au_roleId (snd h u)))) a = None"
  adminAfter
  "\<lambda>h a. \<exists>u. adminBefore h a u \<and> holdsManage a u \<and> \<not> holdsManage a (snd h u)"
  managed
  "\<lambda>a. panelOk a \<and> managed a"
proof
  fix a :: administration and h :: "id \<times> (AdminUser \<Rightarrow> AdminUser)"
  assume ok: "panelOk a \<and> managed a"
  have one: "u = v" if "adminBefore h a u" "adminBefore h a v" for u v
    using that ok keyed_unique unfolding adminBefore_def panelOk_def by metis
  have after: "set (adminUsers (adminAfter h a)) = {u \<in> set (adminUsers a). au_id u \<noteq> fst h} \<union> snd h ` {u. adminBefore h a u}"
    by (auto simp: adminAfter_def updateAdmin_def set_updateMany adminBefore_def)
  have same: "holdsManage (adminAfter h a) u = holdsManage a u" for u
    by (simp add: adminAfter_def)
  show "managed (adminAfter h a)"
    if g: "\<forall>u. adminBefore h a u \<longrightarrow> assertPermissionRemainsGranted ADMIN_USERS_MANAGE
      (ADMIN_USER_UPDATE (fst h) (au_status (snd h u)) (permissionsOfRole a (au_roleId (snd h u)))) a = None"
  proof (cases "\<exists>u. adminBefore h a u")
    case True
    then obtain u where u: "adminBefore h a u" by blast
    with g obtain v where v: "v \<in> set (adminUsers a)" "au_status v = AdminUserStatus.ACTIVE"
      "if au_id v = fst h then au_status (snd h u) = AdminUserStatus.ACTIVE \<and> ADMIN_USERS_MANAGE \<in> set (permissionsOfRole a (au_roleId (snd h u)))
       else ADMIN_USERS_MANAGE \<in> set (permissionsOfRole a (au_roleId v))"
      by (auto simp: guard_row)
    then have "\<exists>w\<in>set (adminUsers (adminAfter h a)). holdsManage a w"
      using u unfolding after by (auto simp: holdsManage_def split: if_splits)
    then show ?thesis by (simp add: managed_def same)
  next
    case False
    then have "set (adminUsers (adminAfter h a)) = set (adminUsers a)" unfolding after by (auto simp: adminBefore_def)
    then show ?thesis using ok by (simp add: managed_def same)
  qed
  show "managed (adminAfter h a)" if "managed a" "\<nexists>u. adminBefore h a u \<and> holdsManage a u \<and> \<not> holdsManage a (snd h u)"
  proof -
    from that(1) obtain u where u: "u \<in> set (adminUsers a)" "holdsManage a u" by (auto simp: managed_def)
    then have "\<exists>w\<in>set (adminUsers (adminAfter h a)). holdsManage a w"
      using that(2) unfolding after by (cases "au_id u = fst h") (auto simp: adminBefore_def)
    then show ?thesis by (simp add: managed_def same)
  qed
qed

section \<open>The services\<close>

definition panelSafe :: "administration \<Rightarrow> bool" where
  "panelSafe a \<longleftrightarrow> panelOk a \<and> managed a"

lemma panelSafe_same:
  assumes "panelSafe a" "adminRoles a' = adminRoles a" "adminUsers a' = adminUsers a" "ad_nextId a \<le> ad_nextId a'"
  shows "panelSafe a'"
  using assms by (force simp: panelSafe_def panelOk_def managed_def holdsManage_def permissionsOfRole_def findRoleById_def keyed_def)

text \<open>Rows of roles come and go around the roles in use.\<close>

lemma panelSafe_roles:
  assumes safe: "panelSafe a" and ok: "keyed ar_id (ad_nextId a') (adminRoles a')" "distinct (map ar_name (adminRoles a'))"
    and same: "adminUsers a' = adminUsers a" "ad_nextId a \<le> ad_nextId a'"
    and found: "\<And>u. u \<in> set (adminUsers a) \<Longrightarrow> findRoleById a' (au_roleId u) = findRoleById a (au_roleId u)"
  shows "panelSafe a'"
proof -
  have "holdsManage a' u = holdsManage a u" if "u \<in> set (adminUsers a)" for u
    using found [OF that] by (simp add: holdsManage_def permissionsOfRole_def)
  moreover have "keyed au_id (ad_nextId a') (adminUsers a')"
    using safe same by (force simp: panelSafe_def panelOk_def keyed_def)
  ultimately show ?thesis using safe ok same found by (auto simp: panelSafe_def panelOk_def managed_def)
qed

lemma findRow_filter_other: "r \<noteq> i \<Longrightarrow> findRow (\<lambda>x. k x = r) (filter (\<lambda>x. k x \<noteq> i) rows) = findRow (\<lambda>x. k x = r) rows"
  by (induction rows) auto

lemma safe_createAdminRole:
  assumes "panelSafe a" "createAdminRole actor n ps (db, a) = Inr (db', a')"
  shows "panelSafe a'"
proof -
  have new: "findRoleByName a (trim n) = None"
    and a': "a' = a\<lparr>ad_nextId := Suc (ad_nextId a),
      adminRoles := adminRoles a @ [\<lparr>ar_id = ad_nextId a, ar_name = trim n, ar_permissions = ps\<rparr>]\<rparr>"
    using assms(2) by (auto simp: createAdminRole_def Let_def split: if_splits)
  have "trim n \<notin> ar_name ` set (adminRoles a)" using new by (force simp: findRoleByName_def findRow_None_iff)
  moreover have "findRoleById a' (au_roleId u) = findRoleById a (au_roleId u)" if "u \<in> set (adminUsers a)" for u
    using that assms(1) by (auto simp: a' panelSafe_def panelOk_def findRoleById_def findRow_append)
  moreover have "keyed ar_id (ad_nextId a') (adminRoles a')"
    using assms(1) by (auto simp: a' panelSafe_def panelOk_def keyed_def less_Suc_eq)
  ultimately show ?thesis
    using assms(1) by (intro panelSafe_roles [OF assms(1)]) (auto simp: a' panelSafe_def panelOk_def)
qed

lemma safe_deleteAdminRole:
  assumes "panelSafe a" "deleteAdminRole actor i (db, a) = Inr (db', a')"
  shows "panelSafe a'"
proof -
  have unused: "countAdminUsersByRoleId a i = 0"
    and a': "a' = a\<lparr>adminRoles := filter (\<lambda>r. ar_id r \<noteq> i) (adminRoles a)\<rparr>"
    using assms(2) by (auto simp: deleteAdminRole_def split: option.splits if_splits)
  have "findRoleById a' (au_roleId u) = findRoleById a (au_roleId u)" if "u \<in> set (adminUsers a)" for u
    using that unused by (simp add: a' findRoleById_def findRow_filter_other countAdminUsersByRoleId_def countWhere_0_iff)
  then show ?thesis
    using assms(1) by (intro panelSafe_roles [OF assms(1)]) (auto simp: a' panelSafe_def panelOk_def keyed_def distinct_map_filter)
qed

lemma permissionsOfRole_found: "findRoleById a i = Some r \<Longrightarrow> permissionsOfRole a i = ar_permissions r"
  by (simp add: permissionsOfRole_def)

lemma safe_updateAdminRolePermissions:
  assumes "panelSafe a" "updateAdminRolePermissions actor i ps (db, a) = Inr (db', a')"
  shows "panelSafe a'"
proof -
  obtain r where r: "findRoleById a i = Some r"
    using assms(2) by (cases "findRoleById a i") (simp_all add: updateAdminRolePermissions_def)
  consider "a' = a"
    | "a' = updatePermissions i ps a"
      "ADMIN_USERS_MANAGE \<in> set (ar_permissions r) \<and> ADMIN_USERS_MANAGE \<notin> set ps \<longrightarrow>
         assertPermissionRemainsGranted ADMIN_USERS_MANAGE (ROLE_PERMISSIONS_UPDATE i ps) a = None"
    using assms(2) r by (auto simp: updateAdminRolePermissions_def Let_def split: option.splits if_splits)
  then show ?thesis
  proof cases
    case 2
    have "managed a'"
      using role_guard.guarded_change_safe [of a "(i, ps)"] assms(1) 2 permissionsOfRole_found [OF r] by (simp add: panelSafe_def)
    moreover have "adminRoles a' = updateMany (\<lambda>r. ar_id r = i) (\<lambda>r. r\<lparr>ar_permissions := ps\<rparr>) (adminRoles a)"
      "ad_nextId a' = ad_nextId a" "adminUsers a' = adminUsers a"
      by (simp_all add: 2(1) updatePermissions_def)
    then have "panelOk a'"
      using assms(1) by (auto simp: panelSafe_def panelOk_def keyed_updateMany map_key_updateMany 2(1) findRoleById_update
          split: option.split)
    ultimately show ?thesis by (simp add: panelSafe_def)
  qed (use assms(1) in simp)
qed

lemma panelOk_updateAdmin:
  assumes "panelOk a" "\<And>u. au_id (f u) = au_id u" "\<And>u. au_email (f u) = au_email u"
    and "\<And>u. u \<in> set (adminUsers a) \<Longrightarrow> au_id u = i \<Longrightarrow> findRoleById a (au_roleId (f u)) \<noteq> None"
  shows "panelOk (updateAdmin i f a)"
proof -
  have "findRoleById (updateAdmin i f a) r = findRoleById a r" for r by (simp add: findRoleById_def updateAdmin_def)
  then show ?thesis
    using assms by (auto simp: panelOk_def updateAdmin_def keyed_updateMany map_key_updateMany set_updateMany)
qed

lemma findAdminById_SomeD: "findAdminById a i = Some u \<Longrightarrow> u \<in> set (adminUsers a) \<and> au_id u = i"
  unfolding findAdminById_def by (drule findRow_SomeD) simp

lemma admin_unique: "panelOk a \<Longrightarrow> findAdminById a i = Some u \<Longrightarrow> v \<in> set (adminUsers a) \<Longrightarrow> au_id v = i \<Longrightarrow> v = u"
  using findAdminById_SomeD keyed_unique unfolding panelOk_def by metis

lemma safe_updateAdminUser:
  assumes "panelSafe a" "updateAdminUser actor i input (db, a) = Inr (db', a')"
  shows "panelSafe a'"
proof -
  have ok: "panelOk a" "managed a" using assms(1) by (simp_all add: panelSafe_def)
  obtain e where e: "findAdminById a i = Some e"
    using assms(2) by (cases "findAdminById a i") (simp_all add: updateAdminUser_def)
  define new where "new = applyAdminUpdate input e"
  define stops where "stops = assertPermissionRemainsGranted ADMIN_USERS_MANAGE
      (ADMIN_USER_UPDATE i (au_status new) (permissionsOfRole a (au_roleId new))) a"
  have role: "\<not> (changedTo (uau_roleId input) (Some (au_roleId e)) \<and> findRoleById a (the (uau_roleId input)) = None)"
    and result: "a' = a \<or> a' = updateAdmin i (applyAdminUpdate input) a \<and> (holdsManage a e \<and> \<not> holdsManage a new \<longrightarrow> stops = None)"
    using assms(2) e by (auto simp: updateAdminUser_def new_def [symmetric] stops_def [symmetric] Let_def split: option.splits if_splits)
  from result show ?thesis
  proof (elim disjE conjE)
    assume a': "a' = updateAdmin i (applyAdminUpdate input) a"
      and guarded: "holdsManage a e \<and> \<not> holdsManage a new \<longrightarrow> stops = None"
    have one: "u = e" if "adminBefore (i, f) a u" for u f
      using that admin_unique [OF ok(1) e] by (simp add: adminBefore_def)
    have "managed (adminAfter (i, applyAdminUpdate input) a)"
      using guarded one ok unfolding new_def stops_def
      by (intro admin_guard.guarded_change_safe conjI) auto
    moreover have "findRoleById a (au_roleId (applyAdminUpdate input u)) \<noteq> None" if "u \<in> set (adminUsers a)" "au_id u = i" for u
    proof -
      have "u = e" by (rule admin_unique [OF ok(1) e that])
      moreover have "findRoleById a (au_roleId e) \<noteq> None" using ok(1) findAdminById_SomeD [OF e] by (auto simp: panelOk_def)
      ultimately show ?thesis
        using role by (auto simp: applyAdminUpdate_def orKeep_def changedTo_def split: option.split)
    qed
    then have "panelOk a'"
      unfolding a' by (intro panelOk_updateAdmin ok(1)) (simp_all add: applyAdminUpdate_def)
    ultimately show ?thesis by (simp add: panelSafe_def a' adminAfter_def)
  qed (use assms(1) in simp)
qed

lemma safe_deleteAdminUser:
  assumes "panelSafe a" "deleteAdminUser actor i (db, a) = Inr (db', a')"
  shows "panelSafe a'"
proof -
  have ok: "panelOk a" "managed a" using assms(1) by (simp_all add: panelSafe_def)
  obtain e where e: "findAdminById a i = Some e"
    using assms(2) by (cases "findAdminById a i") (simp_all add: deleteAdminUser_def)
  define stops where "stops = assertPermissionRemainsGranted ADMIN_USERS_MANAGE (ADMIN_USER_UPDATE i AdminUserStatus.REVOKED []) a"
  have users: "adminUsers a' = filter (\<lambda>u. au_id u \<noteq> i) (adminUsers a)"
    and rest: "adminRoles a' = adminRoles a" "ad_nextId a' = ad_nextId a"
    and guarded: "holdsManage a e \<longrightarrow> stops = None"
    using assms(2) e by (auto simp: deleteAdminUser_def stops_def [symmetric] split: option.splits if_splits)
  have same: "holdsManage a' u = holdsManage a u" for u
    by (simp add: holdsManage_def permissionsOfRole_def findRoleById_def rest)
  have "\<exists>u\<in>set (adminUsers a). au_id u \<noteq> i \<and> holdsManage a u"
  proof (cases "holdsManage a e")
    case True
    then show ?thesis using guarded by (auto simp: stops_def guard_row holdsManage_def split: if_splits)
  next
    case False
    then show ?thesis using ok admin_unique [OF ok(1) e] by (auto simp: managed_def)
  qed
  then have "managed a'" by (auto simp: managed_def same users)
  moreover have "panelOk a'"
    using ok(1) by (auto simp: panelOk_def users rest keyed_def distinct_map_filter findRoleById_def)
  ultimately show ?thesis by (simp add: panelSafe_def)
qed

lemma issueForAdminUser_frame:
  "adminRoles (snd (issueForAdminUser cr pol now token i e a)) = adminRoles a"
  "adminUsers (snd (issueForAdminUser cr pol now token i e a)) = adminUsers a"
  "ad_nextId a \<le> ad_nextId (snd (issueForAdminUser cr pol now token i e a))"
  by (auto simp: issueForAdminUser_def Let_def invalidateInvite_def split: option.split)

lemma safe_inviteAdminUser:
  assumes "panelSafe a" "inviteAdminUser cr pol production now token actor email name r (db, a) = Inr (db', a')"
  shows "panelSafe a'"
proof -
  let ?a1 = "snd (createInvited email name r a)"
  have free: "findAdminByEmail a email = None" "findRoleById a r \<noteq> None"
    and a': "\<exists>i e. a' = snd (issueForAdminUser cr pol now token i e ?a1)"
    using assms(2) by (auto simp: inviteAdminUser_def case_prod_unfold Let_def split: option.splits if_splits)
  have users: "set (adminUsers a) \<subseteq> set (adminUsers ?a1)" and roles: "adminRoles ?a1 = adminRoles a"
    by (auto simp: createInvited_def Let_def)
  then have "managed ?a1"
    using assms(1) by (auto simp: panelSafe_def managed_def holdsManage_def permissionsOfRole_def findRoleById_def)
  moreover have "email \<notin> au_email ` set (adminUsers a)"
    using free(1) by (force simp: findAdminByEmail_def findRow_None_iff)
  then have "panelOk ?a1"
    using assms(1) free(2) by (auto simp: panelSafe_def panelOk_def createInvited_def Let_def keyed_append_new keyed_mono findRoleById_def)
  ultimately have "panelSafe ?a1" by (simp add: panelSafe_def)
  then show ?thesis using a' issueForAdminUser_frame panelSafe_same by metis
qed

lemma safe_resendAdminInvite:
  assumes "panelSafe a" "resendAdminInvite cr pol production now token actor i (db, a) = Inr (b, (db', a'))"
  shows "panelSafe a'"
proof -
  have "\<exists>i e. a' = snd (issueForAdminUser cr pol now token i e a)"
    using assms(2) by (auto simp: resendAdminInvite_def case_prod_unfold Let_def split: option.splits if_splits)
  then show ?thesis using issueForAdminUser_frame panelSafe_same [OF assms(1)] by metis
qed

text \<open>Accepting an invitation only activates.\<close>

lemma safe_acceptAdminInvite:
  assumes "panelSafe a" "acceptAdminInvite cr now salt token pw a = (b, a')"
  shows "panelSafe a'"
proof (cases "a' = a")
  case False
  define f :: "AdminUser \<Rightarrow> AdminUser" where "f = (\<lambda>u. u\<lparr>au_passwordHash := Some (hashPassword cr salt pw), au_status := AdminUserStatus.ACTIVE\<rparr>)"
  obtain i where i: "adminUsers a' = adminUsers (updateAdmin i f a)" "adminRoles a' = adminRoles (updateAdmin i f a)"
      "ad_nextId a' = ad_nextId (updateAdmin i f a)"
    using False assms(2) by (auto simp: acceptAdminInvite_def f_def updateAdmin_def split: option.splits if_splits)
  have ok: "panelOk a" "managed a" using assms(1) by (simp_all add: panelSafe_def)
  have "holdsManage a u \<Longrightarrow> holdsManage a (f u)" for u by (simp add: holdsManage_def f_def)
  then have "managed (adminAfter (i, f) a)" using ok by (intro admin_guard.guarded_change_safe) auto
  moreover have "panelOk (updateAdmin i f a)"
    using ok(1) by (intro panelOk_updateAdmin) (auto simp: f_def panelOk_def)
  ultimately have "panelSafe (updateAdmin i f a)" by (simp add: panelSafe_def adminAfter_def)
  then show ?thesis using i panelSafe_same by simp
qed (use assms(1) in simp)

lemma session_frames:
  "adminLogin cr decoy now token email pw (db, a) = Inr (x, a1) \<Longrightarrow>
     adminRoles a1 = adminRoles a \<and> adminUsers a1 = adminUsers a \<and> ad_nextId a \<le> ad_nextId a1"
  "loadEffectiveAdminSession cr now t a = (y, a2) \<Longrightarrow>
     adminRoles a2 = adminRoles a \<and> adminUsers a2 = adminUsers a \<and> ad_nextId a \<le> ad_nextId a2"
  by (auto simp: adminLogin_def Let_def createAdminSession_def loadEffectiveAdminSession_def split: option.splits if_splits)

lemma panel_step_safe:
  assumes "panel_step cr st st'" "panelSafe (snd st)"
  shows "panelSafe (snd st')"
  using assms
proof (induction rule: panel_step.induct)
  case (CreateRole actor n ps st st')
  then show ?case using safe_createAdminRole by (cases st; cases st') auto
next
  case (UpdateRole actor i ps st st')
  then show ?case using safe_updateAdminRolePermissions by (cases st; cases st') auto
next
  case (DeleteRole actor i st st')
  then show ?case using safe_deleteAdminRole by (cases st; cases st') auto
next
  case (UpdateAdmin actor i input st st')
  then show ?case using safe_updateAdminUser by (cases st; cases st') auto
next
  case (DeleteAdmin actor i st st')
  then show ?case using safe_deleteAdminUser by (cases st; cases st') auto
next
  case (Invite pol production now token actor email name r st st')
  then show ?case using safe_inviteAdminUser by (cases st; cases st') auto
next
  case (ResendInvite pol production now token actor i st b st')
  then show ?case using safe_resendAdminInvite by (cases st; cases st') auto
next
  case (AcceptInvite now salt token pw a b a' db)
  then show ?case using safe_acceptAdminInvite by auto
next
  case (AdminLogin decoy now token email pw db a x a')
  then show ?case using session_frames(1) panelSafe_same by (metis snd_conv)
next
  case (AdminLogout now otoken a b a' db)
  show ?case
  proof (cases "otoken = None \<or> otoken = Some []")
    case False
    then obtain t where t: "otoken = Some t" "t \<noteq> []" by auto
    obtain y a2 where l: "loadEffectiveAdminSession cr now t a = (y, a2)" by fastforce
    then have "adminRoles a' = adminRoles a2 \<and> adminUsers a' = adminUsers a2 \<and> ad_nextId a' = ad_nextId a2"
      using AdminLogout.hyps t by (auto simp: adminLogout_def split: option.splits if_splits)
    then show ?thesis using session_frames(2) [OF l] AdminLogout.prems panelSafe_same by simp
  qed (use AdminLogout in \<open>auto simp: adminLogout_def\<close>)
next
  case (AdminAuthenticate now header a x a' db)
  show ?case
  proof (cases "extractBearerToken header")
    case (Some t)
    obtain y a2 where l: "loadEffectiveAdminSession cr now t a = (y, a2)" by fastforce
    then have "a' = a2" using AdminAuthenticate.hyps Some
      by (auto simp: authenticateAdminRequest_def findActiveSessionAdminUserId_def split: option.splits if_splits)
    then show ?thesis using session_frames(2) [OF l] AdminAuthenticate.prems panelSafe_same by simp
  qed (use AdminAuthenticate in \<open>auto simp: authenticateAdminRequest_def\<close>)
qed simp

lemma panel_steps_safe:
  "(panel_step cr)\<^sup>*\<^sup>* st st' \<Longrightarrow> panelSafe (snd st) \<Longrightarrow> panelSafe (snd st')"
  by (induction rule: rtranclp_induct) (auto intro: panel_step_safe)

end
