(* ===== verification/Account_Findings.thy ===== *)
theory Account_Findings
  imports Scenario_States Account_Results Settings_Facts Admin_Safety
begin

text \<open>
  Runs of the account, administrator and settings services on concrete data: the inputs of the
  witnesses, and runs that end where a comment or the purpose of the code says they do not.
\<close>

definition demoCrypto :: Crypto where
  "demoCrypto = \<lparr>sha256 = (\<lambda>s. CHR ''#'' # s), hashPassword = (\<lambda>_ p. CHR ''h'' # p),
     verifyPassword = (\<lambda>h p. h = CHR ''h'' # p)\<rparr>"

definition demoPolicy :: CodePolicy where
  "demoPolicy = \<lparr>codeTtlMinutes = 15, resendCooldownSeconds = 60, maxAttempts = 5\<rparr>"

definition onlineDb :: db where
  "onlineDb = demoDb\<lparr>platformSettings := setting EMAIL_PROVIDER_SETTING_KEY STRING ''MAILPIT'' # platformSettings demoDb\<rparr>"

definition demoRegistration :: RegisterInput where
  "demoRegistration = \<lparr>reg_firstName = ''Dora'', reg_lastName = ''D'', reg_email = ''d@x'', reg_password = ''pw'',
     reg_phoneCountryCode = ''+54'', reg_phoneNumber = ''1155551234'', reg_dateOfBirth = 0, reg_acceptedTermsAndPrivacy = True\<rparr>"

definition demoUpdate :: "string option \<Rightarrow> UserAccountStatus option \<Rightarrow> UpdateUserAccountInput" where
  "demoUpdate email st = \<lparr>uua_firstName = None, uua_lastName = None, uua_phoneCountryCode = None, uua_phoneNumber = None,
     uua_email = email, uua_accountStatus = st\<rparr>"

text \<open>A new account, and the same account verified.\<close>

definition registered :: identity where
  "registered = snd (projr (register demoCrypto demoPolicy False onlineDb 1000 7 5 demoRegistration emptyIdentity))"

definition verified :: identity where
  "verified = snd (verifyEmailCode demoCrypto demoPolicy 2000 ''d@x'' ''000005'' registered)"

text \<open>What these states are, written out for the evaluations that follow.\<close>

lemma registered_rows [code]:
  "registered = \<lparr>id_nextId = 2, accounts = [\<lparr>acc_id = 0, acc_firstName = Some ''Dora'', acc_lastName = Some ''D'',
     acc_email = ''d@x'', acc_passwordHash = Some ''hpw'', acc_phoneCountryCode = Some ''+54'', acc_phoneNumber = Some
     ''1155551234'', acc_dateOfBirth = Some 0, acc_acceptedTermsAndPrivacy = True, acc_authProvider = PASSWORD,
     acc_socialProviderSubject = None, acc_accountStatus = PENDING_EMAIL_VERIFICATION, acc_createdAt = 1000\<rparr>],
     verificationCodes = [\<lparr>code_id = 1, code_userId = 0, code_codeHash = ''#000005'', code_expiresAt = 901000,
     code_attemptsCount = 0, code_consumedAt = None, code_invalidatedAt = None, code_createdAt = 1000\<rparr>],
     resetCodes = [], sessions = [], verifications = [], outbox = [(''d@x'', ''000005'')]\<rparr>"
  by code_simp

lemma verified_rows [code]:
  "verified = registered\<lparr>accounts := [\<lparr>acc_id = 0, acc_firstName = Some ''Dora'', acc_lastName = Some ''D'', acc_email = ''d@x'',
       acc_passwordHash = Some ''hpw'', acc_phoneCountryCode = Some ''+54'', acc_phoneNumber = Some ''1155551234'',
       acc_dateOfBirth = Some 0, acc_acceptedTermsAndPrivacy = True, acc_authProvider = PASSWORD,
       acc_socialProviderSubject = None, acc_accountStatus = EMAIL_VERIFIED, acc_createdAt = 1000\<rparr>],
     verificationCodes := [\<lparr>code_id = 1, code_userId = 0, code_codeHash = ''#000005'', code_expiresAt =
       901000, code_attemptsCount = 0, code_consumedAt = Some 2000, code_invalidatedAt = None, code_createdAt =
       1000\<rparr>]\<rparr>"
  by code_simp

lemma register_demo:
  "register demoCrypto demoPolicy False onlineDb 1000 7 5 demoRegistration emptyIdentity = Inr (0, registered)"
  by code_simp

lemma verify_demo: "verifyEmailCode demoCrypto demoPolicy 2000 ''d@x'' ''000005'' registered = (True, verified)"
  by code_simp

lemma emptyIdentity_ok: "platformOk vp rp (db, emptyIdentity)"
  by (simp add: platformOk_def identityOk_def emptyIdentity_def codesOk_def)

lemma registered_reached: "(account_step demoCrypto demoPolicy rp)\<^sup>*\<^sup>* (onlineDb, emptyIdentity) (onlineDb, registered)"
  by (rule r_into_rtranclp, rule Register [OF register_demo])

lemma verified_reached: "(account_step demoCrypto demoPolicy rp)\<^sup>*\<^sup>* (onlineDb, emptyIdentity) (onlineDb, verified)"
  by (rule rtranclp.rtrancl_into_rtrancl [OF registered_reached], rule VerifyEmail [OF verify_demo])

section \<open>Codes\<close>

text \<open>Within the cooldown, the answer to a request for another code is the end of the cooldown of the
  code that exists; for an address without an account it is the cooldown from now.  The comment of
  the service says that it never reveals whether an account exists.\<close>

lemma resend_reveals_account:
  "fst (projr (resendVerificationCode demoCrypto demoPolicy False onlineDb 5000 1 ''d@x'' registered)) = 61000"
  "fst (projr (resendVerificationCode demoCrypto demoPolicy False onlineDb 5000 1 ''e@x'' registered)) = 65000"
  by code_simp+

text \<open>A code that was sent to the old address verifies the new one.\<close>

definition movedAccount :: platform where
  "movedAccount = projr (updateUserAccount 9 0 (demoUpdate (Some ''f@x'') None) (onlineDb, registered))"

lemma old_code_verifies_new_address:
  "outbox (snd movedAccount) = [(''d@x'', ''000005'')]"
  "fst (verifyEmailCode demoCrypto demoPolicy 3000 ''f@x'' ''000005'' (snd movedAccount))"
  unfolding movedAccount_def by code_simp+

section \<open>Identity verification\<close>

text \<open>A decision that reports the document only counts the missing liveness check as failed.\<close>

lemma unreported_check_rejects:
  "ir_status (translateWebhookPayload \<lparr>wh_session_id = Some ''s'', wh_vendor_data = Some ''v'',
     wh_decision = Some \<lparr>dec_id_verifications = Some [\<lparr>ck_status = Some ''Approved'', ck_document_type = None\<rparr>],
       dec_liveness_checks = None, dec_face_matches = None\<rparr>\<rparr>) = IdentityVerificationStatus.REJECTED"
  by code_simp

section \<open>Administrators\<close>

definition demoPanel :: panel where
  "demoPanel = (onlineDb, \<lparr>ad_nextId = 10,
     adminRoles = [\<lparr>ar_id = 1, ar_name = ''SUPER_ADMIN'', ar_permissions = [ADMIN_USERS_MANAGE]\<rparr>],
     adminUsers = [\<lparr>au_id = 2, au_email = ''root@x'', au_displayName = ''Root'', au_passwordHash = Some ''hroot'',
        au_roleId = 1, au_status = AdminUserStatus.ACTIVE\<rparr>],
     adminInvites = [], adminSessions = [], ad_outbox = []\<rparr>)"

definition demoInvite :: InvitePolicy where
  "demoInvite = \<lparr>ip_ttlHours = 72, ip_resendCooldownSeconds = 60\<rparr>"

definition invitedPanel :: panel where
  "invitedPanel = projr (inviteAdminUser demoCrypto demoInvite False 1000 ''tok'' 2 ''new@x'' ''New'' 1 demoPanel)"

definition setAdminStatus :: "AdminUserStatus \<Rightarrow> UpdateAdminUserInput" where
  "setAdminStatus st = \<lparr>uau_displayName = None, uau_roleId = None, uau_status = Some st\<rparr>"

lemma demoPanel_safe: "panelSafe (snd demoPanel)"
  by (simp add: panelSafe_def panelOk_def managed_def holdsManage_def permissionsOfRole_def findRoleById_def keyed_def demoPanel_def)

text \<open>An administrator who was invited can be made ACTIVE without a password.  The guard counts that
  administrator, so the last one who can log in may be revoked.\<close>

lemma lockout_by_activation:
  "let st1 = projr (updateAdminUser 2 10 (setAdminStatus AdminUserStatus.ACTIVE) invitedPanel);
       st2 = projr (updateAdminUser 10 2 (setAdminStatus AdminUserStatus.REVOKED) st1)
   in map (\<lambda>u. (au_id u, au_status u, au_passwordHash u)) (adminUsers (snd st2)) =
        [(2, AdminUserStatus.REVOKED, Some ''hroot''), (10, AdminUserStatus.ACTIVE, None)]"
  unfolding invitedPanel_def by code_simp

section \<open>Settings\<close>

text \<open>A blank number passes the validation of a setting, and the commission is then nothing.\<close>

lemma blank_commission_accepted:
  "let r = setPlatformSetting 2 \<lparr>sps_key = COMMISSION_PERCENT_SETTING_KEY, sps_valueType = NUMBER, sps_isEncrypted = False,
       sps_isPublic = False, sps_value = ''  ''\<rparr> onlineDb
   in \<not> isl r \<and> readCommissionPercent (projr r) = Inr 0"
  by code_simp

text \<open>A feature without a setting is off for the clients and on for the services.\<close>

lemma unconfigured_flag_disagrees:
  "leafAt (configPath ''identity.enabled'') (listPlatformConfig (\<lambda>_. 0) demoDb) = Some (BoolLeaf False)"
  "isEnabled demoDb IDENTITY_ENABLED"
  by code_simp+

end
