(* ===== verification/Category_Tree.thy ===== *)
theory Category_Tree
  imports Categories
begin

text \<open>
  The category list in the order of its tree and the nested tree the panel shows
  (src/src/profiles/utils/sort-categories-tree-order.util.ts).  Both recursions of the code have no
  bound of their own and are given fuel here; the number of categories is enough, because a traversal
  from the roots never meets a category twice, whatever the parent column holds.
\<close>

section \<open>The two traversals\<close>

definition childrenOf :: "Category list \<Rightarrow> id option \<Rightarrow> Category list" where
  "childrenOf rows p = filter (\<lambda>c. cat_parentId c = p) rows"

fun visit :: "nat \<Rightarrow> Category list \<Rightarrow> id option \<Rightarrow> Category list option" where
  "visit 0 rows p = None"
| "visit (Suc n) rows p = map_option concat
     (those (map (\<lambda>c. map_option ((#) c) (visit n rows (Some (cat_id c)))) (childrenOf rows p)))"

datatype CategoryTreeNode =
  CategoryTreeNode (node_id: id) (node_name: string) (node_displayOrder: int) (node_parentId: "id option")
    (node_children: "CategoryTreeNode list")

fun build :: "nat \<Rightarrow> Category list \<Rightarrow> id option \<Rightarrow> CategoryTreeNode list option" where
  "build 0 rows p = None"
| "build (Suc n) rows p = those (map (\<lambda>c. map_option
     (CategoryTreeNode (cat_id c) (cat_name c) (cat_displayOrder c) (cat_parentId c))
     (build n rows (Some (cat_id c)))) (childrenOf rows p))"

definition sortCategoriesInTreeOrder :: "Category list \<Rightarrow> Category list option" where
  "sortCategoriesInTreeOrder rows = visit (Suc (length rows)) rows None"

definition buildCategoryTree :: "Category list \<Rightarrow> CategoryTreeNode list option" where
  "buildCategoryTree rows = build (Suc (length rows)) rows None"

text \<open>The rows are read ordered by displayOrder, then by name in the database's collation, a parameter.\<close>

definition orderedCategories :: "(string \<Rightarrow> nat) \<Rightarrow> db \<Rightarrow> Category list" where
  "orderedCategories collate db = sort_key cat_displayOrder (sort_key (collate \<circ> cat_name) (categories db))"

definition findAllCategories :: "(string \<Rightarrow> nat) \<Rightarrow> db \<Rightarrow> Category list option" where
  "findAllCategories collate db = sortCategoriesInTreeOrder (orderedCategories collate db)"

definition findCategoryTree :: "(string \<Rightarrow> nat) \<Rightarrow> db \<Rightarrow> CategoryTreeNode list option" where
  "findCategoryTree collate db = buildCategoryTree (orderedCategories collate db)"

section \<open>Chains of parents\<close>

text \<open>A category hangs below a root when its chain of parents ends at one.\<close>

inductive rooted :: "Category list \<Rightarrow> Category \<Rightarrow> bool" for rows where
  Root: "c \<in> set rows \<Longrightarrow> cat_parentId c = None \<Longrightarrow> rooted rows c"
| Child: "c \<in> set rows \<Longrightarrow> cat_parentId c = Some (cat_id p) \<Longrightarrow> rooted rows p \<Longrightarrow> rooted rows c"

fun topId :: "Category list \<Rightarrow> id option" where
  "topId [] = None"
| "topId (c # cs) = Some (cat_id c)"

fun chain :: "Category list \<Rightarrow> Category list \<Rightarrow> bool" where
  "chain rows [] = True"
| "chain rows (c # cs) = (c \<in> set rows \<and> cat_parentId c = topId cs \<and> chain rows cs)"

lemma chain_suffix: "chain rows (xs @ ys) \<Longrightarrow> chain rows ys"
  by (induction xs) auto

lemma chain_subset: "chain rows cs \<Longrightarrow> set cs \<subseteq> set rows"
  by (induction cs) auto

lemma topId_eq_Cons:
  assumes "distinct (map cat_id rows)" "set (c # cs) \<subseteq> set rows" "set ds \<subseteq> set rows" "topId ds = topId (c # cs)"
  shows "\<exists>es. ds = c # es"
  using assms by (cases ds) (auto dest: key_unique)

lemma chain_unique:
  assumes "distinct (map cat_id rows)" "chain rows (x # xs)" "chain rows (x # ys)"
  shows "xs = ys"
  using assms(2,3)
proof (induction xs arbitrary: x ys)
  case Nil
  then show ?case by (cases ys) auto
next
  case (Cons a xs)
  then have "topId ys = topId (a # xs)" "set (a # xs) \<subseteq> set rows" "set ys \<subseteq> set rows"
    using chain_subset by auto
  then obtain es where "ys = a # es" using topId_eq_Cons [OF assms(1)] by blast
  then show ?case using Cons by auto
qed

lemma chain_distinct:
  assumes "distinct (map cat_id rows)" "chain rows cs"
  shows "distinct cs"
  using assms(2)
proof (induction cs)
  case (Cons c cs)
  have "c \<notin> set cs"
  proof
    assume "c \<in> set cs"
    then obtain xs ys where cs: "cs = xs @ c # ys" using split_list by metis
    have "chain rows cs" using Cons.prems by simp
    then have "chain rows (c # ys)" using chain_suffix [of rows xs "c # ys"] cs by simp
    then have "cs = ys" by (rule chain_unique [OF assms(1) Cons.prems])
    then show False using cs by simp
  qed
  then show ?case using Cons by simp
qed simp

lemma chain_length:
  assumes "distinct (map cat_id rows)" "chain rows cs"
  shows "length cs \<le> length rows"
  using distinct_card [OF chain_distinct [OF assms]] chain_subset [OF assms(2)] card_mono [of "set rows"] card_length [of rows]
  by (metis List.finite_set le_trans)

lemma rooted_chain: "rooted rows c \<longleftrightarrow> (\<exists>cs. chain rows (c # cs))"
proof
  show "\<exists>cs. chain rows (c # cs)" if "rooted rows c"
    using that
  proof (induction rule: rooted.induct)
    case (Root c)
    then have "chain rows [c]" by simp
    then show ?case by blast
  next
    case (Child c p)
    then obtain cs where "chain rows (p # cs)" by blast
    then have "chain rows (c # p # cs)" using Child by simp
    then show ?case by blast
  qed
  have "chain rows (c # cs) \<Longrightarrow> rooted rows c" for cs
    by (induction cs arbitrary: c) (auto intro: rooted.intros)
  then show "\<exists>cs. chain rows (c # cs) \<Longrightarrow> rooted rows c" by blast
qed

section \<open>The traversal returns\<close>

lemma those_map_Some: "\<forall>x\<in>set xs. f x \<noteq> None \<Longrightarrow> those (map f xs) = Some (map (the \<circ> f) xs)"
  by (induction xs) auto

lemma those_map_SomeD: "those (map f xs) = Some ys \<Longrightarrow> list_all2 (\<lambda>x y. f x = Some y) xs ys"
  by (induction xs arbitrary: ys) (auto split: option.splits)

lemma childrenOf_chain: "chain rows cs \<Longrightarrow> c \<in> set (childrenOf rows (topId cs)) \<Longrightarrow> chain rows (c # cs)"
  by (auto simp: childrenOf_def)

lemma visit_returns:
  assumes d: "distinct (map cat_id rows)"
  shows "chain rows cs \<Longrightarrow> length rows < n + length cs \<Longrightarrow> \<exists>out. visit n rows (topId cs) = Some out"
proof (induction n arbitrary: cs)
  case 0
  then show ?case using chain_length [OF d 0(1)] by simp
next
  case (Suc n)
  have "visit n rows (Some (cat_id c)) \<noteq> None" if "c \<in> set (childrenOf rows (topId cs))" for c
    using Suc.IH [OF childrenOf_chain [OF Suc.prems(1) that]] Suc.prems(2) by auto
  then show ?case by (simp add: those_map_Some)
qed

lemma visit_SucD:
  assumes "visit (Suc n) rows p = Some out"
  shows "\<forall>c\<in>set (childrenOf rows p). visit n rows (Some (cat_id c)) = Some (the (visit n rows (Some (cat_id c))))"
    and "out = concat (map (\<lambda>c. c # the (visit n rows (Some (cat_id c)))) (childrenOf rows p))"
proof -
  obtain ys where ys: "those (map (\<lambda>c. map_option ((#) c) (visit n rows (Some (cat_id c)))) (childrenOf rows p)) = Some ys"
    and out: "out = concat ys"
    using assms by auto
  from those_map_SomeD [OF ys] have
    a: "list_all2 (\<lambda>c y. visit n rows (Some (cat_id c)) \<noteq> None \<and> y = c # the (visit n rows (Some (cat_id c)))) (childrenOf rows p) ys"
    by (rule list.rel_mono_strong) auto
  have "ys = map (\<lambda>c. c # the (visit n rows (Some (cat_id c)))) (childrenOf rows p)"
    using a by (induction rule: list_all2_induct) auto
  then show "out = concat (map (\<lambda>c. c # the (visit n rows (Some (cat_id c)))) (childrenOf rows p))"
    using out by simp
  show "\<forall>c\<in>set (childrenOf rows p). visit n rows (Some (cat_id c)) = Some (the (visit n rows (Some (cat_id c))))"
    using a by (induction rule: list_all2_induct) auto
qed

lemma chain_below:
  "(\<exists>c. chain rows (c # cs) \<and> (x = c \<or> (\<exists>ds. chain rows (x # ds @ c # cs)))) \<longleftrightarrow> (\<exists>ds. chain rows (x # ds @ cs))"
proof
  assume "\<exists>c. chain rows (c # cs) \<and> (x = c \<or> (\<exists>ds. chain rows (x # ds @ c # cs)))"
  then obtain c where "chain rows (c # cs)" "x = c \<or> (\<exists>ds. chain rows (x # ds @ c # cs))" by blast
  then show "\<exists>ds. chain rows (x # ds @ cs)"
  proof (elim disjE exE)
    assume "x = c" "chain rows (c # cs)"
    then show ?thesis by (intro exI [of _ "[]"]) simp
  next
    fix ds assume "chain rows (x # ds @ c # cs)"
    then show ?thesis by (intro exI [of _ "ds @ [c]"]) simp
  qed
next
  assume "\<exists>ds. chain rows (x # ds @ cs)"
  then obtain ds where ds: "chain rows (x # ds @ cs)" by blast
  show "\<exists>c. chain rows (c # cs) \<and> (x = c \<or> (\<exists>ds. chain rows (x # ds @ c # cs)))"
  proof (cases ds rule: rev_cases)
    case Nil
    then show ?thesis using ds by auto
  next
    case (snoc es c)
    then have x: "chain rows (x # es @ c # cs)" using ds by simp
    then have "chain rows (c # cs)" using chain_suffix [of rows "x # es" "c # cs"] by simp
    then show ?thesis using x by blast
  qed
qed

lemma visit_members:
  "chain rows cs \<Longrightarrow> visit n rows (topId cs) = Some out \<Longrightarrow> x \<in> set out \<longleftrightarrow> (\<exists>ds. chain rows (x # ds @ cs))"
proof (induction n arbitrary: cs out)
  case (Suc n)
  note v = visit_SucD [OF Suc.prems(2)]
  have sub: "x \<in> set (the (visit n rows (Some (cat_id c)))) \<longleftrightarrow> (\<exists>ds. chain rows (x # ds @ c # cs))"
    if c: "c \<in> set (childrenOf rows (topId cs))" for c
    using Suc.IH [of "c # cs"] childrenOf_chain [OF Suc.prems(1) c] v(1) c by simp
  have kids: "c \<in> set (childrenOf rows (topId cs)) \<longleftrightarrow> chain rows (c # cs)" for c
    using Suc.prems(1) by (auto simp: childrenOf_def)
  have "x \<in> set out \<longleftrightarrow> (\<exists>c\<in>set (childrenOf rows (topId cs)). x = c \<or> x \<in> set (the (visit n rows (Some (cat_id c)))))"
    unfolding v(2) by (simp add: eq_commute)
  also have "\<dots> \<longleftrightarrow> (\<exists>c\<in>set (childrenOf rows (topId cs)). x = c \<or> (\<exists>ds. chain rows (x # ds @ c # cs)))"
    by (intro bex_cong refl) (simp only: sub)
  also have "\<dots> \<longleftrightarrow> (\<exists>c. chain rows (c # cs) \<and> (x = c \<or> (\<exists>ds. chain rows (x # ds @ c # cs))))"
    using kids by blast
  also have "\<dots> \<longleftrightarrow> (\<exists>ds. chain rows (x # ds @ cs))" by (rule chain_below)
  finally show ?case .
qed simp

lemma distinct_concat_map:
  assumes "distinct xs" "\<And>x. x \<in> set xs \<Longrightarrow> distinct (f x)"
    and "\<And>x y z. x \<in> set xs \<Longrightarrow> y \<in> set xs \<Longrightarrow> z \<in> set (f x) \<Longrightarrow> z \<in> set (f y) \<Longrightarrow> x = y"
  shows "distinct (concat (map f xs))"
  using assms
proof (induction xs)
  case (Cons a xs)
  have "set (f a) \<inter> set (concat (map f xs)) = {}"
  proof (rule ccontr)
    assume "set (f a) \<inter> set (concat (map f xs)) \<noteq> {}"
    then obtain z y where "z \<in> set (f a)" "y \<in> set xs" "z \<in> set (f y)" by auto
    then have "a = y" using Cons.prems(3) [of a y z] by simp
    then show False using \<open>y \<in> set xs\<close> Cons.prems(1) by simp
  qed
  moreover have "distinct (concat (map f xs))"
    by (rule Cons.IH) (use Cons.prems in \<open>auto\<close>)
  moreover have "distinct (f a)" using Cons.prems(2) by simp
  ultimately show ?case by simp
qed simp

lemma visit_distinct:
  assumes d: "distinct (map cat_id rows)"
  shows "chain rows cs \<Longrightarrow> visit n rows (topId cs) = Some out \<Longrightarrow> distinct out"
proof (induction n arbitrary: cs out)
  case (Suc n)
  note v = visit_SucD [OF Suc.prems(2)]
  let ?sub = "\<lambda>c. the (visit n rows (Some (cat_id c)))"
  have s: "visit n rows (topId (c # cs)) = Some (?sub c)" "chain rows (c # cs)"
    if "c \<in> set (childrenOf rows (topId cs))" for c
    using v(1) that childrenOf_chain [OF Suc.prems(1) that] by simp_all
  have at: "\<exists>es ds. chain rows (x # es) \<and> x # es = (ds @ [c]) @ cs"
    if c: "c \<in> set (childrenOf rows (topId cs))" and x: "x \<in> set (c # ?sub c)" for c x
  proof (cases "x = c")
    case True
    then show ?thesis using s(2) [OF c] by (intro exI [of _ cs] exI [of _ "[]"]) simp
  next
    case False
    then obtain ds where "chain rows (x # ds @ c # cs)"
      using visit_members [OF s(2,1) [OF c], of x] x by auto
    then show ?thesis by (intro exI [of _ "ds @ c # cs"] exI [of _ "x # ds"]) simp
  qed
  have "distinct (concat (map (\<lambda>c. c # ?sub c) (childrenOf rows (topId cs))))"
  proof (rule distinct_concat_map)
    show "distinct (childrenOf rows (topId cs))"
      using d by (simp add: childrenOf_def distinct_map)
    show "distinct (c # ?sub c)" if c: "c \<in> set (childrenOf rows (topId cs))" for c
    proof -
      have "c \<notin> set (?sub c)"
      proof
        assume "c \<in> set (?sub c)"
        then obtain ds where "chain rows (c # ds @ c # cs)" using visit_members [OF s(2,1) [OF c], of c] by blast
        then show False using chain_distinct [OF d] by fastforce
      qed
      then show ?thesis using Suc.IH [OF s(2,1) [OF c]] by simp
    qed
    show "c = c'" if "c \<in> set (childrenOf rows (topId cs))" "c' \<in> set (childrenOf rows (topId cs))"
      "x \<in> set (c # ?sub c)" "x \<in> set (c' # ?sub c')" for c c' x
    proof -
      from at [OF that(1,3)] obtain es ds where es: "chain rows (x # es)" "x # es = (ds @ [c]) @ cs" by blast
      from at [OF that(2,4)] obtain es' ds' where es': "chain rows (x # es')" "x # es' = (ds' @ [c']) @ cs" by blast
      have "es = es'" by (rule chain_unique [OF d es(1) es'(1)])
      then have "(ds @ [c]) @ cs = (ds' @ [c']) @ cs" using es(2) es'(2) by metis
      then show ?thesis by (simp del: append_assoc)
    qed
  qed
  then show ?case using v(2) by simp
qed simp

section \<open>The tree and the list agree\<close>

fun flatten :: "CategoryTreeNode \<Rightarrow> id list" where
  "flatten (CategoryTreeNode i nm ord p ts) = i # concat (map flatten ts)"

text \<open>Every node holds its category's data, and its children are the rows below it, in the rows' order.\<close>

definition shownAs :: "CategoryTreeNode \<Rightarrow> Category \<Rightarrow> bool" where
  "shownAs t c \<longleftrightarrow> node_id t = cat_id c \<and> node_name t = cat_name c
     \<and> node_displayOrder t = cat_displayOrder c \<and> node_parentId t = cat_parentId c"

fun faithfulNode :: "Category list \<Rightarrow> CategoryTreeNode \<Rightarrow> bool" where
  "faithfulNode rows (CategoryTreeNode i nm ord p ts) \<longleftrightarrow>
     list_all2 shownAs ts (childrenOf rows (Some i)) \<and> list_all (faithfulNode rows) ts"

lemma build_SucD:
  assumes "build (Suc n) rows p = Some ts"
  shows "list_all2 (\<lambda>c t. \<exists>us. build n rows (Some (cat_id c)) = Some us
    \<and> t = CategoryTreeNode (cat_id c) (cat_name c) (cat_displayOrder c) (cat_parentId c) us) (childrenOf rows p) ts"
proof -
  have "those (map (\<lambda>c. map_option
     (CategoryTreeNode (cat_id c) (cat_name c) (cat_displayOrder c) (cat_parentId c))
     (build n rows (Some (cat_id c)))) (childrenOf rows p)) = Some ts" using assms by simp
  from those_map_SomeD [OF this] show ?thesis
    by (rule list.rel_mono_strong) auto
qed

lemma build_faithful:
  "build n rows p = Some ts \<Longrightarrow> list_all2 shownAs ts (childrenOf rows p) \<and> list_all (faithfulNode rows) ts"
proof (induction n arbitrary: p ts)
  case (Suc n)
  have "list_all2 (\<lambda>c t. shownAs t c \<and> faithfulNode rows t) (childrenOf rows p) ts"
    by (rule list.rel_mono_strong [OF build_SucD [OF Suc.prems]]) (auto simp: shownAs_def dest: Suc.IH)
  then show ?case
    by (induction rule: list_all2_induct) auto
qed simp

lemma build_visit:
  "visit n rows p = Some out \<Longrightarrow> \<exists>ts. build n rows p = Some ts \<and> concat (map flatten ts) = map cat_id out"
proof (induction n arbitrary: p out)
  case (Suc n)
  note v = visit_SucD [OF Suc.prems]
  let ?tree = "\<lambda>c. CategoryTreeNode (cat_id c) (cat_name c) (cat_displayOrder c) (cat_parentId c)
    (the (build n rows (Some (cat_id c))))"
  have b: "build n rows (Some (cat_id c)) \<noteq> None
      \<and> flatten (?tree c) = map cat_id (c # the (visit n rows (Some (cat_id c))))"
    if "c \<in> set (childrenOf rows p)" for c
    using Suc.IH [of "Some (cat_id c)"] v(1) that by fastforce
  have "build (Suc n) rows p = Some (map ?tree (childrenOf rows p))"
    using b by (fastforce simp: those_map_Some dest: b)
  moreover have "concat (map flatten (map ?tree (childrenOf rows p))) = map cat_id out"
    unfolding v(2) map_concat map_map comp_def using b by (intro arg_cong [of _ _ concat] map_cong) simp_all
  ultimately show ?case by blast
qed simp

section \<open>Nothing hides below a cycle\<close>

text \<open>The tree invariant of the categories makes every row rooted: parents exist and form no cycle.\<close>

lemma all_rooted:
  assumes ok: "acyclic (parentOf rows)" "\<forall>c\<in>set rows. \<forall>p. cat_parentId c = Some p \<longrightarrow> p \<in> cat_id ` set rows"
    and c: "c \<in> set rows"
  shows "rooted rows c"
proof -
  have "finite (parentOf rows)"
    by (rule finite_subset [of _ "(cat_id ` set rows) \<times> (cat_id ` set rows)"]) (use ok(2) in \<open>auto simp: parentOf_def\<close>)
  then have "wf (parentOf rows)" using ok(1) by (rule finite_acyclic_wf)
  then have "\<forall>c. cat_id c = i \<longrightarrow> c \<in> set rows \<longrightarrow> rooted rows c" for i
  proof (induction i rule: wf_induct_rule)
    case (less i)
    show ?case
    proof (intro allI impI)
      fix c assume c: "cat_id c = i" "c \<in> set rows"
      show "rooted rows c"
      proof (cases "cat_parentId c")
        case None
        then show ?thesis using c by (blast intro: rooted.Root)
      next
        case (Some p)
        then obtain q where q: "q \<in> set rows" "p = cat_id q" using ok(2) c by blast
        then have "rooted rows q" using less [of p] c Some by (auto simp: parentOf_def)
        then show ?thesis using Some q c by (blast intro: rooted.Child)
      qed
    qed
  qed
  then show ?thesis using c by blast
qed

text \<open>Parents come before their children.\<close>

lemma visit_parent_first:
  "visit n rows p = Some out \<Longrightarrow> c \<in> set out \<Longrightarrow> cat_parentId c = p
    \<or> (\<exists>xs ys q. out = xs @ c # ys \<and> q \<in> set xs \<and> cat_parentId c = Some (cat_id q))"
proof (induction n arbitrary: p out)
  case (Suc n)
  note v = visit_SucD [OF Suc.prems(1)]
  let ?sub = "\<lambda>c. the (visit n rows (Some (cat_id c)))"
  from Suc.prems(2) v(2) obtain k where k: "k \<in> set (childrenOf rows p)" "c \<in> set (k # ?sub k)" by auto
  show ?case
  proof (cases "c = k")
    case True
    then show ?thesis using k(1) by (simp add: childrenOf_def)
  next
    case False
    obtain as bs where split: "childrenOf rows p = as @ k # bs" using split_list k(1) by fast
    let ?pre = "concat (map (\<lambda>c. c # ?sub c) as) @ [k]" and ?post = "concat (map (\<lambda>c. c # ?sub c) bs)"
    have out: "out = ?pre @ ?sub k @ ?post" unfolding v(2) split by simp
    have c: "c \<in> set (?sub k)" using k(2) False by simp
    then obtain us ws where u: "?sub k = us @ c # ws" using split_list by fast
    have "cat_parentId c = Some (cat_id k)
      \<or> (\<exists>xs ys q. ?sub k = xs @ c # ys \<and> q \<in> set xs \<and> cat_parentId c = Some (cat_id q))"
      using Suc.IH [of "Some (cat_id k)" "?sub k"] v(1) k(1) c by blast
    then show ?thesis
    proof (elim disjE exE conjE)
      assume "cat_parentId c = Some (cat_id k)"
      then show ?thesis unfolding out u
        by (intro disjI2 exI [of _ "?pre @ us"] exI [of _ "ws @ ?post"] exI [of _ k]) simp
    next
      fix xs ys q assume "?sub k = xs @ c # ys" "q \<in> set xs" "cat_parentId c = Some (cat_id q)"
      then show ?thesis unfolding out
        by (intro disjI2 exI [of _ "?pre @ xs"] exI [of _ "ys @ ?post"] exI [of _ q]) simp
    qed
  qed
qed simp

lemma tree_order:
  assumes "acyclic (parentOf rows)" "distinct (map cat_id rows)"
    and "\<forall>c\<in>set rows. \<forall>p. cat_parentId c = Some p \<longrightarrow> p \<in> cat_id ` set rows"
  shows "\<exists>out ts. sortCategoriesInTreeOrder rows = Some out \<and> buildCategoryTree rows = Some ts
    \<and> distinct out \<and> set out = set rows \<and> concat (map flatten ts) = map cat_id out
    \<and> list_all2 shownAs ts (childrenOf rows None) \<and> list_all (faithfulNode rows) ts"
proof -
  obtain out where v: "visit (Suc (length rows)) rows (topId []) = Some out"
    using visit_returns [OF assms(2), of "[]" "Suc (length rows)"] by auto
  obtain ts where b: "build (Suc (length rows)) rows None = Some ts" "concat (map flatten ts) = map cat_id out"
    using build_visit v by fastforce
  have "x \<in> set out \<longleftrightarrow> x \<in> set rows" for x
    using visit_members [OF _ v, of x] all_rooted [OF assms(1,3), of x] rooted_chain [of rows x] by auto
  moreover have "distinct out" using visit_distinct [OF assms(2) _ v] by simp
  ultimately show ?thesis
    using v b build_faithful [OF b(1)] by (auto simp: sortCategoriesInTreeOrder_def buildCategoryTree_def)
qed

lemma set_ordered [simp]: "set (orderedCategories collate db) = set (categories db)"
  by (simp add: orderedCategories_def)

lemma ordered_ids: "distinct (map cat_id (categories db)) \<Longrightarrow> distinct (map cat_id (orderedCategories collate db))"
  by (simp add: orderedCategories_def distinct_map)

lemma ordered_parentOf: "parentOf (orderedCategories collate db) = parentOf (categories db)"
  by (auto simp: parentOf_def)

lemma categories_in_order:
  assumes "categoriesOk db"
  shows "\<exists>out ts. findAllCategories collate db = Some out \<and> findCategoryTree collate db = Some ts
    \<and> distinct out \<and> set out = set (categories db) \<and> concat (map flatten ts) = map cat_id out
    \<and> list_all2 shownAs ts (childrenOf (orderedCategories collate db) None)
    \<and> list_all (faithfulNode (orderedCategories collate db)) ts"
  using tree_order [of "orderedCategories collate db"] assms
  by (auto simp: categoriesOk_def findAllCategories_def findCategoryTree_def ordered_ids ordered_parentOf)

lemma listed_after_parent:
  assumes "findAllCategories collate db = Some out" "c \<in> set out"
  shows "cat_parentId c = None \<or> (\<exists>xs ys q. out = xs @ c # ys \<and> q \<in> set xs \<and> cat_parentId c = Some (cat_id q))"
  using assms visit_parent_first [of "Suc (length (orderedCategories collate db))" "orderedCategories collate db" None out]
  by (simp add: findAllCategories_def sortCategoriesInTreeOrder_def)

end
