(* ===== verification/Account_Properties.thy ===== *)
theory Account_Properties
  imports Account_Findings Category_Tree
begin

text \<open>
  The properties of the accounts, the administrators, the settings and the category tree, each with a
  run on concrete data.
\<close>

section \<open>An account from its registration to its approval\<close>

definition diditDb :: db where
  "diditDb = onlineDb\<lparr>platformSettings := platformSettings onlineDb
     @ [setting ''identity.didit.sandbox.api-key'' STRING ''k'', setting ''identity.didit.sandbox.workflow-id'' STRING ''w'',
        setting ''identity.didit.sandbox.webhook-secret'' STRING ''s'']\<rparr>"

definition onboarded :: platform where
  "onboarded = snd (projr (upsertCustomerProfile 3000 0 \<lparr>ucp_firstName = ''Dora'', ucp_lastName = ''D'', ucp_country = None,
     ucp_photoUploadRef = None, ucp_locationSharingEnabled = None\<rparr> (diditDb, verified)))"

definition verifying :: identity where
  "verifying = snd (projr (startIdentityVerification (\<lambda>_ _ _. Some (''ref'', ''url'')) 4000 0 onboarded))"

definition passedCheck :: DiditWebhookCheckResult where
  "passedCheck = \<lparr>ck_status = Some ''Approved'', ck_document_type = Some ''Passport''\<rparr>"

definition approvingPayload :: "string \<Rightarrow> DiditWebhookPayload option" where
  "approvingPayload body = Some \<lparr>wh_session_id = Some ''ref'', wh_vendor_data = Some ''v'',
     wh_decision = Some \<lparr>dec_id_verifications = Some [passedCheck], dec_liveness_checks = Some [passedCheck],
       dec_face_matches = Some [passedCheck]\<rparr>\<rparr>"

definition approvedAccount :: identity where
  "approvedAccount = projr (handleWebhook (\<lambda>secret body. secret @ body) (\<lambda>_. Some (iv_id (hd (verifications verifying))))
     approvingPayload 5000 ''body'' (Some ''sbody'') (Some ''5'') (fst onboarded, verifying))"

lemma onboarded_rows [code]:
  "onboarded = (\<lparr>nextId = 101, nextReceipt = 1, users = [\<lparr>user_id = 1, user_email = ''a@x''\<rparr>,
     \<lparr>user_id = 2, user_email = ''b@x''\<rparr>, \<lparr>user_id = 3, user_email = ''c@x''\<rparr>],
     customerProfiles = [\<lparr>cp_id = 11, cp_userId = 1, cp_firstName = ''Ana'', cp_lastName = ''A'', cp_country =
     AR, cp_photoUrl = None, cp_locationSharingEnabled = False, cp_noShowReportedCount = 0\<rparr>, \<lparr>cp_id =
     100, cp_userId = 0, cp_firstName = ''Dora'', cp_lastName = ''D'', cp_country = AR, cp_photoUrl = None,
     cp_locationSharingEnabled = False, cp_noShowReportedCount = 0\<rparr>], professionalProfiles = [\<lparr>pp_id =
     12, pp_userId = 2, pp_firstName = ''Bruno'', pp_lastName = ''P'', pp_displayName = None, pp_country = AR, pp_bio
     = [], pp_photoUrl = None, pp_languages = [], pp_verificationStatus = UNVERIFIED, pp_locationSharingEnabled =
     False, pp_noShowReportedCount = 0, pp_specializations = [\<lparr>spec_categoryId = 20, spec_role = PRIMARY,
     spec_description = [], spec_yearsOfExperience = None, spec_order = 0\<rparr>]\<rparr>, \<lparr>pp_id = 13,
     pp_userId = 3, pp_firstName = ''Carla'', pp_lastName = ''P'', pp_displayName = None, pp_country = AR, pp_bio =
     [], pp_photoUrl = None, pp_languages = [], pp_verificationStatus = UNVERIFIED, pp_locationSharingEnabled = False,
     pp_noShowReportedCount = 0, pp_specializations = [\<lparr>spec_categoryId = 20, spec_role = PRIMARY,
     spec_description = [], spec_yearsOfExperience = None, spec_order = 0\<rparr>]\<rparr>], serviceRequests = [],
     quotes = [], negotiationMessages = [], priceProposals = [], engagements = [], conversations = [], chatMessages =
     [], appointments = [], paymentAttempts = [], ledgerEntries = [], reviews = [], srUploadRefs = [], mediaUploadRefs
     = [], photoUploadRefs = [], srAttachments = [], quoteAttachments = [], platformSettings = [\<lparr>ps_key =
     ''notifications.email.provider'', ps_valueType = STRING, ps_isEncrypted = False, ps_isPublic = False, ps_value =
     Some ''MAILPIT'', ps_secret = None\<rparr>, \<lparr>ps_key = ''payments.general-settings.commission.percent'',
     ps_valueType = NUMBER, ps_isEncrypted = False, ps_isPublic = False, ps_value = Some ''10'', ps_secret =
     None\<rparr>, \<lparr>ps_key = ''quote-negotiation.price-edit.customer-can-propose'', ps_valueType = BOOLEAN,
     ps_isEncrypted = False, ps_isPublic = False, ps_value = Some ''true'', ps_secret = None\<rparr>, \<lparr>ps_key =
     ''identity.didit.sandbox.api-key'', ps_valueType = STRING, ps_isEncrypted = False, ps_isPublic = False, ps_value
     = Some ''k'', ps_secret = None\<rparr>, \<lparr>ps_key = ''identity.didit.sandbox.workflow-id'', ps_valueType =
     STRING, ps_isEncrypted = False, ps_isPublic = False, ps_value = Some ''w'', ps_secret = None\<rparr>,
     \<lparr>ps_key = ''identity.didit.sandbox.webhook-secret'', ps_valueType = STRING, ps_isEncrypted = False,
     ps_isPublic = False, ps_value = Some ''s'', ps_secret = None\<rparr>], categories = [\<lparr>cat_id = 20,
     cat_name = ''plumbing'', cat_displayOrder = 0, cat_parentId = None\<rparr>], auditLog = []\<rparr>,
     \<lparr>id_nextId = 2, accounts = [\<lparr>acc_id = 0, acc_firstName = Some ''Dora'', acc_lastName = Some ''D'',
     acc_email = ''d@x'', acc_passwordHash = Some ''hpw'', acc_phoneCountryCode = Some ''+54'', acc_phoneNumber = Some
     ''1155551234'', acc_dateOfBirth = Some 0, acc_acceptedTermsAndPrivacy = True, acc_authProvider = PASSWORD,
     acc_socialProviderSubject = None, acc_accountStatus = PENDING_APPROVAL, acc_createdAt = 1000\<rparr>],
     verificationCodes = [\<lparr>code_id = 1, code_userId = 0, code_codeHash = ''#000005'', code_expiresAt = 901000,
     code_attemptsCount = 0, code_consumedAt = Some 2000, code_invalidatedAt = None, code_createdAt = 1000\<rparr>],
     resetCodes = [], sessions = [], verifications = [], outbox = [(''d@x'', ''000005'')]\<rparr>)"
  by code_simp

lemma verifying_rows [code]:
  "verifying = verified\<lparr>id_nextId := 3,
     accounts := [\<lparr>acc_id = 0, acc_firstName = Some ''Dora'', acc_lastName = Some ''D'', acc_email = ''d@x'',
       acc_passwordHash = Some ''hpw'', acc_phoneCountryCode = Some ''+54'', acc_phoneNumber = Some ''1155551234'',
       acc_dateOfBirth = Some 0, acc_acceptedTermsAndPrivacy = True, acc_authProvider = PASSWORD,
       acc_socialProviderSubject = None, acc_accountStatus = PENDING_APPROVAL, acc_createdAt = 1000\<rparr>],
     verifications := [\<lparr>iv_id = 2, iv_userId = 0, iv_country = AR, iv_provider = ''didit'',
       iv_providerReference = Some ''ref'', iv_documentType = UNKNOWN, iv_documentCheckPassed = None,
       iv_biometricCheckPassed = None, iv_status = IdentityVerificationStatus.PENDING, iv_createdAt = 4000\<rparr>]\<rparr>"
  by code_simp

lemma approvedAccount_rows [code]:
  "approvedAccount = verifying\<lparr>accounts := [\<lparr>acc_id = 0, acc_firstName = Some ''Dora'', acc_lastName = Some ''D'', acc_email = ''d@x'',
       acc_passwordHash = Some ''hpw'', acc_phoneCountryCode = Some ''+54'', acc_phoneNumber = Some ''1155551234'',
       acc_dateOfBirth = Some 0, acc_acceptedTermsAndPrivacy = True, acc_authProvider = PASSWORD,
       acc_socialProviderSubject = None, acc_accountStatus = UserAccountStatus.APPROVED, acc_createdAt = 1000\<rparr>],
     verifications := [\<lparr>iv_id = 2, iv_userId = 0, iv_country = AR, iv_provider = ''didit'',
       iv_providerReference = Some ''ref'', iv_documentType = PASSPORT, iv_documentCheckPassed = Some True,
       iv_biometricCheckPassed = Some True, iv_status = IdentityVerificationStatus.APPROVED, iv_createdAt =
       4000\<rparr>]\<rparr>"
  by code_simp

lemma ran: "\<not> isl r \<Longrightarrow> \<exists>x. r = Inr (x, snd (projr r))"
  by (cases r) auto

lemma onboarded_done:
  "\<exists>x. upsertCustomerProfile 3000 0 \<lparr>ucp_firstName = ''Dora'', ucp_lastName = ''D'', ucp_country = None,
     ucp_photoUploadRef = None, ucp_locationSharingEnabled = None\<rparr> (diditDb, verified) = Inr (x, onboarded)"
  unfolding onboarded_def by (rule ran, code_simp)

lemma verifying_done:
  "\<exists>x. startIdentityVerification (\<lambda>_ _ _. Some (''ref'', ''url'')) 4000 0 (fst onboarded, snd onboarded) = Inr (x, verifying)"
  unfolding verifying_def surjective_pairing [symmetric]
  by (rule ran, code_simp)

lemma approved_done:
  "handleWebhook (\<lambda>secret body. secret @ body) (\<lambda>_. Some (iv_id (hd (verifications verifying))))
     approvingPayload 5000 ''body'' (Some ''sbody'') (Some ''5'') (fst onboarded, verifying) = Inr approvedAccount"
  unfolding approvedAccount_def
  by (rule committed, code_simp)

lemma approved_reached: "(account_step demoCrypto demoPolicy demoPolicy)\<^sup>*\<^sup>* (onlineDb, emptyIdentity) (fst onboarded, approvedAccount)"
proof -
  let ?s = "account_step demoCrypto demoPolicy demoPolicy"
  have market: "?s (onlineDb, verified) (diditDb, verified)"
    by (rule Market) (simp add: diditDb_def)
  have onb: "?s (diditDb, verified) onboarded" using onboarded_done by (auto intro: UpsertCustomer)
  obtain x where "startIdentityVerification (\<lambda>_ _ _. Some (''ref'', ''url'')) 4000 0 (fst onboarded, snd onboarded) = Inr (x, verifying)"
    using verifying_done by (rule exE)
  then have "?s (fst onboarded, snd onboarded) (fst onboarded, verifying)" by (rule StartVerification)
  then have ver: "?s onboarded (fst onboarded, verifying)" by simp
  have web: "?s (fst onboarded, verifying) (fst onboarded, approvedAccount)" by (rule Webhook [OF approved_done])
  show ?thesis
    using verified_reached [of demoPolicy] market onb ver web by (meson rtranclp.rtrancl_into_rtrancl)
qed

text \<open>
  C31.  Decisions have reasons.  Starting from no account at all and along any sequence of calls of the
  account services, anything else the marketplace does in between, an account is APPROVED only if an
  identity verification of that account came back with both checks passed, and REJECTED only if one
  came back with a check failed - or an administrator changed the account, which is in the audit log.
\<close>

theorem decisions_have_reasons:
  assumes "(account_step cr vp rp)\<^sup>*\<^sup>* (db, emptyIdentity) (db', s)" "a \<in> set (accounts s)"
  shows "(acc_accountStatus a = UserAccountStatus.APPROVED \<longrightarrow>
      (\<exists>v\<in>set (verifications s). iv_userId v = acc_id a \<and> iv_documentCheckPassed v = Some True
         \<and> iv_biometricCheckPassed v = Some True)
      \<or> (\<exists>l\<in>set (auditLog db'). accountUpdateRow (acc_id a) l))
    \<and> (acc_accountStatus a = UserAccountStatus.REJECTED \<longrightarrow>
      (\<exists>v\<in>set (verifications s). iv_userId v = acc_id a
         \<and> (iv_documentCheckPassed v = Some False \<or> iv_biometricCheckPassed v = Some False))
      \<or> (\<exists>l\<in>set (auditLog db'). accountUpdateRow (acc_id a) l))"
proof -
  have ok: "platformOk vp rp (db', s)"
    using account_steps_keep [OF assms(1) emptyIdentity_ok] by (simp add: platformKept_def)
  have "iv_status v = resolveIdentityVerificationStatus (iv_documentCheckPassed v) (iv_biometricCheckPassed v)"
    if "v \<in> set (verifications s)" for v
    using ok that by (simp add: platformOk_def identityOk_def)
  moreover have "settled a \<Longrightarrow> accountedFor (db', s) a" using ok assms(2) by (simp add: platformOk_def)
  ultimately show ?thesis
    by (fastforce simp: settled_def accountedFor_def decidedBy_def resolveIdentityVerificationStatus_def split: if_splits)
qed

lemma decisions_have_reasons_witness:
  "\<exists>v\<in>set (verifications approvedAccount). iv_userId v = 0 \<and> iv_documentCheckPassed v = Some True
     \<and> iv_biometricCheckPassed v = Some True"
proof -
  let ?a = "hd (accounts approvedAccount)"
  have "?a \<in> set (accounts approvedAccount)" "acc_id ?a = 0" "acc_accountStatus ?a = UserAccountStatus.APPROVED"
    "auditLog (fst onboarded) = []"
    by code_simp+
  then show ?thesis using decisions_have_reasons [OF approved_reached, of ?a] by auto
qed

text \<open>
  C32.  The history of an account's secrets.  Along any sequence of calls an account has at most one
  active code of each kind, no code takes more wrong guesses than its policy allows, a code keeps its
  owner, its hash and its expiry and once used or replaced stays so, a session that is over and a
  settled identity verification stay as they are, and no two accounts share an address.
\<close>

theorem account_history:
  assumes "(account_step cr vp rp)\<^sup>*\<^sup>* (db, emptyIdentity) (db1, s)" "(account_step cr vp rp)\<^sup>*\<^sup>* (db1, s) (db2, t)"
  shows "(\<forall>u. countWhere (isActiveCode u) (verificationCodes t) \<le> 1 \<and> countWhere (isActiveCode u) (resetCodes t) \<le> 1)
    \<and> (\<forall>c. c \<in> set (verificationCodes t) \<longrightarrow> code_attemptsCount c \<le> maxAttempts vp)
    \<and> (\<forall>c. c \<in> set (resetCodes t) \<longrightarrow> code_attemptsCount c \<le> maxAttempts rp)
    \<and> (\<forall>c. c \<in> set (verificationCodes s) \<longrightarrow> (\<exists>c'\<in>set (verificationCodes t). codeEvolves c c'))
    \<and> (\<forall>c. c \<in> set (resetCodes s) \<longrightarrow> (\<exists>c'\<in>set (resetCodes t). codeEvolves c c'))
    \<and> (\<forall>x. x \<in> set (sessions s) \<and> ses_status x \<noteq> SessionStatus.ACTIVE \<longrightarrow> x \<in> set (sessions t))
    \<and> (\<forall>v. v \<in> set (verifications s) \<and> iv_status v \<noteq> IdentityVerificationStatus.PENDING \<longrightarrow> v \<in> set (verifications t))
    \<and> distinct (map acc_email (accounts t))"
proof -
  have s: "platformOk vp rp (db1, s)"
    using account_steps_keep [OF assms(1) emptyIdentity_ok] by (simp add: platformKept_def)
  note k = account_steps_keep [OF assms(2) s]
  have t: "identityOk vp rp t" and e: "identityEvolves s t" using k by (simp_all add: platformKept_def platformOk_def)
  have "x \<in> set (sessions t)" if "x \<in> set (sessions s)" "ses_status x \<noteq> SessionStatus.ACTIVE" for x
    using identityEvolves_mem(4) [OF e that(1)] that(2) by (auto simp: sessionEvolves_def)
  moreover have "v \<in> set (verifications t)"
    if "v \<in> set (verifications s)" "iv_status v \<noteq> IdentityVerificationStatus.PENDING" for v
    using identityEvolves_mem(1) [OF e that(1)] that(2) by (auto simp: verificationEvolves_def)
  ultimately show ?thesis
    using t identityEvolves_mem(2,3) [OF e] by (simp add: identityOk_def codesOk_def) blast
qed

lemma account_history_witness:
  "countWhere (isActiveCode 0) (verificationCodes registered) = 1
   \<and> countWhere (isActiveCode 0) (verificationCodes verified) \<le> 1
   \<and> (\<exists>c'\<in>set (verificationCodes verified). codeEvolves (hd (verificationCodes registered)) c' \<and> code_consumedAt c' = Some 2000)"
proof -
  have step: "(account_step demoCrypto demoPolicy demoPolicy)\<^sup>*\<^sup>* (onlineDb, registered) (onlineDb, verified)"
    by (rule r_into_rtranclp, rule VerifyEmail [OF verify_demo])
  note h = account_history [OF registered_reached step]
  have "hd (verificationCodes registered) \<in> set (verificationCodes registered)"
    "countWhere (isActiveCode 0) (verificationCodes registered) = 1"
    "list_all (\<lambda>c. code_consumedAt c = Some 2000) (verificationCodes verified)"
    by code_simp+
  then show ?thesis using h by (auto simp: list_all_iff)
qed

text \<open>
  C33.  A session.  A login opens a session for an account with the right password and a status that
  may log in; its token authenticates exactly that account until the session's time has come, and not
  any more once the session has been logged out.  The token is fresh.
\<close>

theorem login_round_trip:
  assumes "login cr decoy ttl now token email pw s = Inr (p, s')" "token \<noteq> []"
    and "sha256 cr token \<notin> ses_tokenHash ` set (sessions s)"
  shows "\<exists>a h. findByEmail s email = Some a \<and> acc_passwordHash a = Some h \<and> verifyPassword cr h pw
    \<and> acc_accountStatus a \<in> {EMAIL_VERIFIED, UserAccountStatus.PENDING_APPROVAL, UserAccountStatus.APPROVED}
    \<and> lp_userId p = acc_id a
    \<and> (\<forall>t. fst (authenticateRequest cr t (Some (BEARER_PREFIX @ token)) s') =
         (if t < now + ttl * 3600000 then Inr (acc_id a) else Inl UNAUTHENTICATED))
    \<and> (\<forall>t t'. fst (authenticateRequest cr t' (Some (BEARER_PREFIX @ token)) (snd (logout cr t (Some token) s'))) = Inl UNAUTHENTICATED)"
proof -
  obtain a h where a: "findByEmail s email = Some a" "acc_passwordHash a = Some h" "verifyPassword cr h pw"
    "acc_accountStatus a \<in> {EMAIL_VERIFIED, UserAccountStatus.PENDING_APPROVAL, UserAccountStatus.APPROVED}"
    and o': "openSession cr ttl now token (acc_id a) s = (p, s')"
    using assms(1) by (auto simp: login_Inr_iff)
  have "\<forall>x\<in>set (sessions s). ses_tokenHash x \<noteq> sha256 cr token" using assms(3) by (metis image_eqI)
  from openSession_found [OF o' this] obtain x where x: "lp_userId p = acc_id a" "findByTokenHash s' (sha256 cr token) = Some x"
    "ses_status x = SessionStatus.ACTIVE" "ses_userId x = acc_id a" "ses_expiresAt x = now + ttl * 3600000"
    by blast
  show ?thesis
    using a x authenticate_token [OF assms(2) x(2)] authenticate_after_logout [OF assms(2) x(2)] by auto
qed

lemma login_round_trip_witness:
  "let (p, s) = projr (login demoCrypto ''?'' 24 3000 ''t1'' ''d@x'' ''pw'' verified) in
     fst (authenticateRequest demoCrypto 4000 (Some (BEARER_PREFIX @ ''t1'')) s) = Inr 0
     \<and> fst (authenticateRequest demoCrypto 100000000 (Some (BEARER_PREFIX @ ''t1'')) s) = Inl UNAUTHENTICATED"
proof -
  let ?r = "login demoCrypto ''?'' 24 3000 ''t1'' ''d@x'' ''pw'' verified"
  have "?r = Inr (projr ?r)" by (rule committed, code_simp)
  then have r: "?r = Inr (fst (projr ?r), snd (projr ?r))" by simp
  have fresh: "sha256 demoCrypto ''t1'' \<notin> ses_tokenHash ` set (sessions verified)"
    by code_simp
  have a: "map_option acc_id (findByEmail verified ''d@x'') = Some 0"
    by code_simp
  from login_round_trip [OF r _ fresh] a show ?thesis unfolding Let_def case_prod_unfold by auto
qed

text \<open>
  C34.  A reset password.  Once a reset has succeeded the account accepts exactly the new password,
  every session it had is over and no reset code of it is active; the other accounts keep their
  passwords.  The hash is taken to be exact.
\<close>

theorem reset_takes_effect:
  assumes "resetPassword cr pol now salt email code pw s = (ResetDone, s')" "identityOk vp rp s"
    and "\<And>p. verifyPassword cr (hashPassword cr salt pw) p = (p = pw)" "hashPassword cr salt pw \<noteq> []"
  shows "\<exists>a. findByEmail s email = Some a \<and> resetEligible a
    \<and> (\<forall>decoy ttl t token p. isl (login cr decoy ttl t token email p s') = (p \<noteq> pw))
    \<and> (\<forall>x. x \<in> set (sessions s') \<and> ses_userId x = acc_id a \<longrightarrow> ses_status x \<noteq> SessionStatus.ACTIVE)
    \<and> countWhere (isActiveCode (acc_id a)) (resetCodes s') = 0
    \<and> (\<forall>b. b \<in> set (accounts s) \<and> acc_id b \<noteq> acc_id a \<longrightarrow> b \<in> set (accounts s'))"
proof (rule resetPassword_done [OF assms(1)])
  fix a c
  assume a: "findByEmail s email = Some a" "resetEligible a"
    and acc: "accounts s' = updateMany (\<lambda>b. acc_id b = acc_id a) (\<lambda>b. b\<lparr>acc_passwordHash := Some (hashPassword cr salt pw)\<rparr>) (accounts s)"
    and cod: "resetCodes s' = invalidateOtherActiveCodes now (acc_id a) (code_id c) (consumeCode now (code_id c) (resetCodes s))"
    and ses: "sessions s' = updateMany (\<lambda>x. ses_userId x = acc_id a \<and> ses_status x = SessionStatus.ACTIVE) (revokeSessionRow now) (sessions s)"
  let ?a = "a\<lparr>acc_passwordHash := Some (hashPassword cr salt pw)\<rparr>"
  have found: "findByEmail s' email = Some ?a"
    using a(1) by (simp add: findByEmail_def acc findRow_updateMany_key)
  have status: "acc_accountStatus a \<in> {EMAIL_VERIFIED, UserAccountStatus.PENDING_APPROVAL, UserAccountStatus.APPROVED}"
    using a(2) by (auto simp: resetEligible_def isLoginEligibleStatus_def)
  have "isl (login cr decoy ttl t token email p s') = (p \<noteq> pw)" for decoy ttl t token p
  proof (cases "login cr decoy ttl t token email p s'")
    case (Inl e)
    have "p \<noteq> pw"
    proof
      assume "p = pw"
      then have "\<exists>r. login cr decoy ttl t token email p s' = Inr r"
        using found status assms(3,4) surj_pair [of "openSession cr ttl t token (acc_id a) s'"]
        by (fastforce simp: login_Inr_iff)
      then show False using Inl by simp
    qed
    then show ?thesis using Inl by simp
  next
    case (Inr r)
    then have "\<exists>b h. findByEmail s' email = Some b \<and> acc_passwordHash b = Some h \<and> verifyPassword cr h p"
      using login_Inr_iff [of cr decoy ttl t token email p s' "fst r" "snd r"] by auto
    then show ?thesis using Inr found assms(3) by simp
  qed
  moreover have "b \<in> set (accounts s')" if "b \<in> set (accounts s)" "acc_id b \<noteq> acc_id a" for b
    using that by (auto simp: acc set_updateMany)
  ultimately show ?thesis
    using a reset_sessions_over [of "acc_id a" now "sessions s"] reset_codes_dead [of "acc_id a" now]
    unfolding ses cod by blast
qed

definition loggedIn :: identity where
  "loggedIn = snd (projr (login demoCrypto ''?'' 24 3000 ''t1'' ''d@x'' ''pw'' verified))"

definition askedReset :: identity where
  "askedReset = projr (requestPasswordReset demoCrypto demoPolicy False onlineDb 3000 8 ''d@x'' loggedIn)"

lemma loggedIn_rows [code]:
  "loggedIn = verified\<lparr>id_nextId := 3,
     sessions := [\<lparr>ses_id = 2, ses_userId = 0, ses_tokenHash = ''#t1'', ses_status = SessionStatus.ACTIVE,
       ses_createdAt = 3000, ses_expiresAt = 86403000, ses_revokedAt = None\<rparr>]\<rparr>"
  by code_simp

lemma askedReset_rows [code]:
  "askedReset = loggedIn\<lparr>id_nextId := 4,
     resetCodes := [\<lparr>code_id = 3, code_userId = 0, code_codeHash = ''#000008'', code_expiresAt = 903000,
       code_attemptsCount = 0, code_consumedAt = None, code_invalidatedAt = None, code_createdAt = 3000\<rparr>],
     outbox := [(''d@x'', ''000005''), (''d@x'', ''000008'')]\<rparr>"
  by code_simp

lemma askedReset_ok: "identityOk demoPolicy demoPolicy askedReset"
proof -
  let ?s = "account_step demoCrypto demoPolicy demoPolicy"
  have "\<exists>x. login demoCrypto ''?'' 24 3000 ''t1'' ''d@x'' ''pw'' verified = Inr (x, loggedIn)"
    unfolding loggedIn_def by (rule ran, code_simp)
  then have log: "?s (onlineDb, verified) (onlineDb, loggedIn)" by (auto intro: Login)
  have "requestPasswordReset demoCrypto demoPolicy False onlineDb 3000 8 ''d@x'' loggedIn = Inr askedReset"
    unfolding askedReset_def by (rule committed, code_simp)
  then have ask: "?s (onlineDb, loggedIn) (onlineDb, askedReset)" by (rule RequestReset)
  have "?s\<^sup>*\<^sup>* (onlineDb, emptyIdentity) (onlineDb, askedReset)"
    using verified_reached [of demoPolicy] log ask by (meson rtranclp.rtrancl_into_rtrancl)
  from account_steps_keep [OF this emptyIdentity_ok] show ?thesis by (simp add: platformKept_def platformOk_def)
qed

lemma reset_takes_effect_witness:
  "let s = snd (resetPassword demoCrypto demoPolicy 4000 9 ''d@x'' ''000008'' ''new'' askedReset) in
     isl (login demoCrypto ''?'' 24 5000 ''t2'' ''d@x'' ''pw'' s) \<and> \<not> isl (login demoCrypto ''?'' 24 5000 ''t2'' ''d@x'' ''new'' s)"
proof -
  let ?r = "resetPassword demoCrypto demoPolicy 4000 9 ''d@x'' ''000008'' ''new'' askedReset"
  have "fst ?r = ResetDone" by code_simp
  then have r: "?r = (ResetDone, snd ?r)" by (metis prod.collapse)
  have exact: "verifyPassword demoCrypto (hashPassword demoCrypto 9 ''new'') p = (p = ''new'')"
    and nonempty: "hashPassword demoCrypto 9 ''new'' \<noteq> []" for p
    by (auto simp: demoCrypto_def)
  from reset_takes_effect [OF r askedReset_ok exact nonempty] show ?thesis unfolding Let_def by force
qed

section \<open>Administrators\<close>

text \<open>
  C35.  The panel is never locked.  Whatever the panel's services, run one after the other, do to
  roles and administrators, somebody who is ACTIVE and may manage administrators remains.
\<close>

theorem admins_never_locked_out:
  assumes "(panel_step cr)\<^sup>*\<^sup>* st st'" "panelSafe (snd st)"
  shows "\<exists>u\<in>set (adminUsers (snd st')). au_status u = AdminUserStatus.ACTIVE
    \<and> (\<exists>r\<in>set (adminRoles (snd st')). ar_id r = au_roleId u \<and> ADMIN_USERS_MANAGE \<in> set (ar_permissions r))"
proof -
  have safe: "panelSafe (snd st')" by (rule panel_steps_safe [OF assms])
  then obtain u where u: "u \<in> set (adminUsers (snd st'))" "holdsManage (snd st') u"
    by (auto simp: panelSafe_def managed_def)
  obtain r where r: "findRoleById (snd st') (au_roleId u) = Some r"
    using safe u(1) by (auto simp: panelSafe_def panelOk_def)
  then have "r \<in> set (adminRoles (snd st')) \<and> ar_id r = au_roleId u"
    by (auto simp: findRoleById_def dest: findRow_SomeD findRow_in)
  moreover have "au_status u = AdminUserStatus.ACTIVE \<and> ADMIN_USERS_MANAGE \<in> set (ar_permissions r)"
    using u(2) r by (simp add: holdsManage_def permissionsOfRole_def)
  ultimately show ?thesis using u(1) by blast
qed

lemma admins_never_locked_out_witness:
  "updateAdminUser 10 2 (setAdminStatus AdminUserStatus.REVOKED) invitedPanel = Inl WOULD_LOCK_OUT_ADMIN_MANAGEMENT
   \<and> (\<exists>u\<in>set (adminUsers (snd invitedPanel)). au_status u = AdminUserStatus.ACTIVE)"
proof
  show "updateAdminUser 10 2 (setAdminStatus AdminUserStatus.REVOKED) invitedPanel = Inl WOULD_LOCK_OUT_ADMIN_MANAGEMENT"
    unfolding invitedPanel_def by code_simp
  have "inviteAdminUser demoCrypto demoInvite False 1000 ''tok'' 2 ''new@x'' ''New'' 1 demoPanel = Inr invitedPanel"
    unfolding invitedPanel_def by (rule committed) code_simp
  then have "(panel_step demoCrypto)\<^sup>*\<^sup>* demoPanel invitedPanel" by (intro r_into_rtranclp Invite)
  from admins_never_locked_out [OF this demoPanel_safe]
  show "\<exists>u\<in>set (adminUsers (snd invitedPanel)). au_status u = AdminUserStatus.ACTIVE" by blast
qed

section \<open>Settings\<close>

text \<open>
  C36.  A setting reads back.  A setting that was accepted is found under its key with its new value
  and its flags, every other setting is as before, and its value is one its type admits; an encrypted
  setting is never public and its value is kept apart.
\<close>

theorem settings_read_back:
  assumes "setPlatformSetting admin input db = Inr db'" "sps_value input \<noteq> []"
  shows "getValue db' (sps_key input) = Some (sps_value input)
    \<and> (\<exists>row. findSettingByKey db' (sps_key input) = Some row \<and> ps_isPublic row = sps_isPublic input
        \<and> ps_isEncrypted row = sps_isEncrypted input \<and> \<not> (ps_isEncrypted row \<and> ps_isPublic row)
        \<and> (ps_value row \<noteq> None \<longleftrightarrow> \<not> ps_isEncrypted row))
    \<and> (\<forall>key. key \<noteq> sps_key input \<longrightarrow> findSettingByKey db' key = findSettingByKey db key)
    \<and> (sps_valueType input = BOOLEAN \<longrightarrow> sps_value input = ''true'' \<or> sps_value input = ''false'')
    \<and> (sps_valueType input = BOOLEAN \<and> \<not> sps_isEncrypted input \<longrightarrow> isEnabled db' (sps_key input) = (sps_value input = ''true''))
    \<and> (sps_valueType input = NUMBER \<longrightarrow> (\<exists>q. Number (sps_value input) = Finite q))"
proof -
  have ok: "assertValueParses (sps_value input) (sps_valueType input) = None" "\<not> (sps_isEncrypted input \<and> sps_isPublic input)"
    using assms by (auto simp: setPlatformSetting_def isNoOpEncryptedUpdate_def split: if_splits option.splits)
  obtain row where db': "db' = writeSettingAudit admin ''PLATFORM_SETTING_SET'' (sps_key input) (upsertSetting row db)"
    and row: "row = \<lparr>ps_key = sps_key input, ps_valueType = sps_valueType input, ps_isEncrypted = sps_isEncrypted input,
              ps_isPublic = sps_isPublic input, ps_value = (if sps_isEncrypted input then None else Some (sps_value input)),
              ps_secret = (if sps_isEncrypted input then Some (sps_value input) else None)\<rparr>"
    using assms by (auto simp: setPlatformSetting_def isNoOpEncryptedUpdate_def split: if_splits option.splits)
  have "findSettingByKey db' (sps_key input) = Some row"
    "\<forall>key. key \<noteq> sps_key input \<longrightarrow> findSettingByKey db' key = findSettingByKey db key"
    by (simp_all add: db' findSetting_upsert row)
  moreover have "sps_valueType input = BOOLEAN \<Longrightarrow> sps_value input = ''true'' \<or> sps_value input = ''false''"
    "sps_valueType input = NUMBER \<Longrightarrow> \<exists>q. Number (sps_value input) = Finite q"
    using ok(1) assms(2) by (auto simp: assertValueParses_def split: if_splits js_number.splits)
  ultimately show ?thesis using ok(2) row by (auto simp: getValue_def isEnabled_def)
qed

lemma settings_read_back_witness:
  "let db = projr (setPlatformSetting 2 \<lparr>sps_key = IDENTITY_ENABLED, sps_valueType = BOOLEAN, sps_isEncrypted = False,
       sps_isPublic = True, sps_value = ''false''\<rparr> demoDb)
   in getValue db IDENTITY_ENABLED = Some ''false'' \<and> \<not> isEnabled db IDENTITY_ENABLED"
proof -
  let ?i = "\<lparr>sps_key = IDENTITY_ENABLED, sps_valueType = BOOLEAN, sps_isEncrypted = False,
       sps_isPublic = True, sps_value = ''false''\<rparr>"
  have r: "setPlatformSetting 2 ?i demoDb = Inr (projr (setPlatformSetting 2 ?i demoDb))" by (rule committed) code_simp
  from settings_read_back [OF r] show ?thesis unfolding Let_def by simp
qed

definition shownRow :: "db \<Rightarrow> PlatformSetting \<Rightarrow> bool" where
  "shownRow db r \<longleftrightarrow> r \<in> set (platformSettings db) \<and> ps_isPublic r \<and> \<not> ps_isEncrypted r \<and> resolveValue r \<noteq> None"

lemma shown_rows: "set (sort_key (rank \<circ> ps_key) (findPublicSettings db)) = {r \<in> set (platformSettings db). ps_isPublic r \<and> \<not> ps_isEncrypted r}"
  by (auto simp: findPublicSettings_def)

lemma configuration_sound:
  "leafAt q (listPlatformConfig rank db) = Some w \<Longrightarrow> (\<exists>r. shownRow db r \<and> resolveValue r = Some w \<and> configPath (ps_key r) = q)
      \<or> (\<exists>(k, d)\<in>set KNOWN_PLATFORM_CONFIG_BOOLEAN_DEFAULTS. configPath k = q \<and> w = BoolLeaf d)"
  using leafAt_defaults_SomeD [of q _ KNOWN_PLATFORM_CONFIG_BOOLEAN_DEFAULTS w]
    leafAt_rows_SomeD [of q "[]" "sort_key (rank \<circ> ps_key) (findPublicSettings db)" w]
  unfolding listPlatformConfig_def applyKnownBooleanDefaults_fold shown_rows shownRow_def by force

lemma configuration_rows:
  assumes "shownRow db r" "resolveValue r = Some v"
    and "\<forall>s. shownRow db s \<longrightarrow> s = r \<or> \<not> comparable (configPath (ps_key s)) (configPath (ps_key r))"
  shows "leafAt (configPath (ps_key r)) (listPlatformConfig rank db) = Some v"
  unfolding listPlatformConfig_def applyKnownBooleanDefaults_fold
  by (rule leafAt_defaults_keep, rule leafAt_rows)
     (use assms in \<open>auto simp: shownRow_def findPublicSettings_def\<close>)

lemma defaults_apart:
  "\<forall>(k, d)\<in>set KNOWN_PLATFORM_CONFIG_BOOLEAN_DEFAULTS. \<forall>(k', d')\<in>set KNOWN_PLATFORM_CONFIG_BOOLEAN_DEFAULTS.
     (k', d') = (k, d) \<or> \<not> comparable (configPath k') (configPath k)"
  by code_simp

lemma configuration_defaults:
  assumes "(k, d) \<in> set KNOWN_PLATFORM_CONFIG_BOOLEAN_DEFAULTS"
    and "\<forall>s. shownRow db s \<longrightarrow> \<not> comparable (configPath (ps_key s)) (configPath k)"
  shows "leafAt (configPath k) (listPlatformConfig rank db) = Some (BoolLeaf d)"
  unfolding listPlatformConfig_def applyKnownBooleanDefaults_fold
proof (rule leafAt_defaults [OF _ _ assms(1)])
  let ?rows = "sort_key (rank \<circ> ps_key) (findPublicSettings db)"
  show "free (configPath k) (foldl assignRow [] ?rows)"
    by (rule free_rows) (use assms(2) in \<open>auto simp: free_Nil shownRow_def findPublicSettings_def\<close>)
  show "leafAt (configPath k) (foldl assignRow [] ?rows) = None"
  proof (rule ccontr)
    assume "leafAt (configPath k) (foldl assignRow [] ?rows) \<noteq> None"
    then obtain w where "leafAt (configPath k) (foldl assignRow [] ?rows) = Some w" by blast
    then obtain r where "r \<in> set ?rows" "resolveValue r = Some w" "configPath (ps_key r) = configPath k"
      using leafAt_rows_SomeD by force
    then have "shownRow db r" "comparable (configPath (ps_key r)) (configPath k)"
      by (auto simp: shownRow_def findPublicSettings_def comparable_def)
    then show False using assms(2) by blast
  qed
  show "\<forall>(k', d')\<in>set KNOWN_PLATFORM_CONFIG_BOOLEAN_DEFAULTS. (k', d') = (k, d) \<or> \<not> comparable (configPath k') (configPath k)"
    using defaults_apart assms(1) by fastforce
qed

text \<open>
  C37.  What everybody may read.  The public configuration holds nothing but the values of public,
  unencrypted settings, each at the path its key spells, and the known defaults; every such setting
  whose path is not a part of another's is there, and a known default is there unless a public setting
  is in its way.
\<close>

theorem public_config_exact:
  "(\<forall>q w. leafAt q (listPlatformConfig rank db) = Some w \<longrightarrow>
      (\<exists>r. shownRow db r \<and> resolveValue r = Some w \<and> configPath (ps_key r) = q)
      \<or> (\<exists>(k, d)\<in>set KNOWN_PLATFORM_CONFIG_BOOLEAN_DEFAULTS. configPath k = q \<and> w = BoolLeaf d))
   \<and> (\<forall>r v. shownRow db r \<and> resolveValue r = Some v
        \<and> (\<forall>s. shownRow db s \<longrightarrow> s = r \<or> \<not> comparable (configPath (ps_key s)) (configPath (ps_key r))) \<longrightarrow>
      leafAt (configPath (ps_key r)) (listPlatformConfig rank db) = Some v)
   \<and> (\<forall>k d. (k, d) \<in> set KNOWN_PLATFORM_CONFIG_BOOLEAN_DEFAULTS
        \<and> (\<forall>s. shownRow db s \<longrightarrow> \<not> comparable (configPath (ps_key s)) (configPath k)) \<longrightarrow>
      leafAt (configPath k) (listPlatformConfig rank db) = Some (BoolLeaf d))"
  using configuration_sound configuration_rows configuration_defaults by blast

definition publicDb :: db where
  "publicDb = demoDb\<lparr>platformSettings := (setting ''identity.enabled'' BOOLEAN ''true'')\<lparr>ps_isPublic := True\<rparr>
     # platformSettings demoDb\<rparr>"

lemma public_config_exact_witness:
  "leafAt [''identity'', ''enabled''] (listPlatformConfig (\<lambda>_. 0) publicDb) = Some (BoolLeaf True)
   \<and> leafAt [''customer'', ''socialLogin'', ''apple'', ''enabled''] (listPlatformConfig (\<lambda>_. 0) publicDb) = Some (BoolLeaf False)"
proof -
  let ?r = "(setting ''identity.enabled'' BOOLEAN ''true'')\<lparr>ps_isPublic := True\<rparr>"
  let ?k = "''customer.social-login.apple.enabled''"
  have rows: "platformSettings publicDb = ?r # platformSettings demoDb" by (simp add: publicDb_def)
  have "filter ps_isPublic (platformSettings demoDb) = []" by code_simp
  then have only: "shownRow publicDb s \<longleftrightarrow> s = ?r" for s
    by (auto simp: shownRow_def rows filter_empty_conv setting_def resolveValue_def)
  have v: "resolveValue ?r = Some (BoolLeaf True)" "configPath (ps_key ?r) = [''identity'', ''enabled'']"
    "configPath ?k = [''customer'', ''socialLogin'', ''apple'', ''enabled'']"
    "(?k, False) \<in> set KNOWN_PLATFORM_CONFIG_BOOLEAN_DEFAULTS" by code_simp+
  note p = public_config_exact [of "\<lambda>_. 0" publicDb, THEN conjunct2]
  note row = p [THEN conjunct1, rule_format, of ?r] and default = p [THEN conjunct2, rule_format, of ?k False]
  have "leafAt (configPath (ps_key ?r)) (listPlatformConfig (\<lambda>_. 0) publicDb) = Some (BoolLeaf True)"
    by (rule row) (use only v(1) in simp)
  moreover have "\<not> comparable (configPath (ps_key ?r)) (configPath ?k)" unfolding v by simp
  then have "leafAt (configPath ?k) (listPlatformConfig (\<lambda>_. 0) publicDb) = Some (BoolLeaf False)"
    by (intro default) (use only v(4) in simp)
  ultimately show ?thesis unfolding v by blast
qed

section \<open>Categories\<close>

text \<open>
  C38.  The order of the categories.  For a well-formed tree both recursions end; the list has every
  category exactly once and each after its parent, the nested tree has the same categories in the same
  order, and below every node are exactly its children, ordered by displayOrder and name.
\<close>

theorem category_order:
  assumes "categoriesOk d"
  shows "\<exists>out ts. findAllCategories collate d = Some out \<and> findCategoryTree collate d = Some ts
    \<and> distinct out \<and> set out = set (categories d) \<and> concat (map flatten ts) = map cat_id out
    \<and> (\<forall>c. c \<in> set out \<longrightarrow> cat_parentId c = None
         \<or> (\<exists>xs ys q. out = xs @ c # ys \<and> q \<in> set xs \<and> cat_parentId c = Some (cat_id q)))
    \<and> list_all2 shownAs ts (childrenOf (orderedCategories collate d) None)
    \<and> list_all (faithfulNode (orderedCategories collate d)) ts"
  using categories_in_order [OF assms, of collate] listed_after_parent by meson

lemma category_order_witness:
  "\<exists>out. findAllCategories (\<lambda>_. 0) demoDb = Some out \<and> map cat_id out = [20]"
proof -
  let ?c = "\<lparr>cat_id = 20, cat_name = ''plumbing'', cat_displayOrder = 0, cat_parentId = None\<rparr>"
  have c: "categories demoDb = [?c]" and "nextId demoDb = 100" by (simp_all add: demoDb_def)
  then have "categoriesOk demoDb" by (simp add: categoriesOk_def parentOf_def acyclic_def)
  from category_order [OF this, of "\<lambda>_. 0"] obtain out where
    out: "findAllCategories (\<lambda>_. 0) demoDb = Some out" "distinct out" "set out = {?c}" unfolding c by auto
  then have "length out = Suc 0" using distinct_card [of out] by simp
  then obtain x where "out = [x]" by (auto simp only: length_Suc_conv length_0_conv)
  then have "out = [?c]" using out(3) by simp
  then show ?thesis using out(1) by simp
qed

section \<open>What the code does not guarantee\<close>

text \<open>
  A rejection can be undone with a code.  The verification of an address does not look
  at the account's status, so an account an administrator has rejected before its address was verified
  becomes EMAIL_VERIFIED with the code that is in the mailbox, and can log in.
\<close>

definition rejectedAccount :: platform where
  "rejectedAccount = projr (updateUserAccount 9 0 (demoUpdate None (Some UserAccountStatus.REJECTED)) (onlineDb, registered))"

lemma rejection_undone_by_code:
  "let s = snd (verifyEmailCode demoCrypto demoPolicy 2000 ''d@x'' ''000005'' (snd rejectedAccount)) in
     map acc_accountStatus (accounts (snd rejectedAccount)) = [UserAccountStatus.REJECTED]
     \<and> map acc_accountStatus (accounts s) = [EMAIL_VERIFIED]
     \<and> \<not> isl (login demoCrypto ''?'' 24 3000 ''t1'' ''d@x'' ''pw'' s)"
  unfolding rejectedAccount_def by code_simp

text \<open>
  A revoked administrator comes back with the invite.  Revoking an administrator leaves
  the invite usable, and accepting it makes the account ACTIVE whatever its status was.
\<close>

definition revokedPanel :: panel where
  "revokedPanel = projr (updateAdminUser 2 10 (setAdminStatus AdminUserStatus.REVOKED) invitedPanel)"

lemma revoked_invite_reactivates:
  "let a = snd (acceptAdminInvite demoCrypto 2000 3 ''tok'' ''mine'' (snd revokedPanel)) in
     map au_status (adminUsers (snd revokedPanel)) = [AdminUserStatus.ACTIVE, AdminUserStatus.REVOKED]
     \<and> map au_status (adminUsers a) = [AdminUserStatus.ACTIVE, AdminUserStatus.ACTIVE]
     \<and> \<not> isl (adminLogin demoCrypto ''?'' 3000 ''t2'' ''new@x'' ''mine'' (fst revokedPanel, a))"
  unfolding revokedPanel_def invitedPanel_def by code_simp

end
