(* ===== verification/Mercado_Pago.thy ===== *)
theory Mercado_Pago
  imports Provider_Payments Identity_Verification
begin

text \<open>
  The adapter of the payment provider (src/src/payments/adapters, utils and controllers): the requests
  to Mercado Pago's HTTP service, the translation of its answers, and the webhook with its signature.
  The service itself is the parameter \<^theory_text>\<open>http\<close>, any function from a request to an
  answer.  A body of JSON is given by what the declared interfaces read from it, where an absent field
  and null are \<^theory_text>\<open>None\<close>.  \<^theory_text>\<open>uuid\<close> spells an id,
  \<^theory_text>\<open>parseDate\<close> is the runtime's reading of a date, and \<^theory_text>\<open>hmac\<close> the
  hexadecimal HMAC-SHA256 of a text under a secret.  Case is changed for ASCII letters; the description
  of a payment, which is only shown, is left out.
\<close>

section \<open>Settings\<close>

datatype MercadoPagoEnvironment = sandbox | production

definition toLowerCase :: "string \<Rightarrow> string" where
  "toLowerCase = map lowerChar"

fun countryName :: "CountryCode \<Rightarrow> string" where
  "countryName AR = ''AR''"
| "countryName CO = ''CO''"

record MercadoPagoSettingKeys =
  mpk_accessToken :: string
  mpk_environment :: string
  mpk_webhookSecret :: string

definition mercadoPagoSettingKeys :: "CountryCode \<Rightarrow> MercadoPagoSettingKeys" where
  "mercadoPagoSettingKeys country = (let prefix = ''payments.mercadopago.'' @ toLowerCase (countryName country)
     in \<lparr>mpk_accessToken = prefix @ ''.access-token'', mpk_environment = prefix @ ''.environment'',
         mpk_webhookSecret = prefix @ ''.webhook-secret''\<rparr>)"

definition MERCADOPAGO_PUBLIC_BASE_URL :: string where "MERCADOPAGO_PUBLIC_BASE_URL = ''payments.mercadopago.public-base-url''"
definition WALLET_BACK_URL_SUCCESS :: string where "WALLET_BACK_URL_SUCCESS = ''payments.mercadopago.wallet.back-url-success''"
definition WALLET_BACK_URL_PENDING :: string where "WALLET_BACK_URL_PENDING = ''payments.mercadopago.wallet.back-url-pending''"
definition WALLET_BACK_URL_FAILURE :: string where "WALLET_BACK_URL_FAILURE = ''payments.mercadopago.wallet.back-url-failure''"

section \<open>Messages\<close>

text \<open>An amount may be spelled as a string or be a number; of a payment of an order only its
  status detail is read.\<close>

datatype RawAmount = AmountString string | AmountNumber js_number

record MercadoPagoOrder =
  mo_id :: "string option"
  mo_status :: "string option"
  mo_status_detail :: "string option"
  mo_external_reference :: "string option"
  mo_total_amount :: "RawAmount option"
  mo_currency :: "string option"
  mo_paymentDetails :: "string option list"

record MercadoPagoCharge =
  mc_type :: "string option"
  mc_from :: "string option"
  mc_original :: "rat option"

record MercadoPagoFee =
  mf_fee_payer :: "string option"
  mf_amount :: "rat option"

text \<open>The id of a payment is a number or a string; it is given as \<^theory_text>\<open>String\<close> prints it.\<close>

record MercadoPagoPaymentRecord =
  mr_id :: "string option"
  mr_status :: "string option"
  mr_status_detail :: "string option"
  mr_external_reference :: "string option"
  mr_transaction_amount :: "js_number option"
  mr_currency_id :: "string option"
  mr_payment_type_id :: "string option"
  mr_payment_method_id :: "string option"
  mr_last_four_digits :: "string option"
  mr_charges_details :: "MercadoPagoCharge list option"
  mr_fee_details :: "MercadoPagoFee list option"
  mr_net_received_amount :: "js_number option"
  mr_date_approved :: "string option"
  mr_money_release_date :: "string option"
  mr_references :: "string option list"

record MercadoPagoPreferenceResponse =
  mpr_id :: "string option"
  mpr_init_point :: "string option"
  mpr_sandbox_init_point :: "string option"

record MercadoPagoBody =
  body_order :: MercadoPagoOrder
  body_data :: "MercadoPagoOrder option"
  body_record :: MercadoPagoPaymentRecord
  body_results :: "MercadoPagoPaymentRecord list option"
  body_preference :: MercadoPagoPreferenceResponse

datatype HttpAnswer = NoAnswer | Answer int "MercadoPagoBody option"

record OrderRequest =
  or_external_reference :: string
  or_total_amount :: string
  or_payer_email :: string
  or_payment_method_id :: string
  or_payment_method_type :: string
  or_token :: string
  or_installments :: "int option"

record MercadoPagoPreferenceBackUrls =
  bu_success :: string
  bu_pending :: string
  bu_failure :: string

record MercadoPagoPreferenceRequest =
  pr_currency_id :: string
  pr_unit_price :: int
  pr_external_reference :: string
  pr_payer_email :: string
  pr_back_urls :: MercadoPagoPreferenceBackUrls
  pr_notification_url :: string

datatype RequestBody = OrderBody OrderRequest | PreferenceBody MercadoPagoPreferenceRequest

record HttpRequest =
  rq_method :: string
  rq_path :: string
  rq_accessToken :: string
  rq_idempotencyKey :: "string option"
  rq_body :: "RequestBody option"

section \<open>Orders\<close>

definition ZERO_DECIMAL_CURRENCIES :: "string list" where
  "ZERO_DECIMAL_CURRENCIES = [''COP'', ''CLP'', ''PYG'', ''UYI'']"

definition showInt :: "int \<Rightarrow> string" where
  "showInt n = (if n < 0 then CHR ''-'' # decimal (nat (- n)) else decimal (nat n))"

text \<open>Amounts are whole numbers here, so \<^theory_text>\<open>trunc\<close> changes nothing and
  \<^theory_text>\<open>toFixed(2)\<close> adds two zeros.\<close>

definition formatMercadoPagoAmount :: "int \<Rightarrow> string \<Rightarrow> string" where
  "formatMercadoPagoAmount amount currency =
     (if toUpperCase currency \<in> set ZERO_DECIMAL_CURRENCIES then showInt amount else showInt amount @ ''.00'')"

definition parseMercadoPagoAmount :: "RawAmount option \<Rightarrow> rat option" where
  "parseMercadoPagoAmount raw = (case raw of
       None \<Rightarrow> None
     | Some a \<Rightarrow> (case (case a of AmountString s \<Rightarrow> Number s | AmountNumber x \<Rightarrow> x) of
           Finite q \<Rightarrow> Some q | _ \<Rightarrow> None))"

definition mapOrderStatus :: "MercadoPagoOrder \<Rightarrow> ResolutionStatus" where
  "mapOrderStatus order =
     (let status = map_option toLowerCase (mo_status order)
      in if status = Some ''processed'' then
           (if map_option toLowerCase (mo_status_detail order) = Some ''accredited'' then approved else pending)
         else if status \<in> {Some ''failed'', Some ''canceled'', Some ''expired''} then rejected
         else pending)"

definition hasPrefix :: "string \<Rightarrow> string \<Rightarrow> bool" where
  "hasPrefix s p \<longleftrightarrow> take (length p) s = p"

definition mapRejectionReason :: "string option \<Rightarrow> CardRejectionReason" where
  "mapRejectionReason detail =
     (let value = (case detail of None \<Rightarrow> [] | Some d \<Rightarrow> toLowerCase d)
      in if value = ''insufficient_amount'' then INSUFFICIENT_FUNDS
         else if hasPrefix value ''bad_filled'' then INVALID_CARD_DATA
         else if hasPrefix value ''rejected'' \<or> value \<in> {''card_disabled'', ''max_attempts_exceeded'', ''blacklist''}
           then CARD_DECLINED
         else OTHER)"

definition paymentDetail :: "MercadoPagoOrder \<Rightarrow> string option" where
  "paymentDetail order = (case mo_paymentDetails order of
       Some d # _ \<Rightarrow> Some d | _ \<Rightarrow> mo_status_detail order)"

text \<open>A snapshot with the provider's id.\<close>

definition mapOrderToSnapshot :: "MercadoPagoOrder option \<Rightarrow> (string \<times> ProviderPaymentSnapshot) option" where
  "mapOrderToSnapshot body = (case body of
       None \<Rightarrow> None
     | Some order \<Rightarrow>
        if \<not> nonEmpty (mo_id order) then None
        else (let status = mapOrderStatus order
              in Some (the (mo_id order),
                  \<lparr>snap_status = status,
                   snap_rejectionReason = (if status = rejected then Some (mapRejectionReason (paymentDetail order)) else None),
                   snap_externalReference = mo_external_reference order,
                   snap_amount = parseMercadoPagoAmount (mo_total_amount order),
                   snap_currency = mo_currency order\<rparr>)))"

section \<open>Payment records\<close>

definition toWholeUnits :: "js_number option \<Rightarrow> int option" where
  "toWholeUnits value = (case value of Some (Finite q) \<Rightarrow> Some (mathRound q) | _ \<Rightarrow> None)"

definition toDate :: "(string \<Rightarrow> time option) \<Rightarrow> string option \<Rightarrow> time option" where
  "toDate parseDate value = (case value of None \<Rightarrow> None | Some s \<Rightarrow> parseDate s)"

definition toLastFour :: "string option \<Rightarrow> string option" where
  "toLastFour value = (case value of None \<Rightarrow> None
     | Some s \<Rightarrow> if length s = 4 \<and> list_all isDecimalDigit s then Some s else None)"

definition orZero :: "rat option \<Rightarrow> rat" where
  "orZero x = (case x of None \<Rightarrow> 0 | Some q \<Rightarrow> q)"

text \<open>The two kinds of charge are ''fee'' and ''tax''.\<close>

definition sumCollectorCharges :: "MercadoPagoPaymentRecord \<Rightarrow> string \<Rightarrow> int option" where
  "sumCollectorCharges r kind =
     (if orEmpty (mr_charges_details r) \<noteq> [] then
        Some (sum_list (map (\<lambda>c. mathRound (orZero (mc_original c)))
          (filter (\<lambda>c. mc_type c = Some kind \<and> mc_from c = Some ''collector'') (orEmpty (mr_charges_details r)))))
      else if kind = ''fee'' \<and> orEmpty (mr_fee_details r) \<noteq> [] then
        Some (sum_list (map (\<lambda>f. mathRound (orZero (mf_amount f)))
          (filter (\<lambda>f. mf_fee_payer f = Some ''collector'') (orEmpty (mr_fee_details r)))))
      else None)"

definition findPaymentRecordForOrder :: "MercadoPagoPaymentRecord list \<Rightarrow> string \<Rightarrow> MercadoPagoPaymentRecord option" where
  "findPaymentRecordForOrder records orderId = findRow (\<lambda>r. Some orderId \<in> set (mr_references r)) records"

definition mapPaymentRecordToDetails :: "(string \<Rightarrow> time option) \<Rightarrow> MercadoPagoPaymentRecord \<Rightarrow> ProviderTransactionDetails" where
  "mapPaymentRecordToDetails parseDate r =
     (let isCard = mr_payment_type_id r \<in> {Some ''credit_card'', Some ''debit_card''}
      in \<lparr>ptd_paymentTypeId = mr_payment_type_id r,
          ptd_cardBrand = (if isCard then mr_payment_method_id r else None),
          ptd_cardLastFour = (if isCard then toLastFour (mr_last_four_digits r) else None),
          ptd_providerFeeAmount = sumCollectorCharges r ''fee'',
          ptd_providerTaxAmount = sumCollectorCharges r ''tax'',
          ptd_netReceivedAmount = toWholeUnits (mr_net_received_amount r),
          ptd_approvedAt = toDate parseDate (mr_date_approved r),
          ptd_moneyReleaseAt = toDate parseDate (mr_money_release_date r)\<rparr>)"

definition mapPaymentRecordStatus :: "MercadoPagoPaymentRecord \<Rightarrow> ResolutionStatus" where
  "mapPaymentRecordStatus r =
     (let status = map_option toLowerCase (mr_status r)
      in if status = Some ''approved'' then approved
         else if status \<in> {Some ''rejected'', Some ''cancelled''} then rejected else pending)"

definition mapPaymentRecordRejectionReason :: "string option \<Rightarrow> CardRejectionReason" where
  "mapPaymentRecordRejectionReason statusDetail =
     (let value = (case statusDetail of None \<Rightarrow> [] | Some d \<Rightarrow> toLowerCase d)
      in if contains value ''insufficient'' then INSUFFICIENT_FUNDS
         else if contains value ''bad_filled'' then INVALID_CARD_DATA
         else if list_ex (contains value) [''card_disabled'', ''max_attempts'', ''call_for_authorize'',
             ''duplicated_payment'', ''high_risk'', ''blacklist''] then CARD_DECLINED
         else OTHER)"

definition mapPaymentRecordToSnapshot :: "MercadoPagoPaymentRecord option \<Rightarrow> (string \<times> ProviderPaymentSnapshot) option" where
  "mapPaymentRecordToSnapshot body = (case body of
       None \<Rightarrow> None
     | Some r \<Rightarrow> (case mr_id r of
           None \<Rightarrow> None
         | Some i \<Rightarrow> (let status = mapPaymentRecordStatus r
             in Some (i,
               \<lparr>snap_status = status,
                snap_rejectionReason = (if status = rejected
                   then Some (mapPaymentRecordRejectionReason (mr_status_detail r)) else None),
                snap_externalReference = mr_external_reference r,
                snap_amount = map_option of_int (toWholeUnits (mr_transaction_amount r)),
                snap_currency = mr_currency_id r\<rparr>))))"

section \<open>Preferences\<close>

definition buildWalletPreferenceRequest ::
  "(id \<Rightarrow> string) \<Rightarrow> CreateWalletPreferenceCommand \<Rightarrow> MercadoPagoPreferenceBackUrls \<Rightarrow> string \<Rightarrow> MercadoPagoPreferenceRequest" where
  "buildWalletPreferenceRequest uuid command backUrls notificationUrl =
     \<lparr>pr_currency_id = toUpperCase (wp_currency command), pr_unit_price = wp_amount command,
      pr_external_reference = uuid (wp_externalReference command), pr_payer_email = wp_payerEmail command,
      pr_back_urls = backUrls, pr_notification_url = notificationUrl\<rparr>"

definition mapPreferenceResponse :: "MercadoPagoPreferenceResponse option \<Rightarrow> MercadoPagoEnvironment \<Rightarrow> (string \<times> string) option" where
  "mapPreferenceResponse body environment = (case body of
       None \<Rightarrow> None
     | Some json \<Rightarrow>
        if \<not> nonEmpty (mpr_id json) then None
        else (let redirectUrl = (case environment of sandbox \<Rightarrow> mpr_sandbox_init_point json
                                                  | production \<Rightarrow> mpr_init_point json)
              in if \<not> nonEmpty redirectUrl then None else Some (the (mpr_id json), the redirectUrl)))"

definition DEBIT_PAYMENT_METHOD_IDS :: "string list" where
  "DEBIT_PAYMENT_METHOD_IDS = [''debvisa'', ''debmaster'']"

definition resolveMercadoPagoPaymentType :: "string \<Rightarrow> string" where
  "resolveMercadoPagoPaymentType paymentMethodId =
     (if toLowerCase paymentMethodId \<in> set DEBIT_PAYMENT_METHOD_IDS then ''debit_card'' else ''credit_card'')"

section \<open>The adapter\<close>

datatype ProviderFailure = NotConfigured | Unavailable | Refused CardRejectionReason

record Credentials =
  cr_accessToken :: string
  cr_environment :: MercadoPagoEnvironment

definition isBlank :: "string option \<Rightarrow> bool" where
  "isBlank s \<longleftrightarrow> (case s of None \<Rightarrow> True | Some v \<Rightarrow> trim v = [])"

definition environmentOf :: "string option \<Rightarrow> MercadoPagoEnvironment option" where
  "environmentOf s = (if s = Some ''sandbox'' then Some sandbox else if s = Some ''production'' then Some production else None)"

definition loadCredentials :: "db \<Rightarrow> CountryCode \<Rightarrow> ProviderFailure + Credentials" where
  "loadCredentials db country =
     (let keys = mercadoPagoSettingKeys country; accessToken = getValue db (mpk_accessToken keys)
      in if isBlank accessToken then Inl NotConfigured
         else (case environmentOf (getValue db (mpk_environment keys)) of
             None \<Rightarrow> Inl NotConfigured
           | Some e \<Rightarrow> Inr \<lparr>cr_accessToken = trim (the accessToken), cr_environment = e\<rparr>))"

definition withoutTrailingSlashes :: "string \<Rightarrow> string" where
  "withoutTrailingSlashes s = rev (dropWhile (\<lambda>c. c = CHR ''/'') (rev s))"

definition loadWalletCheckoutConfig :: "db \<Rightarrow> CountryCode \<Rightarrow> ProviderFailure + MercadoPagoPreferenceBackUrls \<times> string" where
  "loadWalletCheckoutConfig db country =
     (let publicBaseUrl = getValue db MERCADOPAGO_PUBLIC_BASE_URL;
          success = getValue db WALLET_BACK_URL_SUCCESS;
          pending = getValue db WALLET_BACK_URL_PENDING;
          failure = getValue db WALLET_BACK_URL_FAILURE
      in if isBlank publicBaseUrl then Inl NotConfigured
         else if isBlank success \<or> isBlank pending \<or> isBlank failure then Inl NotConfigured
         else Inr (\<lparr>bu_success = trim (the success), bu_pending = trim (the pending), bu_failure = trim (the failure)\<rparr>,
           withoutTrailingSlashes (trim (the publicBaseUrl)) @ ''/webhooks/mercadopago/payments/''
             @ toLowerCase (countryName country)))"

definition ORDER_ID_PATTERN :: "string \<Rightarrow> bool" where
  "ORDER_ID_PATTERN s \<longleftrightarrow> s \<noteq> [] \<and> list_all isPaymentMethodIdChar s"

definition PAYMENT_ID_PATTERN :: "string \<Rightarrow> bool" where
  "PAYMENT_ID_PATTERN s \<longleftrightarrow> s \<noteq> [] \<and> list_all isDecimalDigit s"

definition getRequest :: "string \<Rightarrow> Credentials \<Rightarrow> HttpRequest" where
  "getRequest path credentials = \<lparr>rq_method = ''GET'', rq_path = path, rq_accessToken = cr_accessToken credentials,
     rq_idempotencyKey = None, rq_body = None\<rparr>"

definition succeeded :: "int \<Rightarrow> bool" where
  "succeeded status \<longleftrightarrow> 200 \<le> status \<and> status < 300"

definition orderRequest :: "(id \<Rightarrow> string) \<Rightarrow> ChargeCardCommand \<Rightarrow> Credentials \<Rightarrow> HttpRequest" where
  "orderRequest uuid command credentials =
     (let paymentType = resolveMercadoPagoPaymentType (cc_paymentMethodId command);
          amount = formatMercadoPagoAmount (cc_amount command) (cc_currency command)
      in \<lparr>rq_method = ''POST'', rq_path = ''/v1/orders'', rq_accessToken = cr_accessToken credentials,
          rq_idempotencyKey = Some (uuid (cc_idempotencyKey command)),
          rq_body = Some (OrderBody \<lparr>or_external_reference = uuid (cc_externalReference command),
            or_total_amount = amount, or_payer_email = cc_payerEmail command,
            or_payment_method_id = cc_paymentMethodId command, or_payment_method_type = paymentType,
            or_token = cc_cardToken command,
            or_installments = (if paymentType = ''credit_card'' then Some (cc_installments command) else None)\<rparr>)\<rparr>)"

definition toChargeResult :: "string \<times> ProviderPaymentSnapshot \<Rightarrow> ChargeCardResult" where
  "toChargeResult s = \<lparr>ccr_providerPaymentId = fst s, ccr_status = snap_status (snd s),
     ccr_rejectionReason = snap_rejectionReason (snd s)\<rparr>"

definition chargeAnswer :: "HttpAnswer \<Rightarrow> ProviderFailure + ChargeCardResult" where
  "chargeAnswer answer = (case answer of
       NoAnswer \<Rightarrow> Inl Unavailable
     | Answer status json \<Rightarrow>
        if succeeded status then (case mapOrderToSnapshot (map_option body_order json) of
            None \<Rightarrow> Inl Unavailable | Some s \<Rightarrow> Inr (toChargeResult s))
        else if status = 402 then (case mapOrderToSnapshot (Option.bind json body_data) of
            None \<Rightarrow> Inl (Refused OTHER) | Some s \<Rightarrow> Inr (toChargeResult s))
        else if status = 401 \<or> status = 403 then Inl NotConfigured
        else if status \<in> {408, 409, 429} \<or> 500 \<le> status then Inl Unavailable
        else Inl (Refused (if status = 422 then INVALID_CARD_DATA else if status = 400 then PROVIDER_ERROR else OTHER)))"

definition mpChargeCard ::
  "(HttpRequest \<Rightarrow> HttpAnswer) \<Rightarrow> (id \<Rightarrow> string) \<Rightarrow> db \<Rightarrow> ChargeCardCommand \<Rightarrow> ProviderFailure + ChargeCardResult" where
  "mpChargeCard http uuid db command =
     (if resolveMercadoPagoPaymentType (cc_paymentMethodId command) = ''debit_card'' \<and> cc_installments command \<noteq> 1
      then Inl (Refused INVALID_CARD_DATA)
      else (case loadCredentials db (cc_country command) of
          Inl e \<Rightarrow> Inl e
        | Inr credentials \<Rightarrow> chargeAnswer (http (orderRequest uuid command credentials))))"

text \<open>The common end of the two reads of a payment: a snapshot, nothing for an unknown payment, or a
  failure.\<close>

definition snapshotAnswer ::
  "(MercadoPagoBody option \<Rightarrow> (string \<times> ProviderPaymentSnapshot) option) \<Rightarrow> HttpAnswer
     \<Rightarrow> ProviderFailure + ProviderPaymentSnapshot option" where
  "snapshotAnswer read answer = (case answer of
       NoAnswer \<Rightarrow> Inl Unavailable
     | Answer status json \<Rightarrow>
        if succeeded status then (case read json of None \<Rightarrow> Inl Unavailable | Some s \<Rightarrow> Inr (Some (snd s)))
        else if status = 404 then Inr None
        else if status = 401 \<or> status = 403 then Inl NotConfigured
        else Inl Unavailable)"

definition mpGetPayment ::
  "(HttpRequest \<Rightarrow> HttpAnswer) \<Rightarrow> db \<Rightarrow> string \<Rightarrow> CountryCode \<Rightarrow> ProviderFailure + ProviderPaymentSnapshot option" where
  "mpGetPayment http db providerPaymentId country =
     (if \<not> ORDER_ID_PATTERN providerPaymentId then Inr None
      else (case loadCredentials db country of
          Inl e \<Rightarrow> Inl e
        | Inr credentials \<Rightarrow> snapshotAnswer (\<lambda>json. mapOrderToSnapshot (map_option body_order json))
            (http (getRequest (''/v1/orders/'' @ providerPaymentId) credentials))))"

definition mpGetPaymentByPaymentId ::
  "(HttpRequest \<Rightarrow> HttpAnswer) \<Rightarrow> db \<Rightarrow> string \<Rightarrow> CountryCode \<Rightarrow> ProviderFailure + ProviderPaymentSnapshot option" where
  "mpGetPaymentByPaymentId http db providerPaymentId country =
     (if \<not> PAYMENT_ID_PATTERN providerPaymentId then Inr None
      else (case loadCredentials db country of
          Inl e \<Rightarrow> Inl e
        | Inr credentials \<Rightarrow> snapshotAnswer (\<lambda>json. mapPaymentRecordToSnapshot (map_option body_record json))
            (http (getRequest (''/v1/payments/'' @ providerPaymentId) credentials))))"

definition mpCreateWalletPreference ::
  "(HttpRequest \<Rightarrow> HttpAnswer) \<Rightarrow> (id \<Rightarrow> string) \<Rightarrow> db \<Rightarrow> CreateWalletPreferenceCommand \<Rightarrow> ProviderFailure + string" where
  "mpCreateWalletPreference http uuid db command =
     (case loadCredentials db (wp_country command) of
        Inl e \<Rightarrow> Inl e
      | Inr credentials \<Rightarrow> (case loadWalletCheckoutConfig db (wp_country command) of
            Inl e \<Rightarrow> Inl e
          | Inr (backUrls, notificationUrl) \<Rightarrow>
              (case http \<lparr>rq_method = ''POST'', rq_path = ''/checkout/preferences'',
                  rq_accessToken = cr_accessToken credentials, rq_idempotencyKey = None,
                  rq_body = Some (PreferenceBody (buildWalletPreferenceRequest uuid command backUrls notificationUrl))\<rparr> of
                 NoAnswer \<Rightarrow> Inl Unavailable
               | Answer status json \<Rightarrow>
                   if succeeded status then
                     (case mapPreferenceResponse (map_option body_preference json) (cr_environment credentials) of
                        None \<Rightarrow> Inl Unavailable | Some (_, redirectUrl) \<Rightarrow> Inr redirectUrl)
                   else if status = 401 \<or> status = 403 then Inl NotConfigured
                   else Inl Unavailable)))"

definition getTransactionDetailsByPaymentId ::
  "(HttpRequest \<Rightarrow> HttpAnswer) \<Rightarrow> (string \<Rightarrow> time option) \<Rightarrow> db \<Rightarrow> string \<Rightarrow> string \<Rightarrow> CountryCode
     \<Rightarrow> ProviderFailure + ProviderTransactionDetails option" where
  "getTransactionDetailsByPaymentId http parseDate db providerPaymentId externalReference country =
     (case loadCredentials db country of
        Inl e \<Rightarrow> Inl e
      | Inr credentials \<Rightarrow> (case http (getRequest (''/v1/payments/'' @ providerPaymentId) credentials) of
            NoAnswer \<Rightarrow> Inl Unavailable
          | Answer status json \<Rightarrow>
              if status = 401 \<or> status = 403 then Inl NotConfigured
              else if status = 404 then Inr None
              else if \<not> succeeded status then Inl Unavailable
              else (case json of
                  None \<Rightarrow> Inr None
                | Some b \<Rightarrow> if mr_external_reference (body_record b) \<noteq> Some externalReference then Inr None
                    else Inr (Some (mapPaymentRecordToDetails parseDate (body_record b))))))"

text \<open>An external reference is a uuid, which \<^theory_text>\<open>encodeURIComponent\<close> leaves as it is.\<close>

definition mpGetTransactionDetails ::
  "(HttpRequest \<Rightarrow> HttpAnswer) \<Rightarrow> (string \<Rightarrow> time option) \<Rightarrow> db \<Rightarrow> string \<Rightarrow> string \<Rightarrow> CountryCode
     \<Rightarrow> ProviderFailure + ProviderTransactionDetails option" where
  "mpGetTransactionDetails http parseDate db providerPaymentId externalReference country =
     (if externalReference = [] then Inr None
      else if PAYMENT_ID_PATTERN providerPaymentId
        then getTransactionDetailsByPaymentId http parseDate db providerPaymentId externalReference country
      else if \<not> ORDER_ID_PATTERN providerPaymentId then Inr None
      else (case loadCredentials db country of
          Inl e \<Rightarrow> Inl e
        | Inr credentials \<Rightarrow> (case http (getRequest (''/v1/payments/search?external_reference='' @ externalReference
                @ ''&status=approved&sort=date_approved&criteria=desc'') credentials) of
              NoAnswer \<Rightarrow> Inl Unavailable
            | Answer status json \<Rightarrow>
                if status = 401 \<or> status = 403 then Inl NotConfigured
                else if \<not> succeeded status then Inl Unavailable
                else (case Option.bind json body_results of
                    None \<Rightarrow> Inr None
                  | Some results \<Rightarrow> Inr (map_option (mapPaymentRecordToDetails parseDate)
                      (findPaymentRecordForOrder results providerPaymentId))))))"

text \<open>The adapter as the port the services use.  They treat the two failures of a read alike, and a
  failure to read the details as details that are not there.\<close>

definition mercadoPago ::
  "(HttpRequest \<Rightarrow> HttpAnswer) \<Rightarrow> (id \<Rightarrow> string) \<Rightarrow> (string \<Rightarrow> time option) \<Rightarrow> db \<Rightarrow> Provider" where
  "mercadoPago http uuid parseDate db =
     \<lparr>chargeCard = (\<lambda>command. case mpChargeCard http uuid db command of
          Inl NotConfigured \<Rightarrow> ChargeNotConfigured | Inl Unavailable \<Rightarrow> ChargeUnavailable
        | Inl (Refused r) \<Rightarrow> RequestRejected r | Inr result \<Rightarrow> Charged result),
      getPayment = (\<lambda>p c. case mpGetPayment http db p c of Inl _ \<Rightarrow> SnapshotUnavailable | Inr s \<Rightarrow> Snapshot s),
      getPaymentByPaymentId = (\<lambda>p c. case mpGetPaymentByPaymentId http db p c of
          Inl _ \<Rightarrow> SnapshotUnavailable | Inr s \<Rightarrow> Snapshot s),
      getTransactionDetails = (\<lambda>p i c. case mpGetTransactionDetails http parseDate db p (uuid i) c of
          Inl _ \<Rightarrow> None | Inr d \<Rightarrow> d),
      createWalletPreference = (\<lambda>command. case mpCreateWalletPreference http uuid db command of
          Inl NotConfigured \<Rightarrow> WalletNotConfigured | Inl _ \<Rightarrow> WalletUnavailable
        | Inr url \<Rightarrow> WalletPreference url)\<rparr>"

section \<open>The webhook\<close>

record MercadoPagoSignatureInput =
  si_xSignature :: "string option"
  si_xRequestId :: "string option"
  si_dataId :: "string option"

fun splitOn :: "char \<Rightarrow> string \<Rightarrow> string list" where
  "splitOn c [] = [[]]"
| "splitOn c (x # xs) =
     (if x = c then [] # splitOn c xs
      else case splitOn c xs of [] \<Rightarrow> [[x]] | s # ss \<Rightarrow> (x # s) # ss)"

definition keyOfPart :: "string \<Rightarrow> string" where
  "keyOfPart part = trim (takeWhile (\<lambda>c. c \<noteq> CHR ''='') part)"

definition valueOfPart :: "string \<Rightarrow> string" where
  "valueOfPart part = trim (tl (dropWhile (\<lambda>c. c \<noteq> CHR ''='') part))"

text \<open>The last part with a key counts.\<close>

definition headerValue :: "string \<Rightarrow> string \<Rightarrow> string option" where
  "headerValue key header = map_option valueOfPart
     (findRow (\<lambda>part. CHR ''='' \<in> set part \<and> keyOfPart part = key) (rev (splitOn (CHR '','') header)))"

definition parseSignatureHeader :: "string \<Rightarrow> (string \<times> string) option" where
  "parseSignatureHeader header =
     (let ts = headerValue ''ts'' header; v1 = headerValue ''v1'' header
      in if nonEmpty ts \<and> nonEmpty v1 then Some (the ts, the v1) else None)"

definition buildMercadoPagoSignatureManifest :: "string option \<Rightarrow> string option \<Rightarrow> string \<Rightarrow> string" where
  "buildMercadoPagoSignatureManifest dataId xRequestId ts =
     (if nonEmpty dataId then ''id:'' @ toLowerCase (the dataId) @ '';'' else [])
     @ (if nonEmpty xRequestId then ''request-id:'' @ the xRequestId @ '';'' else [])
     @ ''ts:'' @ ts @ '';''"

definition verifyMercadoPagoSignature :: "(string \<Rightarrow> string \<Rightarrow> string) \<Rightarrow> string \<Rightarrow> MercadoPagoSignatureInput \<Rightarrow> bool" where
  "verifyMercadoPagoSignature hmac secret input =
     (if \<not> nonEmpty (si_xSignature input) then False
      else (case parseSignatureHeader (the (si_xSignature input)) of
          None \<Rightarrow> False
        | Some (ts, v1) \<Rightarrow>
            hmac secret (buildMercadoPagoSignatureManifest (si_dataId input) (si_xRequestId input) ts) = v1))"

definition isSignatureValid :: "(string \<Rightarrow> string \<Rightarrow> string) \<Rightarrow> db \<Rightarrow> MercadoPagoSignatureInput \<Rightarrow> CountryCode \<Rightarrow> bool" where
  "isSignatureValid hmac db input country =
     (let secret = getValue db (mpk_webhookSecret (mercadoPagoSettingKeys country))
      in if \<not> nonEmpty secret then False else verifyMercadoPagoSignature hmac (the secret) input)"

definition resolveCountry :: "string \<Rightarrow> CountryCode option" where
  "resolveCountry countryParam = findRow (\<lambda>c. countryName c = toUpperCase countryParam) [AR, CO]"

text \<open>A delivery: the country of the route, the two headers and what the query and the body hold.\<close>

record MercadoPagoDelivery =
  md_country :: string
  md_xSignature :: "string option"
  md_xRequestId :: "string option"
  md_dataId :: "string option"
  md_queryType :: "string option"
  md_bodyType :: "string option"

definition signatureInput :: "MercadoPagoDelivery \<Rightarrow> MercadoPagoSignatureInput" where
  "signatureInput d = \<lparr>si_xSignature = md_xSignature d, si_xRequestId = md_xRequestId d, si_dataId = md_dataId d\<rparr>"

definition handleMercadoPagoWebhook ::
  "time \<Rightarrow> Provider \<Rightarrow> (string \<Rightarrow> string \<Rightarrow> string) \<Rightarrow> (string \<Rightarrow> id option) \<Rightarrow> MercadoPagoDelivery \<Rightarrow> db \<Rightarrow> err + db" where
  "handleMercadoPagoWebhook now prov hmac uuidOf delivery db =
     (case resolveCountry (md_country delivery) of
        None \<Rightarrow> Inl UNAUTHORIZED
      | Some country \<Rightarrow>
         if \<not> isSignatureValid hmac db (signatureInput delivery) country then Inl UNAUTHORIZED
         else if \<not> nonEmpty (md_dataId delivery) then Inr db
         else handleNotification now prov uuidOf (the (md_dataId delivery))
           (case md_queryType delivery of None \<Rightarrow> md_bodyType delivery | Some t \<Rightarrow> Some t) country db)"

end
