(* ===== verification/Mercado_Pago_Facts.thy ===== *)
theory Mercado_Pago_Facts
  imports Mercado_Pago Settings_Facts Payment_Progress
begin

text \<open>
  What the adapter of the payment provider guarantees: amounts survive their spelling, an approval is
  always the provider's own confirmation, a delivery of the webhook is checked before anything happens,
  and an uncertain answer to a charge keeps the attempt open.
\<close>

section \<open>Amounts\<close>

lemma trim_unspaced: "\<forall>c\<in>set s. \<not> isSpace c \<Longrightarrow> trim s = s"
proof -
  have dw: "dropWhile isSpace t = t" if "\<forall>c\<in>set t. \<not> isSpace c" for t
    using that by (cases t) simp_all
  assume "\<forall>c\<in>set s. \<not> isSpace c"
  then show ?thesis using dw [of s] dw [of "rev s"] by (simp add: trim_def)
qed

lemma digitsVal_zeros: "digitsVal 10 (s @ ''00'') = digitsVal 10 s * 100"
  by (simp add: digitsVal_def digitVal_def)

lemma Number_two_zeros:
  assumes "list_all isDigit s" "s \<noteq> []"
  shows "Number (s @ ''.00'') = Finite (of_nat (digitsVal 10 s))"
proof -
  obtain c r where s: "s = c # r" using assms(2) by (cases s) auto
  have c: "isDigit c" and r: "list_all isDigit r" using assms(1) s by simp_all
  have stop: "\<not> isDigit (CHR ''.'')" "isDigit (CHR ''0'')" by (simp_all add: isDigit_def digitVal_def)
  have tw: "takeWhile isDigit (s @ ''.00'') = s" "dropWhile isDigit (s @ ''.00'') = ''.00''"
    using assms(1) stop by (simp_all add: takeWhile_append dropWhile_append list_all_iff)
  have dec: "decimalNumber (s @ ''.00'') = Finite (of_nat (digitsVal 10 s))"
    using assms(2) stop digitsVal_zeros [of s] by (simp add: decimalNumber_def tw exponentOf_def scale_def)
  have "s @ ''.00'' \<noteq> ''Infinity''" using digit_others(10) [OF c] s by auto
  then have u: "unsignedNumber (s @ ''.00'') = Finite (of_nat (digitsVal 10 s))" by (simp add: unsignedNumber_def dec)
  have "trim (s @ ''.00'') = s @ ''.00''"
    using assms(1) digit_others(1) by (intro trim_unspaced) (auto simp: list_all_iff isSpace_def)
  moreover have "hd (r @ ''.00'') \<notin> {CHR ''x'', CHR ''X'', CHR ''o'', CHR ''O'', CHR ''b'', CHR ''B''}"
    using r digit_others [of "hd r"] by (cases r) auto
  ultimately show ?thesis
    using u digit_others(2,3) [OF c] unfolding Number_def s by simp
qed

lemma amount_round_trip:
  assumes "0 \<le> n"
  shows "parseMercadoPagoAmount (Some (AmountString (formatMercadoPagoAmount n currency))) = Some (of_int n)"
  using assms digits_decimal [of "nat n"] Number_decimal [of "nat n"] Number_two_zeros [of "decimal (nat n)"]
  by (simp add: parseMercadoPagoAmount_def formatMercadoPagoAmount_def showInt_def)

section \<open>Approvals\<close>

lemma chargeAnswer_approved:
  assumes "chargeAnswer answer = Inr r" "ccr_status r = approved"
  shows "\<exists>status body order. answer = Answer status (Some body) \<and> (succeeded status \<and> order = body_order body
      \<or> status = 402 \<and> body_data body = Some order)
    \<and> mapOrderStatus order = approved \<and> mo_id order = Some (ccr_providerPaymentId r)"
  using assms
  by (cases answer)
     (auto simp: chargeAnswer_def mapOrderToSnapshot_def toChargeResult_def Let_def nonEmpty_def bind_eq_Some_conv
       split: if_splits option.splits)

lemma snapshotAnswer_Some:
  "snapshotAnswer read answer = Inr (Some snapshot) \<longleftrightarrow>
     (\<exists>status json p. answer = Answer status json \<and> succeeded status \<and> read json = Some (p, snapshot))"
  by (cases answer) (auto simp: snapshotAnswer_def split: option.splits)

text \<open>The provider itself says that a payment with this id is paid in full.\<close>

definition confirmsPayment :: "HttpAnswer \<Rightarrow> bool \<Rightarrow> int \<Rightarrow> string \<Rightarrow> bool" where
  "confirmsPayment answer isOrder amount currency \<longleftrightarrow> (\<exists>status body. answer = Answer status (Some body) \<and> succeeded status
     \<and> (if isOrder
        then mapOrderStatus (body_order body) = approved
          \<and> parseMercadoPagoAmount (mo_total_amount (body_order body)) = Some (of_int amount)
          \<and> map_option toUpperCase (mo_currency (body_order body)) = Some (toUpperCase currency)
        else mapPaymentRecordStatus (body_record body) = approved
          \<and> toWholeUnits (mr_transaction_amount (body_record body)) = Some amount
          \<and> map_option toUpperCase (mr_currency_id (body_record body)) = Some (toUpperCase currency)))"

definition reportsPaid :: "(HttpRequest \<Rightarrow> HttpAnswer) \<Rightarrow> db \<Rightarrow> CountryCode \<Rightarrow> string \<Rightarrow> int \<Rightarrow> string \<Rightarrow> bool" where
  "reportsPaid http db country i amount currency \<longleftrightarrow> (\<exists>credentials. loadCredentials db country = Inr credentials
     \<and> (confirmsPayment (http (getRequest (''/v1/orders/'' @ i) credentials)) True amount currency
      \<or> confirmsPayment (http (getRequest (''/v1/payments/'' @ i) credentials)) False amount currency))"

lemma notificationSnapshot_approved:
  assumes "notificationSnapshot (mercadoPago http uuid parseDate db) i topic country = Snapshot (Some snapshot)"
    and "snap_status snapshot = approved" "\<not> amountMismatch snapshot a"
  shows "reportsPaid http db country i (pa_amount a) (pa_currency a)"
proof -
  have full: "snap_amount snapshot = Some (of_int (pa_amount a))"
    "map_option toUpperCase (snap_currency snapshot) = Some (toUpperCase (pa_currency a))"
    using assms(2,3) by (auto simp: amountMismatch_def)
  consider (order) "mpGetPayment http db i country = Inr (Some snapshot)"
    | (payment) "mpGetPaymentByPaymentId http db i country = Inr (Some snapshot)"
    using assms(1) by (auto simp: notificationSnapshot_def mercadoPago_def split: if_splits sum.splits)
  then show ?thesis
  proof cases
    case order
    then obtain cr status json p where c: "loadCredentials db country = Inr cr" "succeeded status"
      "http (getRequest (''/v1/orders/'' @ i) cr) = Answer status json"
      "mapOrderToSnapshot (map_option body_order json) = Some (p, snapshot)"
      by (auto simp: mpGetPayment_def snapshotAnswer_Some split: if_splits sum.splits)
    then obtain body where "json = Some body" by (cases json) (auto simp: mapOrderToSnapshot_def)
    then have "confirmsPayment (http (getRequest (''/v1/orders/'' @ i) cr)) True (pa_amount a) (pa_currency a)"
      using c full assms(2) by (auto simp: confirmsPayment_def mapOrderToSnapshot_def Let_def split: if_splits)
    then show ?thesis using c(1) by (auto simp: reportsPaid_def)
  next
    case payment
    then obtain cr status json p where c: "loadCredentials db country = Inr cr" "succeeded status"
      "http (getRequest (''/v1/payments/'' @ i) cr) = Answer status json"
      "mapPaymentRecordToSnapshot (map_option body_record json) = Some (p, snapshot)"
      by (auto simp: mpGetPaymentByPaymentId_def snapshotAnswer_Some split: if_splits sum.splits)
    then obtain body where "json = Some body" by (cases json) (auto simp: mapPaymentRecordToSnapshot_def)
    then have "confirmsPayment (http (getRequest (''/v1/payments/'' @ i) cr)) False (pa_amount a) (pa_currency a)"
      using c full assms(2)
      by (auto simp: confirmsPayment_def mapPaymentRecordToSnapshot_def Let_def split: if_splits option.splits)
    then show ?thesis using c(1) by (auto simp: reportsPaid_def)
  qed
qed

lemma not_approved_no_entry:
  assumes "applyPaymentResult now prov i r db = Inr (a, db')" "res_status r \<noteq> approved"
  shows "ledgerEntries db' = ledgerEntries db"
proof -
  obtain plan where plan: "apply_pre prov i r db = plan" "apply_tx now i r plan db = Inr db'"
    using assms(1) by (auto simp: applyPaymentResult_def Let_def andThen_Inr_iff)
  have "plan = AttachProviderId \<or> (\<exists>x. plan = ReturnAttempt x) \<or> (\<exists>x. plan = Resolve x None None)"
    using plan(1) assms(2) by (auto simp: apply_pre_def split: option.splits if_splits)
  then show ?thesis
    using plan(2) by (auto simp: apply_tx_def resolve_tx_def resolveIfPending_def updateAttempts_def Let_def
        attachProviderPaymentIdIfPending_def split: option.splits if_splits)
qed

section \<open>Deliveries\<close>

lemma webhook_cases:
  assumes "handleMercadoPagoWebhook now prov hmac uuidOf d db = Inr db'" "db' \<noteq> db"
  obtains country secret ts v1 i topic where
    "resolveCountry (md_country d) = Some country"
    "getValue db (mpk_webhookSecret (mercadoPagoSettingKeys country)) = Some secret" "secret \<noteq> []"
    "Option.bind (md_xSignature d) parseSignatureHeader = Some (ts, v1)"
    "hmac secret (buildMercadoPagoSignatureManifest (md_dataId d) (md_xRequestId d) ts) = v1"
    "md_dataId d = Some i" "handleNotification now prov uuidOf i topic country db = Inr db'"
proof -
  obtain country where c: "resolveCountry (md_country d) = Some country"
    using assms(1) by (cases "resolveCountry (md_country d)") (auto simp: handleMercadoPagoWebhook_def)
  then have valid: "isSignatureValid hmac db (signatureInput d) country" and data: "nonEmpty (md_dataId d)"
    and n: "handleNotification now prov uuidOf (the (md_dataId d))
      (case md_queryType d of None \<Rightarrow> md_bodyType d | Some t \<Rightarrow> Some t) country db = Inr db'"
    using assms by (auto simp: handleMercadoPagoWebhook_def split: if_splits)
  obtain secret where s: "getValue db (mpk_webhookSecret (mercadoPagoSettingKeys country)) = Some secret" "secret \<noteq> []"
    using valid by (auto simp: isSignatureValid_def nonEmpty_def Let_def split: if_splits)
  then have v: "verifyMercadoPagoSignature hmac secret (signatureInput d)"
    using valid by (simp add: isSignatureValid_def nonEmpty_def)
  then obtain ts v1 where "Option.bind (md_xSignature d) parseSignatureHeader = Some (ts, v1)"
    "hmac secret (buildMercadoPagoSignatureManifest (md_dataId d) (md_xRequestId d) ts) = v1"
    by (auto simp: verifyMercadoPagoSignature_def signatureInput_def nonEmpty_def split: if_splits option.splits)
  then show thesis using that [OF c s] data n by (auto simp: nonEmpty_def)
qed

section \<open>Charges\<close>

text \<open>The provider may or may not have charged the card.\<close>

definition uncertain :: "HttpAnswer \<Rightarrow> bool" where
  "uncertain answer \<longleftrightarrow> (case answer of NoAnswer \<Rightarrow> True
     | Answer status json \<Rightarrow> status \<in> {408, 409, 429} \<or> 500 \<le> status
         \<or> succeeded status \<and> mapOrderToSnapshot (map_option body_order json) = None)"

lemma uncertain_unavailable: "uncertain answer \<Longrightarrow> chargeAnswer answer = Inl Unavailable"
  by (cases answer) (auto simp: uncertain_def chargeAnswer_def succeeded_def)

lemma reads_insert:
  "findEngagementById (insertAttempt a db) = findEngagementById db"
  "findQuoteById (insertAttempt a db) = findQuoteById db"
  "findCustomerProfileById (insertAttempt a db) = findCustomerProfileById db"
  "ownsAsCustomer (insertAttempt a db) = ownsAsCustomer db" "findUserById (insertAttempt a db) = findUserById db"
  by (intro ext; simp add: findEngagementById_def ownsAsCustomer_def findCustomerProfileByUserId_def
      findQuoteById_def findCustomerProfileById_def findUserById_def insertAttempt_def)+

lemma billing_insert: "findByIdWithBillingContext (insertAttempt a db) = findByIdWithBillingContext db"
  by (rule ext) (simp only: findByIdWithBillingContext_def reads_insert)

lemma providerPayment_pre_insert [simp]:
  "providerPayment_pre e (insertAttempt a db) u i = providerPayment_pre e db u i"
  unfolding providerPayment_pre_def resolveCustomerEngagement_def reads_insert billing_insert ..

lemma findActive_insert:
  assumes "findActiveByEngagementId db (pa_engagementId a) = None" "pa_status a = PaymentAttemptStatus.PENDING"
  shows "findActiveByEngagementId (insertAttempt a db) (pa_engagementId a) = Some a"
  using assms by (simp add: findActiveByEngagementId_def insertAttempt_def findRow_append isActiveAttempt_def)

lemma second_charge_refused:
  assumes "validCardInput input" "providerPayment_pre ENGAGEMENT_NOT_PAYABLE_BY_CARD db u (pay_engagementId input) = Inr c"
    and "findActiveByEngagementId db (pc_engagementId c) = Some a" "pa_method a \<noteq> PaymentMethod.CASH"
  shows "payEngagementWithCard now prov u input db = (Inl CARD_PAYMENT_ALREADY_IN_PROGRESS, db)"
  using assms by (simp add: payEngagementWithCard_def openAttempt_def createPending_def)

end
