(* ===== verification/Provider_Properties.thy ===== *)
theory Provider_Properties
  imports Mercado_Pago_Facts
begin













end
