(* ===== verification/Account_Deletion.thy ===== *)
theory Account_Deletion
  imports Identity_Verification Ledger
begin

text \<open>
  The permanent deletion of a user's account by an administrator (src/src/platform-admin/
  user-accounts), alone and in bulk, with what the foreign keys of prisma/schema.prisma make the
  database do: a row whose key cascades goes with the row it points to, and a key of the ledger, of a
  used upload of a service request is set to null.  The photos and the grid of accounts are here too.
  An account has a row in the tables of the marketplace (\<^theory_text>\<open>users\<close>) and one in
  those of the accounts.
\<close>

section \<open>The rows that go\<close>

definition customerProfilesOf :: "db \<Rightarrow> id \<Rightarrow> id list" where
  "customerProfilesOf db u = map cp_id (filter (\<lambda>p. cp_userId p = u) (customerProfiles db))"

definition professionalProfilesOf :: "db \<Rightarrow> id \<Rightarrow> id list" where
  "professionalProfilesOf db u = map pp_id (filter (\<lambda>p. pp_userId p = u) (professionalProfiles db))"

definition among :: "id option \<Rightarrow> id list \<Rightarrow> bool" where
  "among r ids \<longleftrightarrow> (case r of None \<Rightarrow> False | Some i \<Rightarrow> i \<in> set ids)"

text \<open>
  A request goes with its customer and with the quote it accepted, a quote with its request and with
  its professional; so the requests that go are the least fixed point of
  \<^theory_text>\<open>moreRequests\<close>, reached after at most as many rounds as there are requests.
\<close>

definition quotesGoing :: "db \<Rightarrow> id \<Rightarrow> id list \<Rightarrow> id list" where
  "quotesGoing db u srs = map q_id (filter (\<lambda>q. q_serviceRequestId q \<in> set srs
     \<or> q_professionalProfileId q \<in> set (professionalProfilesOf db u)) (quotes db))"

definition moreRequests :: "db \<Rightarrow> id \<Rightarrow> id list \<Rightarrow> id list" where
  "moreRequests db u srs = map sr_id (filter (\<lambda>s. sr_customerProfileId s \<in> set (customerProfilesOf db u)
     \<or> among (sr_acceptedQuoteId s) (quotesGoing db u srs)) (serviceRequests db))"

definition requestsGoing :: "db \<Rightarrow> id \<Rightarrow> id list" where
  "requestsGoing db u = (moreRequests db u ^^ length (serviceRequests db)) []"

definition engagementsGoing :: "db \<Rightarrow> id \<Rightarrow> id list" where
  "engagementsGoing db u = map eng_id (filter (\<lambda>e. eng_serviceRequestId e \<in> set (requestsGoing db u)
     \<or> eng_quoteId e \<in> set (quotesGoing db u (requestsGoing db u))
     \<or> eng_customerProfileId e \<in> set (customerProfilesOf db u)
     \<or> eng_professionalProfileId e \<in> set (professionalProfilesOf db u)) (engagements db))"

definition conversationsGoing :: "db \<Rightarrow> id \<Rightarrow> id list" where
  "conversationsGoing db u = map conv_id (filter (\<lambda>c. conv_engagementId c \<in> set (engagementsGoing db u)) (conversations db))"

definition negotiationMessagesGoing :: "db \<Rightarrow> id \<Rightarrow> id list" where
  "negotiationMessagesGoing db u = map nm_id (filter (\<lambda>n. nm_quoteId n \<in> set (quotesGoing db u (requestsGoing db u))
     \<or> among (nm_authorCustomerProfileId n) (customerProfilesOf db u)
     \<or> among (nm_authorProfessionalProfileId n) (professionalProfilesOf db u)) (negotiationMessages db))"

section \<open>Deletion\<close>

definition nullOf :: "id option \<Rightarrow> id list \<Rightarrow> id option" where
  "nullOf r ids = (if among r ids then None else r)"

definition detachEntry :: "id list \<Rightarrow> id list \<Rightarrow> id list \<Rightarrow> LedgerEntry \<Rightarrow> LedgerEntry" where
  "detachEntry engs cps pps r = r\<lparr>le_engagementId := nullOf (le_engagementId r) engs,
     le_customerProfileId := nullOf (le_customerProfileId r) cps,
     le_professionalProfileId := nullOf (le_professionalProfileId r) pps\<rparr>"

definition deleteRows :: "id \<Rightarrow> db \<Rightarrow> db" where
  "deleteRows u db =
     (let cps = customerProfilesOf db u; pps = professionalProfilesOf db u; srs = requestsGoing db u;
          qs = quotesGoing db u srs; engs = engagementsGoing db u; convs = conversationsGoing db u;
          nms = negotiationMessagesGoing db u
      in db\<lparr>users := filter (\<lambda>r. user_id r \<noteq> u) (users db),
        customerProfiles := filter (\<lambda>r. cp_userId r \<noteq> u) (customerProfiles db),
        professionalProfiles := filter (\<lambda>r. pp_userId r \<noteq> u) (professionalProfiles db),
        serviceRequests := filter (\<lambda>r. sr_id r \<notin> set srs) (serviceRequests db),
        quotes := filter (\<lambda>r. q_id r \<notin> set qs) (quotes db),
        negotiationMessages := filter (\<lambda>r. nm_id r \<notin> set nms) (negotiationMessages db),
        priceProposals := filter (\<lambda>r. \<not> (prop_quoteId r \<in> set qs \<or> prop_negotiationMessageId r \<in> set nms
            \<or> among (prop_proposedByCustomerProfileId r) cps \<or> among (prop_proposedByProfessionalProfileId r) pps
            \<or> among (prop_resolvedByCustomerProfileId r) cps \<or> among (prop_resolvedByProfessionalProfileId r) pps))
          (priceProposals db),
        engagements := filter (\<lambda>r. eng_id r \<notin> set engs) (engagements db),
        conversations := filter (\<lambda>r. conv_id r \<notin> set convs) (conversations db),
        chatMessages := filter (\<lambda>r. \<not> (msg_conversationId r \<in> set convs
            \<or> among (msg_senderCustomerProfileId r) cps \<or> among (msg_senderProfessionalProfileId r) pps))
          (chatMessages db),
        appointments := filter (\<lambda>r. \<not> (appt_engagementId r \<in> set engs \<or> appt_professionalProfileId r \<in> set pps
            \<or> among (appt_proposedByCustomerProfileId r) cps \<or> among (appt_proposedByProfessionalProfileId r) pps))
          (appointments db),
        paymentAttempts := filter (\<lambda>r. pa_engagementId r \<notin> set engs) (paymentAttempts db),
        reviews := filter (\<lambda>r. \<not> (rv_engagementId r \<in> set engs
            \<or> among (rv_authorCustomerProfileId r) cps \<or> among (rv_authorProfessionalProfileId r) pps))
          (reviews db),
        ledgerEntries := map (detachEntry engs cps pps) (ledgerEntries db),
        srUploadRefs := map (\<lambda>r. r\<lparr>sref_serviceRequestId := nullOf (sref_serviceRequestId r) srs\<rparr>)
          (filter (\<lambda>r. sref_userId r \<noteq> u) (srUploadRefs db)),
        mediaUploadRefs := filter (\<lambda>r. mref_userId r \<noteq> u) (mediaUploadRefs db),
        photoUploadRefs := filter (\<lambda>r. pref_userId r \<noteq> u) (photoUploadRefs db),
        srAttachments := filter (\<lambda>r. att_ownerId r \<notin> set srs) (srAttachments db),
        quoteAttachments := filter (\<lambda>r. att_ownerId r \<notin> set qs) (quoteAttachments db)\<rparr>)"

definition deleteIdentity :: "id \<Rightarrow> identity \<Rightarrow> identity" where
  "deleteIdentity u s = s\<lparr>accounts := filter (\<lambda>a. acc_id a \<noteq> u) (accounts s),
     verificationCodes := filter (\<lambda>c. code_userId c \<noteq> u) (verificationCodes s),
     resetCodes := filter (\<lambda>c. code_userId c \<noteq> u) (resetCodes s),
     sessions := filter (\<lambda>x. ses_userId x \<noteq> u) (sessions s),
     verifications := filter (\<lambda>v. iv_userId v \<noteq> u) (verifications s)\<rparr>"

definition deleteForAdmin :: "id \<Rightarrow> platform \<Rightarrow> platform" where
  "deleteForAdmin u st = (case st of (db, s) \<Rightarrow> (deleteRows u db, deleteIdentity u s))"

definition deleteUserAccount :: "id \<Rightarrow> id \<Rightarrow> platform \<Rightarrow> err + platform" where
  "deleteUserAccount adminUserId u st = (case st of (db, s) \<Rightarrow>
     (case findAccountById s u of
        None \<Rightarrow> Inl USER_ACCOUNT_NOT_FOUND
      | Some existing \<Rightarrow>
          Inr (deleteForAdmin u (writeAudit adminUserId ''USER_ACCOUNT_DELETED'' ''User'' u db, s))))"

text \<open>The deletions of a bulk request run one after the other here.  A failure is reported with its
  message where it is the program's own, and else with a general one.\<close>

definition failureReason :: "err \<Rightarrow> err option" where
  "failureReason e = (case e of DomainException c \<Rightarrow> Some e | PrismaError c \<Rightarrow> None)"

fun bulkDeleteUserAccounts :: "id \<Rightarrow> id list \<Rightarrow> platform \<Rightarrow> (id list \<times> (id \<times> err option) list) \<times> platform" where
  "bulkDeleteUserAccounts adminUserId [] st = (([], []), st)"
| "bulkDeleteUserAccounts adminUserId (u # us) st = (case deleteUserAccount adminUserId u st of
       Inr st' \<Rightarrow> (case bulkDeleteUserAccounts adminUserId us st' of
           ((succeeded, failed), st'') \<Rightarrow> ((u # succeeded, failed), st''))
     | Inl e \<Rightarrow> (case bulkDeleteUserAccounts adminUserId us st of
           ((succeeded, failed), st'') \<Rightarrow> ((succeeded, (u, failureReason e) # failed), st'')))"

section \<open>Photos\<close>

datatype AdminProfileKind = CUSTOMER | PROFESSIONAL

definition CUSTOMER_PROFILE_NOT_FOUND :: err where
  "CUSTOMER_PROFILE_NOT_FOUND = DomainException ''CUSTOMER_PROFILE_NOT_FOUND''"
definition PROFESSIONAL_PROFILE_NOT_FOUND :: err where
  "PROFESSIONAL_PROFILE_NOT_FOUND = DomainException ''PROFESSIONAL_PROFILE_NOT_FOUND''"
definition INVALID_PROFILE_PHOTO_URL :: err where
  "INVALID_PROFILE_PHOTO_URL = DomainException ''INVALID_PROFILE_PHOTO_URL''"

text \<open>The runtime's parser of URLs is a parameter: it answers the origin, the path and the query, or
  throws.\<close>

record ParsedUrl =
  url_origin :: string
  url_pathname :: string
  url_search :: string

definition isLowerHex :: "char \<Rightarrow> bool" where
  "isLowerHex c \<longleftrightarrow> (48 \<le> (of_char c :: nat) \<and> (of_char c :: nat) \<le> 57)
     \<or> (97 \<le> (of_char c :: nat) \<and> (of_char c :: nat) \<le> 102)"

definition uploadedImagePath :: "string \<Rightarrow> bool" where
  "uploadedImagePath path = (let r = dropWhile (\<lambda>c. c = CHR ''/'') path
     in r \<noteq> path \<and> take 8 r = ''uploads/'' \<and> length r = 45 \<and> list_all isLowerHex (take 32 (drop 8 r))
        \<and> drop 40 r = ''.webp'')"

definition assertOwnStorageUrl :: "(string \<Rightarrow> ParsedUrl option) \<Rightarrow> string \<Rightarrow> string \<Rightarrow> err option" where
  "assertOwnStorageUrl parseUrl baseUrl photoUrl = (case (parseUrl photoUrl, parseUrl baseUrl) of
       (Some parsed, Some base) \<Rightarrow>
         if url_origin parsed \<noteq> url_origin base \<or> \<not> uploadedImagePath (url_pathname parsed) \<or> url_search parsed \<noteq> []
         then Some INVALID_PROFILE_PHOTO_URL else None
     | _ \<Rightarrow> Some INVALID_PROFILE_PHOTO_URL)"

definition applyProfilePhoto ::
  "id \<Rightarrow> id \<Rightarrow> AdminProfileKind \<Rightarrow> string option \<Rightarrow> string \<Rightarrow> platform \<Rightarrow> err + platform" where
  "applyProfilePhoto adminUserId u kind photoUrl action st = (case st of (db, s) \<Rightarrow>
     (if findAccountById s u = None then Inl USER_ACCOUNT_NOT_FOUND
      else case kind of
        AdminProfileKind.CUSTOMER \<Rightarrow>
          (if findCustomerProfileByUserId db u = None then Inl CUSTOMER_PROFILE_NOT_FOUND
           else Inr (writeAudit adminUserId action ''CustomerProfile'' u
             (db\<lparr>customerProfiles := updateMany (\<lambda>p. cp_userId p = u) (\<lambda>p. p\<lparr>cp_photoUrl := photoUrl\<rparr>) (customerProfiles db)\<rparr>), s))
      | AdminProfileKind.PROFESSIONAL \<Rightarrow>
          (if findProfessionalProfileByUserId db u = None then Inl PROFESSIONAL_PROFILE_NOT_FOUND
           else Inr (writeAudit adminUserId action ''ProfessionalProfile'' u
             (db\<lparr>professionalProfiles := updateMany (\<lambda>p. pp_userId p = u) (\<lambda>p. p\<lparr>pp_photoUrl := photoUrl\<rparr>) (professionalProfiles db)\<rparr>), s))))"

definition setUserProfilePhoto ::
  "(string \<Rightarrow> ParsedUrl option) \<Rightarrow> string \<Rightarrow> id \<Rightarrow> id \<Rightarrow> AdminProfileKind \<Rightarrow> string \<Rightarrow> platform \<Rightarrow> err + platform" where
  "setUserProfilePhoto parseUrl baseUrl adminUserId u kind photoUrl st =
     (case assertOwnStorageUrl parseUrl baseUrl photoUrl of
        Some e \<Rightarrow> Inl e
      | None \<Rightarrow> applyProfilePhoto adminUserId u kind (Some photoUrl) ''USER_PROFILE_PHOTO_SET'' st)"

definition removeUserProfilePhoto :: "id \<Rightarrow> id \<Rightarrow> AdminProfileKind \<Rightarrow> platform \<Rightarrow> err + platform" where
  "removeUserProfilePhoto adminUserId u kind st =
     applyProfilePhoto adminUserId u kind None ''USER_PROFILE_PHOTO_REMOVED'' st"

end
