(* ===== verification/Admin_Views.thy ===== *)
theory Admin_Views
  imports Account_Deletion Quote_Negotiation Provider_Payments Reviews
begin

text \<open>
  What the administration panel reads of the marketplace (src/src/platform-admin: quotes,
  service-requests, ledger, payment-attempts, reviews, user-accounts and the three threads), page by
  page, the financial events grouped from the ledger, and the request an administrator publishes for
  a customer.  An absent field of a filter does not restrict.  A foreign key without its row, which the
  database excludes, is \<^theory_text>\<open>REQUIRED_RELATION_MISSING\<close>.
\<close>

section \<open>Pages\<close>

definition DEFAULT_LIMIT :: int where "DEFAULT_LIMIT = 50"
definition MAX_LIMIT :: int where "MAX_LIMIT = 200"

definition pageLimit :: "int option \<Rightarrow> nat" where
  "pageLimit limitInput = nat (min (max (case limitInput of None \<Rightarrow> DEFAULT_LIMIT | Some l \<Rightarrow> l) 1) MAX_LIMIT)"

definition pageOffset :: "int option \<Rightarrow> nat" where
  "pageOffset offsetInput = nat (max (case offsetInput of None \<Rightarrow> 0 | Some k \<Rightarrow> k) 0)"

record 'a adminPage =
  pg_items :: "'a list"
  pg_totalCount :: nat
  pg_limit :: nat
  pg_offset :: nat

definition REQUIRED_RELATION_MISSING :: err where
  "REQUIRED_RELATION_MISSING = PrismaError ''REQUIRED_RELATION_MISSING''"

definition joinAll :: "('a \<Rightarrow> 'b option) \<Rightarrow> 'a list \<Rightarrow> err + 'b list" where
  "joinAll f rows = orThrow REQUIRED_RELATION_MISSING (those (map f rows))"

text \<open>A page of a table: newest first, then \<^theory_text>\<open>skip\<close> and \<^theory_text>\<open>take\<close>, then the joins of the rows taken.\<close>

definition adminPageOf :: "('a \<Rightarrow> time) \<Rightarrow> ('a \<Rightarrow> 'b option) \<Rightarrow> int option \<Rightarrow> int option \<Rightarrow> 'a list \<Rightarrow> err + 'b adminPage" where
  "adminPageOf createdAt join limitInput offsetInput rows =
     (let limit = pageLimit limitInput; offset = pageOffset offsetInput
      in andThen (joinAll join (take limit (drop offset (sort_key (\<lambda>r. - createdAt r) rows)))) (\<lambda>items.
        Inr \<lparr>pg_items = items, pg_totalCount = length rows, pg_limit = limit, pg_offset = offset\<rparr>))"

section \<open>The parties\<close>

record AdminCustomer =
  ac_id :: id
  ac_userId :: id
  ac_email :: string
  ac_firstName :: string
  ac_lastName :: string

record AdminProfessional =
  ap_id :: id
  ap_userId :: id
  ap_email :: string
  ap_firstName :: string
  ap_lastName :: string
  ap_displayName :: "string option"

definition toCustomerModel :: "platform \<Rightarrow> id \<Rightarrow> AdminCustomer option" where
  "toCustomerModel st i = (case findRow (\<lambda>p. cp_id p = i) (customerProfiles (fst st)) of
       None \<Rightarrow> None
     | Some p \<Rightarrow> (case findAccountById (snd st) (cp_userId p) of
           None \<Rightarrow> None
         | Some a \<Rightarrow> Some \<lparr>ac_id = cp_id p, ac_userId = acc_id a, ac_email = acc_email a,
             ac_firstName = cp_firstName p, ac_lastName = cp_lastName p\<rparr>))"

definition toProfessionalModel :: "platform \<Rightarrow> id \<Rightarrow> AdminProfessional option" where
  "toProfessionalModel st i = (case findRow (\<lambda>p. pp_id p = i) (professionalProfiles (fst st)) of
       None \<Rightarrow> None
     | Some p \<Rightarrow> (case findAccountById (snd st) (pp_userId p) of
           None \<Rightarrow> None
         | Some a \<Rightarrow> Some \<lparr>ap_id = pp_id p, ap_userId = acc_id a, ap_email = acc_email a,
             ap_firstName = pp_firstName p, ap_lastName = pp_lastName p, ap_displayName = pp_displayName p\<rparr>))"

section \<open>Quotes\<close>

record AdminQuoteServiceRequest =
  aqs_id :: id
  aqs_description :: string
  aqs_status :: ServiceRequestStatus
  aqs_category :: Category
  aqs_customerProfile :: AdminCustomer

record AdminQuote =
  aq_id :: id
  aq_price :: int
  aq_negotiatedPrice :: "int option"
  aq_finalPrice :: int
  aq_message :: string
  aq_status :: QuoteStatus
  aq_serviceRequest :: AdminQuoteServiceRequest
  aq_professional :: AdminProfessional
  aq_negotiationMessageCount :: nat
  aq_createdAt :: time

definition toServiceRequestModel :: "platform \<Rightarrow> id \<Rightarrow> AdminQuoteServiceRequest option" where
  "toServiceRequestModel st i = (case findServiceRequestById (fst st) i of
       None \<Rightarrow> None
     | Some s \<Rightarrow> (case (findCategoryByIdForAdmin (fst st) (sr_categoryId s), toCustomerModel st (sr_customerProfileId s)) of
           (Some c, Some customer) \<Rightarrow> Some \<lparr>aqs_id = sr_id s, aqs_description = sr_description s, aqs_status = sr_status s,
              aqs_category = c, aqs_customerProfile = customer\<rparr>
         | _ \<Rightarrow> None))"

definition negotiationMessageCount :: "db \<Rightarrow> id \<Rightarrow> nat" where
  "negotiationMessageCount db quoteId = countWhere (\<lambda>m. nm_quoteId m = quoteId) (negotiationMessages db)"

definition toAdminQuoteModel :: "platform \<Rightarrow> Quote \<Rightarrow> AdminQuote option" where
  "toAdminQuoteModel st q = (case (toServiceRequestModel st (q_serviceRequestId q), toProfessionalModel st (q_professionalProfileId q)) of
       (Some s, Some p) \<Rightarrow> Some \<lparr>aq_id = q_id q, aq_price = q_price q, aq_negotiatedPrice = q_negotiatedPrice q,
          aq_finalPrice = quotedPriceOf q, aq_message = q_message q, aq_status = q_status q, aq_serviceRequest = s,
          aq_professional = p, aq_negotiationMessageCount = negotiationMessageCount (fst st) (q_id q),
          aq_createdAt = q_createdAt q\<rparr>
     | _ \<Rightarrow> None)"

definition listQuotes :: "int option \<Rightarrow> int option \<Rightarrow> platform \<Rightarrow> err + AdminQuote adminPage" where
  "listQuotes limit offset st = adminPageOf q_createdAt (toAdminQuoteModel st) limit offset (quotes (fst st))"

text \<open>The detail adds the engagement and the attachments in their order.\<close>

record AdminQuoteDetail =
  aqd_quote :: AdminQuote
  aqd_engagement :: "(id \<times> EngagementStatus \<times> time) option"
  aqd_attachments :: "(id \<times> string) list"

definition attachmentsOf :: "id \<Rightarrow> Attachment list \<Rightarrow> (id \<times> string) list" where
  "attachmentsOf owner rows = map (\<lambda>a. (att_id a, att_url a)) (sort_key att_order (filter (\<lambda>a. att_ownerId a = owner) rows))"

definition ADMIN_QUOTE_NOT_FOUND :: err where
  "ADMIN_QUOTE_NOT_FOUND = DomainException ''ADMIN_QUOTE_NOT_FOUND''"

definition toEngagementModel :: "Engagement \<Rightarrow> id \<times> EngagementStatus \<times> time" where
  "toEngagementModel e = (eng_id e, eng_status e, eng_createdAt e)"

definition getQuoteDetail :: "id \<Rightarrow> platform \<Rightarrow> err + AdminQuoteDetail" where
  "getQuoteDetail i st = (case findQuoteById (fst st) i of
       None \<Rightarrow> Inl ADMIN_QUOTE_NOT_FOUND
     | Some q \<Rightarrow> (case toAdminQuoteModel st q of
           None \<Rightarrow> Inl REQUIRED_RELATION_MISSING
         | Some m \<Rightarrow> Inr \<lparr>aqd_quote = m,
             aqd_engagement = map_option toEngagementModel (findRow (\<lambda>e. eng_quoteId e = i) (engagements (fst st))),
             aqd_attachments = attachmentsOf i (quoteAttachments (fst st))\<rparr>))"

definition getNegotiationThread :: "id \<Rightarrow> db \<Rightarrow> err + (QuoteNegotiationMessage \<times> QuotePriceProposal option) list" where
  "getNegotiationThread quoteId db =
     (if findQuoteById db quoteId = None then Inl ADMIN_QUOTE_NOT_FOUND else Inr (findMessagesByQuoteId db quoteId))"

section \<open>Requests\<close>

record AdminServiceRequest =
  asr_id :: id
  asr_customer :: AdminCustomer
  asr_category :: Category
  asr_description :: string
  asr_indicativeBudgetMin :: "int option"
  asr_indicativeBudgetMax :: "int option"
  asr_status :: ServiceRequestStatus
  asr_cancelledAt :: "time option"
  asr_attachmentsCount :: nat
  asr_createdAt :: time

definition toAdminServiceRequestModel :: "platform \<Rightarrow> ServiceRequest \<Rightarrow> AdminServiceRequest option" where
  "toAdminServiceRequestModel st s =
     (case (toCustomerModel st (sr_customerProfileId s), findCategoryByIdForAdmin (fst st) (sr_categoryId s)) of
        (Some customer, Some c) \<Rightarrow> Some \<lparr>asr_id = sr_id s, asr_customer = customer, asr_category = c,
           asr_description = sr_description s, asr_indicativeBudgetMin = sr_indicativeBudgetMin s,
           asr_indicativeBudgetMax = sr_indicativeBudgetMax s, asr_status = sr_status s,
           asr_cancelledAt = sr_cancelledAt s,
           asr_attachmentsCount = countWhere (\<lambda>a. att_ownerId a = sr_id s) (srAttachments (fst st)),
           asr_createdAt = sr_createdAt s\<rparr>
      | _ \<Rightarrow> None)"

definition listServiceRequests :: "int option \<Rightarrow> int option \<Rightarrow> platform \<Rightarrow> err + AdminServiceRequest adminPage" where
  "listServiceRequests limit offset st =
     adminPageOf sr_createdAt (toAdminServiceRequestModel st) limit offset (serviceRequests (fst st))"

record AdminServiceRequestQuote =
  arq_id :: id
  arq_price :: int
  arq_negotiatedPrice :: "int option"
  arq_finalPrice :: int
  arq_status :: QuoteStatus
  arq_negotiationMessageCount :: nat
  arq_professional :: AdminProfessional
  arq_createdAt :: time

definition toQuoteModel :: "platform \<Rightarrow> Quote \<Rightarrow> AdminServiceRequestQuote option" where
  "toQuoteModel st q = (case toProfessionalModel st (q_professionalProfileId q) of
       None \<Rightarrow> None
     | Some p \<Rightarrow> Some \<lparr>arq_id = q_id q, arq_price = q_price q, arq_negotiatedPrice = q_negotiatedPrice q,
         arq_finalPrice = quotedPriceOf q, arq_status = q_status q,
         arq_negotiationMessageCount = negotiationMessageCount (fst st) (q_id q), arq_professional = p,
         arq_createdAt = q_createdAt q\<rparr>)"

record AdminServiceRequestDetail =
  ard_request :: AdminServiceRequest
  ard_attachments :: "(id \<times> string) list"
  ard_quotes :: "AdminServiceRequestQuote list"

definition ADMIN_SERVICE_REQUEST_NOT_FOUND :: err where
  "ADMIN_SERVICE_REQUEST_NOT_FOUND = DomainException ''ADMIN_SERVICE_REQUEST_NOT_FOUND''"

definition getServiceRequestDetail :: "id \<Rightarrow> platform \<Rightarrow> err + AdminServiceRequestDetail" where
  "getServiceRequestDetail i st = (case findServiceRequestById (fst st) i of
       None \<Rightarrow> Inl ADMIN_SERVICE_REQUEST_NOT_FOUND
     | Some s \<Rightarrow>
         andThen (orThrow REQUIRED_RELATION_MISSING (toAdminServiceRequestModel st s)) (\<lambda>m.
         andThen (joinAll (toQuoteModel st) (sort_key (\<lambda>q. - q_createdAt q)
                   (filter (\<lambda>q. q_serviceRequestId q = i) (quotes (fst st))))) (\<lambda>qs.
           Inr \<lparr>ard_request = m, ard_attachments = attachmentsOf i (srAttachments (fst st)), ard_quotes = qs\<rparr>)))"

section \<open>Publishing for a customer\<close>

record AdminCreateServiceRequestInput =
  acs_userId :: id
  acs_category :: id
  acs_description :: string
  acs_indicativeBudgetMin :: "int supplied"
  acs_indicativeBudgetMax :: "int supplied"

definition createServiceRequestForCustomer ::
  "time \<Rightarrow> id \<Rightarrow> AdminCreateServiceRequestInput \<Rightarrow> platform \<Rightarrow> err + AdminServiceRequest \<times> platform" where
  "createServiceRequestForCustomer now adminUserId input st = (case st of (db, s) \<Rightarrow>
     (case findAccountStatusById s (acs_userId input) of
        None \<Rightarrow> Inl USER_ACCOUNT_NOT_FOUND
      | Some status \<Rightarrow>
         if status \<noteq> UserAccountStatus.APPROVED then Inl ACCOUNT_NOT_APPROVED
         else (case findCustomerProfileByUserId db (acs_userId input) of
            None \<Rightarrow> Inl CUSTOMER_PROFILE_REQUIRED
          | Some customerProfile \<Rightarrow>
             if Categories.findExistingCategoryIds db [acs_category input] = [] then Inl CATEGORY_NOT_FOUND
             else if budgetRangeInvalid (acs_indicativeBudgetMin input) (acs_indicativeBudgetMax input)
               then Inl INVALID_SERVICE_REQUEST_BUDGET_RANGE
             else andThen (publish_tx now \<lparr>pub_customerProfileId = cp_id customerProfile,
                    pub_categoryId = acs_category input, pub_description = acs_description input,
                    pub_indicativeBudgetMin = orNull (acs_indicativeBudgetMin input),
                    pub_indicativeBudgetMax = orNull (acs_indicativeBudgetMax input), pub_attachmentRefs = []\<rparr> db)
                  (\<lambda>(created, db').
                    andThen (orThrow REQUIRED_RELATION_MISSING (toAdminServiceRequestModel (db', s) created)) (\<lambda>m.
                      Inr (m, writeAudit adminUserId ''SERVICE_REQUEST_CREATED_BY_ADMIN'' ''ServiceRequest'' (sr_id created) db', s))))))"

text \<open>The order of names is the database's collation, a rank, and its case folding is that of ASCII.\<close>

definition matchesInsensitive :: "string \<Rightarrow> string \<Rightarrow> bool" where
  "matchesInsensitive needle hay \<longleftrightarrow> contains (map lowerChar hay) (map lowerChar needle)"

definition listEligibleCustomers :: "(string \<Rightarrow> nat) \<Rightarrow> string option \<Rightarrow> platform \<Rightarrow> AdminCustomer list" where
  "listEligibleCustomers rank search st =
     (let trimmed = (case search of None \<Rightarrow> [] | Some t \<Rightarrow> trim t);
          wanted = (\<lambda>c. findAccountStatusById (snd st) (ac_userId c) = Some UserAccountStatus.APPROVED
            \<and> (trimmed = [] \<or> matchesInsensitive trimmed (ac_firstName c) \<or> matchesInsensitive trimmed (ac_lastName c)
               \<or> matchesInsensitive trimmed (ac_email c)))
      in take 20 (sort_key (\<lambda>c. rank (ac_lastName c)) (sort_key (\<lambda>c. rank (ac_firstName c))
           (filter wanted (List.map_filter (\<lambda>p. toCustomerModel st (cp_id p)) (customerProfiles (fst st)))))))"

end
