(* ===== verification/Admin_Ledger.thy ===== *)
theory Admin_Ledger
  imports Admin_Views
begin

text \<open>
  The money as the administration panel shows it (src/src/platform-admin/ledger and payment-attempts):
  the rows of the ledger and the payment attempts with their filters, the platform's balance, and one
  summary per financial event, grouped from the newest rows of the ledger; with the grid of the
  accounts, the reviews and the two threads of an engagement.
\<close>

section \<open>Rows with a filter\<close>

record AdminLedgerEntriesFilter =
  lf_engagementId :: "id option"
  lf_professionalProfileId :: "id option"
  lf_from :: "time option"
  lf_to :: "time option"

definition restricts :: "'a option \<Rightarrow> ('a \<Rightarrow> bool) \<Rightarrow> bool" where
  "restricts f p \<longleftrightarrow> (case f of None \<Rightarrow> True | Some v \<Rightarrow> p v)"

definition ledgerFilter :: "AdminLedgerEntriesFilter option \<Rightarrow> LedgerEntry \<Rightarrow> bool" where
  "ledgerFilter filt r \<longleftrightarrow> (case filt of None \<Rightarrow> True | Some f \<Rightarrow>
     restricts (lf_engagementId f) (\<lambda>i. le_engagementId r = Some i)
     \<and> restricts (lf_professionalProfileId f) (\<lambda>i. le_professionalProfileId r = Some i)
     \<and> restricts (lf_from f) (\<lambda>t. t \<le> le_createdAt r) \<and> restricts (lf_to f) (\<lambda>t. le_createdAt r \<le> t))"

definition listLedgerEntries ::
  "AdminLedgerEntriesFilter option \<Rightarrow> int option \<Rightarrow> int option \<Rightarrow> db \<Rightarrow> err + LedgerEntry adminPage" where
  "listLedgerEntries filt limit offset db =
     adminPageOf le_createdAt Some limit offset (filter (ledgerFilter filt) (ledgerEntries db))"

record AdminPaymentAttemptsFilter =
  af_engagementId :: "id option"
  af_onlyPending :: "bool option"

definition attemptsFilter :: "AdminPaymentAttemptsFilter option \<Rightarrow> PaymentAttempt \<Rightarrow> bool" where
  "attemptsFilter filt a \<longleftrightarrow> (case filt of None \<Rightarrow> True | Some f \<Rightarrow>
     restricts (af_engagementId f) (\<lambda>i. pa_engagementId a = i)
     \<and> (af_onlyPending f = Some True \<longrightarrow>
          pa_status a \<in> {PaymentAttemptStatus.PENDING, PaymentAttemptStatus.REJECTED}))"

definition listPaymentAttempts ::
  "AdminPaymentAttemptsFilter option \<Rightarrow> int option \<Rightarrow> int option \<Rightarrow> db \<Rightarrow> err + PaymentAttempt adminPage" where
  "listPaymentAttempts filt limit offset db =
     adminPageOf pa_createdAt Some limit offset (filter (attemptsFilter filt) (paymentAttempts db))"

record AdminReviewsFilter =
  rf_commentModerationStatus :: "ReviewCommentModerationStatus option"
  rf_engagementId :: "id option"
  rf_professionalProfileId :: "id option"

definition reviewsFilter :: "db \<Rightarrow> AdminReviewsFilter option \<Rightarrow> Review \<Rightarrow> bool" where
  "reviewsFilter db filt r \<longleftrightarrow> (case filt of None \<Rightarrow> True | Some f \<Rightarrow>
     restricts (rf_commentModerationStatus f) (\<lambda>s. rv_commentModerationStatus r = Some s)
     \<and> restricts (rf_engagementId f) (\<lambda>i. rv_engagementId r = i)
     \<and> restricts (rf_professionalProfileId f) (\<lambda>p.
          case findEngagementById db (rv_engagementId r) of None \<Rightarrow> False | Some e \<Rightarrow> eng_professionalProfileId e = p))"

definition listReviews ::
  "AdminReviewsFilter option \<Rightarrow> int option \<Rightarrow> int option \<Rightarrow> db \<Rightarrow> err + Review adminPage" where
  "listReviews filt limit offset db =
     adminPageOf rv_createdAt Some limit offset (filter (reviewsFilter db filt) (reviews db))"

section \<open>Threads of an engagement\<close>

definition ADMIN_ENGAGEMENT_NOT_FOUND :: err where
  "ADMIN_ENGAGEMENT_NOT_FOUND = DomainException ''ADMIN_ENGAGEMENT_NOT_FOUND''"

definition getChatThread :: "id \<Rightarrow> db \<Rightarrow> err + EngagementChatMessage list" where
  "getChatThread engagementId db =
     (if findEngagementById db engagementId = None then Inl ADMIN_ENGAGEMENT_NOT_FOUND
      else Inr (findMessagesByEngagementId db engagementId))"

definition getAppointments :: "id \<Rightarrow> db \<Rightarrow> err + Appointment list" where
  "getAppointments engagementId db =
     (if findEngagementById db engagementId = None then Inl ADMIN_ENGAGEMENT_NOT_FOUND
      else Inr (findManyAppointmentsByEngagementId db engagementId))"

section \<open>Accounts\<close>

record UserAccount =
  ua_account :: Account
  ua_hasCustomerProfile :: bool
  ua_hasProfessionalProfile :: bool

text \<open>The password hash and the provider's subject are not selected.\<close>

definition selectForAdmin :: "Account \<Rightarrow> Account" where
  "selectForAdmin a = a\<lparr>acc_passwordHash := None, acc_socialProviderSubject := None\<rparr>"

definition toUserAccountModel :: "db \<Rightarrow> Account \<Rightarrow> UserAccount" where
  "toUserAccountModel db a = \<lparr>ua_account = selectForAdmin a,
     ua_hasCustomerProfile = (findCustomerProfileByUserId db (acc_id a) \<noteq> None),
     ua_hasProfessionalProfile = (findProfessionalProfileByUserId db (acc_id a) \<noteq> None)\<rparr>"

definition listUserAccounts :: "int option \<Rightarrow> int option \<Rightarrow> platform \<Rightarrow> err + UserAccount adminPage" where
  "listUserAccounts limit offset st =
     adminPageOf acc_createdAt (\<lambda>a. Some (toUserAccountModel (fst st) a)) limit offset (accounts (snd st))"

record UserAccountDetail =
  ud_account :: UserAccount
  ud_customerProfile :: "CustomerProfile option"
  ud_professionalProfile :: "ProfessionalProfile option"
  ud_professionalPaymentBalance :: "int option"

definition getUserAccountDetail :: "id \<Rightarrow> platform \<Rightarrow> err + UserAccountDetail" where
  "getUserAccountDetail i st = (case findAccountById (snd st) i of
       None \<Rightarrow> Inl USER_ACCOUNT_NOT_FOUND
     | Some a \<Rightarrow>
         let professionalProfile = map_option
               (\<lambda>p. p\<lparr>pp_specializations := sort_key spec_order (pp_specializations p)\<rparr>)
               (findProfessionalProfileByUserId (fst st) i)
         in Inr \<lparr>ud_account = toUserAccountModel (fst st) a,
              ud_customerProfile = findCustomerProfileByUserId (fst st) i,
              ud_professionalProfile = professionalProfile,
              ud_professionalPaymentBalance = map_option (\<lambda>p. sumProfessionalBalance (fst st) (pp_id p)) professionalProfile\<rparr>)"

section \<open>Financial events\<close>

definition getPlatformBalance :: "db \<Rightarrow> int" where
  "getPlatformBalance db = sumPlatformBalance db"

definition ADMIN_PAYMENT_SUMMARY_RAW_FETCH_CAP :: nat where "ADMIN_PAYMENT_SUMMARY_RAW_FETCH_CAP = 500"

definition findManyForAdminPaymentSummaries :: "db \<Rightarrow> LedgerEntry list" where
  "findManyForAdminPaymentSummaries db = take ADMIN_PAYMENT_SUMMARY_RAW_FETCH_CAP
     (newestFirst (filter (\<lambda>r. le_engagementId r \<noteq> None) (ledgerEntries db)))"

record EventGroup =
  gr_engagementId :: id
  gr_occurredAt :: time
  gr_rows :: "LedgerEntry list"

text \<open>The groups in the order of their first rows; a row goes to the group of its engagement and
  millisecond, or opens one.\<close>

fun addToGroup :: "id \<Rightarrow> LedgerEntry \<Rightarrow> EventGroup list \<Rightarrow> EventGroup list" where
  "addToGroup e row [] = [\<lparr>gr_engagementId = e, gr_occurredAt = le_createdAt row, gr_rows = [row]\<rparr>]"
| "addToGroup e row (g # gs) =
     (if gr_engagementId g = e \<and> gr_occurredAt g = le_createdAt row
      then g\<lparr>gr_rows := gr_rows g @ [row]\<rparr> # gs else g # addToGroup e row gs)"

definition groupRow :: "db \<Rightarrow> EventGroup list \<Rightarrow> LedgerEntry \<Rightarrow> EventGroup list" where
  "groupRow db groups row = (case le_engagementId row of
       None \<Rightarrow> groups
     | Some e \<Rightarrow> if findEngagementById db e = None then groups else addToGroup e row groups)"

definition groupIntoEvents :: "db \<Rightarrow> LedgerEntry list \<Rightarrow> EventGroup list" where
  "groupIntoEvents db rows = foldl (groupRow db) [] rows"

record AdminEngagementPaymentSummary =
  sm_engagementId :: id
  sm_paymentMethod :: "PaymentMethod option"
  sm_customer :: AdminCustomer
  sm_professional :: AdminProfessional
  sm_professionalBalance :: int
  sm_currency :: string
  sm_occurredAt :: time
  sm_entries :: "LedgerEntry list"
  sm_eventType :: EngagementPaymentEventKind
  sm_totalPaidByCustomer :: int
  sm_platformCommission :: int
  sm_professionalNetAmount :: int
  sm_professionalTotalPendingCashDebt :: "int option"
  sm_paymentAttempt :: "PaymentAttempt option"

definition toSummaryModel :: "platform \<Rightarrow> EventGroup \<Rightarrow> AdminEngagementPaymentSummary option" where
  "toSummaryModel st g = (case findEngagementById (fst st) (gr_engagementId g) of
       None \<Rightarrow> None
     | Some e \<Rightarrow>
        (case (findQuoteById (fst st) (eng_quoteId e), toCustomerModel st (eng_customerProfileId e),
               toProfessionalModel st (eng_professionalProfileId e)) of
           (Some q, Some customer, Some professional) \<Rightarrow>
             let classified = classifyLedgerEventRows (gr_rows g) (quotedPriceOf q)
             in Some \<lparr>sm_engagementId = gr_engagementId g, sm_paymentMethod = eng_paymentMethod e,
                  sm_customer = customer, sm_professional = professional,
                  sm_professionalBalance = sumProfessionalBalance (fst st) (ap_id professional),
                  sm_currency = le_currency (hd (gr_rows g)), sm_occurredAt = gr_occurredAt g,
                  sm_entries = gr_rows g, sm_eventType = ev_eventType classified,
                  sm_totalPaidByCustomer = ev_totalPaidByCustomer classified,
                  sm_platformCommission = ev_platformCommission classified,
                  sm_professionalNetAmount = ev_professionalNetAmount classified,
                  sm_professionalTotalPendingCashDebt =
                    (if ev_eventType classified = CASH_PAYMENT
                     then Some (sumCashCommissionDebtForProfessional (fst st) (ap_id professional)) else None),
                  sm_paymentAttempt = findApprovedByEngagementId (fst st) (gr_engagementId g)\<rparr>
         | _ \<Rightarrow> None))"

definition listEngagementPaymentSummaries ::
  "int option \<Rightarrow> int option \<Rightarrow> platform \<Rightarrow> err + AdminEngagementPaymentSummary adminPage" where
  "listEngagementPaymentSummaries limitInput offsetInput st =
     (let limit = pageLimit limitInput; offset = pageOffset offsetInput;
          groups = groupIntoEvents (fst st) (findManyForAdminPaymentSummaries (fst st))
      in andThen (joinAll (toSummaryModel st) (take limit (drop offset groups))) (\<lambda>items.
        Inr \<lparr>pg_items = items, pg_totalCount = length groups, pg_limit = limit, pg_offset = offset\<rparr>))"

end
