(* ===== verification/Email_Templates.thy ===== *)
theory Email_Templates
  imports Admin_Access
begin

text \<open>
  The emails the program sends (src/src/email, src/src/platform-admin/email-templates and the three
  senders of src/src/users, src/src/password-reset and src/src/platform-admin/admin-invites): the
  substitution of variables in a template, the header and footer every email shares, the queue, the
  router that picks a provider, and what an administrator may change.  A text is the list of its bytes.
  What a JavaScript object inherits from \<^theory_text>\<open>Object.prototype\<close> counts as a
  variable of it; its text form is the runtime's and is a parameter (\<^theory_text>\<open>inherited\<close>).
  The Spanish labels of the templates are left out.
\<close>

section \<open>Substitution of variables\<close>

datatype mail_error = MailDomain err | MailTypeError | ProviderFailed

definition codeOf :: "char \<Rightarrow> nat" where "codeOf c = of_char c"

definition isWordChar :: "char \<Rightarrow> bool" where
  "isWordChar c \<longleftrightarrow> (48 \<le> codeOf c \<and> codeOf c \<le> 57) \<or> (65 \<le> codeOf c \<and> codeOf c \<le> 90)
     \<or> codeOf c = 95 \<or> (97 \<le> codeOf c \<and> codeOf c \<le> 122)"

definition replaceAll :: "char \<Rightarrow> string \<Rightarrow> string \<Rightarrow> string" where
  "replaceAll c by s = concat (map (\<lambda>x. if x = c then by else [x]) s)"

definition escapeHtml :: "string \<Rightarrow> string" where
  "escapeHtml value =
     replaceAll (CHR 39) ''&#39;''
       (replaceAll (CHR 34) ''&quot;''
         (replaceAll (CHR ''>'') ''&gt;''
           (replaceAll (CHR ''<'') ''&lt;''
             (replaceAll (CHR ''&'') ''&amp;'' value))))"

text \<open>The token at the beginning of a text, and what follows it.\<close>

definition tokenAt :: "string \<Rightarrow> (string \<times> string) option" where
  "tokenAt s = (if take 2 s = ''{{''
     then let w = takeWhile isWordChar (drop 2 s); r = dropWhile isWordChar (drop 2 s)
          in if w \<noteq> [] \<and> take 2 r = ''}}'' then Some (w, drop 2 r) else None
     else None)"

lemma tokenAt_shorter: "tokenAt s = Some (w, r) \<Longrightarrow> length r < length s"
proof -
  assume t: "tokenAt s = Some (w, r)"
  then have s: "take 2 s = ''{{''" and r: "r = drop 2 (dropWhile isWordChar (drop 2 s))"
    by (auto simp: tokenAt_def Let_def split: if_splits)
  have "length (dropWhile isWordChar (drop 2 s)) \<le> length (drop 2 s)" by (rule length_dropWhile_le)
  moreover have "s \<noteq> []" using s by auto
  ultimately have "length r \<le> length s - 2" "0 < length s" by (simp_all add: r)
  then show ?thesis by linarith
qed

definition OBJECT_PROTOTYPE_NAMES :: "string list" where
  "OBJECT_PROTOTYPE_NAMES =
     [''constructor'', ''hasOwnProperty'', ''isPrototypeOf'', ''propertyIsEnumerable'', ''toLocaleString'',
      ''toString'', ''valueOf'', ''__proto__'', ''__defineGetter__'', ''__defineSetter__'',
      ''__lookupGetter__'', ''__lookupSetter__'']"

type_synonym variables = "(string \<times> string) list"

definition tokenValue :: "(string \<Rightarrow> string) \<Rightarrow> variables \<Rightarrow> bool \<Rightarrow> string \<Rightarrow> mail_error + string" where
  "tokenValue inherited vars escapeValues name = (case map_of vars name of
       Some value \<Rightarrow> Inr (if escapeValues then escapeHtml value else value)
     | None \<Rightarrow>
         if name \<in> set OBJECT_PROTOTYPE_NAMES
         then (if escapeValues then Inl MailTypeError else Inr (inherited name))
         else Inr (''{{'' @ name @ ''}}''))"

function substitute :: "(string \<Rightarrow> string) \<Rightarrow> string \<Rightarrow> variables \<Rightarrow> bool \<Rightarrow> mail_error + string" where
  "substitute inherited text vars escapeValues = (case tokenAt text of
       Some (name, rest) \<Rightarrow>
         (case tokenValue inherited vars escapeValues name of
            Inl e \<Rightarrow> Inl e
          | Inr v \<Rightarrow> (case substitute inherited rest vars escapeValues of
                Inl e \<Rightarrow> Inl e
              | Inr s \<Rightarrow> Inr (v @ s)))
     | None \<Rightarrow> (case text of
            [] \<Rightarrow> Inr []
          | c # cs \<Rightarrow> (case substitute inherited cs vars escapeValues of
                Inl e \<Rightarrow> Inl e
              | Inr s \<Rightarrow> Inr (c # s))))"
  by pat_completeness auto
termination by (relation "measure (\<lambda>(_, text, _, _). length text)") (auto dest: tokenAt_shorter)

declare substitute.simps [simp del]

record EmailTemplate =
  et_key :: string
  et_subject :: string
  et_htmlBody :: string
  et_textBody :: string
  et_updatedBy :: "id option"

record RenderedEmail =
  re_subject :: string
  re_text :: string
  re_html :: string

definition renderEmailTemplate :: "(string \<Rightarrow> string) \<Rightarrow> EmailTemplate \<Rightarrow> variables \<Rightarrow> mail_error + RenderedEmail" where
  "renderEmailTemplate inherited row vars =
     andThen (substitute inherited (et_subject row) vars False) (\<lambda>subject.
     andThen (substitute inherited (et_textBody row) vars False) (\<lambda>text.
     andThen (substitute inherited (et_htmlBody row) vars True) (\<lambda>html.
       Inr \<lparr>re_subject = subject, re_text = text, re_html = html\<rparr>)))"

section \<open>The layout and the queue\<close>

record EmailLayout =
  el_headerHtml :: string
  el_footerHtml :: string
  el_headerText :: string
  el_footerText :: string
  el_logoUrl :: "string option"
  el_updatedBy :: "id option"

record EmailJob =
  job_to :: string
  job_subject :: string
  job_text :: string
  job_html :: string
  job_kind :: string

text \<open>The templates and the layout of the database, and the jobs added to the queue.\<close>

record mailbox =
  emailTemplates :: "EmailTemplate list"
  emailLayout :: "EmailLayout option"
  emailQueue :: "EmailJob list"

definition EMAIL_TEMPLATE_NOT_CONFIGURED :: err where
  "EMAIL_TEMPLATE_NOT_CONFIGURED = DomainException ''EMAIL_TEMPLATE_NOT_CONFIGURED''"
definition EMAIL_LAYOUT_NOT_CONFIGURED :: err where
  "EMAIL_LAYOUT_NOT_CONFIGURED = DomainException ''EMAIL_LAYOUT_NOT_CONFIGURED''"
definition UNKNOWN_EMAIL_TEMPLATE_KEY :: err where
  "UNKNOWN_EMAIL_TEMPLATE_KEY = DomainException ''UNKNOWN_EMAIL_TEMPLATE_KEY''"
definition EMAIL_TEMPLATE_ROW_NOT_SEEDED :: err where
  "EMAIL_TEMPLATE_ROW_NOT_SEEDED = DomainException ''EMAIL_TEMPLATE_ROW_NOT_SEEDED''"
definition EMAIL_LAYOUT_ROW_NOT_SEEDED :: err where
  "EMAIL_LAYOUT_ROW_NOT_SEEDED = DomainException ''EMAIL_LAYOUT_ROW_NOT_SEEDED''"
definition UNSUPPORTED_EMAIL_LOGO_CONTENT_TYPE :: err where
  "UNSUPPORTED_EMAIL_LOGO_CONTENT_TYPE = DomainException ''UNSUPPORTED_EMAIL_LOGO_CONTENT_TYPE''"

definition findTemplateByKey :: "mailbox \<Rightarrow> string \<Rightarrow> EmailTemplate option" where
  "findTemplateByKey m key = findRow (\<lambda>t. et_key t = key) (emailTemplates m)"

text \<open>The variables of the layout: \<^theory_text>\<open>logoUrl\<close> wins over a variable of that name.\<close>

definition layoutVariables :: "variables \<Rightarrow> EmailLayout \<Rightarrow> variables" where
  "layoutVariables vars layout = (''logoUrl'', case el_logoUrl layout of None \<Rightarrow> [] | Some u \<Rightarrow> u) # vars"

definition render :: "(string \<Rightarrow> string) \<Rightarrow> mailbox \<Rightarrow> string \<Rightarrow> variables \<Rightarrow> mail_error + RenderedEmail" where
  "render inherited m key vars = (case findTemplateByKey m key of
       None \<Rightarrow> Inl (MailDomain EMAIL_TEMPLATE_NOT_CONFIGURED)
     | Some template \<Rightarrow> (case emailLayout m of
           None \<Rightarrow> Inl (MailDomain EMAIL_LAYOUT_NOT_CONFIGURED)
         | Some layout \<Rightarrow>
             andThen (renderEmailTemplate inherited template vars) (\<lambda>body.
             let lv = layoutVariables vars layout in
             andThen (substitute inherited (el_headerHtml layout) lv True) (\<lambda>headerHtml.
             andThen (substitute inherited (el_footerHtml layout) lv True) (\<lambda>footerHtml.
             andThen (substitute inherited (el_headerText layout) lv False) (\<lambda>headerText.
             andThen (substitute inherited (el_footerText layout) lv False) (\<lambda>footerText.
               Inr \<lparr>re_subject = re_subject body, re_text = headerText @ re_text body @ footerText,
                    re_html = headerHtml @ re_html body @ footerHtml\<rparr>)))))))"

definition enqueueEmail :: "string \<Rightarrow> RenderedEmail \<Rightarrow> string \<Rightarrow> mailbox \<Rightarrow> mailbox" where
  "enqueueEmail recipient e kind m = m\<lparr>emailQueue := emailQueue m @
     [\<lparr>job_to = recipient, job_subject = re_subject e, job_text = re_text e, job_html = re_html e, job_kind = kind\<rparr>]\<rparr>"

definition renderAndEnqueue :: "(string \<Rightarrow> string) \<Rightarrow> string \<Rightarrow> variables \<Rightarrow> string \<Rightarrow> string \<Rightarrow> mailbox \<Rightarrow> mail_error + mailbox" where
  "renderAndEnqueue inherited key vars recipient kind m =
     andThen (render inherited m key vars) (\<lambda>e. Inr (enqueueEmail recipient e kind m))"

section \<open>The senders\<close>

definition greetingOf :: "string option \<Rightarrow> string" where
  "greetingOf firstName = (if nonEmpty firstName then ''Hola '' @ the firstName @ '','' else ''Hola,'')"

definition codeVariables :: "string \<Rightarrow> string option \<Rightarrow> nat \<Rightarrow> variables" where
  "codeVariables code firstName ttlMinutes =
     [(''greeting'', greetingOf firstName), (''firstName'', case firstName of None \<Rightarrow> [] | Some s \<Rightarrow> s),
      (''code'', code), (''ttlMinutes'', decimal ttlMinutes)]"

definition sendVerificationCode ::
  "(string \<Rightarrow> string) \<Rightarrow> nat \<Rightarrow> string \<Rightarrow> string \<Rightarrow> string option \<Rightarrow> mailbox \<Rightarrow> mail_error + mailbox" where
  "sendVerificationCode inherited ttlMinutes email code firstName =
     renderAndEnqueue inherited ''verification_code'' (codeVariables code firstName ttlMinutes) email ''verification_code''"

definition sendPasswordResetCode ::
  "(string \<Rightarrow> string) \<Rightarrow> nat \<Rightarrow> string \<Rightarrow> string \<Rightarrow> string option \<Rightarrow> mailbox \<Rightarrow> mail_error + mailbox" where
  "sendPasswordResetCode inherited ttlMinutes email code firstName =
     renderAndEnqueue inherited ''password_reset_code'' (codeVariables code firstName ttlMinutes) email ''password_reset_code''"

definition hexDigit :: "nat \<Rightarrow> char" where
  "hexDigit n = (if n < 10 then char_of (48 + n) else char_of (55 + n))"

definition isUriUnreserved :: "char \<Rightarrow> bool" where
  "isUriUnreserved c \<longleftrightarrow> isWordChar c \<or> c \<in> {CHR ''-'', CHR ''.'', CHR ''!'', CHR ''~'', CHR ''*'', CHR 39, CHR ''('', CHR '')''}"

definition encodeURIComponent :: "string \<Rightarrow> string" where
  "encodeURIComponent s = concat (map (\<lambda>c. if isUriUnreserved c then [c]
     else [CHR ''%'', hexDigit (codeOf c div 16), hexDigit (codeOf c mod 16)]) s)"

definition inviteLinkOf :: "string \<Rightarrow> string \<Rightarrow> string" where
  "inviteLinkOf adminPanelPublicUrl rawToken = adminPanelPublicUrl @ ''?invite='' @ encodeURIComponent rawToken"

definition sendAdminInvite ::
  "(string \<Rightarrow> string) \<Rightarrow> nat \<Rightarrow> string \<Rightarrow> string \<Rightarrow> string \<Rightarrow> string \<Rightarrow> mailbox \<Rightarrow> mail_error + mailbox" where
  "sendAdminInvite inherited ttlHours adminPanelPublicUrl email rawToken displayName =
     renderAndEnqueue inherited ''admin_invite''
       [(''greeting'', ''Hola '' @ displayName @ '',''), (''displayName'', displayName),
        (''inviteLink'', inviteLinkOf adminPanelPublicUrl rawToken), (''ttlHours'', decimal ttlHours)]
       email ''admin_invite''"

section \<open>What an administrator may change\<close>

definition KNOWN_EMAIL_TEMPLATE_KEYS :: "string list" where
  "KNOWN_EMAIL_TEMPLATE_KEYS = [''verification_code'', ''password_reset_code'', ''admin_invite'']"

definition isKnownEmailTemplateKey :: "string \<Rightarrow> bool" where
  "isKnownEmailTemplateKey key \<longleftrightarrow> key \<in> set KNOWN_EMAIL_TEMPLATE_KEYS"

definition EMAIL_TEMPLATE_SAMPLE_VARIABLES :: "string \<Rightarrow> variables" where
  "EMAIL_TEMPLATE_SAMPLE_VARIABLES key =
     (if key = ''admin_invite'' then
        [(''greeting'', ''Hola Juana Admin,''), (''displayName'', ''Juana Admin''),
         (''inviteLink'', ''https://admin.example.com/admin?invite=sample-token''), (''ttlHours'', ''72'')]
      else
        [(''greeting'', ''Hola Juana,''), (''firstName'', ''Juana''), (''code'', ''123456''), (''ttlMinutes'', ''15'')])"

type_synonym mailing = "db \<times> mailbox"

definition updateByKey :: "string \<Rightarrow> (EmailTemplate \<Rightarrow> EmailTemplate) \<Rightarrow> mailbox \<Rightarrow> mailbox" where
  "updateByKey key change m = m\<lparr>emailTemplates := updateMany (\<lambda>t. et_key t = key) change (emailTemplates m)\<rparr>"

definition writeMailAudit :: "id \<Rightarrow> string \<Rightarrow> string \<Rightarrow> string \<Rightarrow> db \<Rightarrow> db" where
  "writeMailAudit adminUserId action targetType key db = db\<lparr>auditLog := auditLog db @
     [\<lparr>al_actorAdminUserId = adminUserId, al_action = action, al_targetType = targetType,
       al_targetKey = SettingKey key\<rparr>]\<rparr>"

definition updateEmailTemplate ::
  "id \<Rightarrow> string \<Rightarrow> string \<Rightarrow> string \<Rightarrow> string \<Rightarrow> mailing \<Rightarrow> err + EmailTemplate \<times> mailing" where
  "updateEmailTemplate adminUserId key subject htmlBody textBody st = (case st of (db, m) \<Rightarrow>
     if \<not> isKnownEmailTemplateKey key then Inl UNKNOWN_EMAIL_TEMPLATE_KEY
     else (case findTemplateByKey m key of
         None \<Rightarrow> Inl EMAIL_TEMPLATE_ROW_NOT_SEEDED
       | Some _ \<Rightarrow>
           let row = \<lparr>et_key = key, et_subject = subject, et_htmlBody = htmlBody, et_textBody = textBody,
                      et_updatedBy = Some adminUserId\<rparr>
           in Inr (row, writeMailAudit adminUserId ''EMAIL_TEMPLATE_UPDATED'' ''EmailTemplate'' key db,
                   updateByKey key (\<lambda>_. row) m)))"

definition updateEmailLayout :: "id \<Rightarrow> EmailLayout \<Rightarrow> mailing \<Rightarrow> EmailLayout \<times> mailing" where
  "updateEmailLayout adminUserId input st = (case st of (db, m) \<Rightarrow>
     let row = input\<lparr>el_updatedBy := Some adminUserId\<rparr>
     in (row, writeMailAudit adminUserId ''EMAIL_LAYOUT_UPDATED'' ''EmailLayout'' ''singleton'' db,
         m\<lparr>emailLayout := Some row\<rparr>))"

definition getEmailLayout :: "mailbox \<Rightarrow> err + EmailLayout" where
  "getEmailLayout m = (case emailLayout m of None \<Rightarrow> Inl EMAIL_LAYOUT_ROW_NOT_SEEDED | Some row \<Rightarrow> Inr row)"

text \<open>The order of keys is the database's collation, a rank.\<close>

definition listEmailTemplates :: "(string \<Rightarrow> nat) \<Rightarrow> mailbox \<Rightarrow> EmailTemplate list" where
  "listEmailTemplates rank m = sort_key (\<lambda>t. rank (et_key t)) (emailTemplates m)"

definition sendTestEmailTemplate ::
  "(string \<Rightarrow> string) \<Rightarrow> bool \<Rightarrow> string \<Rightarrow> string \<Rightarrow> mailing \<Rightarrow> mail_error + mailbox" where
  "sendTestEmailTemplate inherited production key recipient st = (case st of (db, m) \<Rightarrow>
     (case ensureAvailable production db of
        Some e \<Rightarrow> Inl (MailDomain e)
      | None \<Rightarrow>
          if \<not> isKnownEmailTemplateKey key then Inl (MailDomain UNKNOWN_EMAIL_TEMPLATE_KEY)
          else renderAndEnqueue inherited key (EMAIL_TEMPLATE_SAMPLE_VARIABLES key) recipient ''admin_template_test'' m))"

definition ALLOWED_EMAIL_LOGO_CONTENT_TYPES :: "string list" where
  "ALLOWED_EMAIL_LOGO_CONTENT_TYPES =
     [''image/jpeg'', ''image/png'', ''image/webp'', ''image/gif'', ''image/heic'', ''image/heif'']"

definition requestEmailLogoUploadUrl :: "(string \<Rightarrow> string \<Rightarrow> 'target) \<Rightarrow> string \<Rightarrow> string \<Rightarrow> err + 'target" where
  "requestEmailLogoUploadUrl createUploadUrl fileName contentType =
     (if contentType \<notin> set ALLOWED_EMAIL_LOGO_CONTENT_TYPES then Inl UNSUPPORTED_EMAIL_LOGO_CONTENT_TYPE
      else Inr (createUploadUrl fileName contentType))"

section \<open>Delivery\<close>

text \<open>
  The two clients of a provider are parameters: \<^theory_text>\<open>resend\<close>, called with the
  API key, the sender and the job, and \<^theory_text>\<open>mailpit\<close>, called with the job.  Each
  answers whether it took the email; where it did not, the client throws.
\<close>

definition RESEND_FROM_NAME :: string where
  "RESEND_FROM_NAME = ''notifications.email.resend.from-name''"

definition fromHeader :: "string option \<Rightarrow> string \<Rightarrow> string" where
  "fromHeader fromName fromAddress =
     (case fromName of None \<Rightarrow> ''GoService'' | Some n \<Rightarrow> n) @ '' <'' @ fromAddress @ ''>''"

definition resendSend :: "(string \<Rightarrow> string \<Rightarrow> EmailJob \<Rightarrow> bool) \<Rightarrow> db \<Rightarrow> EmailJob \<Rightarrow> mail_error + unit" where
  "resendSend resend db job =
     (if getValue db RESEND_ENABLED \<noteq> Some ''true'' then Inl (MailDomain EMAIL_DELIVERY_DISABLED)
      else if \<not> nonEmpty (getValue db RESEND_API_KEY) \<or> \<not> nonEmpty (getValue db RESEND_FROM_ADDRESS)
        then Inl (MailDomain EMAIL_DELIVERY_MISCONFIGURED)
      else if resend (the (getValue db RESEND_API_KEY))
                (fromHeader (getValue db RESEND_FROM_NAME) (the (getValue db RESEND_FROM_ADDRESS))) job
        then Inr () else Inl ProviderFailed)"

definition mailpitSend :: "(EmailJob \<Rightarrow> bool) \<Rightarrow> EmailJob \<Rightarrow> mail_error + unit" where
  "mailpitSend mailpit job = (if mailpit job then Inr () else Inl ProviderFailed)"

definition routeEmail ::
  "(string \<Rightarrow> string \<Rightarrow> EmailJob \<Rightarrow> bool) \<Rightarrow> (EmailJob \<Rightarrow> bool) \<Rightarrow> bool \<Rightarrow> db \<Rightarrow> EmailJob \<Rightarrow> mail_error + unit" where
  "routeEmail resend mailpit production db job =
     (if getValue db EMAIL_PROVIDER_SETTING_KEY = Some ''MAILPIT''
      then (if production then Inl (MailDomain EMAIL_DELIVERY_MISCONFIGURED) else mailpitSend mailpit job)
      else resendSend resend db job)"

text \<open>The worker's run of a job; the settings are those of the time it runs.\<close>

definition processEmailJob ::
  "(string \<Rightarrow> string \<Rightarrow> EmailJob \<Rightarrow> bool) \<Rightarrow> (EmailJob \<Rightarrow> bool) \<Rightarrow> bool \<Rightarrow> db \<Rightarrow> EmailJob \<Rightarrow> mail_error + unit" where
  "processEmailJob resend mailpit production db job = routeEmail resend mailpit production db job"

end
