(* ===== verification/Storage.thy ===== *)
theory Storage
  imports Account_Deletion Platform_Settings Media_Uploads
begin

text \<open>
  The storage of uploaded files (src/src/storage): the signed upload URLs of the local adapter, the two
  endpoints of the uploads controller, and the worker that re-encodes images.  The disk is the function
  \<^theory_text>\<open>files\<close> from paths to contents, whose operations succeed; contents and texts are
  lists of bytes.  \<^theory_text>\<open>hmac\<close>, the hexadecimal HMAC-SHA256 under the adapter's secret,
  and the image library, which tells the format of some bytes (\<^theory_text>\<open>imageFormat\<close>) and
  encodes them as WebP (\<^theory_text>\<open>encodeWebp\<close>), each failing on bytes it cannot decode, are
  parameters, with the random names and the directory and URL of the configuration, the directory being
  absolute and normalised.
\<close>

section \<open>The adapter\<close>

record StorageEnv =
  hmac :: "string \<Rightarrow> string"
  imageFormat :: "string \<Rightarrow> string option"
  encodeWebp :: "rat \<Rightarrow> rat \<Rightarrow> string \<Rightarrow> string option"
  fractionText :: "rat \<Rightarrow> string"
  uploadsDir :: string
  baseUrl :: string

record storage =
  files :: "string \<Rightarrow> string option"
  imageJobs :: "string list"

datatype upload_error = Unauthorized | NotFound | UNSUPPORTED_IMAGE_FORMAT | InvalidStorageKey | ImageUndecodable

definition UPLOAD_URL_TTL_MINUTES :: int where "UPLOAD_URL_TTL_MINUTES = 30"
definition STAGING_DIR_NAME :: string where "STAGING_DIR_NAME = ''.staging''"

text \<open>The extension of a file name, as Node's \<^theory_text>\<open>extname\<close> has it: from the last dot of
  the last segment, unless nothing stands before that dot.\<close>

definition baseName :: "string \<Rightarrow> string" where
  "baseName path = rev (takeWhile (\<lambda>c. c \<noteq> CHR ''/'') (dropWhile (\<lambda>c. c = CHR ''/'') (rev path)))"

definition extname :: "string \<Rightarrow> string" where
  "extname path = (let b = baseName path;
       afterDot = rev (takeWhile (\<lambda>c. c \<noteq> CHR ''.'') (rev b));
       stem = take (length b - Suc (length afterDot)) b
     in if CHR ''.'' \<notin> set b \<or> stem = [] \<or> b = ''..'' then [] else CHR ''.'' # afterDot)"

definition isLower :: "char \<Rightarrow> bool" where
  "isLower c \<longleftrightarrow> 97 \<le> (of_char c :: nat) \<and> (of_char c :: nat) \<le> 122"

definition validKey :: "string \<Rightarrow> bool" where
  "validKey key \<longleftrightarrow> 32 \<le> length key \<and> list_all isLowerHex (take 32 key)
     \<and> (case drop 32 key of [] \<Rightarrow> True | c # e \<Rightarrow> c = CHR ''.'' \<and> e \<noteq> [] \<and> list_all isLower e)"

definition pathFor :: "StorageEnv \<Rightarrow> string \<Rightarrow> upload_error + string" where
  "pathFor env key = (if validKey key then Inr (uploadsDir env @ ''/'' @ key) else Inl InvalidStorageKey)"

definition stagingPathFor :: "StorageEnv \<Rightarrow> string \<Rightarrow> upload_error + string" where
  "stagingPathFor env key =
     (if validKey key then Inr (uploadsDir env @ ''/'' @ STAGING_DIR_NAME @ ''/'' @ key) else Inl InvalidStorageKey)"

text \<open>An integer below 10 to the 21 prints in decimal; the text of other numbers is the runtime's.\<close>

definition numberText :: "StorageEnv \<Rightarrow> rat \<Rightarrow> string" where
  "numberText env q =
     (if of_int \<lfloor>q\<rfloor> = q \<and> 0 \<le> q \<and> q < 10 ^ 21 then decimal (nat \<lfloor>q\<rfloor>) else fractionText env q)"

definition signToken :: "StorageEnv \<Rightarrow> string \<Rightarrow> rat \<Rightarrow> string" where
  "signToken env key expiresAtMillis = hmac env (key @ '':'' @ numberText env expiresAtMillis)"

text \<open>\<^theory_text>\<open>random\<close> is the text of the 16 random bytes.\<close>

definition extensionFor :: "string \<Rightarrow> string" where
  "extensionFor contentType =
     (if startsWith contentType ''image/'' then ''.webp''
      else if contentType = ''application/pdf'' then ''.pdf'' else [])"

definition newKey :: "string \<Rightarrow> string \<Rightarrow> string" where
  "newKey random contentType = random @ extensionFor contentType"

definition expiryOf :: "time \<Rightarrow> time" where
  "expiryOf now = now + UPLOAD_URL_TTL_MINUTES * 60000"

definition publicUrlOf :: "StorageEnv \<Rightarrow> string \<Rightarrow> string" where
  "publicUrlOf env key = baseUrl env @ ''/uploads/'' @ key"

definition createUploadUrl :: "StorageEnv \<Rightarrow> time \<Rightarrow> string \<Rightarrow> string \<Rightarrow> string \<Rightarrow> UploadTarget" where
  "createUploadUrl env now random fileName contentType =
     (let key = newKey random contentType;
          expires = of_int (expiryOf now);
          token = signToken env key expires
      in \<lparr>ut_uploadUrl = publicUrlOf env key @ ''?token='' @ token @ ''&expires='' @ numberText env expires,
          ut_publicUrl = publicUrlOf env key, ut_expiresAt = expiryOf now\<rparr>)"

definition verifyUploadToken :: "StorageEnv \<Rightarrow> time \<Rightarrow> string \<Rightarrow> js_number \<Rightarrow> string \<Rightarrow> bool" where
  "verifyUploadToken env now key expiresAtMillis token = (case expiresAtMillis of
       Finite q \<Rightarrow> \<not> of_int now > q \<and> (let expected = signToken env key q
          in length expected = length token \<and> expected = token)
     | _ \<Rightarrow> False)"

definition writeAt :: "string \<Rightarrow> string option \<Rightarrow> storage \<Rightarrow> storage" where
  "writeAt path content st = st\<lparr>files := (files st)(path := content)\<rparr>"

definition writeFile :: "StorageEnv \<Rightarrow> string \<Rightarrow> string \<Rightarrow> storage \<Rightarrow> upload_error + storage" where
  "writeFile env key bytes st = andThen (pathFor env key) (\<lambda>p. Inr (writeAt p (Some bytes) st))"

definition readFile :: "StorageEnv \<Rightarrow> string \<Rightarrow> storage \<Rightarrow> string option" where
  "readFile env key st = (case pathFor env key of Inl _ \<Rightarrow> None | Inr p \<Rightarrow> files st p)"

definition writeStagingFile :: "StorageEnv \<Rightarrow> string \<Rightarrow> string \<Rightarrow> storage \<Rightarrow> upload_error + storage" where
  "writeStagingFile env key bytes st = andThen (stagingPathFor env key) (\<lambda>p. Inr (writeAt p (Some bytes) st))"

definition readStagingFile :: "StorageEnv \<Rightarrow> string \<Rightarrow> storage \<Rightarrow> string option" where
  "readStagingFile env key st = (case stagingPathFor env key of Inl _ \<Rightarrow> None | Inr p \<Rightarrow> files st p)"

text \<open>The result goes to a temporary file beside the final one, which is renamed; where the renaming
  fails it is written in place and the temporary file is removed.\<close>

definition promoteStagingToFinal ::
  "StorageEnv \<Rightarrow> string \<Rightarrow> bool \<Rightarrow> string \<Rightarrow> string \<Rightarrow> storage \<Rightarrow> upload_error + storage" where
  "promoteStagingToFinal env random renames key webpBytes st =
     andThen (pathFor env key) (\<lambda>finalPath.
     let tmpPath = finalPath @ ''.tmp-'' @ random;
         written = writeAt tmpPath (Some webpBytes) st;
         final = (if renames then writeAt tmpPath None (writeAt finalPath (files written tmpPath) written)
                  else writeAt tmpPath None (writeAt finalPath (Some webpBytes) written))
     in andThen (stagingPathFor env key) (\<lambda>p. Inr (writeAt p None final)))"

definition EXTENSION_CONTENT_TYPES :: "(string \<times> string) list" where
  "EXTENSION_CONTENT_TYPES = [(''.webp'', ''image/webp''), (''.pdf'', ''application/pdf'')]"

definition getContentType :: "string \<Rightarrow> string" where
  "getContentType key = (case map_of EXTENSION_CONTENT_TYPES (extname key) of
       None \<Rightarrow> ''application/octet-stream'' | Some t \<Rightarrow> t)"

section \<open>Images\<close>

definition DECODABLE_RASTER_FORMATS :: "string list" where
  "DECODABLE_RASTER_FORMATS = [''jpeg'', ''png'', ''webp'', ''gif'', ''heif'', ''avif'', ''tiff'']"

definition sniffImageFormat :: "StorageEnv \<Rightarrow> string \<Rightarrow> upload_error + string" where
  "sniffImageFormat env bytes = (case imageFormat env bytes of
       None \<Rightarrow> Inl UNSUPPORTED_IMAGE_FORMAT
     | Some f \<Rightarrow> if f = [] \<or> f \<notin> set DECODABLE_RASTER_FORMATS then Inl UNSUPPORTED_IMAGE_FORMAT else Inr f)"

definition IMAGE_MAX_DIMENSION_PX_DEFAULT :: rat where "IMAGE_MAX_DIMENSION_PX_DEFAULT = 1024"
definition IMAGE_WEBP_QUALITY_MIN :: rat where "IMAGE_WEBP_QUALITY_MIN = 1"
definition IMAGE_WEBP_QUALITY_MAX :: rat where "IMAGE_WEBP_QUALITY_MAX = 100"
definition IMAGE_WEBP_QUALITY_DEFAULT :: rat where "IMAGE_WEBP_QUALITY_DEFAULT = 80"

definition resolveMaxDimensionPx :: "db \<Rightarrow> rat" where
  "resolveMaxDimensionPx db = (case getValue db IMAGE_MAX_DIMENSION_PX_KEY of
       None \<Rightarrow> IMAGE_MAX_DIMENSION_PX_DEFAULT
     | Some raw \<Rightarrow> (case Number raw of
           Finite parsed \<Rightarrow> if parsed \<in> set IMAGE_MAX_DIMENSION_PX_CHOICES then parsed else IMAGE_MAX_DIMENSION_PX_DEFAULT
         | _ \<Rightarrow> IMAGE_MAX_DIMENSION_PX_DEFAULT))"

definition resolveQuality :: "db \<Rightarrow> rat" where
  "resolveQuality db = (case getValue db IMAGE_WEBP_QUALITY_KEY of
       None \<Rightarrow> IMAGE_WEBP_QUALITY_DEFAULT
     | Some raw \<Rightarrow> (case Number raw of
           Finite parsed \<Rightarrow> if of_int \<lfloor>parsed\<rfloor> = parsed \<and> IMAGE_WEBP_QUALITY_MIN \<le> parsed \<and> parsed \<le> IMAGE_WEBP_QUALITY_MAX
             then parsed else IMAGE_WEBP_QUALITY_DEFAULT
         | _ \<Rightarrow> IMAGE_WEBP_QUALITY_DEFAULT))"

definition toWebp :: "StorageEnv \<Rightarrow> db \<Rightarrow> string \<Rightarrow> upload_error + string" where
  "toWebp env db input = (case encodeWebp env (resolveMaxDimensionPx db) (resolveQuality db) input of
       None \<Rightarrow> Inl ImageUndecodable | Some webp \<Rightarrow> Inr webp)"

section \<open>The endpoints and the worker\<close>

definition enqueueImage :: "string \<Rightarrow> storage \<Rightarrow> storage" where
  "enqueueImage key st = st\<lparr>imageJobs := imageJobs st @ [key]\<rparr>"

definition expiresNumber :: "string option \<Rightarrow> js_number" where
  "expiresNumber expires = (case expires of None \<Rightarrow> NaN | Some s \<Rightarrow> Number s)"

definition putUpload ::
  "StorageEnv \<Rightarrow> time \<Rightarrow> string \<Rightarrow> string option \<Rightarrow> string option \<Rightarrow> string \<Rightarrow> storage
     \<Rightarrow> upload_error + (bool \<times> bool) \<times> storage" where
  "putUpload env now key token expires bytes st =
     (if \<not> nonEmpty token \<or> \<not> verifyUploadToken env now key (expiresNumber expires) (the token) then Inl Unauthorized
      else if extname key = ''.webp'' then
        andThen (sniffImageFormat env bytes) (\<lambda>_.
        andThen (writeStagingFile env key bytes st) (\<lambda>st'. Inr ((True, True), enqueueImage key st')))
      else andThen (writeFile env key bytes st) (\<lambda>st'. Inr ((True, False), st')))"

definition getUpload :: "StorageEnv \<Rightarrow> string \<Rightarrow> storage \<Rightarrow> upload_error + string \<times> string" where
  "getUpload env key st = (case readFile env key st of
       None \<Rightarrow> Inl NotFound | Some bytes \<Rightarrow> Inr (getContentType key, bytes))"

text \<open>A run of a job reads the staged upload and encodes it, which takes time, and then promotes the
  result: \<^theory_text>\<open>encodeStaged\<close> and \<^theory_text>\<open>promoteStagingToFinal\<close>.  Without a
  staged upload there is nothing to do.\<close>

definition encodeStaged :: "StorageEnv \<Rightarrow> db \<Rightarrow> string \<Rightarrow> storage \<Rightarrow> upload_error + string option" where
  "encodeStaged env db key st = (case readStagingFile env key st of
       None \<Rightarrow> Inr None
     | Some original \<Rightarrow> andThen (toWebp env db original) (\<lambda>webp. Inr (Some webp)))"

definition processImage :: "StorageEnv \<Rightarrow> db \<Rightarrow> string \<Rightarrow> bool \<Rightarrow> string \<Rightarrow> storage \<Rightarrow> upload_error + storage" where
  "processImage env db random renames key st =
     andThen (encodeStaged env db key st) (\<lambda>r. case r of
       None \<Rightarrow> Inr st
     | Some webp \<Rightarrow> promoteStagingToFinal env random renames key webp st)"

end
