(* ===== verification/Gateway.thy ===== *)
theory Gateway
  imports Admin_Ledger Email_Templates Storage Category_Tree Financial_Summary Cash_Payment Engagement_Chat Appointments
begin

text \<open>
  What stands in front of the services (the guards under src/src and the decorators of the resolvers):
  who is calling, whether the caller's account is approved, whether a module is switched on, and whether
  an administrator has a permission.  A resolver's operation runs its guards in their order and then one
  service on the whole state, the record \<^theory_text>\<open>world\<close>.  The limiter of the request rate,
  which is a library's, is left out.
\<close>

section \<open>The state and the runtime\<close>

record world =
  w_db :: db
  w_identity :: identity
  w_admin :: administration
  w_mail :: mailbox

text \<open>What the runtime, the configuration and the outside give to a call: the time, the hash functions,
  the providers, the collation of the database, random values.\<close>

record runtime =
  rt_now :: time
  rt_crypto :: Crypto
  rt_provider :: Provider
  rt_didit :: "string \<Rightarrow> string \<Rightarrow> id \<Rightarrow> (string \<times> string) option"
  rt_social :: "SocialProvider \<Rightarrow> string \<Rightarrow> IdentityOutcome"
  rt_storage :: StorageEnv
  rt_randomName :: string
  rt_rank :: "string \<Rightarrow> nat"
  rt_sameName :: "string \<Rightarrow> string \<Rightarrow> bool"
  rt_inherited :: "string \<Rightarrow> string"
  rt_parseUrl :: "string \<Rightarrow> ParsedUrl option"
  rt_production :: bool
  rt_verification :: CodePolicy
  rt_reset :: CodePolicy
  rt_invites :: InvitePolicy
  rt_sessionTtlHours :: int
  rt_decoyHash :: string
  rt_randomToken :: string
  rt_salt :: nat
  rt_randomCode :: nat

definition uploadUrls :: "runtime \<Rightarrow> string \<Rightarrow> string \<Rightarrow> UploadTarget" where
  "uploadUrls rt = createUploadUrl (rt_storage rt) (rt_now rt) (rt_randomName rt)"

datatype api_error = Refused err | Crashed

text \<open>A service sees a part of the state.  A service that fails leaves that part as it was, unless it
  says what it leaves (\<^theory_text>\<open>servePart\<close>).\<close>

type_synonym 'r service = "world \<Rightarrow> (api_error + 'r) \<times> world"

definition refuse :: "err + 'r \<Rightarrow> api_error + 'r" where
  "refuse r = (case r of Inl e \<Rightarrow> Inl (Refused e) | Inr a \<Rightarrow> Inr a)"

definition orCrash :: "'r option \<Rightarrow> api_error + 'r" where
  "orCrash r = (case r of None \<Rightarrow> Inl Crashed | Some a \<Rightarrow> Inr a)"

definition answer :: "(world \<Rightarrow> api_error + 'r) \<Rightarrow> 'r service" where
  "answer f w = (f w, w)"

definition servePart :: "(world \<Rightarrow> 's) \<Rightarrow> ('s \<Rightarrow> world \<Rightarrow> world) \<Rightarrow> ('s \<Rightarrow> (err + 'r) \<times> 's) \<Rightarrow> 'r service" where
  "servePart get put f w = (case f (get w) of (r, s) \<Rightarrow> (refuse r, put s w))"

definition serveWhole :: "(world \<Rightarrow> 's) \<Rightarrow> ('s \<Rightarrow> world \<Rightarrow> world) \<Rightarrow> ('s \<Rightarrow> err + 'r \<times> 's) \<Rightarrow> 'r service" where
  "serveWhole get put f w = (case f (get w) of Inl e \<Rightarrow> (Inl (Refused e), w) | Inr (r, s) \<Rightarrow> (Inr r, put s w))"

definition noResult :: "('s \<Rightarrow> err + 's) \<Rightarrow> 's \<Rightarrow> err + unit \<times> 's" where
  "noResult f s = (case f s of Inl e \<Rightarrow> Inl e | Inr s' \<Rightarrow> Inr ((), s'))"

definition setDb :: "db \<Rightarrow> world \<Rightarrow> world" where "setDb d w = w\<lparr>w_db := d\<rparr>"
definition setIdentity :: "identity \<Rightarrow> world \<Rightarrow> world" where "setIdentity s w = w\<lparr>w_identity := s\<rparr>"
definition setAdmin :: "administration \<Rightarrow> world \<Rightarrow> world" where "setAdmin a w = w\<lparr>w_admin := a\<rparr>"
definition setMail :: "mailbox \<Rightarrow> world \<Rightarrow> world" where "setMail m w = w\<lparr>w_mail := m\<rparr>"

definition onDb :: "(db \<Rightarrow> err + 'r \<times> db) \<Rightarrow> 'r service" where
  "onDb = serveWhole w_db setDb"
definition onPlatform :: "(platform \<Rightarrow> err + 'r \<times> platform) \<Rightarrow> 'r service" where
  "onPlatform = serveWhole (\<lambda>w. (w_db w, w_identity w)) (\<lambda>(d, s) w. setIdentity s (setDb d w))"
definition onPanel :: "(panel \<Rightarrow> err + 'r \<times> panel) \<Rightarrow> 'r service" where
  "onPanel = serveWhole (\<lambda>w. (w_db w, w_admin w)) (\<lambda>(d, a) w. setAdmin a (setDb d w))"
definition onMailing :: "(mailing \<Rightarrow> err + 'r \<times> mailing) \<Rightarrow> 'r service" where
  "onMailing = serveWhole (\<lambda>w. (w_db w, w_mail w)) (\<lambda>(d, m) w. setMail m (setDb d w))"
definition onIdentity :: "(identity \<Rightarrow> err + 'r \<times> identity) \<Rightarrow> 'r service" where
  "onIdentity = serveWhole w_identity setIdentity"
definition onAdmin :: "(administration \<Rightarrow> err + 'r \<times> administration) \<Rightarrow> 'r service" where
  "onAdmin = serveWhole w_admin setAdmin"

definition readDb :: "(db \<Rightarrow> err + 'r) \<Rightarrow> 'r service" where
  "readDb f = answer (\<lambda>w. refuse (f (w_db w)))"
definition readPlatform :: "(platform \<Rightarrow> err + 'r) \<Rightarrow> 'r service" where
  "readPlatform f = answer (\<lambda>w. refuse (f (w_db w, w_identity w)))"

section \<open>Guards\<close>

datatype guard = SessionGuard | AccountApprovedGuard | ModuleEnabledGuard string err
  | AdminSessionGuard | AdminPermissionsGuard "Permission list"

text \<open>The request: its header, and what the session guards attach to it.\<close>

record request =
  rq_authorization :: "string option"
  rq_userId :: "id option"
  rq_adminUserId :: "id option"

definition ADMIN_FORBIDDEN :: err where "ADMIN_FORBIDDEN = DomainException ''ADMIN_FORBIDDEN''"

definition canActivateSession :: "runtime \<Rightarrow> request \<Rightarrow> world \<Rightarrow> (err + request) \<times> world" where
  "canActivateSession rt q w =
     (case authenticateRequest (rt_crypto rt) (rt_now rt) (rq_authorization q) (w_identity w) of
        (Inl e, s) \<Rightarrow> (Inl e, setIdentity s w)
      | (Inr u, s) \<Rightarrow> (Inr (q\<lparr>rq_userId := Some u\<rparr>), setIdentity s w))"

definition canActivateAdminSession :: "runtime \<Rightarrow> request \<Rightarrow> world \<Rightarrow> (err + request) \<times> world" where
  "canActivateAdminSession rt q w =
     (case authenticateAdminRequest (rt_crypto rt) (rt_now rt) (rq_authorization q) (w_admin w) of
        (Inl e, a) \<Rightarrow> (Inl e, setAdmin a w)
      | (Inr u, a) \<Rightarrow> (Inr (q\<lparr>rq_adminUserId := Some u\<rparr>), setAdmin a w))"

definition canActivatePermissions :: "Permission list \<Rightarrow> request \<Rightarrow> world \<Rightarrow> err + request" where
  "canActivatePermissions required q w =
     (if required = [] then Inr q
      else if (case rq_adminUserId q of None \<Rightarrow> False | Some i \<Rightarrow> hasAllPermissions (w_admin w) i required)
        then Inr q else Inl ADMIN_FORBIDDEN)"

definition canActivate :: "runtime \<Rightarrow> guard \<Rightarrow> request \<Rightarrow> world \<Rightarrow> (err + request) \<times> world" where
  "canActivate rt g q w = (case g of
       SessionGuard \<Rightarrow> canActivateSession rt q w
     | AccountApprovedGuard \<Rightarrow>
         (case accountApprovedGuard (w_identity w) (rq_userId q) of Some e \<Rightarrow> (Inl e, w) | None \<Rightarrow> (Inr q, w))
     | ModuleEnabledGuard key e \<Rightarrow> if isEnabled (w_db w) key then (Inr q, w) else (Inl e, w)
     | AdminSessionGuard \<Rightarrow> canActivateAdminSession rt q w
     | AdminPermissionsGuard required \<Rightarrow> (canActivatePermissions required q w, w))"

fun runGuards :: "runtime \<Rightarrow> guard list \<Rightarrow> request \<Rightarrow> world \<Rightarrow> (err + request) \<times> world" where
  "runGuards rt [] q w = (Inr q, w)"
| "runGuards rt (g # gs) q w = (case canActivate rt g q w of
       (Inl e, w') \<Rightarrow> (Inl e, w')
     | (Inr q', w') \<Rightarrow> runGuards rt gs q' w')"

definition handle :: "runtime \<Rightarrow> guard list \<Rightarrow> (request \<Rightarrow> 'r service) \<Rightarrow> string option \<Rightarrow> 'r service" where
  "handle rt gs f authorization w =
     (case runGuards rt gs \<lparr>rq_authorization = authorization, rq_userId = None, rq_adminUserId = None\<rparr> w of
        (Inl e, w') \<Rightarrow> (Inl (Refused e), w')
      | (Inr q, w') \<Rightarrow> f q w')"

text \<open>\<^theory_text>\<open>CurrentUser\<close> and \<^theory_text>\<open>CurrentAdminUser\<close> read what the guards
  attached.\<close>

definition asUser :: "runtime \<Rightarrow> guard list \<Rightarrow> (id \<Rightarrow> 'r service) \<Rightarrow> string option \<Rightarrow> 'r service" where
  "asUser rt gs f = handle rt gs (\<lambda>q. f (the (rq_userId q)))"

definition asAdmin :: "runtime \<Rightarrow> Permission \<Rightarrow> guard list \<Rightarrow> (id \<Rightarrow> 'r service) \<Rightarrow> string option \<Rightarrow> 'r service" where
  "asAdmin rt p gs f =
     handle rt ([AdminSessionGuard, AdminPermissionsGuard [p]] @ gs) (\<lambda>q. f (the (rq_adminUserId q)))"

definition anyone :: "runtime \<Rightarrow> 'r service \<Rightarrow> string option \<Rightarrow> 'r service" where
  "anyone rt f = handle rt [] (\<lambda>_. f)"

definition signedIn :: "guard list" where "signedIn = [SessionGuard]"
definition approvedOnly :: "guard list" where "approvedOnly = [SessionGuard, AccountApprovedGuard]"

definition APPOINTMENTS_MODULE_DISABLED :: err where
  "APPOINTMENTS_MODULE_DISABLED = DomainException ''APPOINTMENTS_MODULE_DISABLED''"
definition CASH_PAYMENT_MODULE_DISABLED :: err where
  "CASH_PAYMENT_MODULE_DISABLED = DomainException ''CASH_PAYMENT_MODULE_DISABLED''"
definition ENGAGEMENT_CHAT_MODULE_DISABLED :: err where
  "ENGAGEMENT_CHAT_MODULE_DISABLED = DomainException ''ENGAGEMENT_CHAT_MODULE_DISABLED''"
definition CARD_PAYMENT_MODULE_DISABLED :: err where
  "CARD_PAYMENT_MODULE_DISABLED = DomainException ''CARD_PAYMENT_MODULE_DISABLED''"
definition MERCADOPAGO_WALLET_MODULE_DISABLED :: err where
  "MERCADOPAGO_WALLET_MODULE_DISABLED = DomainException ''MERCADOPAGO_WALLET_MODULE_DISABLED''"
definition QUOTE_NEGOTIATION_MODULE_DISABLED :: err where
  "QUOTE_NEGOTIATION_MODULE_DISABLED = DomainException ''QUOTE_NEGOTIATION_MODULE_DISABLED''"
definition REVIEWS_MODULE_DISABLED :: err where
  "REVIEWS_MODULE_DISABLED = DomainException ''REVIEWS_MODULE_DISABLED''"

definition AppointmentsModuleEnabledGuard :: guard where
  "AppointmentsModuleEnabledGuard = ModuleEnabledGuard ''customer.appointments.enabled'' APPOINTMENTS_MODULE_DISABLED"
definition CashPaymentModuleEnabledGuard :: guard where
  "CashPaymentModuleEnabledGuard = ModuleEnabledGuard ''payments.payment-methods.cash.enabled'' CASH_PAYMENT_MODULE_DISABLED"
definition EngagementChatModuleEnabledGuard :: guard where
  "EngagementChatModuleEnabledGuard = ModuleEnabledGuard ''customer.chat.enabled'' ENGAGEMENT_CHAT_MODULE_DISABLED"
definition CardPaymentModuleEnabledGuard :: guard where
  "CardPaymentModuleEnabledGuard = ModuleEnabledGuard ''payments.payment-methods.card.enabled'' CARD_PAYMENT_MODULE_DISABLED"
definition MercadoPagoWalletModuleEnabledGuard :: guard where
  "MercadoPagoWalletModuleEnabledGuard =
     ModuleEnabledGuard ''payments.payment-methods.mercadopago-wallet.enabled'' MERCADOPAGO_WALLET_MODULE_DISABLED"
definition QuoteNegotiationModuleEnabledGuard :: guard where
  "QuoteNegotiationModuleEnabledGuard =
     ModuleEnabledGuard ''quote-negotiation.general.enabled'' QUOTE_NEGOTIATION_MODULE_DISABLED"
definition ReviewsModuleEnabledGuard :: guard where
  "ReviewsModuleEnabledGuard = ModuleEnabledGuard ''reviews.rating.enabled'' REVIEWS_MODULE_DISABLED"

end
