(* ===== verification/Gateway_Facts.thy ===== *)
theory Gateway_Facts
  imports Gateway
begin

text \<open>
  The guards shared by the operations: an operation without its answer, and the guards that keep the
  request and the state as they are.
\<close>

text \<open>An operation without its answer.\<close>

definition outcome :: "(string option \<Rightarrow> 'r service) \<Rightarrow> string option \<Rightarrow> unit service" where
  "outcome ep authorization w = (case ep authorization w of (r, w') \<Rightarrow> (map_sum id (\<lambda>_. ()) r, w'))"

lemma canActivate_keeps:
  "canActivate rt g q w = (r, w') \<Longrightarrow> g \<noteq> SessionGuard \<Longrightarrow> g \<noteq> AdminSessionGuard
     \<Longrightarrow> w' = w \<and> (\<forall>q'. r = Inr q' \<longrightarrow> q' = q)"
  by (cases g) (auto simp: canActivate_def canActivatePermissions_def split: option.splits if_splits)

lemma runGuards_keeps:
  assumes "runGuards rt gs q w = (r, w')" "SessionGuard \<notin> set gs" "AdminSessionGuard \<notin> set gs"
  shows "w' = w \<and> (\<forall>q'. r = Inr q' \<longrightarrow> q' = q)"
  using assms
proof (induction gs arbitrary: q w)
  case (Cons g gs)
  obtain r0 w0 where g: "canActivate rt g q w = (r0, w0)" by (cases "canActivate rt g q w")
  have keep: "w0 = w \<and> (\<forall>q'. r0 = Inr q' \<longrightarrow> q' = q)"
    by (rule canActivate_keeps [OF g]) (use Cons.prems in auto)
  show ?case
  proof (cases r0)
    case (Inl e)
    then show ?thesis using Cons.prems(1) keep by (simp add: g)
  next
    case (Inr q0)
    then show ?thesis using Cons.IH [of q w] Cons.prems keep by (simp add: g)
  qed
qed auto

end
