(* ===== verification/Admin_Api.thy ===== *)
theory Admin_Api
  imports Gateway
begin

text \<open>
  The operations of the administrators' panel (the resolvers under src/src/platform-admin): each runs the
  guard of the panel's session and the guard of its permission, and then its service on behalf of the
  administrator; logging in and out and the acceptance of an invite need no session.
\<close>

text \<open>Roles by name.  Administrators newest first, which is by their ids, as no time is kept for them.\<close>

definition listAdminRoles :: "(string \<Rightarrow> nat) \<Rightarrow> administration \<Rightarrow> AdminRole list" where
  "listAdminRoles rank a = sort_key (\<lambda>r. rank (ar_name r)) (adminRoles a)"

definition listAdminUsers :: "int option \<Rightarrow> int option \<Rightarrow> administration \<Rightarrow> err + AdminUser adminPage" where
  "listAdminUsers limit offset a = adminPageOf (\<lambda>u. int (au_id u)) Some limit offset (adminUsers a)"

definition requestUserPhotoUploadUrl :: "(string \<Rightarrow> string \<Rightarrow> UploadTarget) \<Rightarrow> string \<Rightarrow> string \<Rightarrow> err + UploadTarget" where
  "requestUserPhotoUploadUrl issue fileName contentType =
     (if contentType \<notin> set ALLOWED_PROFILE_PHOTO_CONTENT_TYPES then Inl UNSUPPORTED_PROFILE_PHOTO_CONTENT_TYPE
      else Inr (issue fileName contentType))"

section \<open>Administrators\<close>

definition adminLogin_op ::
  "runtime \<Rightarrow> string \<Rightarrow> string \<Rightarrow> string option \<Rightarrow> (AdminUser \<times> string \<times> time) service" where
  "adminLogin_op rt email password =
     anyone rt (\<lambda>w. onAdmin (\<lambda>s. adminLogin (rt_crypto rt) (rt_decoyHash rt) (rt_now rt) (rt_randomToken rt) email password (w_db w, s)) w)"

definition adminLogout_op ::
  "runtime \<Rightarrow> string option \<Rightarrow> bool service" where
  "adminLogout_op rt =
     handle rt [] (\<lambda>q. onAdmin (\<lambda>s. Inr (adminLogout (rt_crypto rt) (rt_now rt) (extractBearerToken (rq_authorization q)) s)))"

definition adminMe_op ::
  "runtime \<Rightarrow> string option \<Rightarrow> id service" where
  "adminMe_op rt =
     handle rt [AdminSessionGuard] (\<lambda>q. answer (\<lambda>_. Inr (the (rq_adminUserId q))))"

definition acceptAdminInvite_op ::
  "runtime \<Rightarrow> string \<Rightarrow> string \<Rightarrow> string option \<Rightarrow> bool service" where
  "acceptAdminInvite_op rt token newPassword =
     anyone rt (onAdmin (\<lambda>s. Inr (acceptAdminInvite (rt_crypto rt) (rt_now rt) (rt_salt rt) token newPassword s)))"

definition inviteAdminUser_op ::
  "runtime \<Rightarrow> string \<Rightarrow> string \<Rightarrow> id \<Rightarrow> string option \<Rightarrow> unit service" where
  "inviteAdminUser_op rt email displayName roleId =
     asAdmin rt ADMIN_USERS_MANAGE [] (\<lambda>a. onPanel (noResult (inviteAdminUser (rt_crypto rt) (rt_invites rt) (rt_production rt) (rt_now rt) (rt_randomToken rt) a
       email displayName roleId)))"

definition resendAdminInvite_op ::
  "runtime \<Rightarrow> id \<Rightarrow> string option \<Rightarrow> bool service" where
  "resendAdminInvite_op rt target =
     asAdmin rt ADMIN_USERS_MANAGE [] (\<lambda>a. onPanel (resendAdminInvite (rt_crypto rt) (rt_invites rt) (rt_production rt) (rt_now rt) (rt_randomToken rt) a target))"

definition adminRoles_op ::
  "runtime \<Rightarrow> string option \<Rightarrow> (AdminRole list) service" where
  "adminRoles_op rt =
     asAdmin rt ADMIN_USERS_MANAGE [] (\<lambda>a. answer (\<lambda>w. Inr (listAdminRoles (rt_rank rt) (w_admin w))))"

definition createAdminRole_op ::
  "runtime \<Rightarrow> string \<Rightarrow> (Permission list) \<Rightarrow> string option \<Rightarrow> unit service" where
  "createAdminRole_op rt roleName permissions =
     asAdmin rt ADMIN_USERS_MANAGE [] (\<lambda>a. onPanel (noResult (createAdminRole a roleName permissions)))"

definition updateAdminRolePermissions_op ::
  "runtime \<Rightarrow> id \<Rightarrow> (Permission list) \<Rightarrow> string option \<Rightarrow> unit service" where
  "updateAdminRolePermissions_op rt i permissions =
     asAdmin rt ADMIN_USERS_MANAGE [] (\<lambda>a. onPanel (noResult (updateAdminRolePermissions a i permissions)))"

definition deleteAdminRole_op ::
  "runtime \<Rightarrow> id \<Rightarrow> string option \<Rightarrow> unit service" where
  "deleteAdminRole_op rt i =
     asAdmin rt ADMIN_USERS_MANAGE [] (\<lambda>a. onPanel (noResult (deleteAdminRole a i)))"

definition adminUsers_op ::
  "runtime \<Rightarrow> (int option) \<Rightarrow> (int option) \<Rightarrow> string option \<Rightarrow> (AdminUser adminPage) service" where
  "adminUsers_op rt limit offset =
     asAdmin rt ADMIN_USERS_MANAGE [] (\<lambda>a. answer (\<lambda>w. refuse (listAdminUsers limit offset (w_admin w))))"

definition updateAdminUser_op ::
  "runtime \<Rightarrow> id \<Rightarrow> UpdateAdminUserInput \<Rightarrow> string option \<Rightarrow> unit service" where
  "updateAdminUser_op rt i input =
     asAdmin rt ADMIN_USERS_MANAGE [] (\<lambda>a. onPanel (noResult (updateAdminUser a i input)))"

definition deleteAdminUser_op ::
  "runtime \<Rightarrow> id \<Rightarrow> string option \<Rightarrow> unit service" where
  "deleteAdminUser_op rt i =
     asAdmin rt ADMIN_USERS_MANAGE [] (\<lambda>a. onPanel (noResult (deleteAdminUser a i)))"

section \<open>Accounts\<close>

definition userAccounts_op ::
  "runtime \<Rightarrow> (int option) \<Rightarrow> (int option) \<Rightarrow> string option \<Rightarrow> (UserAccount adminPage) service" where
  "userAccounts_op rt limit offset =
     asAdmin rt USER_ACCOUNTS_READ [] (\<lambda>a. readPlatform (listUserAccounts limit offset))"

definition userAccountDetail_op ::
  "runtime \<Rightarrow> id \<Rightarrow> string option \<Rightarrow> UserAccountDetail service" where
  "userAccountDetail_op rt i =
     asAdmin rt USER_ACCOUNTS_READ [] (\<lambda>a. readPlatform (getUserAccountDetail i))"

definition updateUserAccount_op ::
  "runtime \<Rightarrow> id \<Rightarrow> UpdateUserAccountInput \<Rightarrow> string option \<Rightarrow> unit service" where
  "updateUserAccount_op rt i input =
     asAdmin rt USER_ACCOUNTS_WRITE [] (\<lambda>a. onPlatform (noResult (updateUserAccount a i input)))"

definition forceUserAccountPasswordReset_op ::
  "runtime \<Rightarrow> id \<Rightarrow> string option \<Rightarrow> unit service" where
  "forceUserAccountPasswordReset_op rt userId =
     asAdmin rt USER_ACCOUNTS_WRITE [] (\<lambda>a. onPlatform (noResult (forceUserAccountPasswordReset (rt_crypto rt) (rt_reset rt) (rt_production rt) (rt_now rt)
       (rt_randomCode rt) a userId)))"

definition deleteUserAccount_op ::
  "runtime \<Rightarrow> id \<Rightarrow> string option \<Rightarrow> unit service" where
  "deleteUserAccount_op rt i =
     asAdmin rt USER_ACCOUNTS_DELETE [] (\<lambda>a. onPlatform (noResult (deleteUserAccount a i)))"

definition bulkDeleteUserAccounts_op ::
  "runtime \<Rightarrow> (id list) \<Rightarrow> string option \<Rightarrow> (id list \<times> (id \<times> err option) list) service" where
  "bulkDeleteUserAccounts_op rt ids =
     asAdmin rt USER_ACCOUNTS_DELETE [] (\<lambda>a. onPlatform (\<lambda>st. Inr (bulkDeleteUserAccounts a ids st)))"

definition requestUserProfilePhotoUploadUrl_op ::
  "runtime \<Rightarrow> string \<Rightarrow> string \<Rightarrow> string option \<Rightarrow> UploadTarget service" where
  "requestUserProfilePhotoUploadUrl_op rt fileName contentType =
     asAdmin rt USER_ACCOUNTS_WRITE [] (\<lambda>a. answer (\<lambda>_. refuse (requestUserPhotoUploadUrl (uploadUrls rt) fileName contentType)))"

definition setUserProfilePhoto_op ::
  "runtime \<Rightarrow> id \<Rightarrow> AdminProfileKind \<Rightarrow> string \<Rightarrow> string option \<Rightarrow> unit service" where
  "setUserProfilePhoto_op rt userId kind photoUrl =
     asAdmin rt USER_ACCOUNTS_WRITE [] (\<lambda>a. onPlatform (noResult (setUserProfilePhoto (rt_parseUrl rt) (baseUrl (rt_storage rt)) a userId kind photoUrl)))"

definition removeUserProfilePhoto_op ::
  "runtime \<Rightarrow> id \<Rightarrow> AdminProfileKind \<Rightarrow> string option \<Rightarrow> unit service" where
  "removeUserProfilePhoto_op rt userId kind =
     asAdmin rt USER_ACCOUNTS_WRITE [] (\<lambda>a. onPlatform (noResult (removeUserProfilePhoto a userId kind)))"

section \<open>Categories, requests and quotes\<close>

definition adminCategories_op ::
  "runtime \<Rightarrow> string option \<Rightarrow> (Category list) service" where
  "adminCategories_op rt =
     asAdmin rt CATEGORIES_READ [] (\<lambda>a. answer (\<lambda>w. orCrash (findAllCategories (rt_rank rt) (w_db w))))"

definition adminCategoryTree_op ::
  "runtime \<Rightarrow> string option \<Rightarrow> (CategoryTreeNode list) service" where
  "adminCategoryTree_op rt =
     asAdmin rt CATEGORIES_READ [] (\<lambda>a. answer (\<lambda>w. orCrash (findCategoryTree (rt_rank rt) (w_db w))))"

definition createCategory_op ::
  "runtime \<Rightarrow> string \<Rightarrow> (int option) \<Rightarrow> (id option) \<Rightarrow> string option \<Rightarrow> Category service" where
  "createCategory_op rt categoryName displayOrder parentId =
     asAdmin rt CATEGORIES_WRITE [] (\<lambda>a. onDb (createCategory (rt_sameName rt) a categoryName displayOrder parentId))"

definition updateCategory_op ::
  "runtime \<Rightarrow> id \<Rightarrow> UpdateCategoryInput \<Rightarrow> string option \<Rightarrow> unit service" where
  "updateCategory_op rt i input =
     asAdmin rt CATEGORIES_WRITE [] (\<lambda>a. onDb (noResult (updateCategory (rt_sameName rt) a i input)))"

definition deleteCategory_op ::
  "runtime \<Rightarrow> id \<Rightarrow> string option \<Rightarrow> unit service" where
  "deleteCategory_op rt i =
     asAdmin rt CATEGORIES_WRITE [] (\<lambda>a. onDb (noResult (deleteCategory a i)))"

definition serviceRequests_op ::
  "runtime \<Rightarrow> (int option) \<Rightarrow> (int option) \<Rightarrow> string option \<Rightarrow> (AdminServiceRequest adminPage) service" where
  "serviceRequests_op rt limit offset =
     asAdmin rt SERVICE_REQUESTS_READ [] (\<lambda>a. readPlatform (listServiceRequests limit offset))"

definition serviceRequestDetail_op ::
  "runtime \<Rightarrow> id \<Rightarrow> string option \<Rightarrow> AdminServiceRequestDetail service" where
  "serviceRequestDetail_op rt i =
     asAdmin rt SERVICE_REQUESTS_READ [] (\<lambda>a. readPlatform (getServiceRequestDetail i))"

definition serviceRequestCategories_op ::
  "runtime \<Rightarrow> string option \<Rightarrow> (Category list) service" where
  "serviceRequestCategories_op rt =
     asAdmin rt SERVICE_REQUESTS_WRITE [] (\<lambda>a. answer (\<lambda>w. orCrash (findAllCategories (rt_rank rt) (w_db w))))"

definition eligibleServiceRequestCustomers_op ::
  "runtime \<Rightarrow> (string option) \<Rightarrow> string option \<Rightarrow> (AdminCustomer list) service" where
  "eligibleServiceRequestCustomers_op rt search =
     asAdmin rt SERVICE_REQUESTS_WRITE [] (\<lambda>a. readPlatform (\<lambda>st. Inr (listEligibleCustomers (rt_rank rt) search st)))"

definition createServiceRequestForCustomer_op ::
  "runtime \<Rightarrow> AdminCreateServiceRequestInput \<Rightarrow> string option \<Rightarrow> AdminServiceRequest service" where
  "createServiceRequestForCustomer_op rt input =
     asAdmin rt SERVICE_REQUESTS_WRITE [] (\<lambda>a. onPlatform (createServiceRequestForCustomer (rt_now rt) a input))"

definition quotes_op ::
  "runtime \<Rightarrow> (int option) \<Rightarrow> (int option) \<Rightarrow> string option \<Rightarrow> (AdminQuote adminPage) service" where
  "quotes_op rt limit offset =
     asAdmin rt QUOTES_READ [] (\<lambda>a. readPlatform (listQuotes limit offset))"

definition quoteDetail_op ::
  "runtime \<Rightarrow> id \<Rightarrow> string option \<Rightarrow> AdminQuoteDetail service" where
  "quoteDetail_op rt i =
     asAdmin rt QUOTES_READ [] (\<lambda>a. readPlatform (getQuoteDetail i))"

definition adminQuoteNegotiationThread_op ::
  "runtime \<Rightarrow> id \<Rightarrow> string option \<Rightarrow> ((QuoteNegotiationMessage \<times> QuotePriceProposal option) list) service" where
  "adminQuoteNegotiationThread_op rt quoteId =
     asAdmin rt QUOTE_NEGOTIATION_READ [QuoteNegotiationModuleEnabledGuard] (\<lambda>a. readDb (getNegotiationThread quoteId))"

section \<open>Engagements and money\<close>

definition adminAppointmentsByEngagement_op ::
  "runtime \<Rightarrow> id \<Rightarrow> string option \<Rightarrow> (Appointment list) service" where
  "adminAppointmentsByEngagement_op rt engagementId =
     asAdmin rt APPOINTMENTS_READ [] (\<lambda>a. readDb (getAppointments engagementId))"

definition adminEngagementChatThread_op ::
  "runtime \<Rightarrow> id \<Rightarrow> string option \<Rightarrow> (EngagementChatMessage list) service" where
  "adminEngagementChatThread_op rt engagementId =
     asAdmin rt ENGAGEMENT_CHAT_READ [] (\<lambda>a. readDb (getChatThread engagementId))"

definition adminLedgerEntries_op ::
  "runtime \<Rightarrow> (AdminLedgerEntriesFilter option) \<Rightarrow> (int option) \<Rightarrow> (int option) \<Rightarrow> string option \<Rightarrow> (LedgerEntry adminPage) service" where
  "adminLedgerEntries_op rt filt limit offset =
     asAdmin rt LEDGER_READ [] (\<lambda>a. readDb (listLedgerEntries filt limit offset))"

definition adminEngagementPaymentSummaries_op ::
  "runtime \<Rightarrow> (int option) \<Rightarrow> (int option) \<Rightarrow> string option \<Rightarrow> (AdminEngagementPaymentSummary adminPage) service" where
  "adminEngagementPaymentSummaries_op rt limit offset =
     asAdmin rt LEDGER_READ [] (\<lambda>a. readPlatform (listEngagementPaymentSummaries limit offset))"

definition adminPlatformBalance_op ::
  "runtime \<Rightarrow> string option \<Rightarrow> int service" where
  "adminPlatformBalance_op rt =
     asAdmin rt LEDGER_READ [] (\<lambda>a. readDb (\<lambda>d. Inr (getPlatformBalance d)))"

definition adminPaymentAttempts_op ::
  "runtime \<Rightarrow> (AdminPaymentAttemptsFilter option) \<Rightarrow> (int option) \<Rightarrow> (int option) \<Rightarrow> string option \<Rightarrow> (PaymentAttempt adminPage) service" where
  "adminPaymentAttempts_op rt filt limit offset =
     asAdmin rt CASH_PAYMENTS_READ [] (\<lambda>a. readDb (listPaymentAttempts filt limit offset))"

definition adminReviews_op ::
  "runtime \<Rightarrow> (AdminReviewsFilter option) \<Rightarrow> (int option) \<Rightarrow> (int option) \<Rightarrow> string option \<Rightarrow> (Review adminPage) service" where
  "adminReviews_op rt filt limit offset =
     asAdmin rt REVIEWS_READ [] (\<lambda>a. readDb (listReviews filt limit offset))"

definition moderateEngagementReviewComment_op ::
  "runtime \<Rightarrow> id \<Rightarrow> ReviewModerationDecision \<Rightarrow> string option \<Rightarrow> unit service" where
  "moderateEngagementReviewComment_op rt reviewId decision =
     asAdmin rt REVIEWS_WRITE [] (\<lambda>a. onDb (noResult (moderateReview (rt_now rt) a reviewId decision)))"

section \<open>Settings and emails\<close>

definition platformSettings_op ::
  "runtime \<Rightarrow> string option \<Rightarrow> (PlatformSetting list) service" where
  "platformSettings_op rt =
     asAdmin rt FEATURE_FLAGS_READ [] (\<lambda>a. readDb (\<lambda>d. Inr (listPlatformSettings (rt_rank rt) d)))"

definition setPlatformSetting_op ::
  "runtime \<Rightarrow> SetPlatformSettingInput \<Rightarrow> string option \<Rightarrow> unit service" where
  "setPlatformSetting_op rt input =
     asAdmin rt FEATURE_FLAGS_WRITE [] (\<lambda>a. onDb (noResult (setPlatformSetting a input)))"

definition storageSettings_op ::
  "runtime \<Rightarrow> string option \<Rightarrow> StorageSettings service" where
  "storageSettings_op rt =
     asAdmin rt STORAGE_SETTINGS_READ [] (\<lambda>a. readDb (\<lambda>d. Inr (getStorageSettings d)))"

definition updateStorageSettings_op ::
  "runtime \<Rightarrow> bool \<Rightarrow> nat \<Rightarrow> nat \<Rightarrow> string option \<Rightarrow> StorageSettings service" where
  "updateStorageSettings_op rt photoEnabled maxDimensionPx webpQuality =
     asAdmin rt STORAGE_SETTINGS_WRITE [] (\<lambda>a. onDb (\<lambda>d. Inr (updateStorageSettings a photoEnabled maxDimensionPx webpQuality d)))"

definition emailTemplates_op ::
  "runtime \<Rightarrow> string option \<Rightarrow> (EmailTemplate list) service" where
  "emailTemplates_op rt =
     asAdmin rt EMAIL_TEMPLATES_READ [] (\<lambda>a. answer (\<lambda>w. Inr (listEmailTemplates (rt_rank rt) (w_mail w))))"

definition updateEmailTemplate_op ::
  "runtime \<Rightarrow> string \<Rightarrow> string \<Rightarrow> string \<Rightarrow> string \<Rightarrow> string option \<Rightarrow> EmailTemplate service" where
  "updateEmailTemplate_op rt templateKey subject htmlBody textBody =
     asAdmin rt EMAIL_TEMPLATES_WRITE [] (\<lambda>a. onMailing (updateEmailTemplate a templateKey subject htmlBody textBody))"

definition sendTestEmailTemplate_op ::
  "runtime \<Rightarrow> string \<Rightarrow> string \<Rightarrow> string option \<Rightarrow> unit service" where
  "sendTestEmailTemplate_op rt templateKey recipient =
     asAdmin rt EMAIL_TEMPLATES_WRITE [] (\<lambda>a. \<lambda>w.
       (case sendTestEmailTemplate (rt_inherited rt) (rt_production rt) templateKey recipient (w_db w, w_mail w) of
          Inl (MailDomain e) \<Rightarrow> (Inl (Refused e), w)
        | Inl _ \<Rightarrow> (Inl Crashed, w)
        | Inr m \<Rightarrow> (Inr (), setMail m w)))"

definition emailLayout_op ::
  "runtime \<Rightarrow> string option \<Rightarrow> EmailLayout service" where
  "emailLayout_op rt =
     asAdmin rt EMAIL_TEMPLATES_READ [] (\<lambda>a. answer (\<lambda>w. refuse (getEmailLayout (w_mail w))))"

definition updateEmailLayout_op ::
  "runtime \<Rightarrow> EmailLayout \<Rightarrow> string option \<Rightarrow> EmailLayout service" where
  "updateEmailLayout_op rt input =
     asAdmin rt EMAIL_TEMPLATES_WRITE [] (\<lambda>a. onMailing (\<lambda>st. Inr (updateEmailLayout a input st)))"

definition requestEmailLogoUploadUrl_op ::
  "runtime \<Rightarrow> string \<Rightarrow> string \<Rightarrow> string option \<Rightarrow> UploadTarget service" where
  "requestEmailLogoUploadUrl_op rt fileName contentType =
     asAdmin rt EMAIL_TEMPLATES_WRITE [] (\<lambda>a. answer (\<lambda>_. refuse (requestEmailLogoUploadUrl (uploadUrls rt) fileName contentType)))"

end
