(* ===== verification/Panel_Facts.thy ===== *)
theory Panel_Facts
  imports Gateway_Facts Admin_Api
begin

text \<open>
  The panel's operations: each needs a live session of an active administrator whose role has the
  operation's permission, and what it changes is recorded in the audit log under that administrator;
  only a test email leaves no record.
\<close>

section \<open>The guards\<close>

definition adminCaller :: "runtime \<Rightarrow> string option \<Rightarrow> world \<Rightarrow> (err + id) \<times> administration" where
  "adminCaller rt authorization w = authenticateAdminRequest (rt_crypto rt) (rt_now rt) authorization (w_admin w)"

text \<open>The two ways of an operation of the panel: it is refused and nothing but the session has changed,
  or its service runs for the administrator of the session, who has the permission.\<close>

lemma asAdmin_cases:
  assumes "asAdmin rt p gs f authorization w = (r, w')" "SessionGuard \<notin> set gs" "AdminSessionGuard \<notin> set gs"
  obtains e where "r = Inl (Refused e)" "w' = setAdmin (snd (adminCaller rt authorization w)) w"
  | a s where "adminCaller rt authorization w = (Inr a, s)" "p \<in> set (getGrantedPermissions s a)" "f a (setAdmin s w) = (r, w')"
proof -
  obtain x s where c: "adminCaller rt authorization w = (x, s)" by (cases "adminCaller rt authorization w")
  show thesis
  proof (cases x)
    case (Inl e)
    show thesis
      by (rule that(1) [of e]) (use assms(1) c Inl in \<open>simp_all add: asAdmin_def handle_def canActivate_def
          canActivateAdminSession_def adminCaller_def\<close>)
  next
    case (Inr a)
    let ?q = "\<lparr>rq_authorization = authorization, rq_userId = None, rq_adminUserId = Some a\<rparr>"
    have run: "runGuards rt ([AdminSessionGuard, AdminPermissionsGuard [p]] @ gs)
        \<lparr>rq_authorization = authorization, rq_userId = None, rq_adminUserId = None\<rparr> w
      = (if p \<in> set (getGrantedPermissions s a) then runGuards rt gs ?q (setAdmin s w) else (Inl ADMIN_FORBIDDEN, setAdmin s w))"
      using c Inr by (simp add: canActivate_def canActivateAdminSession_def adminCaller_def canActivatePermissions_def
          hasAllPermissions_def setAdmin_def)
    obtain y v where g: "runGuards rt gs ?q (setAdmin s w) = (y, v)" by (cases "runGuards rt gs ?q (setAdmin s w)")
    note keep = runGuards_keeps [OF g assms(2,3)]
    show thesis
    proof (cases "p \<in> set (getGrantedPermissions s a) \<and> (\<exists>q'. y = Inr q')")
      case True
      then have "f a (setAdmin s w) = (r, w')" using assms(1) keep g run by (auto simp: asAdmin_def handle_def)
      then show thesis using that(2) c Inr True by simp
    next
      case False
      then obtain e where "r = Inl (Refused e)" "w' = setAdmin s w"
        using assms(1) keep g run by (cases y) (auto simp: asAdmin_def handle_def split: if_splits)
      then show thesis using that(1) c by simp
    qed
  qed
qed

section \<open>The audit log\<close>

definition recorded :: "id \<Rightarrow> db \<times> 's \<Rightarrow> db \<times> 's \<Rightarrow> bool" where
  "recorded a st st' \<longleftrightarrow> st' = st \<or> (\<exists>new. new \<noteq> [] \<and> auditLog (fst st') = auditLog (fst st) @ new
     \<and> (\<forall>l\<in>set new. al_actorAdminUserId l = a))"

lemma recorded_refl [simp]: "recorded a st st"
  by (simp add: recorded_def)

lemma recorded_trans: "recorded a x y \<Longrightarrow> recorded a y z \<Longrightarrow> recorded a x z"
proof -
  assume xy: "recorded a x y" and yz: "recorded a y z"
  show ?thesis
  proof (cases "y = x \<or> z = y")
    case True
    then show ?thesis using xy yz by auto
  next
    case False
    then obtain m n where "m \<noteq> []" "auditLog (fst y) = auditLog (fst x) @ m" "\<forall>l\<in>set m. al_actorAdminUserId l = a"
        "auditLog (fst z) = auditLog (fst y) @ n" "\<forall>l\<in>set n. al_actorAdminUserId l = a"
      using xy yz unfolding recorded_def by blast
    then show ?thesis unfolding recorded_def by (intro disjI2 exI [of _ "m @ n"]) auto
  qed
qed

lemma recordedI: "auditLog (fst st') = auditLog (fst st) @ [l] \<Longrightarrow> al_actorAdminUserId l = a \<Longrightarrow> recorded a st st'"
  unfolding recorded_def by (intro disjI2 exI [of _ "[l]"]) simp

lemma auditLog_writes [simp]:
  "auditLog (writeAudit a action t i d) = auditLog d @ [\<lparr>al_actorAdminUserId = a, al_action = action, al_targetType = t, al_targetKey = RowKey i\<rparr>]"
  "auditLog (writeMailAudit a action t k d) = auditLog d @ [\<lparr>al_actorAdminUserId = a, al_action = action, al_targetType = t, al_targetKey = SettingKey k\<rparr>]"
  "auditLog (writeSettingAudit a action k d) = auditLog d @ [\<lparr>al_actorAdminUserId = a, al_action = action, al_targetType = ''PlatformSetting'', al_targetKey = SettingKey k\<rparr>]"
  by (simp_all add: writeAudit_def writeMailAudit_def writeSettingAudit_def)

lemma auditLog_upsertSetting [simp]: "auditLog (upsertSetting r d) = auditLog d"
  by (simp add: upsertSetting_def split: option.splits)

lemma auditLog_deleteRows [simp]: "auditLog (deleteRows u d) = auditLog d"
  by (simp add: deleteRows_def Let_def)

text \<open>The services on the panel's own tables, on the accounts, on the market and on the emails.\<close>

lemma recorded_panel:
  "inviteAdminUser cr pol production now token a email displayName roleId st = Inr st' \<Longrightarrow> recorded a st st'"
  "resendAdminInvite cr pol production now token a i st = Inr (issued, st') \<Longrightarrow> recorded a st st'"
  "createAdminRole a roleName permissions st = Inr st' \<Longrightarrow> recorded a st st'"
  "updateAdminRolePermissions a i permissions st = Inr st' \<Longrightarrow> recorded a st st'"
  "deleteAdminRole a i st = Inr st' \<Longrightarrow> recorded a st st'"
  "updateAdminUser a i input1 st = Inr st' \<Longrightarrow> recorded a st st'"
  "deleteAdminUser a i st = Inr st' \<Longrightarrow> recorded a st st'"
proof -
  show "recorded a st st'" if "inviteAdminUser cr pol production now token a email displayName roleId st = Inr st'"
    using that by (auto simp: inviteAdminUser_def createInvited_def Let_def split: prod.splits option.splits if_splits intro!: recordedI)
  show "recorded a st st'" if r: "resendAdminInvite cr pol production now token a i st = Inr (issued, st')"
  proof -
    obtain d b where st: "st = (d, b)" by (cases st)
    have same: "issueForAdminUser cr pol now token k e b = (False, b') \<Longrightarrow> b' = b" for k e b'
      by (auto simp: issueForAdminUser_def Let_def split: option.splits if_splits)
    show ?thesis
      using r by (auto simp: st resendAdminInvite_def split: option.splits if_splits prod.splits dest!: same intro: recordedI)
  qed
  show "recorded a st st'" if "createAdminRole a roleName permissions st = Inr st'"
    using that by (auto simp: createAdminRole_def Let_def split: prod.splits if_splits intro!: recordedI)
  show "recorded a st st'" if "updateAdminRolePermissions a i permissions st = Inr st'"
    using that by (auto simp: updateAdminRolePermissions_def Let_def split: prod.splits option.splits if_splits intro!: recordedI)
  show "recorded a st st'" if "deleteAdminRole a i st = Inr st'"
    using that by (auto simp: deleteAdminRole_def split: prod.splits option.splits if_splits intro!: recordedI)
  show "recorded a st st'" if "updateAdminUser a i input1 st = Inr st'"
    using that by (auto simp: updateAdminUser_def Let_def split: prod.splits option.splits if_splits intro!: recordedI)
  show "recorded a st st'" if "deleteAdminUser a i st = Inr st'"
    using that by (auto simp: deleteAdminUser_def split: prod.splits option.splits if_splits intro!: recordedI)
qed

lemma recorded_deleteUserAccount: "deleteUserAccount a i st = Inr st' \<Longrightarrow> recorded a st st'"
  by (auto simp: deleteUserAccount_def deleteForAdmin_def split: prod.splits option.splits intro!: recordedI)

lemma recorded_bulkDelete: "recorded a st (snd (bulkDeleteUserAccounts a ids st))"
proof (induction ids arbitrary: st)
  case (Cons i ids)
  show ?case
  proof (cases "deleteUserAccount a i st")
    case (Inl e)
    then show ?thesis using Cons.IH [of st] by (simp split: prod.splits) (metis snd_conv)
  next
    case (Inr st1)
    then show ?thesis
      using recorded_trans [OF recorded_deleteUserAccount [OF Inr] Cons.IH] by (simp split: prod.splits) (metis snd_conv)
  qed
qed simp

lemma recorded_bulkDeleteUserAccounts: "bulkDeleteUserAccounts a ids st = (deleted, st') \<Longrightarrow> recorded a st st'"
  using recorded_bulkDelete [of a st ids] by simp

lemma recorded_platform:
  "updateUserAccount a i input2 st = Inr st' \<Longrightarrow> recorded a st st'"
  "forceUserAccountPasswordReset cr rp production now n a i st = Inr st' \<Longrightarrow> recorded a st st'"
  "setUserProfilePhoto parse base a i kind url st = Inr st' \<Longrightarrow> recorded a st st'"
  "removeUserProfilePhoto a i kind st = Inr st' \<Longrightarrow> recorded a st st'"
proof -
  have photo: "recorded a st st'" if "applyProfilePhoto a i kind url' action st = Inr st'" for url' action
    using that by (auto simp: applyProfilePhoto_def split: prod.splits AdminProfileKind.splits if_splits intro!: recordedI)
  show "recorded a st st'" if "updateUserAccount a i input2 st = Inr st'"
    using that by (auto simp: updateUserAccount_def Let_def split: prod.splits option.splits if_splits intro!: recordedI)
  show "recorded a st st'" if "forceUserAccountPasswordReset cr rp production now n a i st = Inr st'"
    using that by (auto simp: forceUserAccountPasswordReset_def split: prod.splits option.splits intro!: recordedI)
  show "recorded a st st'" if "setUserProfilePhoto parse base a i kind url st = Inr st'"
    using that photo by (auto simp: setUserProfilePhoto_def split: option.splits)
  show "recorded a st st'" if "removeUserProfilePhoto a i kind st = Inr st'"
    using that photo by (auto simp: removeUserProfilePhoto_def)
qed

lemma recorded_market:
  "createCategory same a nm o1 parent d = Inr (c, d') \<Longrightarrow> recorded a (d, d) (d', d')"
  "updateCategory same a i input3 d = Inr d' \<Longrightarrow> recorded a (d, d) (d', d')"
  "deleteCategory a i d = Inr d' \<Longrightarrow> recorded a (d, d) (d', d')"
  "moderateReview now a i decision d = Inr d' \<Longrightarrow> recorded a (d, d) (d', d')"
  "setPlatformSetting a input4 d = Inr d' \<Longrightarrow> recorded a (d, d) (d', d')"
  "updateStorageSettings a b m q d = (z, d') \<Longrightarrow> recorded a (d, d) (d', d')"
proof -
  show "recorded a (d, d) (d', d')" if "createCategory same a nm o1 parent d = Inr (c, d')"
    using that by (auto simp: createCategory_def createCategoryForAdmin_def andThen_Inr_iff Let_def split: if_splits option.splits intro!: recordedI)
  show "recorded a (d, d) (d', d')" if "updateCategory same a i input3 d = Inr d'"
    using that by (auto simp: updateCategory_def updateCategory_tx_def andThen_Inr_iff Let_def split: if_splits option.splits intro: recordedI)
  show "recorded a (d, d) (d', d')" if "deleteCategory a i d = Inr d'"
    using that by (auto simp: deleteCategory_def Let_def split: if_splits option.splits intro!: recordedI)
  show "recorded a (d, d) (d', d')" if "moderateReview now a i decision d = Inr d'"
    using that by (auto simp: moderateReview_def moderateReview_tx_def andThen_Inr_iff split: if_splits intro!: recordedI)
  show "recorded a (d, d) (d', d')" if "setPlatformSetting a input4 d = Inr d'"
    using that by (auto simp: setPlatformSetting_def split: if_splits option.splits intro!: recordedI)
  show "recorded a (d, d) (d', d')" if "updateStorageSettings a b m q d = (z, d')"
    using that by (auto simp: updateStorageSettings_def Let_def intro!: recordedI)
qed

lemma recorded_createServiceRequest:
  "createServiceRequestForCustomer now a input5 st = Inr (m, st') \<Longrightarrow> recorded a st st'"
proof -
  have "publish_tx now p d = Inr (c, d') \<Longrightarrow> auditLog d' = auditLog d" for p d c d'
    by (auto simp: publish_tx_def Let_def split: if_splits)
  then show "createServiceRequestForCustomer now a input5 st = Inr (m, st') \<Longrightarrow> recorded a st st'"
    by (auto simp: createServiceRequestForCustomer_def andThen_Inr_iff split: prod.splits option.splits if_splits intro!: recordedI)
qed

lemma recorded_mailing:
  "updateEmailTemplate a k subject html body st = Inr (row, st') \<Longrightarrow> recorded a st st'"
  "updateEmailLayout a input6 st = (lay, st') \<Longrightarrow> recorded a st st'"
  by (auto simp: updateEmailTemplate_def updateEmailLayout_def Let_def split: prod.splits option.splits if_splits intro!: recordedI)

section \<open>The operations\<close>

text \<open>Only a test email changes something, the queue of emails, without a record.\<close>

definition accountable :: "id \<Rightarrow> world \<Rightarrow> world \<Rightarrow> bool" where
  "accountable a w w' \<longleftrightarrow> (\<exists>q. w' = setMail ((w_mail w)\<lparr>emailQueue := q\<rparr>) w)
     \<or> (\<exists>new. new \<noteq> [] \<and> auditLog (w_db w') = auditLog (w_db w) @ new \<and> (\<forall>l\<in>set new. al_actorAdminUserId l = a))"

definition accountableService :: "id \<Rightarrow> 'r service \<Rightarrow> bool" where
  "accountableService a f \<longleftrightarrow> (\<forall>w r w'. f w = (r, w') \<longrightarrow> accountable a w w')"

lemma accountable_refl [simp]: "accountable a w w"
  unfolding accountable_def by (intro disjI1 exI [of _ "emailQueue (w_mail w)"]) (simp add: setMail_def)

lemma accountable_reads [simp]:
  "accountableService a (answer g)" "accountableService a (readDb g2)" "accountableService a (readPlatform g3)"
  by (simp_all add: accountableService_def answer_def readDb_def readPlatform_def)

lemma noResult_Inr: "noResult f s = Inr (r, s') \<longleftrightarrow> f s = Inr s'"
  by (auto simp: noResult_def split: sum.splits)

lemma accountable_serve:
  assumes whole: "\<And>w. put (get w) w = w" "\<And>w s. w_db (put s w) = dbOf s" "\<And>w. dbOf (get w) = w_db w"
    and f: "\<And>s r s'. f s = Inr (r, s') \<Longrightarrow> recorded a (dbOf s, s) (dbOf s', s')"
  shows "accountableService a (serveWhole get put f)"
  unfolding accountableService_def
proof (intro allI impI)
  fix w r w' assume run: "serveWhole get put f w = (r, w')"
  show "accountable a w w'"
  proof (cases "f (get w)")
    case (Inl e)
    then show ?thesis using run by (simp add: serveWhole_def)
  next
    case (Inr y)
    obtain r0 s' where y: "y = (r0, s')" by (cases y)
    then have w': "w' = put s' w" using run Inr by (simp add: serveWhole_def)
    have "recorded a (dbOf (get w), get w) (dbOf s', s')" by (rule f) (simp add: Inr y)
    then consider "s' = get w" | new where "new \<noteq> []" "auditLog (w_db w') = auditLog (w_db w) @ new" "\<forall>l\<in>set new. al_actorAdminUserId l = a"
      unfolding recorded_def w' by (auto simp: whole)
    then show ?thesis
    proof cases
      case 1
      then show ?thesis by (simp add: w' whole)
    next
      case 2
      then show ?thesis unfolding accountable_def by blast
    qed
  qed
qed

lemma recorded_pair: "recorded a (d, x) (d', x') \<Longrightarrow> recorded a (d, d, x) (d', d', x')"
  by (auto simp: recorded_def)

lemma accountable_onDb:
  "(\<And>d r d'. f d = Inr (r, d') \<Longrightarrow> recorded a (d, d) (d', d')) \<Longrightarrow> accountableService a (onDb f)"
  unfolding onDb_def by (rule accountable_serve [where dbOf = "\<lambda>d. d"]) (auto simp: setDb_def)

lemma accountable_onPanel:
  "(\<And>st r st'. f st = Inr (r, st') \<Longrightarrow> recorded a st st') \<Longrightarrow> accountableService a (onPanel f)"
  unfolding onPanel_def
  by (rule accountable_serve [where dbOf = fst]) (auto simp: setDb_def setAdmin_def, rule recorded_pair, blast)

lemma accountable_onPlatform:
  "(\<And>st r st'. f st = Inr (r, st') \<Longrightarrow> recorded a st st') \<Longrightarrow> accountableService a (onPlatform f)"
  unfolding onPlatform_def
  by (rule accountable_serve [where dbOf = fst]) (auto simp: setDb_def setIdentity_def, rule recorded_pair, blast)

lemma accountable_onMailing:
  "(\<And>st r st'. f st = Inr (r, st') \<Longrightarrow> recorded a st st') \<Longrightarrow> accountableService a (onMailing f)"
  unfolding onMailing_def
  by (rule accountable_serve [where dbOf = fst]) (auto simp: setDb_def setMail_def, rule recorded_pair, blast)

lemma accountable_test_email:
  "accountableService a (\<lambda>w. case sendTestEmailTemplate inherited production k recipient (w_db w, w_mail w) of
       Inl (MailDomain e) \<Rightarrow> (Inl (Refused e), w) | Inl _ \<Rightarrow> (Inl Crashed, w) | Inr m \<Rightarrow> (Inr (), setMail m w))"
proof -
  have "sendTestEmailTemplate inherited production k recipient (d, m) = Inr m' \<Longrightarrow> \<exists>q. m' = m\<lparr>emailQueue := q\<rparr>" for d m m'
    by (auto simp: sendTestEmailTemplate_def renderAndEnqueue_def andThen_Inr_iff enqueueEmail_def split: option.splits if_splits)
  note queue = this
  show ?thesis unfolding accountableService_def
  proof (intro allI impI)
    fix w w' :: world and r
    let ?x = "sendTestEmailTemplate inherited production k recipient (w_db w, w_mail w)"
    assume run: "(case ?x of Inl (MailDomain e) \<Rightarrow> (Inl (Refused e), w) | Inl _ \<Rightarrow> (Inl Crashed, w)
        | Inr m \<Rightarrow> (Inr (), setMail m w)) = (r, w')"
    show "accountable a w w'"
    proof (cases ?x)
      case (Inl e)
      then show ?thesis using run by (cases e) auto
    next
      case (Inr m)
      then show ?thesis using run queue [OF Inr] by (auto simp: accountable_def)
    qed
  qed
qed

definition panelOutcome :: "runtime \<Rightarrow> Permission \<Rightarrow> string option \<Rightarrow> world \<Rightarrow> api_error + unit \<Rightarrow> world \<Rightarrow> bool" where
  "panelOutcome rt p authorization w r w' \<longleftrightarrow>
     (\<exists>a s. adminCaller rt authorization w = (Inr a, s) \<and> p \<in> set (getGrantedPermissions s a) \<and> accountable a (setAdmin s w) w')
     \<or> (\<exists>e. r = Inl (Refused e)) \<and> w' = setAdmin (snd (adminCaller rt authorization w)) w"

lemma panel_step:
  assumes "outcome (asAdmin rt p gs f) authorization w = (r, w')" "SessionGuard \<notin> set gs" "AdminSessionGuard \<notin> set gs"
    and "\<And>a. accountableService a (f a)"
  shows "panelOutcome rt p authorization w r w'"
proof -
  obtain r0 where run: "asAdmin rt p gs f authorization w = (r0, w')" and r: "r = map_sum id (\<lambda>_. ()) r0"
    using assms(1) by (auto simp: outcome_def split: prod.splits)
  from run assms(2,3) show ?thesis
  proof (cases rule: asAdmin_cases)
    case (1 e)
    then show ?thesis by (simp add: panelOutcome_def r)
  next
    case (2 a s)
    then show ?thesis using assms(4) [of a] unfolding panelOutcome_def accountableService_def by blast
  qed
qed

lemmas panel_operations =
  inviteAdminUser_op_def resendAdminInvite_op_def adminRoles_op_def createAdminRole_op_def
  updateAdminRolePermissions_op_def deleteAdminRole_op_def adminUsers_op_def updateAdminUser_op_def
  deleteAdminUser_op_def userAccounts_op_def userAccountDetail_op_def updateUserAccount_op_def
  forceUserAccountPasswordReset_op_def deleteUserAccount_op_def bulkDeleteUserAccounts_op_def
  requestUserProfilePhotoUploadUrl_op_def setUserProfilePhoto_op_def removeUserProfilePhoto_op_def
  adminCategories_op_def adminCategoryTree_op_def createCategory_op_def updateCategory_op_def deleteCategory_op_def
  serviceRequests_op_def serviceRequestDetail_op_def serviceRequestCategories_op_def
  eligibleServiceRequestCustomers_op_def createServiceRequestForCustomer_op_def quotes_op_def quoteDetail_op_def
  adminQuoteNegotiationThread_op_def adminAppointmentsByEngagement_op_def adminEngagementChatThread_op_def
  adminLedgerEntries_op_def adminEngagementPaymentSummaries_op_def adminPlatformBalance_op_def
  adminPaymentAttempts_op_def adminReviews_op_def moderateEngagementReviewComment_op_def platformSettings_op_def
  setPlatformSetting_op_def storageSettings_op_def updateStorageSettings_op_def emailTemplates_op_def
  updateEmailTemplate_op_def sendTestEmailTemplate_op_def emailLayout_op_def updateEmailLayout_op_def
  requestEmailLogoUploadUrl_op_def

inductive panelOperation :: "runtime \<Rightarrow> Permission \<Rightarrow> (string option \<Rightarrow> unit service) \<Rightarrow> bool" for rt where
panelOperationInviteAdminUser: "panelOperation rt ADMIN_USERS_MANAGE (outcome (inviteAdminUser_op rt email displayName roleId))"
| panelOperationResendAdminInvite: "panelOperation rt ADMIN_USERS_MANAGE (outcome (resendAdminInvite_op rt target))"
| panelOperationAdminRoles: "panelOperation rt ADMIN_USERS_MANAGE (outcome (adminRoles_op rt))"
| panelOperationCreateAdminRole: "panelOperation rt ADMIN_USERS_MANAGE (outcome (createAdminRole_op rt roleName permissions))"
| panelOperationUpdateAdminRolePermissions: "panelOperation rt ADMIN_USERS_MANAGE (outcome (updateAdminRolePermissions_op rt i permissions))"
| panelOperationDeleteAdminRole: "panelOperation rt ADMIN_USERS_MANAGE (outcome (deleteAdminRole_op rt i))"
| panelOperationAdminUsers: "panelOperation rt ADMIN_USERS_MANAGE (outcome (adminUsers_op rt limit offset))"
| panelOperationUpdateAdminUser: "panelOperation rt ADMIN_USERS_MANAGE (outcome (updateAdminUser_op rt i input))"
| panelOperationDeleteAdminUser: "panelOperation rt ADMIN_USERS_MANAGE (outcome (deleteAdminUser_op rt i))"
| panelOperationUserAccounts: "panelOperation rt USER_ACCOUNTS_READ (outcome (userAccounts_op rt limit offset))"
| panelOperationUserAccountDetail: "panelOperation rt USER_ACCOUNTS_READ (outcome (userAccountDetail_op rt i))"
| panelOperationUpdateUserAccount: "panelOperation rt USER_ACCOUNTS_WRITE (outcome (updateUserAccount_op rt i input))"
| panelOperationForceUserAccountPasswordReset: "panelOperation rt USER_ACCOUNTS_WRITE (outcome (forceUserAccountPasswordReset_op rt userId))"
| panelOperationDeleteUserAccount: "panelOperation rt USER_ACCOUNTS_DELETE (outcome (deleteUserAccount_op rt i))"
| panelOperationBulkDeleteUserAccounts: "panelOperation rt USER_ACCOUNTS_DELETE (outcome (bulkDeleteUserAccounts_op rt ids))"
| panelOperationRequestUserProfilePhotoUploadUrl: "panelOperation rt USER_ACCOUNTS_WRITE (outcome (requestUserProfilePhotoUploadUrl_op rt fileName contentType))"
| panelOperationSetUserProfilePhoto: "panelOperation rt USER_ACCOUNTS_WRITE (outcome (setUserProfilePhoto_op rt userId kind photoUrl))"
| panelOperationRemoveUserProfilePhoto: "panelOperation rt USER_ACCOUNTS_WRITE (outcome (removeUserProfilePhoto_op rt userId kind))"
| panelOperationAdminCategories: "panelOperation rt CATEGORIES_READ (outcome (adminCategories_op rt))"
| panelOperationAdminCategoryTree: "panelOperation rt CATEGORIES_READ (outcome (adminCategoryTree_op rt))"
| panelOperationCreateCategory: "panelOperation rt CATEGORIES_WRITE (outcome (createCategory_op rt categoryName displayOrder parentId))"
| panelOperationUpdateCategory: "panelOperation rt CATEGORIES_WRITE (outcome (updateCategory_op rt i input))"
| panelOperationDeleteCategory: "panelOperation rt CATEGORIES_WRITE (outcome (deleteCategory_op rt i))"
| panelOperationServiceRequests: "panelOperation rt SERVICE_REQUESTS_READ (outcome (serviceRequests_op rt limit offset))"
| panelOperationServiceRequestDetail: "panelOperation rt SERVICE_REQUESTS_READ (outcome (serviceRequestDetail_op rt i))"
| panelOperationServiceRequestCategories: "panelOperation rt SERVICE_REQUESTS_WRITE (outcome (serviceRequestCategories_op rt))"
| panelOperationEligibleServiceRequestCustomers: "panelOperation rt SERVICE_REQUESTS_WRITE (outcome (eligibleServiceRequestCustomers_op rt search))"
| panelOperationCreateServiceRequestForCustomer: "panelOperation rt SERVICE_REQUESTS_WRITE (outcome (createServiceRequestForCustomer_op rt input))"
| panelOperationQuotes: "panelOperation rt QUOTES_READ (outcome (quotes_op rt limit offset))"
| panelOperationQuoteDetail: "panelOperation rt QUOTES_READ (outcome (quoteDetail_op rt i))"
| panelOperationAdminQuoteNegotiationThread: "panelOperation rt QUOTE_NEGOTIATION_READ (outcome (adminQuoteNegotiationThread_op rt quoteId))"
| panelOperationAdminAppointmentsByEngagement: "panelOperation rt APPOINTMENTS_READ (outcome (adminAppointmentsByEngagement_op rt engagementId))"
| panelOperationAdminEngagementChatThread: "panelOperation rt ENGAGEMENT_CHAT_READ (outcome (adminEngagementChatThread_op rt engagementId))"
| panelOperationAdminLedgerEntries: "panelOperation rt LEDGER_READ (outcome (adminLedgerEntries_op rt filt limit offset))"
| panelOperationAdminEngagementPaymentSummaries: "panelOperation rt LEDGER_READ (outcome (adminEngagementPaymentSummaries_op rt limit offset))"
| panelOperationAdminPlatformBalance: "panelOperation rt LEDGER_READ (outcome (adminPlatformBalance_op rt))"
| panelOperationAdminPaymentAttempts: "panelOperation rt CASH_PAYMENTS_READ (outcome (adminPaymentAttempts_op rt filt limit offset))"
| panelOperationAdminReviews: "panelOperation rt REVIEWS_READ (outcome (adminReviews_op rt filt limit offset))"
| panelOperationModerateEngagementReviewComment: "panelOperation rt REVIEWS_WRITE (outcome (moderateEngagementReviewComment_op rt reviewId decision))"
| panelOperationPlatformSettings: "panelOperation rt FEATURE_FLAGS_READ (outcome (platformSettings_op rt))"
| panelOperationSetPlatformSetting: "panelOperation rt FEATURE_FLAGS_WRITE (outcome (setPlatformSetting_op rt input))"
| panelOperationStorageSettings: "panelOperation rt STORAGE_SETTINGS_READ (outcome (storageSettings_op rt))"
| panelOperationUpdateStorageSettings: "panelOperation rt STORAGE_SETTINGS_WRITE (outcome (updateStorageSettings_op rt photoEnabled maxDimensionPx webpQuality))"
| panelOperationEmailTemplates: "panelOperation rt EMAIL_TEMPLATES_READ (outcome (emailTemplates_op rt))"
| panelOperationUpdateEmailTemplate: "panelOperation rt EMAIL_TEMPLATES_WRITE (outcome (updateEmailTemplate_op rt templateKey subject htmlBody textBody))"
| panelOperationSendTestEmailTemplate: "panelOperation rt EMAIL_TEMPLATES_WRITE (outcome (sendTestEmailTemplate_op rt templateKey recipient))"
| panelOperationEmailLayout: "panelOperation rt EMAIL_TEMPLATES_READ (outcome (emailLayout_op rt))"
| panelOperationUpdateEmailLayout: "panelOperation rt EMAIL_TEMPLATES_WRITE (outcome (updateEmailLayout_op rt input))"
| panelOperationRequestEmailLogoUploadUrl: "panelOperation rt EMAIL_TEMPLATES_WRITE (outcome (requestEmailLogoUploadUrl_op rt fileName contentType))"

lemmas accountable_intros = accountable_onDb accountable_onPanel accountable_onPlatform accountable_onMailing accountable_test_email

lemma panelOperation_outcome:
  assumes "panelOperation rt p ep" "ep authorization w = (r, w')"
  shows "panelOutcome rt p authorization w r w'"
  by (rule panelOperation.cases [OF assms(1)]; insert assms(2); simp only: panel_operations; erule panel_step;
      auto simp: QuoteNegotiationModuleEnabledGuard_def noResult_Inr
        intro!: accountable_intros
        intro: recorded_panel recorded_platform recorded_market recorded_mailing recorded_deleteUserAccount recorded_bulkDeleteUserAccounts
          recorded_createServiceRequest)

end
