(* ===== verification/Api.thy ===== *)
theory Api
  imports Gateway
begin

text \<open>
  The operations of the users' and the public interface (the resolvers under src/src outside
  src/src/platform-admin, and the public configuration): each runs its guards in their order and then
  its service on behalf of the caller.  What is submitted is given by the fields the services read, and
  a mutation whose service gives no row here answers \<^theory_text>\<open>unit\<close>, its answer being the
  row as the state then has it.
\<close>

definition photoTarget :: "runtime \<Rightarrow> string \<Rightarrow> string \<Rightarrow> PhotoUploadTarget" where
  "photoTarget rt fileName contentType = (let t = uploadUrls rt fileName contentType
     in \<lparr>put_uploadUrl = ut_uploadUrl t, put_publicUrl = ut_publicUrl t, put_expiresAt = ut_expiresAt t\<rparr>)"

definition listMyPaymentReceipts :: "db \<Rightarrow> id \<Rightarrow> LedgerEntry list" where
  "listMyPaymentReceipts d u = findManyForCallerProfiles d (map_option cp_id (findCustomerProfileByUserId d u))
     (map_option pp_id (findProfessionalProfileByUserId d u))"

section \<open>Accounts and sessions\<close>

definition register_op ::
  "runtime \<Rightarrow> RegisterInput \<Rightarrow> string option \<Rightarrow> id service" where
  "register_op rt input =
     anyone rt (\<lambda>w. onIdentity (register (rt_crypto rt) (rt_verification rt) (rt_production rt) (w_db w) (rt_now rt)
       (rt_salt rt) (rt_randomCode rt) input) w)"

definition verifyEmailCode_op ::
  "runtime \<Rightarrow> string \<Rightarrow> string \<Rightarrow> string option \<Rightarrow> bool service" where
  "verifyEmailCode_op rt email code =
     anyone rt (onIdentity (\<lambda>s. Inr (verifyEmailCode (rt_crypto rt) (rt_verification rt) (rt_now rt) email code s)))"

definition resendVerificationCode_op ::
  "runtime \<Rightarrow> string \<Rightarrow> string option \<Rightarrow> time service" where
  "resendVerificationCode_op rt email =
     anyone rt (\<lambda>w. onIdentity (resendVerificationCode (rt_crypto rt) (rt_verification rt) (rt_production rt) (w_db w) (rt_now rt)
       (rt_randomCode rt) email) w)"

definition socialLogin_op ::
  "runtime \<Rightarrow> SocialProvider \<Rightarrow> string \<Rightarrow> string option \<Rightarrow> LoginPayload service" where
  "socialLogin_op rt provider identityToken =
     anyone rt (\<lambda>w. onIdentity (socialLogin (rt_crypto rt) (w_db w) (rt_social rt) (rt_sessionTtlHours rt) (rt_now rt)
       (rt_randomToken rt) provider identityToken) w)"

definition login_op ::
  "runtime \<Rightarrow> string \<Rightarrow> string \<Rightarrow> string option \<Rightarrow> LoginPayload service" where
  "login_op rt email password =
     anyone rt (onIdentity (login (rt_crypto rt) (rt_decoyHash rt) (rt_sessionTtlHours rt) (rt_now rt) (rt_randomToken rt) email password))"

definition logout_op ::
  "runtime \<Rightarrow> string option \<Rightarrow> bool service" where
  "logout_op rt =
     handle rt [] (\<lambda>q. onIdentity (\<lambda>s. Inr (logout (rt_crypto rt) (rt_now rt) (extractBearerToken (rq_authorization q)) s)))"

definition me_op ::
  "runtime \<Rightarrow> string option \<Rightarrow> id service" where
  "me_op rt =
     asUser rt signedIn (\<lambda>u. answer (\<lambda>_. Inr u))"

definition requestPasswordReset_op ::
  "runtime \<Rightarrow> string \<Rightarrow> string option \<Rightarrow> unit service" where
  "requestPasswordReset_op rt email =
     anyone rt (\<lambda>w. onIdentity (noResult (requestPasswordReset (rt_crypto rt) (rt_reset rt) (rt_production rt) (w_db w) (rt_now rt)
       (rt_randomCode rt) email)) w)"

definition resetPassword_op ::
  "runtime \<Rightarrow> string \<Rightarrow> string \<Rightarrow> string \<Rightarrow> string option \<Rightarrow> ResetResult service" where
  "resetPassword_op rt email code newPassword =
     anyone rt (onIdentity (\<lambda>s. Inr (resetPassword (rt_crypto rt) (rt_reset rt) (rt_now rt) (rt_salt rt) email code newPassword s)))"

section \<open>Profiles, verification and uploads\<close>

definition myAccount_op ::
  "runtime \<Rightarrow> string option \<Rightarrow> UserAccountStatus service" where
  "myAccount_op rt =
     asUser rt signedIn (\<lambda>u. answer (\<lambda>w. orCrash (findAccountStatusById (w_identity w) u)))"

definition myCustomerProfile_op ::
  "runtime \<Rightarrow> string option \<Rightarrow> (CustomerProfile option) service" where
  "myCustomerProfile_op rt =
     asUser rt signedIn (\<lambda>u. readDb (\<lambda>d. Inr (findCustomerProfileByUserId d u)))"

definition myProfessionalProfile_op ::
  "runtime \<Rightarrow> string option \<Rightarrow> (ProfessionalProfile option) service" where
  "myProfessionalProfile_op rt =
     asUser rt signedIn (\<lambda>u. readDb (\<lambda>d. Inr (findProfessionalProfileByUserId d u)))"

definition categories_op ::
  "runtime \<Rightarrow> string option \<Rightarrow> (Category list) service" where
  "categories_op rt =
     asUser rt signedIn (\<lambda>u. answer (\<lambda>w. orCrash (findAllCategories (rt_rank rt) (w_db w))))"

definition upsertCustomerProfile_op ::
  "runtime \<Rightarrow> UpsertCustomerProfileInput \<Rightarrow> string option \<Rightarrow> bool service" where
  "upsertCustomerProfile_op rt input =
     asUser rt signedIn (\<lambda>u. onPlatform (upsertCustomerProfile (rt_now rt) u input))"

definition upsertProfessionalProfile_op ::
  "runtime \<Rightarrow> UpsertProfessionalProfileInput \<Rightarrow> string option \<Rightarrow> bool service" where
  "upsertProfessionalProfile_op rt input =
     asUser rt signedIn (\<lambda>u. onPlatform (upsertProfessionalProfile (rt_now rt) u input))"

definition requestProfilePhotoUploadUrl_op ::
  "runtime \<Rightarrow> string \<Rightarrow> string \<Rightarrow> string option \<Rightarrow> (id \<times> PhotoUploadTarget) service" where
  "requestProfilePhotoUploadUrl_op rt fileName contentType =
     asUser rt signedIn (\<lambda>u. onDb (requestProfilePhotoUploadUrl (photoTarget rt) u fileName contentType))"

definition startIdentityVerification_op ::
  "runtime \<Rightarrow> string option \<Rightarrow> (IdentityVerification \<times> string) service" where
  "startIdentityVerification_op rt =
     asUser rt signedIn (\<lambda>u. \<lambda>w.
       onIdentity (\<lambda>s. startIdentityVerification (rt_didit rt) (rt_now rt) u (w_db w, s)) w)"

definition myIdentityVerificationStatus_op ::
  "runtime \<Rightarrow> string option \<Rightarrow> (IdentityVerification option) service" where
  "myIdentityVerificationStatus_op rt =
     asUser rt signedIn (\<lambda>u. answer (\<lambda>w. Inr (getMyIdentityVerificationStatus (w_identity w) u)))"

definition requestMediaUploadUrl_op ::
  "runtime \<Rightarrow> string \<Rightarrow> string \<Rightarrow> MediaUploadRefIntendedUse \<Rightarrow> string option \<Rightarrow> UploadUrl service" where
  "requestMediaUploadUrl_op rt fileName contentType use =
     asUser rt signedIn (\<lambda>u. onDb (requestMediaUploadUrl (uploadUrls rt) u fileName contentType use))"

definition requestServiceRequestAttachmentUploadUrl_op ::
  "runtime \<Rightarrow> string \<Rightarrow> string \<Rightarrow> string option \<Rightarrow> UploadUrl service" where
  "requestServiceRequestAttachmentUploadUrl_op rt fileName contentType =
     asUser rt signedIn (\<lambda>u. onDb (requestAttachmentUploadUrl (uploadUrls rt) u fileName contentType))"

section \<open>Requests and quotes\<close>

definition myPublishedServiceRequests_op ::
  "runtime \<Rightarrow> string option \<Rightarrow> (ServiceRequest list) service" where
  "myPublishedServiceRequests_op rt =
     asUser rt approvedOnly (\<lambda>u. readDb (\<lambda>d. Inr (listMyServiceRequests d u)))"

definition compatibleServiceRequests_op ::
  "runtime \<Rightarrow> string option \<Rightarrow> (ServiceRequest list) service" where
  "compatibleServiceRequests_op rt =
     asUser rt approvedOnly (\<lambda>u. readDb (\<lambda>d. Inr (listCompatibleServiceRequests d u)))"

definition publishServiceRequest_op ::
  "runtime \<Rightarrow> PublishServiceRequestInput \<Rightarrow> string option \<Rightarrow> ServiceRequest service" where
  "publishServiceRequest_op rt input =
     asUser rt approvedOnly (\<lambda>u. onDb (publishServiceRequest (rt_now rt) u input))"

definition cancelServiceRequest_op ::
  "runtime \<Rightarrow> id \<Rightarrow> string option \<Rightarrow> unit service" where
  "cancelServiceRequest_op rt serviceRequestId =
     asUser rt approvedOnly (\<lambda>u. onDb (noResult (cancelServiceRequest (rt_now rt) u serviceRequestId)))"

definition submitQuote_op ::
  "runtime \<Rightarrow> id \<Rightarrow> int \<Rightarrow> string \<Rightarrow> string option \<Rightarrow> Quote service" where
  "submitQuote_op rt serviceRequestId price message =
     asUser rt approvedOnly (\<lambda>u. onDb (submitQuote (rt_now rt) u serviceRequestId price message))"

definition addQuoteAttachment_op ::
  "runtime \<Rightarrow> id \<Rightarrow> (id list) \<Rightarrow> string option \<Rightarrow> unit service" where
  "addQuoteAttachment_op rt quoteId mediaUploadRefIds =
     asUser rt approvedOnly (\<lambda>u. onDb (noResult (addAttachments (rt_now rt) u quoteId mediaUploadRefIds)))"

definition withdrawQuote_op ::
  "runtime \<Rightarrow> id \<Rightarrow> string option \<Rightarrow> unit service" where
  "withdrawQuote_op rt quoteId =
     asUser rt approvedOnly (\<lambda>u. onDb (noResult (withdrawQuote (rt_now rt) u quoteId)))"

definition acceptQuote_op ::
  "runtime \<Rightarrow> id \<Rightarrow> string option \<Rightarrow> unit service" where
  "acceptQuote_op rt quoteId =
     asUser rt approvedOnly (\<lambda>u. onDb (noResult (acceptQuote (rt_now rt) u quoteId)))"

definition rejectQuote_op ::
  "runtime \<Rightarrow> id \<Rightarrow> string option \<Rightarrow> unit service" where
  "rejectQuote_op rt quoteId =
     asUser rt approvedOnly (\<lambda>u. onDb (noResult (rejectQuote (rt_now rt) u quoteId)))"

definition quotesForServiceRequest_op ::
  "runtime \<Rightarrow> id \<Rightarrow> string option \<Rightarrow> (Quote list) service" where
  "quotesForServiceRequest_op rt serviceRequestId =
     asUser rt approvedOnly (\<lambda>u. readDb (\<lambda>d. listQuotesForServiceRequest d u serviceRequestId))"

definition myQuotes_op ::
  "runtime \<Rightarrow> string option \<Rightarrow> (Quote list) service" where
  "myQuotes_op rt =
     asUser rt approvedOnly (\<lambda>u. readDb (\<lambda>d. listMyQuotes d u))"

definition postQuoteNegotiationMessage_op ::
  "runtime \<Rightarrow> id \<Rightarrow> PostMessageInput \<Rightarrow> string option \<Rightarrow> unit service" where
  "postQuoteNegotiationMessage_op rt quoteId input =
     asUser rt (approvedOnly @ [QuoteNegotiationModuleEnabledGuard]) (\<lambda>u. onDb (noResult (postMessage (rt_now rt) u quoteId input)))"

definition acceptQuotePriceProposal_op ::
  "runtime \<Rightarrow> id \<Rightarrow> string option \<Rightarrow> unit service" where
  "acceptQuotePriceProposal_op rt proposalId =
     asUser rt (approvedOnly @ [QuoteNegotiationModuleEnabledGuard]) (\<lambda>u. onDb (noResult (acceptQuotePriceProposal (rt_now rt) u proposalId)))"

definition rejectQuotePriceProposal_op ::
  "runtime \<Rightarrow> id \<Rightarrow> string option \<Rightarrow> unit service" where
  "rejectQuotePriceProposal_op rt proposalId =
     asUser rt (approvedOnly @ [QuoteNegotiationModuleEnabledGuard]) (\<lambda>u. onDb (noResult (rejectQuotePriceProposal (rt_now rt) u proposalId)))"

definition quoteNegotiationMessages_op ::
  "runtime \<Rightarrow> id \<Rightarrow> string option \<Rightarrow> ((QuoteNegotiationMessage \<times> QuotePriceProposal option) list) service" where
  "quoteNegotiationMessages_op rt quoteId =
     asUser rt (approvedOnly @ [QuoteNegotiationModuleEnabledGuard]) (\<lambda>u. readDb (\<lambda>d. listNegotiationMessages d u quoteId))"

section \<open>Engagements\<close>

definition myEngagementsAsCustomer_op ::
  "runtime \<Rightarrow> string option \<Rightarrow> (Engagement list) service" where
  "myEngagementsAsCustomer_op rt =
     asUser rt approvedOnly (\<lambda>u. readDb (\<lambda>d. listMyEngagementsAsCustomer d u))"

definition myEngagementsAsProfessional_op ::
  "runtime \<Rightarrow> string option \<Rightarrow> (Engagement list) service" where
  "myEngagementsAsProfessional_op rt =
     asUser rt approvedOnly (\<lambda>u. readDb (\<lambda>d. listMyEngagementsAsProfessional d u))"

definition startEngagementWork_op ::
  "runtime \<Rightarrow> id \<Rightarrow> string option \<Rightarrow> unit service" where
  "startEngagementWork_op rt engagementId =
     asUser rt approvedOnly (\<lambda>u. onDb (noResult (startEngagementWork (rt_now rt) u engagementId)))"

definition markEngagementWorkFinished_op ::
  "runtime \<Rightarrow> id \<Rightarrow> string option \<Rightarrow> unit service" where
  "markEngagementWorkFinished_op rt engagementId =
     asUser rt approvedOnly (\<lambda>u. onDb (noResult (markEngagementWorkFinished (rt_now rt) u engagementId)))"

definition confirmEngagementCompletion_op ::
  "runtime \<Rightarrow> id \<Rightarrow> string option \<Rightarrow> unit service" where
  "confirmEngagementCompletion_op rt engagementId =
     asUser rt approvedOnly (\<lambda>u. onDb (noResult (confirmEngagementCompletion (rt_now rt) u engagementId)))"

definition cancelEngagementByCustomer_op ::
  "runtime \<Rightarrow> id \<Rightarrow> string \<Rightarrow> string option \<Rightarrow> unit service" where
  "cancelEngagementByCustomer_op rt engagementId reason =
     asUser rt approvedOnly (\<lambda>u. onDb (noResult (cancelEngagementByCustomer (rt_now rt) u engagementId reason)))"

definition cancelEngagementByProfessional_op ::
  "runtime \<Rightarrow> id \<Rightarrow> string \<Rightarrow> string option \<Rightarrow> unit service" where
  "cancelEngagementByProfessional_op rt engagementId reason =
     asUser rt approvedOnly (\<lambda>u. onDb (noResult (cancelEngagementByProfessional (rt_now rt) u engagementId reason)))"

definition reportEngagementNoShow_op ::
  "runtime \<Rightarrow> id \<Rightarrow> string \<Rightarrow> string option \<Rightarrow> unit service" where
  "reportEngagementNoShow_op rt engagementId reason =
     asUser rt approvedOnly (\<lambda>u. onDb (noResult (reportEngagementNoShow u engagementId)))"

definition engagementFinancialSummary_op ::
  "runtime \<Rightarrow> id \<Rightarrow> string option \<Rightarrow> FinancialSummary service" where
  "engagementFinancialSummary_op rt engagementId =
     asUser rt approvedOnly (\<lambda>u. readDb (\<lambda>d. getEngagementFinancialSummary d u engagementId))"

definition sendEngagementMessage_op ::
  "runtime \<Rightarrow> id \<Rightarrow> string \<Rightarrow> (id option) \<Rightarrow> string option \<Rightarrow> unit service" where
  "sendEngagementMessage_op rt engagementId content mediaUploadRefId =
     asUser rt (approvedOnly @ [EngagementChatModuleEnabledGuard]) (\<lambda>u. onDb (noResult (sendMessage (rt_now rt) u engagementId content mediaUploadRefId)))"

definition engagementMessages_op ::
  "runtime \<Rightarrow> id \<Rightarrow> string option \<Rightarrow> (EngagementChatMessage list) service" where
  "engagementMessages_op rt engagementId =
     asUser rt (approvedOnly @ [EngagementChatModuleEnabledGuard]) (\<lambda>u. readDb (\<lambda>d. listMessages d u engagementId))"

definition proposeAppointment_op ::
  "runtime \<Rightarrow> id \<Rightarrow> time \<Rightarrow> time \<Rightarrow> string option \<Rightarrow> Appointment service" where
  "proposeAppointment_op rt engagementId startsAt endsAt =
     asUser rt (approvedOnly @ [AppointmentsModuleEnabledGuard]) (\<lambda>u. onDb (propose (rt_now rt) u engagementId startsAt endsAt))"

definition acceptAppointment_op ::
  "runtime \<Rightarrow> id \<Rightarrow> string option \<Rightarrow> unit service" where
  "acceptAppointment_op rt i =
     asUser rt (approvedOnly @ [AppointmentsModuleEnabledGuard]) (\<lambda>u. onDb (noResult (accept (rt_now rt) u i)))"

definition cancelAppointment_op ::
  "runtime \<Rightarrow> id \<Rightarrow> string \<Rightarrow> string option \<Rightarrow> unit service" where
  "cancelAppointment_op rt i reason =
     asUser rt (approvedOnly @ [AppointmentsModuleEnabledGuard]) (\<lambda>u. onDb (noResult (cancel (rt_now rt) u i reason)))"

definition appointmentsByEngagement_op ::
  "runtime \<Rightarrow> id \<Rightarrow> string option \<Rightarrow> (Appointment list) service" where
  "appointmentsByEngagement_op rt engagementId =
     asUser rt (approvedOnly @ [AppointmentsModuleEnabledGuard]) (\<lambda>u. readDb (\<lambda>d. listByEngagement d u engagementId))"

definition submitEngagementReview_op ::
  "runtime \<Rightarrow> id \<Rightarrow> rat \<Rightarrow> (string option) \<Rightarrow> string option \<Rightarrow> Review service" where
  "submitEngagementReview_op rt engagementId rating comment =
     asUser rt (approvedOnly @ [ReviewsModuleEnabledGuard]) (\<lambda>u. onDb (submitReview (rt_now rt) u engagementId rating comment))"

definition myReceivedReviews_op ::
  "runtime \<Rightarrow> string option \<Rightarrow> (ReviewModel list) service" where
  "myReceivedReviews_op rt =
     asUser rt approvedOnly (\<lambda>u. readDb (\<lambda>d. Inr (listReceived (rt_now rt) d u)))"

section \<open>Payments\<close>

definition confirmCashPayment_op ::
  "runtime \<Rightarrow> id \<Rightarrow> string option \<Rightarrow> PaymentAttempt service" where
  "confirmCashPayment_op rt engagementId =
     asUser rt (approvedOnly @ [CashPaymentModuleEnabledGuard]) (\<lambda>u. onDb (confirmCashPayment (rt_now rt) u engagementId))"

definition myPendingCashCommissionDebt_op ::
  "runtime \<Rightarrow> string option \<Rightarrow> int service" where
  "myPendingCashCommissionDebt_op rt =
     asUser rt approvedOnly (\<lambda>u. readDb (\<lambda>d. getMyPendingCashCommissionDebt d u))"

definition myCashPaymentConfirmation_op ::
  "runtime \<Rightarrow> id \<Rightarrow> string option \<Rightarrow> CashPaymentConfirmationState service" where
  "myCashPaymentConfirmation_op rt engagementId =
     asUser rt approvedOnly (\<lambda>u. readDb (\<lambda>d. getMyCashPaymentConfirmation d u engagementId))"

definition myPaymentBalance_op ::
  "runtime \<Rightarrow> string option \<Rightarrow> int service" where
  "myPaymentBalance_op rt =
     asUser rt approvedOnly (\<lambda>u. readDb (\<lambda>d. getMyPaymentBalance d u))"

definition myPaymentReceipts_op ::
  "runtime \<Rightarrow> string option \<Rightarrow> (LedgerEntry list) service" where
  "myPaymentReceipts_op rt =
     asUser rt approvedOnly (\<lambda>u. readDb (\<lambda>d. Inr (listMyPaymentReceipts d u)))"

definition payEngagementWithCard_op ::
  "runtime \<Rightarrow> PayEngagementWithCardInput \<Rightarrow> string option \<Rightarrow> PaymentAttempt service" where
  "payEngagementWithCard_op rt input =
     asUser rt (approvedOnly @ [CardPaymentModuleEnabledGuard]) (\<lambda>u. servePart w_db setDb (payEngagementWithCard (rt_now rt) (rt_provider rt) u input))"

definition startEngagementWalletPayment_op ::
  "runtime \<Rightarrow> id \<Rightarrow> string option \<Rightarrow> (PaymentAttempt \<times> string) service" where
  "startEngagementWalletPayment_op rt engagementId =
     asUser rt (approvedOnly @ [MercadoPagoWalletModuleEnabledGuard]) (\<lambda>u. servePart w_db setDb (startEngagementWalletPayment (rt_now rt) (rt_provider rt) u engagementId))"

definition myEngagementPaymentAttempt_op ::
  "runtime \<Rightarrow> id \<Rightarrow> string option \<Rightarrow> (PaymentAttempt option) service" where
  "myEngagementPaymentAttempt_op rt engagementId =
     asUser rt approvedOnly (\<lambda>u. onDb (getMyEngagementPaymentAttempt (rt_now rt) (rt_provider rt) u engagementId))"

definition platformConfig_op ::
  "runtime \<Rightarrow> string option \<Rightarrow> config service" where
  "platformConfig_op rt =
     anyone rt (readDb (\<lambda>d. Inr (listPlatformConfig (rt_rank rt) d)))"

end
