(* ===== verification/Market_Facts.thy ===== *)
theory Market_Facts
  imports Gateway_Facts Api Services
begin

text \<open>
  The operations of the market: each needs a live session of an approved account and an enabled module
  where it has one, changes nothing but the market's tables, and what it does to them is a run of the
  system of Marketplace, whatever else is in flight.
\<close>

section \<open>Services as runs\<close>

lemma serve_mapR: "serve now prov req d = Inr d' \<longleftrightarrow> (\<exists>t. begin_request now prov req d = Inr t \<and> commit now t d = Inr d')"
  by (simp add: serve_def andThen_Inr_iff)

lemma steps_engagement:
  "startEngagementWork now u e d = Inr d' \<Longrightarrow> step\<^sup>*\<^sup>* (d, ts) (d', ts)"
  "markEngagementWorkFinished now u e d = Inr d' \<Longrightarrow> step\<^sup>*\<^sup>* (d, ts) (d', ts)"
  "confirmEngagementCompletion now u e d = Inr d' \<Longrightarrow> step\<^sup>*\<^sup>* (d, ts) (d', ts)"
  "cancelEngagementByCustomer now u e reason d = Inr d' \<Longrightarrow> step\<^sup>*\<^sup>* (d, ts) (d', ts)"
  "cancelEngagementByProfessional now u e reason d = Inr d' \<Longrightarrow> step\<^sup>*\<^sup>* (d, ts) (d', ts)"
  subgoal by (rule steps_serve [where now = now and prov = demoProvider and req = "StartWork u e"])
    (auto simp: serve_mapR mapR_Inr_iff startEngagementWork_def andThen_Inr_iff)
  subgoal by (rule steps_serve [where now = now and prov = demoProvider and req = "FinishWork u e"])
    (auto simp: serve_mapR mapR_Inr_iff markEngagementWorkFinished_def andThen_Inr_iff)
  subgoal by (rule steps_serve [where now = now and prov = demoProvider and req = "ConfirmCompletion u e"])
    (auto simp: serve_mapR mapR_Inr_iff confirmEngagementCompletion_def andThen_Inr_iff)
  subgoal by (rule steps_serve [where now = now and prov = demoProvider and req = "CancelByCustomer u e reason"])
    (auto simp: serve_mapR mapR_Inr_iff cancelEngagementByCustomer_def andThen_Inr_iff)
  subgoal by (rule steps_serve [where now = now and prov = demoProvider and req = "CancelByProfessional u e reason"])
    (auto simp: serve_mapR mapR_Inr_iff cancelEngagementByProfessional_def andThen_Inr_iff)
  done

lemma steps_quotes:
  "submitQuote now u i price msg d = Inr (q, d') \<Longrightarrow> step\<^sup>*\<^sup>* (d, ts) (d', ts)"
  "withdrawQuote now u i d = Inr d' \<Longrightarrow> step\<^sup>*\<^sup>* (d, ts) (d', ts)"
  "rejectQuote now u i d = Inr d' \<Longrightarrow> step\<^sup>*\<^sup>* (d, ts) (d', ts)"
  "acceptQuote now u i d = Inr d' \<Longrightarrow> step\<^sup>*\<^sup>* (d, ts) (d', ts)"
  "publishServiceRequest now u input1 d = Inr (sr, d') \<Longrightarrow> step\<^sup>*\<^sup>* (d, ts) (d', ts)"
  "cancelServiceRequest now u i d = Inr d' \<Longrightarrow> step\<^sup>*\<^sup>* (d, ts) (d', ts)"
  subgoal by (rule steps_serve [where now = now and prov = demoProvider and req = "SubmitQuote u i price msg"])
    (auto simp: serve_mapR mapR_Inr_iff submitQuote_def andThen_Inr_iff split: prod.splits)
  subgoal by (rule steps_serve [where now = now and prov = demoProvider and req = "WithdrawQuote u i"])
    (auto simp: serve_mapR mapR_Inr_iff withdrawQuote_def andThen_Inr_iff split: prod.splits)
  subgoal by (rule steps_serve [where now = now and prov = demoProvider and req = "RejectQuote u i"])
    (auto simp: serve_mapR mapR_Inr_iff rejectQuote_def andThen_Inr_iff split: prod.splits)
  subgoal by (rule steps_serve [where now = now and prov = demoProvider and req = "AcceptQuote u i"])
    (auto simp: serve_mapR mapR_Inr_iff acceptQuote_def andThen_Inr_iff split: prod.splits)
  subgoal by (rule steps_serve [where now = now and prov = demoProvider and req = "PublishRequest u input1"])
    (auto simp: serve_mapR mapR_Inr_iff publishServiceRequest_def andThen_Inr_iff split: prod.splits)
  subgoal by (rule steps_serve [where now = now and prov = demoProvider and req = "CancelRequest u i"])
    (auto simp: serve_mapR mapR_Inr_iff cancelServiceRequest_def andThen_Inr_iff split: prod.splits)
  done

lemma steps_negotiation:
  "postMessage now u i input2 d = Inr d' \<Longrightarrow> step\<^sup>*\<^sup>* (d, ts) (d', ts)"
  "acceptQuotePriceProposal now u i d = Inr d' \<Longrightarrow> step\<^sup>*\<^sup>* (d, ts) (d', ts)"
  "rejectQuotePriceProposal now u i d = Inr d' \<Longrightarrow> step\<^sup>*\<^sup>* (d, ts) (d', ts)"
  "sendMessage now u i content ref d = Inr d' \<Longrightarrow> step\<^sup>*\<^sup>* (d, ts) (d', ts)"
  subgoal by (rule steps_serve [where now = now and prov = demoProvider and req = "PostNegotiation u i input2"])
    (auto simp: serve_mapR mapR_Inr_iff postMessage_def andThen_Inr_iff split: prod.splits)
  subgoal by (rule steps_serve [where now = now and prov = demoProvider and req = "AcceptProposal u i"])
    (auto simp: serve_mapR mapR_Inr_iff acceptQuotePriceProposal_def andThen_Inr_iff split: prod.splits)
  subgoal by (rule steps_serve [where now = now and prov = demoProvider and req = "RejectProposal u i"])
    (auto simp: serve_mapR mapR_Inr_iff rejectQuotePriceProposal_def andThen_Inr_iff split: prod.splits)
  subgoal by (rule steps_serve [where now = now and prov = demoProvider and req = "SendChat u i content ref"])
    (auto simp: serve_mapR mapR_Inr_iff sendMessage_def andThen_Inr_iff split: prod.splits)
  done

lemma steps_visits:
  "propose now u i t1 t2 d = Inr (ap, d') \<Longrightarrow> step\<^sup>*\<^sup>* (d, ts) (d', ts)"
  "accept now u i d = Inr d' \<Longrightarrow> step\<^sup>*\<^sup>* (d, ts) (d', ts)"
  "cancel now u i reason d = Inr d' \<Longrightarrow> step\<^sup>*\<^sup>* (d, ts) (d', ts)"
  "confirmCashPayment now u i d = Inr (pa, d') \<Longrightarrow> step\<^sup>*\<^sup>* (d, ts) (d', ts)"
  "submitReview now u i rating c d = Inr (rv, d') \<Longrightarrow> step\<^sup>*\<^sup>* (d, ts) (d', ts)"
  subgoal by (rule steps_serve [where now = now and prov = demoProvider and req = "ProposeAppointment u i t1 t2"])
    (auto simp: serve_mapR mapR_Inr_iff propose_def propose_pre_def andThen_Inr_iff split: prod.splits)
  subgoal by (rule steps_serve [where now = now and prov = demoProvider and req = "AcceptAppointment u i"])
    (auto simp: serve_mapR mapR_Inr_iff accept_def andThen_Inr_iff split: prod.splits)
  subgoal by (rule steps_serve [where now = now and prov = demoProvider and req = "CancelAppointment u i reason"])
    (auto simp: serve_mapR mapR_Inr_iff cancel_def andThen_Inr_iff split: prod.splits)
  subgoal by (rule steps_serve [where now = now and prov = demoProvider and req = "ConfirmCash u i"])
    (auto simp: serve_mapR mapR_Inr_iff confirmCashPayment_def andThen_Inr_iff split: prod.splits)
  subgoal by (rule steps_serve [where now = now and prov = demoProvider and req = "SubmitReview u i rating c"])
    (auto simp: serve_mapR mapR_Inr_iff submitReview_def andThen_Inr_iff split: prod.splits)
  done

section \<open>The guards\<close>

definition userCaller :: "runtime \<Rightarrow> string option \<Rightarrow> world \<Rightarrow> (err + id) \<times> identity" where
  "userCaller rt authorization w = authenticateRequest (rt_crypto rt) (rt_now rt) authorization (w_identity w)"

text \<open>A refused call leaves everything but the session as it was; another runs its service for the user
  of the session, an approved account.\<close>

lemma asUser_cases:
  assumes "asUser rt (approvedOnly @ gs) f authorization w = (r, w')" "SessionGuard \<notin> set gs" "AdminSessionGuard \<notin> set gs"
  obtains e where "r = Inl (Refused e)" "w' = setIdentity (snd (userCaller rt authorization w)) w"
  | u s where "userCaller rt authorization w = (Inr u, s)" "findAccountStatusById s u = Some UserAccountStatus.APPROVED"
      "f u (setIdentity s w) = (r, w')"
proof -
  obtain x s where c: "userCaller rt authorization w = (x, s)" by (cases "userCaller rt authorization w")
  show thesis
  proof (cases x)
    case (Inl e)
    show thesis
      by (rule that(1) [of e]) (use assms(1) c Inl in \<open>simp_all add: asUser_def handle_def approvedOnly_def canActivate_def
          canActivateSession_def userCaller_def\<close>)
  next
    case (Inr u)
    let ?q = "\<lparr>rq_authorization = authorization, rq_userId = Some u, rq_adminUserId = None\<rparr>"
    have run: "runGuards rt (approvedOnly @ gs) \<lparr>rq_authorization = authorization, rq_userId = None, rq_adminUserId = None\<rparr> w
      = (if findAccountStatusById s u = Some UserAccountStatus.APPROVED then runGuards rt gs ?q (setIdentity s w)
         else (Inl ACCOUNT_NOT_APPROVED, setIdentity s w))"
      using c Inr by (simp add: approvedOnly_def canActivate_def canActivateSession_def userCaller_def accountApprovedGuard_def
          setIdentity_def)
    obtain y v where g: "runGuards rt gs ?q (setIdentity s w) = (y, v)" by (cases "runGuards rt gs ?q (setIdentity s w)")
    note keep = runGuards_keeps [OF g assms(2,3)]
    show thesis
    proof (cases "findAccountStatusById s u = Some UserAccountStatus.APPROVED \<and> (\<exists>q'. y = Inr q')")
      case True
      then have "f u (setIdentity s w) = (r, w')" using assms(1) keep g run by (auto simp: asUser_def handle_def)
      then show thesis using that(2) c Inr True by simp
    next
      case False
      then obtain e where "r = Inl (Refused e)" "w' = setIdentity s w"
        using assms(1) keep g run by (cases y) (auto simp: asUser_def handle_def split: if_splits)
      then show thesis using that(1) c by simp
    qed
  qed
qed

section \<open>The operations\<close>

definition marketService :: "'r service \<Rightarrow> bool" where
  "marketService f \<longleftrightarrow> (\<forall>w r w'. f w = (r, w') \<longrightarrow>
     (\<exists>d'. w' = setDb d' w \<and> (\<forall>ts. step\<^sup>*\<^sup>* (w_db w, ts) (d', ts))))"

lemma marketService_unchanged: "\<exists>d'. w = setDb d' w \<and> (\<forall>ts. step\<^sup>*\<^sup>* (w_db w, ts) (d', ts))"
  by (rule exI [of _ "w_db w"]) (simp add: setDb_def)

lemma market_reads [simp]: "marketService (answer g)" "marketService (readDb h)"
  unfolding marketService_def answer_def readDb_def using marketService_unchanged by auto

lemma market_onDb:
  "(\<And>d r d' ts. f d = Inr (r, d') \<Longrightarrow> step\<^sup>*\<^sup>* (d, ts) (d', ts)) \<Longrightarrow> marketService (onDb f)"
  unfolding marketService_def onDb_def serveWhole_def using marketService_unchanged by (auto split: sum.splits)

lemma market_servePart:
  "(\<And>d ts. step\<^sup>*\<^sup>* (d, ts) (snd (f d), ts)) \<Longrightarrow> marketService (servePart w_db setDb f)"
  unfolding marketService_def servePart_def by (auto split: prod.splits) (metis snd_conv)

lemma noResult_run: "noResult f s = Inr (r, s') \<longleftrightarrow> f s = Inr s'"
  by (auto simp: noResult_def split: sum.splits)

definition marketOutcome :: "runtime \<Rightarrow> string option \<Rightarrow> world \<Rightarrow> api_error + unit \<Rightarrow> world \<Rightarrow> bool" where
  "marketOutcome rt authorization w r w' \<longleftrightarrow>
     (\<exists>u s d'. userCaller rt authorization w = (Inr u, s) \<and> findAccountStatusById s u = Some UserAccountStatus.APPROVED
        \<and> w' = setDb d' (setIdentity s w) \<and> (\<forall>ts. step\<^sup>*\<^sup>* (w_db w, ts) (d', ts)))
     \<or> (\<exists>e. r = Inl (Refused e)) \<and> w' = setIdentity (snd (userCaller rt authorization w)) w"

lemma market_step:
  assumes "outcome (asUser rt (approvedOnly @ gs) f) authorization w = (r, w')" "SessionGuard \<notin> set gs" "AdminSessionGuard \<notin> set gs"
    and "\<And>u. marketService (f u)"
  shows "marketOutcome rt authorization w r w'"
proof -
  obtain r0 where run: "asUser rt (approvedOnly @ gs) f authorization w = (r0, w')" and r: "r = map_sum id (\<lambda>_. ()) r0"
    using assms(1) by (auto simp: outcome_def split: prod.splits)
  from run assms(2,3) show ?thesis
  proof (cases rule: asUser_cases)
    case (1 e)
    then show ?thesis by (simp add: marketOutcome_def r)
  next
    case (2 u s)
    then obtain d' where "w' = setDb d' (setIdentity s w)" "\<forall>ts. step\<^sup>*\<^sup>* (w_db (setIdentity s w), ts) (d', ts)"
      using assms(4) [of u] unfolding marketService_def by blast
    moreover have "w_db (setIdentity s w) = w_db w" by (simp add: setIdentity_def)
    ultimately show ?thesis using 2(1,2) unfolding marketOutcome_def by (intro disjI1 exI [of _ u] exI [of _ s] exI [of _ d']) simp
  qed
qed

lemmas market_step_plain = market_step [where gs = "[]", simplified]

lemmas steps_run = steps_engagement steps_quotes steps_negotiation steps_visits steps_read

lemmas steps_pay = steps_pay_card steps_pay_wallet

lemmas market_operations =
  myPublishedServiceRequests_op_def compatibleServiceRequests_op_def publishServiceRequest_op_def
  cancelServiceRequest_op_def submitQuote_op_def withdrawQuote_op_def acceptQuote_op_def rejectQuote_op_def
  quotesForServiceRequest_op_def myQuotes_op_def postQuoteNegotiationMessage_op_def acceptQuotePriceProposal_op_def
  rejectQuotePriceProposal_op_def quoteNegotiationMessages_op_def myEngagementsAsCustomer_op_def
  myEngagementsAsProfessional_op_def startEngagementWork_op_def markEngagementWorkFinished_op_def
  confirmEngagementCompletion_op_def cancelEngagementByCustomer_op_def cancelEngagementByProfessional_op_def
  engagementFinancialSummary_op_def sendEngagementMessage_op_def engagementMessages_op_def proposeAppointment_op_def
  acceptAppointment_op_def cancelAppointment_op_def appointmentsByEngagement_op_def submitEngagementReview_op_def
  myReceivedReviews_op_def confirmCashPayment_op_def myPendingCashCommissionDebt_op_def
  myCashPaymentConfirmation_op_def myPaymentBalance_op_def myPaymentReceipts_op_def payEngagementWithCard_op_def
  startEngagementWalletPayment_op_def myEngagementPaymentAttempt_op_def

lemmas module_guards = AppointmentsModuleEnabledGuard_def CashPaymentModuleEnabledGuard_def EngagementChatModuleEnabledGuard_def
  CardPaymentModuleEnabledGuard_def MercadoPagoWalletModuleEnabledGuard_def QuoteNegotiationModuleEnabledGuard_def
  ReviewsModuleEnabledGuard_def

inductive marketOperation :: "runtime \<Rightarrow> (string option \<Rightarrow> unit service) \<Rightarrow> bool" for rt where
marketOperationMyPublishedServiceRequests: "marketOperation rt (outcome (myPublishedServiceRequests_op rt))"
| marketOperationCompatibleServiceRequests: "marketOperation rt (outcome (compatibleServiceRequests_op rt))"
| marketOperationPublishServiceRequest: "marketOperation rt (outcome (publishServiceRequest_op rt input))"
| marketOperationCancelServiceRequest: "marketOperation rt (outcome (cancelServiceRequest_op rt serviceRequestId))"
| marketOperationSubmitQuote: "marketOperation rt (outcome (submitQuote_op rt serviceRequestId price message))"
| marketOperationWithdrawQuote: "marketOperation rt (outcome (withdrawQuote_op rt quoteId))"
| marketOperationAcceptQuote: "marketOperation rt (outcome (acceptQuote_op rt quoteId))"
| marketOperationRejectQuote: "marketOperation rt (outcome (rejectQuote_op rt quoteId))"
| marketOperationQuotesForServiceRequest: "marketOperation rt (outcome (quotesForServiceRequest_op rt serviceRequestId))"
| marketOperationMyQuotes: "marketOperation rt (outcome (myQuotes_op rt))"
| marketOperationPostQuoteNegotiationMessage: "marketOperation rt (outcome (postQuoteNegotiationMessage_op rt quoteId input))"
| marketOperationAcceptQuotePriceProposal: "marketOperation rt (outcome (acceptQuotePriceProposal_op rt proposalId))"
| marketOperationRejectQuotePriceProposal: "marketOperation rt (outcome (rejectQuotePriceProposal_op rt proposalId))"
| marketOperationQuoteNegotiationMessages: "marketOperation rt (outcome (quoteNegotiationMessages_op rt quoteId))"
| marketOperationMyEngagementsAsCustomer: "marketOperation rt (outcome (myEngagementsAsCustomer_op rt))"
| marketOperationMyEngagementsAsProfessional: "marketOperation rt (outcome (myEngagementsAsProfessional_op rt))"
| marketOperationStartEngagementWork: "marketOperation rt (outcome (startEngagementWork_op rt engagementId))"
| marketOperationMarkEngagementWorkFinished: "marketOperation rt (outcome (markEngagementWorkFinished_op rt engagementId))"
| marketOperationConfirmEngagementCompletion: "marketOperation rt (outcome (confirmEngagementCompletion_op rt engagementId))"
| marketOperationCancelEngagementByCustomer: "marketOperation rt (outcome (cancelEngagementByCustomer_op rt engagementId reason))"
| marketOperationCancelEngagementByProfessional: "marketOperation rt (outcome (cancelEngagementByProfessional_op rt engagementId reason))"
| marketOperationEngagementFinancialSummary: "marketOperation rt (outcome (engagementFinancialSummary_op rt engagementId))"
| marketOperationSendEngagementMessage: "marketOperation rt (outcome (sendEngagementMessage_op rt engagementId content mediaUploadRefId))"
| marketOperationEngagementMessages: "marketOperation rt (outcome (engagementMessages_op rt engagementId))"
| marketOperationProposeAppointment: "marketOperation rt (outcome (proposeAppointment_op rt engagementId startsAt endsAt))"
| marketOperationAcceptAppointment: "marketOperation rt (outcome (acceptAppointment_op rt i))"
| marketOperationCancelAppointment: "marketOperation rt (outcome (cancelAppointment_op rt i reason))"
| marketOperationAppointmentsByEngagement: "marketOperation rt (outcome (appointmentsByEngagement_op rt engagementId))"
| marketOperationSubmitEngagementReview: "marketOperation rt (outcome (submitEngagementReview_op rt engagementId rating comment))"
| marketOperationMyReceivedReviews: "marketOperation rt (outcome (myReceivedReviews_op rt))"
| marketOperationConfirmCashPayment: "marketOperation rt (outcome (confirmCashPayment_op rt engagementId))"
| marketOperationMyPendingCashCommissionDebt: "marketOperation rt (outcome (myPendingCashCommissionDebt_op rt))"
| marketOperationMyCashPaymentConfirmation: "marketOperation rt (outcome (myCashPaymentConfirmation_op rt engagementId))"
| marketOperationMyPaymentBalance: "marketOperation rt (outcome (myPaymentBalance_op rt))"
| marketOperationMyPaymentReceipts: "marketOperation rt (outcome (myPaymentReceipts_op rt))"
| marketOperationPayEngagementWithCard: "marketOperation rt (outcome (payEngagementWithCard_op rt input))"
| marketOperationStartEngagementWalletPayment: "marketOperation rt (outcome (startEngagementWalletPayment_op rt engagementId))"
| marketOperationMyEngagementPaymentAttempt: "marketOperation rt (outcome (myEngagementPaymentAttempt_op rt engagementId))"

lemma marketOperation_outcome:
  assumes "marketOperation rt ep" "ep authorization w = (r, w')"
  shows "marketOutcome rt authorization w r w'"
  by (rule marketOperation.cases [OF assms(1)]; insert assms(2); simp only: market_operations;
      (erule market_step | erule market_step_plain);
      (simp add: module_guards)?;
      (simp | rule market_onDb, (unfold noResult_run)?, erule steps_run | rule market_servePart, rule steps_pay))

end
