(* ===== verification/Account_Deletion_Facts.thy ===== *)
theory Account_Deletion_Facts
  imports Account_Deletion
begin

text \<open>
  What a deletion does to the rest of the data: the requests that go are exactly those reached from the
  user's profiles (\<^theory_text>\<open>goesWith\<close>), no foreign key is left dangling
  (\<^theory_text>\<open>referencesOk\<close>), and the ledger keeps every amount.
\<close>

section \<open>The requests that go\<close>

inductive goesWith :: "db \<Rightarrow> id \<Rightarrow> id \<Rightarrow> bool" for db u where
  ownRequest: "s \<in> set (serviceRequests db) \<Longrightarrow> sr_customerProfileId s \<in> set (customerProfilesOf db u) \<Longrightarrow>
    goesWith db u (sr_id s)"
| acceptedOwnQuote: "s \<in> set (serviceRequests db) \<Longrightarrow> q \<in> set (quotes db) \<Longrightarrow> sr_acceptedQuoteId s = Some (q_id q) \<Longrightarrow>
    q_professionalProfileId q \<in> set (professionalProfilesOf db u) \<Longrightarrow> goesWith db u (sr_id s)"
| acceptedGoingQuote: "s \<in> set (serviceRequests db) \<Longrightarrow> q \<in> set (quotes db) \<Longrightarrow> sr_acceptedQuoteId s = Some (q_id q) \<Longrightarrow>
    goesWith db u (q_serviceRequestId q) \<Longrightarrow> goesWith db u (sr_id s)"

lemma among_iff: "among r ids \<longleftrightarrow> (\<exists>i\<in>set ids. r = Some i)"
  by (auto simp: among_def split: option.splits)

lemma set_quotesGoing: "set (quotesGoing db u srs) = {q_id q |q. q \<in> set (quotes db)
    \<and> (q_serviceRequestId q \<in> set srs \<or> q_professionalProfileId q \<in> set (professionalProfilesOf db u))}"
  by (auto simp: quotesGoing_def)

lemma set_moreRequests: "set (moreRequests db u srs) = {sr_id s |s. s \<in> set (serviceRequests db)
    \<and> (sr_customerProfileId s \<in> set (customerProfilesOf db u) \<or> among (sr_acceptedQuoteId s) (quotesGoing db u srs))}"
  by (auto simp: moreRequests_def)

lemma moreRequests_mono:
  assumes "set xs \<subseteq> set ys"
  shows "set (moreRequests db u xs) \<subseteq> set (moreRequests db u ys)"
proof -
  have "set (quotesGoing db u xs) \<subseteq> set (quotesGoing db u ys)" using assms by (auto simp: set_quotesGoing)
  then show ?thesis by (auto simp: set_moreRequests among_iff)
qed

lemma rounds_grow: "set ((moreRequests db u ^^ n) []) \<subseteq> set ((moreRequests db u ^^ Suc n) [])"
  by (induction n) (simp_all add: moreRequests_mono)

lemma rounds_stop:
  assumes "set ((moreRequests db u ^^ Suc k) []) = set ((moreRequests db u ^^ k) [])" "k \<le> n"
  shows "set ((moreRequests db u ^^ Suc n) []) = set ((moreRequests db u ^^ n) [])"
  using assms(2)
proof (induction n rule: dec_induct)
  case (step n)
  have "set (moreRequests db u (moreRequests db u ((moreRequests db u ^^ n) []))) = set (moreRequests db u ((moreRequests db u ^^ n) []))"
    using step.IH by (intro subset_antisym moreRequests_mono) simp_all
  then show ?case by simp
qed (rule assms(1))

lemma rounds_card:
  "(\<exists>k<n. set ((moreRequests db u ^^ Suc k) []) = set ((moreRequests db u ^^ k) []))
     \<or> n \<le> card (set ((moreRequests db u ^^ n) []))"
proof (induction n)
  case (Suc n)
  show ?case
  proof (cases "\<exists>k<Suc n. set ((moreRequests db u ^^ Suc k) []) = set ((moreRequests db u ^^ k) [])")
    case False
    then have "n \<le> card (set ((moreRequests db u ^^ n) []))" using Suc by (meson less_SucI)
    moreover have "set ((moreRequests db u ^^ n) []) \<subset> set ((moreRequests db u ^^ Suc n) [])"
      using False rounds_grow by (metis lessI psubsetI)
    ultimately show ?thesis by (meson List.finite_set Suc_leI le_less_trans psubset_card_mono)
  qed blast
qed simp

lemma requestsGoing_fixed: "set (moreRequests db u (requestsGoing db u)) = set (requestsGoing db u)"
proof -
  let ?n = "length (serviceRequests db)"
  have "set ((moreRequests db u ^^ Suc ?n) []) \<subseteq> sr_id ` set (serviceRequests db)"
    by (auto simp: set_moreRequests)
  then have "card (set ((moreRequests db u ^^ Suc ?n) [])) \<le> ?n"
    by (meson List.finite_set card_image_le card_length card_mono finite_imageI le_trans)
  then obtain k where "k < Suc ?n" "set ((moreRequests db u ^^ Suc k) []) = set ((moreRequests db u ^^ k) [])"
    using rounds_card [of "Suc ?n" db u] by auto
  then have "set ((moreRequests db u ^^ Suc ?n) []) = set ((moreRequests db u ^^ ?n) [])"
    using rounds_stop [of k db u ?n] by simp
  then show ?thesis by (simp add: requestsGoing_def)
qed

lemma rounds_sound: "i \<in> set ((moreRequests db u ^^ n) []) \<Longrightarrow> goesWith db u i"
proof (induction n arbitrary: i)
  case (Suc n)
  obtain s where s: "i = sr_id s" "s \<in> set (serviceRequests db)"
    and c: "sr_customerProfileId s \<in> set (customerProfilesOf db u)
      \<or> among (sr_acceptedQuoteId s) (quotesGoing db u ((moreRequests db u ^^ n) []))"
    using Suc.prems by (auto simp: set_moreRequests)
  show ?case
  proof (cases "sr_customerProfileId s \<in> set (customerProfilesOf db u)")
    case False
    then obtain q where "sr_acceptedQuoteId s = Some (q_id q)" "q \<in> set (quotes db)"
      "q_serviceRequestId q \<in> set ((moreRequests db u ^^ n) []) \<or> q_professionalProfileId q \<in> set (professionalProfilesOf db u)"
      using c by (auto simp: set_quotesGoing among_iff)
    then show ?thesis using s Suc.IH by (auto intro: goesWith.intros)
  qed (use s in \<open>auto intro: goesWith.intros\<close>)
qed simp

lemma requestsGoing_exact: "i \<in> set (requestsGoing db u) \<longleftrightarrow> goesWith db u i"
proof
  assume "goesWith db u i"
  then show "i \<in> set (requestsGoing db u)"
    by induction (subst requestsGoing_fixed [symmetric]; auto simp: set_moreRequests set_quotesGoing among_iff)+
qed (simp add: requestsGoing_def rounds_sound)

section \<open>Foreign keys\<close>

definition presentIn :: "id option \<Rightarrow> id set \<Rightarrow> bool" where
  "presentIn r ids \<longleftrightarrow> (case r of None \<Rightarrow> True | Some i \<Rightarrow> i \<in> ids)"

definition accountReferencesOk :: "identity \<Rightarrow> bool" where
  "accountReferencesOk s \<longleftrightarrow>
     (\<forall>c\<in>set (verificationCodes s) \<union> set (resetCodes s). code_userId c \<in> acc_id ` set (accounts s))
     \<and> (\<forall>x\<in>set (sessions s). ses_userId x \<in> acc_id ` set (accounts s))
     \<and> (\<forall>v\<in>set (verifications s). iv_userId v \<in> acc_id ` set (accounts s))"

definition userReferencesOk :: "db \<Rightarrow> bool" where
  "userReferencesOk db \<longleftrightarrow>
     (\<forall>p\<in>set (customerProfiles db). cp_userId p \<in> user_id ` set (users db))
     \<and> (\<forall>p\<in>set (professionalProfiles db). pp_userId p \<in> user_id ` set (users db))
     \<and> (\<forall>r\<in>set (srUploadRefs db). sref_userId r \<in> user_id ` set (users db)
          \<and> presentIn (sref_serviceRequestId r) (sr_id ` set (serviceRequests db)))
     \<and> (\<forall>r\<in>set (mediaUploadRefs db). mref_userId r \<in> user_id ` set (users db))
     \<and> (\<forall>r\<in>set (photoUploadRefs db). pref_userId r \<in> user_id ` set (users db))"

definition requestReferencesOk :: "db \<Rightarrow> bool" where
  "requestReferencesOk db \<longleftrightarrow>
     (\<forall>s\<in>set (serviceRequests db). sr_customerProfileId s \<in> cp_id ` set (customerProfiles db)
        \<and> presentIn (sr_acceptedQuoteId s) (q_id ` set (quotes db)))
     \<and> (\<forall>q\<in>set (quotes db). q_serviceRequestId q \<in> sr_id ` set (serviceRequests db)
        \<and> q_professionalProfileId q \<in> pp_id ` set (professionalProfiles db))
     \<and> (\<forall>a\<in>set (srAttachments db). att_ownerId a \<in> sr_id ` set (serviceRequests db))
     \<and> (\<forall>a\<in>set (quoteAttachments db). att_ownerId a \<in> q_id ` set (quotes db))"

definition negotiationReferencesOk :: "db \<Rightarrow> bool" where
  "negotiationReferencesOk db \<longleftrightarrow>
     (\<forall>n\<in>set (negotiationMessages db). nm_quoteId n \<in> q_id ` set (quotes db)
        \<and> presentIn (nm_authorCustomerProfileId n) (cp_id ` set (customerProfiles db))
        \<and> presentIn (nm_authorProfessionalProfileId n) (pp_id ` set (professionalProfiles db)))
     \<and> (\<forall>r\<in>set (priceProposals db). prop_quoteId r \<in> q_id ` set (quotes db)
        \<and> prop_negotiationMessageId r \<in> nm_id ` set (negotiationMessages db)
        \<and> presentIn (prop_proposedByCustomerProfileId r) (cp_id ` set (customerProfiles db))
        \<and> presentIn (prop_proposedByProfessionalProfileId r) (pp_id ` set (professionalProfiles db))
        \<and> presentIn (prop_resolvedByCustomerProfileId r) (cp_id ` set (customerProfiles db))
        \<and> presentIn (prop_resolvedByProfessionalProfileId r) (pp_id ` set (professionalProfiles db)))"

definition workReferencesOk :: "db \<Rightarrow> bool" where
  "workReferencesOk db \<longleftrightarrow>
     (\<forall>e\<in>set (engagements db). eng_serviceRequestId e \<in> sr_id ` set (serviceRequests db)
        \<and> eng_quoteId e \<in> q_id ` set (quotes db)
        \<and> eng_customerProfileId e \<in> cp_id ` set (customerProfiles db)
        \<and> eng_professionalProfileId e \<in> pp_id ` set (professionalProfiles db))
     \<and> (\<forall>c\<in>set (conversations db). conv_engagementId c \<in> eng_id ` set (engagements db))
     \<and> (\<forall>m\<in>set (chatMessages db). msg_conversationId m \<in> conv_id ` set (conversations db)
        \<and> presentIn (msg_senderCustomerProfileId m) (cp_id ` set (customerProfiles db))
        \<and> presentIn (msg_senderProfessionalProfileId m) (pp_id ` set (professionalProfiles db)))
     \<and> (\<forall>a\<in>set (appointments db). appt_engagementId a \<in> eng_id ` set (engagements db)
        \<and> appt_professionalProfileId a \<in> pp_id ` set (professionalProfiles db)
        \<and> presentIn (appt_proposedByCustomerProfileId a) (cp_id ` set (customerProfiles db))
        \<and> presentIn (appt_proposedByProfessionalProfileId a) (pp_id ` set (professionalProfiles db)))
     \<and> (\<forall>a\<in>set (paymentAttempts db). pa_engagementId a \<in> eng_id ` set (engagements db))
     \<and> (\<forall>r\<in>set (reviews db). rv_engagementId r \<in> eng_id ` set (engagements db)
        \<and> presentIn (rv_authorCustomerProfileId r) (cp_id ` set (customerProfiles db))
        \<and> presentIn (rv_authorProfessionalProfileId r) (pp_id ` set (professionalProfiles db)))"

definition ledgerReferencesOk :: "db \<Rightarrow> bool" where
  "ledgerReferencesOk db \<longleftrightarrow>
     (\<forall>r\<in>set (ledgerEntries db). presentIn (le_engagementId r) (eng_id ` set (engagements db))
        \<and> presentIn (le_customerProfileId r) (cp_id ` set (customerProfiles db))
        \<and> presentIn (le_professionalProfileId r) (pp_id ` set (professionalProfiles db)))"

definition referencesOk :: "platform \<Rightarrow> bool" where
  "referencesOk st \<longleftrightarrow> accountReferencesOk (snd st) \<and> userReferencesOk (fst st) \<and> requestReferencesOk (fst st)
     \<and> negotiationReferencesOk (fst st) \<and> workReferencesOk (fst st) \<and> ledgerReferencesOk (fst st)"

text \<open>The rows of each table after a deletion, and what a row that stays does not point to.\<close>

lemma deleteRows_tables:
  "users (deleteRows u db) = filter (\<lambda>r. user_id r \<noteq> u) (users db)"
  "customerProfiles (deleteRows u db) = filter (\<lambda>r. cp_userId r \<noteq> u) (customerProfiles db)"
  "professionalProfiles (deleteRows u db) = filter (\<lambda>r. pp_userId r \<noteq> u) (professionalProfiles db)"
  "serviceRequests (deleteRows u db) = filter (\<lambda>r. sr_id r \<notin> set (requestsGoing db u)) (serviceRequests db)"
  "quotes (deleteRows u db) = filter (\<lambda>r. q_id r \<notin> set (quotesGoing db u (requestsGoing db u))) (quotes db)"
  "negotiationMessages (deleteRows u db) = filter (\<lambda>r. nm_id r \<notin> set (negotiationMessagesGoing db u)) (negotiationMessages db)"
  "engagements (deleteRows u db) = filter (\<lambda>r. eng_id r \<notin> set (engagementsGoing db u)) (engagements db)"
  "conversations (deleteRows u db) = filter (\<lambda>r. conv_id r \<notin> set (conversationsGoing db u)) (conversations db)"
  "paymentAttempts (deleteRows u db) = filter (\<lambda>r. pa_engagementId r \<notin> set (engagementsGoing db u)) (paymentAttempts db)"
  "priceProposals (deleteRows u db) = filter (\<lambda>r. \<not> (prop_quoteId r \<in> set (quotesGoing db u (requestsGoing db u))
      \<or> prop_negotiationMessageId r \<in> set (negotiationMessagesGoing db u)
      \<or> among (prop_proposedByCustomerProfileId r) (customerProfilesOf db u)
      \<or> among (prop_proposedByProfessionalProfileId r) (professionalProfilesOf db u)
      \<or> among (prop_resolvedByCustomerProfileId r) (customerProfilesOf db u)
      \<or> among (prop_resolvedByProfessionalProfileId r) (professionalProfilesOf db u))) (priceProposals db)"
  "chatMessages (deleteRows u db) = filter (\<lambda>r. \<not> (msg_conversationId r \<in> set (conversationsGoing db u)
      \<or> among (msg_senderCustomerProfileId r) (customerProfilesOf db u)
      \<or> among (msg_senderProfessionalProfileId r) (professionalProfilesOf db u))) (chatMessages db)"
  "appointments (deleteRows u db) = filter (\<lambda>r. \<not> (appt_engagementId r \<in> set (engagementsGoing db u)
      \<or> appt_professionalProfileId r \<in> set (professionalProfilesOf db u)
      \<or> among (appt_proposedByCustomerProfileId r) (customerProfilesOf db u)
      \<or> among (appt_proposedByProfessionalProfileId r) (professionalProfilesOf db u))) (appointments db)"
  "reviews (deleteRows u db) = filter (\<lambda>r. \<not> (rv_engagementId r \<in> set (engagementsGoing db u)
      \<or> among (rv_authorCustomerProfileId r) (customerProfilesOf db u)
      \<or> among (rv_authorProfessionalProfileId r) (professionalProfilesOf db u))) (reviews db)"
  "srUploadRefs (deleteRows u db) = map (\<lambda>r. r\<lparr>sref_serviceRequestId := nullOf (sref_serviceRequestId r) (requestsGoing db u)\<rparr>)
      (filter (\<lambda>r. sref_userId r \<noteq> u) (srUploadRefs db))"
  "mediaUploadRefs (deleteRows u db) = filter (\<lambda>r. mref_userId r \<noteq> u) (mediaUploadRefs db)"
  "photoUploadRefs (deleteRows u db) = filter (\<lambda>r. pref_userId r \<noteq> u) (photoUploadRefs db)"
  "srAttachments (deleteRows u db) = filter (\<lambda>r. att_ownerId r \<notin> set (requestsGoing db u)) (srAttachments db)"
  "quoteAttachments (deleteRows u db) = filter (\<lambda>r. att_ownerId r \<notin> set (quotesGoing db u (requestsGoing db u))) (quoteAttachments db)"
  "ledgerEntries (deleteRows u db) = map (detachEntry (engagementsGoing db u) (customerProfilesOf db u) (professionalProfilesOf db u)) (ledgerEntries db)"
  by (simp_all add: deleteRows_def Let_def)

lemmas ledger_deleteRows = deleteRows_tables(19)

lemma staying_request:
  assumes "s \<in> set (serviceRequests db)" "sr_id s \<notin> set (requestsGoing db u)"
  shows "sr_customerProfileId s \<notin> set (customerProfilesOf db u)"
    "\<not> among (sr_acceptedQuoteId s) (quotesGoing db u (requestsGoing db u))"
proof -
  have "sr_id s \<notin> set (moreRequests db u (requestsGoing db u))" using assms(2) by (simp add: requestsGoing_fixed)
  then show "sr_customerProfileId s \<notin> set (customerProfilesOf db u)"
    "\<not> among (sr_acceptedQuoteId s) (quotesGoing db u (requestsGoing db u))"
    using assms(1) by (auto simp: set_moreRequests)
qed

lemma staying_quote:
  assumes "q \<in> set (quotes db)" "q_id q \<notin> set (quotesGoing db u (requestsGoing db u))"
  shows "q_serviceRequestId q \<notin> set (requestsGoing db u)" "q_professionalProfileId q \<notin> set (professionalProfilesOf db u)"
  using assms by (auto simp: set_quotesGoing)

lemma staying_message:
  assumes "n \<in> set (negotiationMessages db)" "nm_id n \<notin> set (negotiationMessagesGoing db u)"
  shows "nm_quoteId n \<notin> set (quotesGoing db u (requestsGoing db u))"
    "\<not> among (nm_authorCustomerProfileId n) (customerProfilesOf db u)"
    "\<not> among (nm_authorProfessionalProfileId n) (professionalProfilesOf db u)"
  using assms by (auto simp: negotiationMessagesGoing_def)

lemma staying_engagement:
  assumes "e \<in> set (engagements db)" "eng_id e \<notin> set (engagementsGoing db u)"
  shows "eng_serviceRequestId e \<notin> set (requestsGoing db u)"
    "eng_quoteId e \<notin> set (quotesGoing db u (requestsGoing db u))"
    "eng_customerProfileId e \<notin> set (customerProfilesOf db u)"
    "eng_professionalProfileId e \<notin> set (professionalProfilesOf db u)"
  using assms by (auto simp: engagementsGoing_def)

text \<open>A key that pointed to a row and not to one that goes still points to a row.\<close>

lemma kept_keys:
  "i \<in> cp_id ` set (customerProfiles db) \<Longrightarrow> i \<notin> set (customerProfilesOf db u) \<Longrightarrow> i \<in> cp_id ` set (customerProfiles (deleteRows u db))"
  "i \<in> pp_id ` set (professionalProfiles db) \<Longrightarrow> i \<notin> set (professionalProfilesOf db u) \<Longrightarrow> i \<in> pp_id ` set (professionalProfiles (deleteRows u db))"
  "i \<in> sr_id ` set (serviceRequests db) \<Longrightarrow> i \<notin> set (requestsGoing db u) \<Longrightarrow> i \<in> sr_id ` set (serviceRequests (deleteRows u db))"
  "i \<in> q_id ` set (quotes db) \<Longrightarrow> i \<notin> set (quotesGoing db u (requestsGoing db u)) \<Longrightarrow> i \<in> q_id ` set (quotes (deleteRows u db))"
  "i \<in> nm_id ` set (negotiationMessages db) \<Longrightarrow> i \<notin> set (negotiationMessagesGoing db u) \<Longrightarrow> i \<in> nm_id ` set (negotiationMessages (deleteRows u db))"
  "i \<in> eng_id ` set (engagements db) \<Longrightarrow> i \<notin> set (engagementsGoing db u) \<Longrightarrow> i \<in> eng_id ` set (engagements (deleteRows u db))"
  "i \<in> conv_id ` set (conversations db) \<Longrightarrow> i \<notin> set (conversationsGoing db u) \<Longrightarrow> i \<in> conv_id ` set (conversations (deleteRows u db))"
  by (auto simp: deleteRows_tables customerProfilesOf_def professionalProfilesOf_def)

lemma kept_options:
  "presentIn r (cp_id ` set (customerProfiles db)) \<Longrightarrow> \<not> among r (customerProfilesOf db u) \<Longrightarrow> presentIn r (cp_id ` set (customerProfiles (deleteRows u db)))"
  "presentIn r (pp_id ` set (professionalProfiles db)) \<Longrightarrow> \<not> among r (professionalProfilesOf db u) \<Longrightarrow> presentIn r (pp_id ` set (professionalProfiles (deleteRows u db)))"
  "presentIn r (q_id ` set (quotes db)) \<Longrightarrow> \<not> among r (quotesGoing db u (requestsGoing db u)) \<Longrightarrow> presentIn r (q_id ` set (quotes (deleteRows u db)))"
  by (auto simp: presentIn_def among_iff kept_keys split: option.splits)

lemma nulled_options:
  "presentIn r (cp_id ` set (customerProfiles db)) \<Longrightarrow> presentIn (nullOf r (customerProfilesOf db u)) (cp_id ` set (customerProfiles (deleteRows u db)))"
  "presentIn r (pp_id ` set (professionalProfiles db)) \<Longrightarrow> presentIn (nullOf r (professionalProfilesOf db u)) (pp_id ` set (professionalProfiles (deleteRows u db)))"
  "presentIn r (sr_id ` set (serviceRequests db)) \<Longrightarrow> presentIn (nullOf r (requestsGoing db u)) (sr_id ` set (serviceRequests (deleteRows u db)))"
  "presentIn r (eng_id ` set (engagements db)) \<Longrightarrow> presentIn (nullOf r (engagementsGoing db u)) (eng_id ` set (engagements (deleteRows u db)))"
  by (auto simp: presentIn_def nullOf_def among_iff kept_keys split: option.splits)

lemma requestReferences_deleteRows: "requestReferencesOk db \<Longrightarrow> requestReferencesOk (deleteRows u db)"
  unfolding requestReferencesOk_def
  by (intro conjI ballI kept_keys kept_options)
     (auto simp: deleteRows_tables staying_request staying_quote)

lemma negotiationReferences_deleteRows: "negotiationReferencesOk db \<Longrightarrow> negotiationReferencesOk (deleteRows u db)"
  unfolding negotiationReferencesOk_def
  by (intro conjI ballI kept_keys kept_options)
     (auto simp: deleteRows_tables staying_message)

lemma going_conversation: "c \<in> set (conversations db) \<Longrightarrow> conv_id c \<notin> set (conversationsGoing db u) \<Longrightarrow>
    conv_engagementId c \<notin> set (engagementsGoing db u)"
  by (auto simp: conversationsGoing_def)

lemma workReferences_deleteRows: "workReferencesOk db \<Longrightarrow> workReferencesOk (deleteRows u db)"
  unfolding workReferencesOk_def
  by (intro conjI ballI kept_keys kept_options)
     (auto simp: deleteRows_tables staying_engagement going_conversation)

lemma ledgerReferences_deleteRows: "ledgerReferencesOk db \<Longrightarrow> ledgerReferencesOk (deleteRows u db)"
  by (auto simp: ledgerReferencesOk_def ledger_deleteRows detachEntry_def intro!: nulled_options)

lemma nulled_request:
  "\<forall>r\<in>set rs. P r \<and> presentIn (sref_serviceRequestId r) (sr_id ` set (serviceRequests db)) \<Longrightarrow> x \<in> set rs \<Longrightarrow>
    presentIn (nullOf (sref_serviceRequestId x) (requestsGoing db u))
      (sr_id ` {s \<in> set (serviceRequests db). sr_id s \<notin> set (requestsGoing db u)})"
  using nulled_options(3) [of "sref_serviceRequestId x" db u] by (simp add: deleteRows_tables)

lemma kept_user: "i \<in> user_id ` set (users db) \<Longrightarrow> i \<noteq> u \<Longrightarrow> i \<in> user_id ` set (users (deleteRows u db))"
  by (auto simp: deleteRows_tables)

lemma userReferences_deleteRows: "userReferencesOk db \<Longrightarrow> userReferencesOk (deleteRows u db)"
  unfolding userReferencesOk_def
  by (intro conjI ballI kept_user) (auto simp: deleteRows_tables dest: nulled_request)

lemma accountReferences_deleteIdentity: "accountReferencesOk s \<Longrightarrow> accountReferencesOk (deleteIdentity u s)"
  by (auto simp: accountReferencesOk_def deleteIdentity_def)

section \<open>The ledger\<close>

lemma detach_simps [simp]:
  "le_id (detachEntry es cs ps r) = le_id r" "le_receiptNumber (detachEntry es cs ps r) = le_receiptNumber r"
  "le_type (detachEntry es cs ps r) = le_type r" "le_amount (detachEntry es cs ps r) = le_amount r"
  "le_currency (detachEntry es cs ps r) = le_currency r" "le_createdAt (detachEntry es cs ps r) = le_createdAt r"
  "le_commissionPercentApplied (detachEntry es cs ps r) = le_commissionPercentApplied r"
  by (simp_all add: detachEntry_def)

lemma detach_professional:
  "p \<notin> set pps \<Longrightarrow> le_professionalProfileId (detachEntry engs cps pps r) = Some p \<longleftrightarrow> le_professionalProfileId r = Some p"
  by (auto simp: detachEntry_def nullOf_def among_iff)

lemma sum_deleteRows:
  assumes "\<And>r. P (detachEntry (engagementsGoing db u) (customerProfilesOf db u) (professionalProfilesOf db u) r) = Q r"
  shows "sumAmount P (deleteRows u db) = sumAmount Q db"
proof -
  have "filter P (map f rs) = map f (filter Q rs)" if "\<And>r. P (f r) = Q r" for f :: "LedgerEntry \<Rightarrow> LedgerEntry" and P Q rs
    by (induction rs) (simp_all add: that)
  then show ?thesis using assms by (simp add: sumAmount_def deleteRows_tables comp_def)
qed

lemma platformBalance_deleteRows: "sumPlatformBalance (deleteRows u db) = sumPlatformBalance db"
  by (simp add: sumPlatformBalance_def sum_deleteRows [where Q = "\<lambda>r. le_type r = PLATFORM_COMMISSION"]
      sum_deleteRows [where Q = "\<lambda>r. le_type r = CASH_COMMISSION_DEBT"])

lemma professionalBalance_deleteRows:
  assumes "p \<notin> set (professionalProfilesOf db u)"
  shows "sumProfessionalBalance (deleteRows u db) p = sumProfessionalBalance db p"
  by (simp add: sumProfessionalBalance_def sumCashCommissionDebtForProfessional_def detach_professional [OF assms]
      sum_deleteRows [where Q = "\<lambda>r. le_type r = PROFESSIONAL_NET_CREDIT \<and> le_professionalProfileId r = Some p"]
      sum_deleteRows [where Q = "\<lambda>r. le_type r = CASH_COMMISSION_DEBT \<and> le_professionalProfileId r = Some p"])

lemma references_audit: "referencesOk (writeAudit a action t i db, s) = referencesOk (db, s)"
  by (simp add: referencesOk_def userReferencesOk_def requestReferencesOk_def negotiationReferencesOk_def
      workReferencesOk_def ledgerReferencesOk_def writeAudit_def)

lemma goesWith_audit: "goesWith (writeAudit a action t i db) u r = goesWith db u r"
proof -
  have "requestsGoing (writeAudit a action t i db) u = requestsGoing db u"
    by (simp add: requestsGoing_def moreRequests_def [abs_def] quotesGoing_def customerProfilesOf_def
        professionalProfilesOf_def writeAudit_def)
  then show ?thesis by (simp flip: requestsGoing_exact)
qed

lemma deleteUserAccount_Inr:
  assumes "deleteUserAccount admin u st = Inr st'"
  shows "fst st' = deleteRows u (writeAudit admin ''USER_ACCOUNT_DELETED'' ''User'' u (fst st))"
    "snd st' = deleteIdentity u (snd st)"
  using assms by (auto simp: deleteUserAccount_def deleteForAdmin_def split: option.splits prod.splits)

end
