(* ===== verification/Admin_Ledger_Facts.thy ===== *)
theory Admin_Ledger_Facts
  imports Admin_Ledger System Account_Deletion_Facts "HOL-Library.Multiset"
begin

text \<open>
  What the administration panel's view of the money adds up to: the groups of
  \<^theory_text>\<open>groupIntoEvents\<close> are the rows by engagement and millisecond, the ledger is a
  sequence of whole events, and so a group is one event unless two events of an engagement fell into
  one millisecond.
\<close>

section \<open>Pages\<close>

lemma pageLimit_range: "1 \<le> pageLimit l \<and> pageLimit l \<le> 200"
  by (auto simp: pageLimit_def DEFAULT_LIMIT_def MAX_LIMIT_def)

lemma those_map_all: "those (map Some xs) = Some xs"
  by (induction xs) simp_all

lemma joinAll_Some: "joinAll Some xs = Inr xs"
  by (simp add: joinAll_def those_map_all orThrow_def)

lemma those_SomeD: "those (map f xs) = Some ys \<Longrightarrow> list_all2 (\<lambda>x y. f x = Some y) xs ys"
  by (induction xs arbitrary: ys) (auto split: option.splits)

lemma joinAll_Inr: "joinAll f xs = Inr ys \<Longrightarrow> list_all2 (\<lambda>x y. f x = Some y) xs ys"
  by (auto simp: joinAll_def orThrow_Inr_iff dest: those_SomeD)

lemma pages_cover: "concat (map (\<lambda>k. take n (drop (k * n) xs)) [0..<m]) = take (m * n) xs"
proof (induction m)
  case (Suc m)
  have "take (m * n) xs @ take n (drop (m * n) xs) = take (m * n + n) xs" by (simp add: take_add)
  then show ?case using Suc by (simp add: add.commute)
qed simp

section \<open>Groups\<close>

definition rowKey :: "db \<Rightarrow> LedgerEntry \<Rightarrow> (id \<times> time) option" where
  "rowKey db r = (case le_engagementId r of
       None \<Rightarrow> None
     | Some e \<Rightarrow> if findEngagementById db e = None then None else Some (e, le_createdAt r))"

definition groupFor :: "db \<Rightarrow> LedgerEntry list \<Rightarrow> id \<times> time \<Rightarrow> EventGroup" where
  "groupFor db rows k = \<lparr>gr_engagementId = fst k, gr_occurredAt = snd k, gr_rows = filter (\<lambda>r. rowKey db r = Some k) rows\<rparr>"

text \<open>The keys in the order of their first rows.\<close>

fun addKey :: "(id \<times> time) list \<Rightarrow> (id \<times> time) option \<Rightarrow> (id \<times> time) list" where
  "addKey ks None = ks"
| "addKey ks (Some k) = (if k \<in> set ks then ks else ks @ [k])"

definition keysIn :: "db \<Rightarrow> LedgerEntry list \<Rightarrow> (id \<times> time) list" where
  "keysIn db rows = foldl (\<lambda>ks r. addKey ks (rowKey db r)) [] rows"

lemma keysIn_snoc: "keysIn db (rows @ [r]) = addKey (keysIn db rows) (rowKey db r)"
  by (simp add: keysIn_def)

lemma set_keysIn: "set (keysIn db rows) = {k. \<exists>r\<in>set rows. rowKey db r = Some k}"
proof (induction rows rule: rev_induct)
  case (snoc r rows)
  then show ?case by (cases "rowKey db r") (auto simp: keysIn_snoc)
qed (simp add: keysIn_def)

lemma distinct_keysIn: "distinct (keysIn db rows)"
proof (induction rows rule: rev_induct)
  case (snoc r rows)
  then show ?case by (cases "rowKey db r") (auto simp: keysIn_snoc)
qed (simp add: keysIn_def)

lemma groupFor_sel [simp]: "gr_engagementId (groupFor db rows k) = fst k" "gr_occurredAt (groupFor db rows k) = snd k"
  "gr_rows (groupFor db rows k) = filter (\<lambda>r. rowKey db r = Some k) rows"
  by (simp_all add: groupFor_def)

lemma groupFor_other: "rowKey db r \<noteq> Some k \<Longrightarrow> groupFor db (rows @ [r]) k = groupFor db rows k"
  by (simp add: groupFor_def)

lemma addToGroup_groups:
  assumes "rowKey db r = Some (e, t)" "distinct ks" "(e, t) \<notin> set ks \<Longrightarrow> gr_rows (groupFor db rows (e, t)) = []"
  shows "addToGroup e r (map (groupFor db rows) ks) = map (groupFor db (rows @ [r])) (addKey ks (Some (e, t)))"
  using assms(2,3)
proof (induction ks)
  case Nil
  have "le_createdAt r = t" using assms(1) by (auto simp: rowKey_def split: option.splits if_splits)
  then show ?case using Nil assms(1) by (simp add: groupFor_def)
next
  case (Cons k ks)
  have t: "le_createdAt r = t" using assms(1) by (auto simp: rowKey_def split: option.splits if_splits)
  show ?case
  proof (cases "k = (e, t)")
    case True
    have "map (groupFor db rows) ks = map (groupFor db (rows @ [r])) ks"
    proof (rule map_cong [OF refl])
      fix j assume "j \<in> set ks"
      then have "rowKey db r \<noteq> Some j" using Cons.prems(1) True assms(1) by auto
      then show "groupFor db rows j = groupFor db (rows @ [r]) j" by (simp add: groupFor_other)
    qed
    then show ?thesis using True t assms(1) by (simp add: groupFor_def)
  next
    case False
    have "\<not> (fst k = e \<and> snd k = le_createdAt r)" using False t by (cases k) auto
    moreover have "groupFor db (rows @ [r]) k = groupFor db rows k" using False assms(1) by (simp add: groupFor_other)
    moreover have "addToGroup e r (map (groupFor db rows) ks) = map (groupFor db (rows @ [r])) (addKey ks (Some (e, t)))"
      using Cons False by auto
    ultimately show ?thesis using False by (simp, blast)
  qed
qed

lemma groupIntoEvents_groups: "groupIntoEvents db rows = map (groupFor db rows) (keysIn db rows)"
proof (induction rows rule: rev_induct)
  case Nil
  show ?case by (simp add: groupIntoEvents_def keysIn_def)
next
  case (snoc r rows)
  have step: "groupIntoEvents db (rows @ [r]) = groupRow db (map (groupFor db rows) (keysIn db rows)) r"
    using snoc by (simp add: groupIntoEvents_def)
  show ?case
  proof (cases "rowKey db r")
    case None
    then have "groupRow db gs r = gs" for gs by (auto simp: groupRow_def rowKey_def split: option.splits if_splits)
    then show ?thesis using None step by (simp add: keysIn_snoc groupFor_other)
  next
    case (Some k)
    obtain e t where k: "k = (e, t)" by (cases k)
    have "groupRow db gs r = addToGroup e r gs" for gs
      using Some k by (auto simp: groupRow_def rowKey_def split: option.splits if_splits)
    moreover have "gr_rows (groupFor db rows (e, t)) = []" if "(e, t) \<notin> set (keysIn db rows)"
      using that by (auto simp: groupFor_def set_keysIn filter_empty_conv)
    ultimately show ?thesis
      using step addToGroup_groups [OF Some [unfolded k] distinct_keysIn] Some k by (simp add: keysIn_snoc)
  qed
qed

lemma keysIn_sorted:
  assumes "sorted (map (\<lambda>r. - le_createdAt r) rows)"
  shows "sorted (map (\<lambda>k. - snd k) (keysIn db rows))"
  using assms
proof (induction rows rule: rev_induct)
  case (snoc r rows)
  have time: "snd k = le_createdAt x" if "rowKey db x = Some k" for x k
    using that by (auto simp: rowKey_def split: option.splits if_splits)
  show ?case
  proof (cases "rowKey db r")
    case (Some k)
    have "- snd k' \<le> - snd k" if k': "k' \<in> set (keysIn db rows)" for k'
    proof -
      obtain x where x: "x \<in> set rows" "rowKey db x = Some k'" using k' by (auto simp: set_keysIn)
      then have "- le_createdAt x \<le> - le_createdAt r" using snoc.prems by (auto simp: sorted_append)
      then show ?thesis using time [OF x(2)] time [OF Some] by simp
    qed
    moreover have "sorted (map (\<lambda>k. - snd k) (keysIn db rows))" using snoc by (simp add: sorted_append)
    ultimately show ?thesis using Some by (auto simp: keysIn_snoc sorted_append)
  qed (use snoc in \<open>simp add: keysIn_snoc sorted_append\<close>)
qed (simp add: keysIn_def)

section \<open>Nothing is lost\<close>

lemma concat_one:
  "distinct ks \<Longrightarrow> k \<in> set ks \<Longrightarrow> mset (concat (map (\<lambda>j. (if k = j then [r] else []) @ f j) ks)) = add_mset r (mset (concat (map f ks)))"
proof (induction ks)
  case (Cons j ks)
  show ?case
  proof (cases "k = j")
    case True
    then have "map (\<lambda>i. (if k = i then [r] else []) @ f i) ks = map f ks" using Cons.prems(1) by auto
    then show ?thesis using True by (simp only: list.map concat.simps) simp
  qed (use Cons in auto)
qed simp

lemma groups_partition:
  assumes "distinct ks" "\<forall>r\<in>set rows. \<exists>k\<in>set ks. key r = Some k"
  shows "mset (concat (map (\<lambda>k. filter (\<lambda>x. key x = Some k) rows) ks)) = mset rows"
  using assms(2)
proof (induction rows)
  case (Cons r rows)
  obtain k where k: "k \<in> set ks" "key r = Some k" using Cons.prems by auto
  have "(\<lambda>j. filter (\<lambda>r. key r = Some j) (r # rows)) = (\<lambda>j. (if k = j then [r] else []) @ filter (\<lambda>r. key r = Some j) rows)"
    using k(2) by auto
  then have "mset (concat (map (\<lambda>j. filter (\<lambda>r. key r = Some j) (r # rows)) ks))
      = add_mset r (mset (concat (map (\<lambda>j. filter (\<lambda>r. key r = Some j) rows) ks)))"
    using concat_one [OF assms(1) k(1), of r "\<lambda>j. filter (\<lambda>r. key r = Some j) rows"] by (simp only:)
  then show ?case using Cons by simp
qed (induction ks, simp_all)

section \<open>The ledger is a sequence of events\<close>

definition bare :: "LedgerEntry \<Rightarrow> LedgerEntry" where
  "bare r = r\<lparr>le_id := 0, le_receiptNumber := 0\<rparr>"

lemma bare_simps [simp]:
  "le_type (bare r) = le_type r" "le_amount (bare r) = le_amount r" "le_engagementId (bare r) = le_engagementId r"
  "le_createdAt (bare r) = le_createdAt r"
  by (simp_all add: bare_def)

definition bookedEvent :: "LedgerEntry list \<Rightarrow> bool" where
  "bookedEvent rows \<longleftrightarrow> paymentEvent rows \<or> (\<exists>i. cancellationEvent i rows)"

definition wholeEvents :: "db \<Rightarrow> bool" where
  "wholeEvents d \<longleftrightarrow> (\<exists>evs. map bare (ledgerEntries d) = concat evs \<and> (\<forall>ev\<in>set evs. bookedEvent ev))"

lemma bare_numbered: "map bare (numbered i n rows) = map bare rows"
  by (induction i n rows rule: numbered.induct) (simp_all add: bare_def)

lemma bare_booked: "bookedEvent rows \<Longrightarrow> map bare rows = rows"
  by (auto simp: bookedEvent_def bare_def rows_defs ledgerEntry_def elim!: paymentEvent.cases cancellationEvent.cases)

lemma wholeEvents_commit:
  assumes "attemptsOk d" "wholeEvents d" "commit now t d = Inr d'"
  shows "wholeEvents d'"
proof -
  obtain i rows where rows: "posts rows d d'" "rows = [] \<or> paymentEvent rows \<or> cancellationEvent i rows"
    using commit_rows [OF assms(1,3)] .
  obtain evs where evs: "map bare (ledgerEntries d) = concat evs" "\<forall>ev\<in>set evs. bookedEvent ev"
    using assms(2) by (auto simp: wholeEvents_def)
  have new: "map bare (ledgerEntries d') = concat evs @ map bare rows"
    using rows(1) evs(1) by (auto simp: posts_def bare_numbered)
  show ?thesis
  proof (cases "rows = []")
    case True
    then show ?thesis using new evs(2) by (auto simp: wholeEvents_def)
  next
    case False
    then have "bookedEvent rows" using rows(2) by (auto simp: bookedEvent_def)
    then show ?thesis unfolding wholeEvents_def using new evs(2) bare_booked
      by (intro exI [of _ "evs @ [rows]"]) auto
  qed
qed

interpretation whole: system_invariant wholeEvents "\<lambda>_ _. True"
proof unfold_locales
  show "wholeEvents d" if "initialDb d" for d
    using that by (auto simp: initialDb_def wholeEvents_def intro!: exI [of _ "[]"])
  show "wholeEvents d'" if "attemptsOk d" "wholeEvents d" "True" "commit now t d = Inr d'" for d t now d'
    by (rule wholeEvents_commit [OF that(1,2,4)])
qed (simp_all add: wholeEvents_def)

section \<open>What a group adds up to\<close>

text \<open>Every event has one row that says what it is, and the platform's share in at most one.\<close>

definition isHead :: "LedgerEntry \<Rightarrow> bool" where
  "isHead r \<longleftrightarrow> le_type r \<in> {CUSTOMER_CHARGE, CASH_COMMISSION_DEBT, CUSTOMER_CANCELLATION_FEE, REFUND}"

definition commissionOf :: "LedgerEntry list \<Rightarrow> int" where
  "commissionOf rows = sum_list (map le_amount (filter (\<lambda>r. le_type r = PLATFORM_COMMISSION) rows))
     + sum_list (map le_amount (filter (\<lambda>r. le_type r = CASH_COMMISSION_DEBT) rows))"

definition keyOf :: "LedgerEntry \<Rightarrow> id option \<times> time" where
  "keyOf r = (le_engagementId r, le_createdAt r)"

text \<open>No two events of an engagement in one millisecond.\<close>

definition eventsApart :: "db \<Rightarrow> bool" where
  "eventsApart d \<longleftrightarrow> distinct (map keyOf (filter isHead (ledgerEntries d)))"

lemma bookedEvent_shape:
  assumes "bookedEvent ev"
  shows "ev \<noteq> []" "r \<in> set ev \<Longrightarrow> keyOf r = keyOf (hd ev) \<and> le_engagementId r \<noteq> None" "filter isHead ev = [hd ev]"
    "ev_platformCommission (classifyLedgerEventRows ev p) = commissionOf ev"
  using assms
  by (auto simp: bookedEvent_def rows_defs keyOf_def isHead_def commissionOf_def ledgerEntry_def
      classifyLedgerEventRows_def findByType_def amountOr0_def elim!: paymentEvent.cases cancellationEvent.cases)

lemma findByType_bare: "findByType (map bare rows) t = map_option bare (findByType rows t)"
  by (induction rows) (simp_all add: findByType_def)

lemma classify_bare: "classifyLedgerEventRows (map bare rows) p = classifyLedgerEventRows rows p"
  by (auto simp: classifyLedgerEventRows_def findByType_bare amountOr0_def split: option.splits)

lemma commissionOf_bare: "commissionOf (map bare rows) = commissionOf rows"
  by (induction rows) (simp_all add: commissionOf_def)

lemma commissionOf_mset: "mset xs = mset ys \<Longrightarrow> commissionOf xs = commissionOf ys"
  unfolding commissionOf_def by (metis (no_types, lifting) mset_filter mset_map sum_mset_sum_list)

lemma commissionOf_append: "commissionOf (xs @ ys) = commissionOf xs + commissionOf ys"
  by (simp add: commissionOf_def)

lemma commissionOf_concat: "commissionOf (concat rss) = sum_list (map commissionOf rss)"
  by (induction rss) (simp_all add: commissionOf_append, simp add: commissionOf_def)

lemma platformBalance_commission: "sumPlatformBalance d = commissionOf (ledgerEntries d)"
  by (simp add: sumPlatformBalance_def sumAmount_def commissionOf_def)

section \<open>The summaries\<close>

lemma heads_concat: "\<forall>ev\<in>set evs. bookedEvent ev \<Longrightarrow> filter isHead (concat evs) = map hd evs"
  by (induction evs) (simp_all add: bookedEvent_shape(3))

lemma filter_concat_key:
  "\<forall>ev\<in>set evs. bookedEvent ev \<Longrightarrow> filter (\<lambda>r. keyOf r = k) (concat evs) = concat (filter (\<lambda>ev. keyOf (hd ev) = k) evs)"
proof (induction evs)
  case (Cons ev evs)
  have "filter (\<lambda>r. keyOf r = k) ev = (if keyOf (hd ev) = k then ev else [])"
    using bookedEvent_shape(2) [of ev] Cons.prems by (auto simp: filter_id_conv filter_empty_conv)
  then show ?case using Cons by simp
qed simp

lemma distinct_filter_one:
  "distinct (map f xs) \<Longrightarrow> filter (\<lambda>x. f x = k) xs = [] \<or> (\<exists>x\<in>set xs. filter (\<lambda>x. f x = k) xs = [x])"
proof (induction xs)
  case (Cons x xs)
  have "filter (\<lambda>y. f y = f x) xs = []" using Cons.prems by (auto simp: filter_empty_conv) (metis imageI)
  then show ?case using Cons by auto
qed simp

lemma one_event:
  assumes "wholeEvents d" "eventsApart d" "filter (\<lambda>r. keyOf r = k) (ledgerEntries d) \<noteq> []"
  shows "bookedEvent (map bare (filter (\<lambda>r. keyOf r = k) (ledgerEntries d)))"
proof -
  obtain evs where evs: "map bare (ledgerEntries d) = concat evs" "\<forall>ev\<in>set evs. bookedEvent ev"
    using assms(1) by (auto simp: wholeEvents_def)
  have "map keyOf (filter isHead (map bare (ledgerEntries d))) = map keyOf (filter isHead (ledgerEntries d))"
    by (simp add: filter_map comp_def keyOf_def [abs_def] isHead_def [abs_def])
  then have "distinct (map (\<lambda>ev. keyOf (hd ev)) evs)"
    using assms(2) heads_concat [OF evs(2)] evs(1) by (simp add: eventsApart_def comp_def)
  then have "filter (\<lambda>ev. keyOf (hd ev) = k) evs = [] \<or> (\<exists>ev\<in>set evs. filter (\<lambda>ev. keyOf (hd ev) = k) evs = [ev])"
    by (rule distinct_filter_one)
  moreover have m: "map bare (filter (\<lambda>r. keyOf r = k) (ledgerEntries d)) = concat (filter (\<lambda>ev. keyOf (hd ev) = k) evs)"
  proof -
    have "map bare (filter (\<lambda>r. keyOf r = k) (ledgerEntries d)) = filter (\<lambda>r. keyOf r = k) (map bare (ledgerEntries d))"
      by (simp add: filter_map comp_def keyOf_def)
    then show ?thesis by (simp only: evs(1) filter_concat_key [OF evs(2)])
  qed
  ultimately show ?thesis using assms(3) evs(2) by auto
qed

lemma ledger_row_key:
  assumes "wholeEvents d" "ledgerReferencesOk d" "r \<in> set (ledgerEntries d)"
  shows "\<exists>e. le_engagementId r = Some e \<and> rowKey d r = Some (e, le_createdAt r)"
proof -
  obtain evs where evs: "map bare (ledgerEntries d) = concat evs" "\<forall>ev\<in>set evs. bookedEvent ev"
    using assms(1) by (auto simp: wholeEvents_def)
  have "bare r \<in> set (concat evs)" using assms(3) by (simp flip: evs(1))
  then obtain ev where "ev \<in> set evs" "bare r \<in> set ev" by auto
  then obtain e where e: "le_engagementId r = Some e" using bookedEvent_shape(2) [of ev "bare r"] evs(2) by auto
  have "e \<in> eng_id ` set (engagements d)" using assms(2,3) e by (auto simp: ledgerReferencesOk_def presentIn_def)
  then have "findEngagementById d e \<noteq> None" by (auto simp: findEngagementById_def findRow_None_iff)
  then show ?thesis using e by (simp add: rowKey_def)
qed

lemma fetched_rows:
  assumes "wholeEvents d" "ledgerReferencesOk d" "length (ledgerEntries d) \<le> ADMIN_PAYMENT_SUMMARY_RAW_FETCH_CAP"
  shows "findManyForAdminPaymentSummaries d = newestFirst (ledgerEntries d)"
proof -
  have "filter (\<lambda>r. le_engagementId r \<noteq> None) (ledgerEntries d) = ledgerEntries d"
    using ledger_row_key [OF assms(1,2)] by (auto simp: filter_id_conv)
  then show ?thesis using assms(3) by (simp add: findManyForAdminPaymentSummaries_def newestFirst_def)
qed

lemma group_of_ledger:
  assumes "wholeEvents d" "ledgerReferencesOk d"
  shows "gr_rows (groupFor d (newestFirst (ledgerEntries d)) (e, t))
    = (if findEngagementById d e = None then [] else filter (\<lambda>r. keyOf r = (Some e, t)) (ledgerEntries d))"
proof -
  have key: "(rowKey d r = Some (e, t)) = (findEngagementById d e \<noteq> None \<and> keyOf r = (Some e, t))" for r
    by (auto simp: rowKey_def keyOf_def split: option.splits)
  have split_key: "filter (\<lambda>r. keyOf r = (Some e, t)) xs
      = filter (\<lambda>r. le_engagementId r = Some e) (filter (\<lambda>r. - le_createdAt r = - t) xs)" for xs
    by (induction xs) (auto simp: keyOf_def)
  have "filter (\<lambda>r. keyOf r = (Some e, t)) (newestFirst (ledgerEntries d)) = filter (\<lambda>r. keyOf r = (Some e, t)) (ledgerEntries d)"
    unfolding split_key newestFirst_def sort_key_stable ..
  then show ?thesis unfolding groupFor_sel key by simp
qed

lemma group_commission:
  assumes "wholeEvents d" "eventsApart d" "ledgerReferencesOk d" "k \<in> set (keysIn d (newestFirst (ledgerEntries d)))"
  shows "ev_platformCommission (classifyLedgerEventRows (gr_rows (groupFor d (newestFirst (ledgerEntries d)) k)) p)
    = commissionOf (gr_rows (groupFor d (newestFirst (ledgerEntries d)) k))"
proof -
  obtain e t where k: "k = (e, t)" by (cases k)
  let ?g = "gr_rows (groupFor d (newestFirst (ledgerEntries d)) k)"
  have ne: "?g \<noteq> []" using assms(4) by (auto simp: set_keysIn filter_empty_conv)
  then have g: "?g = filter (\<lambda>r. keyOf r = (Some e, t)) (ledgerEntries d)"
    using group_of_ledger [OF assms(1,3), of e t] k by (auto split: if_splits)
  then have "bookedEvent (map bare ?g)" using one_event [OF assms(1,2), of "(Some e, t)"] ne by simp
  then show ?thesis using bookedEvent_shape(4) [of "map bare ?g" p] by (simp add: classify_bare commissionOf_bare)
qed

lemma groups_of_ledger:
  assumes "wholeEvents d" "ledgerReferencesOk d"
  shows "mset (concat (map gr_rows (groupIntoEvents d (newestFirst (ledgerEntries d))))) = mset (ledgerEntries d)"
proof -
  have "\<forall>r\<in>set (newestFirst (ledgerEntries d)). \<exists>k\<in>set (keysIn d (newestFirst (ledgerEntries d))). rowKey d r = Some k"
    using ledger_row_key [OF assms] by (fastforce simp: set_keysIn newestFirst_def)
  from groups_partition [OF distinct_keysIn this]
  show ?thesis by (simp add: groupIntoEvents_groups comp_def newestFirst_def)
qed

end
