(* ===== verification/Email_Facts.thy ===== *)
theory Email_Facts
  imports Email_Templates
begin

text \<open>
  What a rendered email consists of: a text splits into single characters and tokens
  (\<^theory_text>\<open>pieces\<close>), the substitution replaces each token once and scans no value
  again, and an escaped value brings no markup into the HTML.
\<close>

section \<open>The pieces of a text\<close>

datatype piece = Verbatim char | Token string

function pieces :: "string \<Rightarrow> piece list" where
  "pieces s = (case tokenAt s of
       Some (name, rest) \<Rightarrow> Token name # pieces rest
     | None \<Rightarrow> (case s of [] \<Rightarrow> [] | c # cs \<Rightarrow> Verbatim c # pieces cs))"
  by pat_completeness auto
termination by (relation "measure length") (auto dest: tokenAt_shorter)

declare pieces.simps [simp del]

fun pieceText :: "piece \<Rightarrow> string" where
  "pieceText (Verbatim c) = [c]"
| "pieceText (Token name) = ''{{'' @ name @ ''}}''"

fun inheritedToken :: "variables \<Rightarrow> piece \<Rightarrow> bool" where
  "inheritedToken vars (Verbatim c) = False"
| "inheritedToken vars (Token name) = (map_of vars name = None \<and> name \<in> set OBJECT_PROTOTYPE_NAMES)"

fun pieceValue :: "(string \<Rightarrow> string) \<Rightarrow> variables \<Rightarrow> bool \<Rightarrow> piece \<Rightarrow> string" where
  "pieceValue inherited vars escapeValues (Verbatim c) = [c]"
| "pieceValue inherited vars escapeValues (Token name) = (case map_of vars name of
       Some value \<Rightarrow> if escapeValues then escapeHtml value else value
     | None \<Rightarrow> if name \<in> set OBJECT_PROTOTYPE_NAMES then inherited name else pieceText (Token name))"

definition filled :: "(string \<Rightarrow> string) \<Rightarrow> variables \<Rightarrow> bool \<Rightarrow> string \<Rightarrow> string" where
  "filled inherited vars escapeValues text = concat (map (pieceValue inherited vars escapeValues) (pieces text))"

lemma take_2_drop_2: "take 2 s = [a, b] \<Longrightarrow> s = a # b # drop 2 s"
  by (metis append_take_drop_id append_Cons append_Nil)

lemma tokenAt_SomeD:
  assumes "tokenAt s = Some (name, rest)"
  shows "s = ''{{'' @ name @ ''}}'' @ rest" "list_all isWordChar name"
proof -
  let ?d = "drop 2 s"
  have t: "take 2 s = ''{{''" and n: "name = takeWhile isWordChar ?d"
    and r: "take 2 (dropWhile isWordChar ?d) = ''}}''" "rest = drop 2 (dropWhile isWordChar ?d)"
    using assms by (auto simp: tokenAt_def Let_def split: if_splits)
  have "?d = name @ ''}}'' @ rest" using take_2_drop_2 [OF r(1)] r(2) n
    by (metis append_Cons append_Nil takeWhile_dropWhile_id)
  then show "s = ''{{'' @ name @ ''}}'' @ rest" using take_2_drop_2 [OF t] by simp
  show "list_all isWordChar name" by (auto simp: n list_all_iff dest: set_takeWhileD)
qed

lemma text_of_pieces: "concat (map pieceText (pieces s)) = s"
proof (induction s rule: pieces.induct)
  case (1 s)
  show ?case
  proof (cases "tokenAt s")
    case None
    show ?thesis
    proof (cases s)
      case (Cons c cs)
      show ?thesis using 1(1) [OF None Cons] None Cons by (subst pieces.simps) simp
    qed (use None in \<open>simp add: pieces.simps\<close>)
  next
    case (Some t)
    obtain name rest where t: "t = (name, rest)" by (cases t)
    have "concat (map pieceText (pieces rest)) = rest" using 1(2) Some t by auto
    then show ?thesis using tokenAt_SomeD(1) [of s name rest] Some t by (subst pieces.simps) simp
  qed
qed

lemma tokens_are_words: "Token name \<in> set (pieces s) \<Longrightarrow> list_all isWordChar name"
proof (induction s rule: pieces.induct)
  case (1 s)
  show ?case
  proof (cases "tokenAt s")
    case None
    obtain c cs where s: "s = c # cs" using 1(3) None by (cases s) (auto simp: pieces.simps)
    have "Token name \<in> set (pieces cs)" using 1(3) None by (subst (asm) pieces.simps) (simp add: s)
    then show ?thesis using 1(1) [OF None s] by blast
  next
    case (Some t)
    obtain w rest where t: "t = (w, rest)" by (cases t)
    have "name = w \<or> Token name \<in> set (pieces rest)" using 1(3) Some t by (subst (asm) pieces.simps) auto
    then show ?thesis using 1(2) [OF Some t [symmetric]] tokenAt_SomeD(2) [of s w rest] Some t by blast
  qed
qed

text \<open>The substitution is the concatenation of the values of the pieces, or a TypeError.\<close>

lemma substitute_pieces:
  "substitute inherited body vars escapeValues =
     (if escapeValues \<and> list_ex (inheritedToken vars) (pieces body) then Inl MailTypeError
      else Inr (filled inherited vars escapeValues body))"
proof (induction body rule: pieces.induct)
  case (1 s)
  show ?case
  proof (cases "tokenAt s")
    case None
    show ?thesis
    proof (cases s)
      case Nil
      then show ?thesis using None by (simp add: substitute.simps pieces.simps filled_def)
    next
      case (Cons c cs)
      have p: "pieces (c # cs) = Verbatim c # pieces cs" using None Cons by (subst pieces.simps) simp
      show ?thesis using 1(1) [OF None Cons] None Cons
        by (subst substitute.simps) (simp add: p filled_def)
    qed
  next
    case (Some t)
    obtain name rest where t: "t = (name, rest)" by (cases t)
    have p: "pieces s = Token name # pieces rest" using Some t by (subst pieces.simps) simp
    show ?thesis using 1(2) [OF Some t [symmetric]] Some t
      by (subst substitute.simps) (auto simp: p filled_def tokenValue_def split: option.splits)
  qed
qed

section \<open>Escaping\<close>

definition isMarkup :: "char \<Rightarrow> bool" where
  "isMarkup c \<longleftrightarrow> c \<in> {CHR ''<'', CHR ''>'', CHR 34, CHR 39}"

definition escapeChar :: "char \<Rightarrow> string" where
  "escapeChar c =
     (if c = CHR ''&'' then ''&amp;'' else if c = CHR ''<'' then ''&lt;'' else if c = CHR ''>'' then ''&gt;''
      else if c = CHR 34 then ''&quot;'' else if c = CHR 39 then ''&#39;'' else [c])"

lemma replaceAll_append: "replaceAll c by (xs @ ys) = replaceAll c by xs @ replaceAll c by ys"
  by (simp add: replaceAll_def)

lemma escapeHtml_append: "escapeHtml (xs @ ys) = escapeHtml xs @ escapeHtml ys"
  by (simp add: escapeHtml_def replaceAll_append)

lemma escapeHtml_char: "escapeHtml [c] = escapeChar c"
  by (simp add: escapeHtml_def replaceAll_def escapeChar_def)

lemma escapeHtml_chars: "escapeHtml s = concat (map escapeChar s)"
proof (induction s)
  case Nil
  show ?case by (simp add: escapeHtml_def replaceAll_def)
next
  case (Cons c cs)
  show ?case using escapeHtml_append [of "[c]" cs] by (simp add: escapeHtml_char Cons)
qed

lemma escaped_no_markup: "filter isMarkup (escapeHtml s) = []"
  by (auto simp: escapeHtml_chars filter_empty_conv escapeChar_def isMarkup_def split: if_splits)

text \<open>A reader of the HTML decodes the five entities.\<close>

fun unescapeHtml :: "string \<Rightarrow> string" where
  "unescapeHtml [] = []"
| "unescapeHtml (c # cs) =
     (if take 4 cs = ''amp;'' \<and> c = CHR ''&'' then CHR ''&'' # unescapeHtml (drop 4 cs)
      else if take 3 cs = ''lt;'' \<and> c = CHR ''&'' then CHR ''<'' # unescapeHtml (drop 3 cs)
      else if take 3 cs = ''gt;'' \<and> c = CHR ''&'' then CHR ''>'' # unescapeHtml (drop 3 cs)
      else if take 5 cs = ''quot;'' \<and> c = CHR ''&'' then CHR 34 # unescapeHtml (drop 5 cs)
      else if take 4 cs = ''#39;'' \<and> c = CHR ''&'' then CHR 39 # unescapeHtml (drop 4 cs)
      else c # unescapeHtml cs)"

lemma unescape_escape: "unescapeHtml (escapeHtml s) = s"
proof (induction s)
  case (Cons c cs)
  then show ?case by (simp add: escapeHtml_chars escapeChar_def)
qed (simp add: escapeHtml_chars)

lemma word_no_markup: "isWordChar c \<Longrightarrow> \<not> isMarkup c"
  by (auto simp: isWordChar_def isMarkup_def codeOf_def)

text \<open>The markup of a filled text is that of the text.\<close>

lemma piece_markup:
  assumes "\<not> inheritedToken vars p" "\<And>name. p = Token name \<Longrightarrow> list_all isWordChar name"
  shows "filter isMarkup (pieceValue inherited vars True p) = filter isMarkup (pieceText p)"
proof (cases p)
  case (Token name)
  have "filter isMarkup name = []" using assms(2) [OF Token] word_no_markup
    by (auto simp: filter_empty_conv list_all_iff)
  then have t: "filter isMarkup (pieceText p) = []" by (simp add: Token isMarkup_def)
  show ?thesis using assms(1) t by (auto simp: Token escaped_no_markup split: option.splits)
qed simp

lemma filled_markup:
  assumes "\<not> list_ex (inheritedToken vars) (pieces text)"
  shows "filter isMarkup (filled inherited vars True text) = filter isMarkup text"
proof -
  have "filter isMarkup (concat (map (pieceValue inherited vars True) ps)) = filter isMarkup (concat (map pieceText ps))"
    if "set ps \<subseteq> set (pieces text)" for ps
    using that
  proof (induction ps)
    case (Cons p ps)
    have "filter isMarkup (pieceValue inherited vars True p) = filter isMarkup (pieceText p)"
      using assms Cons.prems by (intro piece_markup) (auto simp: list_ex_iff intro: tokens_are_words)
    then show ?case using Cons by simp
  qed simp
  from this [of "pieces text"] show ?thesis by (simp add: filled_def text_of_pieces)
qed

section \<open>Delivery\<close>

text \<open>The check made before an email is queued and the router agree on every setting.\<close>

lemma router_agrees_with_gate:
  "routeEmail resend mailpit production db job =
     (case ensureAvailable production db of
        Some e \<Rightarrow> Inl (MailDomain e)
      | None \<Rightarrow>
          if (if getValue db EMAIL_PROVIDER_SETTING_KEY = Some ''MAILPIT'' then mailpit job
              else resend (the (getValue db RESEND_API_KEY))
                     (fromHeader (getValue db RESEND_FROM_NAME) (the (getValue db RESEND_FROM_ADDRESS))) job)
          then Inr () else Inl ProviderFailed)"
  by (simp add: routeEmail_def ensureAvailable_def resendSend_def mailpitSend_def)

section \<open>A rendered email\<close>

lemma render_Inr:
  assumes "render inherited m key vars = Inr e"
  obtains t l where "findTemplateByKey m key = Some t" "emailLayout m = Some l"
    "\<not> list_ex (inheritedToken vars) (pieces (et_htmlBody t))"
    "\<not> list_ex (inheritedToken (layoutVariables vars l)) (pieces (el_headerHtml l))"
    "\<not> list_ex (inheritedToken (layoutVariables vars l)) (pieces (el_footerHtml l))"
    "re_subject e = filled inherited vars False (et_subject t)"
    "re_html e = filled inherited (layoutVariables vars l) True (el_headerHtml l) @ filled inherited vars True (et_htmlBody t)
       @ filled inherited (layoutVariables vars l) True (el_footerHtml l)"
    "re_text e = filled inherited (layoutVariables vars l) False (el_headerText l) @ filled inherited vars False (et_textBody t)
       @ filled inherited (layoutVariables vars l) False (el_footerText l)"
proof -
  obtain t where t: "findTemplateByKey m key = Some t" using assms by (auto simp: render_def split: option.splits)
  obtain l where l: "emailLayout m = Some l" using assms t by (auto simp: render_def split: option.splits)
  show ?thesis using assms
    by (intro that [OF t l])
       (auto simp: render_def t l renderEmailTemplate_def substitute_pieces Let_def andThen_Inr_iff split: if_splits)
qed

lemma layoutVariables_known:
  "map_of (layoutVariables vars l) name = None \<longleftrightarrow> name \<noteq> ''logoUrl'' \<and> map_of vars name = None"
  by (simp add: layoutVariables_def)

end
