(* ===== verification/Storage_Facts.thy ===== *)
theory Storage_Facts
  imports Storage Settings_Facts
begin

text \<open>
  What the storage keeps: an upload is accepted only for a key the program issued and only until its
  URL expires, every file on the disk belongs to such a key, and what is served as an image is the
  encoder's output for an upload that was recognised as an image.  The steps are the issue of an upload
  URL, a PUT, and a job's reading and its end, in any order and number.
\<close>

section \<open>Keys and paths\<close>

lemma isLowerHex_not: "isLowerHex c \<Longrightarrow> c \<noteq> CHR ''.'' \<and> c \<noteq> CHR ''/'' \<and> c \<noteq> CHR '':''"
proof -
  have "\<not> isLowerHex (CHR ''.'')" "\<not> isLowerHex (CHR ''/'')" "\<not> isLowerHex (CHR '':'')" by code_simp+
  then show "isLowerHex c \<Longrightarrow> c \<noteq> CHR ''.'' \<and> c \<noteq> CHR ''/'' \<and> c \<noteq> CHR '':''" by metis
qed

definition randomName :: "string \<Rightarrow> bool" where
  "randomName r \<longleftrightarrow> length r = 32 \<and> list_all isLowerHex r"

lemma randomName_chars: "randomName r \<Longrightarrow> CHR ''.'' \<notin> set r \<and> CHR ''/'' \<notin> set r \<and> CHR '':'' \<notin> set r \<and> r \<noteq> []"
  unfolding randomName_def list_all_iff by (metis isLowerHex_not list.size(3) zero_neq_numeral)

lemma extensionFor_cases: "extensionFor ct \<in> {''.webp'', ''.pdf'', []}"
  by (simp add: extensionFor_def)

lemma validKey_newKey: "randomName r \<Longrightarrow> validKey (newKey r ct)"
  using extensionFor_cases [of ct]
  by (auto simp: validKey_def newKey_def randomName_def isLower_def)

lemma baseName_self: "CHR ''/'' \<notin> set p \<Longrightarrow> baseName p = p"
proof -
  assume no: "CHR ''/'' \<notin> set p"
  define x where "x = rev p"
  have d: "dropWhile (\<lambda>c. c = CHR ''/'') x = x" unfolding dropWhile_eq_self_iff x_def using no by (metis hd_in_set set_rev)
  have t: "takeWhile (\<lambda>c. c \<noteq> CHR ''/'') x = x" unfolding takeWhile_eq_all_conv x_def using no by (metis set_rev)
  show ?thesis unfolding baseName_def x_def [symmetric] d t by (simp add: x_def)
qed

lemma extname_newKey: "randomName r \<Longrightarrow> extname (newKey r ct) = extensionFor ct"
proof -
  assume r: "randomName r"
  have b: "baseName (newKey r ct) = newKey r ct"
    by (rule baseName_self) (use randomName_chars [OF r] extensionFor_cases [of ct] in \<open>auto simp: newKey_def\<close>)
  have no: "CHR ''.'' \<notin> set r" "r \<noteq> []" "length r = 32" using randomName_chars [OF r] r by (auto simp: randomName_def)
  have nodd: "r @ x \<noteq> ''..''" for x using no(3) by (metis length_append le_add1 list.size(3,4) One_nat_def add_Suc_right
      add.right_neutral numeral_le_iff semiring_norm(69,71) Suc_eq_plus1 one_add_one numeral_eq_Suc not_less_eq_eq)
  show ?thesis
    using extensionFor_cases [of ct] no nodd by (auto simp: extname_def b Let_def) (auto simp: newKey_def)
qed

definition finalPath :: "StorageEnv \<Rightarrow> string \<Rightarrow> string" where
  "finalPath env key = uploadsDir env @ ''/'' @ key"

definition stagedPath :: "StorageEnv \<Rightarrow> string \<Rightarrow> string" where
  "stagedPath env key = uploadsDir env @ ''/'' @ STAGING_DIR_NAME @ ''/'' @ key"

lemma finalPath_eq_iff [simp]: "finalPath env k = finalPath env k' \<longleftrightarrow> k = k'"
  by (simp add: finalPath_def)

lemma stagedPath_eq_iff [simp]: "stagedPath env k = stagedPath env k' \<longleftrightarrow> k = k'"
  by (simp add: stagedPath_def)

lemma staged_not_final: "validKey k \<Longrightarrow> stagedPath env k' \<noteq> finalPath env k"
  by (cases k) (auto simp: finalPath_def stagedPath_def STAGING_DIR_NAME_def validKey_def dest!: isLowerHex_not)

lemma pathFor_Inr_iff: "pathFor env k = Inr p \<longleftrightarrow> validKey k \<and> p = finalPath env k"
  by (auto simp: pathFor_def finalPath_def)

lemma stagingPathFor_Inr_iff: "stagingPathFor env k = Inr p \<longleftrightarrow> validKey k \<and> p = stagedPath env k"
  by (auto simp: stagingPathFor_def stagedPath_def)

lemma files_writeAt: "files (writeAt p c st) q = (if q = p then c else files st q)" "imageJobs (writeAt p c st) = imageJobs st"
  by (auto simp: writeAt_def)

text \<open>A promotion leaves its result at the final path and nothing at the temporary and the staged one.\<close>

lemma promote_Inr:
  assumes "promoteStagingToFinal env random renames k w st = Inr st'"
  shows "validKey k" "files st' (finalPath env k) = Some w" "files st' (stagedPath env k) = None"
    "files st' p = Some b \<Longrightarrow> p = finalPath env k \<and> b = w \<or> files st p = Some b" "imageJobs st' = imageJobs st"
  using assms staged_not_final [of k env k]
  by (auto simp: promoteStagingToFinal_def andThen_Inr_iff pathFor_Inr_iff stagingPathFor_Inr_iff Let_def files_writeAt
      split: if_splits)

section \<open>Tokens\<close>

text \<open>Distinct strings have distinct signatures, none of them empty, and the text of a number has no colon and is that of
  no other number.\<close>

definition soundSignatures :: "StorageEnv \<Rightarrow> bool" where
  "soundSignatures env \<longleftrightarrow> inj (hmac env) \<and> [] \<notin> range (hmac env) \<and> inj (numberText env) \<and> (\<forall>q. CHR '':'' \<notin> set (numberText env q))"

lemma append_colon_eq:
  assumes "k @ c # x = k' @ c # y" "c \<notin> set x" "c \<notin> set y"
  shows "k = k' \<and> x = y"
proof -
  have "rev x @ c # rev k = rev y @ c # rev k'" using arg_cong [OF assms(1), of rev] by simp
  then have "takeWhile (\<lambda>a. a \<noteq> c) (rev x @ c # rev k) = takeWhile (\<lambda>a. a \<noteq> c) (rev y @ c # rev k')" by simp
  then have "rev x = rev y" using assms(2,3) by (subst (asm) (1 2) takeWhile_append2) auto
  then show ?thesis using assms(1) by simp
qed

lemma signToken_inj: "soundSignatures env \<Longrightarrow> signToken env k q = signToken env k' q' \<Longrightarrow> k = k' \<and> q = q'"
  unfolding signToken_def soundSignatures_def
  by (metis (no_types, lifting) Cons_eq_appendI append_colon_eq append_self_conv2 injD)

section \<open>The steps\<close>

record uploading =
  disk :: storage
  issued :: "(string \<times> time) list"
  encoding :: "(string \<times> string) list"

definition emptyUploading :: uploading where
  "emptyUploading = \<lparr>disk = \<lparr>files = (\<lambda>_. None), imageJobs = []\<rparr>, issued = [], encoding = []\<rparr>"

text \<open>A client knows the tokens it was given and texts that are no signature at all.\<close>

definition knownToken :: "StorageEnv \<Rightarrow> uploading \<Rightarrow> string option \<Rightarrow> bool" where
  "knownToken env s token \<longleftrightarrow> (case token of None \<Rightarrow> True
     | Some t \<Rightarrow> (\<exists>(k, e)\<in>set (issued s). t = signToken env k (of_int e)) \<or> t \<notin> range (hmac env))"

inductive uploadStep :: "StorageEnv \<Rightarrow> uploading \<Rightarrow> uploading \<Rightarrow> bool" for env where
  Issue: "randomName r \<Longrightarrow> uploadStep env s (s\<lparr>issued := issued s @ [(newKey r contentType, expiryOf now)]\<rparr>)"
| Put: "putUpload env now key token expires bytes (disk s) = Inr (answer, d) \<Longrightarrow> knownToken env s token
     \<Longrightarrow> uploadStep env s (s\<lparr>disk := d\<rparr>)"
| Encode: "key \<in> set (imageJobs (disk s)) \<Longrightarrow> encodeStaged env db key (disk s) = Inr (Some webp)
     \<Longrightarrow> uploadStep env s (s\<lparr>encoding := encoding s @ [(key, webp)]\<rparr>)"
| Promote: "(key, webp) \<in> set (encoding s) \<Longrightarrow> promoteStagingToFinal env random renames key webp (disk s) = Inr d
     \<Longrightarrow> uploadStep env s (s\<lparr>disk := d\<rparr>)"

inductive uploadReach :: "StorageEnv \<Rightarrow> uploading \<Rightarrow> bool" for env where
  Empty: "uploadReach env emptyUploading"
| Step: "uploadReach env s \<Longrightarrow> uploadStep env s s' \<Longrightarrow> uploadReach env s'"

lemma put_accepted:
  assumes "putUpload env now key token expires bytes d = Inr (answer, d')" "knownToken env s token" "soundSignatures env"
  shows "\<exists>e. (key, e) \<in> set (issued s) \<and> now \<le> e"
proof -
  from assms(1) obtain t q where t: "token = Some t" "expiresNumber expires = Finite q" "\<not> of_int now > q" "signToken env key q = t"
    by (auto simp: putUpload_def verifyUploadToken_def nonEmpty_def Let_def split: if_splits js_number.splits)
  then obtain k e where e: "(k, e) \<in> set (issued s)" "t = signToken env k (of_int e)"
    using assms(2) by (auto simp: knownToken_def signToken_def)
  then have "key = k \<and> q = of_int e" using signToken_inj [OF assms(3)] t(4) by blast
  then show ?thesis using e t(3) by auto
qed

section \<open>The invariant\<close>

definition keysIssued :: "uploading \<Rightarrow> string set" where
  "keysIssued s = fst ` set (issued s)"

lemma keysIssued_update [simp]: "keysIssued (s\<lparr>disk := d\<rparr>) = keysIssued s" "keysIssued (s\<lparr>encoding := x\<rparr>) = keysIssued s"
  by (simp_all add: keysIssued_def)

definition encoderOutput :: "StorageEnv \<Rightarrow> string \<Rightarrow> bool" where
  "encoderOutput env b \<longleftrightarrow> (\<exists>m q original. m \<in> {512, 1024, 2048} \<and> 1 \<le> q \<and> q \<le> 100
     \<and> \<not> isl (sniffImageFormat env original) \<and> encodeWebp env m q original = Some b)"

definition uploadsOk :: "StorageEnv \<Rightarrow> uploading \<Rightarrow> bool" where
  "uploadsOk env s \<longleftrightarrow>
     (\<forall>k\<in>keysIssued s. validKey k)
     \<and> (\<forall>p b. files (disk s) p = Some b \<longrightarrow> (\<exists>k\<in>keysIssued s. p = finalPath env k \<or> p = stagedPath env k))
     \<and> (\<forall>k b. validKey k \<longrightarrow> extname k = ''.webp'' \<longrightarrow> files (disk s) (finalPath env k) = Some b \<longrightarrow> encoderOutput env b)
     \<and> (\<forall>k b. files (disk s) (stagedPath env k) = Some b \<longrightarrow> \<not> isl (sniffImageFormat env b))
     \<and> (\<forall>k\<in>set (imageJobs (disk s)). k \<in> keysIssued s)
     \<and> (\<forall>(k, w)\<in>set (encoding s). k \<in> keysIssued s \<and> encoderOutput env w)"

lemma uploadsOkI:
  assumes "\<And>k. k \<in> keysIssued s \<Longrightarrow> validKey k"
    and "\<And>p b. files (disk s) p = Some b \<Longrightarrow> \<exists>k\<in>keysIssued s. p = finalPath env k \<or> p = stagedPath env k"
    and "\<And>k b. validKey k \<Longrightarrow> extname k = ''.webp'' \<Longrightarrow> files (disk s) (finalPath env k) = Some b \<Longrightarrow> encoderOutput env b"
    and "\<And>k b. files (disk s) (stagedPath env k) = Some b \<Longrightarrow> \<not> isl (sniffImageFormat env b)"
    and "\<And>k. k \<in> set (imageJobs (disk s)) \<Longrightarrow> k \<in> keysIssued s"
    and "\<And>k w. (k, w) \<in> set (encoding s) \<Longrightarrow> k \<in> keysIssued s \<and> encoderOutput env w"
  shows "uploadsOk env s"
  using assms unfolding uploadsOk_def by blast

lemma uploadsOkD:
  assumes "uploadsOk env s"
  shows "k \<in> keysIssued s \<Longrightarrow> validKey k"
    and "files (disk s) p = Some b \<Longrightarrow> \<exists>k\<in>keysIssued s. p = finalPath env k \<or> p = stagedPath env k"
    and "validKey k \<Longrightarrow> extname k = ''.webp'' \<Longrightarrow> files (disk s) (finalPath env k) = Some b \<Longrightarrow> encoderOutput env b"
    and "files (disk s) (stagedPath env k) = Some b \<Longrightarrow> \<not> isl (sniffImageFormat env b)"
    and "k \<in> set (imageJobs (disk s)) \<Longrightarrow> k \<in> keysIssued s"
    and "(k, w) \<in> set (encoding s) \<Longrightarrow> k \<in> keysIssued s \<and> encoderOutput env w"
  using assms unfolding uploadsOk_def by blast+

text \<open>What an accepted PUT writes, by the extension of its key.\<close>

lemma put_writes:
  assumes "putUpload env now key token expires bytes d = Inr (answer, d')"
  shows "validKey key"
    and "extname key = ''.webp'' \<Longrightarrow> \<not> isl (sniffImageFormat env bytes) \<and> imageJobs d' = imageJobs d @ [key]
       \<and> files d' = (files d)(stagedPath env key := Some bytes)"
    and "extname key \<noteq> ''.webp'' \<Longrightarrow> imageJobs d' = imageJobs d \<and> files d' = (files d)(finalPath env key := Some bytes)"
  using assms
  by (auto simp: putUpload_def andThen_Inr_iff writeFile_def writeStagingFile_def pathFor_Inr_iff stagingPathFor_Inr_iff
      enqueueImage_def writeAt_def split: if_splits)

lemma put_uploadsOk:
  assumes ok: "uploadsOk env s" and sound: "soundSignatures env"
    and put: "putUpload env now key token expires bytes (disk s) = Inr (answer, d)" and known: "knownToken env s token"
  shows "uploadsOk env (s\<lparr>disk := d\<rparr>)"
proof -
  obtain e where "(key, e) \<in> set (issued s)" using put_accepted [OF put known sound] by blast
  then have mine: "key \<in> keysIssued s" unfolding keysIssued_def by force
  note w = put_writes [OF put] and D = uploadsOkD [OF ok]
  note sep = staged_not_final staged_not_final [symmetric]
  show ?thesis
  proof (cases "extname key = ''.webp''")
    case True
    note w = w(1) w(2) [OF True]
    show ?thesis
      by (rule uploadsOkI) (use w mine D sep in \<open>auto split: if_splits\<close>)
  next
    case False
    note w = w(1) w(3) [OF False]
    show ?thesis
      by (rule uploadsOkI) (use w mine D sep False in \<open>auto split: if_splits\<close>)
  qed
qed

lemma resolved_range: "resolveMaxDimensionPx db \<in> {512, 1024, 2048}" "1 \<le> resolveQuality db" "resolveQuality db \<le> 100"
  by (auto simp: resolveMaxDimensionPx_def resolveQuality_def IMAGE_MAX_DIMENSION_PX_DEFAULT_def IMAGE_WEBP_QUALITY_DEFAULT_def
      IMAGE_WEBP_QUALITY_MIN_def IMAGE_WEBP_QUALITY_MAX_def IMAGE_MAX_DIMENSION_PX_CHOICES_def split: option.splits js_number.splits)

lemma encode_uploadsOk:
  assumes ok: "uploadsOk env s" and k: "key \<in> set (imageJobs (disk s))"
    and e: "encodeStaged env db key (disk s) = Inr (Some webp)"
  shows "uploadsOk env (s\<lparr>encoding := encoding s @ [(key, webp)]\<rparr>)"
proof -
  note D = uploadsOkD [OF ok]
  from e obtain orig where o: "readStagingFile env key (disk s) = Some orig" "toWebp env db orig = Inr webp"
    by (auto simp: encodeStaged_def andThen_Inr_iff split: option.splits)
  from o(1) have "files (disk s) (stagedPath env key) = Some orig"
    by (auto simp: readStagingFile_def stagingPathFor_def stagedPath_def split: if_splits)
  then have "\<not> isl (sniffImageFormat env orig)" by (rule D(4))
  moreover have "encodeWebp env (resolveMaxDimensionPx db) (resolveQuality db) orig = Some webp"
    using o(2) by (simp add: toWebp_def split: option.splits)
  ultimately have "encoderOutput env webp" unfolding encoderOutput_def using resolved_range by blast
  then show ?thesis by (intro uploadsOkI) (use D k in auto)
qed

lemma promote_uploadsOk:
  assumes ok: "uploadsOk env s" and k: "(key, webp) \<in> set (encoding s)"
    and p: "promoteStagingToFinal env random renames key webp (disk s) = Inr d"
  shows "uploadsOk env (s\<lparr>disk := d\<rparr>)"
proof -
  note D = uploadsOkD [OF ok] and P = promote_Inr [OF p]
  have key: "key \<in> keysIssued s" "encoderOutput env webp" using D(6) [OF k] by simp_all
  show ?thesis
  proof (rule uploadsOkI)
    show "\<exists>k\<in>keysIssued (s\<lparr>disk := d\<rparr>). q = finalPath env k \<or> q = stagedPath env k"
      if "files (disk (s\<lparr>disk := d\<rparr>)) q = Some b" for q b
      using P(4) [of q b] that D(2) [of q b] key(1) by auto
    show "encoderOutput env b" if "validKey k" "extname k = ''.webp''" "files (disk (s\<lparr>disk := d\<rparr>)) (finalPath env k) = Some b" for k b
      using P(4) [of "finalPath env k" b] that D(3) key(2) by auto
    show "\<not> isl (sniffImageFormat env b)" if "files (disk (s\<lparr>disk := d\<rparr>)) (stagedPath env k) = Some b" for k b
      using P(4) [of "stagedPath env k" b] that D(4) staged_not_final [OF P(1)] by auto
  qed (use D P(5) in auto)
qed

lemma issue_uploadsOk:
  assumes ok: "uploadsOk env s" and r: "randomName r"
  shows "uploadsOk env (s\<lparr>issued := issued s @ [(newKey r ct, e)]\<rparr>)"
proof -
  note D = uploadsOkD [OF ok]
  have "keysIssued (s\<lparr>issued := issued s @ [(newKey r ct, e)]\<rparr>) = insert (newKey r ct) (keysIssued s)"
    by (simp add: keysIssued_def)
  then show ?thesis by (intro uploadsOkI) (use D validKey_newKey [OF r] in auto)
qed

lemma uploads_ok: "uploadReach env s \<Longrightarrow> soundSignatures env \<Longrightarrow> uploadsOk env s"
proof (induction rule: uploadReach.induct)
  case Empty
  show ?case by (simp add: uploadsOk_def emptyUploading_def keysIssued_def)
next
  case (Step s s')
  from Step.hyps(2) show ?case
  proof cases
    case (Issue r ct now)
    then show ?thesis using issue_uploadsOk [OF Step.IH [OF Step.prems]] by simp
  next
    case (Put now key token expires bytes answer d)
    then show ?thesis using put_uploadsOk [OF Step.IH [OF Step.prems] Step.prems] by simp
  next
    case (Encode key db webp)
    then show ?thesis using encode_uploadsOk [OF Step.IH [OF Step.prems]] by simp
  next
    case (Promote key webp random renames d)
    then show ?thesis using promote_uploadsOk [OF Step.IH [OF Step.prems]] by simp
  qed
qed

section \<open>The way of an upload\<close>

lemma token_of_url:
  assumes "0 \<le> expiry" "expiry < 10 ^ 21" "now \<le> expiry"
  shows "verifyUploadToken env now key (expiresNumber (Some (numberText env (of_int expiry)))) (signToken env key (of_int expiry))"
proof -
  have "numberText env (of_int expiry) = decimal (nat expiry)"
    using assms(1,2) of_int_less_iff [of expiry "10 ^ 21", where 'a = rat] by (simp add: numberText_def)
  then show ?thesis using assms by (simp add: verifyUploadToken_def expiresNumber_def Number_decimal Let_def)
qed

lemma put_in_time:
  assumes "soundSignatures env" "randomName r" "0 \<le> now" "expiryOf now < 10 ^ 21" "later \<le> expiryOf now"
    and key_def: "key = newKey r contentType"
  shows "putUpload env later key (Some (signToken env key (of_int (expiryOf now)))) (Some (numberText env (of_int (expiryOf now)))) bytes st
    = (if startsWith contentType ''image/'' then
         andThen (sniffImageFormat env bytes) (\<lambda>_. Inr ((True, True), enqueueImage key (writeAt (stagedPath env key) (Some bytes) st)))
       else Inr ((True, False), writeAt (finalPath env key) (Some bytes) st))"
proof -
  have "0 \<le> expiryOf now" using assms(3) by (simp add: expiryOf_def UPLOAD_URL_TTL_MINUTES_def)
  note v = token_of_url [OF this assms(4,5)]
  have "signToken env key q \<noteq> []" for q using assms(1) unfolding soundSignatures_def signToken_def by (metis rangeI)
  moreover have "extname key = ''.webp'' \<longleftrightarrow> startsWith contentType ''image/''"
    unfolding key_def extname_newKey [OF assms(2)] by (simp add: extensionFor_def)
  ultimately show ?thesis
    using v validKey_newKey [OF assms(2), of contentType]
    by (simp add: putUpload_def nonEmpty_def writeFile_def writeStagingFile_def pathFor_def stagingPathFor_def finalPath_def
        stagedPath_def key_def)
qed

lemma staged_then_served:
  assumes "validKey k" "extname k = ''.webp''" "toWebp env db bytes = Inr webp"
    and "st = enqueueImage k (writeAt (stagedPath env k) (Some bytes) st0)"
  shows "encodeStaged env db k st = Inr (Some webp)"
    and "\<exists>d. promoteStagingToFinal env random renames k webp st = Inr d \<and> getUpload env k d = Inr (''image/webp'', webp)"
proof -
  show "encodeStaged env db k st = Inr (Some webp)"
    using assms by (simp add: encodeStaged_def readStagingFile_def stagingPathFor_def stagedPath_def enqueueImage_def files_writeAt)
  obtain d where d: "promoteStagingToFinal env random renames k webp st = Inr d"
    using assms(1) by (auto simp: promoteStagingToFinal_def pathFor_def stagingPathFor_def Let_def)
  moreover have "readFile env k d = Some webp"
    using promote_Inr(2) [OF d] assms(1) by (simp add: readFile_def pathFor_def finalPath_def)
  ultimately show "\<exists>d. promoteStagingToFinal env random renames k webp st = Inr d \<and> getUpload env k d = Inr (''image/webp'', webp)"
    using assms(2) by (simp add: getUpload_def getContentType_def EXTENSION_CONTENT_TYPES_def)
qed

lemma extname_image: "randomName r \<Longrightarrow> startsWith contentType ''image/'' \<Longrightarrow> extname (newKey r contentType) = ''.webp''"
  by (simp add: extname_newKey extensionFor_def)

text \<open>From any reachable state an image can be uploaded and is then served.\<close>

lemma image_can_be_served:
  assumes "uploadReach env s" "soundSignatures env" "randomName r" "0 \<le> now" "expiryOf now < 10 ^ 21"
    and "startsWith contentType ''image/''" "sniffImageFormat env bytes = Inr f" "toWebp env db bytes = Inr webp"
  shows "\<exists>s'. uploadReach env s' \<and> getUpload env (newKey r contentType) (disk s') = Inr (''image/webp'', webp)"
proof -
  let ?k = "newKey r contentType"
  note v = validKey_newKey [OF assms(3), of contentType] and x = extname_image [OF assms(3,6)]
  define s1 where "s1 = s\<lparr>issued := issued s @ [(?k, expiryOf now)]\<rparr>"
  define st where "st = enqueueImage ?k (writeAt (stagedPath env ?k) (Some bytes) (disk s1))"
  define s2 where "s2 = s1\<lparr>disk := st\<rparr>"
  define s3 where "s3 = s2\<lparr>encoding := encoding s2 @ [(?k, webp)]\<rparr>"
  have 1: "uploadReach env s1"
    unfolding s1_def by (rule uploadReach.Step [OF assms(1) uploadStep.Issue [OF assms(3)]])
  have put: "putUpload env now ?k (Some (signToken env ?k (of_int (expiryOf now)))) (Some (numberText env (of_int (expiryOf now)))) bytes (disk s1)
      = Inr ((True, True), st)"
    using put_in_time [OF assms(2-5) _ refl] assms(6,7) by (simp add: expiryOf_def UPLOAD_URL_TTL_MINUTES_def st_def)
  have "knownToken env s1 (Some (signToken env ?k (of_int (expiryOf now))))" by (auto simp: knownToken_def s1_def)
  then have 2: "uploadReach env s2"
    unfolding s2_def by (intro uploadReach.Step [OF 1 uploadStep.Put [OF put]])
  have "?k \<in> set (imageJobs (disk s2))" by (simp add: s2_def st_def enqueueImage_def)
  then have 3: "uploadReach env s3"
    unfolding s3_def using staged_then_served(1) [OF v x assms(8) st_def]
    by (intro uploadReach.Step [OF 2 uploadStep.Encode]) (simp_all add: s2_def)
  obtain d where d: "promoteStagingToFinal env [] True ?k webp (disk s3) = Inr d" "getUpload env ?k d = Inr (''image/webp'', webp)"
    using staged_then_served(2) [OF v x assms(8) st_def] by (auto simp: s3_def s2_def)
  have "(?k, webp) \<in> set (encoding s3)" by (simp add: s3_def)
  then have "uploadReach env (s3\<lparr>disk := d\<rparr>)" by (rule uploadReach.Step [OF 3 uploadStep.Promote [OF _ d(1)]])
  then show ?thesis using d(2) by (intro exI [of _ "s3\<lparr>disk := d\<rparr>"]) simp
qed

lemma own_url_accepted:
  assumes "randomName r" "startsWith contentType ''image/''"
    and "parseUrl base = Some b" "parseUrl (ut_publicUrl (createUploadUrl env now r f contentType)) = Some u"
    and "url_origin u = url_origin b" "url_pathname u = ''/uploads/'' @ newKey r contentType" "url_search u = []"
  shows "assertOwnStorageUrl parseUrl base (ut_publicUrl (createUploadUrl env now r f contentType)) = None"
  using assms by (simp add: assertOwnStorageUrl_def uploadedImagePath_def newKey_def extensionFor_def randomName_def)

text \<open>The worker uses what the panel shows, unless a setting is encrypted.\<close>

lemma worker_uses_settings:
  assumes "\<forall>r\<in>set (platformSettings db). \<not> ps_isEncrypted r"
  shows "resolveMaxDimensionPx db = sts_imageMaxDimensionPx (getStorageSettings db)"
    and "resolveQuality db = sts_imageWebpQuality (getStorageSettings db)"
proof -
  have "getValue db k = settingValue db k" for k
    using assms by (auto simp: getValue_def settingValue_def findSettingByKey_def dest: findRow_SomeD split: option.splits)
  then show "resolveMaxDimensionPx db = sts_imageMaxDimensionPx (getStorageSettings db)"
      "resolveQuality db = sts_imageWebpQuality (getStorageSettings db)"
    by (auto simp: resolveMaxDimensionPx_def resolveQuality_def getStorageSettings_def clampMaxDimension_def clampQuality_def
        IMAGE_MAX_DIMENSION_PX_DEFAULT_def IMAGE_WEBP_QUALITY_DEFAULT_def IMAGE_WEBP_QUALITY_MIN_def IMAGE_WEBP_QUALITY_MAX_def
        split: option.splits js_number.splits)
qed

text \<open>An upload that arrives while the one before it is being encoded is lost: the promotion removes
  what is staged, and the job of the later upload finds nothing.\<close>

lemma later_upload_lost:
  assumes "encodeStaged env db key d0 = Inr (Some webp)"
    and "putUpload env now key token expires later d0 = Inr ((True, True), d1)" "extname key = ''.webp''"
    and "promoteStagingToFinal env random renames key webp d1 = Inr d2"
  shows "encodeStaged env db' key d2 = Inr None \<and> getUpload env key d2 = Inr (''image/webp'', webp)"
  using promote_Inr(1-3) [OF assms(4)] assms(3)
  by (simp add: encodeStaged_def readStagingFile_def stagingPathFor_def stagedPath_def getUpload_def readFile_def pathFor_def
      finalPath_def getContentType_def EXTENSION_CONTENT_TYPES_def)

end
