(* ===== verification/Platform_Properties.thy ===== *)
theory Platform_Properties
  imports Scenario_States Admin_Ledger_Facts Email_Facts Storage_Facts
begin

text \<open>
  The properties of what the administrators see and do and of the emails: the payment summaries, the
  deletion of an account and the rendered emails, each with a concrete instance.
\<close>

section \<open>The money an administrator sees\<close>




definition demoAccount :: "id \<Rightarrow> string \<Rightarrow> Account" where
  "demoAccount i email = \<lparr>acc_id = i, acc_firstName = None, acc_lastName = None, acc_email = email, acc_passwordHash = None,
     acc_phoneCountryCode = None, acc_phoneNumber = None, acc_dateOfBirth = None, acc_acceptedTermsAndPrivacy = True,
     acc_authProvider = PASSWORD, acc_socialProviderSubject = None, acc_accountStatus = UserAccountStatus.APPROVED,
     acc_createdAt = 0\<rparr>"

definition demoAccounts :: identity where
  "demoAccounts = emptyIdentity\<lparr>id_nextId := 10, accounts := [demoAccount 1 ''a@x'', demoAccount 2 ''b@x'', demoAccount 3 ''c@x'']\<rparr>"



text \<open>
  Two events in one millisecond are shown as one.  A payment and a cancellation of an engagement that
  were recorded in the same millisecond have one key, and of the two commissions the summary shows one.
\<close>

lemma merged_events_lose_commission:
  "let d = run demoProvider [(12, OpenWalletAttempt 1 105),
       (13, ApplyProviderResult 107 \<lparr>res_status = approved, res_providerPaymentId = Some ''p1'', res_rejectionReason = None\<rparr>),
       (13, CancelByCustomer 1 105 ''sick'')] startedDb;
     page = projr (listEngagementPaymentSummaries None None (d, demoAccounts))
   in map sm_platformCommission (pg_items page) = [900] \<and> getPlatformBalance d = 990"
  by code_simp

section \<open>Deleting an account\<close>



text \<open>
  Deleting a professional deletes the customers' requests.  A request goes with the quote it accepted,
  so deleting the professional who was hired takes the customer's request with it, and the engagement,
  its payment attempts and both reviews.
\<close>

lemma deletion_takes_customers_request:
  "let db' = fst (projr (deleteUserAccount 9 2 (paidDb, demoAccounts))) in
     map sr_customerProfileId (serviceRequests paidDb) = [11] \<and> map cp_userId (customerProfiles paidDb) = [1]
     \<and> serviceRequests db' = [] \<and> engagements db' = [] \<and> paymentAttempts db' = [] \<and> reviews db' = []
     \<and> map cp_userId (customerProfiles db') = [1]"
  by code_simp

section \<open>Emails\<close>

text \<open>
  C30.  An email carries the template's markup and nobody else's.  Whatever the variables contain - a
  user chooses its name - the characters of markup in the HTML of a rendered email are, in their order,
  those of the stored header, template and footer; a value decodes to itself and is never scanned for
  tokens again; and the subject and the text are the stored ones with every token replaced once.
\<close>

theorem email_markup_is_the_templates:
  assumes "render inherited m key vars = Inr e"
  shows "\<exists>t l. findTemplateByKey m key = Some t \<and> emailLayout m = Some l
    \<and> filter isMarkup (re_html e) = filter isMarkup (el_headerHtml l @ et_htmlBody t @ el_footerHtml l)
    \<and> re_html e = filled inherited (layoutVariables vars l) True (el_headerHtml l) @ filled inherited vars True (et_htmlBody t)
        @ filled inherited (layoutVariables vars l) True (el_footerHtml l)
    \<and> unescapeHtml (pieceValue inherited vars True (Token name)) = (case map_of vars name of
         Some v \<Rightarrow> v | None \<Rightarrow> unescapeHtml (pieceValue inherited vars False (Token name)))
    \<and> re_subject e = filled inherited vars False (et_subject t)
    \<and> re_text e = filled inherited (layoutVariables vars l) False (el_headerText l) @ filled inherited vars False (et_textBody t)
        @ filled inherited (layoutVariables vars l) False (el_footerText l)"
proof (rule render_Inr [OF assms], intro exI conjI)
  fix t l
  assume "\<not> list_ex (inheritedToken vars) (pieces (et_htmlBody t))"
    "\<not> list_ex (inheritedToken (layoutVariables vars l)) (pieces (el_headerHtml l))"
    "\<not> list_ex (inheritedToken (layoutVariables vars l)) (pieces (el_footerHtml l))"
    "re_html e = filled inherited (layoutVariables vars l) True (el_headerHtml l) @ filled inherited vars True (et_htmlBody t)
       @ filled inherited (layoutVariables vars l) True (el_footerHtml l)"
  then show "filter isMarkup (re_html e) = filter isMarkup (el_headerHtml l @ et_htmlBody t @ el_footerHtml l)"
    by (simp add: filled_markup)
qed (simp_all add: unescape_escape split: option.split)

definition demoMailbox :: mailbox where
  "demoMailbox = \<lparr>emailTemplates = [\<lparr>et_key = ''verification_code'', et_subject = ''Code {{code}}'',
       et_htmlBody = ''<p>{{greeting}} {{code}} {{other}}</p>'', et_textBody = ''{{greeting}} {{code}}'', et_updatedBy = None\<rparr>],
     emailLayout = Some \<lparr>el_headerHtml = ''<div>{{logoUrl}}'', el_footerHtml = ''</div>'', el_headerText = [],
       el_footerText = [], el_logoUrl = None, el_updatedBy = None\<rparr>, emailQueue = []\<rparr>"

lemma email_markup_is_the_templates_witness:
  "\<exists>e. render (\<lambda>_. []) demoMailbox ''verification_code'' (codeVariables ''000007'' (Some ''<b>{{code}}'') 15) = Inr e
     \<and> filter isMarkup (re_html e) = ''<><><><>''
     \<and> re_html e = ''<div><p>Hola &lt;b&gt;{{code}}, 000007 {{other}}</p></div>''"
proof -
  let ?r = "render (\<lambda>_. []) demoMailbox ''verification_code'' (codeVariables ''000007'' (Some ''<b>{{code}}'') 15)"
  have r: "?r = Inr (projr ?r)" and h: "re_html (projr ?r) = ''<div><p>Hola &lt;b&gt;{{code}}, 000007 {{other}}</p></div>''"
    by (rule committed, code_simp) code_simp
  obtain t l where "findTemplateByKey demoMailbox ''verification_code'' = Some t" "emailLayout demoMailbox = Some l"
    "filter isMarkup (re_html (projr ?r)) = filter isMarkup (el_headerHtml l @ et_htmlBody t @ el_footerHtml l)"
    using email_markup_is_the_templates [OF r] by blast
  then have "filter isMarkup (re_html (projr ?r)) = ''<><><><>''"
    by (auto simp: demoMailbox_def findTemplateByKey_def isMarkup_def)
  then show ?thesis using r h by blast
qed

text \<open>
  A template can stop the emails that use it.  A token that is no variable but a name every object
  inherits is accepted when the template is saved, counts as a variable when it is rendered, and makes
  the rendering of the HTML fail for every recipient.
\<close>

lemma inherited_token_stops_email:
  assumes "findTemplateByKey m key = Some t" "emailLayout m = Some l" "p \<in> set (pieces (et_htmlBody t))" "inheritedToken vars p"
  shows "renderAndEnqueue inherited key vars recipient kind m = Inl MailTypeError"
proof -
  have "list_ex (inheritedToken vars) (pieces (et_htmlBody t))" using assms(3,4) by (auto simp: list_ex_iff)
  then show ?thesis
    by (simp add: renderAndEnqueue_def render_def assms(1,2) renderEmailTemplate_def substitute_pieces andThen_def)
qed

lemma constructor_token_stops_verification:
  "\<not> isl (updateEmailTemplate 9 ''verification_code'' ''Code'' ''{{constructor}}'' ''{{code}}'' (emptyDb, demoMailbox))
     \<and> sendVerificationCode (\<lambda>_. []) 15 ''a@x'' ''000007'' None (snd (snd (projr (updateEmailTemplate 9 ''verification_code'' ''Code'' ''{{constructor}}'' ''{{code}}'' (emptyDb, demoMailbox))))) = Inl MailTypeError"
  by code_simp

section \<open>Uploads\<close>

text \<open>A storage for the instances: the signature of a text is the text behind a letter, what begins with
  J is an image, and its encoding repeats it.\<close>

definition unaryText :: "rat \<Rightarrow> string" where
  "unaryText q = (case quotient_of q of (n, d) \<Rightarrow>
     (if n < 0 then CHR ''-'' else CHR ''+'') # replicate (nat \<bar>n\<bar>) (CHR ''n'') @ replicate (nat d) (CHR ''d''))"

definition demoStorage :: StorageEnv where
  "demoStorage = \<lparr>hmac = (\<lambda>x. CHR ''h'' # x), imageFormat = (\<lambda>b. if take 1 b = ''J'' then Some ''jpeg'' else None),
     encodeWebp = (\<lambda>m q b. Some (b @ b)), fractionText = unaryText, uploadsDir = ''/var/uploads'', baseUrl = ''http://x''\<rparr>"

lemma decimal_digits: "c \<in> set (decimal n) \<Longrightarrow> isDigit c"
  using digits_decimal [of n] by (auto simp: list_all_iff)

lemma not_digits: "\<not> isDigit (CHR '':'')" "\<not> isDigit (CHR ''+'')" "\<not> isDigit (CHR ''-'')"
  by code_simp+

lemma unaryText_inj: "unaryText p = unaryText q \<Longrightarrow> p = q"
proof -
  assume eq: "unaryText p = unaryText q"
  obtain n d where p: "quotient_of p = (n, d)" by (cases "quotient_of p")
  obtain m e where q: "quotient_of q = (m, e)" by (cases "quotient_of q")
  have pos: "0 < d" "0 < e" using quotient_of_denom_pos [OF p] quotient_of_denom_pos [OF q] .
  have "(n < 0) = (m < 0)" and body: "replicate (nat \<bar>n\<bar>) (CHR ''n'') @ replicate (nat d) (CHR ''d'')
      = replicate (nat \<bar>m\<bar>) (CHR ''n'') @ replicate (nat e) (CHR ''d'')"
    using eq by (auto simp: unaryText_def p q split: if_splits)
  moreover have "nat \<bar>n\<bar> = nat \<bar>m\<bar>" "nat d = nat e"
    using arg_cong [OF body, of "\<lambda>x. length (filter (\<lambda>c. c = CHR ''n'') x)"]
      arg_cong [OF body, of "\<lambda>x. length (filter (\<lambda>c. c = CHR ''d'') x)"] by simp_all
  ultimately have "n = m" "d = e" using pos by (auto simp: abs_if split: if_splits)
  then show "p = q" using p q by (metis quotient_of_inject)
qed

lemma demoStorage_sound: "soundSignatures demoStorage"
proof -
  let ?t = "numberText demoStorage"
  have demo: "fractionText demoStorage = unaryText" by (simp add: demoStorage_def)
  have spell: "?t q = (if of_int \<lfloor>q\<rfloor> = q \<and> 0 \<le> q \<and> q < 10 ^ 21 then decimal (nat \<lfloor>q\<rfloor>) else unaryText q)" for q
    by (simp only: numberText_def demo)
  have signed: "unaryText q = CHR ''-'' # tl (unaryText q) \<or> unaryText q = CHR ''+'' # tl (unaryText q)" for q
    by (auto simp: unaryText_def split: prod.splits)
  have apart: "decimal n \<noteq> unaryText q" for n q
    using signed [of q] decimal_digits [of _ n] not_digits by (metis list.set_intros(1))
  have dec: "decimal n = decimal m \<Longrightarrow> n = m" for n m using digits_decimal by metis
  have "inj ?t"
  proof (rule injI)
    fix p q assume "?t p = ?t q"
    then show "p = q" using apart dec unaryText_inj by (auto simp: spell split: if_splits) (metis eq_nat_nat_iff of_int_0_le_iff)+
  qed
  moreover have "CHR '':'' \<notin> set (?t q)" for q
    using decimal_digits not_digits by (auto simp: spell unaryText_def split: prod.splits)
  ultimately show ?thesis by (auto simp: soundSignatures_def demoStorage_def inj_def)
qed

text \<open>
  C27.  An image is never what somebody uploaded.  Whatever clients send, as long as they can only use
  the tokens they were given, whatever jobs run and however they interleave: what the program serves as
  an image is the output of its own encoder, at one of the three permitted sizes and a quality from 1 to
  100, for an upload recognised as an image; it is served under a key the program has issued, and nothing
  else lies on the disk but the files of such keys.
\<close>

theorem images_are_reencoded:
  assumes "soundSignatures env" "uploadReach env s"
    and "getUpload env key (disk s) = Inr (''image/webp'', bytes)"
  shows "encoderOutput env bytes \<and> key \<in> keysIssued s
    \<and> {p. files (disk s) p \<noteq> None} \<subseteq> finalPath env ` keysIssued s \<union> stagedPath env ` keysIssued s"
proof -
  note D = uploadsOkD [OF uploads_ok [OF assms(2,1)]]
  have k: "validKey key" "files (disk s) (finalPath env key) = Some bytes" and t: "getContentType key = ''image/webp''"
    using assms(3) by (auto simp: getUpload_def readFile_def pathFor_def finalPath_def split: option.splits if_splits)
  have "extname key = ''.webp''" using t by (auto simp: getContentType_def EXTENSION_CONTENT_TYPES_def split: if_splits)
  moreover have "key \<in> keysIssued s" using D(2) [OF k(2)] staged_not_final [OF k(1)] by (metis finalPath_eq_iff)
  ultimately show ?thesis using D(2,3) k by blast
qed

lemma images_are_reencoded_witness: "encoderOutput demoStorage ''JpgJpg''"
proof -
  let ?r = "replicate 32 (CHR ''a'')"
  have "randomName ?r" "expiryOf 0 < 10 ^ 21" "startsWith ''image/png'' ''image/''"
    "sniffImageFormat demoStorage ''Jpg'' = Inr ''jpeg''" "toWebp demoStorage emptyDb ''Jpg'' = Inr ''JpgJpg''" by code_simp+
  then obtain s where "uploadReach demoStorage s"
      "getUpload demoStorage (newKey ?r ''image/png'') (disk s) = Inr (''image/webp'', ''JpgJpg'')"
    using image_can_be_served [OF uploadReach.Empty demoStorage_sound, of ?r 0] by fastforce
  then show ?thesis using images_are_reencoded [OF demoStorage_sound] by blast
qed



section \<open>Budgets\<close>

text \<open>An explicit null as the upper end of a budget is compared as 0, so the request is refused; with
  the field absent it is published.\<close>

lemma null_budget_refused:
  "0 < n \<Longrightarrow> budgetRangeInvalid (Value n) Null \<and> \<not> budgetRangeInvalid (Value n) Undefined"
  by (simp add: budgetRangeInvalid_def compared_def)

end
