(* ===== verification/Api_Properties.thy ===== *)
theory Api_Properties
  imports Panel_Facts Market_Facts Platform_Properties Account_Findings System
begin

text \<open>
  The properties of the interface: who may call an operation of the panel or of the market, and what a
  call changes; an operation of a module that is switched off.  Each property is followed by a concrete
  call.
\<close>

section \<open>Sessions\<close>


lemma live_admin_session:
  assumes "authenticateAdminRequest cr now h s = (Inr u, s')"
  obtains token x where "s' = s" "extractBearerToken h = Some token" "x \<in> set (adminSessions s)" "ses_tokenHash x = sha256 cr token"
    "ses_status x = SessionStatus.ACTIVE" "now < ses_expiresAt x" "ses_userId x = u"
  using assms
  by (auto simp: authenticateAdminRequest_def findActiveSessionAdminUserId_def loadEffectiveAdminSession_def
      split: option.splits prod.splits if_splits dest!: findRow_SomeD)

lemma granted: "p \<in> set (getGrantedPermissions s i) \<Longrightarrow>
   \<exists>u. findAdminById s i = Some u \<and> au_status u = AdminUserStatus.ACTIVE \<and> p \<in> set (permissionsOfRole s (au_roleId u))"
  by (auto simp: getGrantedPermissions_def findEffectivePermissions_def split: option.splits if_splits)

section \<open>A runtime and a state\<close>

definition demoRuntime :: runtime where
  "demoRuntime = \<lparr>rt_now = 50, rt_crypto = demoCrypto, rt_provider = demoProvider, rt_didit = (\<lambda>_ _ _. None),
     rt_social = (\<lambda>_ _. InvalidIdentity), rt_storage = demoStorage, rt_randomName = ''n'', rt_rank = (\<lambda>_. 0),
     rt_sameName = (=), rt_inherited = (\<lambda>_. []), rt_parseUrl = (\<lambda>_. None), rt_production = False,
     rt_verification = demoPolicy, rt_reset = demoPolicy, rt_invites = demoInvite, rt_sessionTtlHours = 24,
     rt_decoyHash = ''h'', rt_randomToken = ''tok'', rt_salt = 0, rt_randomCode = 5\<rparr>"

definition demoSession :: "id \<Rightarrow> id \<Rightarrow> string \<Rightarrow> time \<Rightarrow> Session" where
  "demoSession i u token expiry = \<lparr>ses_id = i, ses_userId = u, ses_tokenHash = CHR ''#'' # token, ses_status = SessionStatus.ACTIVE,
     ses_createdAt = 0, ses_expiresAt = expiry, ses_revokedAt = None\<rparr>"

definition demoWorld :: "db \<Rightarrow> world" where
  "demoWorld d = \<lparr>w_db = d, w_identity = demoAccounts\<lparr>sessions := [demoSession 4 2 ''pro'' 90]\<rparr>,
     w_admin = (snd demoPanel)\<lparr>adminSessions := [demoSession 5 2 ''root'' 90, demoSession 6 2 ''old'' 40]\<rparr>, w_mail = demoMailbox\<rparr>"

section \<open>The panel\<close>

text \<open>
  C16.  The panel obeys only who may, and remembers who did.  Each of the panel's operations is refused,
  and then nothing but the state of a session has changed, or the request carries the token of a session
  that is ACTIVE and not over, of an ACTIVE administrator whose role has the operation's permission; and
  what the operation then changes is recorded in the audit log, every new record under that
  administrator.  Only a test email, which goes to the queue of emails, leaves no record.
\<close>

theorem panel_needs_permission:
  assumes "panelOperation rt p ep" "ep authorization w = (r, w')"
  shows "((\<exists>e. r = Inl (Refused e))
      \<and> w' = w\<lparr>w_admin := snd (authenticateAdminRequest (rt_crypto rt) (rt_now rt) authorization (w_admin w))\<rparr>)
    \<or> (\<exists>token x u. extractBearerToken authorization = Some token \<and> x \<in> set (adminSessions (w_admin w))
         \<and> ses_tokenHash x = sha256 (rt_crypto rt) token \<and> ses_status x = SessionStatus.ACTIVE \<and> rt_now rt < ses_expiresAt x
         \<and> findAdminById (w_admin w) (ses_userId x) = Some u \<and> au_status u = AdminUserStatus.ACTIVE
         \<and> p \<in> set (permissionsOfRole (w_admin w) (au_roleId u))
         \<and> ((\<exists>q. w' = w\<lparr>w_mail := (w_mail w)\<lparr>emailQueue := q\<rparr>\<rparr>)
            \<or> (\<exists>new. new \<noteq> [] \<and> auditLog (w_db w') = auditLog (w_db w) @ new
                 \<and> (\<forall>l\<in>set new. al_actorAdminUserId l = au_id u))))"
proof -
  consider a s where "adminCaller rt authorization w = (Inr a, s)" "p \<in> set (getGrantedPermissions s a)"
      "accountable a (setAdmin s w) w'"
    | e where "r = Inl (Refused e)" "w' = setAdmin (snd (adminCaller rt authorization w)) w"
    using panelOperation_outcome [OF assms] unfolding panelOutcome_def by blast
  then show ?thesis
  proof cases
    case (1 a s)
    obtain token x where live: "s = w_admin w" "extractBearerToken authorization = Some token" "x \<in> set (adminSessions (w_admin w))"
        "ses_tokenHash x = sha256 (rt_crypto rt) token" "ses_status x = SessionStatus.ACTIVE" "rt_now rt < ses_expiresAt x"
        "ses_userId x = a"
      using 1(1) unfolding adminCaller_def by (rule live_admin_session)
    obtain u where u: "findAdminById (w_admin w) a = Some u" "au_status u = AdminUserStatus.ACTIVE"
        "p \<in> set (permissionsOfRole (w_admin w) (au_roleId u))"
      using granted [OF 1(2)] live(1) by blast
    have "au_id u = a" using u(1) by (auto simp: findAdminById_def dest: findRow_SomeD)
    moreover have "setAdmin s w = w" by (simp add: setAdmin_def live(1))
    ultimately have "(\<exists>q. w' = w\<lparr>w_mail := (w_mail w)\<lparr>emailQueue := q\<rparr>\<rparr>)
        \<or> (\<exists>new. new \<noteq> [] \<and> auditLog (w_db w') = auditLog (w_db w) @ new \<and> (\<forall>l\<in>set new. al_actorAdminUserId l = au_id u))"
      using 1(3) by (simp add: accountable_def setMail_def)
    then show ?thesis using live(2-6) u by (intro disjI2 exI [of _ token] exI [of _ x] exI [of _ u]) (simp add: live(7))
  next
    case (2 e)
    then show ?thesis by (simp add: adminCaller_def setAdmin_def)
  qed
qed

lemma answered: "fst x = r \<Longrightarrow> x = (r, snd x)"
  by (cases x) simp

lemma panel_needs_permission_witness:
  "let w = demoWorld demoDb; answer = outcome (createAdminRole_op demoRuntime ''Support'' [LEDGER_READ]) (Some ''Bearer root'') w;
     w' = snd answer
   in fst answer = Inr () \<and> map ar_name (adminRoles (w_admin w')) = [''SUPER_ADMIN'', ''Support'']
     \<and> map al_actorAdminUserId (auditLog (w_db w')) = [2] \<and> ADMIN_USERS_MANAGE \<in> set (permissionsOfRole (w_admin w) 1)"
proof -
  let ?ep = "outcome (createAdminRole_op demoRuntime ''Support'' [LEDGER_READ])"
  let ?w = "demoWorld demoDb"
  let ?w' = "snd (?ep (Some ''Bearer root'') ?w)"
  have ok: "fst (?ep (Some ''Bearer root'') ?w) = Inr ()" by code_simp
  note run = answered [OF ok]
  have mail: "auditLog (w_db ?w) = []" "length (auditLog (w_db ?w')) = 1"
    "map ar_name (adminRoles (w_admin ?w')) = [''SUPER_ADMIN'', ''Support'']" by code_simp+
  from panel_needs_permission [OF panelOperationCreateAdminRole run]
  obtain token x u where "extractBearerToken (Some ''Bearer root'') = Some token" "x \<in> set (adminSessions (w_admin ?w))"
      "findAdminById (w_admin ?w) (ses_userId x) = Some u" "ADMIN_USERS_MANAGE \<in> set (permissionsOfRole (w_admin ?w) (au_roleId u))"
      "(\<exists>q. ?w' = ?w\<lparr>w_mail := (w_mail ?w)\<lparr>emailQueue := q\<rparr>\<rparr>)
         \<or> (\<exists>new. new \<noteq> [] \<and> auditLog (w_db ?w') = auditLog (w_db ?w) @ new \<and> (\<forall>l\<in>set new. al_actorAdminUserId l = au_id u))"
    by auto
  note t = this
  have "ses_userId x = 2" using t(2) by (auto simp: demoWorld_def demoSession_def)
  then have u: "au_id u = 2" "au_roleId u = 1" using t(3) by (auto simp: demoWorld_def demoPanel_def findAdminById_def)
  have "\<not> (\<exists>q. ?w' = ?w\<lparr>w_mail := (w_mail ?w)\<lparr>emailQueue := q\<rparr>\<rparr>)" using mail(1,2) by auto
  then have "map al_actorAdminUserId (auditLog (w_db ?w')) = [2]"
    using t(5) mail(1,2) u(1) by (auto simp: length_Suc_conv)
  then show ?thesis unfolding Let_def u(2) [symmetric] using ok mail(3) t(4) by (intro conjI)
qed

text \<open>A session that is over and a token of the market's users open nothing.\<close>

lemma panel_refuses:
  "fst (outcome (adminRoles_op demoRuntime) (Some ''Bearer old'') (demoWorld demoDb)) = Inl (Refused ADMIN_UNAUTHENTICATED)"
  "map ses_status (adminSessions (w_admin (snd (outcome (adminRoles_op demoRuntime) (Some ''Bearer old'') (demoWorld demoDb)))))
     = [SessionStatus.ACTIVE, EXPIRED]"
  "fst (outcome (adminRoles_op demoRuntime) (Some ''Bearer pro'') (demoWorld demoDb)) = Inl (Refused ADMIN_UNAUTHENTICATED)"
  "fst (outcome (adminLedgerEntries_op demoRuntime None None None) (Some ''Bearer root'') (demoWorld demoDb))
     = Inl (Refused ADMIN_FORBIDDEN)"
  by code_simp+

section \<open>The market\<close>



section \<open>Modules\<close>

text \<open>While a module is off, its operations are refused and change nothing but a session.\<close>

lemma module_off:
  assumes "\<not> isEnabled (w_db w) key"
  shows "asUser rt (approvedOnly @ [ModuleEnabledGuard key e]) f authorization w
    = (Inl (Refused (case authenticateRequest (rt_crypto rt) (rt_now rt) authorization (w_identity w) of
           (Inl e', _) \<Rightarrow> e'
         | (Inr u, s) \<Rightarrow> if findAccountStatusById s u = Some UserAccountStatus.APPROVED then e else ACCOUNT_NOT_APPROVED)),
       w\<lparr>w_identity := snd (authenticateRequest (rt_crypto rt) (rt_now rt) authorization (w_identity w))\<rparr>)"
  using assms by (simp add: asUser_def handle_def approvedOnly_def canActivate_def canActivateSession_def accountApprovedGuard_def
      setIdentity_def split: prod.splits sum.splits)

lemma visits_off:
  "let d = demoDb\<lparr>platformSettings := setting ''customer.appointments.enabled'' BOOLEAN ''false'' # platformSettings demoDb\<rparr>
   in fst (proposeAppointment_op demoRuntime 105 0 1 (Some ''Bearer pro'') (demoWorld d)) = Inl (Refused APPOINTMENTS_MODULE_DISABLED)"
  by code_simp

end
