(* ===== verification/Installation.thy ===== *)
theory Installation
  imports Admin_Access Email_Templates Provider_Payments Platform_Settings
begin

text \<open>
  The installation of the program: the rows every database starts with (src/prisma/seed.ts), the roles
  and the first administrator (src/scripts/bootstrap-super-admin.ts), and the command that creates or
  changes an administrator (src/scripts/create-admin-user.ts).  The descriptions of the settings are left
  out, as in the table.  A letter with an accent is the character of its code.
\<close>

section \<open>The seed\<close>

abbreviation a_acute :: string where "a_acute \<equiv> [CHR 0xE1]"
abbreviation e_acute :: string where "e_acute \<equiv> [CHR 0xE9]"
abbreviation i_acute :: string where "i_acute \<equiv> [CHR 0xED]"
abbreviation o_acute :: string where "o_acute \<equiv> [CHR 0xF3]"
abbreviation n_tilde :: string where "n_tilde \<equiv> [CHR 0xF1]"
abbreviation newline :: string where "newline \<equiv> [CHR 0x0A]"

definition CATEGORIES :: "string list" where
  "CATEGORIES =
    [''Plomer'' @ i_acute @ ''a'',
     ''Electricidad'',
     ''Carpinter'' @ i_acute @ ''a'',
     ''Cercado'',
     ''Pintura'',
     ''Jardiner'' @ i_acute @ ''a'',
     ''Limpieza'',
     ''Mantenimiento general'',
     ''Reparaci'' @ o_acute @ ''n de electrodom'' @ e_acute @ ''sticos'']"

record SettingSeed =
  seed_key :: string
  seed_value :: string
  seed_isPublic :: "bool option"
  seed_valueType :: "PlatformSettingValueType option"

definition settingSeed :: "string \<Rightarrow> string \<Rightarrow> bool option \<Rightarrow> PlatformSettingValueType option \<Rightarrow> SettingSeed" where
  "settingSeed key value isPublic valueType =
     \<lparr>seed_key = key, seed_value = value, seed_isPublic = isPublic, seed_valueType = valueType\<rparr>"

definition PLATFORM_SETTINGS :: "SettingSeed list" where
  "PLATFORM_SETTINGS =
    [settingSeed ''customer.social-login.google.enabled'' ''true'' (Some True) None,
     settingSeed ''customer.social-login.apple.enabled'' ''true'' (Some True) None,
     settingSeed ''notifications.email.resend.enabled'' ''false'' (Some False) None,
     settingSeed ''notifications.email.resend.from-name'' ''GoService'' (Some False) None,
     settingSeed ''notifications.email.provider'' ''RESEND'' (Some False) None,
     settingSeed ''admin.session.timeout-minutes'' ''30'' (Some False) (Some NUMBER),
     settingSeed ''identity.enabled'' ''false'' (Some True) None,
     settingSeed ''identity.didit.enabled'' ''false'' (Some False) None,
     settingSeed ''identity.didit.mode'' ''SANDBOX'' (Some False) None,
     settingSeed ''quote-negotiation.general.enabled'' ''true'' (Some False) None,
     settingSeed ''quote-negotiation.price-edit.customer-can-propose'' ''false'' (Some False) None,
     settingSeed ''quote-negotiation.price-edit.professional-can-propose'' ''true'' (Some False) None,
     settingSeed ''customer.chat.enabled'' ''false'' (Some False) None,
     settingSeed ''customer.appointments.enabled'' ''true'' (Some False) None,
     settingSeed ''reviews.rating.enabled'' ''true'' (Some False) None,
     settingSeed ''reviews.comment.enabled'' ''true'' (Some False) None,
     settingSeed ''storage.profile-photo-upload.enabled'' ''true'' (Some False) None,
     settingSeed ''storage.image-processing.max-dimension-px'' ''1024'' (Some False) (Some NUMBER),
     settingSeed ''storage.image-processing.webp-quality'' ''80'' (Some False) (Some NUMBER),
     settingSeed ''payments.general-settings.commission.percent'' ''10'' (Some False) (Some NUMBER),
     settingSeed ''payments.payment-methods.cash.enabled'' ''true'' (Some True) None,
     settingSeed ''payments.payment-methods.cash.display-name'' ''Efectivo'' (Some True) None,
     settingSeed ''payments.payment-methods.card.enabled'' ''false'' (Some False) None,
     settingSeed ''payments.payment-methods.mercadopago-wallet.enabled'' ''false'' (Some False) None,
     settingSeed ''payments.mercadopago.co.environment'' ''sandbox'' (Some False) None,
     settingSeed ''payments.mercadopago.ar.environment'' ''sandbox'' (Some False) None]"

definition seededSetting :: "SettingSeed \<Rightarrow> PlatformSetting" where
  "seededSetting s = \<lparr>ps_key = seed_key s,
     ps_valueType = (case seed_valueType s of
         Some t \<Rightarrow> t
       | None \<Rightarrow> if seed_value s = ''true'' \<or> seed_value s = ''false'' then BOOLEAN else STRING),
     ps_isEncrypted = False,
     ps_isPublic = (case seed_isPublic s of None \<Rightarrow> False | Some b \<Rightarrow> b),
     ps_value = Some (seed_value s), ps_secret = None\<rparr>"

definition EMAIL_LAYOUT :: "string option \<Rightarrow> EmailLayout" where
  "EMAIL_LAYOUT logoUrl = \<lparr>
     el_headerHtml =
       ''<table role=\"presentation\" width=\"100%\" cellpadding=\"0\" cellspacing=\"0\" '' @
       ''style=\"background-color:#F6F6F8; padding:24px 0;\"><tr><td align=\"center\"><table '' @
       ''role=\"presentation\" width=\"600\" cellpadding=\"0\" cellspacing=\"0\" style=\"max-width:600px; '' @
       ''width:100%; background-color:#FFFFFF; border-radius:8px; overflow:hidden;\"><tr><td '' @
       ''style=\"padding:24px 32px; border-bottom:1px solid #F6F6F8;\"><img src=\"'' @ ''{{logoUrl}}'' @
       ''\" alt=\"GoService\" style=\"height:40px; display:block;\"></td></tr><tr><td style=\"padding:32px; '' @
       ''font-family:Arial, Helvetica, sans-serif; font-size:15px; line-height:1.5; color:#1C2430;\">'',
     el_footerHtml =
       ''</td></tr><tr><td style=\"padding:20px 32px; background-color:#F6F6F8; font-family:Arial, '' @
       ''Helvetica, sans-serif; font-size:12px; line-height:1.5; color:#8A94A6;\">Este es un mensaje autom'' @
       a_acute @ ''tico de GoService. Si no esperabas este correo, pod'' @ e_acute @
       ''s ignorarlo con seguridad.</td></tr></table></td></tr></table>'',
     el_headerText =
       [],
     el_footerText =
       newline @ newline @ ''---'' @ newline @ ''Este es un mensaje autom'' @ a_acute @
       ''tico de GoService. Si no esperabas este correo, pod'' @ e_acute @ ''s ignorarlo con seguridad.'',
     el_logoUrl = logoUrl, el_updatedBy = None\<rparr>"

definition codeDisplayBoxHtml :: string where
  "codeDisplayBoxHtml =
     ''<table role=\"presentation\" cellpadding=\"0\" cellspacing=\"0\" style=\"margin:20px 0;\"><tr><td '' @
     ''style=\"background-color:#DDE7F4; border-radius:6px; padding:16px 24px; font-family:Arial, '' @
     ''Helvetica, sans-serif; font-size:32px; font-weight:bold; letter-spacing:6px; color:#12365E;\">'' @
     ''{{code}}'' @ ''</td></tr></table>''"

definition EMAIL_TEMPLATES :: "EmailTemplate list" where
  "EMAIL_TEMPLATES = [
     \<lparr>et_key =
        ''verification_code'',
      et_subject =
        ''Tu c'' @ o_acute @ ''digo de verificaci'' @ o_acute @ ''n de GoService'',
      et_htmlBody =
        ''<p style=\"margin:0 0 16px 0;\">'' @ ''{{greeting}}'' @ ''</p><p style=\"margin:0 0 8px 0;\">Tu c'' @
        o_acute @ ''digo de verificaci'' @ o_acute @ ''n es:</p>'' @
        codeDisplayBoxHtml @
        ''<p style=\"margin:16px 0 0 0;\">Vence en '' @ ''{{ttlMinutes}}'' @ '' minutos y es v'' @ a_acute @
        ''lido para un solo uso. Si no solicitaste este c'' @ o_acute @ ''digo, pod'' @ e_acute @
        ''s ignorar este mensaje.</p>'',
      et_textBody =
        ''{{greeting}}'' @ newline @ newline @ ''Tu c'' @ o_acute @ ''digo de verificaci'' @ o_acute @ ''n es: '' @
        ''{{code}}'' @ newline @ newline @ ''Vence en '' @ ''{{ttlMinutes}}'' @ '' minutos y es v'' @ a_acute @
        ''lido para un solo uso. Si no solicitaste este c'' @ o_acute @ ''digo, pod'' @ e_acute @
        ''s ignorar este mensaje.'',
      et_updatedBy = None\<rparr>,
     \<lparr>et_key =
        ''password_reset_code'',
      et_subject =
        ''Tu c'' @ o_acute @ ''digo para restablecer tu contrase'' @ n_tilde @ ''a de GoService'',
      et_htmlBody =
        ''<p style=\"margin:0 0 16px 0;\">'' @ ''{{greeting}}'' @ ''</p><p style=\"margin:0 0 8px 0;\">Tu c'' @
        o_acute @ ''digo para restablecer tu contrase'' @ n_tilde @ ''a es:</p>'' @
        codeDisplayBoxHtml @
        ''<p style=\"margin:16px 0 0 0;\">Vence en '' @ ''{{ttlMinutes}}'' @ '' minutos y es v'' @ a_acute @
        ''lido para un solo uso. Si no solicitaste este cambio, pod'' @ e_acute @
        ''s ignorar este mensaje: tu contrase'' @ n_tilde @ ''a actual seguir'' @ a_acute @ '' funcionando.</p>'',
      et_textBody =
        ''{{greeting}}'' @ newline @ newline @ ''Tu c'' @ o_acute @ ''digo para restablecer tu contrase'' @
        n_tilde @ ''a es: '' @ ''{{code}}'' @ newline @ newline @ ''Vence en '' @ ''{{ttlMinutes}}'' @
        '' minutos y es v'' @ a_acute @ ''lido para un solo uso. Si no solicitaste este cambio, pod'' @ e_acute @
        ''s ignorar este mensaje: tu contrase'' @ n_tilde @ ''a actual seguir'' @ a_acute @ '' funcionando.'',
      et_updatedBy = None\<rparr>,
     \<lparr>et_key =
        ''admin_invite'',
      et_subject =
        ''Fuiste invitado al panel de administraci'' @ o_acute @ ''n de GoService'',
      et_htmlBody =
        ''<p style=\"margin:0 0 16px 0;\">'' @ ''{{greeting}}'' @
        ''</p><p style=\"margin:0 0 20px 0;\">Fuiste invitado como administrador al panel de administraci'' @
        o_acute @ ''n de GoService.</p><table role=\"presentation\" cellpadding=\"0\" cellspacing=\"0\"><tr><td '' @
        ''style=\"border-radius:6px; background-color:#2E6BE6;\"><a href=\"'' @ ''{{inviteLink}}'' @
        ''\" style=\"background:#2E6BE6; color:#ffffff; padding:12px 24px; border-radius:6px; '' @
        ''text-decoration:none; display:inline-block; font-family:Arial, Helvetica, sans-serif; '' @
        ''font-size:15px; font-weight:bold;\">Configurar mi contrase'' @ n_tilde @
        ''a</a></td></tr></table><p style=\"margin:20px 0 0 0;\">Este enlace vence en '' @ ''{{ttlHours}}'' @
        '' horas y solo puede usarse una vez. Si no esperabas esta invitaci'' @ o_acute @ ''n, pod'' @ e_acute @
        ''s ignorar este mensaje con seguridad.</p>'',
      et_textBody =
        ''{{greeting}}'' @ newline @ newline @ ''Fuiste invitado como administrador al panel de administraci'' @
        o_acute @ ''n de GoService.'' @ newline @ newline @ ''Configur'' @ a_acute @ '' tu contrase'' @ n_tilde @
        ''a ac'' @ a_acute @ '': '' @ ''{{inviteLink}}'' @ newline @ newline @ ''Este enlace vence en '' @
        ''{{ttlHours}}'' @ '' horas y solo puede usarse una vez. Si no esperabas esta invitaci'' @ o_acute @
        ''n, pod'' @ e_acute @ ''s ignorar este mensaje con seguridad.'',
      et_updatedBy = None\<rparr>]"

text \<open>An upsert with nothing to update: a row that exists stays as it is.\<close>

definition seedCategory :: "string \<Rightarrow> db \<Rightarrow> db" where
  "seedCategory n db = (case findRow (\<lambda>c. cat_name c = n) (categories db) of
       Some _ \<Rightarrow> db
     | None \<Rightarrow> db\<lparr>nextId := Suc (nextId db), categories := categories db @
         [\<lparr>cat_id = nextId db, cat_name = n, cat_displayOrder = 0, cat_parentId = None\<rparr>]\<rparr>)"

definition seedSetting :: "SettingSeed \<Rightarrow> db \<Rightarrow> db" where
  "seedSetting s db = (case findRow (\<lambda>r. ps_key r = seed_key s) (platformSettings db) of
       Some _ \<Rightarrow> db
     | None \<Rightarrow> db\<lparr>platformSettings := platformSettings db @ [seededSetting s]\<rparr>)"

definition seedTemplate :: "EmailTemplate \<Rightarrow> mailbox \<Rightarrow> mailbox" where
  "seedTemplate t m = (case findTemplateByKey m (et_key t) of
       Some _ \<Rightarrow> m
     | None \<Rightarrow> m\<lparr>emailTemplates := emailTemplates m @ [t]\<rparr>)"

definition seedLayout :: "string option \<Rightarrow> mailbox \<Rightarrow> mailbox" where
  "seedLayout logoUrl m = (case emailLayout m of
       Some _ \<Rightarrow> m
     | None \<Rightarrow> m\<lparr>emailLayout := Some (EMAIL_LAYOUT logoUrl)\<rparr>)"

text \<open>The logo is copied from the repository of the mobile application where that is at hand
  (\<^theory_text>\<open>sourceExists\<close>, \<^theory_text>\<open>copied\<close>).\<close>

definition SEEDED_EMAIL_LOGO_KEY :: string where
  "SEEDED_EMAIL_LOGO_KEY = ''a8f39a588b2aa735f59cd641bad81381.png''"

definition seedEmailLogo :: "bool \<Rightarrow> bool \<Rightarrow> (string \<Rightarrow> string option) \<Rightarrow> string option" where
  "seedEmailLogo sourceExists copied environment =
     (if \<not> sourceExists then None
      else if \<not> copied then None
      else Some ((case environment ''STORAGE_LOCAL_BASE_URL'' of None \<Rightarrow> ''http://localhost:3000'' | Some u \<Rightarrow> u)
             @ ''/uploads/'' @ SEEDED_EMAIL_LOGO_KEY))"

definition seedMain :: "string option \<Rightarrow> mailing \<Rightarrow> mailing" where
  "seedMain seededLogoUrl st = (case st of (db, m) \<Rightarrow>
     (fold seedSetting PLATFORM_SETTINGS (fold seedCategory CATEGORIES db),
      seedLayout seededLogoUrl (fold seedTemplate EMAIL_TEMPLATES m)))"

section \<open>The first administrator\<close>

datatype script_error = MissingEnvironmentVariable string | RoleSeedsDrifted | SuperAdminRoleSeedFailed
  | FlagRequiresValue string | MissingArguments "string list" | UnknownRole string | PasswordTooShort
  | AdminRoleNotSeeded string | AdminUserExists string | DatabaseError err

definition ROLE_SEEDS :: "(string \<times> Permission list) list" where
  "ROLE_SEEDS =
    [(''SUPER_ADMIN'',
       [FEATURE_FLAGS_READ, FEATURE_FLAGS_WRITE, CREDENTIALS_READ, CREDENTIALS_WRITE, ADMIN_USERS_MANAGE,
        SESSIONS_READ, AUDIT_LOG_READ, USER_ACCOUNTS_READ, USER_ACCOUNTS_WRITE, USER_ACCOUNTS_DELETE,
        SERVICE_REQUESTS_READ, SERVICE_REQUESTS_WRITE, CATEGORIES_READ, CATEGORIES_WRITE, QUOTES_READ,
        QUOTE_NEGOTIATION_READ, ENGAGEMENT_CHAT_READ, APPOINTMENTS_READ, EMAIL_TEMPLATES_READ,
        EMAIL_TEMPLATES_WRITE, STORAGE_SETTINGS_READ, STORAGE_SETTINGS_WRITE, REVIEWS_READ, REVIEWS_WRITE,
        LEDGER_READ, CASH_PAYMENTS_READ]),
     (''CONFIG_MANAGER'',
       [FEATURE_FLAGS_READ, FEATURE_FLAGS_WRITE, CREDENTIALS_READ, CREDENTIALS_WRITE, USER_ACCOUNTS_READ,
        USER_ACCOUNTS_WRITE, SERVICE_REQUESTS_READ, SERVICE_REQUESTS_WRITE, CATEGORIES_READ, CATEGORIES_WRITE,
        QUOTES_READ, QUOTE_NEGOTIATION_READ, EMAIL_TEMPLATES_READ, EMAIL_TEMPLATES_WRITE, STORAGE_SETTINGS_READ,
        STORAGE_SETTINGS_WRITE, REVIEWS_READ, REVIEWS_WRITE]),
     (''SUPPORT_VIEWER'',
       [FEATURE_FLAGS_READ, SESSIONS_READ, AUDIT_LOG_READ, USER_ACCOUNTS_READ, SERVICE_REQUESTS_READ,
        CATEGORIES_READ, QUOTES_READ, QUOTE_NEGOTIATION_READ, EMAIL_TEMPLATES_READ, STORAGE_SETTINGS_READ])]"

definition requireEnv :: "(string \<Rightarrow> string option) \<Rightarrow> string \<Rightarrow> script_error + string" where
  "requireEnv environment n = (case environment n of
       None \<Rightarrow> Inl (MissingEnvironmentVariable n)
     | Some v \<Rightarrow> if trim v = [] then Inl (MissingEnvironmentVariable n) else Inr v)"

definition roleSeedsMatchSharedConstant :: "bool" where
  "roleSeedsMatchSharedConstant \<longleftrightarrow>
     card (set (map fst ROLE_SEEDS)) = card (set SEEDED_ADMIN_ROLE_NAMES)
     \<and> list_all (\<lambda>n. n \<in> set SEEDED_ADMIN_ROLE_NAMES) (map fst ROLE_SEEDS)"

fun seedRoles :: "(string \<times> Permission list) list \<Rightarrow> administration \<Rightarrow> (string \<times> id) list \<times> administration" where
  "seedRoles [] a = ([], a)"
| "seedRoles ((n, permissions) # seeds) a =
     (let (i, a1) = (case findRoleByName a n of
            Some r \<Rightarrow> (ar_id r, a)
          | None \<Rightarrow> (ad_nextId a, a\<lparr>ad_nextId := Suc (ad_nextId a), adminRoles := adminRoles a @
              [\<lparr>ar_id = ad_nextId a, ar_name = n, ar_permissions = permissions\<rparr>]\<rparr>));
          (ids, a2) = seedRoles seeds a1
      in ((n, i) # ids, a2))"

definition createActiveAdmin :: "string \<Rightarrow> string \<Rightarrow> string \<Rightarrow> id \<Rightarrow> administration \<Rightarrow> script_error + administration" where
  "createActiveAdmin email displayName passwordHash roleId a =
     (if findAdminByEmail a email \<noteq> None then Inl (DatabaseError UNIQUE_VIOLATION)
      else Inr (a\<lparr>ad_nextId := Suc (ad_nextId a), adminUsers := adminUsers a @
             [\<lparr>au_id = ad_nextId a, au_email = email, au_displayName = displayName, au_passwordHash = Some passwordHash,
               au_roleId = roleId, au_status = AdminUserStatus.ACTIVE\<rparr>]\<rparr>))"

definition ensureSuperAdmin ::
  "(string \<Rightarrow> string) \<Rightarrow> (string \<Rightarrow> string option) \<Rightarrow> id \<Rightarrow> administration \<Rightarrow> script_error + administration" where
  "ensureSuperAdmin hash environment superAdminRoleId a =
     (case findRow (\<lambda>u. au_roleId u = superAdminRoleId) (adminUsers a) of
        Some _ \<Rightarrow> Inr a
      | None \<Rightarrow>
          andThen (requireEnv environment ''ADMIN_BOOTSTRAP_EMAIL'') (\<lambda>email.
          andThen (requireEnv environment ''ADMIN_BOOTSTRAP_PASSWORD'') (\<lambda>password.
          andThen (requireEnv environment ''ADMIN_BOOTSTRAP_DISPLAY_NAME'') (\<lambda>displayName.
            createActiveAdmin email displayName (hash password) superAdminRoleId a))))"

text \<open>The statements of the script are not a transaction: when the administrator cannot be created,
  the roles are there.\<close>

definition bootstrapMain ::
  "(string \<Rightarrow> string) \<Rightarrow> (string \<Rightarrow> string option) \<Rightarrow> administration \<Rightarrow> (script_error + unit) \<times> administration" where
  "bootstrapMain hash environment a =
     (if \<not> roleSeedsMatchSharedConstant then (Inl RoleSeedsDrifted, a)
      else (case seedRoles ROLE_SEEDS a of (roleIdByName, a1) \<Rightarrow>
        (case map_of roleIdByName ''SUPER_ADMIN'' of
           None \<Rightarrow> (Inl SuperAdminRoleSeedFailed, a1)
         | Some superAdminRoleId \<Rightarrow> (case ensureSuperAdmin hash environment superAdminRoleId a1 of
               Inl e \<Rightarrow> (Inl e, a1)
             | Inr a2 \<Rightarrow> (Inr (), a2)))))"

section \<open>Administrators from the command line\<close>

record ParsedCreateAdminUserArgs =
  arg_email :: string
  arg_password :: string
  arg_name :: string
  arg_role :: string
  arg_force :: bool

definition normalizeRoleName :: "string \<Rightarrow> string option" where
  "normalizeRoleName raw = (let upper = toUpperCase (trim raw) in find (\<lambda>n. n = upper) SEEDED_ADMIN_ROLE_NAMES)"

definition MIN_PASSWORD_LENGTH :: nat where "MIN_PASSWORD_LENGTH = 8"

definition validatePasswordPolicy :: "string \<Rightarrow> script_error option" where
  "validatePasswordPolicy password = (if length password < MIN_PASSWORD_LENGTH then Some PasswordTooShort else None)"

text \<open>The flags that were given: \<^theory_text>\<open>None\<close> is the flag without a value.\<close>

fun parseFlags :: "string list \<Rightarrow> (string \<Rightarrow> string option option) \<Rightarrow> script_error + (string \<Rightarrow> string option option)" where
  "parseFlags [] flags = Inr flags"
| "parseFlags (token # rest) flags =
     (if \<not> startsWith token ''--'' then parseFlags rest flags
      else let flagName = drop 2 token in
        if flagName = ''force'' then parseFlags rest (flags(''force'' := Some None))
        else (case rest of
            [] \<Rightarrow> Inl (FlagRequiresValue flagName)
          | value # rest' \<Rightarrow>
              if startsWith value ''--'' then Inl (FlagRequiresValue flagName)
              else parseFlags rest' (flags(flagName := Some (Some value)))))"

definition givenText :: "(string \<Rightarrow> string option option) \<Rightarrow> string \<Rightarrow> string option" where
  "givenText flags n = (case flags n of None \<Rightarrow> None | Some v \<Rightarrow> v)"

definition absentOr :: "(string \<Rightarrow> bool) \<Rightarrow> string option \<Rightarrow> bool" where
  "absentOr P v = (case v of None \<Rightarrow> True | Some s \<Rightarrow> P s)"

definition parseArgs :: "string list \<Rightarrow> script_error + ParsedCreateAdminUserArgs" where
  "parseArgs argv = andThen (parseFlags argv (\<lambda>_. None)) (\<lambda>flags.
     let rawEmail = givenText flags ''email'';
         rawPassword = givenText flags ''password'';
         rawName = givenText flags ''name'';
         rawRole = givenText flags ''role'';
         missing = (if absentOr (\<lambda>s. trim s = []) rawEmail then [''--email''] else [])
           @ (if absentOr (\<lambda>s. s = []) rawPassword then [''--password''] else [])
           @ (if absentOr (\<lambda>s. trim s = []) rawName then [''--name''] else [])
           @ (if absentOr (\<lambda>s. trim s = []) rawRole then [''--role''] else [])
     in if length missing > 0 then Inl (MissingArguments missing)
        else (case normalizeRoleName (the rawRole) of
            None \<Rightarrow> Inl (UnknownRole (the rawRole))
          | Some role \<Rightarrow> Inr \<lparr>arg_email = trim (the rawEmail), arg_password = the rawPassword, arg_name = trim (the rawName),
              arg_role = role, arg_force = (flags ''force'' = Some None)\<rparr>))"

definition ensureRoleId :: "administration \<Rightarrow> string \<Rightarrow> script_error + id" where
  "ensureRoleId a role = (case findRoleByName a role of
       None \<Rightarrow> Inl (AdminRoleNotSeeded role) | Some r \<Rightarrow> Inr (ar_id r))"

definition runCreateAdminUser ::
  "(string \<Rightarrow> string) \<Rightarrow> ParsedCreateAdminUserArgs \<Rightarrow> administration \<Rightarrow> script_error + administration" where
  "runCreateAdminUser hash args a = andThen (ensureRoleId a (arg_role args)) (\<lambda>roleId.
     case findAdminByEmail a (arg_email args) of
       Some existing \<Rightarrow>
         if \<not> arg_force args then Inl (AdminUserExists (arg_email args))
         else Inr (a\<lparr>adminUsers := updateMany (\<lambda>u. au_id u = au_id existing)
                (\<lambda>u. u\<lparr>au_displayName := arg_name args, au_passwordHash := Some (hash (arg_password args)), au_roleId := roleId\<rparr>)
                (adminUsers a)\<rparr>)
     | None \<Rightarrow> createActiveAdmin (arg_email args) (arg_name args) (hash (arg_password args)) roleId a)"

definition createAdminUserMain :: "(string \<Rightarrow> string) \<Rightarrow> string list \<Rightarrow> administration \<Rightarrow> script_error + administration" where
  "createAdminUserMain hash argv a = andThen (parseArgs argv) (\<lambda>args.
     case validatePasswordPolicy (arg_password args) of
       Some e \<Rightarrow> Inl e
     | None \<Rightarrow> runCreateAdminUser hash args a)"

end
