(* ===== verification/Installation_Facts.thy ===== *)
theory Installation_Facts
  imports Installation Email_Facts Admin_Safety Marketplace
begin

text \<open>
  What the installation leaves: the seed and the bootstrap add only what is missing and do nothing a
  second time; the seeded emails have no placeholder their senders do not fill; the command line of the
  administrators' command is read back.
\<close>

section \<open>Rows that are added once\<close>

locale upsert =
  fixes has :: "'a \<Rightarrow> 's \<Rightarrow> bool" and put :: "'a \<Rightarrow> 's \<Rightarrow> 's"
  assumes there: "has x s \<Longrightarrow> put x s = s"
    and made: "has x (put x s)"
    and kept: "has x s \<Longrightarrow> has x (put y s)"
begin

lemma kept_all: "has x s \<Longrightarrow> has x (fold put ys s)"
  by (induction ys arbitrary: s) (simp_all add: kept)

lemma all_made: "x \<in> set xs \<Longrightarrow> has x (fold put xs s)"
  by (induction xs arbitrary: s) (auto intro: kept_all made)

lemma idle: "(\<And>x. x \<in> set xs \<Longrightarrow> has x s) \<Longrightarrow> fold put xs s = s"
  by (induction xs) (simp_all add: there)

end

definition hasCategory :: "string \<Rightarrow> db \<Rightarrow> bool" where
  "hasCategory n d \<longleftrightarrow> findRow (\<lambda>c. cat_name c = n) (categories d) \<noteq> None"

definition hasSetting :: "SettingSeed \<Rightarrow> db \<Rightarrow> bool" where
  "hasSetting s d \<longleftrightarrow> findRow (\<lambda>r. ps_key r = seed_key s) (platformSettings d) \<noteq> None"

definition hasTemplate :: "EmailTemplate \<Rightarrow> mailbox \<Rightarrow> bool" where
  "hasTemplate t m \<longleftrightarrow> findTemplateByKey m (et_key t) \<noteq> None"

interpretation seedsCategory: upsert hasCategory seedCategory
  by unfold_locales (auto simp: hasCategory_def seedCategory_def findRow_append split: option.splits)

interpretation seedsSetting: upsert hasSetting seedSetting
  by unfold_locales (auto simp: hasSetting_def seedSetting_def findRow_append seededSetting_def split: option.splits)

interpretation seedsTemplate: upsert hasTemplate seedTemplate
  by unfold_locales (auto simp: hasTemplate_def seedTemplate_def findRow_append findTemplateByKey_def split: option.splits)

lemma seedSetting_other [simp]:
  "categories (fold seedSetting ss d) = categories d" "nextId (fold seedSetting ss d) = nextId d"
  by (induction ss arbitrary: d) (auto simp: seedSetting_def split: option.splits)

lemma seedCategory_other [simp]: "platformSettings (fold seedCategory ns d) = platformSettings d"
  by (induction ns arbitrary: d) (auto simp: seedCategory_def split: option.splits)

lemma seed_idempotent: "seedMain logo' (seedMain logo st) = seedMain logo st"
proof -
  obtain d m where st: "st = (d, m)" by (cases st)
  let ?d = "fold seedSetting PLATFORM_SETTINGS (fold seedCategory CATEGORIES d)"
  have "fold seedCategory CATEGORIES ?d = ?d"
    by (rule seedsCategory.idle) (use seedsCategory.all_made [of _ CATEGORIES d] in \<open>simp add: hasCategory_def\<close>)
  moreover have "fold seedSetting PLATFORM_SETTINGS ?d = ?d"
    by (rule seedsSetting.idle) (rule seedsSetting.all_made)
  moreover have "fold seedTemplate EMAIL_TEMPLATES (seedLayout logo (fold seedTemplate EMAIL_TEMPLATES m))
      = seedLayout logo (fold seedTemplate EMAIL_TEMPLATES m)"
    by (rule seedsTemplate.idle) (use seedsTemplate.all_made [of _ EMAIL_TEMPLATES m] in
        \<open>simp add: hasTemplate_def findTemplateByKey_def seedLayout_def split: option.split\<close>)
  moreover have "seedLayout logo' (seedLayout logo k) = seedLayout logo k" for k
    by (simp add: seedLayout_def split: option.split)
  ultimately show ?thesis by (simp add: seedMain_def st)
qed

text \<open>What an administrator has changed stays.\<close>

lemma seed_keeps:
  assumes "seedMain logo (d, m) = (d', m')"
  shows "\<exists>cs ss n. d' = d\<lparr>nextId := n, categories := categories d @ cs, platformSettings := platformSettings d @ ss\<rparr>"
    "\<exists>ts. emailTemplates m' = emailTemplates m @ ts" "emailQueue m' = emailQueue m"
    "emailLayout m \<noteq> None \<Longrightarrow> emailLayout m' = emailLayout m"
proof -
  have cats: "\<exists>cs n. fold seedCategory ns d = d\<lparr>nextId := n, categories := categories d @ cs\<rparr>" for ns d
  proof (induction ns arbitrary: d)
    case Nil
    show ?case by (intro exI [of _ "[]"] exI [of _ "nextId d"]) simp
  next
    case (Cons x ns)
    obtain cs n where "seedCategory x d = d\<lparr>nextId := n, categories := categories d @ cs\<rparr>"
      by (cases "findRow (\<lambda>c. cat_name c = x) (categories d)")
        (auto simp: seedCategory_def intro: that [of "[]" "nextId d"])
    moreover obtain cs' n' where "fold seedCategory ns (seedCategory x d)
        = (seedCategory x d)\<lparr>nextId := n', categories := categories (seedCategory x d) @ cs'\<rparr>"
      using Cons.IH by blast
    ultimately show ?case by (intro exI [of _ "cs @ cs'"] exI [of _ n']) simp
  qed
  have sets: "\<exists>ss. fold seedSetting xs d = d\<lparr>platformSettings := platformSettings d @ ss\<rparr>" for xs d
  proof (induction xs arbitrary: d)
    case (Cons x xs)
    obtain ss where s: "seedSetting x d = d\<lparr>platformSettings := platformSettings d @ ss\<rparr>"
      by (cases "findRow (\<lambda>r. ps_key r = seed_key x) (platformSettings d)")
        (auto simp: seedSetting_def intro: that [of "[]"])
    obtain ss' where "fold seedSetting xs (seedSetting x d)
        = (seedSetting x d)\<lparr>platformSettings := platformSettings (seedSetting x d) @ ss'\<rparr>"
      using Cons.IH by blast
    then show ?case using s by (intro exI [of _ "ss @ ss'"]) simp
  qed (auto intro: exI [of _ "[]"])
  have temps: "\<exists>ts. fold seedTemplate xs m = m\<lparr>emailTemplates := emailTemplates m @ ts\<rparr>" for xs m
  proof (induction xs arbitrary: m)
    case (Cons x xs)
    obtain ts where t: "seedTemplate x m = m\<lparr>emailTemplates := emailTemplates m @ ts\<rparr>"
      by (cases "findTemplateByKey m (et_key x)") (auto simp: seedTemplate_def intro: that [of "[]"])
    obtain ts' where "fold seedTemplate xs (seedTemplate x m)
        = (seedTemplate x m)\<lparr>emailTemplates := emailTemplates (seedTemplate x m) @ ts'\<rparr>"
      using Cons.IH by blast
    then show ?case using t by (intro exI [of _ "ts @ ts'"]) simp
  qed (auto intro: exI [of _ "[]"])
  obtain cs n where c: "fold seedCategory CATEGORIES d = d\<lparr>nextId := n, categories := categories d @ cs\<rparr>" using cats by blast
  obtain ss where "fold seedSetting PLATFORM_SETTINGS (fold seedCategory CATEGORIES d)
      = (fold seedCategory CATEGORIES d)\<lparr>platformSettings := platformSettings d @ ss\<rparr>"
    using sets [of PLATFORM_SETTINGS "fold seedCategory CATEGORIES d"] by auto
  then show "\<exists>cs ss n. d' = d\<lparr>nextId := n, categories := categories d @ cs, platformSettings := platformSettings d @ ss\<rparr>"
    using assms c by (intro exI [of _ cs] exI [of _ ss] exI [of _ n]) (simp add: seedMain_def)
  obtain ts where "fold seedTemplate EMAIL_TEMPLATES m = m\<lparr>emailTemplates := emailTemplates m @ ts\<rparr>" using temps by blast
  then have m': "m' = seedLayout logo (m\<lparr>emailTemplates := emailTemplates m @ ts\<rparr>)" using assms by (simp add: seedMain_def)
  show "\<exists>ts. emailTemplates m' = emailTemplates m @ ts" "emailQueue m' = emailQueue m"
    "emailLayout m \<noteq> None \<Longrightarrow> emailLayout m' = emailLayout m"
    by (auto simp: m' seedLayout_def split: option.split)
qed

section \<open>The seeded emails\<close>

text \<open>The placeholders of a text are among \<^theory_text>\<open>names\<close>.\<close>

definition placeholdersIn :: "string list \<Rightarrow> string \<Rightarrow> bool" where
  "placeholdersIn names s \<longleftrightarrow> list_all (\<lambda>p. case p of Verbatim c \<Rightarrow> True | Token n \<Rightarrow> n \<in> set names) (pieces s)"

lemma known_placeholders:
  assumes "placeholdersIn names s" "\<And>n. n \<in> set names \<Longrightarrow> map_of vars n \<noteq> None"
  shows "substitute inherited s vars esc = Inr (filled inherited vars esc s)"
proof -
  have "\<not> list_ex (inheritedToken vars) (pieces s)"
    using assms by (fastforce simp: placeholdersIn_def list_all_iff list_ex_iff split: piece.splits elim: inheritedToken.elims)
  then show ?thesis by (simp add: substitute_pieces)
qed

lemma pieces_plain: "CHR ''{'' \<notin> set xs \<Longrightarrow> pieces (xs @ ys) = map Verbatim xs @ pieces ys"
proof (induction xs)
  case (Cons c xs)
  then have "tokenAt ((c # xs) @ ys) = None" by (auto simp: tokenAt_def)
  then show ?case using Cons by (subst pieces.simps) simp
qed simp

lemma pieces_token:
  assumes "n \<noteq> []" "list_all isWordChar n"
  shows "pieces ((''{{'' @ n @ ''}}'') @ ys) = Token n # pieces ys"
proof -
  have "\<not> isWordChar (CHR ''}'')" by code_simp
  then have "takeWhile isWordChar (n @ ''}}'' @ ys) = n" "dropWhile isWordChar (n @ ''}}'' @ ys) = ''}}'' @ ys"
    using assms(2) by (auto simp: list_all_iff takeWhile_append2 dropWhile_append2)
  then have "tokenAt ((''{{'' @ n @ ''}}'') @ ys) = Some (n, ys)" using assms(1) by (simp add: tokenAt_def)
  then show ?thesis by (subst pieces.simps) simp
qed

lemma placeholders_plain: "CHR ''{'' \<notin> set xs \<Longrightarrow> placeholdersIn names ys \<Longrightarrow> placeholdersIn names (xs @ ys)"
  by (auto simp: placeholdersIn_def pieces_plain list_all_iff)

lemma placeholders_none: "CHR ''{'' \<notin> set xs \<Longrightarrow> placeholdersIn names xs"
  using placeholders_plain [of xs names "[]"] by (simp add: placeholdersIn_def pieces.simps tokenAt_def)

lemma placeholders_token:
  "n \<in> set names \<Longrightarrow> n \<noteq> [] \<Longrightarrow> list_all isWordChar n \<Longrightarrow> placeholdersIn names ys
     \<Longrightarrow> placeholdersIn names ((''{{'' @ n @ ''}}'') @ ys)"
  using pieces_token [of n ys] by (simp add: placeholdersIn_def)

lemma word_names:
  "list_all isWordChar ''greeting''" "list_all isWordChar ''code''" "list_all isWordChar ''ttlMinutes''" "list_all isWordChar ''inviteLink''" "list_all isWordChar ''ttlHours''" "list_all isWordChar ''logoUrl''"
  by code_simp+

lemma placeholder_tokens:
  "''greeting'' \<in> set names \<Longrightarrow> placeholdersIn names ys \<Longrightarrow> placeholdersIn names (''{{greeting}}'' @ ys)"
  "''code'' \<in> set names \<Longrightarrow> placeholdersIn names ys \<Longrightarrow> placeholdersIn names (''{{code}}'' @ ys)"
  "''ttlMinutes'' \<in> set names \<Longrightarrow> placeholdersIn names ys \<Longrightarrow> placeholdersIn names (''{{ttlMinutes}}'' @ ys)"
  "''inviteLink'' \<in> set names \<Longrightarrow> placeholdersIn names ys \<Longrightarrow> placeholdersIn names (''{{inviteLink}}'' @ ys)"
  "''ttlHours'' \<in> set names \<Longrightarrow> placeholdersIn names ys \<Longrightarrow> placeholdersIn names (''{{ttlHours}}'' @ ys)"
  "''logoUrl'' \<in> set names \<Longrightarrow> placeholdersIn names ys \<Longrightarrow> placeholdersIn names (''{{logoUrl}}'' @ ys)"
  using word_names placeholders_token [of "''greeting''" names ys]
    placeholders_token [of "''code''" names ys]
    placeholders_token [of "''ttlMinutes''" names ys]
    placeholders_token [of "''inviteLink''" names ys]
    placeholders_token [of "''ttlHours''" names ys]
    placeholders_token [of "''logoUrl''" names ys] by simp_all

lemmas placeholder_intros = placeholder_tokens placeholders_plain placeholders_none

text \<open>For each template the variables of its sender.\<close>

definition CODE_NAMES :: "string list" where "CODE_NAMES = [''greeting'', ''firstName'', ''code'', ''ttlMinutes'']"
definition INVITE_NAMES :: "string list" where "INVITE_NAMES = [''greeting'', ''displayName'', ''inviteLink'', ''ttlHours'']"

lemma template_placeholders:
  "placeholdersIn CODE_NAMES (et_subject (EMAIL_TEMPLATES ! 0))" "placeholdersIn CODE_NAMES (et_htmlBody (EMAIL_TEMPLATES ! 0))"
  "placeholdersIn CODE_NAMES (et_textBody (EMAIL_TEMPLATES ! 0))" "placeholdersIn CODE_NAMES (et_subject (EMAIL_TEMPLATES ! 1))"
  "placeholdersIn CODE_NAMES (et_htmlBody (EMAIL_TEMPLATES ! 1))" "placeholdersIn CODE_NAMES (et_textBody (EMAIL_TEMPLATES ! 1))"
  "placeholdersIn INVITE_NAMES (et_subject (EMAIL_TEMPLATES ! 2))" "placeholdersIn INVITE_NAMES (et_htmlBody (EMAIL_TEMPLATES ! 2))"
  "placeholdersIn INVITE_NAMES (et_textBody (EMAIL_TEMPLATES ! 2))"
  unfolding EMAIL_TEMPLATES_def nth_Cons_0 One_nat_def numeral_2_eq_2 nth_Cons_Suc EmailTemplate.simps codeDisplayBoxHtml_def append_assoc
  by ((rule placeholder_intros | (simp add: CODE_NAMES_def INVITE_NAMES_def; fail))+)

lemma layout_placeholders:
  "placeholdersIn [''logoUrl''] (el_headerHtml (EMAIL_LAYOUT logo))" "placeholdersIn [''logoUrl''] (el_footerHtml (EMAIL_LAYOUT logo))"
  "placeholdersIn [''logoUrl''] (el_headerText (EMAIL_LAYOUT logo))" "placeholdersIn [''logoUrl''] (el_footerText (EMAIL_LAYOUT logo))"
  unfolding EMAIL_LAYOUT_def EmailLayout.simps append_assoc
  by ((rule placeholder_intros | (simp; fail))+)

lemma seeded_render:
  assumes "findTemplateByKey m key = Some t" "emailLayout m = Some (EMAIL_LAYOUT logo)"
    and "placeholdersIn names (et_subject t)" "placeholdersIn names (et_htmlBody t)" "placeholdersIn names (et_textBody t)"
    and vars: "\<And>n. n \<in> set names \<Longrightarrow> map_of vars n \<noteq> None"
  shows "\<exists>e. render inherited m key vars = Inr e"
proof -
  let ?l = "EMAIL_LAYOUT logo"
  have "\<exists>x. renderEmailTemplate inherited t vars = Inr x"
    using known_placeholders [OF assms(3) vars] known_placeholders [OF assms(4) vars] known_placeholders [OF assms(5) vars]
    by (simp add: renderEmailTemplate_def andThen_def)
  moreover have "n \<in> set [''logoUrl''] \<Longrightarrow> map_of (layoutVariables vars ?l) n \<noteq> None" for n
    by (simp add: layoutVariables_def)
  note parts = layout_placeholders [THEN known_placeholders, OF this]
  ultimately show ?thesis using assms(1,2) parts by (auto simp: render_def andThen_def Let_def)
qed

lemma seeded_templates:
  assumes "emailTemplates m = []" "emailLayout m = None" "(d', m') = seedMain logo (d, m)"
  shows "emailTemplates m' = EMAIL_TEMPLATES" "emailLayout m' = Some (EMAIL_LAYOUT logo)"
    "findTemplateByKey m' ''verification_code'' = Some (EMAIL_TEMPLATES ! 0)"
    "findTemplateByKey m' ''password_reset_code'' = Some (EMAIL_TEMPLATES ! 1)"
    "findTemplateByKey m' ''admin_invite'' = Some (EMAIL_TEMPLATES ! 2)"
proof -
  have keys: "map et_key EMAIL_TEMPLATES = [''verification_code'', ''password_reset_code'', ''admin_invite'']"
    unfolding EMAIL_TEMPLATES_def list.map EmailTemplate.simps ..
  obtain x y z where E: "EMAIL_TEMPLATES = [x, y, z]" unfolding EMAIL_TEMPLATES_def by blast
  have temps: "emailTemplates (fold seedTemplate EMAIL_TEMPLATES m) = EMAIL_TEMPLATES"
    using keys assms(1) by (simp add: E seedTemplate_def findTemplateByKey_def)
  have lay: "emailLayout (fold seedTemplate ts m) = emailLayout m" for ts
    by (induction ts arbitrary: m) (auto simp: seedTemplate_def split: option.splits)
  show m': "emailTemplates m' = EMAIL_TEMPLATES" "emailLayout m' = Some (EMAIL_LAYOUT logo)"
    using assms(2,3) temps lay [of EMAIL_TEMPLATES] by (simp_all add: seedMain_def seedLayout_def)
  show "findTemplateByKey m' ''verification_code'' = Some (EMAIL_TEMPLATES ! 0)"
    "findTemplateByKey m' ''password_reset_code'' = Some (EMAIL_TEMPLATES ! 1)"
    "findTemplateByKey m' ''admin_invite'' = Some (EMAIL_TEMPLATES ! 2)"
    using keys by (simp_all add: findTemplateByKey_def m' E)
qed

text \<open>With the seeded rows each of the three senders puts its email into the queue, whatever the names,
  the codes and the addresses are.\<close>

lemma seeded_emails_go_out:
  assumes "emailTemplates m = []" "emailLayout m = None" "(d', m') = seedMain logo (d, m)"
  shows "\<exists>e. sendVerificationCode inherited ttl email code firstName m' = Inr (enqueueEmail email e ''verification_code'' m')"
    "\<exists>e. sendPasswordResetCode inherited ttl email code firstName m' = Inr (enqueueEmail email e ''password_reset_code'' m')"
    "\<exists>e. sendAdminInvite inherited ttl url email token displayName m' = Inr (enqueueEmail email e ''admin_invite'' m')"
proof -
  note S = seeded_templates [OF assms]
  have code: "n \<in> set CODE_NAMES \<Longrightarrow> map_of (codeVariables code firstName ttl) n \<noteq> None" for n
    by (auto simp: CODE_NAMES_def codeVariables_def)
  show "\<exists>e. sendVerificationCode inherited ttl email code firstName m' = Inr (enqueueEmail email e ''verification_code'' m')"
    using seeded_render [OF S(3,2) template_placeholders(1-3) code, of inherited]
    by (auto simp: sendVerificationCode_def renderAndEnqueue_def andThen_def)
  show "\<exists>e. sendPasswordResetCode inherited ttl email code firstName m' = Inr (enqueueEmail email e ''password_reset_code'' m')"
    using seeded_render [OF S(4,2) template_placeholders(4-6) code, of inherited]
    by (auto simp: sendPasswordResetCode_def renderAndEnqueue_def andThen_def)
  let ?vars = "[(''greeting'', ''Hola '' @ displayName @ '',''), (''displayName'', displayName),
        (''inviteLink'', inviteLinkOf url token), (''ttlHours'', decimal ttl)]"
  have "n \<in> set INVITE_NAMES \<Longrightarrow> map_of ?vars n \<noteq> None" for n by (auto simp: INVITE_NAMES_def)
  note invite = seeded_render [OF S(5,2) template_placeholders(7-9) this, of inherited]
  show "\<exists>e. sendAdminInvite inherited ttl url email token displayName m' = Inr (enqueueEmail email e ''admin_invite'' m')"
    using invite by (auto simp: sendAdminInvite_def renderAndEnqueue_def andThen_def)
qed

section \<open>The seeded settings\<close>

lemma seeded_settings:
  assumes "platformSettings d = []" "(d', m') = seedMain logo (d, m)"
  shows "platformSettings d' = map seededSetting PLATFORM_SETTINGS"
proof -
  have rows: "platformSettings (fold seedSetting ss d) = platformSettings d @ map seededSetting ss"
    if "distinct (map seed_key ss)" "\<forall>s\<in>set ss. \<not> hasSetting s d" for ss d
    using that
  proof (induction ss arbitrary: d)
    case (Cons s ss)
    have one: "platformSettings (seedSetting s d) = platformSettings d @ [seededSetting s]"
      using Cons.prems(2) by (simp add: hasSetting_def seedSetting_def)
    have "\<forall>t\<in>set ss. \<not> hasSetting t (seedSetting s d)"
    proof
      fix t assume t: "t \<in> set ss"
      then have "seed_key s \<noteq> seed_key t" using Cons.prems(1) by auto
      then show "\<not> hasSetting t (seedSetting s d)"
        using Cons.prems(2) t by (simp add: hasSetting_def one findRow_append seededSetting_def)
    qed
    then show ?case using Cons.IH [of "seedSetting s d"] Cons.prems(1) one by simp
  qed simp
  have "distinct (map seed_key PLATFORM_SETTINGS)" by code_simp
  then show ?thesis
    using rows [of PLATFORM_SETTINGS "fold seedCategory CATEGORIES d"] assms by (simp add: hasSetting_def seedMain_def)
qed

lemma seeded_values:
  assumes "platformSettings d = map seededSetting PLATFORM_SETTINGS"
  shows "readCommissionPercent d = Inr 10"
    "isEnabled d ''customer.appointments.enabled''" "\<not> isEnabled d ''customer.chat.enabled''"
    "isEnabled d ''payments.payment-methods.cash.enabled''" "\<not> isEnabled d ''payments.payment-methods.card.enabled''"
    "\<not> isEnabled d ''payments.payment-methods.mercadopago-wallet.enabled''"
    "isEnabled d ''quote-negotiation.general.enabled''" "isEnabled d ''reviews.rating.enabled''"
proof -
  let ?e = "emptyDb\<lparr>platformSettings := map seededSetting PLATFORM_SETTINGS\<rparr>"
  have "getValue d k = getValue ?e k" for k by (simp add: getValue_def findSettingByKey_def assms)
  then have same: "isEnabled d k = isEnabled ?e k" "readCommissionPercent d = readCommissionPercent ?e" for k
    by (simp_all add: isEnabled_def readCommissionPercent_def findSettingByKey_def assms)
  show "readCommissionPercent d = Inr 10"
    "isEnabled d ''customer.appointments.enabled''" "\<not> isEnabled d ''customer.chat.enabled''"
    "isEnabled d ''payments.payment-methods.cash.enabled''" "\<not> isEnabled d ''payments.payment-methods.card.enabled''"
    "\<not> isEnabled d ''payments.payment-methods.mercadopago-wallet.enabled''"
    "isEnabled d ''quote-negotiation.general.enabled''" "isEnabled d ''reviews.rating.enabled''"
    unfolding same by code_simp+
qed

section \<open>The first administrator\<close>

lemma seedRoles_adds:
  assumes "seedRoles seeds a = (ids, a')"
  shows "map fst ids = map fst seeds" "adminUsers a' = adminUsers a" "\<exists>new. adminRoles a' = adminRoles a @ new"
    "(n, i) \<in> set ids \<Longrightarrow> \<exists>r. findRoleByName a' n = Some r \<and> ar_id r = i"
proof -
  have "map fst ids = map fst seeds \<and> adminUsers a' = adminUsers a \<and> (\<exists>new. adminRoles a' = adminRoles a @ new)
      \<and> (\<forall>(n, i) \<in> set ids. \<exists>r. findRoleByName a' n = Some r \<and> ar_id r = i)"
    using assms
  proof (induction seeds arbitrary: a ids a')
    case (Cons seed seeds)
    obtain n ps where seed: "seed = (n, ps)" by (cases seed)
    define step where "step = (case findRoleByName a n of
            Some r \<Rightarrow> (ar_id r, a)
          | None \<Rightarrow> (ad_nextId a, a\<lparr>ad_nextId := Suc (ad_nextId a), adminRoles := adminRoles a @
              [\<lparr>ar_id = ad_nextId a, ar_name = n, ar_permissions = ps\<rparr>]\<rparr>))"
    obtain i a1 where s: "step = (i, a1)" by (cases step)
    obtain ids2 a2 where rest: "seedRoles seeds a1 = (ids2, a2)" by (cases "seedRoles seeds a1")
    have r: "ids = (n, i) # ids2" "a' = a2" using Cons.prems by (auto simp: seed step_def [symmetric] s rest)
    have one: "adminUsers a1 = adminUsers a" "\<exists>new. adminRoles a1 = adminRoles a @ new"
        "\<exists>r. findRoleByName a1 n = Some r \<and> ar_id r = i"
      using s by (auto simp: step_def findRoleByName_def findRow_append split: option.splits)
    note IH = Cons.IH [OF rest]
    have "\<exists>r. findRoleByName a2 n = Some r \<and> ar_id r = i"
      using one(3) IH by (auto simp: findRoleByName_def findRow_append)
    then show ?case using one IH r by (auto simp: seed)
  qed auto
  then show "map fst ids = map fst seeds" "adminUsers a' = adminUsers a" "\<exists>new. adminRoles a' = adminRoles a @ new"
    "(n, i) \<in> set ids \<Longrightarrow> \<exists>r. findRoleByName a' n = Some r \<and> ar_id r = i" by auto
qed

lemma seedRoles_idle:
  assumes "\<And>n ps. (n, ps) \<in> set seeds \<Longrightarrow> findRoleByName a n \<noteq> None"
  shows "seedRoles seeds a = (map (\<lambda>(n, _). (n, ar_id (the (findRoleByName a n)))) seeds, a)"
  using assms
proof (induction seeds)
  case (Cons seed seeds)
  obtain n ps where seed: "seed = (n, ps)" by (cases seed)
  obtain r where "findRoleByName a n = Some r" using Cons.prems [of n ps] by (auto simp: seed)
  moreover have "seedRoles seeds a = (map (\<lambda>(n, _). (n, ar_id (the (findRoleByName a n)))) seeds, a)"
    by (rule Cons.IH) (use Cons.prems in auto)
  ultimately show ?case by (simp add: seed)
qed simp

lemma roles_match: "roleSeedsMatchSharedConstant"
  by code_simp

lemma super_admin_seeded: "map_of ids ''SUPER_ADMIN'' \<noteq> None" if "map fst ids = map fst ROLE_SEEDS" for ids :: "(string \<times> id) list"
proof -
  have "''SUPER_ADMIN'' \<in> set (map fst ROLE_SEEDS)" by (simp add: ROLE_SEEDS_def)
  then show ?thesis using that by (simp add: map_of_eq_None_iff flip: set_map)
qed

text \<open>A second run finds everything there, whatever the environment says then.\<close>

lemma bootstrap_idempotent:
  assumes "bootstrapMain hash environment a = (Inr (), a')"
  shows "bootstrapMain hash' environment' a' = (Inr (), a')"
proof -
  obtain ids a1 where seed: "seedRoles ROLE_SEEDS a = (ids, a1)" by (cases "seedRoles ROLE_SEEDS a")
  note S = seedRoles_adds [OF seed]
  obtain i where i: "map_of ids ''SUPER_ADMIN'' = Some i" using super_admin_seeded [OF S(1)] by blast
  have e: "ensureSuperAdmin hash environment i a1 = Inr a'"
    using assms by (auto simp: bootstrapMain_def roles_match seed i split: sum.splits)
  have roles: "adminRoles a' = adminRoles a1" and admin: "findRow (\<lambda>u. au_roleId u = i) (adminUsers a') \<noteq> None"
    using e by (auto simp: ensureSuperAdmin_def createActiveAdmin_def andThen_Inr_iff findRow_append split: option.splits if_splits)
  have there: "\<exists>j. (n, j) \<in> set ids" if "(n, ps) \<in> set ROLE_SEEDS" for n ps
    using that S(1) by (metis (no_types, lifting) fst_conv image_iff prod.collapse set_map)
  have find: "findRoleByName a' n = findRoleByName a1 n" for n by (simp add: findRoleByName_def roles)
  have "seedRoles ROLE_SEEDS a' = (map (\<lambda>(n, _). (n, ar_id (the (findRoleByName a' n)))) ROLE_SEEDS, a')"
    by (rule seedRoles_idle) (use there S(4) find in fastforce)
  moreover have "map_of (map (\<lambda>(n, _). (n, ar_id (the (findRoleByName a' n)))) ROLE_SEEDS) ''SUPER_ADMIN'' = Some i"
    using S(4) [OF map_of_SomeD [OF i]] find by (auto simp: ROLE_SEEDS_def)
  ultimately show ?thesis using admin by (auto simp: bootstrapMain_def roles_match ensureSuperAdmin_def split: option.splits)
qed

lemma requireEnv_Some: "environment n = Some v \<Longrightarrow> trim v \<noteq> [] \<Longrightarrow> requireEnv environment n = Inr v"
  by (simp add: requireEnv_def)

text \<open>On empty tables: the three roles and one administrator.\<close>

definition bootstrapped :: "(string \<Rightarrow> string) \<Rightarrow> string \<Rightarrow> string \<Rightarrow> string \<Rightarrow> administration \<Rightarrow> administration" where
  "bootstrapped hash email password displayName a = (let n = ad_nextId a in
     a\<lparr>ad_nextId := n + 4,
       adminRoles := map (\<lambda>(k, (r, ps)). \<lparr>ar_id = n + k, ar_name = r, ar_permissions = ps\<rparr>) (enumerate 0 ROLE_SEEDS),
       adminUsers := [\<lparr>au_id = n + 3, au_email = email, au_displayName = displayName, au_passwordHash = Some (hash password),
         au_roleId = n, au_status = AdminUserStatus.ACTIVE\<rparr>]\<rparr>)"

lemma bootstrap_empty:
  assumes "adminRoles a = []" "adminUsers a = []"
    and "environment ''ADMIN_BOOTSTRAP_EMAIL'' = Some email" "trim email \<noteq> []"
    and "environment ''ADMIN_BOOTSTRAP_PASSWORD'' = Some password" "trim password \<noteq> []"
    and "environment ''ADMIN_BOOTSTRAP_DISPLAY_NAME'' = Some displayName" "trim displayName \<noteq> []"
  shows "bootstrapMain hash environment a = (Inr (), bootstrapped hash email password displayName a)"
proof -
  obtain p q r where R: "ROLE_SEEDS = [(''SUPER_ADMIN'', p), (''CONFIG_MANAGER'', q), (''SUPPORT_VIEWER'', r)]"
    unfolding ROLE_SEEDS_def by blast
  have "requireEnv environment ''ADMIN_BOOTSTRAP_EMAIL'' = Inr email"
    "requireEnv environment ''ADMIN_BOOTSTRAP_PASSWORD'' = Inr password"
    "requireEnv environment ''ADMIN_BOOTSTRAP_DISPLAY_NAME'' = Inr displayName"
    using assms(3-8) by (simp_all add: requireEnv_Some)
  then show ?thesis using assms(1,2)
    by (simp add: bootstrapMain_def roles_match R bootstrapped_def findRoleByName_def ensureSuperAdmin_def andThen_def
        createActiveAdmin_def findAdminByEmail_def Let_def eval_nat_numeral)
qed

lemma super_admin_all: "(''SUPER_ADMIN'', ps) \<in> set ROLE_SEEDS \<Longrightarrow> p \<in> set ps"
  by (cases p) (auto simp: ROLE_SEEDS_def)

lemma bootstrapped_admin:
  fixes hash email password displayName a
  defines "a' \<equiv> bootstrapped hash email password displayName a"
  shows "findAdminByEmail a' email = Some \<lparr>au_id = ad_nextId a + 3, au_email = email, au_displayName = displayName,
      au_passwordHash = Some (hash password), au_roleId = ad_nextId a, au_status = AdminUserStatus.ACTIVE\<rparr>"
    "p \<in> set (getGrantedPermissions a' (ad_nextId a + 3))" "panelSafe a'"
proof -
  obtain ps q r where R: "ROLE_SEEDS = [(''SUPER_ADMIN'', ps), (''CONFIG_MANAGER'', q), (''SUPPORT_VIEWER'', r)]"
    unfolding ROLE_SEEDS_def by blast
  have all: "p \<in> set ps" for p using super_admin_all [of ps p] by (simp add: R)
  show "findAdminByEmail a' email = Some \<lparr>au_id = ad_nextId a + 3, au_email = email, au_displayName = displayName,
      au_passwordHash = Some (hash password), au_roleId = ad_nextId a, au_status = AdminUserStatus.ACTIVE\<rparr>"
    by (simp add: a'_def bootstrapped_def findAdminByEmail_def Let_def)
  show "p \<in> set (getGrantedPermissions a' (ad_nextId a + 3))"
    using all by (simp add: a'_def bootstrapped_def R getGrantedPermissions_def findEffectivePermissions_def findAdminById_def
        permissionsOfRole_def findRoleById_def Let_def)
  show "panelSafe a'"
    using all by (simp add: a'_def bootstrapped_def R panelSafe_def panelOk_def managed_def holdsManage_def keyed_def
        permissionsOfRole_def findRoleById_def Let_def)
qed

section \<open>The command line\<close>

lemma parseFlags_value:
  "\<not> startsWith v ''--'' \<Longrightarrow> n \<noteq> ''force'' \<Longrightarrow> parseFlags ((''--'' @ n) # v # rest) flags = parseFlags rest (flags(n := Some (Some v)))"
  by (simp add: startsWith_def)

lemma parseFlags_force: "parseFlags (''--force'' # rest) flags = parseFlags rest (flags(''force'' := Some None))"
  by (simp add: startsWith_def)

lemma parseFlags_literals:
  "\<not> startsWith v ''--'' \<Longrightarrow> parseFlags (''--email'' # v # rest) flags = parseFlags rest (flags(''email'' := Some (Some v)))"
  "\<not> startsWith v ''--'' \<Longrightarrow> parseFlags (''--password'' # v # rest) flags = parseFlags rest (flags(''password'' := Some (Some v)))"
  "\<not> startsWith v ''--'' \<Longrightarrow> parseFlags (''--name'' # v # rest) flags = parseFlags rest (flags(''name'' := Some (Some v)))"
  "\<not> startsWith v ''--'' \<Longrightarrow> parseFlags (''--role'' # v # rest) flags = parseFlags rest (flags(''role'' := Some (Some v)))"
  using parseFlags_value [of v "''email''"] parseFlags_value [of v "''password''"] parseFlags_value [of v "''name''"]
    parseFlags_value [of v "''role''"] by simp_all

lemma normalize_role: "role \<in> set SEEDED_ADMIN_ROLE_NAMES \<Longrightarrow> normalizeRoleName role = Some role"
  by (auto simp: SEEDED_ADMIN_ROLE_NAMES_def) code_simp+

text \<open>Printed arguments are read back.\<close>

definition commandLine :: "ParsedCreateAdminUserArgs \<Rightarrow> string list" where
  "commandLine args = [''--email'', arg_email args, ''--password'', arg_password args, ''--name'', arg_name args,
     ''--role'', arg_role args] @ (if arg_force args then [''--force''] else [])"

lemma command_line_read_back:
  assumes "arg_role args \<in> set SEEDED_ADMIN_ROLE_NAMES" "trim (arg_email args) = arg_email args" "trim (arg_name args) = arg_name args"
    and "arg_email args \<noteq> []" "arg_name args \<noteq> []" "arg_password args \<noteq> []"
    and "\<not> startsWith (arg_email args) ''--''" "\<not> startsWith (arg_password args) ''--''" "\<not> startsWith (arg_name args) ''--''"
  shows "parseArgs (commandLine args) = Inr args"
proof -
  have role: "\<not> startsWith (arg_role args) ''--''" "trim (arg_role args) \<noteq> []"
    using assms(1) unfolding SEEDED_ADMIN_ROLE_NAMES_def by auto (code_simp+)
  let ?flags = "(\<lambda>_. None)(''email'' := Some (Some (arg_email args)), ''password'' := Some (Some (arg_password args)),
      ''name'' := Some (Some (arg_name args)), ''role'' := Some (Some (arg_role args)))"
  have line: "parseFlags ([''--email'', arg_email args, ''--password'', arg_password args, ''--name'', arg_name args,
      ''--role'', arg_role args] @ rest) (\<lambda>_. None) = parseFlags rest ?flags" for rest
    unfolding append.simps parseFlags_literals(1) [OF assms(7)] parseFlags_literals(2) [OF assms(8)]
      parseFlags_literals(3) [OF assms(9)] parseFlags_literals(4) [OF role(1)] ..
  have "parseFlags (commandLine args) (\<lambda>_. None) = Inr (if arg_force args then ?flags(''force'' := Some None) else ?flags)"
    unfolding commandLine_def line by (simp only: parseFlags_force parseFlags.simps(1) split: if_split) simp
  then show ?thesis
    using assms(1-6) role(2) normalize_role [OF assms(1)]
    by (cases "arg_force args") (simp_all add: parseArgs_def andThen_def givenText_def absentOr_def Let_def)
qed

text \<open>The command creates an ACTIVE administrator or, only when forced, changes one; the status of an
  administrator that exists stays, and no role changes.\<close>

lemma create_admin_result:
  assumes "createAdminUserMain hash argv a = Inr a'"
  shows "adminRoles a' = adminRoles a"
    "map au_email (adminUsers a') = map au_email (adminUsers a)
       \<and> map au_status (adminUsers a') = map au_status (adminUsers a) \<and> ''--force'' \<in> set argv
     \<or> (\<exists>u. adminUsers a' = adminUsers a @ [u] \<and> au_status u = AdminUserStatus.ACTIVE \<and> findAdminByEmail a (au_email u) = None)"
proof -
  have forced: "parseFlags argv flags = Inr flags' \<Longrightarrow> flags' ''force'' = Some None \<Longrightarrow> flags ''force'' = Some None \<or> ''--force'' \<in> set argv"
    for flags flags'
  proof (induction argv flags rule: parseFlags.induct)
    case (2 token rest flags)
    have t: "startsWith token ''--'' \<Longrightarrow> drop 2 token = ''force'' \<Longrightarrow> token = ''--force''"
      using append_take_drop_id [of 2 token] by (simp add: startsWith_def numeral_2_eq_2)
    show ?case
    proof (cases "startsWith token ''--'' \<and> drop 2 token \<noteq> ''force''")
      case True
      then obtain v rest' where r: "rest = v # rest'" "\<not> startsWith v ''--''"
          "parseFlags rest' (flags(drop 2 token := Some (Some v))) = Inr flags'"
        using 2(4) by (auto simp: Let_def split: list.splits if_splits)
      then have "(flags(drop 2 token := Some (Some v))) ''force'' = Some None \<or> ''--force'' \<in> set rest'"
        using 2(3) [OF _ refl _ r(1,2,3) 2(5)] True by blast
      then show ?thesis using True r(1) by (auto split: if_splits)
    next
      case False
      then show ?thesis using 2 t by (auto simp: Let_def split: if_splits)
    qed
  qed simp
  obtain args where p: "parseArgs argv = Inr args" and "runCreateAdminUser hash args a = Inr a'"
    using assms by (auto simp: createAdminUserMain_def andThen_Inr_iff split: option.splits)
  moreover from p obtain flags where "parseFlags argv (\<lambda>_. None) = Inr flags" "arg_force args \<longleftrightarrow> flags ''force'' = Some None"
    by (auto simp: parseArgs_def andThen_Inr_iff Let_def split: option.splits if_splits)
  ultimately have "arg_force args \<Longrightarrow> ''--force'' \<in> set argv" and run: "runCreateAdminUser hash args a = Inr a'"
    using forced by auto
  then show "adminRoles a' = adminRoles a"
    "map au_email (adminUsers a') = map au_email (adminUsers a)
       \<and> map au_status (adminUsers a') = map au_status (adminUsers a) \<and> ''--force'' \<in> set argv
     \<or> (\<exists>u. adminUsers a' = adminUsers a @ [u] \<and> au_status u = AdminUserStatus.ACTIVE \<and> findAdminByEmail a (au_email u) = None)"
    by (auto simp: runCreateAdminUser_def andThen_Inr_iff createActiveAdmin_def updateMany_def comp_def if_distrib cong: if_cong
        split: option.splits if_splits)
qed

end
