(* ===== verification/Installation_Properties.thy ===== *)
theory Installation_Properties
  imports Installation_Facts Account_Findings
begin

text \<open>
  The property of a fresh installation, with a concrete one, and what the command for administrators can
  do to it.
\<close>

text \<open>
  C24.  A fresh installation works.  After the seed and the bootstrap on empty tables the market's system
  is in an initial state with a readable commission of 10 percent; the panel is manageable; the first
  administrator logs in with the address and the password of the environment and holds every permission;
  each sender of emails finds its template and its layout and leaves no placeholder unfilled; and running
  both again, in any environment, changes nothing.
\<close>

theorem fresh_installation_works:
  assumes "initialDb d" "platformSettings d = []" "emailTemplates m = []" "emailLayout m = None"
    and "adminRoles a = []" "adminUsers a = []"
    and "environment ''ADMIN_BOOTSTRAP_EMAIL'' = Some email" "trim email \<noteq> []"
    and "environment ''ADMIN_BOOTSTRAP_PASSWORD'' = Some password" "trim password \<noteq> []"
    and "environment ''ADMIN_BOOTSTRAP_DISPLAY_NAME'' = Some displayName" "trim displayName \<noteq> []"
    and "\<And>p. verifyPassword cr (hash p) p \<and> hash p \<noteq> []"
    and "seedMain logo (d, m) = (d', m')" "bootstrapMain hash environment a = (answer, a')"
  shows "answer = Inr () \<and> reach (d', []) \<and> readCommissionPercent d' = Inr 10 \<and> panelSafe a'
    \<and> (\<exists>u session a''. adminLogin cr decoy now token email password (d', a') = Inr ((u, session), a'')
         \<and> au_email u = email \<and> (\<forall>p. p \<in> set (getGrantedPermissions a'' (au_id u))))
    \<and> (\<forall>recipient code firstName ttl. \<exists>e. sendVerificationCode inherited ttl recipient code firstName m'
         = Inr (enqueueEmail recipient e ''verification_code'' m'))
    \<and> (\<forall>recipient code firstName ttl. \<exists>e. sendPasswordResetCode inherited ttl recipient code firstName m'
         = Inr (enqueueEmail recipient e ''password_reset_code'' m'))
    \<and> (\<forall>recipient url invitation name ttl. \<exists>e. sendAdminInvite inherited ttl url recipient invitation name m'
         = Inr (enqueueEmail recipient e ''admin_invite'' m'))
    \<and> seedMain logo' (d', m') = (d', m') \<and> bootstrapMain hash' environment' a' = (Inr (), a')"
proof -
  have boot: "answer = Inr ()" "a' = bootstrapped hash email password displayName a"
    using bootstrap_empty [OF assms(5-12), of hash] assms(15) by simp_all
  note B = bootstrapped_admin [where hash = hash and email = email and password = password and displayName = displayName and a = a]
  obtain cs ss n where "d' = d\<lparr>nextId := n, categories := categories d @ cs, platformSettings := platformSettings d @ ss\<rparr>"
    using seed_keeps(1) [OF assms(14)] by blast
  then have "reach (d', [])" using assms(1) by (auto simp: initialDb_def intro: reach.Init)
  moreover have "readCommissionPercent d' = Inr 10"
    by (rule seeded_values(1)) (rule seeded_settings [OF assms(2) assms(14) [symmetric]])
  moreover have "\<exists>u session a''. adminLogin cr decoy now token email password (d', a') = Inr ((u, session), a'')
         \<and> au_email u = email \<and> (\<forall>p. p \<in> set (getGrantedPermissions a'' (au_id u)))"
  proof -
    let ?u = "\<lparr>au_id = ad_nextId a + 3, au_email = email, au_displayName = displayName,
      au_passwordHash = Some (hash password), au_roleId = ad_nextId a, au_status = AdminUserStatus.ACTIVE\<rparr>"
    obtain session a'' where s: "createAdminSession cr d' now token (au_id ?u) a' = (session, a'')"
      by (cases "createAdminSession cr d' now token (au_id ?u) a'")
    have "adminLogin cr decoy now token email password (d', a') = Inr ((?u, session), a'')"
      using B(1) assms(13) s by (simp add: adminLogin_def boot(2) nonEmpty_def)
    moreover have "getGrantedPermissions a'' i = getGrantedPermissions a' i" for i
    proof -
      have rows: "adminUsers a'' = adminUsers a'" "adminRoles a'' = adminRoles a'" using s by (auto simp: createAdminSession_def Let_def)
      then have "permissionsOfRole a'' = permissionsOfRole a'" by (simp add: fun_eq_iff permissionsOfRole_def findRoleById_def)
      then show ?thesis using rows
        by (cases "findAdminById a' i") (simp_all add: getGrantedPermissions_def findEffectivePermissions_def findAdminById_def)
    qed
    ultimately show ?thesis using B(2) boot(2) by fastforce
  qed
  moreover note seeded_emails_go_out [OF assms(3,4) assms(14) [symmetric]]
  moreover have "seedMain logo' (d', m') = (d', m')" using seed_idempotent [of logo' logo "(d, m)"] assms(14) by simp
  moreover have "bootstrapMain hash' environment' a' = (Inr (), a')"
    using bootstrap_idempotent assms(15) boot(1) by blast
  ultimately show ?thesis using boot B(3) by simp
qed

definition demoEnvironment :: "string \<Rightarrow> string option" where
  "demoEnvironment = map_of [(''ADMIN_BOOTSTRAP_EMAIL'', ''root@x''), (''ADMIN_BOOTSTRAP_PASSWORD'', ''password''),
     (''ADMIN_BOOTSTRAP_DISPLAY_NAME'', ''Root'')]"

definition emptyAdministration :: administration where
  "emptyAdministration = \<lparr>ad_nextId = 0, adminRoles = [], adminUsers = [], adminInvites = [], adminSessions = [], ad_outbox = []\<rparr>"

definition emptyMailbox :: mailbox where
  "emptyMailbox = \<lparr>emailTemplates = [], emailLayout = None, emailQueue = []\<rparr>"

definition installed :: administration where
  "installed = snd (bootstrapMain (hashPassword demoCrypto 0) demoEnvironment emptyAdministration)"

lemma fresh_installation_works_witness:
  "readCommissionPercent (fst (seedMain None (emptyDb, emptyMailbox))) = Inr 10 \<and> panelSafe installed
     \<and> bootstrapMain (hashPassword demoCrypto 1) (\<lambda>_. None) installed = (Inr (), installed)"
proof -
  have env: "demoEnvironment ''ADMIN_BOOTSTRAP_EMAIL'' = Some ''root@x''" "trim ''root@x'' \<noteq> []"
    "demoEnvironment ''ADMIN_BOOTSTRAP_PASSWORD'' = Some ''password''" "trim ''password'' \<noteq> []"
    "demoEnvironment ''ADMIN_BOOTSTRAP_DISPLAY_NAME'' = Some ''Root''" "trim ''Root'' \<noteq> []" by code_simp+
  have hash: "verifyPassword demoCrypto (hashPassword demoCrypto 0 p) p \<and> hashPassword demoCrypto 0 p \<noteq> []" for p
    by (simp add: demoCrypto_def)
  have empty: "initialDb emptyDb" "platformSettings emptyDb = []" "emailTemplates emptyMailbox = []" "emailLayout emptyMailbox = None"
    "adminRoles emptyAdministration = []" "adminUsers emptyAdministration = []"
    by (simp_all add: initialDb_def emptyDb_def emptyMailbox_def emptyAdministration_def)
  show ?thesis
    using fresh_installation_works [where environment = demoEnvironment and logo = None
        and answer = "fst (bootstrapMain (hashPassword demoCrypto 0) demoEnvironment emptyAdministration)",
        OF empty env hash prod.collapse [symmetric] prod.collapse [symmetric]]
    unfolding installed_def by blast
qed

section \<open>The command for administrators\<close>

text \<open>The command that changes an administrator does not ask the guard of the panel.  It can take the
  role of the only one who manages administrators; the bootstrap, which then looks for an administrator
  with that role, fails on the address it finds taken.\<close>

lemma forced_command_locks_out:
  "let args = [''--email'', ''root@x'', ''--password'', ''password'', ''--name'', ''Root'', ''--role'', ''support_viewer'', ''--force''];
       a = projr (createAdminUserMain (hashPassword demoCrypto 0) args installed)
   in \<not> managed a \<and> fst (bootstrapMain (hashPassword demoCrypto 0) demoEnvironment a) = Inl (DatabaseError UNIQUE_VIOLATION)"
  by code_simp

lemma command_needs_force:
  "createAdminUserMain (hashPassword demoCrypto 0)
     [''--email'', '' root@x '', ''--password'', ''password'', ''--name'', ''Root'', ''--role'', ''SUPER_ADMIN''] installed
   = Inl (AdminUserExists ''root@x'')"
  by code_simp

end
