(* ===== verification/Configuration.thy ===== *)
theory Configuration
  imports Settings_Facts Mercado_Pago Admin_Access
begin

text \<open>
  The configuration the program reads from its environment (src/src/config/configuration.ts).  The
  resolution of a relative path against the working directory is a parameter.  The lemmas: every number is
  positive whatever the environment says, numbers and origins are read back, the path of the panel begins
  with a slash.
\<close>

section \<open>Numbers, flags, lists and paths\<close>

text \<open>\<^theory_text>\<open>Number.parseInt\<close> in base 10 reads the digits after blanks and a sign, whatever
  follows; a number that rounds beyond the doubles is infinite.  Below that, what a double cannot hold
  exactly is not rounded here.\<close>

definition DOUBLE_OVERFLOW :: nat where "DOUBLE_OVERFLOW = 2 ^ 1024 - 2 ^ 970"

definition overflows :: "nat \<Rightarrow> bool" where
  "overflows n \<longleftrightarrow> DOUBLE_OVERFLOW \<le> n"

lemma not_overflows: "n < 9007199254740992 \<Longrightarrow> \<not> overflows n"
  by (simp add: overflows_def DOUBLE_OVERFLOW_def)

definition parseInt :: "string \<Rightarrow> js_number" where
  "parseInt value = (let s = dropWhile isSpace value;
       (negative, r) = (case s of
            [] \<Rightarrow> (False, [])
          | c # cs \<Rightarrow> if c = CHR ''-'' then (True, cs) else if c = CHR ''+'' then (False, cs) else (False, s));
       digits = takeWhile isDigit r;
       n = digitsVal 10 digits
     in if digits = [] then NaN
        else if overflows n then Infinite (\<not> negative)
        else Finite (if negative then - of_nat n else of_nat n))"

definition parsePort :: "string option \<Rightarrow> int \<Rightarrow> int" where
  "parsePort value fallback = (case (case value of None \<Rightarrow> NaN | Some v \<Rightarrow> parseInt v) of
       Finite q \<Rightarrow> if q > 0 then \<lfloor>q\<rfloor> else fallback
     | _ \<Rightarrow> fallback)"

definition DEFAULT_CORS_ALLOWED_ORIGINS :: "string list" where
  "DEFAULT_CORS_ALLOWED_ORIGINS = [''http://localhost:8081'', ''http://localhost:19006'']"

definition parseBoolean :: "string option \<Rightarrow> bool \<Rightarrow> bool" where
  "parseBoolean value fallback = (case value of None \<Rightarrow> fallback | Some v \<Rightarrow> toLowerCase (trim v) = ''true'')"

definition parseCorsAllowedOrigins :: "string option \<Rightarrow> string list" where
  "parseCorsAllowedOrigins value = (case value of
       None \<Rightarrow> DEFAULT_CORS_ALLOWED_ORIGINS
     | Some v \<Rightarrow> if trim v = [] then DEFAULT_CORS_ALLOWED_ORIGINS
         else filter (\<lambda>origin. length origin > 0) (map trim (splitOn (CHR '','') v)))"

definition DEFAULT_ADMIN_PANEL_PATH :: string where "DEFAULT_ADMIN_PANEL_PATH = ''/admin''"

definition parseAdminPanelPath :: "string option \<Rightarrow> string" where
  "parseAdminPanelPath value = (case value of
       None \<Rightarrow> DEFAULT_ADMIN_PANEL_PATH
     | Some v \<Rightarrow> if trim v = [] then DEFAULT_ADMIN_PANEL_PATH
         else let trimmed = trim v;
                  withLeadingSlash = (if startsWith trimmed ''/'' then trimmed else CHR ''/'' # trimmed)
              in if length withLeadingSlash > 1 \<and> last withLeadingSlash = CHR ''/''
                 then butlast withLeadingSlash else withLeadingSlash)"

section \<open>The configuration\<close>

record DatabaseConfig =
  dc_host :: string
  dc_port :: int
  dc_name :: string
  dc_user :: string
  dc_password :: string
  dc_poolMax :: int

record CodeConfig =
  cc_codeTtlMinutes :: int
  cc_resendCooldownSeconds :: int
  cc_maxAttempts :: int

record AppConfig =
  port :: int
  database :: DatabaseConfig
  corsAllowedOrigins :: "string list"
  redisHost :: string
  redisPort :: int
  redisPassword :: "string option"
  emailVerification :: CodeConfig
  sessionTtlHours :: int
  passwordReset :: CodeConfig
  adminBootstrapEmail :: "string option"
  adminBootstrapPassword :: "string option"
  adminBootstrapDisplayName :: "string option"
  adminCredentialsEncryptionKey :: "string option"
  graphqlIntrospectionEnabled :: bool
  adminPanelPath :: string
  storageBaseUrl :: string
  storageSigningSecret :: "string option"
  storageUploadsDir :: string
  adminInvite :: InvitePolicy
  adminPanelPublicUrl :: string
  mailpitSmtpHost :: string
  mailpitSmtpPort :: int

definition orElse :: "string option \<Rightarrow> string \<Rightarrow> string" where
  "orElse value fallback = (case value of None \<Rightarrow> fallback | Some v \<Rightarrow> v)"

definition configuration :: "(string \<Rightarrow> string) \<Rightarrow> (string \<Rightarrow> string option) \<Rightarrow> AppConfig" where
  "configuration resolvePath env =
     (let p = parsePort (env ''PORT'') 3000; panelPath = parseAdminPanelPath (env ''ADMIN_PANEL_PATH'') in
      \<lparr>port = p,
       database = \<lparr>dc_host = orElse (env ''DATABASE_HOST'') ''localhost'',
         dc_port = parsePort (env ''DATABASE_PORT'') 5432,
         dc_name = orElse (env ''DATABASE_NAME'') ''goservice_dev'',
         dc_user = orElse (env ''DATABASE_USER'') ''goservice_dev'',
         dc_password = orElse (env ''DATABASE_PASSWORD'') [],
         dc_poolMax = parsePort (env ''DATABASE_POOL_MAX'') 10\<rparr>,
       corsAllowedOrigins = parseCorsAllowedOrigins (env ''CORS_ALLOWED_ORIGINS''),
       redisHost = orElse (env ''REDIS_HOST'') ''localhost'',
       redisPort = parsePort (env ''REDIS_PORT'') 6379,
       redisPassword = env ''REDIS_PASSWORD'',
       emailVerification = \<lparr>cc_codeTtlMinutes = parsePort (env ''EMAIL_VERIFICATION_CODE_TTL_MINUTES'') 15,
         cc_resendCooldownSeconds = parsePort (env ''EMAIL_VERIFICATION_RESEND_COOLDOWN_SECONDS'') 60,
         cc_maxAttempts = parsePort (env ''EMAIL_VERIFICATION_MAX_ATTEMPTS'') 5\<rparr>,
       sessionTtlHours = parsePort (env ''SESSION_TTL_HOURS'') 720,
       passwordReset = \<lparr>cc_codeTtlMinutes = parsePort (env ''PASSWORD_RESET_CODE_TTL_MINUTES'') 15,
         cc_resendCooldownSeconds = parsePort (env ''PASSWORD_RESET_RESEND_COOLDOWN_SECONDS'') 60,
         cc_maxAttempts = parsePort (env ''PASSWORD_RESET_MAX_ATTEMPTS'') 5\<rparr>,
       adminBootstrapEmail = env ''ADMIN_BOOTSTRAP_EMAIL'',
       adminBootstrapPassword = env ''ADMIN_BOOTSTRAP_PASSWORD'',
       adminBootstrapDisplayName = env ''ADMIN_BOOTSTRAP_DISPLAY_NAME'',
       adminCredentialsEncryptionKey = env ''ADMIN_CREDENTIALS_ENCRYPTION_KEY'',
       graphqlIntrospectionEnabled = parseBoolean (env ''GRAPHQL_INTROSPECTION_ENABLED'') False,
       adminPanelPath = panelPath,
       storageBaseUrl = orElse (env ''STORAGE_LOCAL_BASE_URL'') ''http://localhost:3000'',
       storageSigningSecret = env ''STORAGE_LOCAL_SIGNING_SECRET'',
       storageUploadsDir = resolvePath (orElse (env ''STORAGE_LOCAL_UPLOADS_DIR'') ''./var/uploads''),
       adminInvite = \<lparr>ip_ttlHours = parsePort (env ''ADMIN_INVITE_TTL_HOURS'') 72,
         ip_resendCooldownSeconds = parsePort (env ''ADMIN_INVITE_RESEND_COOLDOWN_SECONDS'') 60\<rparr>,
       adminPanelPublicUrl = orElse (env ''ADMIN_PANEL_PUBLIC_URL'') (''http://localhost:'' @ decimal (nat p) @ panelPath),
       mailpitSmtpHost = orElse (env ''MAILPIT_SMTP_HOST'') ''localhost'',
       mailpitSmtpPort = parsePort (env ''MAILPIT_SMTP_PORT'') 1025\<rparr>)"

section \<open>What it holds\<close>

lemma parseInt_integer: "parseInt v = Finite q \<Longrightarrow> \<exists>n. q = of_int n"
  by (auto simp: parseInt_def Let_def split: prod.splits if_splits intro: exI [of _ "int n" for n] exI [of _ "- int n" for n])

lemma parsePort_positive: "0 < fallback \<Longrightarrow> 0 < parsePort v fallback"
  by (auto simp: parsePort_def split: js_number.splits option.splits dest: parseInt_integer)

text \<open>Every number of the configuration is positive.\<close>

lemma configuration_positive:
  fixes resolvePath env
  defines "c \<equiv> configuration resolvePath env"
  shows "list_all (\<lambda>n. 0 < n) [port c, dc_port (database c), dc_poolMax (database c), redisPort c,
    cc_codeTtlMinutes (emailVerification c), cc_resendCooldownSeconds (emailVerification c), cc_maxAttempts (emailVerification c),
    sessionTtlHours c, cc_codeTtlMinutes (passwordReset c), cc_resendCooldownSeconds (passwordReset c),
    cc_maxAttempts (passwordReset c), ip_ttlHours (adminInvite c), ip_resendCooldownSeconds (adminInvite c), mailpitSmtpPort c]"
  by (simp add: c_def configuration_def Let_def parsePort_positive)

text \<open>A number in digits is read back; one that is not a number, or is not positive, is the default.\<close>

lemma digit_facts: "isDigit c \<Longrightarrow> \<not> isSpace c" "isDigit c \<Longrightarrow> c \<noteq> CHR ''-''" "isDigit c \<Longrightarrow> c \<noteq> CHR ''+''"
  by (auto simp: isDigit_def digitVal_def isSpace_def Let_def split: if_splits)

lemma parsePort_decimal:
  assumes "0 < n" "n < DOUBLE_OVERFLOW"
  shows "parsePort (Some (decimal n)) fallback = int n"
proof -
  have d: "list_all isDigit (decimal n)" "decimal n \<noteq> []" "digitsVal 10 (decimal n) = n" using digits_decimal [of n] by auto
  obtain c cs where s: "decimal n = c # cs" using d(2) by (cases "decimal n") auto
  have "isDigit c" using d(1) s by simp
  moreover have "takeWhile isDigit cs = cs" using d(1) by (simp add: s list_all_iff takeWhile_eq_all_conv)
  ultimately have "parseInt (decimal n) = Finite (of_nat n)"
    using d(3) assms(2) digit_facts by (simp add: parseInt_def s Let_def overflows_def del: takeWhile_eq_all_conv)
  then show ?thesis using assms(1) by (simp add: parsePort_def)
qed

lemma parsePort_junk:
  "parsePort (Some ''3000x'') 1 = 3000" "parsePort (Some ''x'') 1 = 1" "parsePort (Some ''-5'') 1 = 1" "parsePort (Some ''1e3'') 7 = 1"
  by (simp_all add: parsePort_def parseInt_def isSpace_def isDigit_def digitVal_def digitsVal_def Let_def not_overflows)

text \<open>A list of origins is read back.\<close>

primrec joinWith :: "char \<Rightarrow> string list \<Rightarrow> string" where
  "joinWith c [] = []"
| "joinWith c (s # ss) = (if ss = [] then s else s @ c # joinWith c ss)"

lemma splitOn_plain: "c \<notin> set s \<Longrightarrow> splitOn c s = [s]"
  by (induction s) auto

lemma splitOn_append: "c \<notin> set s \<Longrightarrow> splitOn c (s @ c # t) = s # splitOn c t"
  by (induction s) auto

lemma splitOn_joinWith: "ss \<noteq> [] \<Longrightarrow> (\<And>s. s \<in> set ss \<Longrightarrow> c \<notin> set s) \<Longrightarrow> splitOn c (joinWith c ss) = ss"
  by (induction ss) (auto simp: splitOn_plain splitOn_append)

lemma origins_read_back:
  assumes "origins \<noteq> []" "\<And>origin. origin \<in> set origins \<Longrightarrow> CHR '','' \<notin> set origin \<and> origin \<noteq> [] \<and> trim origin = origin"
    and "trim (joinWith (CHR '','') origins) \<noteq> []"
  shows "parseCorsAllowedOrigins (Some (joinWith (CHR '','') origins)) = origins"
proof -
  have "splitOn (CHR '','') (joinWith (CHR '','') origins) = origins" by (rule splitOn_joinWith) (use assms in auto)
  moreover have "map trim origins = origins" using assms(2) by (simp add: map_idI)
  ultimately show ?thesis using assms(2,3) by (simp add: parseCorsAllowedOrigins_def filter_id_conv)
qed

lemma origins_given: "origin \<in> set (parseCorsAllowedOrigins v) \<Longrightarrow> origin \<noteq> []"
  by (auto simp: parseCorsAllowedOrigins_def DEFAULT_CORS_ALLOWED_ORIGINS_def split: option.splits if_splits)

text \<open>The path of the panel begins with a slash.  It ends with one only if the value is nothing but
  slashes or ends with two; the comment says that it never does.\<close>

lemma panel_path_slash: "hd (parseAdminPanelPath v) = CHR ''/''"
proof -
  have "length s > 1 \<Longrightarrow> hd (butlast s) = hd s" for s :: string by (cases s rule: rev_cases) (auto simp: hd_append)
  then show ?thesis
    by (auto simp: parseAdminPanelPath_def DEFAULT_ADMIN_PANEL_PATH_def Let_def startsWith_def take_Suc split: option.splits)
qed

lemma panel_path_trailing:
  "parseAdminPanelPath (Some '' panel/ '') = ''/panel''" "parseAdminPanelPath (Some ''/panel//'') = ''/panel/''"
  by code_simp+

lemma no_environment:
  "corsAllowedOrigins (configuration r (\<lambda>_. None)) = [''http://localhost:8081'', ''http://localhost:19006'']"
  "adminPanelPublicUrl (configuration r (\<lambda>_. None)) = ''http://localhost:3000/admin''"
  "\<not> graphqlIntrospectionEnabled (configuration r (\<lambda>_. None))"
proof -
  have "decimal 3000 = ''3000''" by code_simp
  then show "adminPanelPublicUrl (configuration r (\<lambda>_. None)) = ''http://localhost:3000/admin''"
    by (simp add: configuration_def parsePort_def orElse_def parseAdminPanelPath_def DEFAULT_ADMIN_PANEL_PATH_def Let_def)
qed (simp_all add: configuration_def parseCorsAllowedOrigins_def DEFAULT_CORS_ALLOWED_ORIGINS_def parseBoolean_def Let_def)

end
