(* ===== verification/Credentials.thy ===== *)
theory Credentials
  imports Settings_Facts Accounts
begin

text \<open>
  The secrets of the settings and the identities of other providers: the key, the encryption and the
  preview of a secret (src/src/platform-admin/platform-settings/adapters), what the panel is shown of a
  setting, and the validation of an identity token (src/src/auth/adapters and config).  The cipher and the
  verification of a signed token are library code and parameters.
\<close>

section \<open>The key\<close>

text \<open>A byte is a number below 256.  The decoding is that of \<^theory_text>\<open>Buffer.from\<close> on a text
  of the pattern: six bits a character, and the bits that fill no byte are dropped.\<close>

definition base64Value :: "char \<Rightarrow> nat" where
  "base64Value c = (let n = of_char c in
     if 65 \<le> n \<and> n \<le> 90 then n - 65
     else if 97 \<le> n \<and> n \<le> 122 then n - 71
     else if 48 \<le> n \<and> n \<le> 57 then n + 4
     else if n = 43 then 62 else if n = 47 then 63 else 64)"

definition BASE64_PATTERN :: "string \<Rightarrow> bool" where
  "BASE64_PATTERN s = (let rest = dropWhile (\<lambda>c. base64Value c < 64) s in
     takeWhile (\<lambda>c. base64Value c < 64) s \<noteq> [] \<and> rest \<in> {[], ''='', ''==''})"

fun bytesOf :: "nat list \<Rightarrow> nat list" where
  "bytesOf (a # b # c # d # rest) = (a * 4 + b div 16) # (b mod 16 * 16 + c div 4) # (c mod 4 * 64 + d) # bytesOf rest"
| "bytesOf [a, b, c] = [a * 4 + b div 16, b mod 16 * 16 + c div 4]"
| "bytesOf [a, b] = [a * 4 + b div 16]"
| "bytesOf _ = []"

definition fromBase64 :: "string \<Rightarrow> nat list" where
  "fromBase64 s = bytesOf (map base64Value (takeWhile (\<lambda>c. base64Value c < 64) s))"

definition KEY_LENGTH_BYTES :: nat where "KEY_LENGTH_BYTES = 32"
definition IV_LENGTH_BYTES :: nat where "IV_LENGTH_BYTES = 12"

datatype credential_error = InvalidCredentialEncryptionKey | NotAuthentic

text \<open>The key is kept after its first use; the configuration it comes from does not change.\<close>

definition getKey :: "string option \<Rightarrow> credential_error + nat list" where
  "getKey raw = (case raw of
       None \<Rightarrow> Inl InvalidCredentialEncryptionKey
     | Some s \<Rightarrow> if s = [] \<or> \<not> BASE64_PATTERN s then Inl InvalidCredentialEncryptionKey
         else let decoded = fromBase64 s in
           if length decoded \<noteq> KEY_LENGTH_BYTES then Inl InvalidCredentialEncryptionKey else Inr decoded)"

section \<open>Encryption and preview\<close>

text \<open>AES-256-GCM: a ciphertext with an authentication tag for a key, a nonce and a text, and back, which
  fails when the tag is not that of the ciphertext.\<close>

record Cipher =
  seal :: "nat list \<Rightarrow> nat list \<Rightarrow> string \<Rightarrow> nat list \<times> nat list"
  unseal :: "nat list \<Rightarrow> nat list \<Rightarrow> nat list \<Rightarrow> nat list \<Rightarrow> string option"

record EncryptedCredential =
  ec_ciphertext :: "nat list"
  ec_iv :: "nat list"
  ec_authTag :: "nat list"

definition encrypt :: "Cipher \<Rightarrow> string option \<Rightarrow> nat list \<Rightarrow> string \<Rightarrow> credential_error + EncryptedCredential" where
  "encrypt ci key iv plaintext = andThen (getKey key) (\<lambda>k.
     case seal ci k iv plaintext of (ciphertext, authTag) \<Rightarrow>
       Inr \<lparr>ec_ciphertext = ciphertext, ec_iv = iv, ec_authTag = authTag\<rparr>)"

definition decrypt :: "Cipher \<Rightarrow> string option \<Rightarrow> EncryptedCredential \<Rightarrow> credential_error + string" where
  "decrypt ci key encrypted = andThen (getKey key) (\<lambda>k.
     case unseal ci k (ec_iv encrypted) (ec_ciphertext encrypted) (ec_authTag encrypted) of
       None \<Rightarrow> Inl NotAuthentic | Some plaintext \<Rightarrow> Inr plaintext)"

text \<open>The bullet of the code is not a character of the type; its place is taken by the code 0x95.\<close>

abbreviation bullet :: char where "bullet \<equiv> CHR 0x95"

definition PREVIEW_SUFFIX_LENGTH :: nat where "PREVIEW_SUFFIX_LENGTH = 4"
definition SHORT_VALUE_PLACEHOLDER :: string where "SHORT_VALUE_PLACEHOLDER = [bullet, bullet, bullet, bullet]"

definition maskedPreview :: "string \<Rightarrow> string" where
  "maskedPreview plaintext = (let trimmed = trim plaintext in
     if length trimmed \<le> PREVIEW_SUFFIX_LENGTH then SHORT_VALUE_PLACEHOLDER
     else [bullet, bullet, bullet] @ drop (length trimmed - PREVIEW_SUFFIX_LENGTH) trimmed)"

text \<open>What the panel is shown of a row.  The column of the preview is written with the secret.\<close>

definition settingValue :: "PlatformSetting \<Rightarrow> string option" where
  "settingValue s = (if ps_isEncrypted s then None else ps_value s)"

definition settingPreview :: "PlatformSetting \<Rightarrow> string option" where
  "settingPreview s = (if ps_isEncrypted s then map_option maskedPreview (ps_secret s) else None)"

section \<open>Identity tokens\<close>

definition CLIENT_ID_CREDENTIAL_KEY_BY_PROVIDER :: "SocialProvider \<Rightarrow> string" where
  "CLIENT_ID_CREDENTIAL_KEY_BY_PROVIDER p = (case p of
       SocialGoogle \<Rightarrow> ''customer.social-login.google.client-id''
     | SocialApple \<Rightarrow> ''customer.social-login.apple.client-id'')"

record SocialAuthProviderSettings =
  sp_jwksUri :: string
  sp_issuer :: string

definition buildDefaultSocialAuthProviderConfig :: "SocialProvider \<Rightarrow> SocialAuthProviderSettings" where
  "buildDefaultSocialAuthProviderConfig p = (case p of
       SocialGoogle \<Rightarrow> \<lparr>sp_jwksUri = ''https://www.googleapis.com/oauth2/v3/certs'', sp_issuer = ''https://accounts.google.com''\<rparr>
     | SocialApple \<Rightarrow> \<lparr>sp_jwksUri = ''https://appleid.apple.com/auth/keys'', sp_issuer = ''https://appleid.apple.com''\<rparr>)"

text \<open>A claim is a text or something else.  The verification is given the address of the keys, the issuer
  and the audience, and answers the claims of a token it accepts.\<close>

datatype claim = TextClaim string | OtherClaim

type_synonym verifier = "string \<Rightarrow> string \<Rightarrow> string \<Rightarrow> string \<Rightarrow> (string \<Rightarrow> claim option) option"

definition stringClaimOrNull :: "(string \<Rightarrow> claim option) \<Rightarrow> string \<Rightarrow> string option" where
  "stringClaimOrNull payload n = (case payload n of Some (TextClaim s) \<Rightarrow> Some s | _ \<Rightarrow> None)"

definition validateIdentityToken ::
  "(SocialProvider \<Rightarrow> SocialAuthProviderSettings) \<Rightarrow> verifier \<Rightarrow> db \<Rightarrow> SocialProvider \<Rightarrow> string \<Rightarrow> IdentityOutcome" where
  "validateIdentityToken providerConfig jwtVerify db p identityToken =
     (let audience = getValue db (CLIENT_ID_CREDENTIAL_KEY_BY_PROVIDER p) in
      if \<not> nonEmpty audience then IdentityMisconfigured
      else let settings = providerConfig p in
        (case jwtVerify (sp_jwksUri settings) (sp_issuer settings) (the audience) identityToken of
           None \<Rightarrow> InvalidIdentity
         | Some payload \<Rightarrow> (case (payload ''sub'', payload ''email'') of
               (Some (TextClaim subject), Some (TextClaim email)) \<Rightarrow>
                 ValidIdentity \<lparr>si_subject = subject, si_email = email,
                   si_firstName = stringClaimOrNull payload ''given_name'', si_lastName = stringClaimOrNull payload ''family_name''\<rparr>
             | _ \<Rightarrow> InvalidIdentity)))"

section \<open>What is kept secret\<close>

text \<open>A secret comes back with the key it was sealed with.\<close>

lemma secret_comes_back:
  assumes "\<And>k c t. seal ci k iv p = (c, t) \<Longrightarrow> unseal ci k iv c t = Some p"
  shows "encrypt ci key iv p = Inr e \<Longrightarrow> decrypt ci key e = Inr p"
    "isl (encrypt ci key iv p) \<longleftrightarrow> isl (getKey key)"
  using assms by (auto simp: encrypt_def decrypt_def andThen_Inr_iff andThen_def split: prod.splits sum.splits)

text \<open>A preview shows nothing but the last four characters of a secret, and nothing of a short one.\<close>

lemma preview_hides:
  assumes "length (trim s) = length (trim t) \<or> PREVIEW_SUFFIX_LENGTH < length (trim s) \<and> PREVIEW_SUFFIX_LENGTH < length (trim t)"
    and "drop (length (trim s) - PREVIEW_SUFFIX_LENGTH) (trim s) = drop (length (trim t) - PREVIEW_SUFFIX_LENGTH) (trim t)
      \<or> length (trim s) \<le> PREVIEW_SUFFIX_LENGTH"
  shows "maskedPreview s = maskedPreview t"
  using assms by (auto simp: maskedPreview_def Let_def)

lemma preview_length: "length (maskedPreview s) \<le> 7"
  by (simp add: maskedPreview_def Let_def SHORT_VALUE_PLACEHOLDER_def PREVIEW_SUFFIX_LENGTH_def)

lemma encrypted_shows_preview:
  "ps_isEncrypted s \<Longrightarrow> settingValue s = None \<and> settingPreview s = map_option maskedPreview (ps_secret s)"
  "\<not> ps_isEncrypted s \<Longrightarrow> settingPreview s = None"
  by (simp_all add: settingValue_def settingPreview_def)

text \<open>A key of 32 bytes has 43 characters and at most one sign of padding that is counted.\<close>

lemma length_bytesOf: "length (bytesOf xs) = 3 * length xs div 4"
  by (induction xs rule: bytesOf.induct) auto

lemma key_length: "getKey (Some s) = Inr k \<Longrightarrow> length k = 32 \<and> length (takeWhile (\<lambda>c. base64Value c < 64) s) = 43"
  by (auto simp: getKey_def KEY_LENGTH_BYTES_def fromBase64_def length_bytesOf Let_def split: if_splits)

text \<open>The encoding of 8-bit bytes is read back.\<close>

fun sextetsOf :: "nat list \<Rightarrow> nat list" where
  "sextetsOf (x # y # z # rest) = (x div 4) # (x mod 4 * 16 + y div 16) # (y mod 16 * 4 + z div 64) # (z mod 64) # sextetsOf rest"
| "sextetsOf [x, y] = [x div 4, x mod 4 * 16 + y div 16, y mod 16 * 4]"
| "sextetsOf [x] = [x div 4, x mod 4 * 16]"
| "sextetsOf [] = []"

lemma bytes_of_sextets: "\<forall>x\<in>set xs. x < 256 \<Longrightarrow> bytesOf (sextetsOf xs) = xs"
proof (induction xs rule: sextetsOf.induct)
  case (1 x y z rest)
  have "(x mod 4 * 16 + y div 16) div 16 = x mod 4" "(y mod 16 * 4 + z div 64) div 4 = y mod 16"
    "(x mod 4 * 16 + y div 16) mod 16 = y div 16" "(y mod 16 * 4 + z div 64) mod 4 = z div 64"
    using 1(2) by (auto simp: div_add1_eq mod_add_eq div_less less_mult_imp_div_less)
  then show ?case using 1 by simp
next
  case (2 x y)
  have "(x mod 4 * 16 + y div 16) div 16 = x mod 4" "(x mod 4 * 16 + y div 16) mod 16 = y div 16"
    using 2 by (auto simp: div_less less_mult_imp_div_less)
  then show ?case by simp
qed simp_all

section \<open>What a social login accepts\<close>

text \<open>An identity is the provider's own: its keys, its issuer and the audience the administrators
  configured for it have accepted the token, and subject and address are the token's.\<close>

lemma identity_is_the_providers:
  assumes "validateIdentityToken config jwtVerify db p token = ValidIdentity i"
  obtains audience payload where "getValue db (CLIENT_ID_CREDENTIAL_KEY_BY_PROVIDER p) = Some audience" "audience \<noteq> []"
    "jwtVerify (sp_jwksUri (config p)) (sp_issuer (config p)) audience token = Some payload"
    "payload ''sub'' = Some (TextClaim (si_subject i))" "payload ''email'' = Some (TextClaim (si_email i))"
  using assms by (auto simp: validateIdentityToken_def Let_def nonEmpty_def split: if_splits option.splits claim.splits)

text \<open>The claim that says whether the provider has verified the address is not read, and a new account
  counts as verified.\<close>

lemma unverified_address_accepted:
  assumes "getValue db (CLIENT_ID_CREDENTIAL_KEY_BY_PROVIDER p) = Some audience" "audience \<noteq> []"
    and "jwtVerify (sp_jwksUri (config p)) (sp_issuer (config p)) audience token
      = Some (map_of [(''sub'', TextClaim subject), (''email'', TextClaim email), (''email_verified'', OtherClaim)])"
    and "isEnabled db (FEATURE_FLAG_KEY_BY_PROVIDER p)"
  shows "\<exists>r s'. socialLogin cr db (validateIdentityToken config jwtVerify db) ttl now tok p token emptyIdentity = Inr (r, s')
    \<and> map (\<lambda>a. (acc_email a, acc_accountStatus a)) (accounts s') = [(email, EMAIL_VERIFIED)]"
proof -
  have "validateIdentityToken config jwtVerify db p token
      = ValidIdentity \<lparr>si_subject = subject, si_email = email, si_firstName = None, si_lastName = None\<rparr>"
    using assms(1-3) by (simp add: validateIdentityToken_def nonEmpty_def stringClaimOrNull_def Let_def)
  then show ?thesis using assms(4)
    by (cases "openSession cr ttl now tok 0 (snd (projr (createSocialUser now (SOCIAL_PROVIDER_TO_AUTH_PROVIDER p)
          \<lparr>si_subject = subject, si_email = email, si_firstName = None, si_lastName = None\<rparr> emptyIdentity)))")
      (auto simp: socialLogin_def Let_def findBySocialProviderSubject_def findByEmail_def emptyIdentity_def createSocialUser_def
        insertAccount_def isLoginEligibleStatus_def openSession_def createSession_def)
qed

end
