(* ===== verification/Resolved_Fields.thy ===== *)
theory Resolved_Fields
  imports Hiring Account_Deletion_Facts
begin

text \<open>
  The fields of the interface that are resolved from other tables (the field resolvers of
  src/src/service-requests, quotes, engagement-chat and profiles), and why in the running system none of
  them is missing or crashes.
\<close>

section \<open>The fields\<close>

definition acceptedQuote :: "db \<Rightarrow> ServiceRequest \<Rightarrow> Quote option" where
  "acceptedQuote db s = (case sr_acceptedQuoteId s of None \<Rightarrow> None | Some i \<Rightarrow> findQuoteById db i)"

definition findByServiceRequestId :: "db \<Rightarrow> id \<Rightarrow> Engagement option" where
  "findByServiceRequestId db i = findRow (\<lambda>e. eng_serviceRequestId e = i) (engagements db)"

definition engagementOfRequest :: "db \<Rightarrow> ServiceRequest \<Rightarrow> Engagement option" where
  "engagementOfRequest db s = findByServiceRequestId db (sr_id s)"

definition finalPrice :: "Quote \<Rightarrow> int" where
  "finalPrice q = (case q_negotiatedPrice q of Some p \<Rightarrow> p | None \<Rightarrow> q_price q)"

definition findConversationById :: "db \<Rightarrow> id \<Rightarrow> EngagementChatConversation option" where
  "findConversationById db i = findRow (\<lambda>c. conv_id c = i) (conversations db)"

text \<open>The code asserts that both rows exist; without one of them it crashes.\<close>

definition engagementStatus :: "db \<Rightarrow> EngagementChatMessage \<Rightarrow> EngagementStatus option" where
  "engagementStatus db m = (case findConversationById db (msg_conversationId m) of
       None \<Rightarrow> None
     | Some c \<Rightarrow> (case findEngagementById db (conv_engagementId c) of None \<Rightarrow> None | Some e \<Rightarrow> Some (eng_status e)))"

definition reviewsOfCustomer :: "db \<Rightarrow> id \<Rightarrow> Review list" where
  "reviewsOfCustomer db cust = filter (\<lambda>r. rv_authorRole r = EngagementReviewParty.PROFESSIONAL
     \<and> (case engagementOfReview db r of None \<Rightarrow> False | Some e \<Rightarrow> eng_customerProfileId e = cust)) (reviews db)"

definition getAverageRatingForCustomer :: "db \<Rightarrow> id \<Rightarrow> rat option" where
  "getAverageRatingForCustomer db cust = averageRating (reviewsOfCustomer db cust)"

definition getReviewCountForCustomer :: "db \<Rightarrow> id \<Rightarrow> nat" where
  "getReviewCountForCustomer db cust = length (reviewsOfCustomer db cust)"

definition averageRatingOfCustomer :: "db \<Rightarrow> CustomerProfile \<Rightarrow> rat option" where
  "averageRatingOfCustomer db p = getAverageRatingForCustomer db (cp_id p)"

definition reviewCountOfCustomer :: "db \<Rightarrow> CustomerProfile \<Rightarrow> nat" where
  "reviewCountOfCustomer db p = getReviewCountForCustomer db (cp_id p)"

definition averageRatingOfProfessional :: "db \<Rightarrow> ProfessionalProfile \<Rightarrow> rat option" where
  "averageRatingOfProfessional db p = getAverageRatingForProfessional db (pp_id p)"

definition reviewCountOfProfessional :: "db \<Rightarrow> ProfessionalProfile \<Rightarrow> nat" where
  "reviewCountOfProfessional db p = getReviewCountForProfessional db (pp_id p)"

section \<open>The request of a hire\<close>

text \<open>An ENGAGED request shows its accepted quote and its engagement, and they are those of the hire.\<close>

lemma engaged_request_complete:
  assumes "reach (d, ts)" "s \<in> set (serviceRequests d)" "sr_status s = ServiceRequestStatus.ENGAGED"
  shows "\<exists>q e. acceptedQuote d s = Some q \<and> engagementOfRequest d s = Some e \<and> hiredFrom e q \<and> hiredFor e s"
proof -
  have inv: "keysOk d" "hiringOk d" using hiring.holds [OF assms(1)] by (simp_all add: hiringInvariant_def)
  obtain e0 where "e0 \<in> set (engagements d)" "eng_serviceRequestId e0 = sr_id s" using inv(2) assms(2,3) by (auto simp: hiringOk_def)
  then obtain e where e: "engagementOfRequest d s = Some e"
    by (cases "engagementOfRequest d s") (auto simp: engagementOfRequest_def findByServiceRequestId_def findRow_None_iff)
  then have ein: "e \<in> set (engagements d)" "eng_serviceRequestId e = sr_id s"
    by (auto simp: engagementOfRequest_def findByServiceRequestId_def dest: findRow_SomeD)
  obtain q s' where q: "q \<in> set (quotes d)" "hiredFrom e q" and s': "s' \<in> set (serviceRequests d)" "hiredFor e s'"
    using inv(2) ein(1) by (auto simp: hiringOk_def)
  have "s' = s"
  proof (rule inj_onD)
    show "inj_on sr_id (set (serviceRequests d))" using inv(1) by (simp add: keysOk_def keyed_def distinct_map)
    show "sr_id s' = sr_id s" using s'(2) ein(2) by (simp add: hiredFor_def)
  qed (use assms(2) s'(1) in auto)
  then have hired: "hiredFor e s" using s'(2) by simp
  moreover have "findQuoteById d (eng_quoteId e) = Some q"
    using q inv(1) findRow_key [of q_id "quotes d" q] by (simp add: findQuoteById_def keysOk_def keyed_def hiredFrom_def)
  ultimately show ?thesis using e q(2) by (auto simp: acceptedQuote_def hiredFor_def)
qed

text \<open>While every foreign key points to a row, which the deletion of accounts keeps, the assertions of
  the code hold.\<close>

lemma status_of_message_exists:
  assumes "workReferencesOk d" "m \<in> set (chatMessages d)"
  shows "\<exists>c e. findConversationById d (msg_conversationId m) = Some c \<and> findEngagementById d (conv_engagementId c) = Some e
    \<and> engagementStatus d m = Some (eng_status e)"
proof -
  have "msg_conversationId m \<in> conv_id ` set (conversations d)" using assms by (simp add: workReferencesOk_def)
  then obtain c where c: "findConversationById d (msg_conversationId m) = Some c"
    by (cases "findConversationById d (msg_conversationId m)") (auto simp: findConversationById_def findRow_None_iff)
  then have "c \<in> set (conversations d)" by (auto simp: findConversationById_def dest: findRow_SomeD)
  then have "conv_engagementId c \<in> eng_id ` set (engagements d)" using assms(1) by (simp add: workReferencesOk_def)
  then obtain e where "findEngagementById d (conv_engagementId c) = Some e"
    by (cases "findEngagementById d (conv_engagementId c)") (auto simp: findEngagementById_def findRow_None_iff)
  then show ?thesis using c by (simp add: engagementStatus_def)
qed

section \<open>Ratings\<close>

lemma average_between:
  assumes "averageRating rows = Some a" "\<And>r. r \<in> set rows \<Longrightarrow> lo \<le> rv_rating r \<and> rv_rating r \<le> hi"
  shows "of_int lo \<le> a \<and> a \<le> of_int hi"
proof -
  have n: "rows \<noteq> []" and a: "a = of_int (sum_list (map rv_rating rows)) / of_nat (length rows)"
    using assms(1) by (auto simp: averageRating_def split: if_splits)
  have "lo * int (length rows) \<le> sum_list (map rv_rating rows) \<and> sum_list (map rv_rating rows) \<le> hi * int (length rows)"
    using assms(2) by (induction rows) (auto simp: algebra_simps add_mono)
  then have "of_int (lo * int (length rows)) \<le> (of_int (sum_list (map rv_rating rows)) :: rat)"
    "(of_int (sum_list (map rv_rating rows)) :: rat) \<le> of_int (hi * int (length rows))" by (simp_all only: of_int_le_iff)
  then show ?thesis using n by (simp add: a field_simps)
qed

text \<open>An average is there exactly with a review and is between 1 and 5.\<close>

lemma ratings_shown:
  assumes "reach (d, ts)"
  shows "averageRatingOfProfessional d p = Some a \<Longrightarrow> 1 \<le> a \<and> a \<le> 5"
    "averageRatingOfCustomer d c = Some b \<Longrightarrow> 1 \<le> b \<and> b \<le> 5"
    "averageRatingOfProfessional d p = None \<longleftrightarrow> reviewCountOfProfessional d p = 0"
    "averageRatingOfCustomer d c = None \<longleftrightarrow> reviewCountOfCustomer d c = 0"
proof -
  have ok: "1 \<le> rv_rating r \<and> rv_rating r \<le> 5" if "r \<in> set (reviews d)" for r
    using that reviewing.holds [OF assms] by (auto simp: reviewsOk_def)
  show "averageRatingOfProfessional d p = Some a \<Longrightarrow> 1 \<le> a \<and> a \<le> 5"
    using average_between [of "reviewsOfProfessional d (pp_id p)" a 1 5] ok
    by (auto simp: averageRatingOfProfessional_def getAverageRatingForProfessional_def reviewsOfProfessional_def)
  show "averageRatingOfCustomer d c = Some b \<Longrightarrow> 1 \<le> b \<and> b \<le> 5"
    using average_between [of "reviewsOfCustomer d (cp_id c)" b 1 5] ok
    by (auto simp: averageRatingOfCustomer_def getAverageRatingForCustomer_def reviewsOfCustomer_def)
qed (simp_all add: averageRatingOfProfessional_def getAverageRatingForProfessional_def reviewCountOfProfessional_def
    getReviewCountForProfessional_def averageRatingOfCustomer_def getAverageRatingForCustomer_def reviewCountOfCustomer_def
    getReviewCountForCustomer_def averageRating_def)

end
