(* ===== verification/Spec2Isabelle.thy ===== *)
theory Spec2Isabelle
  imports Payment_Progress Hiring_Progress Services Uploads_Spent Account_Properties Provider_Properties
    Api_Properties Installation_Properties Configuration Credentials Resolved_Fields
begin

text \<open>
  A model of the marketplace backend (src/src): customers publish service requests, professionals
  quote and negotiate, an accepted quote becomes an engagement that is scheduled, worked, paid, and
  reviewed; around it are the accounts of the users, the administrators' panel and the platform's
  settings.

  \<^bold>\<open>The state.\<close>  Schema has the tables of prisma/schema.prisma as records, a table being the list
  of its rows, in the record \<^theory_text>\<open>db\<close>.  The tables of the accounts (users with their codes,
  sessions and identity verifications) are the record \<^theory_text>\<open>identity\<close> of Accounts, those of the
  panel (roles, administrators, invites, sessions) the record \<^theory_text>\<open>administration\<close> of
  Admin_Access.  A service is a function of the state to an error or the new state, errors being the
  values of \<^theory_text>\<open>err\<close>, one constant per exception of the code.

  \<^bold>\<open>Theories and code.\<close>
  Prelude: the generic table operations of Prisma (find, updateMany, unique keys).
  Js_Number: Number(string) and the rounding of numbers.
  Profiles: src/profiles lookups, the settings port, the party of an engagement.
  Ledger: src/ledger.  Media_Uploads: src/media-uploads.  Engagement_Chat: src/engagement-chat.
  Appointments: src/appointments.  Engagements: src/engagements.  Categories and Category_Tree: the
  categories of src/profiles and src/platform-admin/categories.  Service_Requests: src/service-requests.
  Quotes: src/quotes.  Quote_Negotiation: src/quote-negotiation.  Payment_Attempts and
  Provider_Payments: src/payments/services; Mercado_Pago: the provider's adapter, src/payments/adapters,
  utils and controllers.  Cash_Payment: src/cash-payment.  Reviews: src/reviews and
  src/platform-admin/reviews.  Financial_Summary: src/engagement-financial-summary.
  Accounts: src/users, src/auth, src/password-reset.  Onboarding: the upserts of src/profiles.
  Identity_Verification: src/identity-verification and src/platform-admin/user-accounts.
  Admin_Access: src/platform-admin/admin-auth, admin-invites, admin-rbac, admin-roles, admin-users.
  Platform_Settings: src/platform-admin/platform-settings and storage-settings.
  Email_Templates: src/email, src/platform-admin/email-templates and the three senders of emails; the
  templates, the layout and the queue are the record \<^theory_text>\<open>mailbox\<close>.
  Account_Deletion: the deletion of accounts, with the cascades of prisma/schema.prisma, and the
  photos an administrator sets, in src/platform-admin/user-accounts.
  Admin_Views and Admin_Ledger: the grids, details and threads of the panel, in
  src/platform-admin/quotes, quote-negotiation, service-requests, ledger, payment-attempts, reviews,
  engagement-chat, appointments and user-accounts.
  Storage: src/storage, the files of the uploads, the signed upload URLs and the worker that encodes the
  images, in the record \<^theory_text>\<open>storage\<close>.
  Gateway, Api and Admin_Api: the guards of the requests and the resolvers, on the record
  \<^theory_text>\<open>world\<close> of all the states but the files.  The definition \<^theory_text>\<open>x_op\<close> is the
  resolver's method x: its guards, in their order, and the service it calls.  Resolved_Fields: the fields
  that are resolved from other tables.
  Installation: prisma/seed.ts, scripts/bootstrap-super-admin.ts and scripts/create-admin-user.ts.
  Configuration: src/config.  Credentials: the encryption of the settings' secrets and the validation of
  identity tokens, src/platform-admin/platform-settings/adapters and src/auth/adapters.

  \<^bold>\<open>The running system.\<close>  Marketplace composes the services of the marketplace into a
  transition system.  Where the code reads and checks before it opens a transaction, the service is a
  pair \<^theory_text>\<open>..._pre\<close> and \<^theory_text>\<open>..._tx\<close>: a request begins by reading, what it captured stays
  in flight, and its transaction commits later on whatever the database has become, or fails.
  Transactions are atomic and serialised.  \<^theory_text>\<open>reach\<close> are the reachable states.  The calls of
  the account services and of the panel run alone, one after the other
  (\<^theory_text>\<open>account_step\<close>, \<^theory_text>\<open>panel_step\<close>), while anything may happen to the other tables.
  The deletion of an account, which removes rows, is not a transaction of the running system: the
  invariants over histories speak of times without one, and Account_Deletion_Facts of what it leaves.

  \<^bold>\<open>What is proved.\<close>  Evolution: every commit only extends the tables, each row along the
  relation of its table.  Frames: which tables a commit leaves alone.  System and Hiring: the
  invariants, each an interpretation of the locale \<^theory_text>\<open>system_invariant\<close>.
  Engagement_Lifecycle: the services refine the abstract state machine.  Payment_Correctness,
  Payment_Progress, Hiring_Progress: when payments and acceptances go through and what they leave.
  Services: undisturbed calls are runs of the system.  Uploads_Spent: an upload is used once.
  Account_Safety, Account_Decisions, Account_Results: what the account services keep, why an account
  was decided, what logins and resets do.  Admin_Safety: the panel cannot lock itself out, from the
  locale \<^theory_text>\<open>lockout_guard\<close>.  Settings_Facts: settings read back.  Scenario and
  Account_Findings: concrete runs for the witnesses, and runs the code does not mean to allow.
  Mercado_Pago_Facts: amounts survive their
  spelling, approvals are the provider's own.  Account_Deletion_Facts: the rows that go with an account
  are a least fixed point and no reference is left dangling.  Admin_Ledger_Facts: the grouping of the
  ledger into events, and pages.  Email_Facts: a rendered text piece by piece.  Scenario_States: the
  tables of the scenario written out.  Storage_Facts: what the uploads keep, whatever clients and the
  worker do.  Gateway_Facts, Panel_Facts and Market_Facts: each operation of the panel and of the market,
  listed by the relations \<^theory_text>\<open>panelOperation\<close> and
  \<^theory_text>\<open>marketOperation\<close>, behind its guards.  The properties C3, C10, C12, C27 and C30 are in
  Platform_Properties, C16 and C28 in Api_Properties, C24 in Installation_Properties with the facts of
  Installation_Facts, the others of C1 to C29 here, C31 to C38 in
  Account_Properties, C39 and C40 in Provider_Properties.

  \<^bold>\<open>Abstractions.\<close>  Ids are natural numbers drawn from one counter per state, times are
  integers of milliseconds, floating-point numbers are rationals where the code's values are exact in
  a double (the commission's products stay below 2 to the 53).  Parameters stand for what is not in
  the repository: the payment provider (\<^theory_text>\<open>Provider\<close>, or the HTTP service
  behind the adapter of Mercado_Pago), the provider of identity
  verifications, hash functions and random tokens (\<^theory_text>\<open>Crypto\<close>, arguments), the collation
  and the case-insensitive comparison of the database, the storage service.  A recursion of the code
  without a structural bound has fuel (\<^theory_text>\<open>visit\<close>, \<^theory_text>\<open>build\<close>: the number of categories plus
  one, proved to be enough) or a termination proof (the search for descendants).

  \<^bold>\<open>Not modelled.\<close>  The GraphQL types, the modules and the mappers, which only convert,
  and the limiter of the request rate; the browser pages of admin-panel; the disk, the image library, the
  mail clients, the retries of the job queue and the HTTP calls to the providers, which are input and
  output and parameters here; the start of the server, its status page, the validation of its
  environment, demonstration data and tests.  Concurrent calls of the account and panel services are not modelled: their statements
  are not transactions in the code, and only the lemmas about single statements hold there.
\<close>

section \<open>The running system\<close>

subsection \<open>Engagements\<close>

text \<open>
  C1.  The state machine of an engagement.  Whatever transaction commits, in whatever reachable
  state and whatever it captured when its request was checked, every engagement keeps its identity,
  its parties, its quote and its creation time and moves by at most one edge of the state machine
  \<^theory_text>\<open>lifecycle\<close>; and every engagement there is afterwards either was there before or has just
  been created, ACCEPTED, by the acceptance of a quote.
\<close>

theorem engagement_moves_one_step:
  assumes "reach (d, ts)" "commit now t d = Inr d'"
  shows "(\<forall>e\<in>set (engagements d). \<exists>e'\<in>set (engagements d'). engagementEvolves e e')
    \<and> (\<forall>e'\<in>set (engagements d'). (\<exists>e\<in>set (engagements d). engagementEvolves e e')
         \<or> (\<exists>a. t = TxAcceptQuote a \<and> eng_quoteId e' = qa_quoteId a
              \<and> eng_id e' = nextId d \<and> eng_status e' = EngagementStatus.ACCEPTED))"
proof -
  note ok = reach_attemptsOk [OF assms(1)]
  have "\<exists>e'\<in>set (engagements d'). engagementEvolves e e'" if "e \<in> set (engagements d)" for e
    using extends_mem [OF commit_one_transition [OF assms(2) ok] that] .
  moreover have "(\<exists>e\<in>set (engagements d). engagementEvolves e e')
         \<or> (\<exists>a. t = TxAcceptQuote a \<and> eng_quoteId e' = qa_quoteId a
              \<and> eng_id e' = nextId d \<and> eng_status e' = EngagementStatus.ACCEPTED)"
    if e': "e' \<in> set (engagements d')" for e'
  proof (cases "\<exists>a. t = TxAcceptQuote a")
    case True
    then obtain a where a: "t = TxAcceptQuote a" "acceptQuote_tx now a d = Inr d'" using assms(2) by auto
    from acceptQuote_fields(10) [OF a(2)] e' show ?thesis
      using a(1) by (auto intro: engagementEvolves_refl)
  next
    case False
    then show ?thesis using only_acceptance_engagements [OF assms(2) ok _ e'] by blast
  qed
  ultimately show ?thesis by blast
qed

lemma engagement_moves_one_step_witness:
  "\<exists>e'\<in>set (engagements (projr (commit 10 (TxFinish 105) startedDb))).
     engagementEvolves (hd (engagements startedDb)) e'"
proof -
  have "commit 10 (TxFinish 105) startedDb = Inr (projr (commit 10 (TxFinish 105) startedDb))"
    by (rule committed) code_simp
  moreover have "hd (engagements startedDb) \<in> set (engagements startedDb)" by code_simp
  ultimately show ?thesis using engagement_moves_one_step [OF demo_reach(2)] by blast
qed



text \<open>
  The final states.  A COMPLETED or CANCELLED engagement stays exactly that whatever requests
  follow, and it stays the only row with its id.
\<close>

lemma terminal_engagement_stays:
  assumes "reach s" "step\<^sup>*\<^sup>* s s'" "e \<in> set (engagements (fst s))"
    and "eng_status e = EngagementStatus.COMPLETED \<or> eng_status e = EngagementStatus.CANCELLED"
  shows "\<exists>!e'. e' \<in> set (engagements (fst s')) \<and> eng_id e' = eng_id e \<and> eng_status e' = eng_status e"
proof -
  have r: "reach s'" and ev: "evolves (fst s) (fst s')" using steps_evolve [OF assms(1,2)] by auto
  have x: "ext engagementEvolves eng_id engagements (fst s) (fst s')" using ev by (simp add: evolves_def)
  have "\<exists>e'\<in>set (engagements (fst s')). eng_id e' = eng_id e \<and> eng_status e' = eng_status e"
    by (rule ext_keeps [OF x assms(3)]) (use assms(4) in \<open>auto simp: engagementEvolves_def\<close>)
  then obtain e' where e': "e' \<in> set (engagements (fst s'))" "eng_id e' = eng_id e" "eng_status e' = eng_status e"
    by blast
  have "keysOk (fst s')" by (rule keys.holds [of _ "snd s'"]) (simp add: r)
  then have k: "keyed eng_id (nextId (fst s')) (engagements (fst s'))" by (simp add: keysOk_def)
  show ?thesis
  proof (rule ex1I [of _ e'])
    show "f = e'" if "f \<in> set (engagements (fst s')) \<and> eng_id f = eng_id e \<and> eng_status f = eng_status e" for f
      using keyed_unique [OF k] that e' by simp
  qed (use e' in simp)
qed

lemma terminal_engagement_stays_witness:
  "\<exists>!e'. e' \<in> set (engagements paidDb) \<and> eng_id e' = eng_id (hd (engagements paidDb))
     \<and> eng_status e' = eng_status (hd (engagements paidDb))"
proof -
  have "hd (engagements paidDb) \<in> set (engagements paidDb)" by code_simp
  moreover have "eng_status (hd (engagements paidDb)) = EngagementStatus.COMPLETED" by code_simp
  ultimately show ?thesis
    using terminal_engagement_stays [OF demo_reach(3) rtranclp.rtrancl_refl, of "hd (engagements paidDb)"] by simp
qed


text \<open>
  C4.  The shape of an engagement.  In every reachable state each row has exactly the timestamps its
  status calls for: the work's start, finish and completion are set in that order and never on the
  wrong status, and a CANCELLED row has its time and its reason and was never finished.
\<close>

theorem engagement_shape:
  assumes "reach (d, ts)" "e \<in> set (engagements d)"
  shows "engagementShape e"
  using lifecycle_shape.holds [OF assms(1)] assms(2) by (auto simp: engagementsOk_def list_all_iff)

lemma engagement_shape_witness: "engagementShape (hd (engagements cancelledDb))"
proof -
  have "hd (engagements cancelledDb) \<in> set (engagements cancelledDb)" by code_simp
  then show ?thesis by (rule engagement_shape [OF demo_reach(4)])
qed

section \<open>Hiring\<close>

text \<open>
  C5.  Hiring is all or nothing.  In every reachable state the engagements, the ACCEPTED quotes and
  the ENGAGED requests are in step, although they are written to different tables and other
  transactions run in between: each engagement has its ACCEPTED quote and its ENGAGED request with
  the same parties, and there is no ACCEPTED quote and no ENGAGED request without an engagement.
\<close>

theorem hiring_in_step:
  assumes "reach (d, ts)"
  shows "(\<forall>e\<in>set (engagements d). (\<exists>q\<in>set (quotes d). hiredFrom e q) \<and> (\<exists>s\<in>set (serviceRequests d). hiredFor e s))
     \<and> (\<forall>q\<in>set (quotes d). q_status q = QuoteStatus.ACCEPTED \<longrightarrow> (\<exists>e\<in>set (engagements d). eng_quoteId e = q_id q))
     \<and> (\<forall>s\<in>set (serviceRequests d). sr_status s = ServiceRequestStatus.ENGAGED \<longrightarrow>
          (\<exists>e\<in>set (engagements d). eng_serviceRequestId e = sr_id s))"
  using hiring.holds [OF assms] by (simp add: hiringInvariant_def hiringOk_def)

lemma hiring_in_step_witness:
  "\<exists>q\<in>set (quotes hiredDb). hiredFrom (hd (engagements hiredDb)) q"
proof -
  have "hd (engagements hiredDb) \<in> set (engagements hiredDb)" by code_simp
  then show ?thesis using hiring_in_step [OF demo_reach(1)] by blast
qed



section \<open>Money\<close>

text \<open>
  C7.  Exactly one ledger event per approved payment, and no double charge.  In every reachable state
  an engagement has as many payment entries (a customer charge, or the commission debt of a cash
  payment) as APPROVED attempts, and at most one, whatever cash confirmations, card and wallet
  answers, notifications and retries interleave.
\<close>

theorem paid_once:
  assumes "reach (d, ts)"
  shows "ledgerCount CUSTOMER_CHARGE e d + ledgerCount CASH_COMMISSION_DEBT e d
       = countWhere (\<lambda>a. pa_engagementId a = e \<and> pa_status a = PaymentAttemptStatus.APPROVED) (paymentAttempts d)
    \<and> ledgerCount CUSTOMER_CHARGE e d + ledgerCount CASH_COMMISSION_DEBT e d \<le> 1"
proof -
  have "paymentEntries e d = countWhere (approvedOf e) (paymentAttempts d)"
    using books.holds [OF assms] by (simp add: paymentsRecorded_def)
  moreover have "countWhere (approvedOf e) (paymentAttempts d) \<le> countWhere (isActiveAttempt e) (paymentAttempts d)"
    by (rule countWhere_mono) (auto simp: approvedOf_def isActiveAttempt_def)
  moreover have "countWhere (isActiveAttempt e) (paymentAttempts d) \<le> 1"
    using reach_attemptsOk [OF assms] by (simp add: attemptsOk_def)
  ultimately show ?thesis by (simp add: paymentEntries_def approvedOf_def [abs_def])
qed

lemma paid_once_witness: "ledgerCount CUSTOMER_CHARGE 105 paidDb = 1"
proof -
  have "countWhere (\<lambda>a. pa_engagementId a = 105 \<and> pa_status a = PaymentAttemptStatus.APPROVED) (paymentAttempts paidDb) = 1"
    "ledgerCount CASH_COMMISSION_DEBT 105 paidDb = 0" by code_simp+
  then show ?thesis using paid_once [OF demo_reach(3), of 105] by simp
qed

text \<open>
  C8.  Money is conserved.  In every reachable state, on each engagement, the entries of the money
  that passes through the platform - all but refunds and the debts of cash payments: what the customer
  was charged or fined, negative, and what the platform and the professional were credited - sum to
  zero: rounding a commission never creates or loses a unit.
\<close>

theorem money_conserved:
  assumes "reach (d, ts)"
  shows "sumAmount (\<lambda>r. le_type r \<noteq> REFUND \<and> le_type r \<noteq> CASH_COMMISSION_DEBT \<and> le_engagementId r = Some e) d = 0"
  using money.holds [OF assms] by (simp add: moneyConserved_def isFlow_def [abs_def])

lemma money_conserved_witness:
  "length (ledgerEntries paidDb) = 3 \<and> sumAmount (\<lambda>r. le_type r \<noteq> REFUND \<and> le_type r \<noteq> CASH_COMMISSION_DEBT \<and> le_engagementId r = Some 105) paidDb = 0"
proof
  show "length (ledgerEntries paidDb) = 3" by code_simp
qed (rule money_conserved [OF demo_reach(3)])

lemma countWhere_disjoint:
  assumes "\<And>r. R r \<longleftrightarrow> P r \<or> Q r" "\<And>r. P r \<Longrightarrow> \<not> Q r"
  shows "countWhere P rows + countWhere Q rows = countWhere R rows"
  using assms by (induction rows) auto

text \<open>
  C9.  A cancellation is accounted once.  The refund or the cancellation fee of an engagement is
  recorded at most once, and only if the engagement is CANCELLED.
\<close>

theorem cancellation_recorded_once:
  assumes "reach (d, ts)"
  shows "ledgerCount REFUND i d + ledgerCount CUSTOMER_CANCELLATION_FEE i d \<le> 1
    \<and> (ledgerCount REFUND i d + ledgerCount CUSTOMER_CANCELLATION_FEE i d > 0 \<longrightarrow>
        (\<exists>e\<in>set (engagements d). eng_id e = i \<and> eng_status e = EngagementStatus.CANCELLED))"
proof -
  have eq: "ledgerCount REFUND i d + ledgerCount CUSTOMER_CANCELLATION_FEE i d
      = countWhere (isCancellationEntry i) (ledgerEntries d)"
    unfolding ledgerCount_def by (rule countWhere_disjoint) (auto simp: isCancellationEntry_def)
  have le: "countWhere (isCancellationEntry i) (ledgerEntries d) \<le> countWhere (cancelledAs i) (engagements d)"
    using cancellations.holds [OF assms] by (simp add: cancellationsOk_def)
  have "distinct (map eng_id (engagements d))"
    using keys.holds [OF assms] by (simp add: keysOk_def keyed_def)
  then have "countWhere (cancelledAs i) (engagements d) \<le> 1"
    using countWhere_key_le_1 [of eng_id "engagements d" i] by (simp add: cancelledAs_def [abs_def])
  moreover have "countWhere (cancelledAs i) (engagements d) > 0 \<longleftrightarrow> (\<exists>e\<in>set (engagements d). cancelledAs i e)"
    using countWhere_0_iff [of "cancelledAs i" "engagements d"] by auto
  ultimately show ?thesis using le unfolding eq cancelledAs_def by force
qed

lemma cancellation_recorded_once_witness:
  "ledgerCount CUSTOMER_CANCELLATION_FEE 105 cancelledDb = 1
     \<and> (\<exists>e\<in>set (engagements cancelledDb). eng_id e = 105 \<and> eng_status e = EngagementStatus.CANCELLED)"
proof -
  have one: "ledgerCount CUSTOMER_CANCELLATION_FEE 105 cancelledDb = 1" by code_simp
  then show ?thesis using cancellation_recorded_once [OF demo_reach(4), of 105] by simp
qed


lemma rtranclp_equality: "(=)\<^sup>*\<^sup>* = (=)"
proof (intro ext iffI)
  show "x = y" if "(=)\<^sup>*\<^sup>* x y" for x y :: 'a using that by (induction rule: rtranclp_induct) simp_all
qed simp

text \<open>
  The ledger is append-only.  Along any interleaving of requests the ledger grows at its end
  only, its earlier entries unchanged, and no two entries ever bear the same receipt number.
\<close>

lemma ledger_append_only:
  assumes "reach s" "step\<^sup>*\<^sup>* s s'"
  shows "\<exists>new. ledgerEntries (fst s') = ledgerEntries (fst s) @ new
    \<and> distinct (map le_receiptNumber (ledgerEntries (fst s) @ new))"
proof -
  have r: "reach s'" and ev: "evolves (fst s) (fst s')" using steps_evolve [OF assms] by auto
  have "receiptsOk (fst s')" by (rule receipts.holds [of _ "snd s'"]) (simp add: r)
  then have "distinct (map le_receiptNumber (ledgerEntries (fst s')))" by (simp add: receiptsOk_def)
  moreover have "extends (=) le_id (nextId (fst s)) (nextId (fst s')) (ledgerEntries (fst s)) (ledgerEntries (fst s'))"
    using ev by (simp add: evolves_def ext_def rtranclp_equality)
  ultimately show ?thesis using extends_prefix by (metis (no_types, lifting))
qed

lemma ledger_append_only_witness:
  "\<exists>new. ledgerEntries paidDb = ledgerEntries startedDb @ new
    \<and> distinct (map le_receiptNumber (ledgerEntries startedDb @ new))"
  using ledger_append_only [OF demo_reach(2) demo_steps(2)] by simp

text \<open>
  C11.  The commission.  For an amount and a percentage within their ranges the floating-point
  rounding of the code computes the commission rounded half up, and the platform's part and the
  professional's part are each between zero and the amount and add up to it exactly.
\<close>

theorem commission_split:
  assumes "0 \<le> amount" "0 \<le> percent" "percent \<le> 100"
  shows "let s = computeCommission amount (of_int percent) in
      commission s = (amount * percent + 50) div 100 \<and> commission s + net s = amount
    \<and> 0 \<le> commission s \<and> commission s \<le> amount \<and> 0 \<le> net s \<and> net s \<le> amount"
  using computeCommission_range [of amount "of_int percent"] computeCommission_int [of amount percent]
    computeCommission_conserves [of amount "of_int percent"] assms
  by (simp add: Let_def)

lemma commission_split_witness:
  "let s = computeCommission 12345 (of_int 10) in commission s = 1235 \<and> net s = 11110"
  using commission_split [of 12345 10] by (auto simp: Let_def)

text \<open>
  The balances follow the events.  A recorded digital payment credits the professional with
  the net part and the platform with the commission, and touches no other professional; a recorded
  cash payment debits the professional, and credits the platform, with the commission alone.
\<close>

lemma balance_append:
  "sumAmount (\<lambda>r. le_type r = t \<and> le_professionalProfileId r = p) (appendEntries rows d) =
     sumAmount (\<lambda>r. le_type r = t \<and> le_professionalProfileId r = p) d
     + sum_list (map le_amount (filter (\<lambda>r. le_type r = t \<and> le_professionalProfileId r = p) rows))"
  "sumAmount (\<lambda>r. le_type r = t) (appendEntries rows d) =
     sumAmount (\<lambda>r. le_type r = t) d + sum_list (map le_amount (filter (\<lambda>r. le_type r = t) rows))"
  by (rule sumAmount_appendEntries, simp)+

lemma balances_follow_events:
  "(\<forall>d'. recordDigitalPayment now l price d = Inr d' \<longrightarrow>
      (\<exists>c. readCommissionPercent d = Inr c
        \<and> sumProfessionalBalance d' p = sumProfessionalBalance d p
            + (if p = lp_professionalProfileId l then net (computeCommission price c) else 0)
        \<and> sumPlatformBalance d' = sumPlatformBalance d + commission (computeCommission price c)))
   \<and> (\<forall>d'. recordCommissionDebt now l price d = Inr d' \<longrightarrow>
      (\<exists>c. readCommissionPercent d = Inr c
        \<and> sumProfessionalBalance d' p = sumProfessionalBalance d p
            - (if p = lp_professionalProfileId l then commission (computeCommission price c) else 0)
        \<and> sumPlatformBalance d' = sumPlatformBalance d + commission (computeCommission price c)))"
  by (intro conjI allI impI; (drule recordDigitalPayment_Inr | drule recordCommissionDebt_Inr))
     (auto simp: sumProfessionalBalance_def sumPlatformBalance_def sumCashCommissionDebtForProfessional_def
       balance_append rows_defs)

definition demoParties :: LedgerParties where
  "demoParties = \<lparr>lp_engagementId = 105, lp_currency = ''ARS'', lp_customerProfileId = 11, lp_professionalProfileId = 12\<rparr>"

lemma balances_follow_events_witness:
  "\<exists>c. readCommissionPercent demoDb = Inr c
     \<and> sumProfessionalBalance (projr (recordDigitalPayment 1 demoParties 9000 demoDb)) 12
       = sumProfessionalBalance demoDb 12 + (if 12 = lp_professionalProfileId demoParties then net (computeCommission 9000 c) else 0)
     \<and> sumPlatformBalance (projr (recordDigitalPayment 1 demoParties 9000 demoDb))
       = sumPlatformBalance demoDb + commission (computeCommission 9000 c)"
proof -
  have "recordDigitalPayment 1 demoParties 9000 demoDb = Inr (projr (recordDigitalPayment 1 demoParties 9000 demoDb))"
    by (rule committed) code_simp
  with balances_follow_events show ?thesis by blast
qed




section \<open>Other invariants of the running system\<close>

text \<open>
  C14.  No double booking.  In every reachable state two different CONFIRMED appointments of one
  professional do not overlap (they may be adjacent), and every appointment ends after it starts.
\<close>

theorem no_double_booking:
  assumes "reach (d, ts)" "a \<in> set (appointments d)" "b \<in> set (appointments d)" "appt_id a \<noteq> appt_id b"
    and "appt_status a = AppointmentStatus.CONFIRMED" "appt_status b = AppointmentStatus.CONFIRMED"
    and "appt_professionalProfileId a = appt_professionalProfileId b"
  shows "(appt_endsAt a \<le> appt_startsAt b \<or> appt_endsAt b \<le> appt_startsAt a)
    \<and> appt_startsAt a < appt_endsAt a \<and> appt_startsAt b < appt_endsAt b"
  using calendar.holds [OF assms(1)] assms(2-)
  by (auto simp: appointmentsOk_def noOverlap_def overlapping_def list_all_iff appointmentShape_def not_less)

lemma no_double_booking_witness:
  "let a = appointments visitsDb ! 0; b = appointments visitsDb ! 1 in
     length (appointments visitsDb) = 3 \<and> appt_status (appointments visitsDb ! 2) = AppointmentStatus.PENDING
     \<and> (appt_endsAt a \<le> appt_startsAt b \<or> appt_endsAt b \<le> appt_startsAt a)"
proof -
  let ?a = "appointments visitsDb ! 0" and ?b = "appointments visitsDb ! 1"
  have r: "reach (visitsDb, [])" unfolding visitsDb_def by (rule run_reach [OF demo_reach(2)])
  have "?a \<in> set (appointments visitsDb) \<and> ?b \<in> set (appointments visitsDb) \<and> appt_id ?a \<noteq> appt_id ?b
      \<and> appt_status ?a = AppointmentStatus.CONFIRMED \<and> appt_status ?b = AppointmentStatus.CONFIRMED
      \<and> appt_professionalProfileId ?a = appt_professionalProfileId ?b"
    by code_simp
  moreover have "length (appointments visitsDb) = 3 \<and> appt_status (appointments visitsDb ! 2) = AppointmentStatus.PENDING"
    by code_simp
  ultimately show ?thesis using no_double_booking [OF r, of ?a ?b] by (simp add: Let_def)
qed

text \<open>
  C15.  Reviews.  In every reachable state a review belongs to a COMPLETED engagement, its rating is
  a whole number from 1 to 5, and each side of an engagement has written at most one.
\<close>

theorem reviews_of_completed_work:
  assumes "reach (d, ts)"
  shows "distinct (map (\<lambda>r. (rv_engagementId r, rv_authorRole r)) (reviews d))
    \<and> (\<forall>r\<in>set (reviews d). 1 \<le> rv_rating r \<and> rv_rating r \<le> 5
         \<and> (\<exists>e\<in>set (engagements d). eng_id e = rv_engagementId r \<and> eng_status e = EngagementStatus.COMPLETED))"
  using reviewing.holds [OF assms] by (simp add: reviewsOk_def)

lemma reviews_of_completed_work_witness:
  "length (reviews paidDb) = 2 \<and> distinct (map (\<lambda>r. (rv_engagementId r, rv_authorRole r)) (reviews paidDb))"
proof
  show "length (reviews paidDb) = 2" by code_simp
qed (rule reviews_of_completed_work [OF demo_reach(3), THEN conjunct1])

text \<open>
  Negotiation.  With the transactions of the proposals serialised, a quote has at most one
  PENDING price proposal in every reachable state: a new proposal supersedes the pending one, and a
  resolved proposal never becomes pending again.
\<close>

lemma one_pending_proposal:
  assumes "reach (d, ts)"
  shows "countWhere (\<lambda>p. prop_quoteId p = q \<and> prop_status p = QuotePriceProposalStatus.PENDING) (priceProposals d) \<le> 1"
  using negotiation.holds [OF assms]
  by (simp add: onePendingProposal_def isPendingProposalOf_def [abs_def])

lemma one_pending_proposal_witness:
  "length (priceProposals negotiatedDb) = 2 \<and>
   countWhere (\<lambda>p. prop_quoteId p = 101 \<and> prop_status p = QuotePriceProposalStatus.PENDING) (priceProposals negotiatedDb) \<le> 1"
proof
  show "length (priceProposals negotiatedDb) = 2" by code_simp
  show "countWhere (\<lambda>p. prop_quoteId p = 101 \<and> prop_status p = QuotePriceProposalStatus.PENDING) (priceProposals negotiatedDb) \<le> 1"
    unfolding negotiatedDb_def by (rule one_pending_proposal [OF run_reach [OF demo_initial]])
qed


section \<open>Progress\<close>

text \<open>
  C17.  An acceptance goes through exactly when it still can.  Whatever happened since its request
  was checked, an acceptance in flight succeeds if its service request is still OPEN and its quote
  still SENT, and otherwise fails with QUOTE_ACCEPT_CONFLICT; no unique constraint ever fires.  Once
  it succeeded, no acceptance for the same request succeeds in any later state.
\<close>

theorem acceptance_progress:
  assumes "reach (d, ts)" "TxAcceptQuote a \<in> set ts"
  shows "if (\<exists>s\<in>set (serviceRequests d). sr_id s = qa_serviceRequestId a \<and> sr_status s = ServiceRequestStatus.OPEN)
            \<and> (\<exists>q\<in>set (quotes d). q_id q = qa_quoteId a \<and> q_status q = QuoteStatus.SENT)
         then \<exists>d'. commit now (TxAcceptQuote a) d = Inr d'
            \<and> (\<forall>s a'. step\<^sup>*\<^sup>* (d', remove1 (TxAcceptQuote a) ts) s \<longrightarrow> TxAcceptQuote a' \<in> set (snd s)
                 \<longrightarrow> qa_serviceRequestId a' = qa_serviceRequestId a
                 \<longrightarrow> (\<forall>now'. commit now' (TxAcceptQuote a') (fst s) = Inl QUOTE_ACCEPT_CONFLICT))
         else commit now (TxAcceptQuote a) d = Inl QUOTE_ACCEPT_CONFLICT"
proof -
  note here = acceptance_outcome [OF hiring.holds [OF assms(1)] hiring.relied [OF assms]]
  have later: "commit now' (TxAcceptQuote a') (fst s) = Inl QUOTE_ACCEPT_CONFLICT"
    if c: "commit now (TxAcceptQuote a) d = Inr d'" and st: "step\<^sup>*\<^sup>* (d', remove1 (TxAcceptQuote a) ts) s"
      and a': "TxAcceptQuote a' \<in> set (snd s)" "qa_serviceRequestId a' = qa_serviceRequestId a" for d' s a' now'
  proof -
    have r: "reach (d', remove1 (TxAcceptQuote a) ts)"
      by (rule reach.Step [OF assms(1) step.Commit [OF assms(2) c]])
    have ev: "evolves d' (fst s)" and rs: "reach (fst s, snd s)" using steps_evolve [OF r st] by auto
    obtain x where x: "x \<in> set (serviceRequests d')" "sr_id x = qa_serviceRequestId a" "sr_status x = ServiceRequestStatus.ENGAGED"
      using accepted_request_engaged [of now a d d'] c by auto
    have "\<forall>s'\<in>set (serviceRequests (fst s)). sr_id s' = sr_id x \<longrightarrow> sr_status s' \<noteq> ServiceRequestStatus.OPEN"
      by (rule not_open_forever [OF ev x(1)]) (simp_all add: x(3) keys.holds [OF rs])
    then show ?thesis
      using acceptance_outcome [OF hiring.holds [OF rs] hiring.relied [OF rs a'(1)], of now'] a'(2) x(2)
      by (auto split: if_splits)
  qed
  show ?thesis using here [of now] later by (auto split: if_splits)
qed

definition racingAcceptances :: "QuoteAcceptance \<times> QuoteAcceptance" where
  "racingAcceptances =
     (\<lparr>qa_serviceRequestId = 100, qa_quoteId = 101, qa_customerProfileId = 11, qa_professionalProfileId = 12\<rparr>,
      \<lparr>qa_serviceRequestId = 100, qa_quoteId = 102, qa_customerProfileId = 11, qa_professionalProfileId = 13\<rparr>)"

lemma racing_reach:
  "reach (quotedDb, [TxAcceptQuote (snd racingAcceptances), TxAcceptQuote (fst racingAcceptances)])"
proof -
  have r: "reach (quotedDb, [])" unfolding quotedDb_def by (rule run_reach [OF demo_initial])
  have "begin_request 4 demoProvider (AcceptQuote 1 101) quotedDb = Inr (TxAcceptQuote (fst racingAcceptances))"
    "begin_request 5 demoProvider (AcceptQuote 1 102) quotedDb = Inr (TxAcceptQuote (snd racingAcceptances))"
    by code_simp+
  then show ?thesis using reach.Step [OF reach.Step [OF r]] step.Begin by blast
qed

lemma acceptance_progress_witness:
  "\<exists>d'. commit 6 (TxAcceptQuote (fst racingAcceptances)) quotedDb = Inr d'
     \<and> commit 7 (TxAcceptQuote (snd racingAcceptances)) d' = Inl QUOTE_ACCEPT_CONFLICT"
proof -
  let ?ts = "[TxAcceptQuote (snd racingAcceptances), TxAcceptQuote (fst racingAcceptances)]"
  have "\<exists>s\<in>set (serviceRequests quotedDb). sr_id s = 100 \<and> sr_status s = ServiceRequestStatus.OPEN"
    "\<exists>q\<in>set (quotes quotedDb). q_id q = 101 \<and> q_status q = QuoteStatus.SENT" by code_simp+
  then obtain d' where d': "commit 6 (TxAcceptQuote (fst racingAcceptances)) quotedDb = Inr d'"
    "\<And>s a' n. step\<^sup>*\<^sup>* (d', remove1 (TxAcceptQuote (fst racingAcceptances)) ?ts) s \<Longrightarrow> TxAcceptQuote a' \<in> set (snd s)
       \<Longrightarrow> qa_serviceRequestId a' = 100 \<Longrightarrow> commit n (TxAcceptQuote a') (fst s) = Inl QUOTE_ACCEPT_CONFLICT"
    using acceptance_progress [OF racing_reach, of "fst racingAcceptances" 6] by (auto simp: racingAcceptances_def)
  have "commit 7 (TxAcceptQuote (snd racingAcceptances)) (fst (d', [TxAcceptQuote (snd racingAcceptances)])) = Inl QUOTE_ACCEPT_CONFLICT"
    by (rule d'(2)) (simp_all add: racingAcceptances_def)
  then show ?thesis using d'(1) by auto
qed

text \<open>
  C18.  An approval is recorded.  In any reachable state, when the provider approves a PENDING
  attempt whose engagement has its billing context, with a commission of 0 to 100 percent and a
  price within the column, the service succeeds: the attempt becomes APPROVED and the ledger grows by
  the three entries of the payment.
\<close>

theorem approval_is_recorded:
  assumes "reach (d, ts)" "a \<in> set (paymentAttempts d)" "pa_status a = PaymentAttemptStatus.PENDING"
    and "findByIdWithBillingContext d (pa_engagementId a) = Some b" "res_status res = approved"
    and "readCommissionPercent d = Inr (of_int p)" "0 \<le> p" "p \<le> 100" "0 \<le> pa_amount a" "pa_amount a \<le> 2147483647"
  shows "\<exists>d' a'. applyPaymentResult now prov (pa_id a) res d = Inr (Some a', d')
      \<and> pa_id a' = pa_id a \<and> pa_status a' = PaymentAttemptStatus.APPROVED
      \<and> ledgerEntries d' = ledgerEntries d @ numbered (nextId d) (nextReceipt d)
          (digitalPaymentRows now (attemptParties a b) (pa_amount a) p)"
proof -
  note ok = reach_attemptsOk [OF assms(1)]
  obtain details where plan: "apply_pre prov (pa_id a) res d = Resolve a (Some b) details"
    using approval_plan [OF attempt_found [OF ok assms(2)] assms(3-5)] by blast
  have "rowsFit (digitalPaymentRows now (attemptParties a b) (pa_amount a) p)"
    by (rule digital_fits) (use assms in \<open>simp_all add: int4_def\<close>)
  from approval_tx [OF ok assms(2,3,5,6) this, of details] obtain d' where
    d': "resolve_tx now res a (Some b) details d = Inr d'" "findAttemptById d' (pa_id a) = Some (approvedRow res details a)"
      "ledgerEntries d' = ledgerEntries d @ numbered (nextId d) (nextReceipt d)
          (digitalPaymentRows now (attemptParties a b) (pa_amount a) p)" by blast
  have "applyPaymentResult now prov (pa_id a) res d = Inr (Some (approvedRow res details a), d')"
    using d'(1,2) by (simp add: applyPaymentResult_def apply_tx_def applyResult_def plan)
  then show ?thesis using d'(3) by (intro exI [of _ d'] exI [of _ "approvedRow res details a"]) simp
qed

lemma attempted_reach: "reach (attemptedDb, [])"
  unfolding attemptedDb_def by (rule run_reach [OF demo_reach(2)])

lemma approval_is_recorded_witness:
  "\<exists>d' a'. applyPaymentResult 13 demoProvider (pa_id (hd (paymentAttempts attemptedDb)))
      \<lparr>res_status = approved, res_providerPaymentId = Some ''p1'', res_rejectionReason = None\<rparr> attemptedDb = Inr (Some a', d')
      \<and> pa_status a' = PaymentAttemptStatus.APPROVED \<and> length (ledgerEntries d') = 3"
proof -
  let ?a = "hd (paymentAttempts attemptedDb)"
  let ?b = "the (findByIdWithBillingContext attemptedDb (pa_engagementId ?a))"
  have "?a \<in> set (paymentAttempts attemptedDb) \<and> pa_status ?a = PaymentAttemptStatus.PENDING
      \<and> findByIdWithBillingContext attemptedDb (pa_engagementId ?a) = Some ?b
      \<and> readCommissionPercent attemptedDb = Inr (of_int 10) \<and> 0 \<le> pa_amount ?a \<and> pa_amount ?a \<le> 2147483647
      \<and> length (ledgerEntries attemptedDb) = 0"
    by code_simp
  then show ?thesis
    using approval_is_recorded [OF attempted_reach, of ?a ?b "\<lparr>res_status = approved,
        res_providerPaymentId = Some ''p1'', res_rejectionReason = None\<rparr>" 10 13 demoProvider]
    by (auto simp: rows_defs)
qed


text \<open>
  C19.  Payments fail closed.  While the commission setting is missing or not a number, in any
  reachable state no approval of a pending attempt, no cash commission debt and no cancellation fee
  can be recorded: the service raises the error of the setting, and the transaction leaves the
  attempt and the engagement as they were.
\<close>

theorem unreadable_commission_fails_closed:
  assumes "reach (d, ts)" "readCommissionPercent d = Inl err"
  shows "(\<forall>a\<in>set (paymentAttempts d). pa_status a = PaymentAttemptStatus.PENDING \<longrightarrow> res_status res = approved
        \<longrightarrow> findByIdWithBillingContext d (pa_engagementId a) \<noteq> None
        \<longrightarrow> applyPaymentResult now prov (pa_id a) res d = Inl err)
    \<and> recordCommissionDebt now l price d = Inl err
    \<and> (bc_status b = EngagementStatus.IN_PROGRESS
        \<longrightarrow> (\<exists>e. cancelEngagementByCustomer_tx now i reason b d = Inl e))"
proof (intro conjI ballI impI)
  note ok = reach_attemptsOk [OF assms(1)]
  fix a assume a: "a \<in> set (paymentAttempts d)" "pa_status a = PaymentAttemptStatus.PENDING" "res_status res = approved"
    and "findByIdWithBillingContext d (pa_engagementId a) \<noteq> None"
  then obtain c where c: "findByIdWithBillingContext d (pa_engagementId a) = Some c" by blast
  obtain details where plan: "apply_pre prov (pa_id a) res d = Resolve a (Some c) details"
    using approval_plan [OF attempt_found [OF ok a(1)] a(2) c a(3)] by blast
  have "distinct (map pa_id (paymentAttempts d))" using ok by (simp add: attemptsOk_def)
  then have "countWhere (isPendingAttempt (pa_id a)) (paymentAttempts d) = 1"
    using attempt_resolve.count_1_iff a by blast
  from approval_fails [OF assms(2) this] show "applyPaymentResult now prov (pa_id a) res d = Inl err"
    by (simp add: applyPaymentResult_def apply_tx_def plan)
qed (use record_fails(2) fee_fails assms(2) in blast)+

lemma unreadable_commission_fails_closed_witness:
  "applyPaymentResult 13 demoProvider 107 \<lparr>res_status = approved, res_providerPaymentId = Some ''p1'',
     res_rejectionReason = None\<rparr> (attemptedDb\<lparr>platformSettings := []\<rparr>) = Inl LEDGER_COMMISSION_MISCONFIGURED"
proof -
  let ?d = "attemptedDb\<lparr>platformSettings := []\<rparr>"
  let ?a = "hd (paymentAttempts ?d)"
  have "reach (?d, [])" using reach.Step [OF attempted_reach step.Configure] .
  moreover have "readCommissionPercent ?d = Inl LEDGER_COMMISSION_MISCONFIGURED" by code_simp
  moreover have "?a \<in> set (paymentAttempts ?d) \<and> pa_id ?a = 107 \<and> pa_status ?a = PaymentAttemptStatus.PENDING
      \<and> findByIdWithBillingContext ?d (pa_engagementId ?a) \<noteq> None" by code_simp
  ultimately show ?thesis
    using unreadable_commission_fails_closed [of ?d "[]" LEDGER_COMMISSION_MISCONFIGURED
        "\<lparr>res_status = approved, res_providerPaymentId = Some ''p1'', res_rejectionReason = None\<rparr>" 13 demoProvider]
    by (metis PaymentResolution.select_convs(1))
qed

text \<open>
  C20.  The payment services refine the system.  A card payment, the start of a wallet payment, a
  provider's notification and the customer's own reading of the attempt, which reconciles it, are
  compositions of the system's steps, with every outcome of the provider in between.  Every invariant
  of the reachable states therefore holds after them, also when they raise.
\<close>

theorem payment_services_refine_steps:
  "step\<^sup>*\<^sup>* (d, ts) (snd (payEngagementWithCard now prov u input d), ts)
   \<and> step\<^sup>*\<^sup>* (d, ts) (snd (startEngagementWalletPayment now prov u e d), ts)
   \<and> (\<forall>d'. handleNotification now prov uuidOf dataId topic country d = Inr d' \<longrightarrow> step\<^sup>*\<^sup>* (d, ts) (d', ts))
   \<and> (\<forall>a d'. getMyEngagementPaymentAttempt now prov u e d = Inr (a, d') \<longrightarrow> step\<^sup>*\<^sup>* (d, ts) (d', ts))"
  by (intro conjI allI impI; (rule steps_pay_card steps_pay_wallet | erule steps_notification steps_read))

definition payingProvider :: Provider where
  "payingProvider = demoProvider\<lparr>chargeCard := (\<lambda>c. Charged \<lparr>ccr_providerPaymentId = ''o1'', ccr_status = approved,
      ccr_rejectionReason = None\<rparr>),
     getPaymentByPaymentId := (\<lambda>p c. Snapshot (Some \<lparr>snap_status = approved, snap_rejectionReason = None,
      snap_externalReference = Some ''e'', snap_amount = Some 9000, snap_currency = Some ''ars''\<rparr>))\<rparr>"

lemma payment_services_refine_steps_witness:
  "\<exists>d'. handleNotification 14 payingProvider (\<lambda>_. Some 105) ''77'' (Some ''payment'') AR attemptedDb = Inr d'
     \<and> step\<^sup>*\<^sup>* (attemptedDb, []) (d', []) \<and> map pa_status (paymentAttempts d') = [PaymentAttemptStatus.APPROVED]"
proof -
  let ?r = "handleNotification 14 payingProvider (\<lambda>_. Some 105) ''77'' (Some ''payment'') AR attemptedDb"
  have r: "?r = Inr (projr ?r)" by (rule committed) code_simp
  have "map pa_status (paymentAttempts (projr ?r)) = [PaymentAttemptStatus.APPROVED]" by code_simp
  then show ?thesis
    using r payment_services_refine_steps [THEN conjunct2, THEN conjunct2, THEN conjunct1, rule_format, OF r] by metis
qed





text \<open>
  C22.  Double blind.  A user is shown a review only as its recipient - it was written by the other
  side of an engagement the user is a party of - and only after the user's own side has written one,
  or two weeks after the completion; its comment only when a moderator has approved it.
\<close>

lemma receivedFor_Some:
  assumes "receivedFor now role e rows = Some m"
  shows "\<exists>r\<in>set rows. rm_id m = rv_id r \<and> rv_authorRole r \<noteq> role
     \<and> ((\<exists>own\<in>set rows. rv_authorRole own = role)
        \<or> (\<exists>t. eng_completedAt e = Some t \<and> now - t \<ge> REVIEW_DOUBLE_BLIND_WINDOW_MS))
     \<and> (rm_comment m \<noteq> None \<longrightarrow> rv_commentModerationStatus r = Some ReviewCommentModerationStatus.APPROVED)"
proof -
  obtain r where r: "findRow (\<lambda>r. rv_authorRole r \<noteq> role) rows = Some r"
    using assms by (auto simp: receivedFor_def split: option.splits)
  have mem: "r \<in> set rows" "rv_authorRole r \<noteq> role" using findRow_SomeD [OF r] by auto
  have own: "own \<in> set rows \<and> rv_authorRole own = role" if "findRow (\<lambda>r. rv_authorRole r = role) rows = Some own" for own
    using findRow_SomeD [OF that] by auto
  show ?thesis using assms r
    by (intro bexI [OF _ mem(1)])
      (auto simp: receivedFor_def Let_def mem(2) dest: own split: option.splits if_splits)
qed

lemma in_receivedOn:
  "m \<in> set (receivedOnEngagement now d c p rows i) \<longleftrightarrow> (\<exists>e role. findEngagementById d i = Some e
     \<and> callerRole c p e = Some role \<and> receivedFor now role e (filter (\<lambda>r. rv_engagementId r = i) rows) = Some m)"
proof (cases "findEngagementById d i")
  case (Some e)
  then show ?thesis
    by (cases "callerRole c p e"; cases "receivedFor now (the (callerRole c p e)) e (filter (\<lambda>r. rv_engagementId r = i) rows)")
      (auto simp: receivedOnEngagement_def)
qed (simp add: receivedOnEngagement_def)

theorem received_review_is_unlocked:
  assumes "m \<in> set (listReceived now d u)"
  shows "\<exists>r\<in>set (reviews d). \<exists>e role. rm_id m = rv_id r \<and> findEngagementById d (rv_engagementId r) = Some e
     \<and> isPartyTo d u (rv_engagementId r)
     \<and> callerRole (map_option cp_id (findCustomerProfileByUserId d u)) (map_option pp_id (findProfessionalProfileByUserId d u)) e = Some role
     \<and> rv_authorRole r \<noteq> role
     \<and> ((\<exists>own\<in>set (reviews d). rv_engagementId own = rv_engagementId r \<and> rv_authorRole own = role)
        \<or> (\<exists>t. eng_completedAt e = Some t \<and> now - t \<ge> 14 * 24 * 60 * 60 * 1000))
     \<and> (rm_comment m \<noteq> None \<longrightarrow> rv_commentModerationStatus r = Some ReviewCommentModerationStatus.APPROVED)"
proof -
  let ?c = "map_option cp_id (findCustomerProfileByUserId d u)" and ?p = "map_option pp_id (findProfessionalProfileByUserId d u)"
  let ?rows = "findManyForPartyWithOwnReviews d ?c ?p"
  obtain i where i: "m \<in> set (receivedOnEngagement now d ?c ?p ?rows i)"
    using assms by (auto simp: listReceived_def Let_def split: if_splits)
  then obtain e role where e: "findEngagementById d i = Some e" "callerRole ?c ?p e = Some role"
      "receivedFor now role e (filter (\<lambda>r. rv_engagementId r = i) ?rows) = Some m"
    unfolding in_receivedOn by blast
  obtain r where r: "r \<in> set ?rows" "rv_engagementId r = i" "rm_id m = rv_id r" "rv_authorRole r \<noteq> role"
      "(\<exists>own\<in>set ?rows. rv_engagementId own = i \<and> rv_authorRole own = role)
        \<or> (\<exists>t. eng_completedAt e = Some t \<and> now - t \<ge> REVIEW_DOUBLE_BLIND_WINDOW_MS)"
      "rm_comment m \<noteq> None \<longrightarrow> rv_commentModerationStatus r = Some ReviewCommentModerationStatus.APPROVED"
    using receivedFor_Some [OF e(3)] by auto
  have sub: "set ?rows \<subseteq> set (reviews d)" by (auto simp: findManyForPartyWithOwnReviews_def)
  have "isPartyTo d u i" using e(1,2)
    by (auto simp: isPartyTo_def callerRole_def ownsAsCustomer_def ownsAsProfessional_def split: if_splits option.splits)
  moreover have "(\<exists>own\<in>set (reviews d). rv_engagementId own = rv_engagementId r \<and> rv_authorRole own = role)
        \<or> (\<exists>t. eng_completedAt e = Some t \<and> now - t \<ge> 14 * 24 * 60 * 60 * 1000)"
    using r(2,5) sub unfolding REVIEW_DOUBLE_BLIND_WINDOW_MS_def by blast
  moreover have "r \<in> set (reviews d)" using r(1) sub by blast
  ultimately show ?thesis using r(2,3,4,6) e(1,2)
    by (intro bexI [of _ r] exI [of _ e] exI [of _ role]) blast+
qed

lemma received_review_is_unlocked_witness:
  "listReceived 20 oneSidedDb 2 = [] \<and> (\<exists>r\<in>set (reviews paidDb). rm_id (hd (listReceived 20 paidDb 2)) = rv_id r
      \<and> isPartyTo paidDb 2 (rv_engagementId r))"
proof
  show "listReceived 20 oneSidedDb 2 = []" by code_simp
  have "hd (listReceived 20 paidDb 2) \<in> set (listReceived 20 paidDb 2)" by code_simp
  from received_review_is_unlocked [OF this]
  show "\<exists>r\<in>set (reviews paidDb). rm_id (hd (listReceived 20 paidDb 2)) = rv_id r \<and> isPartyTo paidDb 2 (rv_engagementId r)"
    by blast
qed





section \<open>Categories and matching\<close>

text \<open>
  The search for the descendants of categories.  Although the loop carries a queue that may
  hold a category several times and the rows may even contain a cycle, it ends, visits each category
  once, and its result is exactly the categories reachable over the parent relation.
\<close>

lemma descendants_exact:
  "distinct (findDescendantCategoryIds d ids)
   \<and> set (findDescendantCategoryIds d ids) = {x. \<exists>i\<in>set ids. (i, x) \<in> (parentOf (categories d))\<^sup>*}"
  using bfs_distinct [of "[]" "categories d" ids] bfs_eq_reachable [of "categories d" ids]
  by (simp add: findDescendantCategoryIds_def)

text \<open>
  C25.  The category tree stays a tree.  An administrator's creation, change or deletion of a category,
  run alone, keeps the parent relation without cycles, every parent existing and the ids distinct;
  and a category is only deleted when no child, no service request and no specialization uses it.
\<close>

theorem category_tree_kept:
  assumes "categoriesOk d"
  shows "(\<forall>c d'. createCategory sameName admin name ord parent d = Inr (c, d') \<longrightarrow> categoriesOk d')
    \<and> (\<forall>d'. updateCategory sameName admin i input d = Inr d' \<longrightarrow> categoriesOk d')
    \<and> (\<forall>d'. deleteCategory admin i d = Inr d' \<longrightarrow> categoriesOk d' \<and> serviceRequests d' = serviceRequests d
         \<and> (\<forall>s\<in>set (serviceRequests d). sr_categoryId s \<noteq> i)
         \<and> (\<forall>p\<in>set (professionalProfiles d). i \<notin> set (pp_categoryIds p)))"
proof -
  have used: "(\<forall>s\<in>set (serviceRequests d). sr_categoryId s \<noteq> i)
      \<and> (\<forall>p\<in>set (professionalProfiles d). i \<notin> set (pp_categoryIds p)) \<and> serviceRequests d' = serviceRequests d"
    if "deleteCategory admin i d = Inr d'" for d'
  proof -
    have "countByCategoryId d i = 0" "countSpecializationsByCategoryId d i = 0" "serviceRequests d' = serviceRequests d"
      using that by (auto simp: deleteCategory_def Let_def writeAudit_def split: if_splits)
    then show ?thesis
      by (auto simp: countByCategoryId_def countSpecializationsByCategoryId_def countWhere_0_iff)
  qed
  show ?thesis
    using createCategory_ok updateCategory_ok deleteCategory_ok assms used by blast
qed

lemma category_tree_kept_witness:
  "categoriesOk (projr (updateCategory (=) 9 20 \<lparr>in_name = Some ''gas'', in_displayOrder = None, in_parentId = None\<rparr> demoDb))"
proof -
  let ?r = "updateCategory (=) 9 20 \<lparr>in_name = Some ''gas'', in_displayOrder = None, in_parentId = None\<rparr> demoDb"
  have "categories demoDb = [\<lparr>cat_id = 20, cat_name = ''plumbing'', cat_displayOrder = 0, cat_parentId = None\<rparr>]"
    "nextId demoDb = 100" by (simp_all add: demoDb_def)
  then have "categoriesOk demoDb" by (simp add: categoriesOk_def parentOf_def acyclic_def)
  moreover have "?r = Inr (projr ?r)" by (rule committed) code_simp
  ultimately show ?thesis using category_tree_kept by blast
qed

text \<open>
  C26.  Matching.  The service requests a professional is offered are exactly the OPEN ones whose
  category is one of the professional's specializations or below one, each once, and none without a
  professional profile.
\<close>

theorem compatible_requests_exact:
  assumes "distinct (serviceRequests d)"
  shows "distinct (listCompatibleServiceRequests d u)
    \<and> (\<forall>s. s \<in> set (listCompatibleServiceRequests d u) \<longleftrightarrow>
      (\<exists>p. findProfessionalProfileByUserId d u = Some p \<and> s \<in> set (serviceRequests d)
        \<and> sr_status s = ServiceRequestStatus.OPEN
        \<and> (\<exists>c\<in>set (pp_categoryIds p). (c, sr_categoryId s) \<in> (parentOf (categories d))\<^sup>*)))"
proof
  show "distinct (listCompatibleServiceRequests d u)"
    using assms by (auto simp: listCompatibleServiceRequests_def findManyCompatible_def newestRequests_def Let_def split: option.split)
qed (simp add: in_listCompatible)

lemma compatible_requests_exact_witness:
  "length (listCompatibleServiceRequests quotedDb 2) = 1 \<and> distinct (listCompatibleServiceRequests quotedDb 2)"
proof
  show "length (listCompatibleServiceRequests quotedDb 2) = 1" by code_simp
  have "distinct (serviceRequests quotedDb)" by code_simp
  then show "distinct (listCompatibleServiceRequests quotedDb 2)" by (rule compatible_requests_exact [THEN conjunct1])
qed


section \<open>Payments in detail\<close>

text \<open>
  A notification is not believed.  A provider's notification changes something only if the
  provider itself, asked again, knows the payment, and it belongs to an attempt; an approval only if
  the amount is exactly the attempt's and the currency the same up to case.  Everything else is
  answered without a change.
\<close>

lemma notification_checked:
  assumes "handleNotification now prov uuidOf dataId topic country d = Inr d'" "d' \<noteq> d"
  shows "\<exists>snapshot attempt a'. notificationSnapshot prov dataId topic country = Snapshot (Some snapshot)
    \<and> findAttempt uuidOf d dataId (snap_externalReference snapshot) = Some attempt
    \<and> (snap_status snapshot = approved \<longrightarrow> snap_amount snapshot = Some (of_int (pa_amount attempt))
         \<and> map_option toUpperCase (snap_currency snapshot) = Some (toUpperCase (pa_currency attempt)))
    \<and> applyPaymentResult now prov (pa_id attempt) (resolutionOfSnapshot dataId snapshot) d = Inr (a', d')"
  using assms
  by (auto simp: handleNotification_def andThen_Inr_iff amountMismatch_def
      split: SnapshotOutcome.splits option.splits if_splits)

definition cheatingProvider :: Provider where
  "cheatingProvider = payingProvider\<lparr>getPaymentByPaymentId := (\<lambda>p c. Snapshot (Some \<lparr>snap_status = approved,
      snap_rejectionReason = None, snap_externalReference = Some ''e'', snap_amount = Some 90, snap_currency = Some ''ARS''\<rparr>))\<rparr>"

lemma notification_checked_witness:
  "handleNotification 14 cheatingProvider (\<lambda>_. Some 105) ''77'' (Some ''payment'') AR attemptedDb = Inr attemptedDb"
proof -
  let ?r = "handleNotification 14 cheatingProvider (\<lambda>_. Some 105) ''77'' (Some ''payment'') AR attemptedDb"
  have r: "?r = Inr (projr ?r)" by (rule committed) code_simp
  have n: "notificationSnapshot cheatingProvider ''77'' (Some ''payment'') AR = Snapshot (Some \<lparr>snap_status = approved,
      snap_rejectionReason = None, snap_externalReference = Some ''e'', snap_amount = Some 90, snap_currency = Some ''ARS''\<rparr>)"
    by code_simp
  have a: "map_option pa_amount (findAttempt (\<lambda>_. Some 105) attemptedDb ''77'' (Some ''e'')) = Some 9000" by code_simp
  have "projr ?r = attemptedDb"
  proof (rule ccontr)
    assume ne: "projr ?r \<noteq> attemptedDb"
    from notification_checked [OF r ne] n a show False by auto
  qed
  then show ?thesis using r by metis
qed

text \<open>
  Cash needs both sides.  A confirmation of a cash payment writes to the ledger only if the
  engagement has a PENDING cash attempt that the other side has already confirmed; whoever confirms
  first, or twice, records nothing.
\<close>

lemma stamp_both:
  "pa_customerConfirmedAt (stampConfirmation now role a) \<noteq> None \<Longrightarrow> pa_professionalConfirmedAt (stampConfirmation now role a) \<noteq> None
   \<Longrightarrow> (case role of CashPaymentParty.CUSTOMER \<Rightarrow> pa_professionalConfirmedAt a \<noteq> None
         | CashPaymentParty.PROFESSIONAL \<Rightarrow> pa_customerConfirmedAt a \<noteq> None)"
  by (cases role) (simp_all add: stampConfirmation_def)

lemma stamp_status [simp]: "pa_status (stampConfirmation now role a) = pa_status a"
  by (cases role) (simp_all add: stampConfirmation_def)

lemma cash_needs_both:
  assumes "commit now (TxCash c) d = Inr d'" "attemptsOk d" "ledgerEntries d' \<noteq> ledgerEntries d"
  shows "\<exists>a\<in>set (paymentAttempts d). pa_engagementId a = eng_id (cash_engagement c)
    \<and> pa_method a = PaymentMethod.CASH \<and> pa_status a = PaymentAttemptStatus.PENDING
    \<and> (case cash_role c of CashPaymentParty.CUSTOMER \<Rightarrow> pa_professionalConfirmedAt a \<noteq> None
         | CashPaymentParty.PROFESSIONAL \<Rightarrow> pa_customerConfirmedAt a \<noteq> None)"
proof -
  let ?e = "eng_id (cash_engagement c)"
  obtain row where tx: "confirmCashPayment_tx now c d = Inr (row, d')"
    using assms(1) by (auto simp: mapR_Inr_iff)
  obtain a where a: "findActiveByEngagementId d ?e = Some a"
    using assms(3) by (cases rule: cash_effect [OF tx assms(2)]) (auto simp: insertAttempt_def stampCash_def)
  have mem: "a \<in> set (paymentAttempts d)" "isActiveAttempt ?e a"
    using a findRow_SomeD unfolding findActiveByEngagementId_def by metis+
  let ?row = "stampConfirmation now (cash_role c) a" and ?d1 = "stampCash now c (setCash c d)"
  have cash: "pa_method a = PaymentMethod.CASH"
    using tx a by (auto simp: confirmCashPayment_tx_def upsert_eq setCash_def [symmetric] case_prod_beta Let_def split: if_splits)
  have "ledgerEntries ?d1 = ledgerEntries d" by (simp add: stampCash_def)
  then have "pa_customerConfirmedAt ?row \<noteq> None \<and> pa_professionalConfirmedAt ?row \<noteq> None \<and> pa_status a = PaymentAttemptStatus.PENDING"
    using tx a cash assms(3)
    by (auto simp: confirmCashPayment_tx_def upsert_eq setCash_def [symmetric] case_prod_beta Let_def split: if_splits)
  then show ?thesis using mem cash stamp_both [of now "cash_role c" a]
    by (intro bexI [OF _ mem(1)]) (simp add: isActiveAttempt_def)
qed

lemma cash_needs_both_witness:
  "ledgerEntries cashDb = [] \<and> (\<exists>a\<in>set (paymentAttempts cashDb). pa_customerConfirmedAt a \<noteq> None)"
proof
  let ?c = "projr (confirmCashPayment_pre cashDb 2 105)"
  let ?r = "commit 14 (TxCash ?c) cashDb"
  show "ledgerEntries cashDb = []" by code_simp
  have "reach (cashDb, [])" unfolding cashDb_def by (rule run_reach [OF demo_reach(2)])
  then have ok: "attemptsOk cashDb" by (rule reach_attemptsOk)
  have r: "?r = Inr (projr ?r)" by (rule committed) code_simp
  have ne: "ledgerEntries (projr ?r) \<noteq> ledgerEntries cashDb" by code_simp
  have role: "cash_role ?c = CashPaymentParty.PROFESSIONAL" by code_simp
  from cash_needs_both [OF r ok ne] role show "\<exists>a\<in>set (paymentAttempts cashDb). pa_customerConfirmedAt a \<noteq> None"
    by auto
qed


text \<open>
  C29.  What a customer's cancellation costs.  A cancellation that runs undisturbed cancels the
  customer's own active engagement with its reason; before the work has started it costs nothing, and
  once the work is IN_PROGRESS it records the fee - the commission percentage of the agreed price -
  and its split, once.
\<close>

theorem customer_cancellation:
  assumes "reach (d, ts)" "cancelEngagementByCustomer now u i reason d = Inr d'"
  shows "\<exists>e b. findEngagementById d i = Some e \<and> ownsAsCustomer d u e
    \<and> findByIdWithBillingContext d i = Some b
    \<and> findEngagementById d' i = Some (cancelWork now reason e)
    \<and> (eng_status e = EngagementStatus.ACCEPTED \<and> ledgerEntries d' = ledgerEntries d
      \<or> eng_status e = EngagementStatus.IN_PROGRESS
        \<and> (\<exists>p k. readCommissionPercent d = Inr (of_int p) \<and> ledgerEntries d' = ledgerEntries d
             @ numbered k (nextReceipt d) (cancellationChargeRows now (ledgerPartiesOf i b) (bc_quotedPrice b) p)))"
proof -
  let ?S = "{EngagementStatus.ACCEPTED, EngagementStatus.IN_PROGRESS}"
  obtain b where b: "cancelEngagementByCustomer_pre d u i = Inr b" "cancelEngagementByCustomer_tx now i reason b d = Inr d'"
    using assms(2) by (auto simp: cancelEngagementByCustomer_def andThen_Inr_iff)
  obtain c where c: "findByIdWithBillingContext d i = Some b" "findCustomerProfileByUserId d u = Some c"
      "bc_customerProfileId b = cp_id c" "bc_status b \<in> ?S"
    using b(1) by (auto simp: cancelEngagementByCustomer_pre_def split: option.splits if_splits)
  obtain e where e: "findEngagementById d i = Some e" "eng_status e = bc_status b" "eng_customerProfileId e = cp_id c"
    using c(1,3) by (auto simp: findByIdWithBillingContext_def split: option.splits)
  obtain rows where tr: "transition ?S (cancelWork now reason) i rows d d'"
    and rows: "if bc_status b = EngagementStatus.IN_PROGRESS
        then \<exists>p. readCommissionPercent d = Inr (of_int p) \<and> rows = cancellationChargeRows now (ledgerPartiesOf i b) (bc_quotedPrice b) p
        else rows = []"
    using cancelByCustomer_effect [OF b(2)] by blast
  obtain k where led: "ledgerEntries d' = ledgerEntries d @ numbered k (nextReceipt d) rows"
    using posts_transition [OF tr] by (auto simp: posts_def)
  have dist: "distinct (map eng_id (engagements d))"
    using keys.holds [OF assms(1)] by (simp add: keysOk_def keyed_def)
  have mem: "e \<in> set (engagements d)" "eng_id e = i" using findEngagementById_SomeD [OF e(1)] by auto
  have "findEngagementById d' i = Some (cancelWork now reason e)"
    unfolding findEngagementById_def transition_fields(14) [OF tr] inStatus_def
    by (rule cancel_work.changed_row [OF dist mem]) (use c(4) e(2) in simp)
  moreover have "eng_status e = EngagementStatus.ACCEPTED \<and> ledgerEntries d' = ledgerEntries d
      \<or> eng_status e = EngagementStatus.IN_PROGRESS
        \<and> (\<exists>p k. readCommissionPercent d = Inr (of_int p) \<and> ledgerEntries d' = ledgerEntries d
             @ numbered k (nextReceipt d) (cancellationChargeRows now (ledgerPartiesOf i b) (bc_quotedPrice b) p))"
    using rows led c(4) e(2) by (cases "bc_status b = EngagementStatus.IN_PROGRESS") auto
  moreover have "ownsAsCustomer d u e" using c(2) e(3) by (simp add: ownsAsCustomer_def)
  ultimately show ?thesis using e(1) c(1) by blast
qed

lemma customer_cancellation_witness:
  "(\<exists>p k b. ledgerEntries cancelledDb = ledgerEntries startedDb
       @ numbered k (nextReceipt startedDb) (cancellationChargeRows 10 (ledgerPartiesOf 105 b) (bc_quotedPrice b) p))
   \<and> map le_amount (ledgerEntries cancelledDb) = [- 900, 90, 810]"
proof
  have r: "cancelEngagementByCustomer 10 1 105 ''sick'' startedDb = Inr (projr (cancelEngagementByCustomer 10 1 105 ''sick'' startedDb))"
    by (rule committed) code_simp
  have led: "ledgerEntries (projr (cancelEngagementByCustomer 10 1 105 ''sick'' startedDb)) = ledgerEntries cancelledDb" by code_simp
  have ne: "ledgerEntries cancelledDb \<noteq> ledgerEntries startedDb" by code_simp
  show "\<exists>p k b. ledgerEntries cancelledDb = ledgerEntries startedDb
       @ numbered k (nextReceipt startedDb) (cancellationChargeRows 10 (ledgerPartiesOf 105 b) (bc_quotedPrice b) p)"
    using customer_cancellation [OF demo_reach(2) r] led ne by auto
  show "map le_amount (ledgerEntries cancelledDb) = [- 900, 90, 810]" by code_simp
qed


section \<open>What the code does not guarantee\<close>

text \<open>
  A fee can be avoided by a race.  The status that decides on the fee is read before
  the transaction.  A cancellation checked while the engagement was ACCEPTED and committed after the
  professional started the work cancels an engagement IN_PROGRESS without any fee.
\<close>

lemma cancellation_race_avoids_fee:
  "\<exists>t d. begin_request 8 demoProvider (CancelByCustomer 1 105 ''sick'') bookedDb = Inr t
     \<and> reach (startedDb, [t]) \<and> commit 10 t startedDb = Inr d
     \<and> map eng_status (engagements startedDb) = [EngagementStatus.IN_PROGRESS]
     \<and> map eng_status (engagements d) = [EngagementStatus.CANCELLED] \<and> ledgerEntries d = []"
proof -
  let ?b = "begin_request 8 demoProvider (CancelByCustomer 1 105 ''sick'') bookedDb"
  let ?c = "commit 10 (projr ?b) startedDb"
  have b: "?b = Inr (projr ?b)" and c: "?c = Inr (projr ?c)" by (rule committed, code_simp)+
  have booked: "reach (bookedDb, [])" unfolding bookedDb_def by (rule run_reach [OF demo_reach(1)])
  have "workScript = take 2 workScript @ drop 2 workScript" by simp
  then have st: "run demoProvider (drop 2 workScript) bookedDb = startedDb"
    unfolding startedDb_def bookedDb_def by (metis run_append)
  have "reach (startedDb, [projr ?b])"
    by (rule run_reach [OF reach.Step [OF booked step.Begin [OF b]], of demoProvider "drop 2 workScript", unfolded st])
  moreover have "map eng_status (engagements startedDb) = [EngagementStatus.IN_PROGRESS]" by code_simp
  moreover have "map eng_status (engagements (projr ?c)) = [EngagementStatus.CANCELLED] \<and> ledgerEntries (projr ?c) = []" by code_simp
  ultimately show ?thesis using b c by metis
qed

text \<open>
  A provider can approve a cash attempt.  The fallback that matches a notification to
  a pending attempt without a provider id does not look at the attempt's method, so a provider's
  payment with the engagement's reference, its amount and its currency approves a CASH attempt that
  only one side has confirmed, and books it as a digital payment.
\<close>

lemma notification_approves_cash_attempt:
  "\<exists>d. handleNotification 14 payingProvider (\<lambda>_. Some 105) ''77'' (Some ''payment'') AR cashDb = Inr d
     \<and> map (\<lambda>a. (pa_method a, pa_status a, pa_professionalConfirmedAt a)) (paymentAttempts d)
         = [(PaymentMethod.CASH, PaymentAttemptStatus.APPROVED, None)]
     \<and> map le_type (ledgerEntries d) = [CUSTOMER_CHARGE, PLATFORM_COMMISSION, PROFESSIONAL_NET_CREDIT]"
proof (intro exI conjI)
  let ?r = "handleNotification 14 payingProvider (\<lambda>_. Some 105) ''77'' (Some ''payment'') AR cashDb"
  show "?r = Inr (projr ?r)" by (rule committed) code_simp
  show "map (\<lambda>a. (pa_method a, pa_status a, pa_professionalConfirmedAt a)) (paymentAttempts (projr ?r))
         = [(PaymentMethod.CASH, PaymentAttemptStatus.APPROVED, None)]" by code_simp
  show "map le_type (ledgerEntries (projr ?r)) = [CUSTOMER_CHARGE, PLATFORM_COMMISSION, PROFESSIONAL_NET_CREDIT]"
    by code_simp
qed

text \<open>
  An engagement can have two financial events.  A payment is possible as soon as the
  work is IN_PROGRESS and does not prevent the cancellation, so an engagement can be paid in full and
  then cancelled with a fee; the classification, which expects one event, reports the later one.
\<close>

lemma paid_and_fined:
  "\<exists>d. reach (d, []) \<and> ledgerCount CUSTOMER_CHARGE 105 d = 1 \<and> ledgerCount CUSTOMER_CANCELLATION_FEE 105 d = 1
     \<and> ev_eventType (classifyLedgerEventRows (selectMostRecentLedgerEventRows (findManyByEngagementId d 105)) 9000) = CUSTOMER_CANCELLATION
     \<and> sumProfessionalBalance d 12 = 8100 + 810"
proof -
  let ?s = "drop 2 payScript"
  let ?d = "run demoProvider [(12, OpenWalletAttempt 1 105),
     (13, ApplyProviderResult 107 \<lparr>res_status = approved, res_providerPaymentId = Some ''p1'', res_rejectionReason = None\<rparr>),
     (14, CancelByCustomer 1 105 ''sick'')] startedDb"
  have "reach (?d, [])" by (rule run_reach [OF demo_reach(2)])
  moreover have "ledgerCount CUSTOMER_CHARGE 105 ?d = 1 \<and> ledgerCount CUSTOMER_CANCELLATION_FEE 105 ?d = 1
     \<and> ev_eventType (classifyLedgerEventRows (selectMostRecentLedgerEventRows (findManyByEngagementId ?d 105)) 9000) = CUSTOMER_CANCELLATION
     \<and> sumProfessionalBalance ?d 12 = 8100 + 810" by code_simp
  ultimately show ?thesis by blast
qed

text \<open>
  The price can change after the hire.  Accepting a price proposal sets the negotiated
  price without looking at the quote's status, and an acceptance of the quote only looks for pending
  proposals before its transaction: a proposal posted in between and accepted afterwards changes the
  price of an engagement that already exists.
\<close>

definition negotiationRace :: "inflight \<times> inflight \<times> db" where
  "negotiationRace =
     (let t1 = projr (begin_request 4 demoProvider (AcceptQuote 1 101) quotedDb);
          d1 = run demoProvider [(5, PostNegotiation 1 101 \<lparr>pm_message = ''less'', pm_proposedPrice = Some 1000,
                 pm_mediaUploadRefId = None\<rparr>)] quotedDb;
          t2 = projr (begin_request 6 demoProvider (AcceptProposal 2 104) d1)
      in (t1, t2, d1))"

lemma price_changes_after_hire:
  "let (t1, t2, d1) = negotiationRace; d2 = projr (commit 7 t1 d1); d3 = projr (commit 8 t2 d2) in
     reach (d1, [t2, t1]) \<and> reach (d2, [t2]) \<and> reach (d3, [])
     \<and> map (\<lambda>q. (q_status q, quotedPriceOf q)) (filter (\<lambda>q. q_id q = 101) (quotes d2)) = [(QuoteStatus.ACCEPTED, 10000)]
     \<and> map (\<lambda>q. (q_status q, quotedPriceOf q)) (filter (\<lambda>q. q_id q = 101) (quotes d3)) = [(QuoteStatus.ACCEPTED, 1000)]"
proof -
  let ?t1 = "projr (begin_request 4 demoProvider (AcceptQuote 1 101) quotedDb)"
  let ?d1 = "run demoProvider [(5, PostNegotiation 1 101 \<lparr>pm_message = ''less'', pm_proposedPrice = Some 1000,
      pm_mediaUploadRefId = None\<rparr>)] quotedDb"
  let ?t2 = "projr (begin_request 6 demoProvider (AcceptProposal 2 104) ?d1)"
  let ?d2 = "projr (commit 7 ?t1 ?d1)" and ?d3 = "projr (commit 8 ?t2 (projr (commit 7 ?t1 ?d1)))"
  have b1: "begin_request 4 demoProvider (AcceptQuote 1 101) quotedDb = Inr ?t1"
    and b2: "begin_request 6 demoProvider (AcceptProposal 2 104) ?d1 = Inr ?t2"
    and c1: "commit 7 ?t1 ?d1 = Inr ?d2" and c2: "commit 8 ?t2 ?d2 = Inr ?d3"
    by (rule committed, code_simp)+
  have "reach (quotedDb, [])" unfolding quotedDb_def by (rule run_reach [OF demo_initial])
  from run_reach [OF reach.Step [OF this step.Begin [OF b1]]] have "reach (?d1, [?t1])" .
  from reach.Step [OF this step.Begin [OF b2]] have r1: "reach (?d1, [?t2, ?t1])" .
  have "?t1 \<noteq> ?t2" by code_simp
  then have r2: "reach (?d2, [?t2])" using reach.Step [OF r1 step.Commit [OF _ c1]] by simp
  then have r3: "reach (?d3, [])" using reach.Step [OF r2 step.Commit [OF _ c2]] by simp
  have "map (\<lambda>q. (q_status q, quotedPriceOf q)) (filter (\<lambda>q. q_id q = 101) (quotes ?d2)) = [(QuoteStatus.ACCEPTED, 10000)]"
    "map (\<lambda>q. (q_status q, quotedPriceOf q)) (filter (\<lambda>q. q_id q = 101) (quotes ?d3)) = [(QuoteStatus.ACCEPTED, 1000)]"
    by code_simp+
  with r1 r2 r3 show ?thesis unfolding negotiationRace_def Let_def by (simp del: run.simps)
qed

end
